(* ===== verification/Prelude.thy ===== *)
theory Prelude
  imports Main "HOL-Library.State_Monad" "HOL-Library.Word" "HOL-Library.Mapping" "HOL-Library.AList"
begin

text \<open>
  The shared base of the development: the lemma collections, the state monad
  used for code that mutates state (with a weakest-precondition calculus and an
  invariant-preservation calculus over it), loops over slices, Go integers and
  the decimal formatting of \<^verbatim>\<open>fmt.Sprintf("%d")\<close>.
\<close>

named_theorems wp_simps \<open>weakest preconditions of the monadic building blocks\<close>
named_theorems keeps_intro \<open>introduction rules for preservation of a state predicate\<close>

unbundle bit_operations_syntax

section \<open>Machine integers and time\<close>

type_synonym int64 = int
type_synonym uint64 = "64 word"
type_synonym perms = "64 word"

text \<open>Instants and durations are counted in nanoseconds, as Go's \<^verbatim>\<open>time\<close> package does.\<close>

type_synonym time = int
type_synonym duration = int

definition Second :: duration where
  "Second = 1000000000"

definition Minute :: duration where
  "Minute = 60 * Second"

lemma Second_pos [simp]: "0 < Second"
  by (simp add: Second_def)

lemma Minute_pos [simp]: "0 < Minute"
  by (simp add: Minute_def)

text \<open>The value of an \<^verbatim>\<open>int64\<close> expression whose mathematical value is \<open>x\<close>.\<close>

definition wrap64 :: "int \<Rightarrow> int" where
  "wrap64 x = (x + 2 ^ 63) mod 2 ^ 64 - 2 ^ 63"

lemma wrap64_id: "- (2 ^ 63) \<le> x \<Longrightarrow> x < 2 ^ 63 \<Longrightarrow> wrap64 x = x"
  by (simp add: wrap64_def)

lemma wrap64_range: "- (2 ^ 63) \<le> wrap64 x \<and> wrap64 x < 2 ^ 63"
proof -
  have "0 \<le> (x + 2 ^ 63) mod 2 ^ 64" and "(x + 2 ^ 63) mod 2 ^ 64 < 2 ^ 64"
    by simp_all
  then show ?thesis by (simp add: wrap64_def)
qed

section \<open>Decimal text\<close>

fun dec :: "nat \<Rightarrow> string" where
  "dec n = (if n < 10 then [char_of (48 + n)] else dec (n div 10) @ [char_of (48 + n mod 10)])"

declare dec.simps [simp del]

definition itoa :: "int \<Rightarrow> string" where
  "itoa i = (if i < 0 then CHR ''-'' # dec (nat (- i)) else dec (nat i))"

definition is_digit :: "char \<Rightarrow> bool" where
  "is_digit c = (48 \<le> (of_char c :: nat) \<and> (of_char c :: nat) \<le> 57)"

definition digit_val :: "char \<Rightarrow> nat" where
  "digit_val c = of_char c - 48"

definition undec :: "string \<Rightarrow> nat" where
  "undec s = foldl (\<lambda>n c. 10 * n + digit_val c) 0 s"

lemma undec_snoc [simp]: "undec (s @ [c]) = 10 * undec s + digit_val c"
  by (simp add: undec_def)

lemma undec_Nil [simp]: "undec [] = 0"
  by (simp add: undec_def)

lemma digit_val_char [simp]: "(d :: nat) < 10 \<Longrightarrow> digit_val (char_of (48 + d)) = d"
  by (simp add: digit_val_def)

lemma is_digit_char [simp]: "(d :: nat) < 10 \<Longrightarrow> is_digit (char_of (48 + d))"
  by (simp add: is_digit_def)

lemma dec_digits: "\<forall>c \<in> set (dec n). is_digit c"
proof (induction n rule: dec.induct)
  case (1 n)
  then show ?case by (subst dec.simps) auto
qed

lemma dec_nonempty [simp]: "dec n \<noteq> []"
  by (subst dec.simps) simp

lemma undec_dec [simp]: "undec (dec n) = n"
proof (induction n rule: dec.induct)
  case (1 n)
  show ?case
  proof (cases "n < 10")
    case True
    then show ?thesis
      using undec_snoc [of "[]" "char_of (48 + n)"] by (simp add: dec.simps [of n])
  next
    case False
    with 1 show ?thesis by (simp add: dec.simps [of n])
  qed
qed

lemma dec_inj: "dec m = dec n \<longleftrightarrow> m = n"
  by (metis undec_dec)

lemma itoa_inj: "itoa i = itoa j \<longleftrightarrow> i = j"
proof
  assume eq: "itoa i = itoa j"
  have nodash: "dec n \<noteq> CHR ''-'' # s" for n s
  proof
    assume "dec n = CHR ''-'' # s"
    then have "CHR ''-'' \<in> set (dec n)" by simp
    then have "is_digit (CHR ''-'')" using dec_digits by blast
    then show False by (simp add: is_digit_def)
  qed
  from eq nodash show "i = j"
    by (auto simp: itoa_def dec_inj split: if_splits) (metis nodash)
qed simp

lemma itoa_chars: "c \<in> set (itoa i) \<Longrightarrow> c = CHR ''-'' \<or> is_digit c"
  using dec_digits by (auto simp: itoa_def split: if_splits)

lemma itoa_no_colon [simp]: "CHR '':'' \<notin> set (itoa i)"
  using itoa_chars by (force simp: is_digit_def)

section \<open>Hexadecimal text and ASCII case\<close>

definition hex_digit :: "nat \<Rightarrow> char" where
  "hex_digit d = (if d < 10 then char_of (48 + d) else char_of (87 + d))"

text \<open>\<^verbatim>\<open>hex.EncodeToString\<close> of a byte string.\<close>

definition hexEncode :: "string \<Rightarrow> string" where
  "hexEncode bs = concat (map (\<lambda>b. [hex_digit (of_char b div 16), hex_digit (of_char b mod 16)]) bs)"

lemma length_hexEncode [simp]: "length (hexEncode bs) = 2 * length bs"
  by (induction bs) (simp_all add: hexEncode_def)

lemma hex_digit_inj: "c < 16 \<Longrightarrow> d < 16 \<Longrightarrow> hex_digit c = hex_digit d \<longleftrightarrow> c = d"
proof
  assume "c < 16" and "d < 16" and "hex_digit c = hex_digit d"
  then have "(of_char (hex_digit c) :: nat) = of_char (hex_digit d)"
    by simp
  with \<open>c < 16\<close> \<open>d < 16\<close> show "c = d"
    by (simp add: hex_digit_def split: if_splits)
qed simp

lemma hexEncode_inj: "hexEncode xs = hexEncode ys \<longleftrightarrow> xs = ys"
proof
  show "hexEncode xs = hexEncode ys \<Longrightarrow> xs = ys"
  proof (induction xs arbitrary: ys)
    case Nil
    then show ?case by (cases ys) (simp_all add: hexEncode_def)
  next
    case (Cons x xs)
    then obtain y zs where ys: "ys = y # zs"
      by (cases ys) (simp_all add: hexEncode_def)
    have bounds: "(of_char c :: nat) div 16 < 16" "(of_char c :: nat) mod 16 < 16" for c :: char
      using nat_of_char_less_256 [of c] by linarith+
    from Cons.prems ys have "hexEncode xs = hexEncode zs"
      and "hex_digit (of_char x div 16) = hex_digit (of_char y div 16)"
      and "hex_digit (of_char x mod 16) = hex_digit (of_char y mod 16)"
      by (simp_all add: hexEncode_def)
    with bounds have "xs = zs" and "(of_char x :: nat) div 16 = of_char y div 16"
      and "(of_char x :: nat) mod 16 = of_char y mod 16"
      using Cons.IH by (simp_all add: hex_digit_inj)
    then have "(of_char x :: nat) = of_char y"
      by (metis div_mult_mod_eq)
    with ys \<open>xs = zs\<close> show ?case by simp
  qed
qed simp

text \<open>SQLite's \<^verbatim>\<open>LOWER\<close> and \<^verbatim>\<open>NOCASE\<close> fold the 26 ASCII letters.\<close>

definition ascii_lower :: "char \<Rightarrow> char" where
  "ascii_lower c = (let n = of_char c :: nat in if 65 \<le> n \<and> n \<le> 90 then char_of (n + 32) else c)"

definition nocase :: "string \<Rightarrow> string" where
  "nocase = map ascii_lower"

section \<open>The state monad\<close>

abbreviation return :: "'a \<Rightarrow> ('s, 'a) state" where
  "return \<equiv> State_Monad.return"

abbreviation get :: "('s, 's) state" where
  "get \<equiv> State_Monad.get"

definition gets :: "('s \<Rightarrow> 'a) \<Rightarrow> ('s, 'a) state" where
  "gets f = State (\<lambda>s. (f s, s))"

definition modify :: "('s \<Rightarrow> 's) \<Rightarrow> ('s, unit) state" where
  "modify f = State (\<lambda>s. ((), f s))"

lemma run_gets [simp]: "run_state (gets f) s = (f s, s)"
  by (simp add: gets_def)

lemma run_modify [simp]: "run_state (modify f) s = ((), f s)"
  by (simp add: modify_def)

text \<open>A \<^verbatim>\<open>for _, x := range xs\<close> loop over a slice, its body a computation.\<close>

primrec for_each :: "'a list \<Rightarrow> ('a \<Rightarrow> ('s, unit) state) \<Rightarrow> ('s, unit) state" where
  "for_each [] f = return ()"
| "for_each (x # xs) f = State_Monad.bind (f x) (\<lambda>_. for_each xs f)"

subsection \<open>Weakest preconditions\<close>

definition wp :: "('s, 'a) state \<Rightarrow> ('a \<Rightarrow> 's \<Rightarrow> bool) \<Rightarrow> 's \<Rightarrow> bool" where
  "wp m Q s = (case run_state m s of (x, s') \<Rightarrow> Q x s')"

lemma wp_return [wp_simps]: "wp (return x) Q = Q x"
  by (rule ext) (simp add: wp_def)

lemma wp_bind [wp_simps]: "wp (State_Monad.bind m f) Q = wp m (\<lambda>x. wp (f x) Q)"
  by (rule ext) (simp add: wp_def split: prod.splits)

lemma wp_get [wp_simps]: "wp get Q = (\<lambda>s. Q s s)"
  by (rule ext) (simp add: wp_def)

lemma wp_gets [wp_simps]: "wp (gets f) Q = (\<lambda>s. Q (f s) s)"
  by (rule ext) (simp add: wp_def)

lemma wp_modify [wp_simps]: "wp (modify f) Q = (\<lambda>s. Q () (f s))"
  by (rule ext) (simp add: wp_def)

lemma wp_if [wp_simps]: "wp (if b then m else n) Q = (if b then wp m Q else wp n Q)"
  by simp

lemma wp_case_option [wp_simps]:
  "wp (case v of None \<Rightarrow> m | Some x \<Rightarrow> f x) Q = (case v of None \<Rightarrow> wp m Q | Some x \<Rightarrow> wp (f x) Q)"
  by (simp split: option.splits)

lemma wp_case_sum [wp_simps]:
  "wp (case v of Inl e \<Rightarrow> f e | Inr x \<Rightarrow> g x) Q = (case v of Inl e \<Rightarrow> wp (f e) Q | Inr x \<Rightarrow> wp (g x) Q)"
  by (simp split: sum.splits)

lemma wp_case_prod [wp_simps]:
  "wp (case v of (a, b) \<Rightarrow> f a b) Q = (case v of (a, b) \<Rightarrow> wp (f a b) Q)"
  by (simp split: prod.splits)

lemma wp_let [wp_simps]: "wp (let x = v in f x) Q = (let x = v in wp (f x) Q)"
  by simp

lemma wp_mono: "wp m Q s \<Longrightarrow> (\<And>x s'. Q x s' \<Longrightarrow> R x s') \<Longrightarrow> wp m R s"
  by (auto simp: wp_def split: prod.splits)

lemma wp_cong: "(\<And>x s'. Q x s' = R x s') \<Longrightarrow> wp m Q s = wp m R s"
  by (simp add: wp_def split: prod.splits)

lemma wp_conj: "wp m Q s \<Longrightarrow> wp m R s \<Longrightarrow> wp m (\<lambda>x s'. Q x s' \<and> R x s') s"
  by (auto simp: wp_def split: prod.splits)

lemma wp_run: "wp m Q s \<longleftrightarrow> Q (fst (run_state m s)) (snd (run_state m s))"
  by (simp add: wp_def split: prod.splits)

subsection \<open>Preservation of a state predicate\<close>

definition keeps :: "('s \<Rightarrow> bool) \<Rightarrow> ('s, 'a) state \<Rightarrow> bool" where
  "keeps P m \<longleftrightarrow> (\<forall>s. P s \<longrightarrow> P (snd (run_state m s)))"

lemma keepsI: "(\<And>s. P s \<Longrightarrow> P (snd (run_state m s))) \<Longrightarrow> keeps P m"
  by (simp add: keeps_def)

lemma keepsD: "keeps P m \<Longrightarrow> P s \<Longrightarrow> P (snd (run_state m s))"
  by (simp add: keeps_def)

lemma wp_seq: "wp m A s \<Longrightarrow> (\<And>r s'. A r s' \<Longrightarrow> wp (f r) Q s') \<Longrightarrow> wp (State_Monad.bind m f) Q s"
  unfolding wp_bind by (rule wp_mono)

lemma keeps_wp: "keeps P m \<Longrightarrow> P s \<Longrightarrow> wp m (\<lambda>_. P) s"
  by (simp add: keeps_def wp_run)

lemma keeps_return [keeps_intro]: "keeps P (return x)"
  by (simp add: keeps_def)

lemma keeps_bind [keeps_intro]:
  "keeps P m \<Longrightarrow> (\<And>x. keeps P (f x)) \<Longrightarrow> keeps P (State_Monad.bind m f)"
  by (simp add: keeps_def split: prod.splits) (metis snd_conv)

lemma keeps_get [keeps_intro]: "keeps P get"
  by (simp add: keeps_def)

lemma keeps_gets [keeps_intro]: "keeps P (gets f)"
  by (simp add: keeps_def)

lemma keeps_modify: "(\<And>s. P s \<Longrightarrow> P (f s)) \<Longrightarrow> keeps P (modify f)"
  by (simp add: keeps_def)

lemma keeps_if [keeps_intro]: "(b \<Longrightarrow> keeps P m) \<Longrightarrow> (\<not> b \<Longrightarrow> keeps P n) \<Longrightarrow> keeps P (if b then m else n)"
  by simp

lemma keeps_case_option [keeps_intro]:
  "(v = None \<Longrightarrow> keeps P m) \<Longrightarrow> (\<And>x. v = Some x \<Longrightarrow> keeps P (f x)) \<Longrightarrow>
   keeps P (case v of None \<Rightarrow> m | Some x \<Rightarrow> f x)"
  by (simp split: option.splits)

lemma keeps_case_sum [keeps_intro]:
  "(\<And>e. v = Inl e \<Longrightarrow> keeps P (f e)) \<Longrightarrow> (\<And>x. v = Inr x \<Longrightarrow> keeps P (g x)) \<Longrightarrow>
   keeps P (case v of Inl e \<Rightarrow> f e | Inr x \<Rightarrow> g x)"
  by (simp split: sum.splits)

lemma keeps_case_prod [keeps_intro]:
  "(\<And>a b. v = (a, b) \<Longrightarrow> keeps P (f a b)) \<Longrightarrow> keeps P (case v of (a, b) \<Rightarrow> f a b)"
  by (simp split: prod.splits)

lemma keeps_case_list [keeps_intro]:
  "(v = [] \<Longrightarrow> keeps P m) \<Longrightarrow> (\<And>x xs. v = x # xs \<Longrightarrow> keeps P (f x xs)) \<Longrightarrow>
   keeps P (case v of [] \<Rightarrow> m | x # xs \<Rightarrow> f x xs)"
  by (simp split: list.splits)

lemma keeps_let [keeps_intro]: "(\<And>x. x = v \<Longrightarrow> keeps P (f x)) \<Longrightarrow> keeps P (let x = v in f x)"
  by simp

lemma keeps_for_each [keeps_intro]:
  "(\<And>x. x \<in> set xs \<Longrightarrow> keeps P (f x)) \<Longrightarrow> keeps P (for_each xs f)"
  by (induction xs) (auto intro!: keeps_return keeps_bind)

text \<open>From one state predicate to another, whatever the result.\<close>

definition moves :: "('s \<Rightarrow> bool) \<Rightarrow> ('s \<Rightarrow> bool) \<Rightarrow> ('s, 'a) state \<Rightarrow> bool" where
  "moves P Q m \<longleftrightarrow> (\<forall>s. P s \<longrightarrow> Q (snd (run_state m s)))"

lemma moves_keeps: "moves P P m = keeps P m"
  by (simp add: moves_def keeps_def)

lemma moves_bind: "moves P R m \<Longrightarrow> (\<And>x. moves R Q (f x)) \<Longrightarrow> moves P Q (State_Monad.bind m f)"
  by (simp add: moves_def split: prod.splits) (metis snd_conv)

lemma moves_keep_first: "keeps P m \<Longrightarrow> (\<And>x. moves P Q (f x)) \<Longrightarrow> moves P Q (State_Monad.bind m f)"
  by (rule moves_bind [of P P]) (simp_all only: moves_keeps)

lemma moves_keep_last: "moves P Q m \<Longrightarrow> (\<And>x. keeps Q (f x)) \<Longrightarrow> moves P Q (State_Monad.bind m f)"
  by (rule moves_bind [of P Q]) (simp_all only: moves_keeps)

lemma moves_weaken: "keeps P m \<Longrightarrow> (\<And>s. P s \<Longrightarrow> Q s) \<Longrightarrow> moves P Q m"
  by (simp add: moves_def keeps_def)

lemma moves_wp: "(\<And>s. P s \<Longrightarrow> wp m (\<lambda>_. Q) s) \<Longrightarrow> moves P Q m"
  by (simp add: moves_def wp_run)

lemma moves_cases:
  "(b \<Longrightarrow> moves P Q m) \<Longrightarrow> (\<not> b \<Longrightarrow> moves P Q n) \<Longrightarrow> moves P Q (if b then m else n)"
  "(\<And>e. v = Inl e \<Longrightarrow> moves P Q (f e)) \<Longrightarrow> (\<And>x. v = Inr x \<Longrightarrow> moves P Q (g x)) \<Longrightarrow>
   moves P Q (case v of Inl e \<Rightarrow> f e | Inr x \<Rightarrow> g x)"
  "(w = None \<Longrightarrow> moves P Q m') \<Longrightarrow> (\<And>x. w = Some x \<Longrightarrow> moves P Q (h x)) \<Longrightarrow>
   moves P Q (case w of None \<Rightarrow> m' | Some x \<Rightarrow> h x)"
  "(\<And>a b. p = (a, b) \<Longrightarrow> moves P Q (k a b)) \<Longrightarrow> moves P Q (case p of (a, b) \<Rightarrow> k a b)"
  by (auto split: sum.split option.split prod.split)

lemma wp_moves: "wp m P s \<Longrightarrow> (\<And>x. moves (P x) Q (f x)) \<Longrightarrow> wp (State_Monad.bind m f) (\<lambda>_. Q) s"
  by (cases "run_state m s") (simp add: wp_run moves_def)

section \<open>Systems with steps\<close>

text \<open>
  The interface of a component seen as a transition system: an initial-state
  predicate, a step function over labels and an invariant. Every component that
  is driven by a sequence of calls interprets it.
\<close>

locale legal_system =
  fixes init :: "'s \<Rightarrow> bool"
    and legal :: "'l \<Rightarrow> bool"
    and step :: "'l \<Rightarrow> 's \<Rightarrow> 's"
    and inv :: "'s \<Rightarrow> bool"
  assumes legal_init: "init s \<Longrightarrow> inv s"
    and legal_step: "legal l \<Longrightarrow> inv s \<Longrightarrow> inv (step l s)"
begin

lemma legal_fold: "\<forall>l \<in> set ls. legal l \<Longrightarrow> inv s \<Longrightarrow> inv (fold step ls s)"
  by (induction ls arbitrary: s) (simp_all add: legal_step)

lemma legal_run: "\<forall>l \<in> set ls. legal l \<Longrightarrow> init s \<Longrightarrow> inv (fold step ls s)"
  by (rule legal_fold) (auto intro: legal_init)

end

text \<open>When every step is legal, an invariant holds in every run.\<close>

locale inv_system =
  fixes init :: "'s \<Rightarrow> bool"
    and step :: "'l \<Rightarrow> 's \<Rightarrow> 's"
    and inv :: "'s \<Rightarrow> bool"
  assumes inv_init: "init s \<Longrightarrow> inv s"
    and inv_step: "inv s \<Longrightarrow> inv (step l s)"
begin

end

sublocale inv_system \<subseteq> all_legal: legal_system init "\<lambda>_. True" step inv
  by unfold_locales (auto intro: inv_init inv_step)

context inv_system
begin

lemma inv_fold: "inv s \<Longrightarrow> inv (fold step ls s)"
  by (rule all_legal.legal_fold) simp_all

lemma inv_run: "init s \<Longrightarrow> inv (fold step ls s)"
  by (rule all_legal.legal_run) simp_all

end

section \<open>Lists\<close>

text \<open>\<^verbatim>\<open>UPDATE ... WHERE\<close> on a list of rows.\<close>

definition upd_where :: "('a \<Rightarrow> bool) \<Rightarrow> ('a \<Rightarrow> 'a) \<Rightarrow> 'a list \<Rightarrow> 'a list" where
  "upd_where P f xs = map (\<lambda>x. if P x then f x else x) xs"

lemma upd_where_simps [simp]:
  "upd_where P f [] = []"
  "upd_where P f (x # xs) = (if P x then f x else x) # upd_where P f xs"
  by (simp_all add: upd_where_def)

lemma length_upd_where [simp]: "length (upd_where P f xs) = length xs"
  by (simp add: upd_where_def)

lemma map_upd_where: "(\<And>x. g (f x) = g x) \<Longrightarrow> map g (upd_where P f xs) = map g xs"
  by (induction xs) auto

lemma set_upd_where: "set (upd_where P f xs) = (\<lambda>x. if P x then f x else x) ` set xs"
  by (simp add: upd_where_def)

lemma upd_where_none: "\<forall>x \<in> set xs. \<not> P x \<Longrightarrow> upd_where P f xs = xs"
  by (induction xs) auto

lemma find_upd_where:
  "(\<And>x. Q (f x) = Q x) \<Longrightarrow>
   List.find Q (upd_where P f xs) = map_option (\<lambda>x. if P x then f x else x) (List.find Q xs)"
  by (induction xs) auto

lemma find_Some_set: "List.find P xs = Some x \<Longrightarrow> x \<in> set xs \<and> P x"
  by (induction xs) (auto split: if_splits)

lemma find_None: "List.find P xs = None \<longleftrightarrow> (\<forall>x \<in> set xs. \<not> P x)"
  by (induction xs) auto

lemma find_append: "List.find P (xs @ ys) = (case List.find P xs of None \<Rightarrow> List.find P ys | Some x \<Rightarrow> Some x)"
  by (induction xs) auto

lemma length_filter_conj_le: "length (filter (\<lambda>x. P x \<and> Q x) xs) \<le> length (filter P xs)"
  by (induction xs) auto

lemma length_filter_mono:
  "(\<And>x. x \<in> set xs \<Longrightarrow> P x \<Longrightarrow> Q x) \<Longrightarrow> length (filter P xs) \<le> length (filter Q xs)"
  by (induction xs) auto

lemma filter_weaken:
  "filter Q xs = filter Q ys \<Longrightarrow> (\<And>x. P x \<Longrightarrow> Q x) \<Longrightarrow> filter P xs = filter P ys"
proof -
  assume eq: "filter Q xs = filter Q ys" and PQ: "\<And>x. P x \<Longrightarrow> Q x"
  have "filter P zs = filter P (filter Q zs)" for zs
    using PQ by (induction zs) auto
  with eq show ?thesis by metis
qed

end
