(* ===== verification/GoText.thy ===== *)
theory GoText
  imports Prelude
begin

text \<open>
  Strings as Go treats them: byte strings whose \<^verbatim>\<open>range\<close> loops and \<^verbatim>\<open>[]rune\<close> conversions
  decode UTF-8, an invalid byte standing for U+FFFD. The functions of \<^verbatim>\<open>strings\<close>,
  \<^verbatim>\<open>unicode\<close> and \<^verbatim>\<open>strconv\<close> that the server calls are defined on that.
\<close>

section \<open>UTF-8\<close>

abbreviation byte :: "char \<Rightarrow> nat" where
  "byte c \<equiv> of_char c"

definition cont :: "nat \<Rightarrow> nat \<Rightarrow> char \<Rightarrow> bool" where
  "cont lo hi c \<longleftrightarrow> lo \<le> byte c \<and> byte c \<le> hi"

definition cbits :: "char \<Rightarrow> nat" where
  "cbits c = byte c - 0x80"

definition RuneError :: nat where
  "RuneError = 0xFFFD"

text \<open>\<^verbatim>\<open>utf8.DecodeRune\<close> of a non-empty string: the rune and its width in bytes.\<close>

definition decode_rune :: "char \<Rightarrow> string \<Rightarrow> nat \<times> nat" where
  "decode_rune c s =
     (let b = byte c in
      if b < 0x80 then (b, 1)
      else if 0xC2 \<le> b \<and> b \<le> 0xDF then
        (case s of c1 # _ \<Rightarrow> if cont 0x80 0xBF c1 then ((b - 0xC0) * 64 + cbits c1, 2) else (RuneError, 1)
         | [] \<Rightarrow> (RuneError, 1))
      else if 0xE0 \<le> b \<and> b \<le> 0xEF then
        (case s of c1 # c2 # _ \<Rightarrow>
           if cont (if b = 0xE0 then 0xA0 else 0x80) (if b = 0xED then 0x9F else 0xBF) c1 \<and> cont 0x80 0xBF c2
           then ((b - 0xE0) * 4096 + cbits c1 * 64 + cbits c2, 3) else (RuneError, 1)
         | _ \<Rightarrow> (RuneError, 1))
      else if 0xF0 \<le> b \<and> b \<le> 0xF4 then
        (case s of c1 # c2 # c3 # _ \<Rightarrow>
           if cont (if b = 0xF0 then 0x90 else 0x80) (if b = 0xF4 then 0x8F else 0xBF) c1 \<and>
              cont 0x80 0xBF c2 \<and> cont 0x80 0xBF c3
           then ((b - 0xF0) * 262144 + cbits c1 * 4096 + cbits c2 * 64 + cbits c3, 4) else (RuneError, 1)
         | _ \<Rightarrow> (RuneError, 1))
      else (RuneError, 1))"

text \<open>The runes of a string with the bytes each was decoded from.\<close>

function utf8_seq :: "string \<Rightarrow> (nat \<times> string) list" where
  "utf8_seq [] = []"
| "utf8_seq (c # s) =
     (let (r, w) = decode_rune c s in (r, c # take (w - 1) s) # utf8_seq (drop (w - 1) s))"
  by pat_completeness auto
termination by (relation "measure length") auto

definition runes :: "string \<Rightarrow> nat list" where
  "runes s = map fst (utf8_seq s)"

text \<open>\<^verbatim>\<open>utf8.AppendRune\<close> of a valid rune.\<close>

definition encode_rune :: "nat \<Rightarrow> string" where
  "encode_rune r =
     (if r < 0x80 then [char_of r]
      else if r < 0x800 then [char_of (0xC0 + r div 64), char_of (0x80 + r mod 64)]
      else if r < 0x10000 then [char_of (0xE0 + r div 4096), char_of (0x80 + r div 64 mod 64), char_of (0x80 + r mod 64)]
      else [char_of (0xF0 + r div 262144), char_of (0x80 + r div 4096 mod 64),
            char_of (0x80 + r div 64 mod 64), char_of (0x80 + r mod 64)])"

lemma utf8_seq_bytes: "concat (map snd (utf8_seq s)) = s"
proof (induction s rule: utf8_seq.induct)
  case (2 c s)
  then show ?case by (simp split: prod.split)
qed simp

lemma runes_ascii: "\<forall>c \<in> set s. byte c < 0x80 \<Longrightarrow> runes s = map byte s"
proof (induction s)
  case (Cons c s)
  then show ?case by (simp add: runes_def decode_rune_def)
qed (simp add: runes_def)

lemma length_runes_le: "length (runes s) \<le> length s"
proof (induction s rule: utf8_seq.induct)
  case (2 c s)
  obtain r w where rw: "decode_rune c s = (r, w)" by fastforce
  with 2 have "length (runes (drop (w - 1) s)) \<le> length (drop (w - 1) s)" by simp
  then show ?case by (simp add: runes_def rw)
qed (simp add: runes_def)

section \<open>Character classes\<close>

definition IsSpace :: "nat \<Rightarrow> bool" where
  "IsSpace r \<longleftrightarrow> (9 \<le> r \<and> r \<le> 13) \<or> r = 0x20 \<or> r = 0x85 \<or> r = 0xA0 \<or> r = 0x1680 \<or>
     (0x2000 \<le> r \<and> r \<le> 0x200A) \<or> r = 0x2028 \<or> r = 0x2029 \<or> r = 0x202F \<or> r = 0x205F \<or> r = 0x3000"

definition IsControl :: "nat \<Rightarrow> bool" where
  "IsControl r \<longleftrightarrow> r < 0x20 \<or> (0x7F \<le> r \<and> r < 0xA0)"

text \<open>\<^verbatim>\<open>unicode.Cf\<close>, the format characters.\<close>

definition in_Cf :: "nat \<Rightarrow> bool" where
  "in_Cf r \<longleftrightarrow> list_ex (\<lambda>(lo, hi). lo \<le> r \<and> r \<le> hi)
     [(0xAD, 0xAD), (0x600, 0x605), (0x61C, 0x61C), (0x6DD, 0x6DD), (0x70F, 0x70F), (0x890, 0x891), (0x8E2, 0x8E2),
      (0x180E, 0x180E), (0x200B, 0x200F), (0x202A, 0x202E), (0x2060, 0x2064), (0x2066, 0x206F), (0xFEFF, 0xFEFF),
      (0xFFF9, 0xFFFB), (0x110BD, 0x110BD), (0x110CD, 0x110CD), (0x13430, 0x1343F), (0x1BCA0, 0x1BCA3),
      (0x1D173, 0x1D17A), (0xE0001, 0xE0001), (0xE0020, 0xE007F)]"

section \<open>Package functions\<close>

definition TrimSpace :: "string \<Rightarrow> string" where
  "TrimSpace s =
     concat (map snd (rev (dropWhile (IsSpace \<circ> fst) (rev (dropWhile (IsSpace \<circ> fst) (utf8_seq s))))))"

text \<open>\<^verbatim>\<open>strings.SplitN(s, sep, 2)\<close> for a one-byte separator.\<close>

definition split2 :: "char \<Rightarrow> string \<Rightarrow> string list" where
  "split2 sep s = (case dropWhile (\<lambda>c. c \<noteq> sep) s of [] \<Rightarrow> [s] | _ # r \<Rightarrow> [takeWhile (\<lambda>c. c \<noteq> sep) s, r])"

definition hasPrefix :: "string \<Rightarrow> string \<Rightarrow> bool" where
  "hasPrefix s p \<longleftrightarrow> take (length p) s = p"

definition hasSuffix :: "string \<Rightarrow> string \<Rightarrow> bool" where
  "hasSuffix s p \<longleftrightarrow> hasPrefix (rev s) (rev p)"

text \<open>\<^verbatim>\<open>strconv.ParseInt(s, 10, 64)\<close> and \<^verbatim>\<open>strconv.ParseUint(s, 10, 64)\<close>; \<open>None\<close> is the error.\<close>

definition parse_digits :: "string \<Rightarrow> nat option" where
  "parse_digits s = (if s \<noteq> [] \<and> list_all is_digit s then Some (undec s) else None)"

definition ParseInt :: "string \<Rightarrow> int option" where
  "ParseInt s =
     (let (neg, ds) = (case s of [] \<Rightarrow> (False, [])
         | c # r \<Rightarrow> if c = CHR ''-'' then (True, r) else if c = CHR ''+'' then (False, r) else (False, s))
      in case parse_digits ds of
           None \<Rightarrow> None
         | Some n \<Rightarrow> (let i = (if neg then - int n else int n)
                     in if - (2 ^ 63) \<le> i \<and> i < 2 ^ 63 then Some i else None))"

definition ParseUint :: "string \<Rightarrow> nat option" where
  "ParseUint s = (case parse_digits s of None \<Rightarrow> None | Some n \<Rightarrow> if n < 2 ^ 64 then Some n else None)"

lemma parse_digits_dec [simp]: "parse_digits (dec n) = Some n"
  using dec_digits [of n] by (simp add: parse_digits_def list_all_iff)

lemma ParseInt_itoa: "- (2 ^ 63) \<le> i \<Longrightarrow> i < 2 ^ 63 \<Longrightarrow> ParseInt (itoa i) = Some i"
proof -
  assume i: "- (2 ^ 63) \<le> i" "i < 2 ^ 63"
  show ?thesis
  proof (cases "i < 0")
    case True
    with i show ?thesis by (simp add: ParseInt_def itoa_def)
  next
    case False
    obtain c r where cr: "dec (nat i) = c # r"
      by (cases "dec (nat i)") simp_all
    then have "is_digit c" using dec_digits [of "nat i"] by simp
    then have "c \<noteq> CHR ''-''" "c \<noteq> CHR ''+''" by (auto simp: is_digit_def)
    then have "(case dec (nat i) of [] \<Rightarrow> (False, []) | c # r \<Rightarrow> if c = CHR ''-'' then (True, r)
        else if c = CHR ''+'' then (False, r) else (False, dec (nat i))) = (False, dec (nat i))"
      using cr by simp
    with i False show ?thesis by (simp add: ParseInt_def itoa_def)
  qed
qed

end
