(* ===== verification/Json.thy ===== *)
theory Json
  imports GoText
begin

text \<open>
  What the server uses of \<^verbatim>\<open>encoding/json\<close>: values, \<^verbatim>\<open>Marshal\<close> with its HTML-safe string
  escapes, the scanner of \<^verbatim>\<open>Unmarshal\<close> and the decoding of the struct fields it asks
  for (case-folded keys, later keys win, \<^verbatim>\<open>null\<close> leaves a field unchanged, any type
  mismatch is an error). Numbers are kept as their literal text, as \<^verbatim>\<open>json.Number\<close> does.
\<close>

section \<open>Values and printing\<close>

datatype json =
    JNull
  | JBool bool
  | JNum string
  | JStr string
  | JArr "json list"
  | JObj "(string \<times> json) list"

abbreviation jint :: "int \<Rightarrow> json" where
  "jint i \<equiv> JNum (itoa i)"

definition hex4 :: "nat \<Rightarrow> string" where
  "hex4 n = [hex_digit (n div 4096 mod 16), hex_digit (n div 256 mod 16), hex_digit (n div 16 mod 16), hex_digit (n mod 16)]"

definition bslash :: char where
  "bslash = CHR 0x5C"

definition dquote :: char where
  "dquote = CHR 0x22"

text \<open>One decoded rune of a string, with the bytes it came from.\<close>

definition enc_rune :: "nat \<times> string \<Rightarrow> string" where
  "enc_rune p = (case p of (r, bs) \<Rightarrow>
     if r = 0x22 \<or> r = 0x5C then [bslash, char_of r]
     else if r = 8 then [bslash, CHR ''b''] else if r = 12 then [bslash, CHR ''f'']
     else if r = 10 then [bslash, CHR ''n''] else if r = 13 then [bslash, CHR ''r'']
     else if r = 9 then [bslash, CHR ''t'']
     else if r < 0x20 \<or> r = 0x3C \<or> r = 0x3E \<or> r = 0x26 \<or> r = 0x2028 \<or> r = 0x2029 \<or>
             (r = RuneError \<and> length bs = 1)
     then bslash # CHR ''u'' # hex4 r
     else bs)"

definition enc_string :: "string \<Rightarrow> string" where
  "enc_string s = dquote # concat (map enc_rune (utf8_seq s)) @ [dquote]"

fun sep_by :: "string \<Rightarrow> string list \<Rightarrow> string" where
  "sep_by d [] = []"
| "sep_by d [x] = x"
| "sep_by d (x # y # xs) = x @ d @ sep_by d (y # xs)"

fun Marshal :: "json \<Rightarrow> string" where
  "Marshal JNull = ''null''"
| "Marshal (JBool b) = (if b then ''true'' else ''false'')"
| "Marshal (JNum n) = n"
| "Marshal (JStr s) = enc_string s"
| "Marshal (JArr vs) = ''['' @ sep_by '','' (map Marshal vs) @ '']''"
| "Marshal (JObj kvs) = ''{'' @ sep_by '','' (map (\<lambda>(k, v). enc_string k @ '':'' @ Marshal v) kvs) @ ''}''"

section \<open>Scanning\<close>

definition is_ws :: "char \<Rightarrow> bool" where
  "is_ws c \<longleftrightarrow> byte c = 0x20 \<or> byte c = 9 \<or> byte c = 10 \<or> byte c = 13"

definition skip_ws :: "string \<Rightarrow> string" where
  "skip_ws = dropWhile is_ws"

definition hex_val :: "char \<Rightarrow> nat option" where
  "hex_val c = (if is_digit c then Some (byte c - 48)
     else if 97 \<le> byte c \<and> byte c \<le> 102 then Some (byte c - 87)
     else if 65 \<le> byte c \<and> byte c \<le> 70 then Some (byte c - 55) else None)"

fun getu4 :: "string \<Rightarrow> (nat \<times> string) option" where
  "getu4 (a # b # c # d # s) =
     (case (hex_val a, hex_val b, hex_val c, hex_val d) of
        (Some w, Some x, Some y, Some z) \<Rightarrow> Some (w * 4096 + x * 256 + y * 16 + z, s)
      | _ \<Rightarrow> None)"
| "getu4 _ = None"

lemma getu4_shorter: "getu4 s = Some (n, r) \<Longrightarrow> length s = length r + 4"
  by (cases s rule: getu4.cases) (auto split: option.splits)

definition surrogate :: "nat \<Rightarrow> bool" where
  "surrogate r \<longleftrightarrow> 0xD800 \<le> r \<and> r < 0xE000"

text \<open>After a surrogate: the low half, if a valid one follows, completes the rune.\<close>

definition low_half :: "nat \<Rightarrow> string \<Rightarrow> nat \<times> string" where
  "low_half hi s =
     (case s of b # u # r \<Rightarrow>
        if b = bslash \<and> u = CHR ''u'' then
          (case getu4 r of
             Some (lo, r') \<Rightarrow> if hi < 0xDC00 \<and> 0xDC00 \<le> lo \<and> lo < 0xE000
                then ((hi - 0xD800) * 1024 + (lo - 0xDC00) + 0x10000, r') else (RuneError, s)
           | None \<Rightarrow> (RuneError, s))
        else (RuneError, s)
      | _ \<Rightarrow> (RuneError, s))"

lemma low_half_shorter: "length (snd (low_half hi s)) \<le> length s"
  by (auto simp: low_half_def split: list.split option.split dest: getu4_shorter)

definition simple_escape :: "char \<Rightarrow> char option" where
  "simple_escape c = map_of [(dquote, dquote), (bslash, bslash), (CHR ''/'', CHR ''/''), (CHR ''b'', char_of (8 :: nat)),
     (CHR ''f'', char_of (12 :: nat)), (CHR ''n'', char_of (10 :: nat)), (CHR ''r'', char_of (13 :: nat)),
     (CHR ''t'', char_of (9 :: nat))] c"

text \<open>
  The rest of a string literal after its opening quote: the bytes with the escapes
  resolved, and the input after the closing quote.
\<close>

function scan_string :: "string \<Rightarrow> (string \<times> string) option" where
  "scan_string [] = None"
| "scan_string (c # s) =
     (if c = dquote then Some ([], s)
      else if c = bslash then
        (case s of [] \<Rightarrow> None
         | e # s' \<Rightarrow>
             (case simple_escape e of
                Some x \<Rightarrow> map_option (apfst ((#) x)) (scan_string s')
              | None \<Rightarrow>
                  if e = CHR ''u'' then
                    (case getu4 s' of None \<Rightarrow> None
                     | Some (r, t) \<Rightarrow>
                         (let p = (if surrogate r then low_half r t else (r, t))
                          in map_option (apfst ((@) (encode_rune (fst p)))) (scan_string (snd p))))
                  else None))
      else if byte c < 0x20 then None
      else map_option (apfst ((#) c)) (scan_string s))"
  by pat_completeness auto
termination
  by (relation "measure length")
    (auto dest!: getu4_shorter simp: less_Suc_eq_le intro: order_trans [OF low_half_shorter])

text \<open>Bytes that are not UTF-8 become U+FFFD.\<close>

definition to_valid :: "string \<Rightarrow> string" where
  "to_valid s = concat (map (\<lambda>(r, bs). if r = RuneError then encode_rune RuneError else bs) (utf8_seq s))"

text \<open>A number literal: \<^verbatim>\<open>-?(0|[1-9][0-9]*)([.][0-9]+)?([eE][+-]?[0-9]+)?\<close>.\<close>

definition scan_digits :: "string \<Rightarrow> string \<times> string" where
  "scan_digits s = (takeWhile is_digit s, dropWhile is_digit s)"

definition scan_sign :: "string \<Rightarrow> string \<times> string" where
  "scan_sign s = (case s of c # r \<Rightarrow> if c = CHR ''-'' then ([c], r) else ([], s) | [] \<Rightarrow> ([], s))"

definition scan_int :: "string \<Rightarrow> (string \<times> string) option" where
  "scan_int s = (case s of [] \<Rightarrow> None
     | c # r \<Rightarrow> if c = CHR ''0'' then Some ([c], r) else if is_digit c then Some (scan_digits s) else None)"

definition scan_frac :: "string \<Rightarrow> (string \<times> string) option" where
  "scan_frac s = (case s of c # r \<Rightarrow>
       if c = CHR ''.'' then (case scan_digits r of (ds, t) \<Rightarrow> if ds = [] then None else Some (c # ds, t)) else Some ([], s)
     | [] \<Rightarrow> Some ([], s))"

definition scan_exp :: "string \<Rightarrow> (string \<times> string) option" where
  "scan_exp s = (case s of c # r \<Rightarrow>
       if c = CHR ''e'' \<or> c = CHR ''E'' then
         (case (case r of d # r' \<Rightarrow> if d = CHR ''+'' \<or> d = CHR ''-'' then ([d], r') else ([], r) | [] \<Rightarrow> ([], r)) of
            (sg, r') \<Rightarrow> (case scan_digits r' of (ds, t) \<Rightarrow> if ds = [] then None else Some (c # sg @ ds, t)))
       else Some ([], s)
     | [] \<Rightarrow> Some ([], s))"

definition scan_number :: "string \<Rightarrow> (string \<times> string) option" where
  "scan_number s =
     (case scan_sign s of (sg, s1) \<Rightarrow>
      case scan_int s1 of None \<Rightarrow> None | Some (i, s2) \<Rightarrow>
      case scan_frac s2 of None \<Rightarrow> None | Some (f, s3) \<Rightarrow>
      case scan_exp s3 of None \<Rightarrow> None | Some (e, s4) \<Rightarrow> Some (sg @ i @ f @ e, s4))"

definition isValidNumber :: "string \<Rightarrow> bool" where
  "isValidNumber s \<longleftrightarrow> (case scan_number s of Some (n, []) \<Rightarrow> True | _ \<Rightarrow> False)"

definition scan_literal :: "string \<Rightarrow> json \<Rightarrow> string \<Rightarrow> (json \<times> string) option" where
  "scan_literal w v s = (if take (length w) s = w then Some (v, drop (length w) s) else None)"

text \<open>
  Values. \<open>n\<close> is fuel (twice the length of the input plus one is enough, every call consumes a
  character or opens a value) and \<open>d\<close> the nesting depth, which the scanner bounds by 10000.
\<close>

definition maxDepth :: nat where
  "maxDepth = 10000"

fun scan_value :: "nat \<Rightarrow> nat \<Rightarrow> string \<Rightarrow> (json \<times> string) option"
  and scan_elems :: "nat \<Rightarrow> nat \<Rightarrow> string \<Rightarrow> (json list \<times> string) option"
  and scan_members :: "nat \<Rightarrow> nat \<Rightarrow> string \<Rightarrow> ((string \<times> json) list \<times> string) option" where
  "scan_value 0 d s = None"
| "scan_value (Suc n) d s =
     (case skip_ws s of [] \<Rightarrow> None
      | c # r \<Rightarrow>
          if c = CHR ''{'' then
            (if d \<ge> maxDepth then None
             else case skip_ws r of [] \<Rightarrow> None
               | c' # r' \<Rightarrow> if c' = CHR ''}'' then Some (JObj [], r')
                           else map_option (apfst JObj) (scan_members n (Suc d) (c' # r')))
          else if c = CHR ''['' then
            (if d \<ge> maxDepth then None
             else case skip_ws r of [] \<Rightarrow> None
               | c' # r' \<Rightarrow> if c' = CHR '']'' then Some (JArr [], r')
                           else map_option (apfst JArr) (scan_elems n (Suc d) (c' # r')))
          else if c = dquote then map_option (apfst (JStr \<circ> to_valid)) (scan_string r)
          else if c = CHR ''t'' then scan_literal ''rue'' (JBool True) r
          else if c = CHR ''f'' then scan_literal ''alse'' (JBool False) r
          else if c = CHR ''n'' then scan_literal ''ull'' JNull r
          else map_option (apfst JNum) (scan_number (c # r)))"
| "scan_elems 0 d s = None"
| "scan_elems (Suc n) d s =
     (case scan_value n d s of None \<Rightarrow> None
      | Some (v, r) \<Rightarrow>
          (case skip_ws r of [] \<Rightarrow> None
           | c # r' \<Rightarrow> if c = CHR '']'' then Some ([v], r')
                      else if c = CHR '','' then map_option (apfst ((#) v)) (scan_elems n d r')
                      else None))"
| "scan_members 0 d s = None"
| "scan_members (Suc n) d s =
     (case skip_ws s of [] \<Rightarrow> None
      | c # r \<Rightarrow>
          if c \<noteq> dquote then None
          else (case scan_string r of None \<Rightarrow> None
            | Some (k, r1) \<Rightarrow>
                (case skip_ws r1 of [] \<Rightarrow> None
                 | c2 # r2 \<Rightarrow>
                     if c2 \<noteq> CHR '':'' then None
                     else (case scan_value n d r2 of None \<Rightarrow> None
                       | Some (v, r3) \<Rightarrow>
                           (case skip_ws r3 of [] \<Rightarrow> None
                            | c4 # r4 \<Rightarrow>
                                if c4 = CHR ''}'' then Some ([(to_valid k, v)], r4)
                                else if c4 = CHR '','' then map_option (apfst ((#) (to_valid k, v))) (scan_members n d r4)
                                else None)))))"

definition parse_json :: "string \<Rightarrow> json option" where
  "parse_json s = (case scan_value (Suc (2 * length s)) 0 s of
     Some (v, r) \<Rightarrow> if skip_ws r = [] then Some v else None
   | None \<Rightarrow> None)"

section \<open>Decoding into structs\<close>

definition fold_rune :: "nat \<Rightarrow> nat" where
  "fold_rune r = (if 65 \<le> r \<and> r \<le> 90 then r + 32 else if r = 0x17F then 115 else if r = 0x212A then 107 else r)"

definition key_matches :: "string \<Rightarrow> string \<Rightarrow> bool" where
  "key_matches name k \<longleftrightarrow> map fold_rune (runes k) = map byte name"

fun dec_all :: "('a \<Rightarrow> json \<Rightarrow> 'a option) \<Rightarrow> 'a \<Rightarrow> json list \<Rightarrow> 'a option" where
  "dec_all rd x [] = Some x"
| "dec_all rd x (v # vs) = (case rd x v of None \<Rightarrow> None | Some y \<Rightarrow> dec_all rd y vs)"

text \<open>Field \<open>name\<close> of a struct, with its zero value; \<open>None\<close> is an error of \<^verbatim>\<open>Unmarshal\<close>.\<close>

definition field :: "('a \<Rightarrow> json \<Rightarrow> 'a option) \<Rightarrow> 'a \<Rightarrow> string \<Rightarrow> json \<Rightarrow> 'a option" where
  "field rd zero name js =
     (case js of JNull \<Rightarrow> Some zero
      | JObj kvs \<Rightarrow> dec_all rd zero (map snd (filter (key_matches name \<circ> fst) kvs))
      | _ \<Rightarrow> None)"

fun dec_string :: "string \<Rightarrow> json \<Rightarrow> string option" where
  "dec_string x (JStr s) = Some s"
| "dec_string x JNull = Some x"
| "dec_string x _ = None"

fun dec_bool :: "bool \<Rightarrow> json \<Rightarrow> bool option" where
  "dec_bool x (JBool b) = Some b"
| "dec_bool x JNull = Some x"
| "dec_bool x _ = None"

text \<open>\<^verbatim>\<open>json.Number\<close>: a number literal, or a string that holds one.\<close>

fun dec_number :: "string \<Rightarrow> json \<Rightarrow> string option" where
  "dec_number x (JNum n) = Some n"
| "dec_number x (JStr s) = (if isValidNumber s then Some s else None)"
| "dec_number x JNull = Some x"
| "dec_number x _ = None"

fun dec_int_ptr :: "int option \<Rightarrow> json \<Rightarrow> int option option" where
  "dec_int_ptr x (JNum n) = map_option Some (ParseInt n)"
| "dec_int_ptr x JNull = Some None"
| "dec_int_ptr x _ = None"

fun dec_uint64 :: "nat \<Rightarrow> json \<Rightarrow> nat option" where
  "dec_uint64 x (JNum n) = ParseUint n"
| "dec_uint64 x JNull = Some x"
| "dec_uint64 x _ = None"

text \<open>A slice is decoded element by element into the slice that is there.\<close>

fun dec_strings :: "string list \<Rightarrow> json \<Rightarrow> string list option" where
  "dec_strings x (JArr vs) =
     those (map (\<lambda>(i, v). dec_string (if i < length x then x ! i else []) v) (enumerate 0 vs))"
| "dec_strings x JNull = Some []"
| "dec_strings x _ = None"

text \<open>\<^verbatim>\<open>json.RawMessage\<close>: the value as it stands; a missing field is an empty message.\<close>

fun dec_raw :: "json option \<Rightarrow> json \<Rightarrow> json option option" where
  "dec_raw x v = Some (Some v)"

text \<open>\<^verbatim>\<open>Unmarshal(payload, &p)\<close> of a raw message into one field of a struct.\<close>

definition payload_field :: "('a \<Rightarrow> json \<Rightarrow> 'a option) \<Rightarrow> 'a \<Rightarrow> string \<Rightarrow> json option \<Rightarrow> 'a option" where
  "payload_field rd zero name payload = (case payload of None \<Rightarrow> None | Some js \<Rightarrow> field rd zero name js)"

end
