(* ===== verification/Models.thy ===== *)
theory Models
  imports Prelude
begin

text \<open>
  The rows of \<^verbatim>\<open>db/models.go\<close>, the errors of \<^verbatim>\<open>db/errors.go\<close> and the state of the
  database: one list of rows per table of the migrations, the AUTOINCREMENT
  counters, and the environment. The environment is an oracle: \<open>faults n\<close> says
  whether the \<open>n\<close>-th statement fails in the driver (I/O error, lock timeout), and
  \<open>clock n\<close> is the \<open>n\<close>-th reading of the system clock. Theorems hold for all oracles,
  so for every pattern of driver failures.
\<close>

section \<open>Rows\<close>

record User =
  u_ID :: int64
  u_Username :: string
  u_PasswordHash :: string
  u_Avatar :: "string option"
  u_RoleID :: int64
  u_TOTPSecret :: "string option"
  u_Status :: string
  u_CreatedAt :: string
  u_LastSeen :: "string option"
  u_Banned :: bool
  u_BanReason :: "string option"
  u_BanExpires :: "string option"

record Session =
  s_ID :: int64
  s_UserID :: int64
  s_TokenHash :: string
  s_Device :: string
  s_IP :: string
  s_CreatedAt :: string
  s_LastUsed :: string
  s_ExpiresAt :: string

record Invite =
  i_ID :: int64
  i_Code :: string
  i_CreatedBy :: int64
  i_Uses :: int
  i_MaxUses :: "int option"
  i_ExpiresAt :: "string option"
  i_Revoked :: bool
  i_CreatedAt :: string

record Role =
  r_ID :: int64
  r_Name :: string
  r_Color :: "string option"
  r_Permissions :: perms
  r_Position :: int
  r_IsDefault :: bool

record Channel =
  c_ID :: int64
  c_Name :: string
  c_Type :: string
  c_Category :: string
  c_Topic :: string
  c_Position :: int
  c_SlowMode :: int
  c_Archived :: bool
  c_CreatedAt :: string
  c_VoiceMaxUsers :: int
  c_VoiceQuality :: "string option"
  c_MixingThreshold :: "int option"
  c_VoiceMaxVideo :: int

record Message =
  m_ID :: int64
  m_ChannelID :: int64
  m_UserID :: int64
  m_Content :: string
  m_ReplyTo :: "int64 option"
  m_EditedAt :: "string option"
  m_Deleted :: bool
  m_Pinned :: bool
  m_Timestamp :: string

record VoiceState =
  vs_UserID :: int64
  vs_ChannelID :: int64
  vs_Username :: string
  vs_Muted :: bool
  vs_Deafened :: bool
  vs_Speaking :: bool
  vs_Camera :: bool
  vs_Screenshare :: bool

record Attachment =
  a_ID :: string
  a_MessageID :: "int64 option"
  a_Filename :: string
  a_StoredAs :: string
  a_MimeType :: string
  a_Size :: int64
  a_UploadedAt :: string

record AttachmentInfo =
  ai_ID :: string
  ai_Filename :: string
  ai_Size :: int64
  ai_Mime :: string
  ai_URL :: string
  ai_Width :: "int option"
  ai_Height :: "int option"

record UserPublic =
  up_ID :: int64
  up_Username :: string
  up_Avatar :: "string option"

record MessageWithUser = Message +
  mu_Username :: string
  mu_Avatar :: "string option"

record ReactionCount =
  rc_Emoji :: string
  rc_Count :: int
  rc_MeReacted :: bool

record ReactionInfo =
  ri_Emoji :: string
  ri_Count :: int
  ri_Me :: bool

record MessageAPIResponse =
  mr_ID :: int64
  mr_ChannelID :: int64
  mr_User :: UserPublic
  mr_Content :: string
  mr_ReplyTo :: "int64 option"
  mr_Attachments :: "AttachmentInfo list"
  mr_Reactions :: "ReactionInfo list"
  mr_Pinned :: bool
  mr_EditedAt :: "string option"
  mr_Deleted :: bool
  mr_Timestamp :: string

record ChannelUnread =
  cu_LastMessageID :: int64
  cu_UnreadCount :: int

record AuditEntry =
  ae_ID :: int64
  ae_ActorID :: int64
  ae_ActorName :: string
  ae_Action :: string
  ae_TargetType :: string
  ae_TargetID :: int64
  ae_Detail :: string
  ae_CreatedAt :: string

text \<open>\<^verbatim>\<open>sessionTTL\<close>: thirty days, in seconds.\<close>

definition sessionTTL :: int where
  "sessionTTL = 30 * 24 * 3600"

text \<open>Rows of the tables that have no struct of their own, or more columns than their struct.\<close>

record AttachmentRow = Attachment +
  a_Width :: "int option"
  a_Height :: "int option"

record AuditRow =
  au_ID :: int64
  au_actor :: int64
  au_action :: string
  au_target_type :: string
  au_target_id :: int64
  au_detail :: string
  au_created :: string

record VoiceRow =
  vr_user :: int64
  vr_channel :: int64
  vr_muted :: bool
  vr_deafened :: bool
  vr_speaking :: bool
  vr_camera :: bool
  vr_screenshare :: bool
  vr_joined :: string

record Reaction =
  rx_message :: int64
  rx_user :: int64
  rx_emoji :: string

record OverrideRow =
  ov_channel :: int64
  ov_role :: int64
  ov_allow :: perms
  ov_deny :: perms

record ReadState =
  rs_user :: int64
  rs_channel :: int64
  rs_last :: int64

record DMOpen =
  do_user :: int64
  do_channel :: int64
  do_opened :: string

section \<open>Errors\<close>

datatype db_error =
    ErrDriver | ErrUnique | ErrForeignKey
  | ErrNotFound | ErrForbidden | ErrConflict | ErrBanned | ErrLastAdmin | ErrNoRows | ErrVanished

section \<open>The database state\<close>

record env =
  faults :: "nat \<Rightarrow> bool"
  calls :: nat
  clock :: "nat \<Rightarrow> time"
  reads :: nat

record database = env +
  users :: "User list"
  sessions :: "Session list"
  invites :: "Invite list"
  roles :: "Role list"
  channels :: "Channel list"
  channel_overrides :: "OverrideRow list"
  messages :: "Message list"
  reactions :: "Reaction list"
  attachments :: "AttachmentRow list"
  read_states :: "ReadState list"
  voice_states :: "VoiceRow list"
  dm_participants :: "(int64 \<times> int64) list"
  dm_open_state :: "DMOpen list"
  audit_log :: "AuditRow list"
  settings :: "(string \<times> string) list"
  users_seq :: int64
  sessions_seq :: int64
  invites_seq :: int64
  channels_seq :: int64
  messages_seq :: int64
  audit_seq :: int64

text \<open>The database after the migrations of \<^verbatim>\<open>migrations/\<close>: four roles, no users.\<close>

definition initial_db :: database where
  "initial_db = \<lparr>faults = (\<lambda>_. False), calls = 0, clock = (\<lambda>_. 0), reads = 0,
     users = [], sessions = [], invites = [],
     roles = [
       \<lparr>r_ID = 1, r_Name = ''Owner'', r_Color = Some ''#E74C3C'', r_Permissions = 0x7FFFFFFF, r_Position = 100, r_IsDefault = False\<rparr>,
       \<lparr>r_ID = 2, r_Name = ''Admin'', r_Color = Some ''#F39C12'', r_Permissions = 0x3FFFFFFF, r_Position = 80, r_IsDefault = False\<rparr>,
       \<lparr>r_ID = 3, r_Name = ''Moderator'', r_Color = Some ''#3498DB'', r_Permissions = 0x000FFFFF, r_Position = 60, r_IsDefault = False\<rparr>,
       \<lparr>r_ID = 4, r_Name = ''Member'', r_Color = None, r_Permissions = 7779, r_Position = 40, r_IsDefault = True\<rparr>],
     channels = [], channel_overrides = [], messages = [], reactions = [], attachments = [], read_states = [],
     voice_states = [], dm_participants = [], dm_open_state = [], audit_log = [],
     settings = [(''server_name'', ''OwnCord Server''), (''server_icon'', []), (''motd'', ''Welcome!''),
       (''max_upload_bytes'', ''26214400''), (''voice_quality'', ''high''), (''require_2fa'', ''0''),
       (''registration_open'', ''0''), (''backup_schedule'', ''daily''), (''backup_retention'', ''7''),
       (''schema_version'', ''1'')],
     users_seq = 0, sessions_seq = 0, invites_seq = 0, channels_seq = 0, messages_seq = 0, audit_seq = 0\<rparr>"

text \<open>The referenced rows of a foreign key.\<close>

definition has_user :: "'z database_scheme \<Rightarrow> int64 \<Rightarrow> bool" where
  "has_user s i \<longleftrightarrow> i \<in> u_ID ` set (users s)"

definition has_channel :: "'z database_scheme \<Rightarrow> int64 \<Rightarrow> bool" where
  "has_channel s i \<longleftrightarrow> i \<in> c_ID ` set (channels s)"

definition has_role :: "'z database_scheme \<Rightarrow> int64 \<Rightarrow> bool" where
  "has_role s i \<longleftrightarrow> i \<in> r_ID ` set (roles s)"

definition has_message :: "'z database_scheme \<Rightarrow> int64 \<Rightarrow> bool" where
  "has_message s i \<longleftrightarrow> i \<in> m_ID ` set (messages s)"

text \<open>\<^verbatim>\<open>LIMIT\<close>: a negative bound is no bound.\<close>

definition sql_limit :: "int \<Rightarrow> 'a list \<Rightarrow> 'a list" where
  "sql_limit n xs = (if n < 0 then xs else take (nat n) xs)"

text \<open>\<^verbatim>\<open>m[k] = append(m[k], v)\<close>.\<close>

definition append_at :: "'k \<Rightarrow> 'v \<Rightarrow> ('k, 'v list) mapping \<Rightarrow> ('k, 'v list) mapping" where
  "append_at k v m = Mapping.update k (case Mapping.lookup m k of None \<Rightarrow> [v] | Some vs \<Rightarrow> vs @ [v]) m"

section \<open>Statements\<close>

text \<open>
  One SQL statement: it fails in the driver when the oracle says so, otherwise it
  runs on the tables. \<open>f\<close> gets the time of \<^verbatim>\<open>datetime('now')\<close> in seconds.
\<close>

definition tick :: "'z database_scheme \<Rightarrow> 'z database_scheme" where
  "tick s = s\<lparr>calls := Suc (calls s), reads := Suc (reads s)\<rparr>"

definition exec ::
  "(int \<Rightarrow> 'z database_scheme \<Rightarrow> db_error + 'a \<times> 'z database_scheme) \<Rightarrow>
   ('z database_scheme, db_error + 'a) state" where
  "exec f = State (\<lambda>s.
     if faults s (calls s) then (Inl ErrDriver, tick s)
     else (case f (clock s (reads s) div Second) (tick s) of
             Inl e \<Rightarrow> (Inl e, tick s)
           | Inr (x, s') \<Rightarrow> (Inr x, s')))"

definition query :: "('z database_scheme \<Rightarrow> 'a) \<Rightarrow> ('z database_scheme, db_error + 'a) state" where
  "query f = exec (\<lambda>now s. Inr (f s, s))"

definition execute ::
  "(int \<Rightarrow> 'z database_scheme \<Rightarrow> 'z database_scheme) \<Rightarrow> ('z database_scheme, db_error + unit) state" where
  "execute f = exec (\<lambda>now s. Inr ((), f now s))"

text \<open>\<^verbatim>\<open>time.Now()\<close>.\<close>

definition time_now :: "('z env_scheme, time) state" where
  "time_now = State (\<lambda>s. (clock s (reads s), s\<lparr>reads := Suc (reads s)\<rparr>))"

text \<open>Sequencing of fallible steps: \<^verbatim>\<open>if err != nil { return err }\<close>.\<close>

definition bind_ok ::
  "('s, 'e + 'a) state \<Rightarrow> ('a \<Rightarrow> ('s, 'e + 'b) state) \<Rightarrow> ('s, 'e + 'b) state" where
  "bind_ok m f = do { r \<leftarrow> m; case r of Inl e \<Rightarrow> return (Inl e) | Inr x \<Rightarrow> f x }"

text \<open>
  A transaction: BEGIN, the body, COMMIT; any error, of the body or of the COMMIT,
  rolls the tables back. Only the oracle's position advances.
\<close>

definition rollback_to :: "'z database_scheme \<Rightarrow> 'z database_scheme \<Rightarrow> 'z database_scheme" where
  "rollback_to s0 s = s0\<lparr>calls := calls s, reads := reads s\<rparr>"

definition transaction ::
  "('z database_scheme, db_error + 'a) state \<Rightarrow> ('z database_scheme, db_error + 'a) state" where
  "transaction m =
     bind_ok (execute (\<lambda>now s. s)) (\<lambda>_. do {
       s0 \<leftarrow> get;
       r \<leftarrow> bind_ok m (\<lambda>x. bind_ok (execute (\<lambda>now s. s)) (\<lambda>_. return (Inr x)));
       case r of
         Inl e \<Rightarrow> do { modify (rollback_to s0); return (Inl e) }
       | Inr x \<Rightarrow> return (Inr x)
     })"

section \<open>Reasoning about statements\<close>

lemma tick_simps [simp]:
  "faults (tick s) = faults s" "clock (tick s) = clock s"
  "calls (tick s) = Suc (calls s)" "reads (tick s) = Suc (reads s)"
  "users (tick s) = users s" "sessions (tick s) = sessions s" "invites (tick s) = invites s"
  "roles (tick s) = roles s" "channels (tick s) = channels s"
  "channel_overrides (tick s) = channel_overrides s" "messages (tick s) = messages s"
  "reactions (tick s) = reactions s" "attachments (tick s) = attachments s"
  "read_states (tick s) = read_states s" "voice_states (tick s) = voice_states s"
  "dm_participants (tick s) = dm_participants s" "dm_open_state (tick s) = dm_open_state s"
  "audit_log (tick s) = audit_log s" "settings (tick s) = settings s"
  "users_seq (tick s) = users_seq s" "sessions_seq (tick s) = sessions_seq s"
  "invites_seq (tick s) = invites_seq s" "channels_seq (tick s) = channels_seq s"
  "messages_seq (tick s) = messages_seq s" "audit_seq (tick s) = audit_seq s"
  "database.more (tick s) = database.more s"
  by (simp_all add: tick_def)

lemma wp_exec [wp_simps]:
  "wp (exec f) Q = (\<lambda>s.
     if faults s (calls s) then Q (Inl ErrDriver) (tick s)
     else case f (clock s (reads s) div Second) (tick s) of
            Inl e \<Rightarrow> Q (Inl e) (tick s)
          | Inr (x, s') \<Rightarrow> Q (Inr x) s')"
  by (rule ext) (auto simp: wp_def exec_def split: sum.splits prod.splits)

lemma wp_query [wp_simps]:
  "wp (query f) Q = (\<lambda>s.
     if faults s (calls s) then Q (Inl ErrDriver) (tick s) else Q (Inr (f (tick s))) (tick s))"
  by (simp add: query_def wp_exec)

lemma wp_execute [wp_simps]:
  "wp (execute f) Q = (\<lambda>s.
     if faults s (calls s) then Q (Inl ErrDriver) (tick s)
     else Q (Inr ()) (f (clock s (reads s) div Second) (tick s)))"
  by (simp add: execute_def wp_exec)

lemma wp_time_now [wp_simps]: "wp time_now Q = (\<lambda>s. Q (clock s (reads s)) (s\<lparr>reads := Suc (reads s)\<rparr>))"
  by (rule ext) (simp add: wp_def time_now_def)

lemma wp_bind_ok [wp_simps]:
  "wp (bind_ok m f) Q = wp m (\<lambda>r. case r of Inl e \<Rightarrow> Q (Inl e) | Inr x \<Rightarrow> wp (f x) Q)"
  unfolding bind_ok_def wp_simps ..

lemma wp_transaction [wp_simps]:
  "wp (transaction m) Q = (\<lambda>s.
     if faults s (calls s) then Q (Inl ErrDriver) (tick s)
     else wp m (\<lambda>r s'. case r of
          Inl e \<Rightarrow> Q (Inl e) (rollback_to (tick s) s')
        | Inr x \<Rightarrow> if faults s' (calls s') then Q (Inl ErrDriver) (rollback_to (tick s) (tick s'))
                   else Q (Inr x) (tick s')) (tick s))"
  unfolding transaction_def wp_simps
  by (rule ext, simp, rule impI, rule wp_cong) (auto split: sum.splits)

lemma keeps_exec:
  assumes "\<And>s. P s \<Longrightarrow> P (tick s)"
    and "\<And>now s x s'. P s \<Longrightarrow> f now s = Inr (x, s') \<Longrightarrow> P s'"
  shows "keeps P (exec f)"
proof (rule keepsI)
  fix s assume P: "P s"
  show "P (snd (run_state (exec f) s))"
    using assms(1) [OF P] assms(2) [OF assms(1) [OF P]]
    by (auto simp: exec_def split: sum.splits prod.splits)
qed

lemma keeps_query: "(\<And>s. P s \<Longrightarrow> P (tick s)) \<Longrightarrow> keeps P (query f)"
  by (auto simp: query_def intro: keeps_exec)

lemma keeps_execute:
  "(\<And>s. P s \<Longrightarrow> P (tick s)) \<Longrightarrow> (\<And>now s. P s \<Longrightarrow> P (f now s)) \<Longrightarrow> keeps P (execute f)"
  by (auto simp: execute_def intro: keeps_exec)

lemma keeps_bind_ok [keeps_intro]:
  "keeps P m \<Longrightarrow> (\<And>x. keeps P (f x)) \<Longrightarrow> keeps P (bind_ok m f)"
  unfolding bind_ok_def by (intro keeps_intro)

text \<open>What a query returns does not depend on the oracle, unless it fails.\<close>

lemma query_result: "fst (run_state (query f) s) = Inr x \<Longrightarrow> x = f (tick s)"
  by (simp add: query_def exec_def split: if_splits)

end
