(* ===== verification/Permissions.thy ===== *)
theory Permissions
  imports Prelude
begin

text \<open>
  The package \<^verbatim>\<open>permissions\<close>: the permission bits, the channel-override
  formula and the \<^verbatim>\<open>Checker\<close>. The Go type is parameterised by the interface
  \<^verbatim>\<open>permissions.DB\<close>; its two methods are arguments of the definitions here and
  the parameters of the locale \<open>permission_db\<close>, whose laws the database model
  discharges.
\<close>

section \<open>Bits and roles\<close>

definition SendMessages :: perms where "SendMessages = 0x1"
definition ReadMessages :: perms where "ReadMessages = 0x2"
definition AttachFiles :: perms where "AttachFiles = 0x20"
definition AddReactions :: perms where "AddReactions = 0x40"
definition UseSoundboard :: perms where "UseSoundboard = 0x100"
definition ConnectVoice :: perms where "ConnectVoice = 0x200"
definition SpeakVoice :: perms where "SpeakVoice = 0x400"
definition UseVideo :: perms where "UseVideo = 0x800"
definition ShareScreen :: perms where "ShareScreen = 0x1000"
definition ManageMessages :: perms where "ManageMessages = 0x10000"
definition ManageChannels :: perms where "ManageChannels = 0x20000"
definition KickMembers :: perms where "KickMembers = 0x40000"
definition BanMembers :: perms where "BanMembers = 0x80000"
definition MuteMembers :: perms where "MuteMembers = 0x100000"
definition ManageRoles :: perms where "ManageRoles = 0x1000000"
definition ManageServer :: perms where "ManageServer = 0x2000000"
definition ManageInvites :: perms where "ManageInvites = 0x4000000"
definition ViewAuditLog :: perms where "ViewAuditLog = 0x8000000"
definition Administrator :: perms where "Administrator = 0x40000000"

lemmas perm_bits =
  SendMessages_def ReadMessages_def AttachFiles_def AddReactions_def UseSoundboard_def
  ConnectVoice_def SpeakVoice_def UseVideo_def ShareScreen_def ManageMessages_def
  ManageChannels_def KickMembers_def BanMembers_def MuteMembers_def ManageRoles_def
  ManageServer_def ManageInvites_def ViewAuditLog_def Administrator_def

definition OwnerRoleID :: int64 where "OwnerRoleID = 1"
definition AdminRoleID :: int64 where "AdminRoleID = 2"
definition ModeratorRoleID :: int64 where "ModeratorRoleID = 3"
definition MemberRoleID :: int64 where "MemberRoleID = 4"
definition OwnerRolePosition :: int where "OwnerRolePosition = 100"

definition HasPerm :: "perms \<Rightarrow> perms \<Rightarrow> bool" where
  "HasPerm rolePerms requiredPerm =
     (if requiredPerm = 0 then False else rolePerms AND requiredPerm = requiredPerm)"

definition HasAdmin :: "perms \<Rightarrow> bool" where
  "HasAdmin rolePerms = (rolePerms AND Administrator \<noteq> 0)"

definition EffectivePerms :: "perms \<Rightarrow> perms \<Rightarrow> perms \<Rightarrow> perms" where
  "EffectivePerms rolePerm allow deny = (rolePerm AND NOT deny) OR allow"

section \<open>The checker\<close>

record ChannelOverride =
  Allow_bits :: perms
  Deny_bits :: perms

datatype 'e access_error = CheckingDMParticipation 'e | ErrNotDMParticipant | ErrPermissionDenied

definition HasChannelPerm ::
  "(int64 \<Rightarrow> int64 \<Rightarrow> ('s, 'e + perms \<times> perms) state) \<Rightarrow>
   perms \<Rightarrow> int64 \<Rightarrow> int64 \<Rightarrow> perms \<Rightarrow> ('s, bool) state" where
  "HasChannelPerm getPermissions rolePerms roleID channelID perm =
     (if HasAdmin rolePerms then return True
      else do {
        r \<leftarrow> getPermissions channelID roleID;
        case r of
          Inl _ \<Rightarrow> return False
        | Inr (allow, deny) \<Rightarrow>
            (let effective = EffectivePerms rolePerms allow deny
             in return (effective AND perm = perm))
      })"

definition HasChannelPermBatch ::
  "perms \<Rightarrow> (int64, ChannelOverride) mapping \<Rightarrow> int64 \<Rightarrow> perms \<Rightarrow> bool" where
  "HasChannelPermBatch rolePerms overrides channelID perm =
     (if HasAdmin rolePerms then True
      else
        let ov = (case Mapping.lookup overrides channelID of
                   None \<Rightarrow> \<lparr>Allow_bits = 0, Deny_bits = 0\<rparr> | Some ov \<Rightarrow> ov);
            effective = EffectivePerms rolePerms (Allow_bits ov) (Deny_bits ov)
        in effective AND perm = perm)"

definition RequireChannelAccess ::
  "(int64 \<Rightarrow> int64 \<Rightarrow> ('s, 'e + perms \<times> perms) state) \<Rightarrow>
   (int64 \<Rightarrow> int64 \<Rightarrow> ('s, 'e + bool) state) \<Rightarrow>
   int64 \<Rightarrow> perms \<Rightarrow> int64 \<Rightarrow> string \<Rightarrow> int64 \<Rightarrow> perms \<Rightarrow> ('s, 'e access_error + unit) state" where
  "RequireChannelAccess getPermissions isDMParticipant userID rolePerms roleID channelType channelID perm =
     (if channelType = ''dm'' then do {
        r \<leftarrow> isDMParticipant userID channelID;
        case r of
          Inl e \<Rightarrow> return (Inl (CheckingDMParticipation e))
        | Inr ok \<Rightarrow> (if \<not> ok then return (Inl ErrNotDMParticipant) else return (Inr ()))
      }
      else do {
        ok \<leftarrow> HasChannelPerm getPermissions rolePerms roleID channelID perm;
        if \<not> ok then return (Inl ErrPermissionDenied) else return (Inr ())
      })"

section \<open>The override formula, bit by bit\<close>

lemma bit_EffectivePerms:
  "n < 64 \<Longrightarrow> bit (EffectivePerms r a d) n \<longleftrightarrow> bit a n \<or> (bit r n \<and> \<not> bit d n)"
  by (auto simp: EffectivePerms_def bit_simps)

lemma and_eq_iff_bits: "(w :: perms) AND p = p \<longleftrightarrow> (\<forall>n. bit p n \<longrightarrow> bit w n)"
  using bit_imp_le_length [of p] by (auto simp: bit_word_eqI bit_eq_iff bit_simps)

lemma EffectivePerms_none [simp]: "EffectivePerms r 0 0 = r"
  by (simp add: EffectivePerms_def)

text \<open>What it means that a role holds a permission on a channel, given the overrides.\<close>

definition granted :: "perms \<Rightarrow> perms \<times> perms \<Rightarrow> perms \<Rightarrow> bool" where
  "granted rolePerms ad perm \<longleftrightarrow>
     HasAdmin rolePerms \<or> EffectivePerms rolePerms (fst ad) (snd ad) AND perm = perm"

lemma granted_union:
  "granted r ad (p OR q) \<longleftrightarrow> granted r ad p \<and> granted r ad q"
  by (auto simp: granted_def and_eq_iff_bits bit_simps)

lemma granted_bits:
  "granted r (a, d) perm \<longleftrightarrow>
     bit r 30 \<or> (\<forall>n < 64. bit perm n \<longrightarrow> bit a n \<or> (bit r n \<and> \<not> bit d n))"
proof -
  have adm: "HasAdmin r \<longleftrightarrow> bit r 30"
  proof -
    have "Administrator = push_bit 30 1"
      by (simp add: Administrator_def)
    then have "bit Administrator n \<longleftrightarrow> bit (push_bit 30 (1 :: perms)) n" for n
      by simp
    moreover have "bit (push_bit 30 (1 :: perms)) n \<longleftrightarrow> n = 30" for n
      unfolding bit_simps by auto
    ultimately have "bit Administrator n \<longleftrightarrow> n = 30" for n
      by simp
    then have "bit (r AND Administrator) n \<longleftrightarrow> bit r 30 \<and> n = 30" for n
      by (auto simp: bit_and_iff)
    then show ?thesis
      by (metis HasAdmin_def bit_0_eq bot_apply bot_bool_def bit_eq_iff)
  qed
  have "EffectivePerms r a d AND perm = perm \<longleftrightarrow>
        (\<forall>n < 64. bit perm n \<longrightarrow> bit (EffectivePerms r a d) n)"
    using bit_imp_le_length [of perm] by (auto simp: and_eq_iff_bits)
  then show ?thesis
    by (auto simp: granted_def adm bit_EffectivePerms)
qed

lemma HasChannelPermBatch_granted:
  "HasChannelPermBatch r m ch perm \<longleftrightarrow>
     granted r (case Mapping.lookup m ch of None \<Rightarrow> (0, 0) | Some ov \<Rightarrow> (Allow_bits ov, Deny_bits ov)) perm"
  by (cases "Mapping.lookup m ch") (auto simp: HasChannelPermBatch_def granted_def Let_def)

text \<open>
  the permission formula of a channel override. A role without the
  Administrator bit (bit 30) holds \<open>perm\<close> on a channel exactly when every bit of
  \<open>perm\<close> is allowed by the channel's override, or is in the role and not denied by
  it, so allow wins over deny on the same bit and a channel without an override
  gives the role's own bits. Administrators hold every permission.
\<close>
theorem HasChannelPermBatch_bits:
  "HasChannelPermBatch r m ch perm \<longleftrightarrow>
     bit r 30 \<or>
     (\<forall>n < 64. bit perm n \<longrightarrow>
        (case Mapping.lookup m ch of
           None \<Rightarrow> bit r n
         | Some ov \<Rightarrow> bit (Allow_bits ov) n \<or> (bit r n \<and> \<not> bit (Deny_bits ov) n)))"
  by (cases "Mapping.lookup m ch") (simp_all add: HasChannelPermBatch_granted granted_bits)

theorem HasChannelPermBatch_bits_witness:
  "HasChannelPermBatch 0x3 (Mapping.update 7 \<lparr>Allow_bits = 0, Deny_bits = 0x1\<rparr> Mapping.empty) 7 0x2"
proof -
  have "(\<forall>n < 64. bit (0x2 :: perms) n \<longrightarrow> bit (0 :: perms) n \<or> (bit (0x3 :: perms) n \<and> \<not> bit (0x1 :: perms) n))"
    by (auto simp: bit_simps bit_numeral_rec split: nat.splits)
  then show ?thesis
    using HasChannelPermBatch_bits
      [of "0x3" "Mapping.update 7 \<lparr>Allow_bits = 0, Deny_bits = 0x1\<rparr> Mapping.empty" 7 "0x2"]
    by (simp add: lookup_update)
qed

section \<open>The database interface\<close>

text \<open>
  What the checker relies on: the two methods report the stored overrides and
  participants of the state they are called in, unless they return an error.
\<close>

locale permission_db =
  fixes getPermissions :: "int64 \<Rightarrow> int64 \<Rightarrow> ('s, 'e + perms \<times> perms) state"
    and isDMParticipant :: "int64 \<Rightarrow> int64 \<Rightarrow> ('s, 'e + bool) state"
    and overrides :: "'s \<Rightarrow> int64 \<Rightarrow> int64 \<Rightarrow> perms \<times> perms"
    and participant :: "'s \<Rightarrow> int64 \<Rightarrow> int64 \<Rightarrow> bool"
  assumes getPermissions_reads:
      "fst (run_state (getPermissions ch role) s) = Inr ad \<Longrightarrow> ad = overrides s ch role"
    and isDMParticipant_reads:
      "fst (run_state (isDMParticipant u ch) s) = Inr b \<Longrightarrow> b = participant s u ch"
begin

lemma HasChannelPerm_sound:
  assumes "fst (run_state (HasChannelPerm getPermissions r role ch perm) s)"
  shows "granted r (overrides s ch role) perm"
  using assms getPermissions_reads [of ch role s]
  by (auto simp: HasChannelPerm_def granted_def Let_def split: if_splits sum.splits prod.splits)

lemma HasChannelPerm_complete:
  assumes "granted r (overrides s ch role) perm"
    and "\<forall>e. fst (run_state (getPermissions ch role) s) \<noteq> Inl e"
  shows "fst (run_state (HasChannelPerm getPermissions r role ch perm) s)"
proof (cases "fst (run_state (getPermissions ch role) s)")
  case (Inl e)
  with assms(2) show ?thesis by simp
next
  case (Inr ad)
  then have "ad = overrides s ch role"
    by (rule getPermissions_reads)
  with assms(1) Inr show ?thesis
    by (cases "overrides s ch role")
      (auto simp: HasChannelPerm_def granted_def Let_def split: sum.splits prod.splits)
qed

lemma HasChannelPerm_batch:
  assumes "\<forall>e. fst (run_state (getPermissions ch role) s) \<noteq> Inl e"
    and "(case Mapping.lookup m ch of None \<Rightarrow> (0, 0) | Some ov \<Rightarrow> (Allow_bits ov, Deny_bits ov))
         = overrides s ch role"
  shows "HasChannelPermBatch r m ch perm \<longleftrightarrow>
         fst (run_state (HasChannelPerm getPermissions r role ch perm) s)"
proof -
  have "HasChannelPermBatch r m ch perm \<longleftrightarrow> granted r (overrides s ch role) perm"
    by (simp add: HasChannelPermBatch_granted assms(2))
  then show ?thesis
    using HasChannelPerm_sound HasChannelPerm_complete assms(1) by blast
qed

lemma RequireChannelAccess_sound:
  assumes "fst (run_state (RequireChannelAccess getPermissions isDMParticipant u r role ty ch perm) s) = Inr ()"
  shows "if ty = ''dm'' then participant s u ch else granted r (overrides s ch role) perm"
proof (cases "ty = ''dm''")
  case True
  with assms show ?thesis
    using isDMParticipant_reads [of u ch s]
    by (auto simp: RequireChannelAccess_def split: sum.splits if_splits prod.splits)
next
  case False
  with assms have "fst (run_state (HasChannelPerm getPermissions r role ch perm) s)"
    by (auto simp: RequireChannelAccess_def split: if_splits prod.splits)
  with False show ?thesis by (simp add: HasChannelPerm_sound)
qed

end

end
