(* ===== verification/Timestamps.thy ===== *)
theory Timestamps
  imports Prelude
begin

text \<open>
  The timestamps the server stores as text: the civil calendar, the two layouts
  \<^verbatim>\<open>2006-01-02 15:04:05\<close> (SQLite's \<^verbatim>\<open>datetime('now')\<close>) and
  \<^verbatim>\<open>2006-01-02T15:04:05Z\<close>, their printing by \<^verbatim>\<open>time.Time.Format\<close> and their reading by
  \<^verbatim>\<open>time.Parse\<close>, with the leniencies of the latter (a run of spaces for a space, one
  digit for the hour, a fraction after the seconds). Printing is undone by reading.
\<close>

section \<open>The calendar\<close>

definition leap :: "int \<Rightarrow> bool" where
  "leap y \<longleftrightarrow> 4 dvd y \<and> (\<not> 100 dvd y \<or> 400 dvd y)"

definition daysIn :: "int \<Rightarrow> int \<Rightarrow> int" where
  "daysIn m y =
     (if m = 2 then (if leap y then 29 else 28)
      else if m = 4 \<or> m = 6 \<or> m = 9 \<or> m = 11 then 30 else 31)"

text \<open>Days from 1970-01-01 to the first of January of a year.\<close>

definition year_start :: "int \<Rightarrow> int" where
  "year_start y = 365 * (y - 1970) + ((y - 1) div 4 - (y - 1) div 100 + (y - 1) div 400) - 477"

text \<open>Days from the first of January to the first of a month.\<close>

fun month_start :: "nat \<Rightarrow> int \<Rightarrow> int" where
  "month_start 0 y = 0"
| "month_start (Suc m) y = (if m = 0 then 0 else month_start m y + daysIn (int m) y)"

definition days_from_civil :: "int \<Rightarrow> int \<Rightarrow> int \<Rightarrow> int" where
  "days_from_civil y m d = year_start y + month_start (nat m) y + d - 1"

lemma year_length: "year_start (y + 1) = year_start y + (if leap y then 366 else 365)"
proof -
  have q: "(y :: int) div k = (y - 1) div k + (if k dvd y then 1 else 0)" if "0 < k" for k
  proof (cases "k dvd y")
    case True
    then obtain c where "y = k * c" by (rule dvdE)
    moreover have "k * c - 1 = k * (c - 1) + (k - 1)"
      by (simp add: right_diff_distrib)
    then have "(k * c - 1) div k = c - 1"
      by (rule int_div_pos_eq) (use that in simp_all)
    ultimately show ?thesis using that by simp
  next
    case False
    then have "y mod k \<noteq> 0" by (simp add: dvd_eq_mod_eq_0)
    then have "0 < y mod k" and "y mod k < k"
      using that pos_mod_sign [of k y] pos_mod_bound [of k y] by linarith+
    moreover have "y - 1 = k * (y div k) + (y mod k - 1)"
      using mult_div_mod_eq [of k y] by linarith
    then have "(y - 1) div k = y div k"
      by (rule int_div_pos_eq) (use \<open>0 < y mod k\<close> \<open>y mod k < k\<close> in simp_all)
    with False show ?thesis by simp
  qed
  have diff: "y div k - (y - 1) div k = (if k dvd y then 1 else 0)" if "0 < k" for k
    using q [OF that] by simp
  have "year_start (y + 1) - year_start y =
      365 + ((y div 4 - (y - 1) div 4) - (y div 100 - (y - 1) div 100) + (y div 400 - (y - 1) div 400))"
    by (simp add: year_start_def)
  also have "\<dots> = 365 + ((if 4 dvd y then 1 else 0) - (if 100 dvd y then 1 else 0) + (if 400 dvd y then 1 else 0))"
    by (subst (1 2 3) diff) simp_all
  also have "\<dots> = (if leap y then 366 else 365)"
  proof -
    have "100 dvd y" if "400 dvd y" by (rule dvd_trans [OF _ that]) simp
    moreover have "4 dvd y" if "100 dvd y" by (rule dvd_trans [OF _ that]) simp
    ultimately show ?thesis
      by (cases "4 dvd y"; cases "100 dvd y"; cases "400 dvd y") (auto simp: leap_def)
  qed
  finally show ?thesis by simp
qed

text \<open>The year of a day number: an estimate from below, then upwards.\<close>

function year_from :: "int \<Rightarrow> int \<Rightarrow> int" where
  "year_from y n = (if year_start (y + 1) \<le> n then year_from (y + 1) n else y)"
  by pat_completeness auto
termination
  by (relation "measure (\<lambda>(y, n). nat (n - year_start y))") (auto simp: year_length split: if_splits)

declare year_from.simps [simp del]

fun month_from :: "nat \<Rightarrow> nat \<Rightarrow> int \<Rightarrow> int \<Rightarrow> nat" where
  "month_from 0 m y n = m"
| "month_from (Suc k) m y n = (if month_start (Suc m) y \<le> n then month_from k (Suc m) y n else m)"

definition civil :: "int \<Rightarrow> int \<times> int \<times> int" where
  "civil n =
     (let y = year_from (1970 + n div 366) n;
          m = month_from 11 1 y (n - year_start y)
      in (y, int m, n - year_start y - month_start m y + 1))"

section \<open>Printing\<close>

definition pad :: "nat \<Rightarrow> int \<Rightarrow> string" where
  "pad k i = (let s = itoa i in replicate (k - length s) (CHR ''0'') @ s)"

text \<open>\<open>sep\<close> and \<open>suf\<close> are the literal parts in which the two layouts differ; \<open>u\<close> counts seconds.\<close>

definition fmt_layout :: "string \<Rightarrow> string \<Rightarrow> int \<Rightarrow> string" where
  "fmt_layout sep suf u =
     (case civil (u div 86400) of (y, m, d) \<Rightarrow>
        pad 4 y @ ''-'' @ pad 2 m @ ''-'' @ pad 2 d @ sep @
        pad 2 (u mod 86400 div 3600) @ '':'' @ pad 2 (u mod 3600 div 60) @ '':'' @ pad 2 (u mod 60) @ suf)"

definition fmt_sqlite :: "int \<Rightarrow> string" where
  "fmt_sqlite u = fmt_layout '' '' [] u"

definition fmt_iso :: "int \<Rightarrow> string" where
  "fmt_iso u = fmt_layout ''T'' ''Z'' u"

section \<open>Reading\<close>

definition digit2 :: "char \<Rightarrow> char \<Rightarrow> int" where
  "digit2 a b = int (10 * digit_val a + digit_val b)"

text \<open>\<^verbatim>\<open>getnum(s, fixed)\<close>: one or two digits, two when \<open>fixed\<close>.\<close>

fun getnum :: "bool \<Rightarrow> string \<Rightarrow> (int \<times> string) option" where
  "getnum fixed [] = None"
| "getnum fixed [a] = (if is_digit a \<and> \<not> fixed then Some (int (digit_val a), []) else None)"
| "getnum fixed (a # b # s) =
     (if \<not> is_digit a then None
      else if \<not> is_digit b then (if fixed then None else Some (int (digit_val a), b # s))
      else Some (digit2 a b, s))"

definition getyear :: "string \<Rightarrow> (int \<times> string) option" where
  "getyear s =
     (if length s < 4 \<or> \<not> list_all is_digit (take 4 s) then None
      else Some (int (undec (take 4 s)), drop 4 s))"

text \<open>\<^verbatim>\<open>skip(value, prefix)\<close>: a space of the layout matches a run of spaces.\<close>

function skip :: "string \<Rightarrow> string \<Rightarrow> string option" where
  "skip [] v = Some v"
| "skip (p # ps) v =
     (if p = CHR '' '' then
        (if v \<noteq> [] \<and> hd v \<noteq> CHR '' '' then None
         else skip (dropWhile (\<lambda>c. c = CHR '' '') ps) (dropWhile (\<lambda>c. c = CHR '' '') v))
      else if v = [] \<or> hd v \<noteq> p then None
      else skip ps (tl v))"
  by pat_completeness auto
termination
  by (relation "measure (\<lambda>(ps, v). length ps)") (auto simp: less_Suc_eq_le length_dropWhile_le)

text \<open>The fraction that \<^verbatim>\<open>time.Parse\<close> accepts after the seconds, in nanoseconds.\<close>

definition getfrac :: "string \<Rightarrow> int \<times> string" where
  "getfrac s =
     (case s of
        p # d # r \<Rightarrow>
          if (p = CHR ''.'' \<or> p = CHR '','') \<and> is_digit d then
            (let ds = takeWhile is_digit (d # r); ds9 = take 9 ds
             in (int (undec ds9) * 10 ^ (9 - length ds9), dropWhile is_digit (d # r)))
          else (0, s)
      | _ \<Rightarrow> (0, s))"

definition in_range :: "int \<Rightarrow> int \<Rightarrow> int \<Rightarrow> unit option" where
  "in_range lo hi i = (if lo \<le> i \<and> i \<le> hi then Some () else None)"

text \<open>\<^verbatim>\<open>time.Parse\<close> for the two layouts: the instant in nanoseconds, or an error.\<close>

definition parse_layout :: "string \<Rightarrow> string \<Rightarrow> string \<Rightarrow> time option" where
  "parse_layout sep suf s = do {
     (y, s) \<leftarrow> getyear s;
     s \<leftarrow> skip ''-'' s;
     (m, s) \<leftarrow> getnum True s;
     in_range 1 12 m;
     s \<leftarrow> skip ''-'' s;
     (d, s) \<leftarrow> getnum True s;
     s \<leftarrow> skip sep s;
     (h, s) \<leftarrow> getnum False s;
     in_range 0 23 h;
     s \<leftarrow> skip '':'' s;
     (mi, s) \<leftarrow> getnum True s;
     in_range 0 59 mi;
     s \<leftarrow> skip '':'' s;
     (sec, s) \<leftarrow> getnum True s;
     in_range 0 59 sec;
     let (ns, s) = getfrac s;
     s \<leftarrow> skip suf s;
     (if s \<noteq> [] then None else Some ());
     in_range 1 (daysIn m y) d;
     Some ((days_from_civil y m d * 86400 + h * 3600 + mi * 60 + sec) * Second + ns)
   }"

definition parse_timestamp :: "string \<Rightarrow> time option" where
  "parse_timestamp s =
     (case parse_layout '' '' [] s of
        Some t \<Rightarrow> Some t
      | None \<Rightarrow> parse_layout ''T'' ''Z'' s)"

section \<open>The calendar is a bijection\<close>

lemma year_from_bounds:
  "year_start y \<le> n \<Longrightarrow> year_start (year_from y n) \<le> n \<and> n < year_start (year_from y n + 1)"
proof (induction y n rule: year_from.induct)
  case (1 y n)
  then show ?case by (subst (1 2) year_from.simps) auto
qed

lemma year_estimate: "year_start (1970 + int k) \<le> 366 * int k"
proof (induction k)
  case 0
  then show ?case by (simp add: year_start_def)
next
  case (Suc k)
  then show ?case using year_length [of "1970 + int k"] by (simp add: algebra_simps split: if_splits)
qed

lemma year_of_day:
  assumes "0 \<le> n"
  shows "year_start (year_from (1970 + n div 366) n) \<le> n \<and> n < year_start (year_from (1970 + n div 366) n + 1)"
proof (rule year_from_bounds)
  have "year_start (1970 + int (nat (n div 366))) \<le> 366 * int (nat (n div 366))"
    by (rule year_estimate)
  moreover have "int (nat (n div 366)) = n div 366" using assms by (simp add: pos_imp_zdiv_nonneg_iff)
  ultimately show "year_start (1970 + n div 366) \<le> n" by simp
qed

lemma month_start_Suc: "1 \<le> m \<Longrightarrow> month_start (Suc m) y = month_start m y + daysIn (int m) y"
  by (cases m) auto

lemma month_start_year: "month_start (Suc 12) y = (if leap y then 366 else 365)"
  by (simp add: eval_nat_numeral daysIn_def)

declare month_start.simps(2) [simp del]

lemma month_from_bounds:
  "month_start m y \<le> r \<Longrightarrow> r < month_start (Suc (m + k)) y \<Longrightarrow>
   month_start (month_from k m y r) y \<le> r \<and> r < month_start (Suc (month_from k m y r)) y \<and>
   m \<le> month_from k m y r \<and> month_from k m y r \<le> m + k"
proof (induction k arbitrary: m)
  case (Suc k)
  show ?case
  proof (cases "month_start (Suc m) y \<le> r")
    case True
    with Suc.IH [of "Suc m"] Suc.prems(2) show ?thesis by simp
  next
    case False
    with Suc.prems(1) show ?thesis by simp
  qed
qed simp

lemma civil_correct:
  assumes "0 \<le> n" and c: "civil n = (y, m, d)"
  shows "1 \<le> m \<and> m \<le> 12 \<and> 1 \<le> d \<and> d \<le> daysIn m y \<and> days_from_civil y m d = n"
proof -
  define r where "r = n - year_start y"
  define k where "k = month_from 11 1 y r"
  have y: "y = year_from (1970 + n div 366) n" and m: "m = int k" and d: "d = r - month_start k y + 1"
    using c by (auto simp: civil_def Let_def r_def k_def)
  have "year_start y \<le> n \<and> n < year_start (y + 1)"
    using year_of_day [OF assms(1)] y by simp
  then have "0 \<le> r" and "r < month_start (Suc (1 + 11)) y"
    unfolding r_def using month_start_year [of y] by (auto simp: year_length split: if_splits)
  then have b: "month_start k y \<le> r" "r < month_start (Suc k) y" "1 \<le> k" "k \<le> 12"
    using month_from_bounds [of 1 y r 11] by (auto simp: k_def month_start.simps)
  then show ?thesis
    using month_start_Suc [OF b(3), of y]
    by (auto simp: m d r_def days_from_civil_def)
qed

section \<open>Printing is undone by reading\<close>

lemma dec_small: "n < 10 \<Longrightarrow> dec n = [char_of (48 + n)]"
  by (simp add: dec.simps)

lemma dec_step: "10 \<le> n \<Longrightarrow> dec n = dec (n div 10) @ [char_of (48 + n mod 10)]"
  by (subst dec.simps) simp

lemma pad2:
  assumes "0 \<le> i" "i < 100"
  shows "pad 2 i = [char_of (48 + nat i div 10), char_of (48 + nat i mod 10)]"
proof (cases "nat i < 10")
  case True
  moreover have "CHR ''0'' = char_of (48 :: nat)" by code_simp
  ultimately show ?thesis using assms by (simp add: pad_def itoa_def dec_small Let_def)
next
  case False
  then have "dec (nat i) = [char_of (48 + nat i div 10), char_of (48 + nat i mod 10)]"
    using assms by (simp add: dec_step dec_small)
  with assms show ?thesis by (simp add: pad_def itoa_def Let_def)
qed

lemma getnum_pad:
  assumes "0 \<le> i" "i < 100"
  shows "getnum b (pad 2 i @ rest) = Some (i, rest)"
proof -
  have "nat i div 10 < 10" "nat i mod 10 < 10" using assms by auto
  then show ?thesis
    using assms by (simp add: pad2 digit2_def)
qed

lemma undec_append: "undec (s @ t) = undec s * 10 ^ length t + undec t"
proof (induction t rule: rev_induct)
  case (snoc c t)
  then show ?case by (simp flip: append_assoc add: algebra_simps)
qed simp

lemma undec_zeros: "undec (replicate k (CHR ''0'')) = 0"
proof (induction k)
  case (Suc k)
  have "replicate (Suc k) (CHR ''0'') = replicate k (CHR ''0'') @ [CHR ''0'']"
    by (simp flip: replicate_append_same)
  with Suc show ?case by (simp add: digit_val_def)
qed simp

lemma length_dec: "n < 10 ^ Suc k \<Longrightarrow> length (dec n) \<le> Suc k"
proof (induction k arbitrary: n)
  case 0
  then show ?case by (simp add: dec_small)
next
  case (Suc k)
  show ?case
  proof (cases "n < 10")
    case True
    then show ?thesis by (simp add: dec_small)
  next
    case False
    with Suc.prems have "n div 10 < 10 ^ Suc k" by auto
    from Suc.IH [OF this] False show ?thesis by (simp add: dec_step)
  qed
qed

lemma getyear_pad:
  assumes "0 \<le> y" "y \<le> 9999"
  shows "getyear (pad 4 y @ rest) = Some (y, rest)"
proof -
  let ?s = "replicate (4 - length (dec (nat y))) (CHR ''0'') @ dec (nat y)"
  have "length (dec (nat y)) \<le> 4"
    using assms length_dec [of "nat y" 3] by simp
  then have len: "length ?s = 4" by simp
  have p: "pad 4 y = ?s" using assms by (simp add: pad_def itoa_def Let_def)
  have "undec ?s = nat y" by (simp add: undec_append undec_zeros)
  moreover have "list_all is_digit ?s"
    using dec_digits by (auto simp: list_all_iff is_digit_def)
  ultimately show ?thesis
    using len assms by (simp add: getyear_def p)
qed

lemma div_pos_bound:
  assumes "0 \<le> x" and "x < q * k" and "0 < (q :: int)"
  shows "0 \<le> x div q \<and> x div q \<le> k - 1"
proof -
  have "q * (x div q) \<le> x"
    using mult_div_mod_eq [of q x] pos_mod_sign [OF assms(3), of x] by linarith
  then have "q * (x div q) < q * k" using assms(2) by simp
  then have "x div q < k" using assms(3) by simp
  then show ?thesis using assms(1,3) by (simp add: pos_imp_zdiv_nonneg_iff)
qed

lemma skip_nil: "skip [] s = Some s"
  by simp

lemma skip_char: "p \<noteq> CHR '' '' \<Longrightarrow> skip [p] (p # s) = Some s"
  by simp

lemma skip_space: "s \<noteq> [] \<Longrightarrow> hd s \<noteq> CHR '' '' \<Longrightarrow> skip '' '' (CHR '' '' # s) = Some s"
  by (cases s) auto

lemma skip_space_T: "skip '' '' (CHR ''T'' # s) = None"
  by simp

declare skip.simps [simp del]

lemma pad2_hd: "0 \<le> i \<Longrightarrow> i < 100 \<Longrightarrow> pad 2 i @ r \<noteq> [] \<and> hd (pad 2 i @ r) \<noteq> CHR '' ''"
proof -
  assume i: "0 \<le> i" "i < 100"
  then have "is_digit (char_of (48 + nat i div 10))" by simp
  moreover have "\<not> is_digit (CHR '' '')" by (simp add: is_digit_def)
  ultimately have "char_of (48 + nat i div 10) \<noteq> CHR '' ''" by metis
  with i show ?thesis by (simp add: pad2)
qed

lemma year_start_mono: "year_start y < year_start (y + 1 + int k)"
proof (induction k)
  case 0
  then show ?case by (simp add: year_length)
next
  case (Suc k)
  have "year_start (y + 1 + int k) < year_start (y + 1 + int k + 1)" by (simp only: year_length) simp
  with Suc show ?case by (simp add: add.assoc)
qed

lemma year_start_le: "year_start a \<le> n \<Longrightarrow> n < year_start b \<Longrightarrow> a < b"
proof (rule ccontr)
  assume n: "year_start a \<le> n" "n < year_start b" and "\<not> a < b"
  then have "b = a \<or> a = b + 1 + int (nat (a - b - 1))" by auto
  then have "year_start b \<le> year_start a"
    using year_start_mono [of b "nat (a - b - 1)"] by auto
  with n show False by simp
qed

lemma civil_year:
  assumes "0 \<le> n" and "n < year_start 10000" and "civil n = (y, m, d)"
  shows "1970 \<le> y \<and> y \<le> 9999"
proof -
  have y: "year_start y \<le> n" "n < year_start (y + 1)"
    using year_of_day [OF assms(1)] assms(3) by (auto simp: civil_def Let_def)
  have "year_start 1970 \<le> n" using assms(1) by (simp add: year_start_def)
  then have "1970 < y + 1" using y(2) by (rule year_start_le)
  moreover have "y < 10000" using y(1) assms(2) by (rule year_start_le)
  ultimately show ?thesis by simp
qed

lemma daysIn_le: "daysIn m y \<le> 31"
  by (simp add: daysIn_def)

lemma getfrac_none: "getfrac s = (0, s)" if "s = [] \<or> s = ''Z''"
  using that by (auto simp: getfrac_def)

text \<open>\<open>u\<close> runs over the seconds from 1970 to the end of the year 9999.\<close>

definition in_calendar :: "int \<Rightarrow> bool" where
  "in_calendar u \<longleftrightarrow> 0 \<le> u \<and> u div 86400 < year_start 10000"

lemma seconds_split:
  "(u :: int) mod 86400 div 3600 * 3600 + u mod 3600 div 60 * 60 + u mod 60 = u mod 86400"
proof -
  have "u mod 86400 mod 3600 = u mod 3600" "u mod 3600 mod 60 = u mod 60"
    by (simp_all add: mod_mod_cancel)
  then show ?thesis
    using div_mult_mod_eq [of "u mod 86400" 3600] div_mult_mod_eq [of "u mod 3600" 60] by simp
qed

lemma parse_parts:
  assumes "(sep, suf) \<in> {('' '', []), (''T'', ''Z'')}"
    and "0 \<le> y" "y \<le> 9999" and "1 \<le> m" "m \<le> 12" and "1 \<le> d" "d \<le> daysIn m y"
    and "0 \<le> h" "h \<le> 23" and "0 \<le> mi" "mi \<le> 59" and "0 \<le> sc" "sc \<le> 59"
  shows "parse_layout sep suf
      (pad 4 y @ ''-'' @ pad 2 m @ ''-'' @ pad 2 d @ sep @ pad 2 h @ '':'' @ pad 2 mi @ '':'' @ pad 2 sc @ suf) =
    Some ((days_from_civil y m d * 86400 + h * 3600 + mi * 60 + sc) * Second)"
proof -
  have d: "0 \<le> d" "d < 100" using assms(6,7) daysIn_le [of m y] by auto
  have n: "getnum b (pad 2 m @ r) = Some (m, r)" "getnum b (pad 2 d @ r) = Some (d, r)"
    "getnum b (pad 2 h @ r) = Some (h, r)" "getnum b (pad 2 mi @ r) = Some (mi, r)"
    "getnum b (pad 2 sc @ r) = Some (sc, r)" for b r
    using assms d by (simp_all add: getnum_pad)
  have sp: "skip '' '' (CHR '' '' # pad 2 h @ r) = Some (pad 2 h @ r)" for r
    using pad2_hd [of h r] assms(8,9) by (intro skip_space) simp_all
  have n0: "getnum b (pad 2 sc) = Some (sc, [])" for b
    using n(5) [of b "[]"] by simp
  show ?thesis
    using assms(1)
    by (elim insertE emptyE)
      (simp_all add: parse_layout_def getyear_pad [OF assms(2,3)] n n0 sp skip_nil skip_char
        getfrac_none in_range_def assms(4-13))
qed

lemma parse_sqlite_T:
  assumes "0 \<le> y" "y \<le> 9999" and "1 \<le> m" "m \<le> 12" and "0 \<le> d" "d < 100"
  shows "parse_layout '' '' [] (pad 4 y @ ''-'' @ pad 2 m @ ''-'' @ pad 2 d @ ''T'' @ r) = None"
  using assms
  by (simp add: parse_layout_def getyear_pad getnum_pad skip_char skip_space_T in_range_def)

lemma parse_fmt:
  assumes "in_calendar u" and "(sep, suf) \<in> {('' '', []), (''T'', ''Z'')}"
  shows "parse_layout sep suf (fmt_layout sep suf u) = Some (u * Second)"
proof -
  obtain y m d where c: "civil (u div 86400) = (y, m, d)" by (metis prod_cases3)
  have n: "0 \<le> u div 86400" using assms(1) by (simp add: in_calendar_def pos_imp_zdiv_nonneg_iff)
  have cc: "1 \<le> m" "m \<le> 12" "1 \<le> d" "d \<le> daysIn m y" "days_from_civil y m d = u div 86400"
    using civil_correct [OF n c] by auto
  have y: "0 \<le> y" "y \<le> 9999" using civil_year [OF n _ c] assms(1) by (auto simp: in_calendar_def)
  define h mi sc where "h = u mod 86400 div 3600" and "mi = u mod 3600 div 60" and "sc = u mod 60"
  have h: "0 \<le> h" "h \<le> 23" and mi: "0 \<le> mi" "mi \<le> 59" and sc: "0 \<le> sc" "sc \<le> 59"
    using div_pos_bound [of "u mod 86400" 3600 24] div_pos_bound [of "u mod 3600" 60 60]
    by (simp_all add: h_def mi_def sc_def)
  have "h * 3600 + mi * 60 + sc = u mod 86400"
    unfolding h_def mi_def sc_def by (rule seconds_split)
  then have "days_from_civil y m d * 86400 + h * 3600 + mi * 60 + sc = u"
    unfolding cc(5) using div_mult_mod_eq [of u 86400] by linarith
  then show ?thesis
    using parse_parts [OF assms(2) y cc(1-4) h mi sc]
    by (simp add: fmt_layout_def c h_def mi_def sc_def)
qed

text \<open>Both forms that the server writes are read back as the instant they stand for.\<close>

lemma parse_timestamp_fmt:
  assumes "in_calendar u"
  shows "parse_timestamp (fmt_sqlite u) = Some (u * Second)"
    and "parse_timestamp (fmt_iso u) = Some (u * Second)"
proof -
  show "parse_timestamp (fmt_sqlite u) = Some (u * Second)"
    using parse_fmt [OF assms, of "'' ''" "[]"] by (simp add: parse_timestamp_def fmt_sqlite_def)
  show "parse_timestamp (fmt_iso u) = Some (u * Second)"
  proof -
    obtain y m d where c: "civil (u div 86400) = (y, m, d)" by (metis prod_cases3)
    have n: "0 \<le> u div 86400" using assms by (simp add: in_calendar_def pos_imp_zdiv_nonneg_iff)
    have "1 \<le> m" "m \<le> 12" "0 \<le> d" "d < 100"
      using civil_correct [OF n c] daysIn_le [of m y] by auto
    moreover have "0 \<le> y" "y \<le> 9999" using civil_year [OF n _ c] assms by (auto simp: in_calendar_def)
    ultimately have "parse_layout '' '' [] (fmt_iso u) = None"
      using parse_sqlite_T by (simp add: fmt_iso_def fmt_layout_def c)
    then show ?thesis
      using parse_fmt [OF assms, of "''T''" "''Z''"] by (simp add: parse_timestamp_def fmt_iso_def)
  qed
qed

end
