(* ===== verification/ChannelQueries.thy ===== *)
theory ChannelQueries
  imports Models Permissions Timestamps "HOL-Library.List_Lexorder" "HOL-Library.Char_ord"
begin

text \<open>
  The queries of \<^verbatim>\<open>db/channel_queries.go\<close> and \<^verbatim>\<open>db/role_queries.go\<close>, and the audit
  log. A pointer result \<^verbatim>\<open>(nil, nil)\<close> for a missing row is \<open>Inr None\<close>. The optional text
  columns are read with COALESCE, so the empty string stands for NULL. The
  \<^verbatim>\<open>permissions.DB\<close> interface of the checker is interpreted here.
\<close>

section \<open>Roles\<close>

definition GetRoleByID :: "int64 \<Rightarrow> ('z database_scheme, db_error + Role option) state" where
  "GetRoleByID rid = query (\<lambda>s. List.find (\<lambda>r. r_ID r = rid) (roles s))"

definition ListRoles :: "('z database_scheme, db_error + Role list) state" where
  "ListRoles = query (\<lambda>s. sort_key (\<lambda>r. - r_Position r) (roles s))"

section \<open>Channels\<close>

definition ListChannels :: "('z database_scheme, db_error + Channel list) state" where
  "ListChannels = query (\<lambda>s. sort_key c_Position (sort_key c_ID (channels s)))"

definition GetChannel :: "int64 \<Rightarrow> ('z database_scheme, db_error + Channel option) state" where
  "GetChannel cid = query (\<lambda>s. List.find (\<lambda>c. c_ID c = cid) (channels s))"

text \<open>A row of \<^verbatim>\<open>channels\<close> with the column defaults of the schema.\<close>

definition new_channel :: "int64 \<Rightarrow> string \<Rightarrow> string \<Rightarrow> string \<Rightarrow> string \<Rightarrow> int \<Rightarrow> int \<Rightarrow> Channel" where
  "new_channel cid name ty category topic position now =
     \<lparr>c_ID = cid, c_Name = name, c_Type = ty, c_Category = category, c_Topic = topic, c_Position = position,
      c_SlowMode = 0, c_Archived = False, c_CreatedAt = fmt_sqlite now, c_VoiceMaxUsers = 0,
      c_VoiceQuality = None, c_MixingThreshold = None, c_VoiceMaxVideo = 25\<rparr>"

definition insert_channel ::
  "string \<Rightarrow> string \<Rightarrow> string \<Rightarrow> string \<Rightarrow> int \<Rightarrow> int \<Rightarrow> 'z database_scheme \<Rightarrow> db_error + int64 \<times> 'z database_scheme" where
  "insert_channel name ty category topic position now s =
     (let cid = channels_seq s + 1
      in Inr (cid, s\<lparr>channels := channels s @ [new_channel cid name ty category topic position now],
                    channels_seq := cid\<rparr>))"

definition CreateChannel ::
  "string \<Rightarrow> string \<Rightarrow> string \<Rightarrow> string \<Rightarrow> int \<Rightarrow> ('z database_scheme, db_error + int64) state" where
  "CreateChannel name ty category topic position = exec (insert_channel name ty category topic position)"

definition UpdateChannel :: "int64 \<Rightarrow> string \<Rightarrow> string \<Rightarrow> int \<Rightarrow> ('z database_scheme, db_error + unit) state" where
  "UpdateChannel cid name topic slowMode = execute (\<lambda>now s.
     s\<lparr>channels := upd_where (\<lambda>c. c_ID c = cid)
        (\<lambda>c. c\<lparr>c_Name := name, c_Topic := topic, c_SlowMode := slowMode\<rparr>) (channels s)\<rparr>)"

definition SetChannelSlowMode :: "int64 \<Rightarrow> int \<Rightarrow> ('z database_scheme, db_error + unit) state" where
  "SetChannelSlowMode cid slowMode = execute (\<lambda>now s.
     s\<lparr>channels := upd_where (\<lambda>c. c_ID c = cid) (\<lambda>c. c\<lparr>c_SlowMode := slowMode\<rparr>) (channels s)\<rparr>)"

definition SetChannelVoiceMaxUsers :: "int64 \<Rightarrow> int \<Rightarrow> ('z database_scheme, db_error + unit) state" where
  "SetChannelVoiceMaxUsers cid maxUsers = execute (\<lambda>now s.
     s\<lparr>channels := upd_where (\<lambda>c. c_ID c = cid) (\<lambda>c. c\<lparr>c_VoiceMaxUsers := maxUsers\<rparr>) (channels s)\<rparr>)"

text \<open>
  Deleting the row cascades: overrides, messages (with their reactions and
  attachments), read states, voice states and DM rows of the channel go, and replies
  from elsewhere to a deleted message lose their reference.
\<close>

definition delete_channel_cascade :: "int64 \<Rightarrow> 'z database_scheme \<Rightarrow> 'z database_scheme" where
  "delete_channel_cascade cid s =
     (let gone = map m_ID (filter (\<lambda>m. m_ChannelID m = cid) (messages s))
      in s\<lparr>channels := filter (\<lambda>c. c_ID c \<noteq> cid) (channels s),
           channel_overrides := filter (\<lambda>ov. ov_channel ov \<noteq> cid) (channel_overrides s),
           messages := map (\<lambda>m. if (case m_ReplyTo m of None \<Rightarrow> False | Some r \<Rightarrow> r \<in> set gone)
                                then m\<lparr>m_ReplyTo := None\<rparr> else m)
                         (filter (\<lambda>m. m_ChannelID m \<noteq> cid) (messages s)),
           reactions := filter (\<lambda>x. rx_message x \<notin> set gone) (reactions s),
           attachments := filter (\<lambda>a. \<not> (case a_MessageID a of None \<Rightarrow> False | Some i \<Rightarrow> i \<in> set gone)) (attachments s),
           read_states := filter (\<lambda>r. rs_channel r \<noteq> cid) (read_states s),
           voice_states := filter (\<lambda>v. vr_channel v \<noteq> cid) (voice_states s),
           dm_participants := filter (\<lambda>p. fst p \<noteq> cid) (dm_participants s),
           dm_open_state := filter (\<lambda>d. do_channel d \<noteq> cid) (dm_open_state s)\<rparr>)"

definition DeleteChannel :: "int64 \<Rightarrow> ('z database_scheme, db_error + unit) state" where
  "DeleteChannel cid = execute (\<lambda>now s. delete_channel_cascade cid s)"

text \<open>The admin variants of \<^verbatim>\<open>db/admin_queries.go\<close>.\<close>

definition AdminCreateChannel ::
  "string \<Rightarrow> string \<Rightarrow> string \<Rightarrow> string \<Rightarrow> int \<Rightarrow> ('z database_scheme, db_error + int64) state" where
  "AdminCreateChannel name ty category topic position = exec (insert_channel name ty category topic position)"

definition AdminUpdateChannel ::
  "int64 \<Rightarrow> string \<Rightarrow> string \<Rightarrow> int \<Rightarrow> int \<Rightarrow> bool \<Rightarrow> ('z database_scheme, db_error + unit) state" where
  "AdminUpdateChannel cid name topic slowMode position archived = execute (\<lambda>now s.
     s\<lparr>channels := upd_where (\<lambda>c. c_ID c = cid)
        (\<lambda>c. c\<lparr>c_Name := name, c_Topic := topic, c_SlowMode := slowMode, c_Position := position, c_Archived := archived\<rparr>)
        (channels s)\<rparr>)"

definition AdminDeleteChannel :: "int64 \<Rightarrow> ('z database_scheme, db_error + unit) state" where
  "AdminDeleteChannel cid = execute (\<lambda>now s. delete_channel_cascade cid s)"

section \<open>Overrides\<close>

definition overrides_of :: "'z database_scheme \<Rightarrow> int64 \<Rightarrow> int64 \<Rightarrow> perms \<times> perms" where
  "overrides_of s channelID roleID =
     (case List.find (\<lambda>ov. ov_channel ov = channelID \<and> ov_role ov = roleID) (channel_overrides s) of
        None \<Rightarrow> (0, 0) | Some ov \<Rightarrow> (ov_allow ov, ov_deny ov))"

definition GetChannelPermissions ::
  "int64 \<Rightarrow> int64 \<Rightarrow> ('z database_scheme, db_error + perms \<times> perms) state" where
  "GetChannelPermissions channelID roleID = query (\<lambda>s. overrides_of s channelID roleID)"

fun collect_overrides :: "OverrideRow list \<Rightarrow> (int64, ChannelOverride) mapping \<Rightarrow> (int64, ChannelOverride) mapping" where
  "collect_overrides [] result = result"
| "collect_overrides (ov # rows) result =
     collect_overrides rows
       (Mapping.update (ov_channel ov) \<lparr>Allow_bits = ov_allow ov, Deny_bits = ov_deny ov\<rparr> result)"

definition GetAllChannelPermissionsForRole ::
  "int64 \<Rightarrow> ('z database_scheme, db_error + (int64, ChannelOverride) mapping) state" where
  "GetAllChannelPermissionsForRole roleID =
     query (\<lambda>s. collect_overrides (filter (\<lambda>ov. ov_role ov = roleID) (channel_overrides s)) Mapping.empty)"

definition GetChannelTypes :: "int64 list \<Rightarrow> ('z database_scheme, db_error + (int64, string) mapping) state" where
  "GetChannelTypes ids =
     (if ids = [] then return (Inr Mapping.empty)
      else query (\<lambda>s. fold (\<lambda>c r. Mapping.update (c_ID c) (c_Type c) r)
                        (filter (\<lambda>c. c_ID c \<in> set ids) (channels s)) Mapping.empty))"

section \<open>DM participants\<close>

definition is_participant :: "'z database_scheme \<Rightarrow> int64 \<Rightarrow> int64 \<Rightarrow> bool" where
  "is_participant s userID channelID \<longleftrightarrow> (channelID, userID) \<in> set (dm_participants s)"

definition IsDMParticipant :: "int64 \<Rightarrow> int64 \<Rightarrow> ('z database_scheme, db_error + bool) state" where
  "IsDMParticipant userID channelID = query (\<lambda>s. is_participant s userID channelID)"

definition GetDMParticipantIDs :: "int64 \<Rightarrow> ('z database_scheme, db_error + int64 list) state" where
  "GetDMParticipantIDs channelID = query (\<lambda>s. map snd (filter (\<lambda>p. fst p = channelID) (dm_participants s)))"

section \<open>Audit log\<close>

definition LogAudit ::
  "int64 \<Rightarrow> string \<Rightarrow> string \<Rightarrow> int64 \<Rightarrow> string \<Rightarrow> ('z database_scheme, db_error + unit) state" where
  "LogAudit actorID action targetType targetID detail = execute (\<lambda>now s.
     s\<lparr>audit_log := audit_log s @ [\<lparr>au_ID = audit_seq s + 1, au_actor = actorID, au_action = action,
          au_target_type = targetType, au_target_id = targetID, au_detail = detail, au_created = fmt_sqlite now\<rparr>],
       audit_seq := audit_seq s + 1\<rparr>)"

section \<open>The checker runs on this database\<close>

text \<open>The stored overrides have at most one row per channel and role (UNIQUE(channel_id, role_id)).\<close>

definition overrides_unique :: "'z database_scheme \<Rightarrow> bool" where
  "overrides_unique s \<longleftrightarrow> distinct (map (\<lambda>ov. (ov_channel ov, ov_role ov)) (channel_overrides s))"

lemma overrides_of_tick [simp]: "overrides_of (tick s) = overrides_of s"
  by (rule ext)+ (simp add: overrides_of_def)

lemma is_participant_tick [simp]: "is_participant (tick s) = is_participant s"
  by (rule ext)+ (simp add: is_participant_def)

interpretation db_perms: permission_db GetChannelPermissions IsDMParticipant overrides_of is_participant
  by unfold_locales (simp_all add: GetChannelPermissions_def IsDMParticipant_def query_def exec_def split: if_splits)

lemma lookup_collect_notin:
  "ch \<notin> ov_channel ` set rows \<Longrightarrow> Mapping.lookup (collect_overrides rows m) ch = Mapping.lookup m ch"
  by (induction rows m rule: collect_overrides.induct) auto

lemma lookup_collect:
  "distinct (map ov_channel rows) \<Longrightarrow>
   Mapping.lookup (collect_overrides rows m) ch =
     (case List.find (\<lambda>ov. ov_channel ov = ch) rows of
        None \<Rightarrow> Mapping.lookup m ch
      | Some ov \<Rightarrow> Some \<lparr>Allow_bits = ov_allow ov, Deny_bits = ov_deny ov\<rparr>)"
proof (induction rows m rule: collect_overrides.induct)
  case (2 ov rows m)
  then show ?case
    by (auto simp: lookup_collect_notin image_iff lookup_update' split: option.split)
qed simp

lemma find_filter: "List.find P (filter Q xs) = List.find (\<lambda>x. P x \<and> Q x) xs"
  by (induction xs) auto

lemma distinct_channels_of_role:
  "distinct (map (\<lambda>ov. (ov_channel ov, ov_role ov)) ovs) \<Longrightarrow>
   distinct (map ov_channel (filter (\<lambda>ov. ov_role ov = role) ovs))"
  by (induction ovs) auto

lemma all_overrides_lookup:
  assumes "overrides_unique s" and "fst (run_state (GetAllChannelPermissionsForRole role) s0) = Inr m"
    and "channel_overrides s0 = channel_overrides s"
  shows "(case Mapping.lookup m ch of None \<Rightarrow> (0, 0) | Some ov \<Rightarrow> (Allow_bits ov, Deny_bits ov)) = overrides_of s ch role"
proof -
  have "m = collect_overrides (filter (\<lambda>ov. ov_role ov = role) (channel_overrides s)) Mapping.empty"
    using assms(2,3) by (auto simp: GetAllChannelPermissionsForRole_def dest!: query_result)
  moreover have "distinct (map ov_channel (filter (\<lambda>ov. ov_role ov = role) (channel_overrides s)))"
    using assms(1) by (simp add: overrides_unique_def distinct_channels_of_role)
  ultimately show ?thesis
    by (simp add: lookup_collect find_filter overrides_of_def split: option.split)
qed

text \<open>
  C5: the bulk check agrees with the single check. With the overrides of a role
  fetched once by \<open>GetAllChannelPermissionsForRole\<close>, \<open>HasChannelPermBatch\<close> gives
  on every channel the answer of \<open>HasChannelPerm\<close>, which queries the channel's
  override, as long as that query does not fail.
\<close>
theorem batch_agrees_with_single:
  assumes "overrides_unique s" and "fst (run_state (GetAllChannelPermissionsForRole role) s) = Inr m"
    and "\<forall>e. fst (run_state (GetChannelPermissions ch role) s) \<noteq> Inl e"
  shows "HasChannelPermBatch rolePerms m ch perm =
         fst (run_state (HasChannelPerm GetChannelPermissions rolePerms role ch perm) s)"
  using db_perms.HasChannelPerm_batch [OF assms(3) all_overrides_lookup [OF assms(1,2) refl]] .

theorem batch_agrees_with_single_witness:
  "HasChannelPermBatch 0x3 (collect_overrides [\<lparr>ov_channel = 7, ov_role = 4, ov_allow = 0, ov_deny = 0x1\<rparr>] Mapping.empty) 7 0x2 =
     fst (run_state (HasChannelPerm GetChannelPermissions 0x3 4 7 0x2)
       (initial_db\<lparr>channel_overrides := [\<lparr>ov_channel = 7, ov_role = 4, ov_allow = 0, ov_deny = 0x1\<rparr>]\<rparr>))"
  by (rule batch_agrees_with_single)
    (simp_all add: overrides_unique_def GetAllChannelPermissionsForRole_def GetChannelPermissions_def
       query_def exec_def initial_db_def)

end
