(* ===== verification/MessageQueries.thy ===== *)
theory MessageQueries
  imports ChannelQueries
begin

text \<open>
  The queries of \<^verbatim>\<open>db/message_queries.go\<close> and \<^verbatim>\<open>db/attachment_queries.go\<close>. A statement
  fails on a foreign key whose row is missing (the connection runs with
  \<^verbatim>\<open>PRAGMA foreign_keys=ON\<close>) and on a duplicate key. Full-text search is the FTS5
  module of SQLite: its answer, the matching row ids by rank or a syntax error, is a
  parameter.
\<close>

section \<open>Messages\<close>

definition insert_message ::
  "int64 \<Rightarrow> int64 \<Rightarrow> string \<Rightarrow> int64 option \<Rightarrow> int \<Rightarrow> 'z database_scheme \<Rightarrow> db_error + int64 \<times> 'z database_scheme" where
  "insert_message channelID userID content replyTo now s =
     (let mid = messages_seq s + 1
      in if has_channel s channelID \<and> has_user s userID \<and>
            (case replyTo of None \<Rightarrow> True | Some r \<Rightarrow> r = mid \<or> has_message s r)
         then Inr (mid, s\<lparr>messages := messages s @ [\<lparr>m_ID = mid, m_ChannelID = channelID, m_UserID = userID,
                m_Content = content, m_ReplyTo = replyTo, m_EditedAt = None, m_Deleted = False,
                m_Pinned = False, m_Timestamp = fmt_sqlite now\<rparr>], messages_seq := mid\<rparr>)
         else Inl ErrForeignKey)"

definition CreateMessage ::
  "int64 \<Rightarrow> int64 \<Rightarrow> string \<Rightarrow> int64 option \<Rightarrow> ('z database_scheme, db_error + int64) state" where
  "CreateMessage channelID userID content replyTo = exec (insert_message channelID userID content replyTo)"

definition find_message :: "'z database_scheme \<Rightarrow> int64 \<Rightarrow> Message option" where
  "find_message s i = List.find (\<lambda>m. m_ID m = i) (messages s)"

definition GetMessage :: "int64 \<Rightarrow> ('z database_scheme, db_error + Message option) state" where
  "GetMessage i = query (\<lambda>s. find_message s i)"

text \<open>The live messages of a channel, newest first, optionally below an id.\<close>

definition channel_page :: "int64 \<Rightarrow> int64 \<Rightarrow> 'z database_scheme \<Rightarrow> Message list" where
  "channel_page channelID before s =
     sort_key (\<lambda>m. - m_ID m)
       (filter (\<lambda>m. m_ChannelID m = channelID \<and> (before > 0 \<longrightarrow> m_ID m < before) \<and> \<not> m_Deleted m) (messages s))"

text \<open>\<^verbatim>\<open>JOIN users u ON m.user_id = u.id\<close>.\<close>

definition join_user :: "'z database_scheme \<Rightarrow> Message list \<Rightarrow> (Message \<times> User) list" where
  "join_user s ms = concat (map (\<lambda>m. map (\<lambda>u. (m, u)) (filter (\<lambda>u. u_ID u = m_UserID m) (users s))) ms)"

definition scanMessageWithUser :: "Message \<times> User \<Rightarrow> MessageWithUser" where
  "scanMessageWithUser r = (case r of (m, u) \<Rightarrow> Message.extend m (MessageWithUser.fields (u_Username u) (u_Avatar u)))"

definition GetMessages ::
  "int64 \<Rightarrow> int64 \<Rightarrow> int \<Rightarrow> ('z database_scheme, db_error + MessageWithUser list) state" where
  "GetMessages channelID before limit = query (\<lambda>s.
     map scanMessageWithUser (sql_limit limit (join_user s (channel_page channelID before s))))"

definition EditMessage :: "int64 \<Rightarrow> int64 \<Rightarrow> string \<Rightarrow> ('z database_scheme, db_error + unit) state" where
  "EditMessage i userID content =
     bind_ok (GetMessage i) (\<lambda>msg. case msg of
         None \<Rightarrow> return (Inl ErrNotFound)
       | Some m \<Rightarrow>
           if m_UserID m \<noteq> userID then return (Inl ErrForbidden)
           else execute (\<lambda>now s. s\<lparr>messages := upd_where (\<lambda>m. m_ID m = i)
                  (\<lambda>m. m\<lparr>m_Content := content, m_EditedAt := Some (fmt_sqlite now)\<rparr>) (messages s)\<rparr>))"

definition DeleteMessage :: "int64 \<Rightarrow> int64 \<Rightarrow> bool \<Rightarrow> ('z database_scheme, db_error + unit) state" where
  "DeleteMessage i userID ismod =
     bind_ok (GetMessage i) (\<lambda>msg. case msg of
         None \<Rightarrow> return (Inl ErrNotFound)
       | Some m \<Rightarrow>
           if \<not> ismod \<and> m_UserID m \<noteq> userID then return (Inl ErrForbidden)
           else execute (\<lambda>now s. s\<lparr>messages := upd_where (\<lambda>m. m_ID m = i) (\<lambda>m. m\<lparr>m_Deleted := True\<rparr>) (messages s)\<rparr>))"

definition SetMessagePinned :: "int64 \<Rightarrow> bool \<Rightarrow> ('z database_scheme, db_error + unit) state" where
  "SetMessagePinned i pinned =
     bind_ok (exec (\<lambda>now s. Inr (length (filter (\<lambda>m. m_ID m = i \<and> \<not> m_Deleted m) (messages s)),
         s\<lparr>messages := upd_where (\<lambda>m. m_ID m = i \<and> \<not> m_Deleted m) (\<lambda>m. m\<lparr>m_Pinned := pinned\<rparr>) (messages s)\<rparr>)))
       (\<lambda>n. if n = 0 then return (Inl ErrNotFound) else return (Inr ()))"

section \<open>Reactions\<close>

definition insert_reaction ::
  "int64 \<Rightarrow> int64 \<Rightarrow> string \<Rightarrow> int \<Rightarrow> 'z database_scheme \<Rightarrow> db_error + unit \<times> 'z database_scheme" where
  "insert_reaction messageID userID emoji now s =
     (let r = \<lparr>rx_message = messageID, rx_user = userID, rx_emoji = emoji\<rparr>
      in if r \<in> set (reactions s) then Inl ErrUnique
         else if has_message s messageID \<and> has_user s userID then Inr ((), s\<lparr>reactions := reactions s @ [r]\<rparr>)
         else Inl ErrForeignKey)"

definition AddReaction :: "int64 \<Rightarrow> int64 \<Rightarrow> string \<Rightarrow> ('z database_scheme, db_error + unit) state" where
  "AddReaction messageID userID emoji = exec (insert_reaction messageID userID emoji)"

definition RemoveReaction :: "int64 \<Rightarrow> int64 \<Rightarrow> string \<Rightarrow> ('z database_scheme, db_error + unit) state" where
  "RemoveReaction messageID userID emoji =
     bind_ok (exec (\<lambda>now s.
         let r = \<lparr>rx_message = messageID, rx_user = userID, rx_emoji = emoji\<rparr>
         in Inr (count_list (reactions s) r, s\<lparr>reactions := filter (\<lambda>x. x \<noteq> r) (reactions s)\<rparr>)))
       (\<lambda>n. if n = 0 then return (Inl ErrNotFound) else return (Inr ()))"

text \<open>\<^verbatim>\<open>GROUP BY emoji\<close>: SQLite emits the groups in the order of the key.\<close>

definition emojis_of :: "int64 \<Rightarrow> 'z database_scheme \<Rightarrow> string list" where
  "emojis_of messageID s = sort (remdups (map rx_emoji (filter (\<lambda>x. rx_message x = messageID) (reactions s))))"

definition count_reactions :: "int64 \<Rightarrow> string \<Rightarrow> 'z database_scheme \<Rightarrow> int" where
  "count_reactions messageID emoji s =
     int (length (filter (\<lambda>x. rx_message x = messageID \<and> rx_emoji x = emoji) (reactions s)))"

definition GetReactions :: "int64 \<Rightarrow> ('z database_scheme, db_error + ReactionCount list) state" where
  "GetReactions messageID = query (\<lambda>s.
     map (\<lambda>e. \<lparr>rc_Emoji = e, rc_Count = count_reactions messageID e s, rc_MeReacted = False\<rparr>) (emojis_of messageID s))"

definition reaction_rows :: "int64 list \<Rightarrow> int64 \<Rightarrow> 'z database_scheme \<Rightarrow> (int64 \<times> ReactionInfo) list" where
  "reaction_rows msgIDs requestingUserID s =
     concat (map (\<lambda>i. map (\<lambda>e. (i, \<lparr>ri_Emoji = e, ri_Count = count_reactions i e s,
                ri_Me = (\<lparr>rx_message = i, rx_user = requestingUserID, rx_emoji = e\<rparr> \<in> set (reactions s))\<rparr>))
              (emojis_of i s))
       (sort (remdups msgIDs)))"

definition getReactionsBatch ::
  "int64 list \<Rightarrow> int64 \<Rightarrow> ('z database_scheme, db_error + (int64, ReactionInfo list) mapping) state" where
  "getReactionsBatch msgIDs requestingUserID =
     (if msgIDs = [] then return (Inr Mapping.empty)
      else query (\<lambda>s. fold (\<lambda>(i, ri). append_at i ri) (reaction_rows msgIDs requestingUserID s) Mapping.empty))"

section \<open>Attachments\<close>

definition CreateAttachment ::
  "string \<Rightarrow> string \<Rightarrow> string \<Rightarrow> string \<Rightarrow> int64 \<Rightarrow> int option \<Rightarrow> int option \<Rightarrow> ('z database_scheme, db_error + unit) state" where
  "CreateAttachment i filename storedAs mimeType sz width height = exec (\<lambda>now s.
     if i \<in> a_ID ` set (attachments s) then Inl ErrUnique
     else Inr ((), s\<lparr>attachments := attachments s @ [\<lparr>a_ID = i, a_MessageID = None, a_Filename = filename,
            a_StoredAs = storedAs, a_MimeType = mimeType, a_Size = sz, a_UploadedAt = fmt_sqlite now,
            a_Width = width, a_Height = height\<rparr>]\<rparr>))"

definition GetAttachmentByID :: "string \<Rightarrow> ('z database_scheme, db_error + Attachment option) state" where
  "GetAttachmentByID i = query (\<lambda>s. map_option Attachment.truncate (List.find (\<lambda>a. a_ID a = i) (attachments s)))"

definition link_attachments ::
  "int64 \<Rightarrow> string list \<Rightarrow> 'z database_scheme \<Rightarrow> db_error + int64 \<times> 'z database_scheme" where
  "link_attachments messageID attachmentIDs s =
     (let P = (\<lambda>a. a_ID a \<in> set attachmentIDs \<and> a_MessageID a = None);
          n = length (filter P (attachments s))
      in if n > 0 \<and> \<not> has_message s messageID then Inl ErrForeignKey
         else Inr (int n, s\<lparr>attachments := upd_where P (\<lambda>a. a\<lparr>a_MessageID := Some messageID\<rparr>) (attachments s)\<rparr>))"

definition LinkAttachmentsToMessage :: "int64 \<Rightarrow> string list \<Rightarrow> ('z database_scheme, db_error + int64) state" where
  "LinkAttachmentsToMessage messageID attachmentIDs =
     (if attachmentIDs = [] then return (Inr 0)
      else exec (\<lambda>now. link_attachments messageID attachmentIDs))"

definition attachment_info :: "AttachmentRow \<Rightarrow> AttachmentInfo" where
  "attachment_info a = \<lparr>ai_ID = a_ID a, ai_Filename = a_Filename a, ai_Size = a_Size a, ai_Mime = a_MimeType a,
     ai_URL = ''/api/v1/files/'' @ a_ID a, ai_Width = a_Width a, ai_Height = a_Height a\<rparr>"

definition attachment_rows :: "int64 list \<Rightarrow> 'z database_scheme \<Rightarrow> (int64 \<times> AttachmentInfo) list" where
  "attachment_rows msgIDs s = concat (map (\<lambda>a. case a_MessageID a of
       None \<Rightarrow> [] | Some i \<Rightarrow> if i \<in> set msgIDs then [(i, attachment_info a)] else []) (attachments s))"

definition GetAttachmentsByMessageIDs ::
  "int64 list \<Rightarrow> ('z database_scheme, db_error + (int64, AttachmentInfo list) mapping) state" where
  "GetAttachmentsByMessageIDs msgIDs =
     (if msgIDs = [] then return (Inr Mapping.empty)
      else query (\<lambda>s. fold (\<lambda>(i, ai). append_at i ai) (attachment_rows msgIDs s) Mapping.empty))"

definition orphaned :: "string \<Rightarrow> AttachmentRow \<Rightarrow> bool" where
  "orphaned cutoff a \<longleftrightarrow> a_MessageID a = None \<and> a_UploadedAt a < cutoff"

definition DeleteOrphanedAttachments :: "string \<Rightarrow> ('z database_scheme, db_error + string list) state" where
  "DeleteOrphanedAttachments cutoff =
     bind_ok (query (\<lambda>s. map a_StoredAs (filter (orphaned cutoff) (attachments s)))) (\<lambda>files.
       if files \<noteq> []
       then bind_ok (execute (\<lambda>now s. s\<lparr>attachments := filter (\<lambda>a. \<not> orphaned cutoff a) (attachments s)\<rparr>))
              (\<lambda>_. return (Inr files))
       else return (Inr files))"

section \<open>Messages in the shape of the API\<close>

definition scan_api_message :: "Message \<times> User \<Rightarrow> MessageAPIResponse" where
  "scan_api_message r = (case r of (m, u) \<Rightarrow>
     \<lparr>mr_ID = m_ID m, mr_ChannelID = m_ChannelID m,
      mr_User = \<lparr>up_ID = m_UserID m, up_Username = u_Username u, up_Avatar = u_Avatar u\<rparr>,
      mr_Content = m_Content m, mr_ReplyTo = m_ReplyTo m, mr_Attachments = [], mr_Reactions = [],
      mr_Pinned = m_Pinned m, mr_EditedAt = m_EditedAt m, mr_Deleted = m_Deleted m, mr_Timestamp = m_Timestamp m\<rparr>)"

definition with_reactions :: "(int64, ReactionInfo list) mapping \<Rightarrow> MessageAPIResponse \<Rightarrow> MessageAPIResponse" where
  "with_reactions reactMap m =
     (case Mapping.lookup reactMap (mr_ID m) of None \<Rightarrow> m | Some r \<Rightarrow> m\<lparr>mr_Reactions := r\<rparr>)"

definition with_attachments :: "(int64, AttachmentInfo list) mapping \<Rightarrow> MessageAPIResponse \<Rightarrow> MessageAPIResponse" where
  "with_attachments attMap m =
     (case Mapping.lookup attMap (mr_ID m) of None \<Rightarrow> m | Some a \<Rightarrow> m\<lparr>mr_Attachments := a\<rparr>)"

definition scanAndEnrichMessages ::
  "(Message \<times> User) list \<Rightarrow> int64 \<Rightarrow> ('z database_scheme, db_error + MessageAPIResponse list) state" where
  "scanAndEnrichMessages rows requestingUserID =
     (let msgs = map scan_api_message rows; msgIDs = map mr_ID msgs
      in if msgs = [] then return (Inr [])
         else bind_ok (getReactionsBatch msgIDs requestingUserID) (\<lambda>reactMap.
                bind_ok (GetAttachmentsByMessageIDs msgIDs) (\<lambda>attMap.
                  return (Inr (map (with_attachments attMap) (map (with_reactions reactMap) msgs))))))"

definition GetMessagesForAPI ::
  "int64 \<Rightarrow> int64 \<Rightarrow> int \<Rightarrow> int64 \<Rightarrow> ('z database_scheme, db_error + MessageAPIResponse list) state" where
  "GetMessagesForAPI channelID before limit requestingUserID =
     bind_ok (query (\<lambda>s. sql_limit limit (join_user s (channel_page channelID before s))))
       (\<lambda>rows. scanAndEnrichMessages rows requestingUserID)"

definition GetPinnedMessages :: "int64 \<Rightarrow> int64 \<Rightarrow> ('z database_scheme, db_error + MessageAPIResponse list) state" where
  "GetPinnedMessages channelID requestingUserID =
     bind_ok (query (\<lambda>s. join_user s (filter m_Pinned (channel_page channelID 0 s))))
       (\<lambda>rows. scanAndEnrichMessages rows requestingUserID)"

section \<open>Full-text search\<close>

record MessageSearchResult =
  sr_MessageID :: int64
  sr_ChannelID :: int64
  sr_ChannelName :: string
  sr_User :: UserPublic
  sr_Content :: string
  sr_Timestamp :: string

text \<open>
  \<open>fts text rows\<close> is \<^verbatim>\<open>messages_fts MATCH text ORDER BY rank\<close> over the indexed rows: the
  ids that match, by rank, or the error of a malformed query. The index holds the
  content of every row of \<^verbatim>\<open>messages\<close>, which its triggers maintain.
\<close>

definition search_row :: "'z database_scheme \<Rightarrow> int64 option \<Rightarrow> int64 \<Rightarrow> MessageSearchResult list" where
  "search_row s channelID i =
     concat (map (\<lambda>(m, u). map (\<lambda>c. \<lparr>sr_MessageID = m_ID m, sr_ChannelID = m_ChannelID m, sr_ChannelName = c_Name c,
          sr_User = \<lparr>up_ID = u_ID u, up_Username = u_Username u, up_Avatar = u_Avatar u\<rparr>,
          sr_Content = m_Content m, sr_Timestamp = m_Timestamp m\<rparr>)
          (filter (\<lambda>c. c_ID c = m_ChannelID m) (channels s)))
       (join_user s (filter (\<lambda>m. m_ID m = i \<and> \<not> m_Deleted m \<and>
            (case channelID of None \<Rightarrow> True | Some ch \<Rightarrow> m_ChannelID m = ch)) (messages s))))"

definition SearchMessages ::
  "(string \<Rightarrow> (int64 \<times> string) list \<Rightarrow> db_error + int64 list) \<Rightarrow> string \<Rightarrow> int64 option \<Rightarrow> int \<Rightarrow>
   ('z database_scheme, db_error + MessageSearchResult list) state" where
  "SearchMessages fts text channelID limit =
     (if text = [] then return (Inr []) else if limit < 1 then return (Inr [])
      else exec (\<lambda>now s. case fts text (map (\<lambda>m. (m_ID m, m_Content m)) (messages s)) of
               Inl e \<Rightarrow> Inl e
             | Inr ids \<Rightarrow> Inr (sql_limit limit (concat (map (search_row s channelID) ids)), s)))"

section \<open>Read state\<close>

definition upsert_read_state :: "int64 \<Rightarrow> int64 \<Rightarrow> int64 \<Rightarrow> ReadState list \<Rightarrow> ReadState list" where
  "upsert_read_state userID channelID lastID rs =
     (if \<exists>r \<in> set rs. rs_user r = userID \<and> rs_channel r = channelID
      then upd_where (\<lambda>r. rs_user r = userID \<and> rs_channel r = channelID) (\<lambda>r. r\<lparr>rs_last := lastID\<rparr>) rs
      else rs @ [\<lparr>rs_user = userID, rs_channel = channelID, rs_last = lastID\<rparr>])"

definition UpdateReadState :: "int64 \<Rightarrow> int64 \<Rightarrow> int64 \<Rightarrow> ('z database_scheme, db_error + unit) state" where
  "UpdateReadState userID channelID lastReadMessageID = exec (\<lambda>now s.
     if has_user s userID \<and> has_channel s channelID
     then Inr ((), s\<lparr>read_states := upsert_read_state userID channelID lastReadMessageID (read_states s)\<rparr>)
     else Inl ErrForeignKey)"

definition last_read_id :: "'z database_scheme \<Rightarrow> int64 \<Rightarrow> int64 \<Rightarrow> int64" where
  "last_read_id s userID channelID =
     (case List.find (\<lambda>r. rs_user r = userID \<and> rs_channel r = channelID) (read_states s) of
        None \<Rightarrow> 0 | Some r \<Rightarrow> rs_last r)"

text \<open>\<^verbatim>\<open>COALESCE(MAX(id), 0)\<close>.\<close>

definition max_id :: "int64 list \<Rightarrow> int64" where
  "max_id ids = (case ids of [] \<Rightarrow> 0 | i # is \<Rightarrow> fold max is i)"

definition live_ids :: "int64 \<Rightarrow> 'z database_scheme \<Rightarrow> int64 list" where
  "live_ids channelID s = map m_ID (filter (\<lambda>m. m_ChannelID m = channelID \<and> \<not> m_Deleted m) (messages s))"

definition channel_unread :: "int64 \<Rightarrow> 'z database_scheme \<Rightarrow> int64 \<Rightarrow> ChannelUnread" where
  "channel_unread userID s ch =
     \<lparr>cu_LastMessageID = max_id (live_ids ch s),
      cu_UnreadCount = int (length (filter (\<lambda>i. i > last_read_id s userID ch) (live_ids ch s)))\<rparr>"

definition GetChannelUnreadCounts ::
  "int64 \<Rightarrow> ('z database_scheme, db_error + (int64, ChannelUnread) mapping) state" where
  "GetChannelUnreadCounts userID = query (\<lambda>s.
     fold (\<lambda>c. Mapping.update (c_ID c) (channel_unread userID s (c_ID c)))
       (filter (\<lambda>c. c_Type c = ''text'') (channels s)) Mapping.empty)"

definition GetLatestMessageID :: "int64 \<Rightarrow> ('z database_scheme, db_error + int64) state" where
  "GetLatestMessageID channelID = query (\<lambda>s. max_id (live_ids channelID s))"

end
