(* ===== verification/AuthQueries.thy ===== *)
theory AuthQueries
  imports ChannelQueries
begin

text \<open>
  Users, sessions and invites: \<^verbatim>\<open>db/auth_queries.go\<close>, \<^verbatim>\<open>db/invite_queries.go\<close>, the user, settings
  and audit queries of \<^verbatim>\<open>db/admin_queries.go\<close>, and \<^verbatim>\<open>db/account.go\<close>. SQLite's
  \<^verbatim>\<open>strftime('%s', text)\<close>, which yields the decimal Unix time of a time string or NULL,
  is the parameter \<open>strftime_s\<close>; its results are compared as text, as SQLite does.
\<close>

section \<open>Users\<close>

definition new_user :: "int64 \<Rightarrow> string \<Rightarrow> string \<Rightarrow> int64 \<Rightarrow> int \<Rightarrow> User" where
  "new_user uid username passwordHash roleID now =
     \<lparr>u_ID = uid, u_Username = username, u_PasswordHash = passwordHash, u_Avatar = None, u_RoleID = roleID,
      u_TOTPSecret = None, u_Status = ''offline'', u_CreatedAt = fmt_sqlite now, u_LastSeen = None,
      u_Banned = False, u_BanReason = None, u_BanExpires = None\<rparr>"

definition insert_user ::
  "string \<Rightarrow> string \<Rightarrow> int64 \<Rightarrow> int \<Rightarrow> 'z database_scheme \<Rightarrow> db_error + int64 \<times> 'z database_scheme" where
  "insert_user username passwordHash roleID now s =
     (let uid = users_seq s + 1
      in if nocase username \<in> (\<lambda>u. nocase (u_Username u)) ` set (users s) then Inl ErrUnique
         else if has_role s roleID
         then Inr (uid, s\<lparr>users := users s @ [new_user uid username passwordHash roleID now], users_seq := uid\<rparr>)
         else Inl ErrForeignKey)"

definition CreateUser :: "string \<Rightarrow> string \<Rightarrow> int64 \<Rightarrow> ('z database_scheme, db_error + int64) state" where
  "CreateUser username passwordHash roleID = exec (insert_user username passwordHash roleID)"

definition GetUserByUsername :: "string \<Rightarrow> ('z database_scheme, db_error + User option) state" where
  "GetUserByUsername username =
     query (\<lambda>s. List.find (\<lambda>u. nocase (u_Username u) = nocase username) (users s))"

definition find_user :: "'z database_scheme \<Rightarrow> int64 \<Rightarrow> User option" where
  "find_user s uid = List.find (\<lambda>u. u_ID u = uid) (users s)"

definition GetUserByID :: "int64 \<Rightarrow> ('z database_scheme, db_error + User option) state" where
  "GetUserByID uid = query (\<lambda>s. find_user s uid)"

definition set_user :: "int64 \<Rightarrow> (int \<Rightarrow> User \<Rightarrow> User) \<Rightarrow> ('z database_scheme, db_error + unit) state" where
  "set_user uid f = execute (\<lambda>now s. s\<lparr>users := upd_where (\<lambda>u. u_ID u = uid) (f now) (users s)\<rparr>)"

definition UpdateUserStatus :: "int64 \<Rightarrow> string \<Rightarrow> ('z database_scheme, db_error + unit) state" where
  "UpdateUserStatus uid status =
     set_user uid (\<lambda>now u. u\<lparr>u_Status := status, u_LastSeen := Some (fmt_sqlite now)\<rparr>)"

definition UpdateUserTOTPSecret :: "int64 \<Rightarrow> string option \<Rightarrow> ('z database_scheme, db_error + unit) state" where
  "UpdateUserTOTPSecret uid secret = set_user uid (\<lambda>now u. u\<lparr>u_TOTPSecret := secret\<rparr>)"

definition ResetAllUserStatuses :: "('z database_scheme, db_error + unit) state" where
  "ResetAllUserStatuses = execute (\<lambda>now s.
     s\<lparr>users := upd_where (\<lambda>u. u_Status u \<noteq> ''offline'') (\<lambda>u. u\<lparr>u_Status := ''offline''\<rparr>) (users s)\<rparr>)"

definition BanUser :: "int64 \<Rightarrow> string \<Rightarrow> time option \<Rightarrow> ('z database_scheme, db_error + unit) state" where
  "BanUser uid reason expires =
     (let expiresStr = map_option (\<lambda>t. fmt_iso (t div Second)) expires
      in set_user uid (\<lambda>now u. u\<lparr>u_Banned := True, u_BanReason := Some reason, u_BanExpires := expiresStr\<rparr>))"

definition UnbanUser :: "int64 \<Rightarrow> ('z database_scheme, db_error + unit) state" where
  "UnbanUser uid = set_user uid (\<lambda>now u. u\<lparr>u_Banned := False, u_BanReason := None, u_BanExpires := None\<rparr>)"

definition UserCount :: "('z database_scheme, db_error + int64) state" where
  "UserCount = query (\<lambda>s. int (length (users s)))"

record UserWithRole = User +
  ur_RoleName :: string

definition role_name_of :: "'z database_scheme \<Rightarrow> int64 \<Rightarrow> string" where
  "role_name_of s rid = (case List.find (\<lambda>r. r_ID r = rid) (roles s) of None \<Rightarrow> [] | Some r \<Rightarrow> r_Name r)"

text \<open>\<^verbatim>\<open>LIMIT ? OFFSET ?\<close>: a negative offset is no offset.\<close>

definition sql_page :: "int \<Rightarrow> int \<Rightarrow> 'a list \<Rightarrow> 'a list" where
  "sql_page limit offset xs = sql_limit limit (drop (nat offset) xs)"

definition ListAllUsers :: "int \<Rightarrow> int \<Rightarrow> ('z database_scheme, db_error + UserWithRole list) state" where
  "ListAllUsers limit offset = query (\<lambda>s.
     map (\<lambda>u. User.extend u (UserWithRole.fields (role_name_of s (u_RoleID u))))
       (sql_page limit offset (sort_key u_ID (users s))))"

definition UpdateUserRole :: "int64 \<Rightarrow> int64 \<Rightarrow> ('z database_scheme, db_error + unit) state" where
  "UpdateUserRole userID roleID = exec (\<lambda>now s.
     if has_user s userID \<and> \<not> has_role s roleID then Inl ErrForeignKey
     else Inr ((), s\<lparr>users := upd_where (\<lambda>u. u_ID u = userID) (\<lambda>u. u\<lparr>u_RoleID := roleID\<rparr>) (users s)\<rparr>))"

definition CountUsersWithoutTOTP :: "('z database_scheme, db_error + int) state" where
  "CountUsersWithoutTOTP =
     query (\<lambda>s. int (length (filter (\<lambda>u. \<not> u_Banned u \<and> u_TOTPSecret u = None) (users s))))"

record MemberSummary =
  ms_ID :: int64
  ms_Username :: string
  ms_Avatar :: "string option"
  ms_Status :: string
  ms_Role :: string

definition member_rows :: "'z database_scheme \<Rightarrow> MemberSummary list" where
  "member_rows s = concat (map (\<lambda>u. map (\<lambda>r. \<lparr>ms_ID = u_ID u, ms_Username = u_Username u, ms_Avatar = u_Avatar u,
       ms_Status = u_Status u, ms_Role = nocase (r_Name r)\<rparr>) (filter (\<lambda>r. r_ID r = u_RoleID u) (roles s)))
     (sort_key (\<lambda>u. nocase (u_Username u)) (filter (\<lambda>u. \<not> u_Banned u) (users s))))"

definition ListMembers :: "('z database_scheme, db_error + MemberSummary list) state" where
  "ListMembers = query member_rows"

section \<open>Sessions\<close>

definition insert_session ::
  "int64 \<Rightarrow> string \<Rightarrow> string \<Rightarrow> string \<Rightarrow> string \<Rightarrow> int \<Rightarrow> 'z database_scheme \<Rightarrow> db_error + int64 \<times> 'z database_scheme" where
  "insert_session userID tokenHash device ip expiresAt now s =
     (let sid = sessions_seq s + 1
      in if tokenHash \<in> s_TokenHash ` set (sessions s) then Inl ErrUnique
         else if has_user s userID
         then Inr (sid, s\<lparr>sessions := sessions s @ [\<lparr>s_ID = sid, s_UserID = userID, s_TokenHash = tokenHash, s_Device = device,
                s_IP = ip, s_CreatedAt = fmt_sqlite now, s_LastUsed = fmt_sqlite now, s_ExpiresAt = expiresAt\<rparr>],
                sessions_seq := sid\<rparr>)
         else Inl ErrForeignKey)"

definition CreateSession ::
  "int64 \<Rightarrow> string \<Rightarrow> string \<Rightarrow> string \<Rightarrow> ('z database_scheme, db_error + int64) state" where
  "CreateSession userID tokenHash device ip = do {
     t \<leftarrow> time_now;
     let expiresAt = fmt_iso ((t + sessionTTL * Second) div Second);
     exec (insert_session userID tokenHash device ip expiresAt)
   }"

definition find_session :: "'z database_scheme \<Rightarrow> string \<Rightarrow> Session option" where
  "find_session s tokenHash = List.find (\<lambda>x. s_TokenHash x = tokenHash) (sessions s)"

definition GetSessionByTokenHash :: "string \<Rightarrow> ('z database_scheme, db_error + Session option) state" where
  "GetSessionByTokenHash tokenHash = query (\<lambda>s. find_session s tokenHash)"

record SessionWithBanStatus = Session +
  sb_Banned :: bool
  sb_BanReason :: "string option"
  sb_BanExpires :: "string option"

definition GetSessionWithBanStatus :: "string \<Rightarrow> ('z database_scheme, db_error + SessionWithBanStatus option) state" where
  "GetSessionWithBanStatus tokenHash = query (\<lambda>s.
     case find_session s tokenHash of
       None \<Rightarrow> None
     | Some x \<Rightarrow> (case find_user s (s_UserID x) of
           None \<Rightarrow> None
         | Some u \<Rightarrow> Some (Session.extend x (SessionWithBanStatus.fields (u_Banned u) (u_BanReason u) (u_BanExpires u)))))"

definition DeleteSession :: "string \<Rightarrow> ('z database_scheme, db_error + unit) state" where
  "DeleteSession tokenHash =
     execute (\<lambda>now s. s\<lparr>sessions := filter (\<lambda>x. s_TokenHash x \<noteq> tokenHash) (sessions s)\<rparr>)"

definition DeleteExpiredSessions :: "(string \<Rightarrow> string option) \<Rightarrow> ('z database_scheme, db_error + unit) state" where
  "DeleteExpiredSessions strftime_s = execute (\<lambda>now s.
     s\<lparr>sessions := filter (\<lambda>x. \<not> (case strftime_s (s_ExpiresAt x) of None \<Rightarrow> False | Some t \<Rightarrow> t < itoa now)) (sessions s)\<rparr>)"

definition TouchSession :: "string \<Rightarrow> ('z database_scheme, db_error + unit) state" where
  "TouchSession tokenHash = execute (\<lambda>now s.
     s\<lparr>sessions := upd_where (\<lambda>x. s_TokenHash x = tokenHash) (\<lambda>x. x\<lparr>s_LastUsed := fmt_sqlite now\<rparr>) (sessions s)\<rparr>)"

definition ForceLogoutUser :: "int64 \<Rightarrow> ('z database_scheme, db_error + unit) state" where
  "ForceLogoutUser userID =
     execute (\<lambda>now s. s\<lparr>sessions := filter (\<lambda>x. s_UserID x \<noteq> userID) (sessions s)\<rparr>)"

text \<open>\<^verbatim>\<open>ORDER BY key DESC\<close> on a text column.\<close>

definition sort_desc :: "('a \<Rightarrow> string) \<Rightarrow> 'a list \<Rightarrow> 'a list" where
  "sort_desc k xs = rev (sort_key k (rev xs))"

definition GetUserSessions :: "int64 \<Rightarrow> ('z database_scheme, db_error + Session list) state" where
  "GetUserSessions userID =
     query (\<lambda>s. sort_desc s_CreatedAt (filter (\<lambda>x. s_UserID x = userID) (sessions s)))"

section \<open>Invites\<close>

text \<open>The random bytes of \<^verbatim>\<open>rand.Read\<close> are an argument; \<open>None\<close> is its error.\<close>

definition generateInviteCode :: "string option \<Rightarrow> db_error + string" where
  "generateInviteCode b = (case b of None \<Rightarrow> Inl ErrDriver | Some bs \<Rightarrow> Inr (hexEncode bs))"

definition insert_invite ::
  "string \<Rightarrow> int64 \<Rightarrow> int option \<Rightarrow> string option \<Rightarrow> int \<Rightarrow> 'z database_scheme \<Rightarrow> db_error + string \<times> 'z database_scheme" where
  "insert_invite code createdBy maxUsesVal expiresStr now s =
     (let iid = invites_seq s + 1
      in if code \<in> i_Code ` set (invites s) then Inl ErrUnique
         else if has_user s createdBy
         then Inr (code, s\<lparr>invites := invites s @ [\<lparr>i_ID = iid, i_Code = code, i_CreatedBy = createdBy, i_Uses = 0,
                i_MaxUses = maxUsesVal, i_ExpiresAt = expiresStr, i_Revoked = False, i_CreatedAt = fmt_sqlite now\<rparr>],
                invites_seq := iid\<rparr>)
         else Inl ErrForeignKey)"

definition CreateInvite ::
  "string option \<Rightarrow> int64 \<Rightarrow> int \<Rightarrow> time option \<Rightarrow> ('z database_scheme, db_error + string) state" where
  "CreateInvite b createdBy maxUses expiresAt =
     (case generateInviteCode b of
        Inl e \<Rightarrow> return (Inl e)
      | Inr code \<Rightarrow>
          (let maxUsesVal = (if maxUses > 0 then Some maxUses else None);
               expiresStr = map_option (\<lambda>t. fmt_iso (t div Second)) expiresAt
           in exec (insert_invite code createdBy maxUsesVal expiresStr)))"

definition GetInvite :: "string \<Rightarrow> ('z database_scheme, db_error + Invite option) state" where
  "GetInvite code = query (\<lambda>s. List.find (\<lambda>i. i_Code i = code) (invites s))"

text \<open>The WHERE clause shared by \<^verbatim>\<open>UseInviteAtomic\<close> and \<^verbatim>\<open>CreateUserWithInvite\<close>.\<close>

definition invite_usable :: "(string \<Rightarrow> string option) \<Rightarrow> string \<Rightarrow> int \<Rightarrow> Invite \<Rightarrow> bool" where
  "invite_usable strftime_s code now i \<longleftrightarrow>
     i_Code i = code \<and> \<not> i_Revoked i \<and>
     (case i_MaxUses i of None \<Rightarrow> True | Some n \<Rightarrow> i_Uses i < n) \<and>
     (case i_ExpiresAt i of None \<Rightarrow> True
      | Some t \<Rightarrow> (case strftime_s t of None \<Rightarrow> False | Some e \<Rightarrow> itoa now < e))"

definition use_invite ::
  "(string \<Rightarrow> string option) \<Rightarrow> string \<Rightarrow> ('z database_scheme, db_error + nat) state" where
  "use_invite strftime_s code = exec (\<lambda>now s.
     Inr (length (filter (invite_usable strftime_s code now) (invites s)),
          s\<lparr>invites := upd_where (invite_usable strftime_s code now) (\<lambda>i. i\<lparr>i_Uses := i_Uses i + 1\<rparr>) (invites s)\<rparr>))"

definition UseInviteAtomic :: "(string \<Rightarrow> string option) \<Rightarrow> string \<Rightarrow> ('z database_scheme, db_error + unit) state" where
  "UseInviteAtomic strftime_s code =
     bind_ok (use_invite strftime_s code) (\<lambda>rows. if rows = 0 then return (Inl ErrNotFound) else return (Inr ()))"

definition CreateUserWithInvite ::
  "(string \<Rightarrow> string option) \<Rightarrow> string \<Rightarrow> string \<Rightarrow> int64 \<Rightarrow> string \<Rightarrow> ('z database_scheme, db_error + int64) state" where
  "CreateUserWithInvite strftime_s username passwordHash roleID inviteCode =
     transaction (
       bind_ok (use_invite strftime_s inviteCode) (\<lambda>rows.
         if rows = 0 then return (Inl ErrNotFound)
         else exec (insert_user username passwordHash roleID)))"

definition RevokeInvite :: "string \<Rightarrow> ('z database_scheme, db_error + unit) state" where
  "RevokeInvite code = execute (\<lambda>now s.
     s\<lparr>invites := upd_where (\<lambda>i. i_Code i = code) (\<lambda>i. i\<lparr>i_Revoked := True\<rparr>) (invites s)\<rparr>)"

definition ListInvites :: "('z database_scheme, db_error + Invite list) state" where
  "ListInvites = query (\<lambda>s. sort_desc i_CreatedAt (invites s))"

section \<open>Audit log and settings\<close>

definition audit_entry :: "'z database_scheme \<Rightarrow> AuditRow \<Rightarrow> AuditEntry" where
  "audit_entry s a = \<lparr>ae_ID = au_ID a, ae_ActorID = au_actor a,
     ae_ActorName = (case find_user s (au_actor a) of None \<Rightarrow> [] | Some u \<Rightarrow> u_Username u),
     ae_Action = au_action a, ae_TargetType = au_target_type a, ae_TargetID = au_target_id a,
     ae_Detail = au_detail a, ae_CreatedAt = au_created a\<rparr>"

definition GetAuditLog :: "int \<Rightarrow> int \<Rightarrow> ('z database_scheme, db_error + AuditEntry list) state" where
  "GetAuditLog limit offset =
     query (\<lambda>s. map (audit_entry s) (sql_page limit offset (sort_key (\<lambda>a. - au_ID a) (audit_log s))))"

definition GetSetting :: "string \<Rightarrow> ('z database_scheme, db_error + string) state" where
  "GetSetting key = bind_ok (query (\<lambda>s. map_of (settings s) key)) (\<lambda>v.
     case v of None \<Rightarrow> return (Inl ErrNotFound) | Some x \<Rightarrow> return (Inr x))"

definition SetSetting :: "string \<Rightarrow> string \<Rightarrow> ('z database_scheme, db_error + unit) state" where
  "SetSetting key v = execute (\<lambda>now s. s\<lparr>settings := AList.update key v (settings s)\<rparr>)"

definition GetAllSettings :: "('z database_scheme, db_error + (string, string) mapping) state" where
  "GetAllSettings = query (\<lambda>s. fold (\<lambda>(k, v). Mapping.update k v) (settings s) Mapping.empty)"

section \<open>Deleting an account\<close>

definition anon_username :: "int64 \<Rightarrow> string" where
  "anon_username userID = ''[deleted-'' @ itoa userID @ '']''"

definition anonymise :: "int64 \<Rightarrow> User \<Rightarrow> User" where
  "anonymise userID u = u\<lparr>u_Username := anon_username userID, u_PasswordHash := [], u_Avatar := None,
     u_TOTPSecret := None, u_Status := ''offline'', u_Banned := True, u_BanReason := Some ''account deleted''\<rparr>"

definition anonymise_row :: "int64 \<Rightarrow> 'z database_scheme \<Rightarrow> db_error + unit \<times> 'z database_scheme" where
  "anonymise_row userID s =
     (if has_user s userID \<and> (\<exists>u \<in> set (users s). u_ID u \<noteq> userID \<and> nocase (u_Username u) = nocase (anon_username userID))
      then Inl ErrUnique
      else Inr ((), s\<lparr>users := upd_where (\<lambda>u. u_ID u = userID) (anonymise userID) (users s)\<rparr>))"

definition admin_role :: "int64 \<Rightarrow> bool" where
  "admin_role rid \<longleftrightarrow> rid = 1 \<or> rid = 2"

definition other_admins :: "int64 \<Rightarrow> 'z database_scheme \<Rightarrow> nat" where
  "other_admins userID s = length (filter (\<lambda>u. admin_role (u_RoleID u) \<and> u_ID u \<noteq> userID \<and> \<not> u_Banned u) (users s))"

text \<open>\<^verbatim>\<open>return ErrLastAdmin\<close> when an admin-class user has no other unbanned one.\<close>

definition last_admin_guard :: "int64 \<Rightarrow> ('z database_scheme, db_error + unit) state" where
  "last_admin_guard userID =
     bind_ok (query (\<lambda>s. map_option u_RoleID (find_user s userID))) (\<lambda>role. case role of
         None \<Rightarrow> return (Inl ErrNoRows)
       | Some userRoleID \<Rightarrow>
           if admin_role userRoleID
           then bind_ok (query (other_admins userID)) (\<lambda>adminCount.
                  if adminCount = 0 then return (Inl ErrLastAdmin) else return (Inr ()))
           else return (Inr ()))"

definition DeleteAccount :: "int64 \<Rightarrow> ('z database_scheme, db_error + unit) state" where
  "DeleteAccount userID = transaction (
     bind_ok (last_admin_guard userID) (\<lambda>_.
     bind_ok (execute (\<lambda>now s. s\<lparr>sessions := filter (\<lambda>x. s_UserID x \<noteq> userID) (sessions s)\<rparr>)) (\<lambda>_.
     bind_ok (execute (\<lambda>now s. s\<lparr>dm_participants := filter (\<lambda>p. snd p \<noteq> userID) (dm_participants s)\<rparr>)) (\<lambda>_.
     bind_ok (execute (\<lambda>now s. s\<lparr>dm_open_state := filter (\<lambda>d. do_user d \<noteq> userID) (dm_open_state s)\<rparr>)) (\<lambda>_.
     bind_ok (execute (\<lambda>now s. s\<lparr>reactions := filter (\<lambda>x. rx_user x \<noteq> userID) (reactions s)\<rparr>)) (\<lambda>_.
     bind_ok (execute (\<lambda>now s. s\<lparr>read_states := filter (\<lambda>r. rs_user r \<noteq> userID) (read_states s)\<rparr>)) (\<lambda>_.
     bind_ok (execute (\<lambda>now s. s\<lparr>messages := upd_where (\<lambda>m. m_UserID m = userID)
                (\<lambda>m. m\<lparr>m_Deleted := True, m_Content := []\<rparr>) (messages s)\<rparr>)) (\<lambda>_.
     exec (\<lambda>now. anonymise_row userID)))))))))"

end
