(* ===== verification/DMQueries.thy ===== *)
theory DMQueries
  imports MessageQueries AuthQueries
begin

text \<open>
  Direct-message channels, \<^verbatim>\<open>db/dm_queries.go\<close>: the lookup-or-create transaction, the
  open/close list and the sidebar query.
\<close>

section \<open>Lookup or create\<close>

definition channel_type :: "'z database_scheme \<Rightarrow> int64 \<Rightarrow> string option" where
  "channel_type s ch = map_option c_Type (List.find (\<lambda>c. c_ID c = ch) (channels s))"

definition dm_lookup :: "int64 \<Rightarrow> int64 \<Rightarrow> 'z database_scheme \<Rightarrow> int64 option" where
  "dm_lookup user1ID user2ID s =
     map_option fst (List.find (\<lambda>(ch, u). u = user1ID \<and> (ch, user2ID) \<in> set (dm_participants s) \<and>
        channel_type s ch = Some ''dm'') (dm_participants s))"

definition open_row :: "int \<Rightarrow> int64 \<times> int64 \<Rightarrow> DMOpen list \<Rightarrow> DMOpen list" where
  "open_row now p ds =
     (if \<exists>d \<in> set ds. do_user d = fst p \<and> do_channel d = snd p then ds
      else ds @ [\<lparr>do_user = fst p, do_channel = snd p, do_opened = fmt_sqlite now\<rparr>])"

text \<open>\<^verbatim>\<open>INSERT OR IGNORE INTO dm_open_state\<close>: a duplicate is skipped, a missing row of a foreign key is an error.\<close>

definition insert_open ::
  "(int64 \<times> int64) list \<Rightarrow> int \<Rightarrow> 'z database_scheme \<Rightarrow> db_error + unit \<times> 'z database_scheme" where
  "insert_open ps now s =
     (if \<forall>p \<in> set ps. has_user s (fst p) \<and> has_channel s (snd p)
      then Inr ((), s\<lparr>dm_open_state := fold (open_row now) ps (dm_open_state s)\<rparr>)
      else Inl ErrForeignKey)"

definition insert_participants ::
  "int64 \<Rightarrow> int64 \<Rightarrow> int64 \<Rightarrow> 'z database_scheme \<Rightarrow> db_error + unit \<times> 'z database_scheme" where
  "insert_participants channelID user1ID user2ID s =
     (let rows = [(channelID, user1ID), (channelID, user2ID)]
      in if \<not> distinct rows \<or> set rows \<inter> set (dm_participants s) \<noteq> {} then Inl ErrUnique
         else if has_channel s channelID \<and> has_user s user1ID \<and> has_user s user2ID
         then Inr ((), s\<lparr>dm_participants := dm_participants s @ rows\<rparr>)
         else Inl ErrForeignKey)"

text \<open>The body of the transaction: the channel and whether it was created.\<close>

definition dm_transaction :: "int64 \<Rightarrow> int64 \<Rightarrow> ('z database_scheme, db_error + int64 \<times> bool) state" where
  "dm_transaction user1ID user2ID = transaction (
     bind_ok (query (dm_lookup user1ID user2ID)) (\<lambda>existing. case existing of
         Some existingID \<Rightarrow> do {
           _ \<leftarrow> exec (insert_open [(user1ID, existingID)]);
           return (Inr (existingID, False))
         }
       | None \<Rightarrow>
           bind_ok (exec (insert_channel [] ''dm'' [] [] 0)) (\<lambda>channelID.
           bind_ok (exec (\<lambda>now. insert_participants channelID user1ID user2ID)) (\<lambda>_.
           bind_ok (exec (insert_open [(user1ID, channelID), (user2ID, channelID)])) (\<lambda>_.
           return (Inr (channelID, True)))))))"

definition GetOrCreateDMChannel ::
  "int64 \<Rightarrow> int64 \<Rightarrow> ('z database_scheme, db_error + Channel option \<times> bool) state" where
  "GetOrCreateDMChannel user1ID user2ID =
     bind_ok (dm_transaction user1ID user2ID) (\<lambda>(channelID, created).
     bind_ok (GetChannel channelID) (\<lambda>ch.
       if \<not> created \<and> ch = None then return (Inl ErrVanished) else return (Inr (ch, created))))"

section \<open>The open list\<close>

definition OpenDM :: "int64 \<Rightarrow> int64 \<Rightarrow> ('z database_scheme, db_error + unit) state" where
  "OpenDM userID channelID = exec (insert_open [(userID, channelID)])"

definition CloseDM :: "int64 \<Rightarrow> int64 \<Rightarrow> ('z database_scheme, db_error + unit) state" where
  "CloseDM userID channelID = execute (\<lambda>now s.
     s\<lparr>dm_open_state := filter (\<lambda>d. \<not> (do_user d = userID \<and> do_channel d = channelID)) (dm_open_state s)\<rparr>)"

definition GetDMRecipient :: "int64 \<Rightarrow> int64 \<Rightarrow> ('z database_scheme, db_error + User option) state" where
  "GetDMRecipient channelID requestingUserID =
     bind_ok (query (\<lambda>s. List.find (\<lambda>(ch, u). ch = channelID \<and> u \<noteq> requestingUserID) (dm_participants s))) (\<lambda>r.
       case r of None \<Rightarrow> return (Inr None) | Some (ch, recipientID) \<Rightarrow> GetUserByID recipientID)"

record DMUser =
  du_ID :: int64
  du_Username :: string
  du_Avatar :: string
  du_Status :: string

record DMChannelInfo =
  di_ChannelID :: int64
  di_Recipient :: DMUser
  di_LastMessageID :: "int64 option"
  di_LastMessage :: string
  di_LastMessageAt :: string
  di_UnreadCount :: int

text \<open>
  The other participants of a channel that have a user row. The aggregate groups the
  join by channel: it takes the recipient of one row, and counts an unread message
  once per row, so once per other participant.
\<close>

definition dm_others :: "'z database_scheme \<Rightarrow> int64 \<Rightarrow> int64 \<Rightarrow> User list" where
  "dm_others s userID ch = concat (map (\<lambda>p. filter (\<lambda>u. u_ID u = snd p) (users s))
     (filter (\<lambda>p. fst p = ch \<and> snd p \<noteq> userID) (dm_participants s)))"

definition last_message :: "'z database_scheme \<Rightarrow> int64 \<Rightarrow> Message option" where
  "last_message s ch = (if live_ids ch s = [] then None else find_message s (max_id (live_ids ch s)))"

definition dm_info :: "'z database_scheme \<Rightarrow> int64 \<Rightarrow> int64 \<Rightarrow> DMChannelInfo option" where
  "dm_info s userID ch =
     (case dm_others s userID ch of
        [] \<Rightarrow> None
      | u # us \<Rightarrow> (let lm = last_message s ch in Some
          \<lparr>di_ChannelID = ch,
           di_Recipient = \<lparr>du_ID = u_ID u, du_Username = u_Username u,
             du_Avatar = (case u_Avatar u of None \<Rightarrow> [] | Some a \<Rightarrow> a), du_Status = u_Status u\<rparr>,
           di_LastMessageID = map_option m_ID lm,
           di_LastMessage = (case lm of None \<Rightarrow> [] | Some m \<Rightarrow> m_Content m),
           di_LastMessageAt = (case lm of None \<Rightarrow> [] | Some m \<Rightarrow> m_Timestamp m),
           di_UnreadCount = int (length (u # us)) *
             int (length (filter (\<lambda>i. i > last_read_id s userID ch) (live_ids ch s)))\<rparr>))"

definition dm_sort_key :: "'z database_scheme \<Rightarrow> DMOpen \<Rightarrow> string" where
  "dm_sort_key s d = (case last_message s (do_channel d) of None \<Rightarrow> do_opened d | Some m \<Rightarrow> m_Timestamp m)"

definition GetUserDMChannels :: "int64 \<Rightarrow> ('z database_scheme, db_error + DMChannelInfo list) state" where
  "GetUserDMChannels userID = query (\<lambda>s.
     List.map_filter (\<lambda>d. dm_info s userID (do_channel d))
       (sort_desc (dm_sort_key s)
         (filter (\<lambda>d. do_user d = userID \<and> channel_type s (do_channel d) = Some ''dm'') (dm_open_state s))))"

end
