(* ===== verification/VoiceQueries.thy ===== *)
theory VoiceQueries
  imports ChannelQueries
begin

text \<open>The queries of \<^verbatim>\<open>db/voice_queries.go\<close>. \<^verbatim>\<open>user_id\<close> is the primary key of the table.\<close>

section \<open>Operations\<close>

definition join_row :: "int64 \<Rightarrow> int64 \<Rightarrow> int \<Rightarrow> VoiceRow" where
  "join_row userID channelID now = \<lparr>vr_user = userID, vr_channel = channelID, vr_muted = False, vr_deafened = False,
     vr_speaking = False, vr_camera = False, vr_screenshare = False, vr_joined = fmt_sqlite now\<rparr>"

definition upsert_voice :: "int64 \<Rightarrow> int64 \<Rightarrow> int \<Rightarrow> VoiceRow list \<Rightarrow> VoiceRow list" where
  "upsert_voice userID channelID now vs =
     (if userID \<in> vr_user ` set vs
      then upd_where (\<lambda>v. vr_user v = userID) (\<lambda>v. join_row userID channelID now) vs
      else vs @ [join_row userID channelID now])"

definition JoinVoiceChannel :: "int64 \<Rightarrow> int64 \<Rightarrow> ('z database_scheme, db_error + unit) state" where
  "JoinVoiceChannel userID channelID = exec (\<lambda>now s.
     if has_user s userID \<and> has_channel s channelID
     then Inr ((), s\<lparr>voice_states := upsert_voice userID channelID now (voice_states s)\<rparr>)
     else Inl ErrForeignKey)"

definition LeaveVoiceChannel :: "int64 \<Rightarrow> ('z database_scheme, db_error + unit) state" where
  "LeaveVoiceChannel userID =
     execute (\<lambda>now s. s\<lparr>voice_states := filter (\<lambda>v. vr_user v \<noteq> userID) (voice_states s)\<rparr>)"

text \<open>\<^verbatim>\<open>JOIN users u ON u.id = vs.user_id\<close>, then \<^verbatim>\<open>scanVoiceState\<close>.\<close>

definition scanVoiceState :: "VoiceRow \<Rightarrow> User \<Rightarrow> VoiceState" where
  "scanVoiceState v u = \<lparr>vs_UserID = vr_user v, vs_ChannelID = vr_channel v, vs_Username = u_Username u,
     vs_Muted = vr_muted v, vs_Deafened = vr_deafened v, vs_Speaking = vr_speaking v,
     vs_Camera = vr_camera v, vs_Screenshare = vr_screenshare v\<rparr>"

definition voice_join_users :: "'z database_scheme \<Rightarrow> VoiceRow list \<Rightarrow> VoiceState list" where
  "voice_join_users s vs =
     concat (map (\<lambda>v. map (scanVoiceState v) (filter (\<lambda>u. u_ID u = vr_user v) (users s))) vs)"

definition voice_state_of :: "'z database_scheme \<Rightarrow> int64 \<Rightarrow> VoiceState option" where
  "voice_state_of s userID =
     (case voice_join_users s (filter (\<lambda>v. vr_user v = userID) (voice_states s)) of
        [] \<Rightarrow> None | vs # _ \<Rightarrow> Some vs)"

definition GetVoiceState :: "int64 \<Rightarrow> ('z database_scheme, db_error + VoiceState option) state" where
  "GetVoiceState userID = query (\<lambda>s. voice_state_of s userID)"

definition GetChannelVoiceStates :: "int64 \<Rightarrow> ('z database_scheme, db_error + VoiceState list) state" where
  "GetChannelVoiceStates channelID = query (\<lambda>s.
     voice_join_users s (sort_key vr_joined (filter (\<lambda>v. vr_channel v = channelID) (voice_states s))))"

definition GetAllVoiceStates :: "('z database_scheme, db_error + VoiceState list) state" where
  "GetAllVoiceStates = query (\<lambda>s.
     voice_join_users s (sort_key vr_channel (sort_key vr_joined (voice_states s))))"

definition set_voice :: "int64 \<Rightarrow> (VoiceRow \<Rightarrow> VoiceRow) \<Rightarrow> ('z database_scheme, db_error + unit) state" where
  "set_voice userID f =
     execute (\<lambda>now s. s\<lparr>voice_states := upd_where (\<lambda>v. vr_user v = userID) f (voice_states s)\<rparr>)"

definition UpdateVoiceMute :: "int64 \<Rightarrow> bool \<Rightarrow> ('z database_scheme, db_error + unit) state" where
  "UpdateVoiceMute userID muted = set_voice userID (\<lambda>v. v\<lparr>vr_muted := muted\<rparr>)"

definition UpdateVoiceDeafen :: "int64 \<Rightarrow> bool \<Rightarrow> ('z database_scheme, db_error + unit) state" where
  "UpdateVoiceDeafen userID deafened = set_voice userID (\<lambda>v. v\<lparr>vr_deafened := deafened\<rparr>)"

definition UpdateVoiceCamera :: "int64 \<Rightarrow> bool \<Rightarrow> ('z database_scheme, db_error + unit) state" where
  "UpdateVoiceCamera userID camera = set_voice userID (\<lambda>v. v\<lparr>vr_camera := camera\<rparr>)"

definition UpdateVoiceScreenshare :: "int64 \<Rightarrow> bool \<Rightarrow> ('z database_scheme, db_error + unit) state" where
  "UpdateVoiceScreenshare userID screenshare = set_voice userID (\<lambda>v. v\<lparr>vr_screenshare := screenshare\<rparr>)"

definition ClearVoiceState :: "int64 \<Rightarrow> ('z database_scheme, db_error + unit) state" where
  "ClearVoiceState userID =
     execute (\<lambda>now s. s\<lparr>voice_states := filter (\<lambda>v. vr_user v \<noteq> userID) (voice_states s)\<rparr>)"

definition ClearAllVoiceStates :: "('z database_scheme, db_error + unit) state" where
  "ClearAllVoiceStates = execute (\<lambda>now s. s\<lparr>voice_states := []\<rparr>)"

definition cameras_in :: "int64 \<Rightarrow> VoiceRow list \<Rightarrow> int" where
  "cameras_in channelID vs = int (length (filter (\<lambda>v. vr_channel v = channelID \<and> vr_camera v) vs))"

definition users_in :: "int64 \<Rightarrow> VoiceRow list \<Rightarrow> int" where
  "users_in channelID vs = int (length (filter (\<lambda>v. vr_channel v = channelID) vs))"

definition CountActiveCameras :: "int64 \<Rightarrow> ('z database_scheme, db_error + int) state" where
  "CountActiveCameras channelID = query (\<lambda>s. cameras_in channelID (voice_states s))"

definition CountChannelVoiceUsers :: "int64 \<Rightarrow> ('z database_scheme, db_error + int) state" where
  "CountChannelVoiceUsers channelID = query (\<lambda>s. users_in channelID (voice_states s))"

section \<open>Where a user is\<close>

definition voice_row :: "int64 \<Rightarrow> VoiceRow list \<Rightarrow> VoiceRow option" where
  "voice_row userID vs = List.find (\<lambda>v. vr_user v = userID) vs"

lemma join_row_simps [simp]:
  "vr_user (join_row u ch now) = u" "vr_channel (join_row u ch now) = ch" "vr_camera (join_row u ch now) = False"
  by (simp_all add: join_row_def)

lemma voice_row_upsert:
  "voice_row u (upsert_voice userID channelID now vs) =
     (if u = userID then Some (join_row userID channelID now) else voice_row u vs)"
proof -
  have "List.find (\<lambda>v. vr_user v = u) (upd_where (\<lambda>v. vr_user v = userID) (\<lambda>v. join_row userID channelID now) xs)
      = (if u = userID then (if userID \<in> vr_user ` set xs then Some (join_row userID channelID now) else None)
         else List.find (\<lambda>v. vr_user v = u) xs)" for xs
    by (induction xs) auto
  moreover have "userID \<notin> vr_user ` set vs \<Longrightarrow> List.find (\<lambda>v. vr_user v = userID) vs = None"
    by (auto simp: find_None)
  ultimately show ?thesis
    by (cases "u = userID"; cases "userID \<in> vr_user ` set vs")
      (auto simp: voice_row_def upsert_voice_def find_append split: option.split)
qed

lemma map_user_upsert:
  "map vr_user (upsert_voice userID channelID now vs) =
     (if userID \<in> vr_user ` set vs then map vr_user vs else map vr_user vs @ [userID])"
proof -
  have "map vr_user (upd_where (\<lambda>v. vr_user v = userID) (\<lambda>v. join_row userID channelID now) xs) = map vr_user xs" for xs
    by (induction xs) auto
  then show ?thesis by (simp add: upsert_voice_def)
qed

lemma distinct_upsert:
  "distinct (map vr_user vs) \<Longrightarrow> distinct (map vr_user (upsert_voice userID channelID now vs))"
  by (simp add: map_user_upsert)

lemma users_in_upsert_le: "users_in ch (upsert_voice userID ch' now vs) \<le> users_in ch vs + (if ch = ch' then 1 else 0)"
  if "distinct (map vr_user vs)"
  using that
proof (induction vs)
  case Nil
  then show ?case by (simp add: users_in_def upsert_voice_def)
next
  case (Cons v vs)
  have out: "upd_where (\<lambda>v. vr_user v = userID) f vs = vs" if "vr_user v = userID" for f
    using Cons.prems that by (intro upd_where_none) (auto simp: image_iff)
  show ?case
    using Cons by (cases "vr_user v = userID") (auto simp: users_in_def upsert_voice_def out)
qed

end
