(* ===== verification/Messages.thy ===== *)
theory Messages
  imports Json DMQueries VoiceQueries
begin

text \<open>
  The outbound messages of \<^verbatim>\<open>ws/messages.go\<close> and \<^verbatim>\<open>ws/serve.go\<close>, byte for byte: a Go struct
  prints its fields in order, a Go map prints its keys sorted. The message types of
  \<^verbatim>\<open>ws/message_types.go\<close> and the codes of \<^verbatim>\<open>ws/errors.go\<close> are their string values.
\<close>

section \<open>Codes\<close>

definition ErrCodeBadRequest :: string where "ErrCodeBadRequest = ''BAD_REQUEST''"
definition ErrCodeInternal :: string where "ErrCodeInternal = ''INTERNAL''"
definition ErrCodeNotFound :: string where "ErrCodeNotFound = ''NOT_FOUND''"
definition ErrCodeForbidden :: string where "ErrCodeForbidden = ''FORBIDDEN''"
definition ErrCodeAlreadyJoined :: string where "ErrCodeAlreadyJoined = ''ALREADY_JOINED''"
definition ErrCodeChannelFull :: string where "ErrCodeChannelFull = ''CHANNEL_FULL''"
definition ErrCodeVoiceError :: string where "ErrCodeVoiceError = ''VOICE_ERROR''"
definition ErrCodeVideoLimit :: string where "ErrCodeVideoLimit = ''VIDEO_LIMIT''"
definition ErrCodeBanned :: string where "ErrCodeBanned = ''BANNED''"
definition ErrCodeInvalidJSON :: string where "ErrCodeInvalidJSON = ''INVALID_JSON''"
definition ErrCodeUnknownType :: string where "ErrCodeUnknownType = ''UNKNOWN_TYPE''"
definition ErrCodeSlowMode :: string where "ErrCodeSlowMode = ''SLOW_MODE''"
definition ErrCodeConflict :: string where "ErrCodeConflict = ''CONFLICT''"

section \<open>Envelopes\<close>

type_synonym bytes = string

definition jstr_opt :: "string option \<Rightarrow> json" where
  "jstr_opt x = (case x of None \<Rightarrow> JNull | Some s \<Rightarrow> JStr s)"

definition jint_opt :: "int option \<Rightarrow> json" where
  "jint_opt x = (case x of None \<Rightarrow> JNull | Some i \<Rightarrow> jint i)"

text \<open>\<^verbatim>\<open>wsMsg\<close>: an empty id is omitted.\<close>

definition wsMsg :: "string \<Rightarrow> string \<Rightarrow> json \<Rightarrow> json" where
  "wsMsg ty rid payload =
     JObj ((''type'', JStr ty) # (if rid = [] then [] else [(''id'', JStr rid)]) @ [(''payload'', payload)])"

definition buildErrorMsg :: "string \<Rightarrow> string \<Rightarrow> bytes" where
  "buildErrorMsg code message = Marshal (JObj
     [(''payload'', JObj [(''code'', JStr code), (''message'', JStr message)]), (''type'', JStr ''error'')])"

definition buildRateLimitError :: "string \<Rightarrow> int \<Rightarrow> bytes" where
  "buildRateLimitError message retryAfterSeconds = Marshal (JObj
     [(''payload'', JObj [(''code'', JStr ''RATE_LIMITED''), (''message'', JStr message),
        (''retry_after'', jint retryAfterSeconds)]), (''type'', JStr ''error'')])"

definition buildAuthError :: "string \<Rightarrow> bytes" where
  "buildAuthError message = Marshal (JObj
     [(''payload'', JObj [(''message'', JStr message)]), (''type'', JStr ''auth_error'')])"

definition buildPong :: bytes where
  "buildPong = Marshal (JObj [(''type'', JStr ''pong'')])"

section \<open>Members and presence\<close>

definition memberUserPayload :: "int64 \<Rightarrow> string \<Rightarrow> string option \<Rightarrow> string \<Rightarrow> json" where
  "memberUserPayload uid username avatar role = JObj
     [(''id'', jint uid), (''username'', JStr username), (''avatar'', jstr_opt avatar), (''role'', JStr role)]"

definition buildPresenceMsg :: "int64 \<Rightarrow> string \<Rightarrow> bytes" where
  "buildPresenceMsg userID status = Marshal (wsMsg ''presence'' []
     (JObj [(''user_id'', jint userID), (''status'', JStr status)]))"

definition buildMemberJoin :: "User \<Rightarrow> string \<Rightarrow> bytes" where
  "buildMemberJoin user roleName = Marshal (wsMsg ''member_join'' []
     (JObj [(''user'', memberUserPayload (u_ID user) (u_Username user) (u_Avatar user) roleName)]))"

definition buildMemberUpdate :: "int64 \<Rightarrow> string \<Rightarrow> bytes" where
  "buildMemberUpdate userID roleName = Marshal (wsMsg ''member_update'' []
     (JObj [(''user_id'', jint userID), (''role'', JStr roleName)]))"

definition buildMemberBan :: "int64 \<Rightarrow> bytes" where
  "buildMemberBan userID = Marshal (wsMsg ''member_ban'' [] (JObj [(''user_id'', jint userID)]))"

section \<open>Chat\<close>

text \<open>The attachment maps \<^verbatim>\<open>handleChatSend\<close> builds, keys sorted.\<close>

definition attachment_map :: "AttachmentInfo \<Rightarrow> json" where
  "attachment_map ai = JObj [(''filename'', JStr (ai_Filename ai)), (''id'', JStr (ai_ID ai)), (''mime'', JStr (ai_Mime ai)),
     (''size'', jint (ai_Size ai)), (''url'', JStr (ai_URL ai))]"

definition buildChatMessage ::
  "int64 \<Rightarrow> int64 \<Rightarrow> int64 \<Rightarrow> string \<Rightarrow> string option \<Rightarrow> string \<Rightarrow> string \<Rightarrow> string \<Rightarrow> int64 option \<Rightarrow> json list \<Rightarrow> bytes" where
  "buildChatMessage msgID channelID userID username avatar roleName content timestamp replyTo atts =
     Marshal (wsMsg ''chat_message'' [] (JObj
       [(''id'', jint msgID), (''channel_id'', jint channelID),
        (''user'', memberUserPayload userID username avatar roleName), (''content'', JStr content),
        (''reply_to'', jint_opt replyTo), (''timestamp'', JStr timestamp), (''attachments'', JArr atts),
        (''reactions'', JArr []), (''pinned'', JBool False)]))"

definition buildChatSendOK :: "string \<Rightarrow> int64 \<Rightarrow> string \<Rightarrow> bytes" where
  "buildChatSendOK requestID msgID timestamp = Marshal (wsMsg ''chat_send_ok'' requestID
     (JObj [(''message_id'', jint msgID), (''timestamp'', JStr timestamp)]))"

definition buildChatEdited :: "int64 \<Rightarrow> int64 \<Rightarrow> string \<Rightarrow> string \<Rightarrow> bytes" where
  "buildChatEdited msgID channelID content editedAt = Marshal (wsMsg ''chat_edited'' []
     (JObj [(''message_id'', jint msgID), (''channel_id'', jint channelID), (''content'', JStr content),
       (''edited_at'', JStr editedAt)]))"

definition buildChatDeleted :: "int64 \<Rightarrow> int64 \<Rightarrow> bytes" where
  "buildChatDeleted msgID channelID = Marshal (wsMsg ''chat_deleted'' []
     (JObj [(''message_id'', jint msgID), (''channel_id'', jint channelID)]))"

definition buildReactionUpdate :: "int64 \<Rightarrow> int64 \<Rightarrow> int64 \<Rightarrow> string \<Rightarrow> string \<Rightarrow> bytes" where
  "buildReactionUpdate msgID channelID userID emoji action = Marshal (wsMsg ''reaction_update'' []
     (JObj [(''message_id'', jint msgID), (''channel_id'', jint channelID), (''emoji'', JStr emoji),
       (''user_id'', jint userID), (''action'', JStr action)]))"

definition buildTypingMsg :: "int64 \<Rightarrow> int64 \<Rightarrow> string \<Rightarrow> bytes" where
  "buildTypingMsg channelID userID username = Marshal (wsMsg ''typing'' []
     (JObj [(''channel_id'', jint channelID), (''user_id'', jint userID), (''username'', JStr username)]))"

section \<open>Voice\<close>

definition buildVoiceState :: "VoiceState \<Rightarrow> bytes" where
  "buildVoiceState st = Marshal (wsMsg ''voice_state'' []
     (JObj [(''channel_id'', jint (vs_ChannelID st)), (''user_id'', jint (vs_UserID st)),
       (''username'', JStr (vs_Username st)), (''muted'', JBool (vs_Muted st)), (''deafened'', JBool (vs_Deafened st)),
       (''speaking'', JBool (vs_Speaking st)), (''camera'', JBool (vs_Camera st)),
       (''screenshare'', JBool (vs_Screenshare st))]))"

definition buildVoiceConfig :: "int64 \<Rightarrow> string \<Rightarrow> int \<Rightarrow> int \<Rightarrow> bytes" where
  "buildVoiceConfig channelID quality bitrate maxUsers = Marshal (wsMsg ''voice_config'' []
     (JObj [(''channel_id'', jint channelID), (''quality'', JStr quality), (''bitrate'', jint bitrate),
       (''max_users'', jint maxUsers), (''threshold_mode'', JStr ''top_speakers''),
       (''mixing_threshold'', jint 0), (''top_speakers'', jint 5)]))"

definition buildVoiceToken :: "int64 \<Rightarrow> string \<Rightarrow> string \<Rightarrow> string \<Rightarrow> bytes" where
  "buildVoiceToken channelID token proxyPath directURL = Marshal (wsMsg ''voice_token'' []
     (JObj [(''channel_id'', jint channelID), (''token'', JStr token), (''url'', JStr proxyPath),
       (''direct_url'', JStr directURL)]))"

definition buildVoiceLeave :: "int64 \<Rightarrow> int64 \<Rightarrow> bytes" where
  "buildVoiceLeave channelID userID = Marshal (wsMsg ''voice_leave'' []
     (JObj [(''channel_id'', jint channelID), (''user_id'', jint userID)]))"

section \<open>Channels\<close>

definition channelPayload :: "Channel \<Rightarrow> json" where
  "channelPayload ch = JObj [(''id'', jint (c_ID ch)), (''name'', JStr (c_Name ch)), (''type'', JStr (c_Type ch)),
     (''category'', JStr (c_Category ch)), (''topic'', JStr (c_Topic ch)), (''position'', jint (c_Position ch))]"

definition buildChannelCreate :: "Channel \<Rightarrow> bytes" where
  "buildChannelCreate ch = Marshal (wsMsg ''channel_create'' [] (channelPayload ch))"

definition buildChannelUpdate :: "Channel \<Rightarrow> bytes" where
  "buildChannelUpdate ch = Marshal (wsMsg ''channel_update'' [] (channelPayload ch))"

definition buildChannelDelete :: "int64 \<Rightarrow> bytes" where
  "buildChannelDelete channelID = Marshal (wsMsg ''channel_delete'' [] (JObj [(''id'', jint channelID)]))"

text \<open>A nil recipient gives a nil message, the empty byte slice.\<close>

definition buildDMChannelOpen :: "int64 \<Rightarrow> User option \<Rightarrow> bytes" where
  "buildDMChannelOpen channelID recipient = (case recipient of None \<Rightarrow> []
     | Some u \<Rightarrow> Marshal (wsMsg ''dm_channel_open'' [] (JObj [(''channel_id'', jint channelID),
         (''recipient'', JObj [(''id'', jint (u_ID u)), (''username'', JStr (u_Username u)),
            (''avatar'', JStr (case u_Avatar u of None \<Rightarrow> [] | Some a \<Rightarrow> a)), (''status'', JStr (u_Status u))])])))"

definition buildServerRestartMsg :: "string \<Rightarrow> int \<Rightarrow> bytes" where
  "buildServerRestartMsg reason delaySeconds = Marshal (wsMsg ''server_restart'' []
     (JObj [(''reason'', JStr reason), (''delay_seconds'', jint delaySeconds)]))"

section \<open>Inbound\<close>

record envelope =
  e_Type :: string
  e_ID :: string
  e_Payload :: "json option"

text \<open>\<^verbatim>\<open>json.Unmarshal(raw, &env)\<close>.\<close>

definition parse_envelope :: "bytes \<Rightarrow> envelope option" where
  "parse_envelope raw =
     (case parse_json raw of None \<Rightarrow> None
      | Some js \<Rightarrow>
          (case (field dec_string [] ''type'' js, field dec_string [] ''id'' js, field dec_raw None ''payload'' js) of
             (Some ty, Some rid, Some pl) \<Rightarrow> Some \<lparr>e_Type = ty, e_ID = rid, e_Payload = pl\<rparr>
           | _ \<Rightarrow> None))"

text \<open>\<^verbatim>\<open>json.Number.Int64\<close> of a field that must be a positive integer.\<close>

definition number_field :: "string \<Rightarrow> json option \<Rightarrow> int64 option option" where
  "number_field name payload =
     (case payload_field dec_number [] name payload of None \<Rightarrow> None | Some n \<Rightarrow> Some (ParseInt n))"

definition parseChannelID :: "json option \<Rightarrow> int64 option" where
  "parseChannelID payload =
     (case number_field ''channel_id'' payload of Some (Some i) \<Rightarrow> Some i | _ \<Rightarrow> None)"

end
