(* ===== verification/RateLimit.thy ===== *)
theory RateLimit
  imports Prelude
begin

text \<open>
  The sliding-window rate limiter of \<^verbatim>\<open>auth/ratelimit.go\<close>. Each method holds the
  limiter's mutex, so a call is one step; the instants that the calls of
  \<^verbatim>\<open>time.Now()\<close> return are arguments, in the order the code reads them.
  A run of the limiter is a sequence of calls at non-decreasing times.
\<close>

section \<open>State and operations\<close>

record RateLimiter =
  windows :: "(string, time list) mapping"
  lockouts :: "(string, time) mapping"

definition NewRateLimiter :: RateLimiter where
  "NewRateLimiter = \<lparr>windows = Mapping.empty, lockouts = Mapping.empty\<rparr>"

text \<open>The timestamps recorded for a key; a missing entry is a new, empty one.\<close>

definition stamps :: "RateLimiter \<Rightarrow> string \<Rightarrow> time list" where
  "stamps r key = (case Mapping.lookup (windows r) key of None \<Rightarrow> [] | Some ts \<Rightarrow> ts)"

text \<open>\<open>Allow\<close> from the second reading of the clock on: prune, compare, record.\<close>

definition allow_window :: "RateLimiter \<Rightarrow> string \<Rightarrow> int \<Rightarrow> duration \<Rightarrow> time \<Rightarrow> bool \<times> RateLimiter" where
  "allow_window r key limit window now =
     (let cutoff = now - window;
          valid = filter (\<lambda>ts. cutoff < ts) (stamps r key)
      in if int (length valid) \<ge> limit
         then (False, r\<lparr>windows := Mapping.update key valid (windows r)\<rparr>)
         else (True, r\<lparr>windows := Mapping.update key (valid @ [now]) (windows r)\<rparr>))"

definition Allow :: "RateLimiter \<Rightarrow> string \<Rightarrow> int \<Rightarrow> duration \<Rightarrow> time \<Rightarrow> time \<Rightarrow> bool \<times> RateLimiter" where
  "Allow r key limit window t0 now =
     (case Mapping.lookup (lockouts r) key of
        Some expiresAt \<Rightarrow>
          if t0 < expiresAt then (False, r)
          else allow_window (r\<lparr>lockouts := Mapping.delete key (lockouts r)\<rparr>) key limit window now
      | None \<Rightarrow> allow_window r key limit window now)"

definition Lockout :: "RateLimiter \<Rightarrow> string \<Rightarrow> duration \<Rightarrow> time \<Rightarrow> RateLimiter" where
  "Lockout r key dur now = r\<lparr>lockouts := Mapping.update key (now + dur) (lockouts r)\<rparr>"

definition IsLockedOut :: "RateLimiter \<Rightarrow> string \<Rightarrow> time \<Rightarrow> bool \<times> RateLimiter" where
  "IsLockedOut r key now =
     (case Mapping.lookup (lockouts r) key of
        None \<Rightarrow> (False, r)
      | Some expiresAt \<Rightarrow>
          if now < expiresAt then (True, r)
          else (False, r\<lparr>lockouts := Mapping.delete key (lockouts r)\<rparr>))"

definition Reset :: "RateLimiter \<Rightarrow> string \<Rightarrow> RateLimiter" where
  "Reset r key = r\<lparr>windows := Mapping.delete key (windows r), lockouts := Mapping.delete key (lockouts r)\<rparr>"

definition Cleanup :: "RateLimiter \<Rightarrow> duration \<Rightarrow> time \<Rightarrow> time \<Rightarrow> RateLimiter" where
  "Cleanup r maxWindow t0 now =
     (let cutoff = t0 - maxWindow
      in r\<lparr>windows := Mapping.filter (\<lambda>key ts. \<not> (\<forall>t \<in> set ts. \<not> cutoff < t)) (windows r),
           lockouts := Mapping.filter (\<lambda>key expiresAt. \<not> expiresAt < now) (lockouts r)\<rparr>)"

definition Len :: "RateLimiter \<Rightarrow> nat \<times> nat" where
  "Len r = (Mapping.size (windows r), Mapping.size (lockouts r))"

section \<open>Calls and runs\<close>

datatype call =
    CAllow string int duration time time
  | CLockout string duration time
  | CIsLockedOut string time
  | CReset string time
  | CCleanup duration time time

fun do_call :: "call \<Rightarrow> RateLimiter \<Rightarrow> RateLimiter" where
  "do_call (CAllow k l w t0 t) r = snd (Allow r k l w t0 t)"
| "do_call (CLockout k d t) r = Lockout r k d t"
| "do_call (CIsLockedOut k t) r = snd (IsLockedOut r k t)"
| "do_call (CReset k t) r = Reset r k"
| "do_call (CCleanup m t0 t) r = Cleanup r m t0 t"

text \<open>
  The instants at which a call reads the clock, first and last; \<open>Reset\<close> does not read it, its instant
  is that of the call.
\<close>

fun first_read :: "call \<Rightarrow> time" where
  "first_read (CAllow k l w t0 t) = t0"
| "first_read (CLockout k d t) = t"
| "first_read (CIsLockedOut k t) = t"
| "first_read (CReset k t) = t"
| "first_read (CCleanup m t0 t) = t0"

fun last_read :: "call \<Rightarrow> time" where
  "last_read (CAllow k l w t0 t) = t"
| "last_read (CLockout k d t) = t"
| "last_read (CIsLockedOut k t) = t"
| "last_read (CReset k t) = t"
| "last_read (CCleanup m t0 t) = t"

text \<open>The clock never goes back during the calls, starting from \<open>t\<close>.\<close>

fun clock_ok :: "time \<Rightarrow> call list \<Rightarrow> bool" where
  "clock_ok t [] = True"
| "clock_ok t (c # cs) = (t \<le> first_read c \<and> first_read c \<le> last_read c \<and> clock_ok (last_read c) cs)"

text \<open>
  How a key may be used for a claim about a window: no request of the key has a shorter window, which
  would forget timestamps, and no cleanup keeps less; and the largest limit of its requests.
  Endpoints that share a key, as those that count by client address do, may have different limits.
\<close>

fun keeps_window :: "string \<Rightarrow> duration \<Rightarrow> call \<Rightarrow> bool" where
  "keeps_window key window (CAllow k l w t0 t) = (k = key \<longrightarrow> window \<le> w)"
| "keeps_window key window (CCleanup m t0 t) = (window \<le> m)"
| "keeps_window key window _ = True"

fun limited_to :: "string \<Rightarrow> int \<Rightarrow> call \<Rightarrow> bool" where
  "limited_to key limit (CAllow k l w t0 t) = (k = key \<longrightarrow> l \<le> limit)"
| "limited_to key limit _ = True"

text \<open>The instants at which requests of a key were permitted since the key was last reset.\<close>

fun counted :: "string \<Rightarrow> call \<Rightarrow> RateLimiter \<Rightarrow> time list \<Rightarrow> time list" where
  "counted key (CAllow k l w t0 t) r gs = (if k = key \<and> fst (Allow r k l w t0 t) then gs @ [t] else gs)"
| "counted key (CReset k t) r gs = (if k = key then [] else gs)"
| "counted key _ r gs = gs"

fun grants_after :: "time list \<Rightarrow> string \<Rightarrow> call list \<Rightarrow> RateLimiter \<Rightarrow> time list" where
  "grants_after gs key [] r = gs"
| "grants_after gs key (c # cs) r = grants_after (counted key c r gs) key cs (do_call c r)"

abbreviation grants :: "string \<Rightarrow> call list \<Rightarrow> RateLimiter \<Rightarrow> time list" where
  "grants \<equiv> grants_after []"

section \<open>Lemmas on single calls\<close>

lemma lookup_delete': "Mapping.lookup (Mapping.delete k m) k' = (if k = k' then None else Mapping.lookup m k')"
  by (simp add: lookup_delete_neq)

lemma stamps_update [simp]:
  "stamps (r\<lparr>windows := Mapping.update k ts (windows r)\<rparr>) key = (if k = key then ts else stamps r key)"
  by (simp add: stamps_def lookup_update')

lemma stamps_lockouts [simp]: "stamps (r\<lparr>lockouts := m\<rparr>) key = stamps r key"
  by (simp add: stamps_def)

lemma stamps_New [simp]: "stamps NewRateLimiter key = []"
  by (simp add: stamps_def NewRateLimiter_def)

lemma stamps_Reset [simp]: "stamps (Reset r k) key = (if k = key then [] else stamps r key)"
  by (simp add: stamps_def Reset_def lookup_delete')

lemma stamps_Cleanup:
  "stamps (Cleanup r m t0 now) key =
     (if \<forall>t \<in> set (stamps r key). t \<le> t0 - m then [] else stamps r key)"
  by (force simp: stamps_def Cleanup_def Let_def lookup_filter split: option.splits)

lemma allow_window_other:
  "k \<noteq> key \<Longrightarrow> stamps (snd (allow_window r k l w t)) key = stamps r key"
  by (simp add: allow_window_def Let_def)

lemma Allow_other: "k \<noteq> key \<Longrightarrow> stamps (snd (Allow r k l w t0 t)) key = stamps r key"
  by (auto simp: Allow_def allow_window_other split: option.splits)

text \<open>The stored timestamps of a key only matter inside its window.\<close>

abbreviation recent :: "time \<Rightarrow> duration \<Rightarrow> time list \<Rightarrow> time list" where
  "recent now w ts \<equiv> filter (\<lambda>t. now - w < t) ts"

lemma allow_window_result:
  "fst (allow_window r key limit w now) \<longleftrightarrow> int (length (recent now w (stamps r key))) < limit"
  by (simp add: allow_window_def Let_def not_le)

lemma allow_window_stamps:
  "stamps (snd (allow_window r key limit w now)) key =
     recent now w (stamps r key) @ (if fst (allow_window r key limit w now) then [now] else [])"
  by (simp add: allow_window_def Let_def not_le)

lemma Allow_cases:
  obtains (locked) exp where "Mapping.lookup (lockouts r) key = Some exp" "t0 < exp"
      "Allow r key l w t0 t = (False, r)"
  | (unlocked) r' where "stamps r' key = stamps r key" "Allow r key l w t0 t = allow_window r' key l w t"
      "\<forall>exp. Mapping.lookup (lockouts r) key = Some exp \<longrightarrow> exp \<le> t0"
proof (cases "Mapping.lookup (lockouts r) key")
  case None
  then show ?thesis using unlocked [of r] by (simp add: Allow_def)
next
  case (Some exp)
  then show ?thesis
    using locked unlocked [of "r\<lparr>lockouts := Mapping.delete key (lockouts r)\<rparr>"]
    by (cases "t0 < exp") (simp_all add: Allow_def)
qed

section \<open>The window invariant\<close>

text \<open>
  \<open>gs\<close> are the grants so far. The limiter remembers all of them that can still
  matter at the time of the last call, and no window holds more than \<open>limit\<close>.
\<close>

definition remembers :: "string \<Rightarrow> duration \<Rightarrow> time \<Rightarrow> time list \<Rightarrow> RateLimiter \<Rightarrow> bool" where
  "remembers key w now gs r \<longleftrightarrow> recent now w (stamps r key) = recent now w gs \<and> (\<forall>g \<in> set gs. g \<le> now)"

definition bounded :: "int \<Rightarrow> duration \<Rightarrow> time list \<Rightarrow> bool" where
  "bounded limit w gs \<longleftrightarrow> (\<forall>t. int (length (filter (\<lambda>g. t - w < g \<and> g \<le> t) gs)) \<le> max 0 limit)"

lemma recent_later: "recent now w xs = recent now w ys \<Longrightarrow> now \<le> now' \<Longrightarrow> recent now' w xs = recent now' w ys"
  by (rule filter_weaken [where Q = "\<lambda>t. now - w < t"]) auto

lemma recent_recent: "w \<le> w' \<Longrightarrow> recent t w (recent t w' xs) = recent t w xs"
  by (auto intro!: filter_cong)

lemma remembers_later:
  assumes "remembers key w now gs r" and "now \<le> now'"
    and "recent now' w (stamps r' key) = recent now' w (stamps r key)"
  shows "remembers key w now' gs r'"
  using assms recent_later [of now w "stamps r key" gs now'] by (auto simp: remembers_def)

lemma bounded_grant:
  assumes inv: "remembers key w now gs r" "bounded limit w gs" and le: "now \<le> t" and w: "w \<le> w'"
    and room: "int (length (recent t w' (stamps r key))) < limit"
  shows "bounded limit w (gs @ [t])"
  unfolding bounded_def
proof
  fix u
  show "int (length (filter (\<lambda>g. u - w < g \<and> g \<le> u) (gs @ [t]))) \<le> max 0 limit"
  proof (cases "u - w < t \<and> t \<le> u")
    case True
    have "length (filter (\<lambda>g. u - w < g \<and> g \<le> u) gs) \<le> length (recent t w gs)"
      using True by (intro length_filter_mono) auto
    also have "recent t w gs = recent t w (stamps r key)"
      using inv(1) le recent_later [of now w "stamps r key" gs t] by (simp add: remembers_def)
    also have "length (recent t w (stamps r key)) \<le> length (recent t w' (stamps r key))"
      using w by (intro length_filter_mono) auto
    finally show ?thesis using True room by simp
  next
    case False
    then show ?thesis using inv(2) unfolding bounded_def by auto
  qed
qed

lemma stamps_Lockout [simp]: "stamps (Lockout r k d t) key = stamps r key"
  by (simp add: Lockout_def)

lemma stamps_IsLockedOut [simp]: "stamps (snd (IsLockedOut r k t)) key = stamps r key"
  by (simp add: IsLockedOut_def split: option.splits)

lemma recent_Cleanup:
  "w \<le> m \<Longrightarrow> t0 \<le> now \<Longrightarrow> recent now w (stamps (Cleanup r m t0 t) key) = recent now w (stamps r key)"
  by (force simp: stamps_Cleanup intro!: filter_False [symmetric])

text \<open>A request of the key itself.\<close>

lemma Allow_remembers:
  assumes inv: "remembers key w now gs r" and le: "now \<le> t" and w: "0 < w" "w \<le> w'"
  shows "remembers key w t (counted key (CAllow key l w' t0 t) r gs) (snd (Allow r key l w' t0 t))"
proof (cases rule: Allow_cases [where r = r and key = key and ?t0.0 = t0 and l = l and w = w' and t = t])
  case (locked exp)
  then show ?thesis using remembers_later [OF inv le] by simp
next
  case (unlocked r')
  then have "stamps (snd (allow_window r' key l w' t)) key =
      recent t w' (stamps r key) @ (if fst (allow_window r' key l w' t) then [t] else [])"
    by (simp add: allow_window_stamps)
  then show ?thesis
    using inv le w recent_later [of now w "stamps r key" gs t] recent_recent [of w w' t "stamps r key"] unlocked(2)
    by (auto simp: remembers_def)
qed

lemma Allow_bounded:
  assumes inv: "remembers key w now gs r" "bounded limit w gs" and le: "now \<le> t" and w: "w \<le> w'" and l: "l \<le> limit"
  shows "bounded limit w (counted key (CAllow key l w' t0 t) r gs)"
proof (cases rule: Allow_cases [where r = r and key = key and ?t0.0 = t0 and l = l and w = w' and t = t])
  case (locked exp)
  then show ?thesis using inv(2) by simp
next
  case (unlocked r')
  then show ?thesis using inv(2) l bounded_grant [OF inv le w] by (simp add: allow_window_result)
qed

lemma call_inv:
  assumes inv: "remembers key w now gs r" and w: "0 < w" and use: "keeps_window key w c"
    and "now \<le> first_read c" and "first_read c \<le> last_read c"
  shows "remembers key w (last_read c) (counted key c r gs) (do_call c r)"
    and "bounded limit w gs \<Longrightarrow> limited_to key limit c \<Longrightarrow> bounded limit w (counted key c r gs)"
proof -
  have "remembers key w (last_read c) (counted key c r gs) (do_call c r) \<and>
    (bounded limit w gs \<longrightarrow> limited_to key limit c \<longrightarrow> bounded limit w (counted key c r gs))"
  proof (cases c)
    case (CAllow k l w' t0 t)
    show ?thesis
    proof (cases "k = key")
      case True
      then show ?thesis
        using Allow_remembers [OF inv _ w, of t w'] Allow_bounded [OF inv, of limit t w'] use assms(4,5) CAllow by auto
    next
      case False
      then show ?thesis
        using remembers_later [OF inv, of t] assms(4,5) CAllow by (auto simp: Allow_other)
    qed
  next
    case (CCleanup m t0 t)
    then show ?thesis
      using remembers_later [OF inv, of t] assms(3-5) by (auto simp: recent_Cleanup)
  next
    case (CReset k t)
    then show ?thesis
      using remembers_later [OF inv, of t] assms(4) by (auto simp: remembers_def bounded_def)
  qed (use remembers_later [OF inv] assms(4,5) in auto)
  then show "remembers key w (last_read c) (counted key c r gs) (do_call c r)"
    and "bounded limit w gs \<Longrightarrow> limited_to key limit c \<Longrightarrow> bounded limit w (counted key c r gs)" by blast+
qed

lemma run_remembers:
  "remembers key w now gs r \<Longrightarrow> 0 < w \<Longrightarrow> \<forall>c \<in> set cs. keeps_window key w c \<Longrightarrow> clock_ok now cs \<Longrightarrow>
   \<exists>t. remembers key w t (grants_after gs key cs r) (fold do_call cs r) \<and>
       now \<le> t \<and> (\<forall>c. clock_ok now (cs @ [c]) \<longrightarrow> t \<le> first_read c)"
proof (induction cs arbitrary: now gs r)
  case Nil
  then show ?case by auto
next
  case (Cons c cs)
  have "remembers key w (last_read c) (counted key c r gs) (do_call c r)"
    using Cons.prems by (intro call_inv(1)) auto
  from Cons.IH [OF this] Cons.prems show ?case by fastforce
qed

lemma run_within_limit:
  "remembers key w now gs r \<Longrightarrow> bounded limit w gs \<Longrightarrow> 0 < w \<Longrightarrow> \<forall>c \<in> set cs. keeps_window key w c \<and> limited_to key limit c \<Longrightarrow>
   clock_ok now cs \<Longrightarrow> bounded limit w (grants_after gs key cs r)"
proof (induction cs arbitrary: now gs r)
  case (Cons c cs)
  have "remembers key w (last_read c) (counted key c r gs) (do_call c r)" "bounded limit w (counted key c r gs)"
    using Cons.prems call_inv [of key w now gs r c] by auto
  from Cons.IH [OF this] Cons.prems show ?case by simp
qed simp

lemma remembers_New: "remembers key w now [] NewRateLimiter"
  by (simp add: remembers_def)

section \<open>Lockouts\<close>

lemma lockouts_allow_window [simp]: "lockouts (snd (allow_window r k l w t)) = lockouts r"
  by (simp add: allow_window_def Let_def)

text \<open>A lockout that has not expired survives every call that does not lock the key out again or reset it.\<close>

fun relocks :: "string \<Rightarrow> call \<Rightarrow> bool" where
  "relocks key (CLockout k d t) = (k = key)"
| "relocks key (CReset k t) = (k = key)"
| "relocks key _ = False"

lemma lockout_survives:
  assumes "Mapping.lookup (lockouts r) key = Some exp" and "\<not> relocks key c"
    and "first_read c \<le> last_read c" and "last_read c < exp"
  shows "Mapping.lookup (lockouts (do_call c r)) key = Some exp"
  using assms
  by (cases c) (auto simp: Allow_def Lockout_def IsLockedOut_def Reset_def Cleanup_def Let_def
      lookup_filter lookup_update' lookup_delete' split: option.splits)

lemma clock_ok_last:
  "clock_ok t (cs @ [c]) \<Longrightarrow> t \<le> first_read c \<and> (\<forall>d \<in> set cs. first_read d \<le> last_read d \<and> last_read d \<le> first_read c)"
  by (induction cs arbitrary: t) fastforce+

lemma lockout_run:
  "Mapping.lookup (lockouts r) key = Some exp \<Longrightarrow> \<forall>c \<in> set cs. \<not> relocks key c \<and> first_read c \<le> last_read c \<and> last_read c < exp \<Longrightarrow>
   Mapping.lookup (lockouts (fold do_call cs r)) key = Some exp"
  by (induction cs arbitrary: r) (auto intro: lockout_survives)

section \<open>Properties\<close>

text \<open>
  C1: the sliding window. Take any run of the limiter on a clock that never goes back: requests of any
  keys, lockouts, lockout queries, resets and cleanups. If no request of a key has a shorter
  window than \<open>w\<close> or a larger limit than \<open>limit\<close> (endpoints that share the key may have smaller limits
  and longer windows), and no cleanup keeps less than \<open>w\<close>, then no interval of length \<open>w\<close> holds more
  than \<open>limit\<close> requests of the key that were permitted since the key was last reset.
\<close>
theorem sliding_window:
  assumes "0 < w" and "clock_ok t0 cs" and "\<forall>c \<in> set cs. keeps_window key w c \<and> limited_to key limit c"
  shows "int (length (filter (\<lambda>g. t - w < g \<and> g \<le> t) (grants key cs NewRateLimiter))) \<le> max 0 limit"
proof -
  have "bounded limit w (grants key cs NewRateLimiter)"
    by (rule run_within_limit [OF remembers_New _ assms(1,3,2)]) (simp add: bounded_def)
  then show ?thesis by (simp add: bounded_def)
qed

text \<open>Two endpoints share a key; the key is reset once.\<close>

theorem sliding_window_witness:
  "int (length (filter (\<lambda>g. 5 - 5 < g \<and> g \<le> 5)
     (grants ''k'' [CAllow ''k'' 2 5 1 1, CReset ''k'' 1, CAllow ''k'' 2 5 2 2, CCleanup 9 2 2, CAllow ''k'' 1 6 3 3,
        CReset ''j'' 3, CAllow ''k'' 2 5 4 4, CAllow ''k'' 2 5 5 5] NewRateLimiter))) \<le> max 0 2"
  by (rule sliding_window [of 5 0]) simp_all

text \<open>
  C2: exactness. After any run in which no request of the key had a shorter window and no cleanup kept
  less, a request is permitted exactly when the key is not locked out at the first reading of the
  clock and fewer than \<open>limit\<close> requests of the key, permitted since its last reset, lie in the window that
  ends now: the limiter neither lets more through nor refuses a request it should permit.
\<close>
theorem Allow_exact:
  assumes "0 < w" and "\<forall>c \<in> set cs. keeps_window key w c" and "clock_ok t0 (cs @ [CAllow key limit w t1 t2])"
  shows "fst (Allow (fold do_call cs NewRateLimiter) key limit w t1 t2) \<longleftrightarrow>
     (\<forall>exp. Mapping.lookup (lockouts (fold do_call cs NewRateLimiter)) key = Some exp \<longrightarrow> exp \<le> t1) \<and>
     int (length (recent t2 w (grants key cs NewRateLimiter))) < limit"
proof -
  let ?r = "fold do_call cs NewRateLimiter"
  have "clock_ok t0 cs"
    using assms(3) by (induction cs arbitrary: t0) auto
  then obtain t where inv: "remembers key w t (grants key cs NewRateLimiter) ?r" and t: "t \<le> t1"
    using run_remembers [OF remembers_New assms(1,2), of t0] assms(3) by fastforce
  have "t1 \<le> t2"
    using assms(3) by (induction cs arbitrary: t0) auto
  with t have "recent t2 w (stamps ?r key) = recent t2 w (grants key cs NewRateLimiter)"
    using inv recent_later [of t w "stamps ?r key" _ t2] by (simp add: remembers_def)
  then show ?thesis
    by (cases rule: Allow_cases [where r = ?r and key = key and ?t0.0 = t1 and l = limit and w = w and t = t2])
      (auto simp: allow_window_result not_le)
qed

theorem Allow_exact_witness:
  "fst (Allow (fold do_call [CAllow ''k'' 1 5 1 1, CCleanup 9 20 20, CAllow ''k'' 1 7 28 28, CReset ''k'' 29] NewRateLimiter) ''k'' 1 5 30 30)"
  using Allow_exact [of 5 "[CAllow ''k'' 1 5 1 1, CCleanup 9 20 20, CAllow ''k'' 1 7 28 28, CReset ''k'' 29]" "''k''" 1 0 30 30]
  by (simp add: Allow_def allow_window_def stamps_def NewRateLimiter_def Cleanup_def Reset_def Let_def
      lookup_update' lookup_filter lookup_delete')

text \<open>
  a lockout holds. After \<open>Lockout\<close> of a key for \<open>d\<close>, every request of the
  key whose first clock reading is before the expiry is refused, whatever calls are
  made in between, as long as the key is not locked out anew or reset.
\<close>
theorem lockout_refuses:
  assumes "clock_ok t (cs @ [CAllow key l w t1 t2])" and "\<forall>c \<in> set cs. \<not> relocks key c" and "t1 < t + d"
  shows "fst (Allow (fold do_call cs (Lockout r key d t)) key l w t1 t2) = False"
proof -
  have "\<forall>c \<in> set cs. \<not> relocks key c \<and> first_read c \<le> last_read c \<and> last_read c < t + d"
    using clock_ok_last [OF assms(1)] assms(2,3) by fastforce
  moreover have "Mapping.lookup (lockouts (Lockout r key d t)) key = Some (t + d)"
    by (simp add: Lockout_def lookup_update)
  ultimately have "Mapping.lookup (lockouts (fold do_call cs (Lockout r key d t))) key = Some (t + d)"
    by (blast intro: lockout_run)
  with assms(3) show ?thesis by (simp add: Allow_def)
qed

theorem lockout_refuses_witness:
  "fst (Allow (fold do_call [CIsLockedOut ''k'' 3, CCleanup 1 4 4] (Lockout NewRateLimiter ''k'' 10 0)) ''k'' 5 5 9 9) = False"
  by (rule lockout_refuses) simp_all

text \<open>
  C4: the periodic cleanup is transparent. It changes the outcome of no later
  request whose window is at most \<open>maxWindow\<close>, as its comment promises.
\<close>
theorem Cleanup_transparent:
  assumes "w \<le> m" and "c0 \<le> t1" and "c1 \<le> t1" and "t1 \<le> t2"
  shows "fst (Allow (Cleanup r m c0 c1) key l w t1 t2) = fst (Allow r key l w t1 t2)"
proof -
  have rec: "recent t2 w (stamps (Cleanup r m c0 c1) key) = recent t2 w (stamps r key)"
    using assms by (intro recent_Cleanup) auto
  have "Mapping.lookup (lockouts (Cleanup r m c0 c1)) key =
      (case Mapping.lookup (lockouts r) key of None \<Rightarrow> None | Some e \<Rightarrow> if e < c1 then None else Some e)"
    by (simp add: Cleanup_def Let_def lookup_filter split: option.splits)
  then show ?thesis
    using rec assms(3) by (auto simp: Allow_def allow_window_result split: option.splits)
qed

theorem Cleanup_transparent_witness:
  "fst (Allow (Cleanup (snd (Allow NewRateLimiter ''k'' 1 10 0 0)) 15 5 5) ''k'' 1 10 6 6) =
   fst (Allow (snd (Allow NewRateLimiter ''k'' 1 10 0 0)) ''k'' 1 10 6 6)"
  by (rule Cleanup_transparent) simp_all

text \<open>
  cleanup breaks longer windows. With the server's 15-minute cleanup a key
  with a one-hour window (a channel in slow mode of 3600 seconds, limit 1) has a
  second request permitted 21 minutes after the first.
\<close>
theorem cleanup_forgets_long_window:
  "fst (Allow (do_call (CCleanup (15 * Minute) (20 * Minute) (20 * Minute))
                 (snd (Allow NewRateLimiter ''slow:1:2'' 1 (3600 * Second) 0 0)))
          ''slow:1:2'' 1 (3600 * Second) (21 * Minute) (21 * Minute)) \<and>
   \<not> fst (Allow (snd (Allow NewRateLimiter ''slow:1:2'' 1 (3600 * Second) 0 0))
          ''slow:1:2'' 1 (3600 * Second) (21 * Minute) (21 * Minute))"
  by (simp add: Allow_def allow_window_def stamps_def NewRateLimiter_def Cleanup_def Let_def
      lookup_update' lookup_filter Minute_def Second_def)

end
