(* ===== verification/RingBuffer.thy ===== *)
theory RingBuffer
  imports Prelude
begin

text \<open>
  The replay buffer of \<^verbatim>\<open>ws/ringbuffer.go\<close>: a bounded ring of the last broadcast
  events. \<open>None\<close> as the result of \<open>Push\<close> is the index-out-of-range panic of an
  empty backing array; \<open>None\<close> as the result of \<open>EventsSince\<close> is the nil slice.
  The ring refines the list of the last \<open>size\<close> events (locale \<open>event_log\<close>).
\<close>

section \<open>Data and operations\<close>

record eventEntry =
  eseq :: uint64
  edata :: string

record EventRingBuffer =
  entries :: "eventEntry list"
  rsize :: nat
  rpos :: nat
  rcount :: nat

definition zeroEntry :: eventEntry where
  "zeroEntry = \<lparr>eseq = 0, edata = []\<rparr>"

definition NewEventRingBuffer :: "nat \<Rightarrow> EventRingBuffer" where
  "NewEventRingBuffer n = \<lparr>entries = replicate n zeroEntry, rsize = n, rpos = 0, rcount = 0\<rparr>"

definition Push :: "EventRingBuffer \<Rightarrow> uint64 \<Rightarrow> string \<Rightarrow> EventRingBuffer option" where
  "Push rb sq d =
     (if rpos rb < length (entries rb) then
        Some (rb\<lparr>entries := (entries rb)[rpos rb := \<lparr>eseq = sq, edata = d\<rparr>],
                 rpos := (rpos rb + 1) mod rsize rb,
                 rcount := (if rcount rb < rsize rb then rcount rb + 1 else rcount rb)\<rparr>)
      else None)"

definition oldestIdx :: "EventRingBuffer \<Rightarrow> nat" where
  "oldestIdx rb = nat ((int (rpos rb) - int (rcount rb) + int (rsize rb)) mod int (rsize rb))"

definition OldestSeq :: "EventRingBuffer \<Rightarrow> uint64" where
  "OldestSeq rb = (if rcount rb = 0 then 0 else eseq (entries rb ! oldestIdx rb))"

text \<open>The loop of \<open>EventsSince\<close>: \<open>i\<close> runs from 0 to \<open>rcount\<close>, appending to \<open>result\<close>.\<close>

fun since_loop :: "EventRingBuffer \<Rightarrow> uint64 \<Rightarrow> nat list \<Rightarrow> string list \<Rightarrow> string list" where
  "since_loop rb afterSeq [] result = result"
| "since_loop rb afterSeq (i # is) result =
     (let e = entries rb ! ((oldestIdx rb + i) mod rsize rb)
      in since_loop rb afterSeq is (if afterSeq < eseq e then result @ [edata e] else result))"

definition EventsSince :: "EventRingBuffer \<Rightarrow> uint64 \<Rightarrow> string list option" where
  "EventsSince rb afterSeq =
     (if rcount rb = 0 then None
      else if afterSeq < eseq (entries rb ! oldestIdx rb) then None
      else (case since_loop rb afterSeq [0..<rcount rb] [] of [] \<Rightarrow> None | r # rs \<Rightarrow> Some (r # rs)))"

section \<open>Abstraction: the stored events, oldest first\<close>

definition contents :: "EventRingBuffer \<Rightarrow> eventEntry list" where
  "contents rb = map (\<lambda>i. entries rb ! ((oldestIdx rb + i) mod rsize rb)) [0..<rcount rb]"

definition ring_ok :: "EventRingBuffer \<Rightarrow> bool" where
  "ring_ok rb \<longleftrightarrow> 0 < rsize rb \<and> length (entries rb) = rsize rb \<and> rpos rb < rsize rb \<and> rcount rb \<le> rsize rb"

text \<open>The last \<open>n\<close> elements of a list.\<close>

definition lastn :: "nat \<Rightarrow> 'a list \<Rightarrow> 'a list" where
  "lastn n xs = drop (length xs - n) xs"

text \<open>Adding a list of elements one after the other; \<open>None\<close> when one panics.\<close>

primrec adds :: "('b \<Rightarrow> 'e \<Rightarrow> 'b option) \<Rightarrow> 'b \<Rightarrow> 'e list \<Rightarrow> 'b option" where
  "adds add b [] = Some b"
| "adds add b (e # es) = Option.bind (add b e) (\<lambda>b'. adds add b' es)"

definition push_event :: "('b \<Rightarrow> uint64 \<Rightarrow> string \<Rightarrow> 'b option) \<Rightarrow> 'b \<Rightarrow> eventEntry \<Rightarrow> 'b option" where
  "push_event push b e = push b (eseq e) (edata e)"

abbreviation feed :: "('b \<Rightarrow> uint64 \<Rightarrow> string \<Rightarrow> 'b option) \<Rightarrow> 'b \<Rightarrow> eventEntry list \<Rightarrow> 'b option" where
  "feed push \<equiv> adds (push_event push)"

lemma lastn_all: "length xs \<le> n \<Longrightarrow> lastn n xs = xs"
  by (simp add: lastn_def)

lemma length_lastn [simp]: "length (lastn n xs) = min n (length xs)"
  by (simp add: lastn_def)

lemma lastn_snoc_lastn: "0 < n \<Longrightarrow> lastn n (lastn n xs @ [x]) = lastn n (xs @ [x])"
proof (cases "length xs \<le> n")
  case True
  then show ?thesis by (simp add: lastn_def)
next
  case False
  assume "0 < n"
  with False show ?thesis by (simp add: lastn_def Suc_diff_le)
qed

section \<open>The ring keeps the last events\<close>

lemma oldestIdx_nat:
  assumes "ring_ok rb"
  shows "oldestIdx rb = (rpos rb + (rsize rb - rcount rb)) mod rsize rb"
proof -
  have "int (rpos rb) - int (rcount rb) + int (rsize rb) = int (rpos rb + (rsize rb - rcount rb))"
    using assms by (simp add: ring_ok_def of_nat_diff)
  then have "oldestIdx rb = nat (int (rpos rb + (rsize rb - rcount rb)) mod int (rsize rb))"
    unfolding oldestIdx_def by (rule arg_cong)
  then show ?thesis
    by (simp only: zmod_int [symmetric] nat_int)
qed

lemma oldest_plus:
  assumes "ring_ok rb"
  shows "(oldestIdx rb + i) mod rsize rb = (rpos rb + (rsize rb - rcount rb + i)) mod rsize rb"
  by (simp add: oldestIdx_nat [OF assms] mod_add_left_eq add.assoc)

lemma ring_ok_New: "0 < n \<Longrightarrow> ring_ok (NewEventRingBuffer n)"
  by (simp add: ring_ok_def NewEventRingBuffer_def)

lemma contents_New [simp]: "contents (NewEventRingBuffer n) = []"
  by (simp add: contents_def NewEventRingBuffer_def)

lemma Push_Some: "ring_ok rb \<Longrightarrow> \<exists>rb'. Push rb sq d = Some rb'"
  by (simp add: Push_def ring_ok_def)

lemma Push_ok: "ring_ok rb \<Longrightarrow> Push rb sq d = Some rb' \<Longrightarrow> ring_ok rb' \<and> rsize rb' = rsize rb"
  by (auto simp: Push_def ring_ok_def split: if_splits)

lemma mod_shift_neq: "(p :: nat) < n \<Longrightarrow> 0 < k \<Longrightarrow> k < n \<Longrightarrow> (p + k) mod n \<noteq> p"
  by (cases "p + k < n") (auto simp: mod_if)

lemma contents_nth:
  "ring_ok rb \<Longrightarrow> i < rcount rb \<Longrightarrow>
   contents rb ! i = entries rb ! ((rpos rb + (rsize rb - rcount rb + i)) mod rsize rb)"
  by (simp add: contents_def oldest_plus)

lemma length_contents [simp]: "length (contents rb) = rcount rb"
  by (simp add: contents_def)

text \<open>Reading a slot of the ring after a push: the written slot or an old one.\<close>

lemma Push_slot:
  assumes "ring_ok rb" and "Push rb sq d = Some rb'" and "k \<le> rsize rb" and "0 < k"
  shows "entries rb' ! ((rpos rb + k) mod rsize rb) =
         (if k = rsize rb then \<lparr>eseq = sq, edata = d\<rparr> else entries rb ! ((rpos rb + k) mod rsize rb))"
  using assms mod_shift_neq [of "rpos rb" "rsize rb" k]
  by (auto simp: Push_def ring_ok_def split: if_splits)

lemma Push_contents:
  assumes ok: "ring_ok rb" and push: "Push rb sq d = Some rb'"
  shows "contents rb' = lastn (rsize rb) (contents rb @ [\<lparr>eseq = sq, edata = d\<rparr>])"
proof (rule nth_equalityI)
  have ok': "ring_ok rb'" and sz: "rsize rb' = rsize rb"
    using Push_ok [OF ok push] by auto
  have cnt: "rcount rb' = min (rsize rb) (Suc (rcount rb))" and ps: "rpos rb' = (rpos rb + 1) mod rsize rb"
    using ok push by (auto simp: Push_def ring_ok_def split: if_splits)
  show len: "length (contents rb') = length (lastn (rsize rb) (contents rb @ [\<lparr>eseq = sq, edata = d\<rparr>]))"
    by (simp add: cnt)
  fix i assume "i < length (contents rb')"
  then have i: "i < rcount rb'" by simp
  let ?k = "1 + (rsize rb - rcount rb' + i)"
  have k: "?k \<le> rsize rb" "0 < ?k" using i ok' by (auto simp: ring_ok_def sz)
  have "contents rb' ! i = entries rb' ! ((rpos rb' + (rsize rb - rcount rb' + i)) mod rsize rb)"
    using contents_nth [OF ok' i] by (simp add: sz)
  also have "\<dots> = entries rb' ! ((rpos rb + ?k) mod rsize rb)"
    by (simp only: ps mod_add_left_eq add.assoc)
  also have "\<dots> = (if ?k = rsize rb then \<lparr>eseq = sq, edata = d\<rparr> else entries rb ! ((rpos rb + ?k) mod rsize rb))"
    by (rule Push_slot [OF ok push k])
  also have "\<dots> = lastn (rsize rb) (contents rb @ [\<lparr>eseq = sq, edata = d\<rparr>]) ! i"
  proof (cases "rcount rb < rsize rb")
    case True
    then have "lastn (rsize rb) (contents rb @ [\<lparr>eseq = sq, edata = d\<rparr>]) = contents rb @ [\<lparr>eseq = sq, edata = d\<rparr>]"
      by (simp add: lastn_all)
    moreover have "?k = rsize rb - rcount rb + i" and "?k = rsize rb \<longleftrightarrow> i = rcount rb"
      using True i cnt by auto
    ultimately show ?thesis
      using True i cnt contents_nth [OF ok, of i] by (auto simp: nth_append less_Suc_eq)
  next
    case False
    with ok have c: "rcount rb = rsize rb" and c': "rcount rb' = rsize rb"
      by (auto simp: ring_ok_def cnt)
    then have "lastn (rsize rb) (contents rb @ [\<lparr>eseq = sq, edata = d\<rparr>]) ! i =
        (contents rb @ [\<lparr>eseq = sq, edata = d\<rparr>]) ! Suc i"
      using i by (auto simp: lastn_def nth_append)
    moreover have "?k = Suc i" using c' by simp
    ultimately show ?thesis
      using i c c' contents_nth [OF ok, of "Suc i"] by (auto simp: nth_append)
  qed
  finally show "contents rb' ! i = lastn (rsize rb) (contents rb @ [\<lparr>eseq = sq, edata = d\<rparr>]) ! i" .
qed

lemma since_loop_eq:
  "since_loop rb a is acc =
     acc @ map edata (filter (\<lambda>e. a < eseq e) (map (\<lambda>i. entries rb ! ((oldestIdx rb + i) mod rsize rb)) is))"
  by (induction "is" arbitrary: acc) (simp_all add: Let_def)

lemma oldest_hd:
  assumes "ring_ok rb" and "0 < rcount rb"
  shows "entries rb ! oldestIdx rb = hd (contents rb)"
proof -
  have "oldestIdx rb < rsize rb"
    using assms(1) by (simp add: oldestIdx_nat ring_ok_def)
  then show ?thesis
    using assms(2) by (simp add: contents_def hd_map upt_conv_Cons)
qed

lemma EventsSince_contents:
  assumes "ring_ok rb"
  shows "EventsSince rb a =
    (case contents rb of
       [] \<Rightarrow> None
     | e # es \<Rightarrow> if a < eseq e then None
         else (case map edata (filter (\<lambda>e. a < eseq e) (e # es)) of [] \<Rightarrow> None | r # rs \<Rightarrow> Some (r # rs)))"
proof (cases "rcount rb = 0")
  case True
  then have "contents rb = []" by (simp add: contents_def)
  with True show ?thesis by (simp add: EventsSince_def)
next
  case False
  then obtain e es where c: "contents rb = e # es"
    by (metis length_contents list.exhaust list.size(3))
  have "since_loop rb a [0..<rcount rb] [] = map edata (filter (\<lambda>e. a < eseq e) (contents rb))"
    by (simp add: since_loop_eq contents_def)
  with False oldest_hd [OF assms] show ?thesis
    by (simp add: EventsSince_def c)
qed

section \<open>The interface: bounded logs\<close>

text \<open>A buffer that keeps the last elements; the replay buffer of the hub and the log of the panel are such.\<close>

locale last_buffer =
  fixes new :: "nat \<Rightarrow> 'b"
    and add :: "'b \<Rightarrow> 'e \<Rightarrow> 'b option"
    and log :: "'b \<Rightarrow> 'e list"
    and cap :: "'b \<Rightarrow> nat"
    and ok :: "'b \<Rightarrow> bool"
  assumes ok_new: "0 < n \<Longrightarrow> ok (new n)"
    and log_new: "log (new n) = []"
    and cap_new: "cap (new n) = n"
    and ok_cap: "ok b \<Longrightarrow> 0 < cap b"
    and add_log: "ok b \<Longrightarrow> \<exists>b'. add b e = Some b' \<and> ok b' \<and> cap b' = cap b \<and> log b' = lastn (cap b) (log b @ [e])"
begin

lemma adds_log:
  "ok b \<Longrightarrow> log b = lastn (cap b) pre \<Longrightarrow>
   \<exists>b'. adds add b es = Some b' \<and> ok b' \<and> cap b' = cap b \<and> log b' = lastn (cap b) (pre @ es)"
proof (induction es arbitrary: b pre)
  case Nil
  then show ?case by simp
next
  case (Cons e es)
  obtain b1 where b1: "add b e = Some b1" "ok b1" "cap b1 = cap b" "log b1 = lastn (cap b) (log b @ [e])"
    using add_log [OF Cons.prems(1)] by blast
  then have "log b1 = lastn (cap b1) (pre @ [e])"
    using Cons.prems(2) by (simp add: lastn_snoc_lastn ok_cap [OF Cons.prems(1)])
  from Cons.IH [OF b1(2) this] show ?case using b1 by simp
qed

lemma adds_new:
  assumes "0 < n"
  shows "\<exists>b. adds add (new n) es = Some b \<and> ok b \<and> log b = lastn n es"
  using adds_log [of "new n" "[]" es] ok_new [OF assms] by (auto simp: log_new cap_new lastn_def)

end

text \<open>
  What the hub relies on when it stores a broadcast and replays the events a
  reconnecting client has missed.
\<close>

locale event_log = last_buffer new "push_event push" log cap ok
  for new :: "nat \<Rightarrow> 'b" and push :: "'b \<Rightarrow> uint64 \<Rightarrow> string \<Rightarrow> 'b option" and log :: "'b \<Rightarrow> eventEntry list"
    and cap :: "'b \<Rightarrow> nat" and ok :: "'b \<Rightarrow> bool" +
  fixes since :: "'b \<Rightarrow> uint64 \<Rightarrow> string list option"
  assumes since_log: "ok b \<Longrightarrow> since b a =
      (case log b of
         [] \<Rightarrow> None
       | e # es \<Rightarrow> if a < eseq e then None
           else (case map edata (filter (\<lambda>e. a < eseq e) (e # es)) of [] \<Rightarrow> None | r # rs \<Rightarrow> Some (r # rs)))"
begin

text \<open>
  With increasing sequence numbers the events that have been overwritten are
  older than the oldest stored one, so a replay from a stored position misses none.
\<close>

lemma since_complete:
  assumes "ok b" and "log b = lastn n es" and "sorted_wrt (\<lambda>x y. eseq x < eseq y) es"
    and "log b = e0 # rest" and "eseq e0 \<le> a" and "e \<in> set es" and "a < eseq e"
  shows "since b a = Some (map edata (filter (\<lambda>e. a < eseq e) es))"
proof -
  define old where "old = take (length es - n) es"
  have es: "es = old @ log b"
    by (simp add: old_def assms(2) lastn_def)
  have "eseq x < eseq e0" if "x \<in> set old" for x
    using assms(3) that unfolding es by (simp add: assms(4) sorted_wrt_append)
  then have "filter (\<lambda>e. a < eseq e) old = []"
    using assms(5) by (force simp: filter_empty_conv)
  then have eq: "filter (\<lambda>e. a < eseq e) es = filter (\<lambda>e. a < eseq e) (log b)"
    by (subst es) simp
  have "filter (\<lambda>e. a < eseq e) es \<noteq> []"
    using assms(6,7) by (auto simp: filter_empty_conv)
  then show ?thesis
    using since_log [OF assms(1), of a] assms(4,5) unfolding eq
    by (simp add: leD split: list.splits)
qed

lemma since_nil:
  assumes "ok b" and "log b = lastn n es" and "\<forall>e \<in> set es. eseq e \<le> a"
  shows "since b a = None"
proof -
  have "set (log b) \<subseteq> set es"
    using set_drop_subset by (simp add: assms(2) lastn_def)
  with assms(3) have "filter (\<lambda>e. a < eseq e) (log b) = []"
    by (force simp: filter_empty_conv)
  then show ?thesis
    using since_log [OF assms(1), of a] by (auto split: list.splits)
qed

end

interpretation ring: event_log NewEventRingBuffer Push contents rsize ring_ok EventsSince
proof unfold_locales
  fix b e
  assume "ring_ok b"
  then obtain b' where b': "push_event Push b e = Some b'" unfolding push_event_def using Push_Some by blast
  with Push_ok [OF \<open>ring_ok b\<close>] Push_contents [OF \<open>ring_ok b\<close>]
  show "\<exists>b'. push_event Push b e = Some b' \<and> ring_ok b' \<and> rsize b' = rsize b \<and> contents b' = lastn (rsize b) (contents b @ [e])"
    by (cases e) (auto simp: push_event_def)
next
  show "ring_ok b \<Longrightarrow> 0 < rsize b" for b by (simp add: ring_ok_def)
  show "rsize (NewEventRingBuffer n) = n" for n by (simp add: NewEventRingBuffer_def)
qed (simp_all add: ring_ok_New EventsSince_contents)

section \<open>Properties\<close>

text \<open>
  C3: the ring buffer refines a bounded list. Pushing any events into a new
  buffer of positive capacity never panics, keeps the buffer well formed, and
  leaves exactly the last \<open>n\<close> events in it, oldest first.
\<close>
theorem ring_keeps_last:
  assumes "0 < n"
  shows "\<exists>rb. feed Push (NewEventRingBuffer n) es = Some rb \<and> ring_ok rb \<and> contents rb = lastn n es"
  using assms by (rule ring.adds_new)

theorem ring_keeps_last_witness:
  "\<exists>rb. feed Push (NewEventRingBuffer 2) [\<lparr>eseq = 1, edata = ''a''\<rparr>, \<lparr>eseq = 2, edata = ''b''\<rparr>, \<lparr>eseq = 3, edata = ''c''\<rparr>]
     = Some rb \<and> ring_ok rb \<and> contents rb = [\<lparr>eseq = 2, edata = ''b''\<rparr>, \<lparr>eseq = 3, edata = ''c''\<rparr>]"
  using ring_keeps_last [of 2 "[\<lparr>eseq = 1, edata = ''a''\<rparr>, \<lparr>eseq = 2, edata = ''b''\<rparr>, \<lparr>eseq = 3, edata = ''c''\<rparr>]"]
  by (simp add: lastn_def)

text \<open>
  a replay is complete. When events with increasing sequence numbers have
  been pushed, the position asked for is not older than the oldest stored event
  and some event is newer, \<open>EventsSince\<close> returns every event ever pushed with a
  larger sequence number, in order, overwritten slots notwithstanding.
\<close>
theorem EventsSince_complete:
  assumes "0 < n" and "feed Push (NewEventRingBuffer n) es = Some rb"
    and "sorted_wrt (\<lambda>x y. eseq x < eseq y) es"
    and "OldestSeq rb \<le> a" and "e \<in> set es" and "a < eseq e"
  shows "EventsSince rb a = Some (map edata (filter (\<lambda>e. a < eseq e) es))"
proof -
  from ring.adds_new [OF assms(1), of es] assms(2)
  have ok: "ring_ok rb" and c: "contents rb = lastn n es" by auto
  have "es \<noteq> []" using assms(5) by auto
  then have "0 < length (contents rb)" using assms(1) by (simp only: c length_lastn) simp
  then have "contents rb \<noteq> []" by blast
  then obtain e0 rest where e0: "contents rb = e0 # rest" by (cases "contents rb") auto
  then have "0 < rcount rb" using length_contents [of rb] by simp
  then have "eseq e0 = OldestSeq rb"
    using oldest_hd [OF ok] e0 by (simp add: OldestSeq_def)
  then show ?thesis
    using ring.since_complete [OF ok c assms(3) e0] assms(4-6) by simp
qed

theorem EventsSince_complete_witness:
  "EventsSince (the (feed Push (NewEventRingBuffer 2)
      [\<lparr>eseq = 1, edata = ''a''\<rparr>, \<lparr>eseq = 2, edata = ''b''\<rparr>, \<lparr>eseq = 3, edata = ''c''\<rparr>])) 2 = Some [''c'']"
proof -
  let ?es = "[\<lparr>eseq = 1, edata = ''a''\<rparr>, \<lparr>eseq = 2, edata = ''b''\<rparr>, \<lparr>eseq = 3, edata = ''c''\<rparr>]"
  obtain rb where rb: "feed Push (NewEventRingBuffer 2) ?es = Some rb"
    using ring.adds_new [of 2 ?es] by auto
  have "OldestSeq rb \<le> 2"
    using rb by (auto simp: push_event_def Push_def NewEventRingBuffer_def OldestSeq_def oldestIdx_def)
  then show ?thesis
    using EventsSince_complete [OF _ rb, of 2 "\<lparr>eseq = 3, edata = ''c''\<rparr>"] rb by simp
qed

text \<open>
  The nil result is ambiguous. A client that is up to date (no event is
  newer than its position) gets nil as well, the value that \<open>EventsSince\<close>
  documents, and \<open>ServeWS\<close> reads, as "position too old to replay".
\<close>
theorem EventsSince_up_to_date_nil:
  assumes "0 < n" and "feed Push (NewEventRingBuffer n) es = Some rb" and "\<forall>e \<in> set es. eseq e \<le> a"
  shows "EventsSince rb a = None"
  using ring.adds_new [OF assms(1), of es] assms(2,3) ring.since_nil by auto

theorem EventsSince_up_to_date_nil_witness:
  "EventsSince (the (feed Push (NewEventRingBuffer 2) [\<lparr>eseq = 1, edata = ''a''\<rparr>])) 1 = None"
proof -
  obtain rb where rb: "feed Push (NewEventRingBuffer 2) [\<lparr>eseq = 1, edata = ''a''\<rparr>] = Some rb"
    by (simp add: push_event_def Push_def NewEventRingBuffer_def)
  then show ?thesis
    using EventsSince_up_to_date_nil [OF _ rb, of 1] by simp
qed

end
