(* ===== verification/Schema.thy ===== *)
theory Schema
  imports DMQueries VoiceQueries
begin

text \<open>
  The constraints of the schema, for the whole database: primary keys with their
  AUTOINCREMENT counters, UNIQUE constraints and foreign keys. Every operation of the
  package \<^verbatim>\<open>db\<close> keeps them, also when the driver fails at any statement.
\<close>

section \<open>The constraints\<close>

definition pk_ok :: "int64 list \<Rightarrow> int64 \<Rightarrow> bool" where
  "pk_ok ids seq \<longleftrightarrow> distinct ids \<and> (\<forall>i \<in> set ids. 0 < i \<and> i \<le> seq) \<and> 0 \<le> seq"

definition keys_ok :: "'z database_scheme \<Rightarrow> bool" where
  "keys_ok s \<longleftrightarrow>
     pk_ok (map u_ID (users s)) (users_seq s) \<and> pk_ok (map s_ID (sessions s)) (sessions_seq s) \<and>
     pk_ok (map i_ID (invites s)) (invites_seq s) \<and> pk_ok (map c_ID (channels s)) (channels_seq s) \<and>
     pk_ok (map m_ID (messages s)) (messages_seq s)"

definition uniq_ok :: "'z database_scheme \<Rightarrow> bool" where
  "uniq_ok s \<longleftrightarrow>
     distinct (map (\<lambda>u. nocase (u_Username u)) (users s)) \<and> distinct (map s_TokenHash (sessions s)) \<and>
     distinct (map i_Code (invites s)) \<and> distinct (reactions s) \<and> distinct (map a_ID (attachments s)) \<and>
     distinct (map (\<lambda>r. (rs_user r, rs_channel r)) (read_states s)) \<and> distinct (map vr_user (voice_states s)) \<and>
     distinct (dm_participants s) \<and> distinct (map (\<lambda>d. (do_user d, do_channel d)) (dm_open_state s)) \<and>
     overrides_unique s"

definition message_refs :: "'z database_scheme \<Rightarrow> bool" where
  "message_refs s \<longleftrightarrow>
     (\<forall>m \<in> set (messages s). has_channel s (m_ChannelID m) \<and> has_user s (m_UserID m) \<and>
        (\<forall>r. m_ReplyTo m = Some r \<longrightarrow> has_message s r)) \<and>
     (\<forall>x \<in> set (reactions s). has_message s (rx_message x) \<and> has_user s (rx_user x)) \<and>
     (\<forall>a \<in> set (attachments s). \<forall>i. a_MessageID a = Some i \<longrightarrow> has_message s i)"

definition user_refs :: "'z database_scheme \<Rightarrow> bool" where
  "user_refs s \<longleftrightarrow>
     (\<forall>u \<in> set (users s). has_role s (u_RoleID u)) \<and>
     (\<forall>x \<in> set (sessions s). has_user s (s_UserID x)) \<and>
     (\<forall>i \<in> set (invites s). has_user s (i_CreatedBy i))"

definition channel_refs :: "'z database_scheme \<Rightarrow> bool" where
  "channel_refs s \<longleftrightarrow>
     (\<forall>ov \<in> set (channel_overrides s). has_channel s (ov_channel ov)) \<and>
     (\<forall>r \<in> set (read_states s). has_user s (rs_user r) \<and> has_channel s (rs_channel r)) \<and>
     (\<forall>v \<in> set (voice_states s). has_user s (vr_user v) \<and> has_channel s (vr_channel v)) \<and>
     (\<forall>p \<in> set (dm_participants s). has_channel s (fst p) \<and> has_user s (snd p)) \<and>
     (\<forall>d \<in> set (dm_open_state s). has_user s (do_user d) \<and> has_channel s (do_channel d))"

definition schema_ok :: "'z database_scheme \<Rightarrow> bool" where
  "schema_ok s \<longleftrightarrow> keys_ok s \<and> uniq_ok s \<and> message_refs s \<and> user_refs s \<and> channel_refs s"

lemmas schema_defs = schema_ok_def keys_ok_def uniq_ok_def message_refs_def user_refs_def channel_refs_def
  overrides_unique_def

lemmas has_defs = has_user_def has_channel_def has_role_def has_message_def

section \<open>Statements that keep them\<close>

lemma pk_ok_snoc: "pk_ok ids seq \<Longrightarrow> i = seq + 1 \<Longrightarrow> pk_ok (ids @ [i]) i"
  by (force simp: pk_ok_def)

lemma pk_ok_filter: "pk_ok (map f xs) seq \<Longrightarrow> pk_ok (map f (filter P xs)) seq"
  by (auto simp: pk_ok_def distinct_map_filter)

lemma schema_tick [simp]: "schema_ok (tick s) = schema_ok s"
  by (simp add: schema_defs has_defs)

lemma schema_rollback: "schema_ok s0 \<Longrightarrow> schema_ok (rollback_to s0 s)"
  by (simp add: schema_defs has_defs rollback_to_def)

lemma keeps_schema_exec:
  "(\<And>now s x s'. schema_ok s \<Longrightarrow> f now s = Inr (x, s') \<Longrightarrow> schema_ok s') \<Longrightarrow> keeps schema_ok (exec f)"
  by (rule keeps_exec) auto

lemma keeps_schema_execute:
  "(\<And>now s. schema_ok s \<Longrightarrow> schema_ok (f now s)) \<Longrightarrow> keeps schema_ok (execute f)"
  by (rule keeps_execute) auto

lemma keeps_schema_query [keeps_intro]: "keeps schema_ok (query f)"
  by (rule keeps_query) simp

lemma keeps_schema_transaction [keeps_intro]:
  assumes "keeps schema_ok m"
  shows "keeps schema_ok (transaction m)"
proof (rule keepsI)
  fix s :: "'a database_scheme"
  assume ok: "schema_ok s"
  then have "wp m (\<lambda>_ s'. schema_ok s') (tick s)"
    by (intro keeps_wp assms) simp
  then have "wp (transaction m) (\<lambda>_. schema_ok) s"
    unfolding wp_simps using ok
    by (auto elim!: wp_mono simp: schema_rollback split: sum.splits if_splits)
  then show "schema_ok (snd (run_state (transaction m) s))"
    by (simp add: wp_run)
qed

section \<open>Users, sessions and invites\<close>

lemma image_upd_where: "(\<And>x. g (f x) = g x) \<Longrightarrow> g ` set (upd_where P f xs) = g ` set xs"
  by (metis list.set_map map_upd_where)

lemma schema_upd_users:
  assumes "\<And>u. u_ID (f u) = u_ID u" and "\<And>u. u_Username (f u) = u_Username u"
    and "\<And>u. P u \<Longrightarrow> has_role s (u_RoleID u) \<Longrightarrow> has_role s (u_RoleID (f u))"
  shows "schema_ok s \<Longrightarrow> schema_ok (s\<lparr>users := upd_where P f (users s)\<rparr>)"
proof -
  have "has_user (s\<lparr>users := upd_where P f (users s)\<rparr>) = has_user s"
    using assms(1) by (auto simp: has_user_def image_upd_where)
  moreover have "has_role s (u_RoleID u)" if "u \<in> set (upd_where P f (users s))" "user_refs s" for u
    using that assms(3) by (auto simp: user_refs_def set_upd_where)
  ultimately show "schema_ok s \<Longrightarrow> schema_ok (s\<lparr>users := upd_where P f (users s)\<rparr>)"
    using assms(1,2)
    by (simp add: schema_defs map_upd_where has_channel_def has_role_def has_message_def)
qed

lemma schema_set_user:
  "(\<And>now u. u_ID (f now u) = u_ID u) \<Longrightarrow> (\<And>now u. u_Username (f now u) = u_Username u) \<Longrightarrow>
   (\<And>now u. u_RoleID (f now u) = u_RoleID u) \<Longrightarrow> keeps schema_ok (set_user uid f)"
  unfolding set_user_def by (rule keeps_schema_execute) (rule schema_upd_users, simp_all)

lemma schema_CreateUser [keeps_intro]: "keeps schema_ok (exec (insert_user username passwordHash roleID))"
  by (rule keeps_schema_exec)
    (auto simp: schema_defs has_defs insert_user_def new_user_def Let_def pk_ok_snoc split: if_splits)

lemma schema_UpdateUserStatus [keeps_intro]: "keeps schema_ok (UpdateUserStatus uid status)"
  unfolding UpdateUserStatus_def by (rule schema_set_user) simp_all

lemma schema_UpdateUserTOTPSecret [keeps_intro]: "keeps schema_ok (UpdateUserTOTPSecret uid secret)"
  unfolding UpdateUserTOTPSecret_def by (rule schema_set_user) simp_all

lemma schema_BanUser [keeps_intro]: "keeps schema_ok (BanUser uid reason expires)"
  unfolding BanUser_def Let_def by (rule schema_set_user) simp_all

lemma schema_UnbanUser [keeps_intro]: "keeps schema_ok (UnbanUser uid)"
  unfolding UnbanUser_def by (rule schema_set_user) simp_all

lemma schema_ResetAllUserStatuses [keeps_intro]: "keeps schema_ok ResetAllUserStatuses"
  unfolding ResetAllUserStatuses_def by (rule keeps_schema_execute) (rule schema_upd_users, simp_all)

lemma schema_UpdateUserRole [keeps_intro]: "keeps schema_ok (UpdateUserRole userID roleID)"
  unfolding UpdateUserRole_def
proof (rule keeps_schema_exec)
  fix now :: int and s s' :: "'a database_scheme" and x
  assume ok: "schema_ok s"
    and "(if has_user s userID \<and> \<not> has_role s roleID then Inl ErrForeignKey
          else Inr ((), s\<lparr>users := upd_where (\<lambda>u. u_ID u = userID) (\<lambda>u. u\<lparr>u_RoleID := roleID\<rparr>) (users s)\<rparr>)) = Inr (x, s')"
  then have s': "s' = s\<lparr>users := upd_where (\<lambda>u. u_ID u = userID) (\<lambda>u. u\<lparr>u_RoleID := roleID\<rparr>) (users s)\<rparr>"
    and cond: "has_user s userID \<Longrightarrow> has_role s roleID"
    by (auto split: if_splits)
  show "schema_ok s'"
  proof (cases "has_user s userID")
    case True
    with ok cond show ?thesis
      unfolding s' by (intro schema_upd_users) auto
  next
    case False
    then have "upd_where (\<lambda>u. u_ID u = userID) (\<lambda>u. u\<lparr>u_RoleID := roleID\<rparr>) (users s) = users s"
      by (intro upd_where_none) (auto simp: has_user_def)
    with ok show ?thesis by (simp add: s')
  qed
qed

lemma schema_CreateSession [keeps_intro]: "keeps schema_ok (CreateSession userID tokenHash device ip)"
proof -
  have "keeps schema_ok (time_now :: ('a database_scheme, time) state)"
    by (rule keepsI) (simp add: time_now_def schema_defs has_defs)
  moreover have "keeps schema_ok (exec (insert_session userID tokenHash device ip e))" for e
    by (rule keeps_schema_exec)
      (auto simp: schema_defs has_defs insert_session_def Let_def pk_ok_snoc split: if_splits)
  ultimately show ?thesis
    unfolding CreateSession_def by (intro keeps_intro)
qed

lemma schema_filter_sessions [intro]:
  "schema_ok s \<Longrightarrow> schema_ok (s\<lparr>sessions := filter P (sessions s)\<rparr>)"
  by (auto simp: schema_defs has_defs pk_ok_filter distinct_map_filter)

lemma schema_session_ops [keeps_intro]:
  "keeps schema_ok (DeleteSession tokenHash)" "keeps schema_ok (DeleteExpiredSessions strftime_s)"
  "keeps schema_ok (ForceLogoutUser userID)"
  unfolding DeleteSession_def DeleteExpiredSessions_def ForceLogoutUser_def
  by (auto intro!: keeps_schema_execute)

lemma schema_TouchSession [keeps_intro]: "keeps schema_ok (TouchSession tokenHash)"
  unfolding TouchSession_def by (rule keeps_schema_execute)
    (auto simp: schema_defs has_defs map_upd_where set_upd_where)

lemma schema_upd_invites:
  assumes "\<And>i. i_ID (f i) = i_ID i" and "\<And>i. i_Code (f i) = i_Code i" and "\<And>i. i_CreatedBy (f i) = i_CreatedBy i"
  shows "schema_ok s \<Longrightarrow> schema_ok (s\<lparr>invites := upd_where P f (invites s)\<rparr>)"
  using assms by (auto simp: schema_defs has_defs map_upd_where set_upd_where)

lemma schema_CreateInvite [keeps_intro]: "keeps schema_ok (CreateInvite b createdBy maxUses expiresAt)"
proof -
  have "keeps schema_ok (exec (insert_invite code createdBy n e))" for code n e
    by (rule keeps_schema_exec)
      (auto simp: schema_defs has_defs insert_invite_def Let_def pk_ok_snoc split: if_splits)
  then show ?thesis
    unfolding CreateInvite_def by (intro keeps_intro)
qed

lemma schema_use_invite [keeps_intro]: "keeps schema_ok (use_invite strftime_s code)"
  unfolding use_invite_def by (rule keeps_schema_exec) (auto intro!: schema_upd_invites)

lemma schema_invite_ops [keeps_intro]:
  "keeps schema_ok (UseInviteAtomic strftime_s code)" "keeps schema_ok (RevokeInvite code)"
  "keeps schema_ok (CreateUserWithInvite strftime_s username passwordHash roleID code)"
  unfolding UseInviteAtomic_def RevokeInvite_def CreateUserWithInvite_def
  by (auto intro!: keeps_intro keeps_schema_execute schema_upd_invites)

section \<open>Channels\<close>

lemma schema_insert_channel [keeps_intro]: "keeps schema_ok (exec (insert_channel name ty category topic position))"
  by (rule keeps_schema_exec)
    (auto simp: schema_defs has_defs insert_channel_def new_channel_def Let_def pk_ok_snoc)

lemma schema_upd_channels:
  assumes "\<And>c. c_ID (f c) = c_ID c"
  shows "schema_ok s \<Longrightarrow> schema_ok (s\<lparr>channels := upd_where P f (channels s)\<rparr>)"
proof -
  have "has_channel (s\<lparr>channels := upd_where P f (channels s)\<rparr>) = has_channel s"
    using assms by (auto simp: has_channel_def image_upd_where)
  then show "schema_ok s \<Longrightarrow> schema_ok (s\<lparr>channels := upd_where P f (channels s)\<rparr>)"
    using assms by (simp add: schema_defs map_upd_where has_user_def has_role_def has_message_def)
qed

lemma schema_channel_updates [keeps_intro]:
  "keeps schema_ok (UpdateChannel ch name topic slowMode)" "keeps schema_ok (SetChannelSlowMode ch slowMode)"
  "keeps schema_ok (SetChannelVoiceMaxUsers ch maxUsers)"
  "keeps schema_ok (AdminUpdateChannel ch name topic slowMode position archived)"
  unfolding UpdateChannel_def SetChannelSlowMode_def SetChannelVoiceMaxUsers_def AdminUpdateChannel_def
  by (auto intro!: keeps_schema_execute schema_upd_channels)

lemma delete_channel_ids:
  "map m_ID (messages (delete_channel_cascade ch s)) = map m_ID (filter (\<lambda>m. m_ChannelID m \<noteq> ch) (messages s))"
  by (simp add: delete_channel_cascade_def Let_def comp_def if_distrib cong: if_cong)

lemma delete_channel_refs:
  assumes "schema_ok s"
  shows "message_refs (delete_channel_cascade ch s)" and "channel_refs (delete_channel_cascade ch s)"
proof -
  let ?t = "delete_channel_cascade ch s"
  let ?gone = "m_ID ` {m \<in> set (messages s). m_ChannelID m = ch}"
  have [simp]: "has_user ?t = has_user s"
    by (auto simp: has_user_def delete_channel_cascade_def Let_def)
  have [simp]: "has_channel ?t i \<longleftrightarrow> has_channel s i \<and> i \<noteq> ch" for i
    by (auto simp: has_channel_def delete_channel_cascade_def Let_def)
  have ids: "map m_ID (messages ?t) = map m_ID (filter (\<lambda>m. m_ChannelID m \<noteq> ch) (messages s))"
    by (rule delete_channel_ids)
  have kept: "has_message ?t i" if "has_message s i" "i \<notin> ?gone" for i
  proof -
    have "i \<in> set (map m_ID (filter (\<lambda>m. m_ChannelID m \<noteq> ch) (messages s)))"
      using that by (auto simp: has_message_def)
    then have "i \<in> set (map m_ID (messages ?t))"
      using ids by simp
    then show ?thesis by (simp add: has_message_def)
  qed
  have msgs: "\<exists>m0 \<in> set (messages s). m_ChannelID m = m_ChannelID m0 \<and> m_UserID m = m_UserID m0 \<and> m_ChannelID m0 \<noteq> ch \<and>
        (\<forall>r. m_ReplyTo m = Some r \<longrightarrow> m_ReplyTo m0 = Some r \<and> r \<notin> ?gone)" if "m \<in> set (messages ?t)" for m
    using that by (force simp: delete_channel_cascade_def Let_def split: option.splits if_splits)
  have "has_message ?t (rx_message x) \<and> has_user s (rx_user x)" if "x \<in> set (reactions ?t)" for x
    using that assms
    by (intro conjI kept) (auto simp: schema_ok_def message_refs_def delete_channel_cascade_def Let_def)
  moreover have "has_message ?t i" if "a \<in> set (attachments ?t)" "a_MessageID a = Some i" for a i
    using that assms
    by (intro kept) (auto simp: schema_ok_def message_refs_def delete_channel_cascade_def Let_def)
  moreover have "has_channel s (m_ChannelID m) \<and> m_ChannelID m \<noteq> ch \<and> has_user s (m_UserID m)"
    if "m \<in> set (messages ?t)" for m
    using msgs [OF that] assms by (auto simp: schema_ok_def message_refs_def)
  moreover have "has_message ?t r" if "m \<in> set (messages ?t)" "m_ReplyTo m = Some r" for m r
    using msgs [OF that(1)] that(2) assms by (intro kept) (auto simp: schema_ok_def message_refs_def)
  ultimately show "message_refs ?t"
    by (simp add: message_refs_def)
  show "channel_refs ?t"
    using assms by (auto simp: schema_ok_def channel_refs_def) (auto simp: delete_channel_cascade_def Let_def)
qed

lemma schema_delete_channel: "schema_ok s \<Longrightarrow> schema_ok (delete_channel_cascade ch s)"
proof -
  assume ok: "schema_ok s"
  let ?t = "delete_channel_cascade ch s"
  have "pk_ok (map m_ID (messages ?t)) (messages_seq ?t)"
    unfolding delete_channel_ids
    using ok by (simp add: schema_ok_def keys_ok_def delete_channel_cascade_def Let_def pk_ok_filter)
  then have "keys_ok ?t"
    using ok by (simp add: schema_ok_def keys_ok_def) (simp add: delete_channel_cascade_def Let_def pk_ok_filter)
  moreover have "uniq_ok ?t"
    using ok by (simp add: schema_ok_def uniq_ok_def overrides_unique_def delete_channel_cascade_def Let_def distinct_map_filter)
  moreover have "user_refs ?t"
    using ok by (simp add: schema_ok_def user_refs_def has_user_def has_role_def delete_channel_cascade_def Let_def)
  ultimately show "schema_ok ?t"
    using delete_channel_refs [OF ok] by (simp add: schema_ok_def)
qed

lemma schema_channel_deletes [keeps_intro]:
  "keeps schema_ok (DeleteChannel ch)" "keeps schema_ok (AdminDeleteChannel ch)"
  unfolding DeleteChannel_def AdminDeleteChannel_def
  by (auto intro!: keeps_schema_execute schema_delete_channel)

section \<open>Messages, reactions and attachments\<close>

lemma schema_CreateMessage [keeps_intro]: "keeps schema_ok (CreateMessage channelID userID content replyTo)"
  unfolding CreateMessage_def
  by (rule keeps_schema_exec)
    (auto simp: schema_defs has_defs insert_message_def Let_def pk_ok_snoc split: if_splits option.splits)

lemma schema_upd_messages:
  assumes "\<And>m. m_ID (f m) = m_ID m" and "\<And>m. m_ChannelID (f m) = m_ChannelID m"
    and "\<And>m. m_UserID (f m) = m_UserID m" and "\<And>m. m_ReplyTo (f m) = m_ReplyTo m"
  shows "schema_ok s \<Longrightarrow> schema_ok (s\<lparr>messages := upd_where P f (messages s)\<rparr>)"
proof -
  have "has_message (s\<lparr>messages := upd_where P f (messages s)\<rparr>) = has_message s"
    using assms(1) by (auto simp: has_message_def image_upd_where)
  then show "schema_ok s \<Longrightarrow> schema_ok (s\<lparr>messages := upd_where P f (messages s)\<rparr>)"
    using assms by (auto simp: schema_defs map_upd_where set_upd_where has_user_def has_role_def has_channel_def)
qed

lemma schema_message_updates [keeps_intro]:
  "keeps schema_ok (EditMessage i userID content)" "keeps schema_ok (DeleteMessage i userID ismod)"
  "keeps schema_ok (SetMessagePinned i pinned)"
  unfolding EditMessage_def DeleteMessage_def SetMessagePinned_def GetMessage_def
  by (auto intro!: keeps_intro keeps_schema_execute keeps_schema_exec schema_upd_messages)

text \<open>Replacing one table by rows that satisfy its constraints.\<close>

lemma schema_replace:
  "schema_ok s \<Longrightarrow> distinct xs \<Longrightarrow> \<forall>x \<in> set xs. has_message s (rx_message x) \<and> has_user s (rx_user x) \<Longrightarrow>
   schema_ok (s\<lparr>reactions := xs\<rparr>)"
  "schema_ok s \<Longrightarrow> distinct (map a_ID as) \<Longrightarrow> \<forall>a \<in> set as. \<forall>i. a_MessageID a = Some i \<longrightarrow> has_message s i \<Longrightarrow>
   schema_ok (s\<lparr>attachments := as\<rparr>)"
  "schema_ok s \<Longrightarrow> distinct (map (\<lambda>r. (rs_user r, rs_channel r)) rs) \<Longrightarrow>
   \<forall>r \<in> set rs. has_user s (rs_user r) \<and> has_channel s (rs_channel r) \<Longrightarrow> schema_ok (s\<lparr>read_states := rs\<rparr>)"
  "schema_ok s \<Longrightarrow> distinct (map vr_user vs) \<Longrightarrow>
   \<forall>v \<in> set vs. has_user s (vr_user v) \<and> has_channel s (vr_channel v) \<Longrightarrow> schema_ok (s\<lparr>voice_states := vs\<rparr>)"
  "schema_ok s \<Longrightarrow> distinct ps \<Longrightarrow> \<forall>p \<in> set ps. has_channel s (fst p) \<and> has_user s (snd p) \<Longrightarrow>
   schema_ok (s\<lparr>dm_participants := ps\<rparr>)"
  "schema_ok s \<Longrightarrow> distinct (map (\<lambda>d. (do_user d, do_channel d)) ds) \<Longrightarrow>
   \<forall>d \<in> set ds. has_user s (do_user d) \<and> has_channel s (do_channel d) \<Longrightarrow> schema_ok (s\<lparr>dm_open_state := ds\<rparr>)"
  by (simp_all add: schema_defs has_defs)

lemma schema_tables:
  assumes "schema_ok s"
  shows "distinct (reactions s)" "\<forall>x \<in> set (reactions s). has_message s (rx_message x) \<and> has_user s (rx_user x)"
    and "distinct (map a_ID (attachments s))"
    and "\<forall>a \<in> set (attachments s). \<forall>i. a_MessageID a = Some i \<longrightarrow> has_message s i"
    and "distinct (map (\<lambda>r. (rs_user r, rs_channel r)) (read_states s))"
    and "\<forall>r \<in> set (read_states s). has_user s (rs_user r) \<and> has_channel s (rs_channel r)"
    and "distinct (map vr_user (voice_states s))"
    and "\<forall>v \<in> set (voice_states s). has_user s (vr_user v) \<and> has_channel s (vr_channel v)"
    and "distinct (dm_participants s)" "\<forall>p \<in> set (dm_participants s). has_channel s (fst p) \<and> has_user s (snd p)"
    and "distinct (map (\<lambda>d. (do_user d, do_channel d)) (dm_open_state s))"
    and "\<forall>d \<in> set (dm_open_state s). has_user s (do_user d) \<and> has_channel s (do_channel d)"
  using assms by (simp_all add: schema_ok_def uniq_ok_def message_refs_def channel_refs_def)

text \<open>Deleting rows of a table nothing refers to.\<close>

lemma schema_filter:
  assumes "schema_ok s"
  shows "schema_ok (s\<lparr>reactions := filter P (reactions s)\<rparr>)"
    and "schema_ok (s\<lparr>attachments := filter Q (attachments s)\<rparr>)"
    and "schema_ok (s\<lparr>read_states := filter R (read_states s)\<rparr>)"
    and "schema_ok (s\<lparr>voice_states := filter V (voice_states s)\<rparr>)"
    and "schema_ok (s\<lparr>dm_participants := filter W (dm_participants s)\<rparr>)"
    and "schema_ok (s\<lparr>dm_open_state := filter X (dm_open_state s)\<rparr>)"
  using schema_tables [OF assms] by (intro schema_replace [OF assms]; auto simp: distinct_map_filter)+

lemma schema_insert_reaction:
  "schema_ok s \<Longrightarrow> insert_reaction i userID emoji now s = Inr (x, s') \<Longrightarrow> schema_ok s'"
  using schema_tables(1,2) [of s]
  by (auto simp: insert_reaction_def Let_def intro!: schema_replace split: if_splits)

lemma schema_reaction_ops [keeps_intro]:
  "keeps schema_ok (AddReaction i userID emoji)" "keeps schema_ok (RemoveReaction i userID emoji)"
  unfolding AddReaction_def RemoveReaction_def Let_def
  by (auto intro!: keeps_intro keeps_schema_exec schema_filter intro: schema_insert_reaction)

lemma schema_CreateAttachment [keeps_intro]: "keeps schema_ok (CreateAttachment i fn stored mime sz w h)"
  unfolding CreateAttachment_def
  by (intro keeps_schema_exec)
    (auto dest: schema_tables(3) schema_tables(4) [rule_format] intro!: schema_replace split: if_splits)

lemma schema_link: "schema_ok s \<Longrightarrow> link_attachments messageID ids s = Inr (n, s') \<Longrightarrow> schema_ok s'"
proof -
  assume ok: "schema_ok s" and step: "link_attachments messageID ids s = Inr (n, s')"
  let ?P = "\<lambda>a. a_ID a \<in> set ids \<and> a_MessageID a = None"
  have s': "s' = s\<lparr>attachments := upd_where ?P (\<lambda>a. a\<lparr>a_MessageID := Some messageID\<rparr>) (attachments s)\<rparr>"
    and fk: "(\<exists>a \<in> set (attachments s). ?P a) \<longrightarrow> has_message s messageID"
    using step by (auto simp: link_attachments_def Let_def filter_empty_conv split: if_splits)
  show "schema_ok s'"
    using fk schema_tables(3,4) [OF ok] unfolding s'
    by (intro schema_replace [OF ok]) (auto simp: map_upd_where set_upd_where)
qed

lemma schema_LinkAttachments [keeps_intro]: "keeps schema_ok (LinkAttachmentsToMessage messageID ids)"
  unfolding LinkAttachmentsToMessage_def by (intro keeps_intro keeps_schema_exec) (rule schema_link)

lemma schema_DeleteOrphanedAttachments [keeps_intro]: "keeps schema_ok (DeleteOrphanedAttachments cutoff)"
  unfolding DeleteOrphanedAttachments_def by (intro keeps_intro keeps_schema_execute schema_filter)

lemma map_key_upsert_read:
  "map (\<lambda>r. (rs_user r, rs_channel r)) (upsert_read_state u ch i rs) =
     (if (u, ch) \<in> (\<lambda>r. (rs_user r, rs_channel r)) ` set rs then map (\<lambda>r. (rs_user r, rs_channel r)) rs
      else map (\<lambda>r. (rs_user r, rs_channel r)) rs @ [(u, ch)])"
  by (auto simp: upsert_read_state_def map_upd_where)

lemma schema_UpdateReadState [keeps_intro]: "keeps schema_ok (UpdateReadState userID channelID i)"
proof -
  have "schema_ok (s\<lparr>read_states := upsert_read_state userID channelID i (read_states s)\<rparr>)"
    if ok: "schema_ok s" and fk: "has_user s userID" "has_channel s channelID" for s :: "'a database_scheme"
  proof (rule schema_replace(3) [OF ok])
    show "distinct (map (\<lambda>r. (rs_user r, rs_channel r)) (upsert_read_state userID channelID i (read_states s)))"
      using schema_tables(5) [OF ok] by (simp add: map_key_upsert_read)
    show "\<forall>r \<in> set (upsert_read_state userID channelID i (read_states s)). has_user s (rs_user r) \<and> has_channel s (rs_channel r)"
      using schema_tables(6) [OF ok] fk by (auto simp: upsert_read_state_def set_upd_where)
  qed
  then show ?thesis
    unfolding UpdateReadState_def by (intro keeps_schema_exec) (auto split: if_splits)
qed

section \<open>Voice states\<close>

lemma schema_upd_voice:
  assumes "\<And>v. vr_user (f v) = vr_user v" and "\<And>v. vr_channel (f v) = vr_channel v" and ok: "schema_ok s"
  shows "schema_ok (s\<lparr>voice_states := upd_where P f (voice_states s)\<rparr>)"
  using schema_tables(7,8) [OF ok] assms(1,2)
  by (intro schema_replace(4) [OF ok]) (auto simp: map_upd_where set_upd_where)

lemma schema_voice_updates [keeps_intro]:
  "keeps schema_ok (UpdateVoiceMute u b)" "keeps schema_ok (UpdateVoiceDeafen u b)"
  "keeps schema_ok (UpdateVoiceCamera u b)" "keeps schema_ok (UpdateVoiceScreenshare u b)"
  unfolding UpdateVoiceMute_def UpdateVoiceDeafen_def UpdateVoiceCamera_def UpdateVoiceScreenshare_def set_voice_def
  by (auto intro!: keeps_schema_execute schema_upd_voice)

lemma schema_voice_deletes [keeps_intro]:
  "keeps schema_ok (LeaveVoiceChannel u)" "keeps schema_ok (ClearVoiceState u)" "keeps schema_ok ClearAllVoiceStates"
  unfolding LeaveVoiceChannel_def ClearVoiceState_def ClearAllVoiceStates_def
  by (auto intro!: keeps_schema_execute schema_filter schema_replace)

lemma schema_JoinVoiceChannel [keeps_intro]: "keeps schema_ok (JoinVoiceChannel userID channelID)"
proof -
  have "schema_ok (s\<lparr>voice_states := upsert_voice userID channelID now (voice_states s)\<rparr>)"
    if ok: "schema_ok s" and fk: "has_user s userID" "has_channel s channelID" for now and s :: "'a database_scheme"
  proof (rule schema_replace(4) [OF ok])
    show "distinct (map vr_user (upsert_voice userID channelID now (voice_states s)))"
      using schema_tables(7) [OF ok] by (rule distinct_upsert)
    show "\<forall>v \<in> set (upsert_voice userID channelID now (voice_states s)). has_user s (vr_user v) \<and> has_channel s (vr_channel v)"
      using schema_tables(8) [OF ok] fk by (auto simp: upsert_voice_def set_upd_where)
  qed
  then show ?thesis
    unfolding JoinVoiceChannel_def by (intro keeps_schema_exec) (auto split: if_splits)
qed

section \<open>Direct messages\<close>

lemma schema_open_rows:
  assumes "schema_ok s" and "distinct (map (\<lambda>d. (do_user d, do_channel d)) ds)"
    and "\<forall>d \<in> set ds. has_user s (do_user d) \<and> has_channel s (do_channel d)"
    and "\<forall>p \<in> set ps. has_user s (fst p) \<and> has_channel s (snd p)"
  shows "schema_ok (s\<lparr>dm_open_state := fold (open_row now) ps ds\<rparr>)"
  using assms(2-4)
proof (induction ps arbitrary: ds)
  case Nil
  then show ?case using schema_replace(6) [OF assms(1)] by simp
next
  case (Cons p ps)
  have "distinct (map (\<lambda>d. (do_user d, do_channel d)) (open_row now p ds))"
    using Cons.prems(1) by (force simp: open_row_def)
  moreover have "\<forall>d \<in> set (open_row now p ds). has_user s (do_user d) \<and> has_channel s (do_channel d)"
    using Cons.prems(2,3) by (auto simp: open_row_def)
  ultimately show ?case using Cons.IH Cons.prems(3) by simp
qed

lemma schema_insert_open [keeps_intro]: "keeps schema_ok (exec (insert_open ps))"
  by (rule keeps_schema_exec)
    (auto simp: insert_open_def intro!: schema_open_rows dest: schema_tables(11) schema_tables(12) [rule_format] split: if_splits)

lemma schema_insert_participants [keeps_intro]:
  "keeps schema_ok (exec (\<lambda>now. insert_participants channelID user1ID user2ID))"
proof (rule keeps_schema_exec)
  fix now :: int and s s' :: "'a database_scheme" and x
  assume ok: "schema_ok s" and step: "insert_participants channelID user1ID user2ID s = Inr (x, s')"
  then show "schema_ok s'"
    using schema_tables(9,10) [OF ok]
    by (auto simp: insert_participants_def Let_def intro!: schema_replace split: if_splits)
qed

lemma schema_dm_ops [keeps_intro]:
  "keeps schema_ok (GetOrCreateDMChannel u v)" "keeps schema_ok (OpenDM u ch)" "keeps schema_ok (CloseDM u ch)"
  unfolding GetOrCreateDMChannel_def dm_transaction_def OpenDM_def CloseDM_def GetChannel_def
  by (intro keeps_intro keeps_schema_execute schema_filter; simp)+

section \<open>Audit log, settings and account deletion\<close>

lemma schema_LogAudit [keeps_intro]: "keeps schema_ok (LogAudit actorID action ty target detail)"
  unfolding LogAudit_def by (rule keeps_schema_execute) (simp add: schema_defs has_defs)

lemma schema_SetSetting [keeps_intro]: "keeps schema_ok (SetSetting key v)"
  unfolding SetSetting_def by (rule keeps_schema_execute) (simp add: schema_defs has_defs)

lemma distinct_upd_where:
  assumes "distinct (map h xs)" and "distinct (map g xs)" and "\<And>x. g (f x) = v"
    and "\<forall>x \<in> set xs. h x \<noteq> i \<longrightarrow> g x \<noteq> v"
  shows "distinct (map g (upd_where (\<lambda>x. h x = i) f xs))"
  using assms(1,2,4)
proof (induction xs)
  case (Cons x xs)
  show ?case
  proof (cases "h x = i")
    case True
    with Cons.prems have others: "\<forall>y \<in> set xs. h y \<noteq> i"
      by (auto simp: image_iff)
    then have "upd_where (\<lambda>x. h x = i) f xs = xs"
      by (intro upd_where_none) auto
    moreover have "v \<notin> g ` set xs"
      using others Cons.prems(3) by auto
    ultimately show ?thesis
      using True Cons.prems(2) assms(3) by simp
  next
    case False
    with Cons assms(3) show ?thesis by (auto simp: set_upd_where)
  qed
qed simp

lemma schema_anonymise:
  assumes ok: "schema_ok s" and step: "anonymise_row userID s = Inr (x, s')"
  shows "schema_ok s'"
proof -
  let ?us = "upd_where (\<lambda>u. u_ID u = userID) (anonymise userID) (users s)"
  have s': "s' = s\<lparr>users := ?us\<rparr>"
    and free: "has_user s userID \<longrightarrow> (\<forall>u \<in> set (users s). u_ID u \<noteq> userID \<longrightarrow> nocase (u_Username u) \<noteq> nocase (anon_username userID))"
    using step by (auto simp: anonymise_row_def split: if_splits)
  have same: "u_ID (anonymise userID u) = u_ID u" "u_RoleID (anonymise userID u) = u_RoleID u" for u
    by (simp_all add: anonymise_def)
  have "distinct (map (\<lambda>u. nocase (u_Username u)) ?us)"
  proof (cases "has_user s userID")
    case True
    with free ok show ?thesis
      by (intro distinct_upd_where [where v = "nocase (anon_username userID)"])
        (auto simp: schema_ok_def uniq_ok_def keys_ok_def pk_ok_def anonymise_def)
  next
    case False
    then have "?us = users s"
      by (intro upd_where_none) (auto simp: has_user_def)
    with ok show ?thesis by (simp add: schema_ok_def uniq_ok_def)
  qed
  moreover have "has_user s' = has_user s"
    using same by (auto simp: s' has_user_def image_upd_where)
  moreover have "\<forall>u \<in> set ?us. has_role s (u_RoleID u)"
    using ok same by (auto simp: schema_ok_def user_refs_def set_upd_where)
  ultimately show ?thesis
    using ok same unfolding s'
    by (simp add: schema_defs map_upd_where has_channel_def has_role_def has_message_def)
qed

lemma schema_DeleteAccount [keeps_intro]: "keeps schema_ok (DeleteAccount userID)"
  unfolding DeleteAccount_def last_admin_guard_def
  by (intro keeps_intro keeps_schema_execute keeps_schema_exec schema_filter schema_filter_sessions schema_upd_messages)
    (auto intro: schema_anonymise)

section \<open>Every run keeps the constraints\<close>

text \<open>The calls of the package that write to the database.\<close>

datatype user_call =
    DCreateUser string string int64
  | DCreateUserWithInvite string string int64 string
  | DUpdateUserStatus int64 string
  | DUpdateUserTOTPSecret int64 "string option"
  | DUpdateUserRole int64 int64
  | DResetAllUserStatuses
  | DBanUser int64 string "time option"
  | DUnbanUser int64
  | DDeleteAccount int64

datatype auth_call =
    DCreateSession int64 string string string
  | DDeleteSession string
  | DDeleteExpiredSessions
  | DTouchSession string
  | DForceLogoutUser int64
  | DCreateInvite "string option" int64 int "time option"
  | DUseInvite string
  | DRevokeInvite string

datatype channel_call =
    DCreateChannel string string string string int
  | DUpdateChannel int64 string string int
  | DSetChannelSlowMode int64 int
  | DSetChannelVoiceMaxUsers int64 int
  | DAdminUpdateChannel int64 string string int int bool
  | DDeleteChannel int64

datatype message_call =
    DCreateMessage int64 int64 string "int64 option"
  | DEditMessage int64 int64 string
  | DDeleteMessage int64 int64 bool
  | DSetMessagePinned int64 bool
  | DAddReaction int64 int64 string
  | DRemoveReaction int64 int64 string
  | DCreateAttachment string string string string int64 "int option" "int option"
  | DLinkAttachments int64 "string list"
  | DDeleteOrphaned string
  | DUpdateReadState int64 int64 int64

datatype voice_call =
    DJoinVoice int64 int64
  | DLeaveVoice int64
  | DClearVoice int64
  | DClearAllVoice
  | DVoiceMute int64 bool
  | DVoiceDeafen int64 bool
  | DVoiceCamera int64 bool
  | DVoiceScreenshare int64 bool

datatype dm_call =
    DGetOrCreateDM int64 int64
  | DOpenDM int64 int64
  | DCloseDM int64 int64
  | DLogAudit int64 string string int64 string
  | DSetSetting string string

datatype db_call =
    UserCall user_call | AuthCall auth_call | ChannelCall channel_call | MessageCall message_call
  | VoiceCall voice_call | DMCall dm_call

text \<open>A call, its result dropped.\<close>

definition run_call :: "('s, 'a) state \<Rightarrow> 's \<Rightarrow> 's" where
  "run_call m s = snd (run_state m s)"

primrec user_step :: "(string \<Rightarrow> string option) \<Rightarrow> user_call \<Rightarrow> 'z database_scheme \<Rightarrow> 'z database_scheme" where
  "user_step st (DCreateUser n h r) = run_call (CreateUser n h r)"
| "user_step st (DCreateUserWithInvite n h r c) = run_call (CreateUserWithInvite st n h r c)"
| "user_step st (DUpdateUserStatus u x) = run_call (UpdateUserStatus u x)"
| "user_step st (DUpdateUserTOTPSecret u x) = run_call (UpdateUserTOTPSecret u x)"
| "user_step st (DUpdateUserRole u r) = run_call (UpdateUserRole u r)"
| "user_step st DResetAllUserStatuses = run_call ResetAllUserStatuses"
| "user_step st (DBanUser u r t) = run_call (BanUser u r t)"
| "user_step st (DUnbanUser u) = run_call (UnbanUser u)"
| "user_step st (DDeleteAccount u) = run_call (DeleteAccount u)"

primrec auth_step :: "(string \<Rightarrow> string option) \<Rightarrow> auth_call \<Rightarrow> 'z database_scheme \<Rightarrow> 'z database_scheme" where
  "auth_step st (DCreateSession u h d i) = run_call (CreateSession u h d i)"
| "auth_step st (DDeleteSession h) = run_call (DeleteSession h)"
| "auth_step st DDeleteExpiredSessions = run_call (DeleteExpiredSessions st)"
| "auth_step st (DTouchSession h) = run_call (TouchSession h)"
| "auth_step st (DForceLogoutUser u) = run_call (ForceLogoutUser u)"
| "auth_step st (DCreateInvite b u n t) = run_call (CreateInvite b u n t)"
| "auth_step st (DUseInvite c) = run_call (UseInviteAtomic st c)"
| "auth_step st (DRevokeInvite c) = run_call (RevokeInvite c)"

primrec channel_step :: "channel_call \<Rightarrow> 'z database_scheme \<Rightarrow> 'z database_scheme" where
  "channel_step (DCreateChannel n ty ca to po) = run_call (CreateChannel n ty ca to po)"
| "channel_step (DUpdateChannel c n to sm) = run_call (UpdateChannel c n to sm)"
| "channel_step (DSetChannelSlowMode c x) = run_call (SetChannelSlowMode c x)"
| "channel_step (DSetChannelVoiceMaxUsers c x) = run_call (SetChannelVoiceMaxUsers c x)"
| "channel_step (DAdminUpdateChannel c n to sm po a) = run_call (AdminUpdateChannel c n to sm po a)"
| "channel_step (DDeleteChannel c) = run_call (DeleteChannel c)"

primrec message_step :: "message_call \<Rightarrow> 'z database_scheme \<Rightarrow> 'z database_scheme" where
  "message_step (DCreateMessage c u t r) = run_call (CreateMessage c u t r)"
| "message_step (DEditMessage i u t) = run_call (EditMessage i u t)"
| "message_step (DDeleteMessage i u b) = run_call (DeleteMessage i u b)"
| "message_step (DSetMessagePinned i b) = run_call (SetMessagePinned i b)"
| "message_step (DAddReaction i u e) = run_call (AddReaction i u e)"
| "message_step (DRemoveReaction i u e) = run_call (RemoveReaction i u e)"
| "message_step (DCreateAttachment i f sa mt sz w h) = run_call (CreateAttachment i f sa mt sz w h)"
| "message_step (DLinkAttachments i as) = run_call (LinkAttachmentsToMessage i as)"
| "message_step (DDeleteOrphaned c) = run_call (DeleteOrphanedAttachments c)"
| "message_step (DUpdateReadState u c i) = run_call (UpdateReadState u c i)"

primrec voice_step :: "voice_call \<Rightarrow> 'z database_scheme \<Rightarrow> 'z database_scheme" where
  "voice_step (DJoinVoice u c) = run_call (JoinVoiceChannel u c)"
| "voice_step (DLeaveVoice u) = run_call (LeaveVoiceChannel u)"
| "voice_step (DClearVoice u) = run_call (ClearVoiceState u)"
| "voice_step DClearAllVoice = run_call ClearAllVoiceStates"
| "voice_step (DVoiceMute u b) = run_call (UpdateVoiceMute u b)"
| "voice_step (DVoiceDeafen u b) = run_call (UpdateVoiceDeafen u b)"
| "voice_step (DVoiceCamera u b) = run_call (UpdateVoiceCamera u b)"
| "voice_step (DVoiceScreenshare u b) = run_call (UpdateVoiceScreenshare u b)"

primrec dm_step :: "dm_call \<Rightarrow> 'z database_scheme \<Rightarrow> 'z database_scheme" where
  "dm_step (DGetOrCreateDM u v) = run_call (GetOrCreateDMChannel u v)"
| "dm_step (DOpenDM u c) = run_call (OpenDM u c)"
| "dm_step (DCloseDM u c) = run_call (CloseDM u c)"
| "dm_step (DLogAudit a x ty i d) = run_call (LogAudit a x ty i d)"
| "dm_step (DSetSetting k v) = run_call (SetSetting k v)"

primrec db_step :: "(string \<Rightarrow> string option) \<Rightarrow> db_call \<Rightarrow> 'z database_scheme \<Rightarrow> 'z database_scheme" where
  "db_step st (UserCall c) = user_step st c"
| "db_step st (AuthCall c) = auth_step st c"
| "db_step st (ChannelCall c) = channel_step c"
| "db_step st (MessageCall c) = message_step c"
| "db_step st (VoiceCall c) = voice_step c"
| "db_step st (DMCall c) = dm_step c"

lemma schema_creates [keeps_intro]:
  "keeps schema_ok (CreateUser username passwordHash roleID)"
  "keeps schema_ok (CreateChannel name ty category topic position)"
  "keeps schema_ok (AdminCreateChannel name ty category topic position)"
  unfolding CreateUser_def CreateChannel_def AdminCreateChannel_def by (intro keeps_intro)+

lemma schema_run_call: "keeps schema_ok m \<Longrightarrow> schema_ok s \<Longrightarrow> schema_ok (run_call m s)"
  by (simp add: run_call_def keepsD)

lemma schema_user_step: "schema_ok s \<Longrightarrow> schema_ok (user_step st c s)"
  by (cases c) (simp_all add: schema_run_call keeps_intro)

lemma schema_auth_step: "schema_ok s \<Longrightarrow> schema_ok (auth_step st c s)"
  by (cases c) (simp_all add: schema_run_call keeps_intro)

lemma schema_channel_step: "schema_ok s \<Longrightarrow> schema_ok (channel_step c s)"
  by (cases c) (simp_all add: schema_run_call keeps_intro)

lemma schema_message_step: "schema_ok s \<Longrightarrow> schema_ok (message_step c s)"
  by (cases c) (simp_all add: schema_run_call keeps_intro)

lemma schema_voice_step: "schema_ok s \<Longrightarrow> schema_ok (voice_step c s)"
  by (cases c) (simp_all add: schema_run_call keeps_intro)

lemma schema_dm_step: "schema_ok s \<Longrightarrow> schema_ok (dm_step c s)"
  by (cases c) (simp_all add: schema_run_call keeps_intro)

lemma schema_db_step: "schema_ok s \<Longrightarrow> schema_ok (db_step st c s)"
  by (cases c) (simp_all add: schema_user_step schema_auth_step schema_channel_step
    schema_message_step schema_voice_step schema_dm_step)

text \<open>The migrated database, under any pattern of driver failures and any clock.\<close>

definition fresh_db :: "database \<Rightarrow> bool" where
  "fresh_db s \<longleftrightarrow> (\<exists>fs cl. s = initial_db\<lparr>faults := fs, clock := cl\<rparr>)"

lemma schema_fresh: "schema_ok (initial_db\<lparr>faults := fs, clock := cl\<rparr>)"
  by (simp add: initial_db_def schema_defs pk_ok_def)

interpretation db_sys: inv_system fresh_db "db_step st" schema_ok for st
  by unfold_locales (auto simp: fresh_db_def schema_fresh intro: schema_db_step)

text \<open>
  The schema invariant. Starting from the migrated database, after any sequence
  of calls of the package \<^verbatim>\<open>db\<close>, with statements failing in the driver at any points and
  any clock, primary keys are unique, positive and below their counters, UNIQUE
  constraints hold and no foreign key dangles: the model of every statement, with its
  constraint checks, cascades and rollbacks, agrees with the schema.
\<close>
theorem db_runs_keep_schema:
  "schema_ok (fold (db_step strftime_s) ops (initial_db\<lparr>faults := fs, clock := cl\<rparr>))"
  by (rule db_sys.inv_run) (auto simp: fresh_db_def)

end
