(* ===== verification/Hub.thy ===== *)
theory Hub
  imports Messages RateLimit RingBuffer Schema
begin

text \<open>
  The hub of \<^verbatim>\<open>ws/hub.go\<close> and the client of \<^verbatim>\<open>ws/client.go\<close>. Clients are objects: the
  model has a heap of them, and the map of registered clients holds addresses, so a
  replaced connection and its replacement are different objects of one user. The send
  channel of a client and the broadcast channel of the hub are bounded queues. A
  method that Go runs under a mutex is one step of the state monad. LiveKit is an
  external server: token signing is a parameter, and the participants removed there
  are recorded in the order of the calls.
\<close>

section \<open>State\<close>

record Client =
  k_userID :: int64
  k_user :: "User option"
  k_channelID :: int64
  k_voiceChID :: int64
  k_roleName :: string
  k_tokenHash :: string
  k_connectedAt :: time
  k_remoteAddr :: string
  k_msgCount :: int
  k_msgsReceived :: int64
  k_msgsSent :: int64
  k_msgsDropped :: int64
  k_invalidCount :: int
  k_lastActivity :: time
  k_sendClosed :: bool
  k_send :: "bytes list"

type_synonym addr = nat

record broadcastMsg =
  b_channelID :: int64
  b_msg :: bytes

text \<open>The claims of a LiveKit access token.\<close>

record AccessToken =
  at_identity :: string
  at_name :: string
  at_room :: string
  at_canPublish :: bool
  at_canSubscribe :: bool
  at_canPublishData :: bool

record LiveKitClient =
  lk_url :: string
  lk_toJWT :: "AccessToken \<Rightarrow> string option"

record hub = database +
  h_clients :: "(int64 \<times> addr) list"
  h_heap :: "addr \<Rightarrow> Client"
  h_next :: addr
  h_limiter :: RateLimiter
  h_broadcast :: "broadcastMsg list"
  h_seq :: uint64
  h_replayBuf :: EventRingBuffer
  h_settingsName :: string
  h_settingsMotd :: string
  h_settingsLastUpdate :: time
  h_livekit :: "LiveKitClient option"
  h_lkRunning :: "bool option"
  h_lkRemoved :: "(int64 \<times> int64) list"
  h_retries :: "(int64 \<times> nat) list"

definition sendBufSize :: nat where "sendBufSize = 256"
definition SessionCheckInterval :: int where "SessionCheckInterval = 10"
definition broadcastCap :: nat where "broadcastCap = 256"
definition staleClientTimeout :: duration where "staleClientTimeout = 90 * Second"
definition settingsCacheTTL :: duration where "settingsCacheTTL = 30 * Second"

section \<open>Clients\<close>

definition zero_client :: Client where
  "zero_client = \<lparr>k_userID = 0, k_user = None, k_channelID = 0, k_voiceChID = 0, k_roleName = [], k_tokenHash = [],
     k_connectedAt = 0, k_remoteAddr = [], k_msgCount = 0, k_msgsReceived = 0, k_msgsSent = 0, k_msgsDropped = 0,
     k_invalidCount = 0, k_lastActivity = 0, k_sendClosed = False, k_send = []\<rparr>"

definition client :: "addr \<Rightarrow> ('z hub_scheme, Client) state" where
  "client c = gets (\<lambda>s. h_heap s c)"

definition set_client :: "addr \<Rightarrow> (Client \<Rightarrow> Client) \<Rightarrow> 'z hub_scheme \<Rightarrow> 'z hub_scheme" where
  "set_client c f s = s\<lparr>h_heap := (h_heap s)(c := f (h_heap s c))\<rparr>"

definition newClient :: "User \<Rightarrow> string \<Rightarrow> ('z hub_scheme, addr) state" where
  "newClient user tokenHash = do {
     now \<leftarrow> time_now;
     c \<leftarrow> gets h_next;
     modify (\<lambda>s. s\<lparr>h_next := Suc c, h_heap := (h_heap s)(c :=
       \<lparr>k_userID = u_ID user, k_user = Some user, k_channelID = 0, k_voiceChID = 0, k_roleName = [], k_tokenHash = tokenHash,
        k_connectedAt = now, k_remoteAddr = [], k_msgCount = 0, k_msgsReceived = 0, k_msgsSent = 0, k_msgsDropped = 0,
        k_invalidCount = 0, k_lastActivity = now, k_sendClosed = False, k_send = []\<rparr>)\<rparr>);
     return c
   }"

definition touch :: "addr \<Rightarrow> ('z hub_scheme, unit) state" where
  "touch c = do {
     now \<leftarrow> time_now;
     modify (set_client c (\<lambda>k. k\<lparr>k_lastActivity := now, k_msgsReceived := k_msgsReceived k + 1\<rparr>))
   }"

definition getVoiceChID :: "addr \<Rightarrow> ('z hub_scheme, int64) state" where
  "getVoiceChID c = gets (\<lambda>s. k_voiceChID (h_heap s c))"

definition setVoiceChID :: "addr \<Rightarrow> int64 \<Rightarrow> ('z hub_scheme, unit) state" where
  "setVoiceChID c ch = modify (set_client c (\<lambda>k. k\<lparr>k_voiceChID := ch\<rparr>))"

definition clearVoiceChID :: "addr \<Rightarrow> ('z hub_scheme, int64) state" where
  "clearVoiceChID c = do {
     oldChID \<leftarrow> gets (\<lambda>s. k_voiceChID (h_heap s c));
     modify (set_client c (\<lambda>k. k\<lparr>k_voiceChID := 0\<rparr>));
     return oldChID
   }"

text \<open>The non-blocking send: whether it was accepted, and the client after it.\<close>

definition push_msg :: "bytes \<Rightarrow> Client \<Rightarrow> bool \<times> Client" where
  "push_msg msg k =
     (if k_sendClosed k then (False, k)
      else if length (k_send k) < sendBufSize
      then (True, k\<lparr>k_send := k_send k @ [msg], k_msgsSent := k_msgsSent k + 1\<rparr>)
      else (False, k\<lparr>k_msgsDropped := k_msgsDropped k + 1\<rparr>))"

definition sendMsg :: "addr \<Rightarrow> bytes \<Rightarrow> ('z hub_scheme, unit) state" where
  "sendMsg c msg = modify (set_client c (snd \<circ> push_msg msg))"

definition trySendMsg :: "addr \<Rightarrow> bytes \<Rightarrow> ('z hub_scheme, bool) state" where
  "trySendMsg c msg = do {
     ok \<leftarrow> gets (\<lambda>s. fst (push_msg msg (h_heap s c)));
     modify (set_client c (snd \<circ> push_msg msg));
     return ok
   }"

definition closeSend :: "addr \<Rightarrow> ('z hub_scheme, unit) state" where
  "closeSend c = modify (set_client c (\<lambda>k. if \<not> k_sendClosed k then k\<lparr>k_sendClosed := True\<rparr> else k))"

section \<open>Registration\<close>

definition registered :: "'z hub_scheme \<Rightarrow> int64 \<Rightarrow> addr option" where
  "registered s u = map_of (h_clients s) u"

definition IsUserConnected :: "int64 \<Rightarrow> ('z hub_scheme, bool) state" where
  "IsUserConnected userID = gets (\<lambda>s. registered s userID \<noteq> None)"

definition GetClient :: "int64 \<Rightarrow> ('z hub_scheme, addr option) state" where
  "GetClient userID = gets (\<lambda>s. registered s userID)"

definition registerNow :: "addr \<Rightarrow> ('z hub_scheme, unit) state" where
  "registerNow c = do {
     userID \<leftarrow> gets (\<lambda>s. k_userID (h_heap s c));
     old \<leftarrow> gets (\<lambda>s. registered s userID);
     (case old of
        None \<Rightarrow> return ()
      | Some old \<Rightarrow> do {
          oldVoiceChID \<leftarrow> clearVoiceChID old;
          ch \<leftarrow> getVoiceChID c;
          (if ch = 0 then setVoiceChID c oldVoiceChID else return ());
          closeSend old
        });
     modify (\<lambda>s. s\<lparr>h_clients := AList.update userID c (h_clients s)\<rparr>)
   }"

definition drop_client :: "addr \<Rightarrow> 'z hub_scheme \<Rightarrow> 'z hub_scheme" where
  "drop_client c s =
     (let userID = k_userID (h_heap s c)
      in if registered s userID = Some c then s\<lparr>h_clients := AList.delete userID (h_clients s)\<rparr> else s)"

definition unregisterNow :: "addr \<Rightarrow> ('z hub_scheme, unit) state" where
  "unregisterNow c = modify (drop_client c)"

definition kickClient :: "addr \<Rightarrow> ('z hub_scheme, unit) state" where
  "kickClient c = do { modify (drop_client c); closeSend c }"

definition ClientCount :: "('z hub_scheme, int) state" where
  "ClientCount = gets (\<lambda>s. int (length (h_clients s)))"

definition VoiceSessionCount :: "('z hub_scheme, int) state" where
  "VoiceSessionCount = gets (\<lambda>s. int (length (filter (\<lambda>(u, c). k_voiceChID (h_heap s c) \<noteq> 0) (h_clients s))))"

definition sweepStaleClients :: "('z hub_scheme, unit) state" where
  "sweepStaleClients = do {
     now \<leftarrow> time_now;
     stale \<leftarrow> gets (\<lambda>s. filter (\<lambda>c. now - k_lastActivity (h_heap s c) > staleClientTimeout) (map snd (h_clients s)));
     for_each stale kickClient
   }"

section \<open>Delivery\<close>

definition enqueue :: "broadcastMsg \<Rightarrow> 'z hub_scheme \<Rightarrow> 'z hub_scheme" where
  "enqueue bm s = (if length (h_broadcast s) < broadcastCap then s\<lparr>h_broadcast := h_broadcast s @ [bm]\<rparr> else s)"

definition BroadcastToChannel :: "int64 \<Rightarrow> bytes \<Rightarrow> ('z hub_scheme, unit) state" where
  "BroadcastToChannel channelID msg = modify (enqueue \<lparr>b_channelID = channelID, b_msg = msg\<rparr>)"

definition BroadcastToAll :: "bytes \<Rightarrow> ('z hub_scheme, unit) state" where
  "BroadcastToAll msg = modify (enqueue \<lparr>b_channelID = 0, b_msg = msg\<rparr>)"

definition BroadcastServerRestart :: "string \<Rightarrow> int \<Rightarrow> ('z hub_scheme, unit) state" where
  "BroadcastServerRestart reason delaySeconds = BroadcastToAll (buildServerRestartMsg reason delaySeconds)"

definition BroadcastChannelCreate :: "Channel \<Rightarrow> ('z hub_scheme, unit) state" where
  "BroadcastChannelCreate ch = BroadcastToAll (buildChannelCreate ch)"

definition BroadcastChannelUpdate :: "Channel \<Rightarrow> ('z hub_scheme, unit) state" where
  "BroadcastChannelUpdate ch = BroadcastToAll (buildChannelUpdate ch)"

definition BroadcastChannelDelete :: "int64 \<Rightarrow> ('z hub_scheme, unit) state" where
  "BroadcastChannelDelete channelID = BroadcastToAll (buildChannelDelete channelID)"

definition BroadcastMemberBan :: "int64 \<Rightarrow> ('z hub_scheme, unit) state" where
  "BroadcastMemberBan userID = BroadcastToAll (buildMemberBan userID)"

definition BroadcastMemberUpdate :: "int64 \<Rightarrow> string \<Rightarrow> ('z hub_scheme, unit) state" where
  "BroadcastMemberUpdate userID roleName = BroadcastToAll (buildMemberUpdate userID roleName)"

definition SendToUser :: "int64 \<Rightarrow> bytes \<Rightarrow> ('z hub_scheme, bool) state" where
  "SendToUser userID msg = do {
     c \<leftarrow> gets (\<lambda>s. registered s userID);
     (case c of None \<Rightarrow> return False | Some c \<Rightarrow> trySendMsg c msg)
   }"

definition nextSeq :: "('z hub_scheme, uint64) state" where
  "nextSeq = do { modify (\<lambda>s. s\<lparr>h_seq := h_seq s + 1\<rparr>); gets h_seq }"

definition wrapWithSeq :: "bytes \<Rightarrow> uint64 \<Rightarrow> bytes" where
  "wrapWithSeq msg n =
     (case msg of
        c # r \<Rightarrow> if r = [] \<or> c \<noteq> CHR ''{'' then msg
                 else ''{'' @ [dquote] @ ''seq'' @ [dquote] @ '':'' @ dec (unat n) @ '','' @ r
      | [] \<Rightarrow> msg)"

definition receives :: "int64 \<Rightarrow> Client \<Rightarrow> bool" where
  "receives ch k \<longleftrightarrow> \<not> (ch \<noteq> 0 \<and> k_channelID k \<noteq> ch \<and> k_voiceChID k \<noteq> ch)"

text \<open>\<open>None\<close> is a panic, of the replay buffer's index.\<close>

definition deliverBroadcast :: "broadcastMsg \<Rightarrow> ('z hub_scheme, unit option) state" where
  "deliverBroadcast bm = do {
     n \<leftarrow> nextSeq;
     let msg = wrapWithSeq (b_msg bm) n;
     buf \<leftarrow> gets h_replayBuf;
     (case Push buf n msg of
        None \<Rightarrow> return None
      | Some buf' \<Rightarrow> do {
          modify (\<lambda>s. s\<lparr>h_replayBuf := buf'\<rparr>);
          cs \<leftarrow> gets h_clients;
          for_each (map snd cs) (\<lambda>c. do {
            k \<leftarrow> client c;
            (if receives (b_channelID bm) k then sendMsg c msg else return ())
          });
          return (Some ())
        })
   }"

text \<open>The \<^verbatim>\<open>case bm := <-h.broadcast\<close> arm of \<^verbatim>\<open>Run\<close>: nothing to do on an empty queue.\<close>

definition run_broadcast :: "('z hub_scheme, unit option) state" where
  "run_broadcast = do {
     q \<leftarrow> gets h_broadcast;
     (case q of
        [] \<Rightarrow> return (Some ())
      | bm # rest \<Rightarrow> do { modify (\<lambda>s. s\<lparr>h_broadcast := rest\<rparr>); deliverBroadcast bm })
   }"

text \<open>
  The recovery of \<^verbatim>\<open>Run\<close>: the panic counter and the start of its window after a panic at
  time \<open>now\<close>; the loop gives up when the counter reaches three.
\<close>

definition run_recover :: "time \<Rightarrow> int \<times> time option \<Rightarrow> int \<times> time option" where
  "run_recover now st =
     (let (panicCount, lastPanicReset) =
            (if (case snd st of None \<Rightarrow> True | Some t \<Rightarrow> now - t > 60 * Second) then (0, Some now) else st)
      in (panicCount + 1, lastPanicReset))"

definition run_gives_up :: "int \<times> time option \<Rightarrow> bool" where
  "run_gives_up st \<longleftrightarrow> fst st \<ge> 3"

section \<open>Settings cache\<close>

definition refreshSettingsLocked :: "('z hub_scheme, unit) state" where
  "refreshSettingsLocked = do {
     name \<leftarrow> query (\<lambda>s. map_of (settings s) ''server_name'');
     (case name of Inr (Some v) \<Rightarrow> modify (\<lambda>s. s\<lparr>h_settingsName := v\<rparr>) | _ \<Rightarrow> return ());
     motd \<leftarrow> query (\<lambda>s. map_of (settings s) ''motd'');
     (case motd of Inr (Some v) \<Rightarrow> modify (\<lambda>s. s\<lparr>h_settingsMotd := v\<rparr>) | _ \<Rightarrow> return ());
     now \<leftarrow> time_now;
     modify (\<lambda>s. s\<lparr>h_settingsLastUpdate := now\<rparr>)
   }"

definition getCachedSettings :: "('z hub_scheme, string \<times> string) state" where
  "getCachedSettings = do {
     t1 \<leftarrow> time_now;
     fresh1 \<leftarrow> gets (\<lambda>s. t1 - h_settingsLastUpdate s < settingsCacheTTL);
     (if fresh1 then return ()
      else do {
        t2 \<leftarrow> time_now;
        fresh2 \<leftarrow> gets (\<lambda>s. t2 - h_settingsLastUpdate s < settingsCacheTTL);
        (if fresh2 then return () else refreshSettingsLocked)
      });
     gets (\<lambda>s. (h_settingsName s, h_settingsMotd s))
   }"

section \<open>LiveKit\<close>

definition RoomName :: "int64 \<Rightarrow> string" where
  "RoomName channelID = ''channel-'' @ itoa channelID"

definition GenerateToken ::
  "LiveKitClient \<Rightarrow> int64 \<Rightarrow> string \<Rightarrow> int64 \<Rightarrow> bool \<Rightarrow> bool \<Rightarrow> string option" where
  "GenerateToken lk userID username channelID canPublish canSubscribe =
     lk_toJWT lk \<lparr>at_identity = ''user-'' @ itoa userID, at_name = username, at_room = RoomName channelID,
       at_canPublish = canPublish, at_canSubscribe = canSubscribe, at_canPublishData = canPublish\<rparr>"

text \<open>The remote call; every caller ignores its result.\<close>

definition RemoveParticipant :: "int64 \<Rightarrow> int64 \<Rightarrow> ('z hub_scheme, unit) state" where
  "RemoveParticipant channelID userID = modify (\<lambda>s. s\<lparr>h_lkRemoved := h_lkRemoved s @ [(channelID, userID)]\<rparr>)"

definition SetLiveKit :: "LiveKitClient \<Rightarrow> ('z hub_scheme, unit) state" where
  "SetLiveKit lk = modify (\<lambda>s. s\<lparr>h_livekit := Some lk\<rparr>)"

text \<open>\<open>h_lkRunning\<close> is \<open>None\<close> without a managed process, otherwise what its \<^verbatim>\<open>IsRunning\<close> returns.\<close>

definition SetLiveKitProcess :: "bool \<Rightarrow> ('z hub_scheme, unit) state" where
  "SetLiveKitProcess running = modify (\<lambda>s. s\<lparr>h_lkRunning := Some running\<rparr>)"

definition lkRemove :: "int64 \<Rightarrow> int64 \<Rightarrow> ('z hub_scheme, unit) state" where
  "lkRemove channelID userID = do {
     lk \<leftarrow> gets h_livekit;
     (if lk \<noteq> None then RemoveParticipant channelID userID else return ())
   }"

definition wsToHTTP :: "string \<Rightarrow> string" where
  "wsToHTTP url = (if hasPrefix url ''wss://'' then ''https://'' @ drop 6 url
     else if hasPrefix url ''ws://'' then ''http://'' @ drop 5 url else url)"

section \<open>Leaving voice, with retries\<close>

text \<open>The background goroutine makes up to two more attempts; \<open>h_retries\<close> holds those not yet done.\<close>

definition leaveVoiceChannelWithRetry :: "int64 \<Rightarrow> int64 \<Rightarrow> ('z hub_scheme, db_error + unit) state" where
  "leaveVoiceChannelWithRetry userID channelID = do {
     r \<leftarrow> LeaveVoiceChannel userID;
     (case r of
        Inr _ \<Rightarrow> return (Inr ())
      | Inl e \<Rightarrow> do {
          modify (\<lambda>s. s\<lparr>h_retries := h_retries s @ [(userID, 2)]\<rparr>);
          return (Inl e)
        })
   }"

text \<open>One attempt of the oldest background retry.\<close>

definition run_retry :: "('z hub_scheme, unit) state" where
  "run_retry = do {
     rs \<leftarrow> gets h_retries;
     (case rs of
        [] \<Rightarrow> return ()
      | (userID, n) # rest \<Rightarrow> do {
          modify (\<lambda>s. s\<lparr>h_retries := rest\<rparr>);
          r \<leftarrow> LeaveVoiceChannel userID;
          (case r of
             Inr _ \<Rightarrow> return ()
           | Inl _ \<Rightarrow> if n > 1 then modify (\<lambda>s. s\<lparr>h_retries := h_retries s @ [(userID, n - 1)]\<rparr>) else return ())
        })
   }"

definition CleanupVoiceForChannel :: "int64 \<Rightarrow> ('z hub_scheme, unit) state" where
  "CleanupVoiceForChannel channelID = do {
     states \<leftarrow> GetChannelVoiceStates channelID;
     (case states of
        Inl _ \<Rightarrow> return ()
      | Inr states \<Rightarrow> do {
          for_each states (\<lambda>vs. do {
            _ \<leftarrow> LeaveVoiceChannel (vs_UserID vs);
            c \<leftarrow> gets (\<lambda>s. registered s (vs_UserID vs));
            (case c of None \<Rightarrow> return () | Some c \<Rightarrow> do { _ \<leftarrow> clearVoiceChID c; return () });
            lkRemove channelID (vs_UserID vs)
          });
          for_each states (\<lambda>vs. BroadcastToAll (buildVoiceLeave channelID (vs_UserID vs)))
        })
   }"

section \<open>Construction and shutdown\<close>

definition NewHub :: "database \<Rightarrow> RateLimiter \<Rightarrow> hub" where
  "NewHub db rl = snd (run_state refreshSettingsLocked
     (database.extend db (hub.fields [] (\<lambda>_. zero_client) 0 rl [] 0 (NewEventRingBuffer 1000)
        ''OwnCord Server'' ''Welcome!'' 0 None None [] [])))"

text \<open>Without the waits: the process stop and the five seconds of grace.\<close>

definition GracefulStop :: "('z hub_scheme, unit) state" where
  "GracefulStop = do {
     BroadcastServerRestart ''shutdown'' 5;
     cs \<leftarrow> gets h_clients;
     for_each (map snd cs) closeSend
   }"

end
