(* ===== verification/AuthHelpers.thy ===== *)
theory AuthHelpers
  imports GoText AuthQueries
begin

text \<open>
  \<^verbatim>\<open>auth/helpers.go\<close>, \<^verbatim>\<open>auth/password.go\<close> and \<^verbatim>\<open>auth/session.go\<close>. SHA-256, bcrypt and the random
  source are packages: the digest, the two bcrypt calls and the random bytes are
  arguments.
\<close>

section \<open>User names and tokens\<close>

datatype username_error = TooFew | TooMany | ControlChar | InvisibleChar

fun check_runes :: "nat list \<Rightarrow> username_error option" where
  "check_runes [] = None"
| "check_runes (r # rs) = (if IsControl r then Some ControlChar else if in_Cf r then Some InvisibleChar else check_runes rs)"

definition ValidateUsername :: "string \<Rightarrow> username_error option" where
  "ValidateUsername username =
     (let username = TrimSpace username; n = length (runes username)
      in if n < 2 then Some TooFew else if n > 32 then Some TooMany else check_runes (runes username))"

text \<open>\<^verbatim>\<open>strings.EqualFold(x, "bearer")\<close>: no rune outside ASCII folds to a letter of the word.\<close>

definition ExtractBearerToken :: "string \<Rightarrow> string option" where
  "ExtractBearerToken header =
     (if header = [] then None
      else case split2 (CHR '' '') header of
        [scheme, token] \<Rightarrow> if nocase scheme \<noteq> ''bearer'' \<or> token = [] then None else Some token
      | _ \<Rightarrow> None)"

definition GenerateSessionToken :: "string option \<Rightarrow> string option" where
  "GenerateSessionToken raw = map_option hexEncode raw"

definition HashToken :: "(string \<Rightarrow> string) \<Rightarrow> string \<Rightarrow> string" where
  "HashToken sha256 token = hexEncode (sha256 token)"

section \<open>Passwords\<close>

datatype password_error = ErrPasswordTooShort | ErrPasswordTooLong

definition minPassLen :: nat where "minPassLen = 8"
definition maxPassLen :: nat where "maxPassLen = 72"
definition bcryptCost :: nat where "bcryptCost = 12"

definition HashPassword :: "(string \<Rightarrow> nat \<Rightarrow> string option) \<Rightarrow> string \<Rightarrow> string option" where
  "HashPassword generate password = generate password bcryptCost"

text \<open>\<open>compare hash password\<close> is \<^verbatim>\<open>bcrypt.CompareHashAndPassword\<close> returning nil.\<close>

definition CheckPassword :: "(string \<Rightarrow> string \<Rightarrow> bool) \<Rightarrow> string \<Rightarrow> string \<Rightarrow> bool" where
  "CheckPassword compare hash password = (if hash = [] then False else compare hash password)"

definition ValidatePasswordStrength :: "string \<Rightarrow> password_error option" where
  "ValidatePasswordStrength password =
     (if length password < minPassLen then Some ErrPasswordTooShort
      else if length password > maxPassLen then Some ErrPasswordTooLong else None)"

section \<open>Bans and expiry\<close>

definition ban_active :: "bool \<Rightarrow> string option \<Rightarrow> ('z env_scheme, bool) state" where
  "ban_active banned expires =
     (if \<not> banned then return False
      else case expires of
        None \<Rightarrow> return True
      | Some e \<Rightarrow> (case parse_timestamp e of
            Some t \<Rightarrow> do { now \<leftarrow> time_now; return (now < t) }
          | None \<Rightarrow> return True))"

definition IsEffectivelyBanned :: "User option \<Rightarrow> ('z env_scheme, bool) state" where
  "IsEffectivelyBanned u =
     (case u of None \<Rightarrow> return False | Some u \<Rightarrow> ban_active (u_Banned u) (u_BanExpires u))"

definition IsSessionExpired :: "string \<Rightarrow> ('z env_scheme, bool) state" where
  "IsSessionExpired expiresAt =
     (case parse_timestamp expiresAt of
        Some t \<Rightarrow> do { now \<leftarrow> time_now; return (t < now) }
      | None \<Rightarrow> return True)"

end
