(* ===== verification/Handlers.thy ===== *)
theory Handlers
  imports Hub AuthHelpers
begin

text \<open>
  The message handlers of \<^verbatim>\<open>ws/handlers.go\<close>, \<^verbatim>\<open>ws/handlers_chat.go\<close>, \<^verbatim>\<open>ws/handlers_reaction.go\<close>
  and \<^verbatim>\<open>ws/handlers_presence.go\<close>. \<open>sanitize\<close> is the strict policy of the bluemonday package.
  Each handler is the composition of its sections, in the order of the source, with
  every early return.
\<close>

section \<open>Limits and permissions\<close>

definition chatRateLimit :: int where "chatRateLimit = 10"
definition chatWindow :: duration where "chatWindow = Second"
definition typingRateLimit :: int where "typingRateLimit = 1"
definition typingWindow :: duration where "typingWindow = 3 * Second"
definition presenceRateLimit :: int where "presenceRateLimit = 1"
definition presenceWindow :: duration where "presenceWindow = 10 * Second"
definition reactionRateLimit :: int where "reactionRateLimit = 5"
definition reactionWindow :: duration where "reactionWindow = Second"
definition maxMessageLen :: nat where "maxMessageLen = 4000"

text \<open>The clock is read for the lockout and for the window; when the key has no lockout the first reading is not used.\<close>

definition limiter_allow :: "string \<Rightarrow> int \<Rightarrow> duration \<Rightarrow> ('z hub_scheme, bool) state" where
  "limiter_allow key limit window = do {
     t0 \<leftarrow> time_now;
     t1 \<leftarrow> time_now;
     rl \<leftarrow> gets h_limiter;
     let (ok, rl') = Allow rl key limit window t0 t1;
     modify (\<lambda>s. s\<lparr>h_limiter := rl'\<rparr>);
     return ok
   }"

definition hasChannelPerm :: "addr \<Rightarrow> int64 \<Rightarrow> perms \<Rightarrow> (hub, bool) state" where
  "hasChannelPerm c channelID perm = do {
     k \<leftarrow> client c;
     (case k_user k of
        None \<Rightarrow> return False
      | Some u \<Rightarrow> do {
          role \<leftarrow> GetRoleByID (u_RoleID u);
          (case role of
             Inr (Some r) \<Rightarrow> HasChannelPerm GetChannelPermissions (r_Permissions r) (r_ID r) channelID perm
           | _ \<Rightarrow> return False)
        })
   }"

definition requireChannelPerm :: "addr \<Rightarrow> int64 \<Rightarrow> perms \<Rightarrow> string \<Rightarrow> (hub, bool) state" where
  "requireChannelPerm c channelID perm permLabel = do {
     ok \<leftarrow> hasChannelPerm c channelID perm;
     (if ok then return True
      else do {
        sendMsg c (buildErrorMsg ErrCodeForbidden (''missing '' @ permLabel @ '' permission''));
        return False
      })
   }"

definition sendError :: "addr \<Rightarrow> string \<Rightarrow> string \<Rightarrow> (hub, unit) state" where
  "sendError c code message = sendMsg c (buildErrorMsg code message)"

definition client_id :: "addr \<Rightarrow> (hub, int64) state" where
  "client_id c = gets (\<lambda>s. k_userID (h_heap s c))"

section \<open>Broadcast helpers\<close>

definition broadcastExclude :: "int64 \<Rightarrow> int64 \<Rightarrow> bytes \<Rightarrow> (hub, unit) state" where
  "broadcastExclude channelID excludeUserID msg = do {
     cs \<leftarrow> gets h_clients;
     for_each cs (\<lambda>(uid, c).
       if uid = excludeUserID then return ()
       else do {
         k \<leftarrow> client c;
         (if channelID \<noteq> 0 \<and> k_channelID k \<noteq> channelID then return () else sendMsg c msg)
       })
   }"

definition send_to :: "bytes \<Rightarrow> int64 \<Rightarrow> (hub, unit) state" where
  "send_to msg pid = do { _ \<leftarrow> SendToUser pid msg; return () }"

definition broadcastToDMParticipants :: "int64 \<Rightarrow> bytes \<Rightarrow> (hub, unit) state" where
  "broadcastToDMParticipants channelID msg = do {
     ids \<leftarrow> GetDMParticipantIDs channelID;
     (case ids of Inl _ \<Rightarrow> return () | Inr pids \<Rightarrow> for_each pids (send_to msg))
   }"

definition broadcastToDMParticipantsExclude :: "int64 \<Rightarrow> int64 \<Rightarrow> bytes \<Rightarrow> (hub, unit) state" where
  "broadcastToDMParticipantsExclude channelID excludeUserID msg = do {
     ids \<leftarrow> GetDMParticipantIDs channelID;
     (case ids of Inl _ \<Rightarrow> return ()
      | Inr pids \<Rightarrow> for_each pids (\<lambda>pid. if pid = excludeUserID then return () else send_to msg pid))
   }"

text \<open>The last lines of the edit, delete and reaction handlers.\<close>

definition deliver_event :: "bool \<Rightarrow> int64 \<Rightarrow> bytes \<Rightarrow> (hub, unit) state" where
  "deliver_event isDM channelID msg =
     (if isDM then broadcastToDMParticipants channelID msg else BroadcastToChannel channelID msg)"

section \<open>Sending a chat message\<close>

record chat_payload =
  p_channel :: "int64 option"
  p_content :: string
  p_replyTo :: "int64 option"
  p_attachments :: "string list"

definition parse_chat_send :: "json option \<Rightarrow> chat_payload option" where
  "parse_chat_send payload =
     (case (number_field ''channel_id'' payload, payload_field dec_string [] ''content'' payload,
            payload_field dec_int_ptr None ''reply_to'' payload, payload_field dec_strings [] ''attachments'' payload) of
        (Some ch, Some content, Some replyTo, Some atts) \<Rightarrow>
          Some \<lparr>p_channel = ch, p_content = content, p_replyTo = replyTo, p_attachments = atts\<rparr>
      | _ \<Rightarrow> None)"

text \<open>Participation for a DM, role permissions otherwise.\<close>

definition chat_send_authorized :: "addr \<Rightarrow> Channel \<Rightarrow> int64 \<Rightarrow> (hub, bool) state" where
  "chat_send_authorized c ch channelID =
     (if c_Type ch = ''dm'' then do {
        uid \<leftarrow> client_id c;
        r \<leftarrow> IsDMParticipant uid channelID;
        (case r of
           Inl _ \<Rightarrow> do { sendError c ErrCodeInternal ''failed to check DM participation''; return False }
         | Inr ok \<Rightarrow>
             if \<not> ok then do { sendError c ErrCodeForbidden ''you are not a participant in this DM''; return False }
             else return True)
      }
      else requireChannelPerm c channelID (ReadMessages OR SendMessages) ''SEND_MESSAGES'')"

definition slow_key :: "int64 \<Rightarrow> int64 \<Rightarrow> string" where
  "slow_key userID channelID = ''slow:'' @ itoa userID @ '':'' @ itoa channelID"

definition slow_mode_passed :: "addr \<Rightarrow> Channel \<Rightarrow> int64 \<Rightarrow> (hub, bool) state" where
  "slow_mode_passed c ch channelID =
     (if c_Type ch = ''dm'' \<or> \<not> c_SlowMode ch > 0 then return True
      else do {
        bypass \<leftarrow> hasChannelPerm c channelID ManageMessages;
        (if bypass then return True
         else do {
           uid \<leftarrow> client_id c;
           ok \<leftarrow> limiter_allow (slow_key uid channelID) 1 (wrap64 (c_SlowMode ch * Second));
           (if ok then return True
            else do {
              sendError c ErrCodeSlowMode (''channel has '' @ itoa (c_SlowMode ch) @ ''s slow mode'');
              return False
            })
         })
      })"

definition content_error :: "string \<Rightarrow> string list \<Rightarrow> string option" where
  "content_error content atts =
     (if content = [] \<and> atts = [] then Some ''message content cannot be empty''
      else if length (runes content) > maxMessageLen
      then Some ''message content exceeds maximum length of 4000 characters''
      else None)"

definition attach_allowed :: "addr \<Rightarrow> Channel \<Rightarrow> int64 \<Rightarrow> string list \<Rightarrow> (hub, bool) state" where
  "attach_allowed c ch channelID atts =
     (if c_Type ch \<noteq> ''dm'' \<and> atts \<noteq> [] then requireChannelPerm c channelID AttachFiles ''ATTACH_FILES''
      else return True)"

text \<open>Linking: the attachment objects of the broadcast, or \<open>None\<close> after the clean-up of a failed link.\<close>

definition link_message :: "addr \<Rightarrow> int64 \<Rightarrow> string list \<Rightarrow> (hub, json list option) state" where
  "link_message c msgID atts =
     (if atts = [] then return (Some [])
      else do {
        linked \<leftarrow> LinkAttachmentsToMessage msgID atts;
        (case linked of
           Inl _ \<Rightarrow> do {
             uid \<leftarrow> client_id c;
             _ \<leftarrow> DeleteMessage msgID uid True;
             sendError c ErrCodeInternal ''failed to send message with attachments'';
             return None
           }
         | Inr n \<Rightarrow>
             if n > 0 then do {
               attMap \<leftarrow> GetAttachmentsByMessageIDs [msgID];
               (case attMap of
                  Inl _ \<Rightarrow> return (Some [])
                | Inr m \<Rightarrow> return (Some (map attachment_map (case Mapping.lookup m msgID of None \<Rightarrow> [] | Some as \<Rightarrow> as))))
             }
             else return (Some []))
      })"

text \<open>Delivery to a DM: every participant gets the message, and the others get the DM reopened.\<close>

definition reopen_dm :: "addr \<Rightarrow> int64 \<Rightarrow> int64 \<Rightarrow> (hub, unit) state" where
  "reopen_dm c channelID pid = do {
     uid \<leftarrow> client_id c;
     (if pid = uid then return ()
      else do {
        r \<leftarrow> OpenDM pid channelID;
        (case r of
           Inl _ \<Rightarrow> return ()
         | Inr _ \<Rightarrow> do {
             k \<leftarrow> client c;
             (if k_user k \<noteq> None then send_to (buildDMChannelOpen channelID (k_user k)) pid else return ())
           })
      })
   }"

text \<open>The text of the delivery failure holds a dash outside ASCII, here as its three UTF-8 bytes.\<close>

definition em_dash :: string where
  "em_dash = [char_of (0xE2 :: nat), char_of (0x80 :: nat), char_of (0x94 :: nat)]"

definition deliver_dm :: "addr \<Rightarrow> int64 \<Rightarrow> bytes \<Rightarrow> (hub, unit) state" where
  "deliver_dm c channelID msg = do {
     ids \<leftarrow> GetDMParticipantIDs channelID;
     (case ids of
        Inl _ \<Rightarrow> sendError c ErrCodeInternal (''message saved but delivery failed '' @ em_dash @ '' please retry'')
      | Inr pids \<Rightarrow> do {
          for_each pids (send_to msg);
          for_each pids (reopen_dm c channelID)
        })
   }"

definition chat_send_deliver ::
  "addr \<Rightarrow> string \<Rightarrow> Channel \<Rightarrow> int64 \<Rightarrow> int64 \<Rightarrow> string \<Rightarrow> int64 option \<Rightarrow> json list \<Rightarrow> (hub, unit) state" where
  "chat_send_deliver c reqID ch channelID msgID content replyTo atts = do {
     r \<leftarrow> GetMessage msgID;
     (case r of
        Inr (Some msg) \<Rightarrow> do {
          k \<leftarrow> client c;
          sendMsg c (buildChatSendOK reqID msgID (m_Timestamp msg));
          let broadcast = buildChatMessage msgID channelID (k_userID k)
            (case k_user k of None \<Rightarrow> [] | Some u \<Rightarrow> u_Username u) (case k_user k of None \<Rightarrow> None | Some u \<Rightarrow> u_Avatar u)
            (k_roleName k) content (m_Timestamp msg) replyTo atts;
          (if c_Type ch = ''dm'' then deliver_dm c channelID broadcast else BroadcastToChannel channelID broadcast)
        }
      | _ \<Rightarrow> sendError c ErrCodeInternal ''failed to retrieve message'')
   }"

text \<open>From the persisted message on.\<close>

definition chat_send_persist ::
  "addr \<Rightarrow> string \<Rightarrow> Channel \<Rightarrow> int64 \<Rightarrow> string \<Rightarrow> chat_payload \<Rightarrow> (hub, unit) state" where
  "chat_send_persist c reqID ch channelID content p = do {
     uid \<leftarrow> client_id c;
     r \<leftarrow> CreateMessage channelID uid content (p_replyTo p);
     (case r of
        Inl _ \<Rightarrow> sendError c ErrCodeInternal ''failed to save message''
      | Inr msgID \<Rightarrow> do {
          linked \<leftarrow> link_message c msgID (p_attachments p);
          (case linked of
             None \<Rightarrow> return ()
           | Some atts \<Rightarrow> chat_send_deliver c reqID ch channelID msgID content (p_replyTo p) atts)
        })
   }"

text \<open>From the known channel on: authorization, slow mode, content and attachments.\<close>

definition chat_send_channel ::
  "(string \<Rightarrow> string) \<Rightarrow> addr \<Rightarrow> string \<Rightarrow> Channel \<Rightarrow> int64 \<Rightarrow> chat_payload \<Rightarrow> (hub, unit) state" where
  "chat_send_channel sanitize c reqID ch channelID p = do {
     ok \<leftarrow> chat_send_authorized c ch channelID;
     (if \<not> ok then return ()
      else do {
        ok \<leftarrow> slow_mode_passed c ch channelID;
        (if \<not> ok then return ()
         else do {
           let content = sanitize (p_content p);
           (case content_error content (p_attachments p) of
              Some e \<Rightarrow> sendError c ErrCodeBadRequest e
            | None \<Rightarrow> do {
                ok \<leftarrow> attach_allowed c ch channelID (p_attachments p);
                (if \<not> ok then return () else chat_send_persist c reqID ch channelID content p)
              })
         })
      })
   }"

definition handleChatSend :: "(string \<Rightarrow> string) \<Rightarrow> addr \<Rightarrow> string \<Rightarrow> json option \<Rightarrow> (hub, unit) state" where
  "handleChatSend sanitize c reqID payload = do {
     uid \<leftarrow> client_id c;
     ok \<leftarrow> limiter_allow (''chat:'' @ itoa uid) chatRateLimit chatWindow;
     (if \<not> ok then sendMsg c (buildRateLimitError ''too many messages'' 1)
      else case parse_chat_send payload of
        None \<Rightarrow> sendError c ErrCodeBadRequest ''invalid chat_send payload''
      | Some p \<Rightarrow>
          (case p_channel p of
             None \<Rightarrow> sendError c ErrCodeBadRequest ''channel_id must be a positive integer''
           | Some channelID \<Rightarrow>
               if channelID \<le> 0 then sendError c ErrCodeBadRequest ''channel_id must be a positive integer''
               else do {
                 r \<leftarrow> GetChannel channelID;
                 (case r of
                    Inr (Some ch) \<Rightarrow> chat_send_channel sanitize c reqID ch channelID p
                  | _ \<Rightarrow> sendError c ErrCodeNotFound ''channel not found'')
               }))
   }"

section \<open>Editing, deleting and reacting\<close>

text \<open>\<^verbatim>\<open>chErr == nil && ch != nil && ch.Type == "dm"\<close>.\<close>

definition is_dm_channel :: "int64 \<Rightarrow> (hub, bool) state" where
  "is_dm_channel channelID = do {
     r \<leftarrow> GetChannel channelID;
     return (case r of Inr (Some ch) \<Rightarrow> c_Type ch = ''dm'' | _ \<Rightarrow> False)
   }"

definition dm_member :: "addr \<Rightarrow> int64 \<Rightarrow> (hub, bool) state" where
  "dm_member c channelID = do {
     uid \<leftarrow> client_id c;
     r \<leftarrow> IsDMParticipant uid channelID;
     return (case r of Inr ok \<Rightarrow> ok | Inl _ \<Rightarrow> False)
   }"

text \<open>Participation in a DM, otherwise the permission on the channel.\<close>

definition may_touch :: "addr \<Rightarrow> bool \<Rightarrow> int64 \<Rightarrow> perms \<Rightarrow> (hub, bool) state" where
  "may_touch c isDM channelID perm = (if isDM then dm_member c channelID else hasChannelPerm c channelID perm)"

definition chat_edit_commit :: "addr \<Rightarrow> bool \<Rightarrow> int64 \<Rightarrow> string \<Rightarrow> (hub, unit) state" where
  "chat_edit_commit c isDM msgID content = do {
     uid \<leftarrow> client_id c;
     r \<leftarrow> EditMessage msgID uid content;
     (case r of
        Inl _ \<Rightarrow> sendError c ErrCodeForbidden ''cannot edit this message''
      | Inr _ \<Rightarrow> do {
          m \<leftarrow> GetMessage msgID;
          (case m of
             Inr (Some msg) \<Rightarrow>
               deliver_event isDM (m_ChannelID msg)
                 (buildChatEdited msgID (m_ChannelID msg) content (case m_EditedAt msg of None \<Rightarrow> [] | Some t \<Rightarrow> t))
           | _ \<Rightarrow> sendError c ErrCodeInternal ''edit saved but broadcast failed'')
        })
   }"

definition chat_edit_message :: "addr \<Rightarrow> int64 \<Rightarrow> string \<Rightarrow> (hub, unit) state" where
  "chat_edit_message c msgID content = do {
     r \<leftarrow> GetMessage msgID;
     (case r of
        Inr (Some msg) \<Rightarrow> do {
          isDM \<leftarrow> is_dm_channel (m_ChannelID msg);
          ok \<leftarrow> may_touch c isDM (m_ChannelID msg) SendMessages;
          (if \<not> ok then sendError c ErrCodeForbidden ''cannot edit this message''
           else chat_edit_commit c isDM msgID content)
        }
      | _ \<Rightarrow> sendError c ErrCodeForbidden ''cannot edit this message'')
   }"

definition handleChatEdit :: "(string \<Rightarrow> string) \<Rightarrow> addr \<Rightarrow> json option \<Rightarrow> (hub, unit) state" where
  "handleChatEdit sanitize c payload = do {
     uid \<leftarrow> client_id c;
     ok \<leftarrow> limiter_allow (''chat_edit:'' @ itoa uid) chatRateLimit chatWindow;
     (if \<not> ok then sendMsg c (buildRateLimitError ''too many edits'' 1)
      else case (number_field ''message_id'' payload, payload_field dec_string [] ''content'' payload) of
        (Some mid, Some raw) \<Rightarrow>
          (case mid of
             None \<Rightarrow> sendError c ErrCodeBadRequest ''message_id must be positive integer''
           | Some msgID \<Rightarrow>
               if msgID \<le> 0 then sendError c ErrCodeBadRequest ''message_id must be positive integer''
               else (let content = sanitize raw in
                 if content = [] then sendError c ErrCodeBadRequest ''content cannot be empty''
                 else if length (runes content) > maxMessageLen then sendError c ErrCodeBadRequest ''message too long''
                 else chat_edit_message c msgID content))
      | _ \<Rightarrow> sendError c ErrCodeBadRequest ''invalid chat_edit payload'')
   }"

definition chat_delete_commit :: "addr \<Rightarrow> bool \<Rightarrow> int64 \<Rightarrow> int64 \<Rightarrow> (hub, unit) state" where
  "chat_delete_commit c isDM msgID channelID = do {
     isMod \<leftarrow> (if isDM then return False else hasChannelPerm c channelID ManageMessages);
     uid \<leftarrow> client_id c;
     r \<leftarrow> DeleteMessage msgID uid isMod;
     (case r of
        Inl _ \<Rightarrow> sendError c ErrCodeForbidden ''cannot delete this message''
      | Inr _ \<Rightarrow> do {
          _ \<leftarrow> LogAudit uid ''message_delete'' ''message'' msgID
            (''channel '' @ itoa channelID @ '', mod_action='' @ (if isMod then ''true'' else ''false''));
          deliver_event isDM channelID (buildChatDeleted msgID channelID)
        })
   }"

definition chat_delete_message :: "addr \<Rightarrow> int64 \<Rightarrow> (hub, unit) state" where
  "chat_delete_message c msgID = do {
     r \<leftarrow> GetMessage msgID;
     (case r of
        Inr (Some msg) \<Rightarrow> do {
          isDM \<leftarrow> is_dm_channel (m_ChannelID msg);
          ok \<leftarrow> may_touch c isDM (m_ChannelID msg) ReadMessages;
          (if \<not> ok then sendError c ErrCodeForbidden ''cannot delete this message''
           else chat_delete_commit c isDM msgID (m_ChannelID msg))
        }
      | _ \<Rightarrow> sendError c ErrCodeForbidden ''cannot delete this message'')
   }"

definition handleChatDelete :: "addr \<Rightarrow> json option \<Rightarrow> (hub, unit) state" where
  "handleChatDelete c payload = do {
     uid \<leftarrow> client_id c;
     ok \<leftarrow> limiter_allow (''chat_delete:'' @ itoa uid) chatRateLimit chatWindow;
     (if \<not> ok then sendMsg c (buildRateLimitError ''too many deletes'' 1)
      else case number_field ''message_id'' payload of
        None \<Rightarrow> sendError c ErrCodeBadRequest ''invalid chat_delete payload''
      | Some mid \<Rightarrow>
          (case mid of
             None \<Rightarrow> sendError c ErrCodeBadRequest ''message_id must be positive integer''
           | Some msgID \<Rightarrow>
               if msgID \<le> 0 then sendError c ErrCodeBadRequest ''message_id must be positive integer''
               else chat_delete_message c msgID))
   }"

definition reaction_commit :: "addr \<Rightarrow> bool \<Rightarrow> bool \<Rightarrow> int64 \<Rightarrow> int64 \<Rightarrow> string \<Rightarrow> (hub, unit) state" where
  "reaction_commit c add isDM msgID channelID emoji = do {
     uid \<leftarrow> client_id c;
     r \<leftarrow> (if add then AddReaction msgID uid emoji else RemoveReaction msgID uid emoji);
     (case r of
        Inl _ \<Rightarrow> sendError c ErrCodeConflict ''reaction failed''
      | Inr _ \<Rightarrow> deliver_event isDM channelID
          (buildReactionUpdate msgID channelID uid emoji (if add then ''add'' else ''remove'')))
   }"

definition reaction_message :: "addr \<Rightarrow> bool \<Rightarrow> int64 \<Rightarrow> string \<Rightarrow> (hub, unit) state" where
  "reaction_message c add msgID emoji = do {
     r \<leftarrow> GetMessage msgID;
     (case r of
        Inr (Some msg) \<Rightarrow> do {
          isDM \<leftarrow> is_dm_channel (m_ChannelID msg);
          (if isDM then do {
             ok \<leftarrow> dm_member c (m_ChannelID msg);
             (if ok then reaction_commit c add isDM msgID (m_ChannelID msg) emoji
              else sendError c ErrCodeBadRequest ''reaction failed'')
           }
           else do {
             ok \<leftarrow> requireChannelPerm c (m_ChannelID msg) AddReactions ''ADD_REACTIONS'';
             (if ok then reaction_commit c add isDM msgID (m_ChannelID msg) emoji else return ())
           })
        }
      | _ \<Rightarrow> sendError c ErrCodeBadRequest ''reaction failed'')
   }"

definition emoji_error :: "string \<Rightarrow> string option" where
  "emoji_error emoji =
     (if emoji = [] then Some ''emoji cannot be empty''
      else if length emoji > 32 then Some ''emoji too long''
      else if list_ex (\<lambda>r. r < 0x20 \<or> r = 0x7F) (runes emoji) then Some ''emoji contains invalid characters''
      else None)"

definition handleReaction :: "addr \<Rightarrow> bool \<Rightarrow> json option \<Rightarrow> (hub, unit) state" where
  "handleReaction c add payload = do {
     uid \<leftarrow> client_id c;
     ok \<leftarrow> limiter_allow (''reaction:'' @ itoa uid) reactionRateLimit reactionWindow;
     (if \<not> ok then sendMsg c (buildRateLimitError ''too many reactions'' 1)
      else case (number_field ''message_id'' payload, payload_field dec_string [] ''emoji'' payload) of
        (Some mid, Some emoji) \<Rightarrow>
          (case mid of
             None \<Rightarrow> sendError c ErrCodeBadRequest ''message_id must be positive integer''
           | Some msgID \<Rightarrow>
               if msgID \<le> 0 then sendError c ErrCodeBadRequest ''message_id must be positive integer''
               else (case emoji_error emoji of
                   Some e \<Rightarrow> sendError c ErrCodeBadRequest e
                 | None \<Rightarrow> reaction_message c add msgID emoji))
      | _ \<Rightarrow> sendError c ErrCodeBadRequest ''invalid reaction payload'')
   }"

section \<open>Typing, presence and focus\<close>

definition typing_key :: "int64 \<Rightarrow> int64 \<Rightarrow> string" where
  "typing_key userID channelID = ''typing:'' @ itoa userID @ '':'' @ itoa channelID"

definition typing_channel :: "addr \<Rightarrow> Channel \<Rightarrow> int64 \<Rightarrow> (hub, unit) state" where
  "typing_channel c ch channelID = do {
     let isDM = (c_Type ch = ''dm'');
     ok \<leftarrow> may_touch c isDM channelID ReadMessages;
     (if \<not> ok then return ()
      else do {
        k \<leftarrow> client c;
        let msg = buildTypingMsg channelID (k_userID k) (case k_user k of None \<Rightarrow> [] | Some u \<Rightarrow> u_Username u);
        (if isDM then broadcastToDMParticipantsExclude channelID (k_userID k) msg
         else broadcastExclude channelID (k_userID k) msg)
      })
   }"

definition handleTyping :: "addr \<Rightarrow> json option \<Rightarrow> (hub, unit) state" where
  "handleTyping c payload =
     (case parseChannelID payload of
        None \<Rightarrow> sendError c ErrCodeBadRequest ''channel_id must be positive integer''
      | Some channelID \<Rightarrow>
          if channelID \<le> 0 then sendError c ErrCodeBadRequest ''channel_id must be positive integer''
          else do {
            uid \<leftarrow> client_id c;
            ok \<leftarrow> limiter_allow (typing_key uid channelID) typingRateLimit typingWindow;
            (if \<not> ok then return ()
             else do {
               r \<leftarrow> GetChannel channelID;
               (case r of Inr (Some ch) \<Rightarrow> typing_channel c ch channelID | _ \<Rightarrow> return ())
             })
          })"

definition validStatuses :: "string list" where
  "validStatuses = [''online'', ''idle'', ''dnd'', ''offline'']"

definition handlePresence :: "addr \<Rightarrow> json option \<Rightarrow> (hub, unit) state" where
  "handlePresence c payload = do {
     uid \<leftarrow> client_id c;
     ok \<leftarrow> limiter_allow (''presence:'' @ itoa uid) presenceRateLimit presenceWindow;
     (if \<not> ok then sendMsg c (buildRateLimitError ''too many presence updates'' 10)
      else case payload_field dec_string [] ''status'' payload of
        None \<Rightarrow> sendError c ErrCodeBadRequest ''invalid presence_update payload''
      | Some status \<Rightarrow>
          if status \<notin> set validStatuses then sendError c ErrCodeBadRequest ''status must be online|idle|dnd|offline''
          else do {
            r \<leftarrow> UpdateUserStatus uid status;
            (case r of
               Inl _ \<Rightarrow> sendError c ErrCodeInternal ''failed to update status''
             | Inr _ \<Rightarrow> BroadcastToAll (buildPresenceMsg uid status))
          })
   }"

definition focus_channel :: "addr \<Rightarrow> int64 \<Rightarrow> (hub, unit) state" where
  "focus_channel c chID = do {
     modify (set_client c (\<lambda>k. k\<lparr>k_channelID := chID\<rparr>));
     r \<leftarrow> GetLatestMessageID chID;
     (case r of
        Inl _ \<Rightarrow> return ()
      | Inr latestID \<Rightarrow>
          if latestID > 0 then do {
            uid \<leftarrow> client_id c;
            _ \<leftarrow> UpdateReadState uid chID latestID;
            return ()
          }
          else return ())
   }"

definition handleChannelFocus :: "addr \<Rightarrow> json option \<Rightarrow> (hub, unit) state" where
  "handleChannelFocus c payload =
     (case parseChannelID payload of
        None \<Rightarrow> return ()
      | Some chID \<Rightarrow>
          if chID \<le> 0 then return ()
          else do {
            r \<leftarrow> GetChannel chID;
            (case r of
               Inr (Some ch) \<Rightarrow>
                 if c_Type ch = ''dm'' then do {
                   ok \<leftarrow> dm_member c chID;
                   (if ok then focus_channel c chID else sendError c ErrCodeForbidden ''not a participant in this DM'')
                 }
                 else do {
                   ok \<leftarrow> requireChannelPerm c chID ReadMessages ''READ_MESSAGES'';
                   (if ok then focus_channel c chID else return ())
                 }
             | _ \<Rightarrow> return ())
          })"

end
