(* ===== verification/Voice.thy ===== *)
theory Voice
  imports Handlers
begin

text \<open>
  Voice: \<^verbatim>\<open>ws/voice_join.go\<close>, \<^verbatim>\<open>ws/voice_leave.go\<close>, \<^verbatim>\<open>ws/voice_controls.go\<close>,
  \<^verbatim>\<open>ws/voice_broadcast.go\<close> and the webhook of \<^verbatim>\<open>ws/livekit_webhook.go\<close>.
\<close>

section \<open>Presets and limits\<close>

definition voiceQualities :: "(string \<times> int) list" where
  "voiceQualities = [(''low'', 32000), (''medium'', 64000), (''high'', 128000)]"

definition validVoiceQuality :: "string \<Rightarrow> bool" where
  "validVoiceQuality q \<longleftrightarrow> map_of voiceQualities q \<noteq> None"

definition qualityBitrate :: "string \<Rightarrow> int" where
  "qualityBitrate quality = (case map_of voiceQualities quality of Some b \<Rightarrow> b | None \<Rightarrow> 64000)"

definition voiceMuteRateLimit :: int where "voiceMuteRateLimit = 2"
definition voiceMuteWindow :: duration where "voiceMuteWindow = Second"
definition voiceDeafenRateLimit :: int where "voiceDeafenRateLimit = 2"
definition voiceDeafenWindow :: duration where "voiceDeafenWindow = Second"
definition voiceCameraRateLimit :: int where "voiceCameraRateLimit = 2"
definition voiceCameraWindow :: duration where "voiceCameraWindow = Second"
definition voiceScreenshareRateLimit :: int where "voiceScreenshareRateLimit = 2"
definition voiceScreenshareWindow :: duration where "voiceScreenshareWindow = Second"

section \<open>Leaving\<close>

definition handleVoiceLeave :: "addr \<Rightarrow> (hub, unit) state" where
  "handleVoiceLeave c = do {
     oldChID \<leftarrow> clearVoiceChID c;
     (if oldChID = 0 then return ()
      else do {
        uid \<leftarrow> client_id c;
        r \<leftarrow> leaveVoiceChannelWithRetry uid oldChID;
        (case r of
           Inl _ \<Rightarrow> sendError c ErrCodeInternal (''voice leave failed '' @ em_dash @ '' please rejoin if issues persist'')
         | Inr _ \<Rightarrow> return ());
        BroadcastToAll (buildVoiceLeave oldChID uid);
        lkRemove oldChID uid
      })
   }"

definition rollbackVoiceJoin :: "addr \<Rightarrow> int64 \<Rightarrow> (hub, unit) state" where
  "rollbackVoiceJoin c channelID = do {
     _ \<leftarrow> clearVoiceChID c;
     uid \<leftarrow> client_id c;
     _ \<leftarrow> LeaveVoiceChannel uid;
     BroadcastToAll (buildVoiceLeave channelID uid)
   }"

section \<open>Joining\<close>

text \<open>The last section of a join: the states of the others and the channel's voice configuration.\<close>

definition voice_quality :: "Channel \<Rightarrow> string" where
  "voice_quality ch = (case c_VoiceQuality ch of
      Some q \<Rightarrow> if q \<noteq> [] \<and> validVoiceQuality q then q else ''medium''
    | None \<Rightarrow> ''medium'')"

definition voice_join_inform :: "addr \<Rightarrow> Channel \<Rightarrow> int64 \<Rightarrow> (hub, unit) state" where
  "voice_join_inform c ch channelID = do {
     r \<leftarrow> GetChannelVoiceStates channelID;
     (case r of
        Inl _ \<Rightarrow> return ()
      | Inr existing \<Rightarrow> do {
          uid \<leftarrow> client_id c;
          for_each existing (\<lambda>vs. if vs_UserID vs = uid then return () else sendMsg c (buildVoiceState vs));
          sendMsg c (buildVoiceConfig channelID (voice_quality ch) (qualityBitrate (voice_quality ch)) (c_VoiceMaxUsers ch))
        })
   }"

text \<open>The token: \<open>False\<close> when the join was rolled back.\<close>

definition voice_join_token :: "addr \<Rightarrow> int64 \<Rightarrow> (hub, bool) state" where
  "voice_join_token c channelID = do {
     lk \<leftarrow> gets h_livekit;
     (case lk of
        None \<Rightarrow> return True
      | Some lk \<Rightarrow> do {
          k \<leftarrow> client c;
          (case k_user k of
             None \<Rightarrow> do {
               rollbackVoiceJoin c channelID;
               sendError c ErrCodeInternal ''not authenticated'';
               return False
             }
           | Some u \<Rightarrow> do {
               canPublish \<leftarrow> hasChannelPerm c channelID SpeakVoice;
               (case GenerateToken lk (k_userID k) (u_Username u) channelID canPublish True of
                  None \<Rightarrow> do {
                    rollbackVoiceJoin c channelID;
                    sendError c ErrCodeInternal ''failed to generate voice token'';
                    return False
                  }
                | Some token \<Rightarrow> do {
                    sendMsg c (buildVoiceToken channelID token ''/livekit'' (lk_url lk));
                    return True
                  })
             })
        })
   }"

definition voice_join_announce :: "addr \<Rightarrow> Channel \<Rightarrow> int64 \<Rightarrow> (hub, unit) state" where
  "voice_join_announce c ch channelID = do {
     uid \<leftarrow> client_id c;
     r \<leftarrow> GetVoiceState uid;
     (case r of
        Inr (Some st) \<Rightarrow> do {
          BroadcastToAll (buildVoiceState st);
          voice_join_inform c ch channelID
        }
      | _ \<Rightarrow> do {
          rollbackVoiceJoin c channelID;
          sendError c ErrCodeInternal ''failed to join voice channel''
        })
   }"

text \<open>Capacity: \<open>False\<close> after an error message.\<close>

definition voice_capacity_ok :: "addr \<Rightarrow> Channel \<Rightarrow> int64 \<Rightarrow> (hub, bool) state" where
  "voice_capacity_ok c ch channelID =
     (if c_VoiceMaxUsers ch > 0 then do {
        r \<leftarrow> GetChannelVoiceStates channelID;
        (case r of
           Inl _ \<Rightarrow> do { sendError c ErrCodeInternal ''failed to check channel capacity''; return False }
         | Inr existing \<Rightarrow>
             if int (length existing) \<ge> c_VoiceMaxUsers ch
             then do { sendError c ErrCodeChannelFull ''voice channel is full''; return False }
             else return True)
      }
      else return True)"

definition voice_join_persist :: "addr \<Rightarrow> Channel \<Rightarrow> int64 \<Rightarrow> (hub, unit) state" where
  "voice_join_persist c ch channelID = do {
     uid \<leftarrow> client_id c;
     r \<leftarrow> JoinVoiceChannel uid channelID;
     (case r of
        Inl _ \<Rightarrow> sendError c ErrCodeInternal ''failed to join voice channel''
      | Inr _ \<Rightarrow> do {
          setVoiceChID c channelID;
          ok \<leftarrow> voice_join_token c channelID;
          (if ok then voice_join_announce c ch channelID else return ())
        })
   }"

definition voice_join_enter :: "addr \<Rightarrow> Channel \<Rightarrow> int64 \<Rightarrow> (hub, unit) state" where
  "voice_join_enter c ch channelID = do {
     currentChID \<leftarrow> getVoiceChID c;
     (if currentChID = channelID then sendError c ErrCodeAlreadyJoined ''already in this voice channel''
      else do {
        (if currentChID > 0 then handleVoiceLeave c else return ());
        ok \<leftarrow> voice_capacity_ok c ch channelID;
        (if ok then voice_join_persist c ch channelID else return ())
      })
   }"

definition handleVoiceJoin :: "addr \<Rightarrow> json option \<Rightarrow> (hub, unit) state" where
  "handleVoiceJoin c payload =
     (case parseChannelID payload of
        None \<Rightarrow> sendError c ErrCodeBadRequest ''channel_id must be a positive integer''
      | Some channelID \<Rightarrow>
          if channelID \<le> 0 then sendError c ErrCodeBadRequest ''channel_id must be a positive integer''
          else do {
            ok \<leftarrow> requireChannelPerm c channelID ConnectVoice ''CONNECT_VOICE'';
            (if \<not> ok then return ()
             else do {
               r \<leftarrow> GetChannel channelID;
               (case r of
                  Inr (Some ch) \<Rightarrow> do {
                    lk \<leftarrow> gets h_livekit;
                    running \<leftarrow> gets h_lkRunning;
                    (if lk = None then sendError c ErrCodeVoiceError ''voice is not configured on this server''
                     else if running = Some False
                     then sendError c ErrCodeVoiceError
                            (''voice is temporarily unavailable '' @ em_dash @ '' LiveKit is not running'')
                     else voice_join_enter c ch channelID)
                  }
                | _ \<Rightarrow> sendError c ErrCodeNotFound ''channel not found'')
             })
          })"

definition handleVoiceTokenRefresh :: "addr \<Rightarrow> (hub, unit) state" where
  "handleVoiceTokenRefresh c = do {
     uid \<leftarrow> client_id c;
     ok \<leftarrow> limiter_allow (''voice_token_refresh:'' @ itoa uid) 1 (60 * Second);
     (if \<not> ok then sendMsg c (buildRateLimitError ''token refresh rate limited'' 60)
      else do {
        channelID \<leftarrow> getVoiceChID c;
        lk \<leftarrow> gets h_livekit;
        k \<leftarrow> client c;
        (if channelID = 0 then sendError c ErrCodeBadRequest ''not in voice''
         else case lk of
           None \<Rightarrow> sendError c ErrCodeInternal ''voice not configured''
         | Some lk \<Rightarrow>
             (case k_user k of
                None \<Rightarrow> sendError c ErrCodeInternal ''not authenticated''
              | Some u \<Rightarrow> do {
                  canPublish \<leftarrow> hasChannelPerm c channelID SpeakVoice;
                  (case GenerateToken lk uid (u_Username u) channelID canPublish True of
                     None \<Rightarrow> sendError c ErrCodeInternal ''failed to generate voice token''
                   | Some token \<Rightarrow> sendMsg c (buildVoiceToken channelID token ''/livekit'' (lk_url lk)))
                }))
      })
   }"

section \<open>Controls\<close>

definition broadcastVoiceStateUpdate :: "addr \<Rightarrow> (hub, unit) state" where
  "broadcastVoiceStateUpdate c = do {
     uid \<leftarrow> client_id c;
     r \<leftarrow> GetVoiceState uid;
     (case r of
        Inl _ \<Rightarrow> sendError c ErrCodeInternal ''failed to broadcast voice state update''
      | Inr None \<Rightarrow> return ()
      | Inr (Some st) \<Rightarrow> BroadcastToAll (buildVoiceState st))
   }"

text \<open>The end of each control handler: update the row, then announce it.\<close>

definition voice_update ::
  "addr \<Rightarrow> (hub, db_error + unit) state \<Rightarrow> string \<Rightarrow> (hub, unit) state" where
  "voice_update c upd what = do {
     r \<leftarrow> upd;
     (case r of
        Inl _ \<Rightarrow> sendError c ErrCodeInternal (''failed to update '' @ what @ '' state'')
      | Inr _ \<Rightarrow> broadcastVoiceStateUpdate c)
   }"

definition handleVoiceMute :: "addr \<Rightarrow> json option \<Rightarrow> (hub, unit) state" where
  "handleVoiceMute c payload = do {
     uid \<leftarrow> client_id c;
     ok \<leftarrow> limiter_allow (''voice_mute:'' @ itoa uid) voiceMuteRateLimit voiceMuteWindow;
     (if \<not> ok then sendMsg c (buildRateLimitError ''too many mute toggles'' 1)
      else do {
        ch \<leftarrow> getVoiceChID c;
        (if ch = 0 then sendError c ErrCodeVoiceError ''not in a voice channel''
         else case payload_field dec_bool False ''muted'' payload of
           None \<Rightarrow> sendError c ErrCodeBadRequest ''invalid voice_mute payload''
         | Some muted \<Rightarrow> voice_update c (UpdateVoiceMute uid muted) ''mute'')
      })
   }"

definition handleVoiceDeafen :: "addr \<Rightarrow> json option \<Rightarrow> (hub, unit) state" where
  "handleVoiceDeafen c payload = do {
     uid \<leftarrow> client_id c;
     ok \<leftarrow> limiter_allow (''voice_deafen:'' @ itoa uid) voiceDeafenRateLimit voiceDeafenWindow;
     (if \<not> ok then sendMsg c (buildRateLimitError ''too many deafen toggles'' 1)
      else do {
        ch \<leftarrow> getVoiceChID c;
        (if ch = 0 then sendError c ErrCodeVoiceError ''not in a voice channel''
         else case payload_field dec_bool False ''deafened'' payload of
           None \<Rightarrow> sendError c ErrCodeBadRequest ''invalid voice_deafen payload''
         | Some deafened \<Rightarrow> voice_update c (UpdateVoiceDeafen uid deafened) ''deafen'')
      })
   }"

text \<open>The video limit: \<open>False\<close> after an error message.\<close>

definition video_limit_ok :: "addr \<Rightarrow> int64 \<Rightarrow> (hub, bool) state" where
  "video_limit_ok c voiceChID = do {
     r \<leftarrow> GetChannel voiceChID;
     (case r of
        Inr (Some ch) \<Rightarrow>
          if c_VoiceMaxVideo ch > 0 then do {
            n \<leftarrow> CountActiveCameras voiceChID;
            (case n of
               Inl _ \<Rightarrow> do { sendError c ErrCodeInternal ''failed to check video limit''; return False }
             | Inr videoCount \<Rightarrow>
                 if videoCount \<ge> c_VoiceMaxVideo ch
                 then do {
                   sendError c ErrCodeVideoLimit (''maximum '' @ itoa (c_VoiceMaxVideo ch) @ '' video streams reached'');
                   return False
                 }
                 else return True)
          }
          else return True
      | _ \<Rightarrow> return True)
   }"

definition handleVoiceCamera :: "addr \<Rightarrow> json option \<Rightarrow> (hub, unit) state" where
  "handleVoiceCamera c payload = do {
     uid \<leftarrow> client_id c;
     ok \<leftarrow> limiter_allow (''voice_camera:'' @ itoa uid) voiceCameraRateLimit voiceCameraWindow;
     (if \<not> ok then sendMsg c (buildRateLimitError ''too many camera toggles'' 1)
      else do {
        voiceChID \<leftarrow> getVoiceChID c;
        (if voiceChID = 0 then sendError c ErrCodeVoiceError ''not in a voice channel''
         else do {
           ok \<leftarrow> requireChannelPerm c voiceChID UseVideo ''USE_VIDEO'';
           (if \<not> ok then return ()
            else case payload_field dec_bool False ''enabled'' payload of
              None \<Rightarrow> sendError c ErrCodeBadRequest ''invalid voice_camera payload''
            | Some enabled \<Rightarrow> do {
                ok \<leftarrow> (if enabled then video_limit_ok c voiceChID else return True);
                (if ok then voice_update c (UpdateVoiceCamera uid enabled) ''camera'' else return ())
              })
         })
      })
   }"

definition handleVoiceScreenshare :: "addr \<Rightarrow> json option \<Rightarrow> (hub, unit) state" where
  "handleVoiceScreenshare c payload = do {
     uid \<leftarrow> client_id c;
     ok \<leftarrow> limiter_allow (''voice_screenshare:'' @ itoa uid) voiceScreenshareRateLimit voiceScreenshareWindow;
     (if \<not> ok then sendMsg c (buildRateLimitError ''too many screenshare toggles'' 1)
      else do {
        voiceChID \<leftarrow> getVoiceChID c;
        (if voiceChID = 0 then sendError c ErrCodeVoiceError ''not in a voice channel''
         else do {
           ok \<leftarrow> requireChannelPerm c voiceChID ShareScreen ''SHARE_SCREEN'';
           (if \<not> ok then return ()
            else case payload_field dec_bool False ''enabled'' payload of
              None \<Rightarrow> sendError c ErrCodeBadRequest ''invalid voice_screenshare payload''
            | Some enabled \<Rightarrow> voice_update c (UpdateVoiceScreenshare uid enabled) ''screenshare'')
         })
      })
   }"

section \<open>The webhook\<close>

definition parseIdentity :: "string \<Rightarrow> int64 option" where
  "parseIdentity identity = (if hasPrefix identity ''user-'' then ParseInt (drop 5 identity) else None)"

definition parseRoomChannelID :: "string \<Rightarrow> int64 option" where
  "parseRoomChannelID roomName = (if hasPrefix roomName ''channel-'' then ParseInt (drop 8 roomName) else None)"

text \<open>An event with the identity of its participant and the name of its room; \<open>None\<close> is nil.\<close>

definition handleWebhookParticipantLeft :: "string option \<Rightarrow> string option \<Rightarrow> (hub, unit) state" where
  "handleWebhookParticipantLeft identity room =
     (case (identity, room) of
        (Some identity, Some room) \<Rightarrow>
          (case (parseIdentity identity, parseRoomChannelID room) of
             (Some userID, Some channelID) \<Rightarrow> do {
               c \<leftarrow> gets (\<lambda>s. registered s userID);
               (case c of
                  Some c \<Rightarrow> do {
                    currentChID \<leftarrow> getVoiceChID c;
                    (if currentChID = channelID then do {
                       _ \<leftarrow> clearVoiceChID c;
                       _ \<leftarrow> leaveVoiceChannelWithRetry userID channelID;
                       BroadcastToAll (buildVoiceLeave channelID userID)
                     }
                     else return ())
                  }
                | None \<Rightarrow> do { _ \<leftarrow> leaveVoiceChannelWithRetry userID channelID; return () })
             }
           | _ \<Rightarrow> return ())
      | _ \<Rightarrow> return ())"

end
