(* ===== verification/Serve.thy ===== *)
theory Serve
  imports Voice
begin

text \<open>
  Connections: the dispatch of \<^verbatim>\<open>ws/handlers.go\<close> and \<^verbatim>\<open>ws/registry.go\<close>, and \<^verbatim>\<open>ws/serve.go\<close> with
  the in-band authentication, the replay on reconnect, the ready message and the
  clean-up of a closed connection. A WebSocket connection is what it receives and what
  is written to it; \<open>wok n\<close> says whether the \<open>n\<close>-th write of the handshake succeeds.
\<close>

section \<open>Dispatch\<close>

definition handlers ::
  "(string \<Rightarrow> string) \<Rightarrow> addr \<Rightarrow> string \<Rightarrow> json option \<Rightarrow> (string \<times> (hub, unit) state) list" where
  "handlers sanitize c reqID payload =
     [(''chat_send'', handleChatSend sanitize c reqID payload),
      (''chat_edit'', handleChatEdit sanitize c payload),
      (''chat_delete'', handleChatDelete c payload),
      (''typing_start'', handleTyping c payload),
      (''presence_update'', handlePresence c payload),
      (''channel_focus'', handleChannelFocus c payload),
      (''reaction_add'', handleReaction c True payload),
      (''reaction_remove'', handleReaction c False payload),
      (''voice_join'', handleVoiceJoin c payload),
      (''voice_leave'', handleVoiceLeave c),
      (''voice_token_refresh'', handleVoiceTokenRefresh c),
      (''voice_mute'', handleVoiceMute c payload),
      (''voice_deafen'', handleVoiceDeafen c payload),
      (''voice_camera'', handleVoiceCamera c payload),
      (''voice_screenshare'', handleVoiceScreenshare c payload),
      (''ping'', sendMsg c buildPong)]"

definition Dispatch :: "(string \<Rightarrow> string) \<Rightarrow> string \<Rightarrow> addr \<Rightarrow> string \<Rightarrow> json option \<Rightarrow> (hub, bool) state" where
  "Dispatch sanitize msgType c reqID payload =
     (case map_of (handlers sanitize c reqID payload) msgType of
        None \<Rightarrow> return False
      | Some h \<Rightarrow> do { h; return True })"

text \<open>The periodic check: \<open>True\<close> when the connection was closed.\<close>

definition session_check :: "addr \<Rightarrow> (hub, bool) state" where
  "session_check c = do {
     k \<leftarrow> client c;
     r \<leftarrow> GetSessionWithBanStatus (k_tokenHash k);
     (case r of
        Inr (Some st) \<Rightarrow> do {
          expired \<leftarrow> IsSessionExpired (s_ExpiresAt st);
          (if expired then do { kickClient c; return True }
           else do {
             banned \<leftarrow> ban_active (sb_Banned st) (sb_BanExpires st);
             (if banned then do {
                sendError c ErrCodeBanned ''you are banned'';
                kickClient c;
                return True
              }
              else return False)
           })
        }
      | _ \<Rightarrow> do { kickClient c; return True })
   }"

definition count_message :: "addr \<Rightarrow> (hub, bool) state" where
  "count_message c = do {
     k \<leftarrow> client c;
     let n = k_msgCount k + 1;
     let shouldCheck = (n \<ge> SessionCheckInterval);
     modify (set_client c (\<lambda>k. k\<lparr>k_msgCount := (if shouldCheck then 0 else n)\<rparr>));
     return (shouldCheck \<and> k_tokenHash k \<noteq> [])
   }"

definition handle_envelope :: "(string \<Rightarrow> string) \<Rightarrow> addr \<Rightarrow> bytes \<Rightarrow> (hub, unit) state" where
  "handle_envelope sanitize c raw =
     (case parse_envelope raw of
        None \<Rightarrow> do {
          k \<leftarrow> client c;
          let n = k_invalidCount k + 1;
          modify (set_client c (\<lambda>k. k\<lparr>k_invalidCount := n\<rparr>));
          sendError c ErrCodeInvalidJSON ''message must be valid JSON'';
          (if n \<ge> 10 then kickClient c else return ())
        }
      | Some env \<Rightarrow> do {
          modify (set_client c (\<lambda>k. k\<lparr>k_invalidCount := 0\<rparr>));
          known \<leftarrow> Dispatch sanitize (e_Type env) c (e_ID env) (e_Payload env);
          (if known then return ()
           else sendError c ErrCodeUnknownType (''unknown message type: '' @ e_Type env))
        })"

definition handleMessage :: "(string \<Rightarrow> string) \<Rightarrow> addr \<Rightarrow> bytes \<Rightarrow> (hub, unit) state" where
  "handleMessage sanitize c raw = do {
     check \<leftarrow> count_message c;
     closed \<leftarrow> (if check then session_check c else return False);
     (if closed then return () else handle_envelope sanitize c raw)
   }"

section \<open>Authentication\<close>

text \<open>
  The result is an error, with the message written to the connection if any, or the
  user, the token hash and the last sequence number.
\<close>

definition auth_payload :: "json option \<Rightarrow> (string \<times> nat) option" where
  "auth_payload payload =
     (case (payload_field dec_string [] ''token'' payload, payload_field dec_uint64 0 ''last_seq'' payload) of
        (Some token, Some lastSeq) \<Rightarrow> if token = [] then None else Some (token, lastSeq)
      | _ \<Rightarrow> None)"

definition authenticate_token ::
  "string \<Rightarrow> nat \<Rightarrow> (hub, bytes option + User \<times> string \<times> nat) state" where
  "authenticate_token hash lastSeq = do {
     r \<leftarrow> GetSessionByTokenHash hash;
     (case r of
        Inr (Some sess) \<Rightarrow> do {
          expired \<leftarrow> IsSessionExpired (s_ExpiresAt sess);
          (if expired then return (Inl (Some (buildAuthError ''session expired'')))
           else do {
             r \<leftarrow> GetUserByID (s_UserID sess);
             (case r of
                Inr (Some user) \<Rightarrow> do {
                  banned \<leftarrow> IsEffectivelyBanned (Some user);
                  (if banned then return (Inl (Some (buildErrorMsg ErrCodeBanned ''you are banned'')))
                   else return (Inr (user, hash, lastSeq)))
                }
              | _ \<Rightarrow> return (Inl (Some (buildAuthError ''user not found''))))
           })
        }
      | _ \<Rightarrow> return (Inl (Some (buildAuthError ''invalid token''))))
   }"

definition authenticateConn ::
  "(string \<Rightarrow> string) \<Rightarrow> bytes option \<Rightarrow> (hub, bytes option + User \<times> string \<times> nat) state" where
  "authenticateConn sha256 raw =
     (case raw of
        None \<Rightarrow> return (Inl None)
      | Some raw \<Rightarrow>
          (case parse_envelope raw of
             None \<Rightarrow> return (Inl (Some (buildAuthError ''invalid message'')))
           | Some env \<Rightarrow>
               if e_Type env \<noteq> ''auth'' then return (Inl (Some (buildAuthError ''first message must be auth'')))
               else (case auth_payload (e_Payload env) of
                   None \<Rightarrow> return (Inl (Some (buildAuthError ''missing token'')))
                 | Some (token, lastSeq) \<Rightarrow> authenticate_token (HashToken sha256 token) lastSeq)))"

section \<open>The first messages\<close>

definition buildAuthOK :: "User \<Rightarrow> string \<Rightarrow> (hub, bytes) state" where
  "buildAuthOK user roleName = do {
     (serverName, motd) \<leftarrow> getCachedSettings;
     return (Marshal (JObj
       [(''payload'', JObj
          [(''motd'', JStr motd), (''server_name'', JStr serverName),
           (''user'', JObj [(''avatar'', jstr_opt (u_Avatar user)), (''id'', jint (u_ID user)), (''role'', JStr roleName),
              (''username'', JStr (u_Username user))])]),
        (''type'', JStr ''auth_ok'')]))
   }"

definition ready_channel :: "(int64, ChannelUnread) mapping \<Rightarrow> Channel \<Rightarrow> json" where
  "ready_channel unread ch =
     (let u = (case Mapping.lookup unread (c_ID ch) of Some u \<Rightarrow> u | None \<Rightarrow> \<lparr>cu_LastMessageID = 0, cu_UnreadCount = 0\<rparr>);
          isText = (c_Type ch = ''text'')
      in JObj ([(''category'', JStr (c_Category ch)), (''id'', jint (c_ID ch))] @
         (if isText then [(''last_message_id'', jint (cu_LastMessageID u))] else []) @
         [(''name'', JStr (c_Name ch)), (''position'', jint (c_Position ch)), (''type'', JStr (c_Type ch))] @
         (if isText then [(''unread_count'', jint (cu_UnreadCount u))] else [])))"

definition json_role :: "Role \<Rightarrow> json" where
  "json_role r = JObj [(''id'', jint (r_ID r)), (''name'', JStr (r_Name r)), (''color'', jstr_opt (r_Color r)),
     (''permissions'', jint (sint (r_Permissions r))), (''position'', jint (r_Position r)),
     (''is_default'', JBool (r_IsDefault r))]"

definition json_member :: "MemberSummary \<Rightarrow> json" where
  "json_member m = JObj [(''id'', jint (ms_ID m)), (''username'', JStr (ms_Username m)), (''avatar'', jstr_opt (ms_Avatar m)),
     (''status'', JStr (ms_Status m)), (''role'', JStr (ms_Role m))]"

definition json_voice :: "VoiceState \<Rightarrow> json" where
  "json_voice v = JObj [(''user_id'', jint (vs_UserID v)), (''channel_id'', jint (vs_ChannelID v)),
     (''username'', JStr (vs_Username v)), (''muted'', JBool (vs_Muted v)), (''deafened'', JBool (vs_Deafened v)),
     (''speaking'', JBool (vs_Speaking v)), (''camera'', JBool (vs_Camera v)), (''screenshare'', JBool (vs_Screenshare v))]"

definition json_dm :: "DMChannelInfo \<Rightarrow> json" where
  "json_dm d = JObj [(''channel_id'', jint (di_ChannelID d)),
     (''recipient'', JObj [(''id'', jint (du_ID (di_Recipient d))), (''username'', JStr (du_Username (di_Recipient d))),
        (''avatar'', JStr (du_Avatar (di_Recipient d))), (''status'', JStr (du_Status (di_Recipient d)))]),
     (''last_message_id'', jint_opt (di_LastMessageID d)), (''last_message'', JStr (di_LastMessage d)),
     (''last_message_at'', JStr (di_LastMessageAt d)), (''unread_count'', jint (di_UnreadCount d))]"

definition or_default :: "'a \<Rightarrow> 'e + 'a \<Rightarrow> 'a" where
  "or_default d r = (case r of Inr x \<Rightarrow> x | Inl _ \<Rightarrow> d)"

definition buildReady :: "int64 \<Rightarrow> (hub, db_error + bytes) state" where
  "buildReady userID =
     bind_ok ListChannels (\<lambda>chs.
     bind_ok ListRoles (\<lambda>rs. do {
       members \<leftarrow> ListMembers;
       unreadMap \<leftarrow> GetChannelUnreadCounts userID;
       voiceStates \<leftarrow> GetAllVoiceStates;
       dms \<leftarrow> GetUserDMChannels userID;
       (serverName, motd) \<leftarrow> getCachedSettings;
       return (Inr (Marshal (JObj
         [(''payload'', JObj
            [(''channels'', JArr (map (ready_channel (or_default Mapping.empty unreadMap)) chs)),
             (''dm_channels'', JArr (map json_dm (or_default [] dms))),
             (''members'', JArr (map json_member (or_default [] members))),
             (''motd'', JStr motd),
             (''roles'', if rs = [] then JNull else JArr (map json_role rs)),
             (''server_name'', JStr serverName),
             (''voice_states'', JArr (map json_voice (or_default [] voiceStates)))]),
          (''type'', JStr ''ready'')])))
     }))"

section \<open>Connecting\<close>

text \<open>The cached role name; the roles of the migrations have ASCII names.\<close>

definition client_role :: "User \<Rightarrow> (hub, string) state" where
  "client_role user = do {
     r \<leftarrow> GetRoleByID (u_RoleID user);
     return (case r of Inr (Some role) \<Rightarrow> nocase (r_Name role) | _ \<Rightarrow> ''member'')
   }"

definition new_connection :: "User \<Rightarrow> string \<Rightarrow> string \<Rightarrow> (hub, addr) state" where
  "new_connection user tokenHash remoteAddr = do {
     c \<leftarrow> newClient user tokenHash;
     roleName \<leftarrow> client_role user;
     modify (set_client c (\<lambda>k. k\<lparr>k_remoteAddr := remoteAddr, k_roleName := roleName\<rparr>));
     _ \<leftarrow> LogAudit (u_ID user) ''ws_connect'' ''user'' (u_ID user) (''WebSocket connected from '' @ remoteAddr);
     return c
   }"

text \<open>Writing a list of messages: those written, and whether all were.\<close>

fun write_all :: "(nat \<Rightarrow> bool) \<Rightarrow> nat \<Rightarrow> bytes list \<Rightarrow> bytes list \<times> bool" where
  "write_all wok n [] = ([], True)"
| "write_all wok n (m # ms) =
     (if wok n then (case write_all wok (Suc n) ms of (out, ok) \<Rightarrow> (m # out, ok)) else ([], False))"

text \<open>Both handshakes return what was written and whether the client is now registered.\<close>

definition serve_replay ::
  "(nat \<Rightarrow> bool) \<Rightarrow> addr \<Rightarrow> User \<Rightarrow> bytes list \<Rightarrow> (hub, bytes list \<times> bool) state" where
  "serve_replay wok c user events = do {
     k \<leftarrow> client c;
     authOK \<leftarrow> buildAuthOK user (k_roleName k);
     let (out, ok) = write_all wok 0 (authOK # events);
     (if \<not> ok then return (out, False)
      else do {
        registerNow c;
        _ \<leftarrow> UpdateUserStatus (u_ID user) ''online'';
        BroadcastToAll (buildPresenceMsg (u_ID user) ''online'');
        return (out, True)
      })
   }"

definition serve_register :: "addr \<Rightarrow> User \<Rightarrow> bytes list \<Rightarrow> (hub, bytes list \<times> bool) state" where
  "serve_register c user out = do {
     registerNow c;
     _ \<leftarrow> UpdateUserStatus (u_ID user) ''online'';
     k \<leftarrow> client c;
     BroadcastToAll (buildMemberJoin user (k_roleName k));
     BroadcastToAll (buildPresenceMsg (u_ID user) ''online'');
     return (out, True)
   }"

definition serve_fresh :: "(nat \<Rightarrow> bool) \<Rightarrow> addr \<Rightarrow> User \<Rightarrow> (hub, bytes list \<times> bool) state" where
  "serve_fresh wok c user = do {
     k \<leftarrow> client c;
     authOK \<leftarrow> buildAuthOK user (k_roleName k);
     (if \<not> wok 0 then return ([], False)
      else do {
        ready \<leftarrow> buildReady (u_ID user);
        (case ready of
           Inr msg \<Rightarrow> if wok 1 then serve_register c user [authOK, msg] else return ([authOK], False)
         | Inl _ \<Rightarrow> serve_register c user
             (authOK # (if wok 1 then [buildErrorMsg ErrCodeInternal ''failed to build ready payload''] else [])))
      })
   }"

definition serve_authenticated ::
  "(nat \<Rightarrow> bool) \<Rightarrow> string \<Rightarrow> User \<Rightarrow> string \<Rightarrow> nat \<Rightarrow> (hub, bytes list \<times> addr option) state" where
  "serve_authenticated wok remoteAddr user tokenHash lastSeq = do {
     c \<leftarrow> new_connection user tokenHash remoteAddr;
     buf \<leftarrow> gets h_replayBuf;
     (out, ok) \<leftarrow>
       (case (if lastSeq > 0 then EventsSince buf (of_nat lastSeq) else None) of
          Some events \<Rightarrow> serve_replay wok c user events
        | None \<Rightarrow> serve_fresh wok c user);
     return (out, if ok then Some c else None)
   }"

definition ServeWS ::
  "(string \<Rightarrow> string) \<Rightarrow> (nat \<Rightarrow> bool) \<Rightarrow> string \<Rightarrow> bytes option \<Rightarrow> (hub, bytes list \<times> addr option) state" where
  "ServeWS sha256 wok remoteAddr raw = do {
     auth \<leftarrow> authenticateConn sha256 raw;
     (case auth of
        Inl msg \<Rightarrow> return ((case msg of None \<Rightarrow> [] | Some m \<Rightarrow> [m]), None)
      | Inr (user, tokenHash, lastSeq) \<Rightarrow> serve_authenticated wok remoteAddr user tokenHash lastSeq)
   }"

section \<open>The pumps\<close>

definition pump_read :: "(string \<Rightarrow> string) \<Rightarrow> addr \<Rightarrow> bytes \<Rightarrow> (hub, unit) state" where
  "pump_read sanitize c msg = do { touch c; handleMessage sanitize c msg }"

text \<open>The deferred clean-up of \<^verbatim>\<open>readPump\<close>, then \<^verbatim>\<open>closeSend\<close> in \<^verbatim>\<open>startPumps\<close>.\<close>

definition pump_exit :: "addr \<Rightarrow> (hub, unit) state" where
  "pump_exit c = do {
     unregisterNow c;
     k \<leftarrow> client c;
     (if k_user k = None then return ()
      else do {
        replaced \<leftarrow> IsUserConnected (k_userID k);
        (if replaced then return ()
         else do {
           handleVoiceLeave c;
           _ \<leftarrow> UpdateUserStatus (k_userID k) ''offline'';
           BroadcastToAll (buildPresenceMsg (k_userID k) ''offline'')
         })
      });
     closeSend c
   }"

text \<open>One round of \<^verbatim>\<open>writePump\<close>: the next message taken from the send channel.\<close>

definition pump_write :: "addr \<Rightarrow> (hub, bytes option) state" where
  "pump_write c = do {
     k \<leftarrow> client c;
     (case k_send k of
        [] \<Rightarrow> return None
      | m # ms \<Rightarrow> do { modify (set_client c (\<lambda>k. k\<lparr>k_send := ms\<rparr>)); return (Some m) })
   }"

end
