(* ===== verification/Frame.thy ===== *)
theory Frame
  imports Serve
begin

text \<open>
  What database calls leave alone, and the calls the handlers make seen from the hub:
  every statement keeps the fields the hub adds to the database, and a query keeps
  the tables.
\<close>

section \<open>The hub's fields\<close>

definition more_is :: "'z \<Rightarrow> 'z database_scheme \<Rightarrow> bool" where
  "more_is x s \<longleftrightarrow> database.more s = x"

named_theorems frame_intro \<open>calls that keep the fields beyond the database\<close>

lemma frame_tick: "more_is x (tick s) = more_is x s"
  by (simp add: more_is_def)

lemma frame_exec:
  "(\<And>now s y s'. f now s = Inr (y, s') \<Longrightarrow> database.more s' = database.more s) \<Longrightarrow> keeps (more_is x) (exec f)"
  by (rule keeps_exec) (auto simp: frame_tick more_is_def)

lemma frame_execute [frame_intro]:
  "(\<And>now s. database.more (f now s) = database.more s) \<Longrightarrow> keeps (more_is x) (execute f)"
  by (rule keeps_execute) (auto simp: frame_tick more_is_def)

lemma frame_query [frame_intro]: "keeps (more_is x) (query f)"
  by (rule keeps_query) (simp add: frame_tick)

lemma frame_time_now: "keeps (more_is x) time_now"
  by (rule keepsI) (simp add: time_now_def more_is_def)

lemma frame_transaction [frame_intro]:
  assumes "keeps (more_is x) m"
  shows "keeps (more_is x) (transaction m)"
proof (rule keepsI)
  fix s
  assume x: "more_is x s"
  then have "wp m (\<lambda>_. more_is x) (tick s)"
    by (intro keeps_wp assms) (simp add: frame_tick)
  then have "wp (transaction m) (\<lambda>_. more_is x) s"
    unfolding wp_simps using x
    by (auto elim!: wp_mono simp: more_is_def rollback_to_def split: sum.splits if_splits)
  then show "more_is x (snd (run_state (transaction m) s))"
    by (simp add: wp_run)
qed

lemma frame_inserts [frame_intro]:
  "keeps (more_is x) (exec (insert_user a b c))"
  "keeps (more_is x) (exec (insert_session i d e g h))"
  "keeps (more_is x) (exec (insert_invite j k l m))"
  "keeps (more_is x) (exec (insert_channel n ty ca to po))"
  "keeps (more_is x) (exec (insert_message ch u t r))"
  "keeps (more_is x) (exec (insert_reaction mi u t))"
  "keeps (more_is x) (exec (\<lambda>now. link_attachments mi as))"
  "keeps (more_is x) (exec (insert_open ps))"
  "keeps (more_is x) (exec (\<lambda>now. insert_participants ch u v))"
  "keeps (more_is x) (exec (\<lambda>now. anonymise_row u))"
  by (rule frame_exec,
    auto simp: insert_user_def insert_session_def insert_invite_def insert_channel_def insert_message_def
      insert_reaction_def link_attachments_def insert_open_def insert_participants_def anonymise_row_def Let_def
      split: if_splits)+

lemma frame_delete_channel: "database.more (delete_channel_cascade ch s) = database.more s"
  by (simp add: delete_channel_cascade_def Let_def)

lemmas frame_rules = keeps_return keeps_bind keeps_bind_ok keeps_if keeps_case_option keeps_case_sum keeps_case_prod
  keeps_let keeps_gets keeps_get frame_intro

lemma frame_user_calls [frame_intro]:
  "keeps (more_is x) (CreateUser a b c)" "keeps (more_is x) (CreateUserWithInvite st a b c d)"
  "keeps (more_is x) (UpdateUserStatus u y)" "keeps (more_is x) (UpdateUserTOTPSecret u z)"
  "keeps (more_is x) (UpdateUserRole u r)" "keeps (more_is x) ResetAllUserStatuses"
  "keeps (more_is x) (BanUser u rs t)" "keeps (more_is x) (UnbanUser u)" "keeps (more_is x) (DeleteAccount u)"
  unfolding CreateUser_def CreateUserWithInvite_def UpdateUserStatus_def UpdateUserTOTPSecret_def UpdateUserRole_def
    ResetAllUserStatuses_def BanUser_def UnbanUser_def DeleteAccount_def set_user_def use_invite_def last_admin_guard_def
  by (intro frame_rules frame_exec; auto split: if_splits)+

lemma frame_auth_calls [frame_intro]:
  "keeps (more_is x) (CreateSession u h d i)" "keeps (more_is x) (DeleteSession h)"
  "keeps (more_is x) (DeleteExpiredSessions st)" "keeps (more_is x) (TouchSession h)"
  "keeps (more_is x) (ForceLogoutUser u)" "keeps (more_is x) (CreateInvite b u n t)"
  "keeps (more_is x) (UseInviteAtomic st co)" "keeps (more_is x) (RevokeInvite co)"
  unfolding CreateSession_def DeleteSession_def DeleteExpiredSessions_def TouchSession_def ForceLogoutUser_def
    CreateInvite_def UseInviteAtomic_def RevokeInvite_def use_invite_def
  by (intro frame_rules frame_exec frame_time_now; auto)+

lemma frame_channel_calls [frame_intro]:
  "keeps (more_is x) (CreateChannel n ty ca to po)" "keeps (more_is x) (UpdateChannel ch n to sm)"
  "keeps (more_is x) (SetChannelSlowMode ch sm)" "keeps (more_is x) (SetChannelVoiceMaxUsers ch sm)"
  "keeps (more_is x) (AdminUpdateChannel ch n to sm po ar)" "keeps (more_is x) (DeleteChannel ch)"
  unfolding CreateChannel_def UpdateChannel_def SetChannelSlowMode_def SetChannelVoiceMaxUsers_def
    AdminUpdateChannel_def DeleteChannel_def
  by (intro frame_rules; simp add: frame_delete_channel)+

lemma frame_message_calls [frame_intro]:
  "keeps (more_is x) (CreateMessage ch u t r)" "keeps (more_is x) (EditMessage i u t)"
  "keeps (more_is x) (DeleteMessage i u b)" "keeps (more_is x) (SetMessagePinned i b)"
  "keeps (more_is x) (AddReaction i u e)" "keeps (more_is x) (RemoveReaction i u e)"
  "keeps (more_is x) (CreateAttachment j fn sa mt sz w h)" "keeps (more_is x) (LinkAttachmentsToMessage i as)"
  "keeps (more_is x) (DeleteOrphanedAttachments cu)" "keeps (more_is x) (UpdateReadState u ch i)"
  unfolding CreateMessage_def EditMessage_def DeleteMessage_def SetMessagePinned_def AddReaction_def RemoveReaction_def
    CreateAttachment_def LinkAttachmentsToMessage_def DeleteOrphanedAttachments_def UpdateReadState_def GetMessage_def Let_def
  by (intro frame_rules frame_exec; auto split: if_splits)+

lemma frame_voice_calls [frame_intro]:
  "keeps (more_is x) (JoinVoiceChannel u ch)" "keeps (more_is x) (LeaveVoiceChannel u)"
  "keeps (more_is x) (ClearVoiceState u)" "keeps (more_is x) ClearAllVoiceStates"
  "keeps (more_is x) (UpdateVoiceMute u b)" "keeps (more_is x) (UpdateVoiceDeafen u b)"
  "keeps (more_is x) (UpdateVoiceCamera u b)" "keeps (more_is x) (UpdateVoiceScreenshare u b)"
  unfolding JoinVoiceChannel_def LeaveVoiceChannel_def ClearVoiceState_def ClearAllVoiceStates_def UpdateVoiceMute_def
    UpdateVoiceDeafen_def UpdateVoiceCamera_def UpdateVoiceScreenshare_def set_voice_def
  by (intro frame_rules frame_exec; auto split: if_splits)+

lemma frame_dm_calls [frame_intro]:
  "keeps (more_is x) (GetOrCreateDMChannel u v)" "keeps (more_is x) (OpenDM u ch)" "keeps (more_is x) (CloseDM u ch)"
  "keeps (more_is x) (LogAudit u a ty i d)" "keeps (more_is x) (SetSetting k w)"
  unfolding GetOrCreateDMChannel_def dm_transaction_def OpenDM_def CloseDM_def LogAudit_def SetSetting_def GetChannel_def
  by (intro frame_rules; simp)+

lemma frame_run_call: "keeps (more_is x) m \<Longrightarrow> more_is x s \<Longrightarrow> more_is x (run_call m s)"
  by (simp add: run_call_def keepsD)

lemma frame_more: "(\<And>x. keeps (more_is x) m) \<Longrightarrow> database.more (run_call m s) = database.more s"
  using frame_run_call [of "database.more s" m s] by (simp add: more_is_def)

lemma frame_user_step: "database.more (user_step st c s) = database.more s"
  by (cases c) (simp_all add: frame_more frame_intro)

lemma frame_auth_step: "database.more (auth_step st c s) = database.more s"
  by (cases c) (simp_all add: frame_more frame_intro)

lemma frame_channel_step: "database.more (channel_step c s) = database.more s"
  by (cases c) (simp_all add: frame_more frame_intro)

lemma frame_message_step: "database.more (message_step c s) = database.more s"
  by (cases c) (simp_all add: frame_more frame_intro)

lemma frame_voice_step: "database.more (voice_step c s) = database.more s"
  by (cases c) (simp_all add: frame_more frame_intro)

lemma frame_dm_step: "database.more (dm_step c s) = database.more s"
  by (cases c) (simp_all add: frame_more frame_intro)

lemma frame_db_step: "database.more (db_step st c s) = database.more s"
  by (cases c) (simp_all add: frame_user_step frame_auth_step frame_channel_step frame_message_step
    frame_voice_step frame_dm_step)

section \<open>The invariant of the hub\<close>

text \<open>
  The registered clients are allocated, open and filed under their own user id; no
  queue exceeds its capacity; the replay buffer is well formed.
\<close>

definition client_ok :: "'z hub_scheme \<Rightarrow> int64 \<times> addr \<Rightarrow> bool" where
  "client_ok s p \<longleftrightarrow> snd p < h_next s \<and> k_userID (h_heap s (snd p)) = fst p \<and> \<not> k_sendClosed (h_heap s (snd p))"

definition queues_ok :: "'z hub_scheme \<Rightarrow> bool" where
  "queues_ok s \<longleftrightarrow> (\<forall>c. length (k_send (h_heap s c)) \<le> sendBufSize) \<and> length (h_broadcast s) \<le> broadcastCap"

definition clients_ok :: "'z hub_scheme \<Rightarrow> bool" where
  "clients_ok s \<longleftrightarrow> distinct (map fst (h_clients s)) \<and> (\<forall>p \<in> set (h_clients s). client_ok s p)"

definition replay_ok :: "'z hub_scheme \<Rightarrow> bool" where
  "replay_ok s \<longleftrightarrow> ring_ok (h_replayBuf s) \<and> rsize (h_replayBuf s) = 1000"

definition hub_ok :: "'z hub_scheme \<Rightarrow> bool" where
  "hub_ok s \<longleftrightarrow> clients_ok s \<and> queues_ok s \<and> replay_ok s \<and> schema_ok s"

lemmas hub_ok_defs = hub_ok_def clients_ok_def queues_ok_def replay_ok_def client_ok_def

lemma hub_fields_more:
  fixes s t :: "'z hub_scheme"
  assumes "database.more s = database.more t"
  shows "h_clients s = h_clients t" "h_heap s = h_heap t" "h_next s = h_next t" "h_limiter s = h_limiter t"
    "h_broadcast s = h_broadcast t" "h_seq s = h_seq t" "h_replayBuf s = h_replayBuf t" "h_livekit s = h_livekit t"
    "h_lkRunning s = h_lkRunning t" "h_retries s = h_retries t" "h_lkRemoved s = h_lkRemoved t"
  using assms by (cases s; cases t; simp)+

lemma hub_ok_more:
  "database.more t = database.more s \<Longrightarrow> schema_ok t \<Longrightarrow> hub_ok s \<Longrightarrow> hub_ok t"
  using hub_fields_more [of t s] by (simp add: hub_ok_defs)

text \<open>A database call keeps the invariant of the hub.\<close>

lemma keeps_hub_db:
  fixes m :: "('z hub_scheme, 'a) state"
  assumes "keeps schema_ok m" and "\<And>x. keeps (more_is x) m"
  shows "keeps hub_ok m"
proof (rule keepsI)
  fix s :: "'z hub_scheme"
  assume ok: "hub_ok s"
  have "schema_ok (snd (run_state m s))"
    using keepsD [OF assms(1), of s] ok by (simp add: hub_ok_def)
  moreover have "database.more (snd (run_state m s)) = database.more s"
    using keepsD [OF assms(2), of "database.more s" s] by (simp add: more_is_def)
  ultimately show "hub_ok (snd (run_state m s))"
    using hub_ok_more [OF _ _ ok] by blast
qed

named_theorems hub_intro \<open>calls that keep the invariant of the hub\<close>

lemma hub_db_calls [hub_intro]:
  "keeps hub_ok (CreateMessage ch u t r)" "keeps hub_ok (EditMessage i u t)" "keeps hub_ok (DeleteMessage i u b)"
  "keeps hub_ok (AddReaction i u t)" "keeps hub_ok (RemoveReaction i u t)" "keeps hub_ok (LinkAttachmentsToMessage i as)"
  "keeps hub_ok (UpdateReadState u ch i)" "keeps hub_ok (UpdateUserStatus u t)" "keeps hub_ok (OpenDM u ch)"
  "keeps hub_ok (LogAudit u a ty i d)" "keeps hub_ok (JoinVoiceChannel u ch)" "keeps hub_ok (LeaveVoiceChannel u)"
  "keeps hub_ok (UpdateVoiceMute u b)" "keeps hub_ok (UpdateVoiceDeafen u b)" "keeps hub_ok (UpdateVoiceCamera u b)"
  "keeps hub_ok (UpdateVoiceScreenshare u b)" "keeps hub_ok (query f)"
  by (intro keeps_hub_db keeps_intro frame_intro)+

lemma hub_time_now [hub_intro]: "keeps hub_ok time_now"
  by (rule keepsI) (simp add: time_now_def hub_ok_defs schema_defs has_defs)

lemmas query_defs = GetRoleByID_def ListRoles_def ListChannels_def GetChannel_def GetChannelPermissions_def
  IsDMParticipant_def GetDMParticipantIDs_def GetMessage_def GetAttachmentsByMessageIDs_def GetLatestMessageID_def
  GetChannelUnreadCounts_def GetVoiceState_def GetChannelVoiceStates_def GetAllVoiceStates_def CountActiveCameras_def
  GetSessionWithBanStatus_def GetSessionByTokenHash_def GetUserByID_def ListMembers_def GetUserDMChannels_def

lemmas hub_rules = keeps_return keeps_bind keeps_bind_ok keeps_if keeps_case_list keeps_case_option keeps_case_sum keeps_case_prod
  keeps_let keeps_gets keeps_get keeps_for_each

section \<open>Fields after a step\<close>

lemma wp_set_client [wp_simps]: "wp (sendMsg c m) Q = (\<lambda>s. Q () (set_client c (snd \<circ> push_msg m) s))"
  by (simp add: sendMsg_def wp_modify)

lemma enqueue_simps [simp]:
  "h_heap (enqueue bm s) = h_heap s" "h_clients (enqueue bm s) = h_clients s" "h_retries (enqueue bm s) = h_retries s"
  "h_livekit (enqueue bm s) = h_livekit s" "h_lkRemoved (enqueue bm s) = h_lkRemoved s"
  "voice_states (enqueue bm s) = voice_states s" "faults (enqueue bm s) = faults s" "calls (enqueue bm s) = calls s"
  by (simp_all add: enqueue_def)

lemma set_client_simps [simp]:
  "h_heap (set_client c f s) = (h_heap s)(c := f (h_heap s c))" "h_clients (set_client c f s) = h_clients s"
  "h_retries (set_client c f s) = h_retries s" "h_livekit (set_client c f s) = h_livekit s"
  "h_lkRemoved (set_client c f s) = h_lkRemoved s" "voice_states (set_client c f s) = voice_states s"
  by (simp_all add: set_client_def)

lemma hub_tick_simps [simp]:
  fixes s :: "'z hub_scheme"
  shows "h_heap (tick s) = h_heap s" "h_clients (tick s) = h_clients s" "h_retries (tick s) = h_retries s"
    "h_livekit (tick s) = h_livekit s" "h_lkRemoved (tick s) = h_lkRemoved s" "h_broadcast (tick s) = h_broadcast s"
  by (simp_all add: tick_def)

end
