(* ===== verification/HubSafety.thy ===== *)
theory HubSafety
  imports Frame
begin

text \<open>
  The invariant of the hub is kept by every operation, handler and goroutine step, and
  so holds in every interleaving of them.
\<close>

section \<open>Operations on clients\<close>

lemma schema_hub_update [simp]:
  "schema_ok (s\<lparr>h_clients := a\<rparr>) = schema_ok s" "schema_ok (s\<lparr>h_heap := b\<rparr>) = schema_ok s"
  "schema_ok (s\<lparr>h_next := c\<rparr>) = schema_ok s" "schema_ok (s\<lparr>h_limiter := d\<rparr>) = schema_ok s"
  "schema_ok (s\<lparr>h_broadcast := e\<rparr>) = schema_ok s" "schema_ok (s\<lparr>h_seq := f\<rparr>) = schema_ok s"
  "schema_ok (s\<lparr>h_replayBuf := g\<rparr>) = schema_ok s" "schema_ok (s\<lparr>h_settingsName := h\<rparr>) = schema_ok s"
  "schema_ok (s\<lparr>h_settingsMotd := i\<rparr>) = schema_ok s" "schema_ok (s\<lparr>h_settingsLastUpdate := j\<rparr>) = schema_ok s"
  "schema_ok (s\<lparr>h_lkRemoved := k\<rparr>) = schema_ok s" "schema_ok (s\<lparr>h_retries := l\<rparr>) = schema_ok s"
  by (simp_all add: schema_defs has_defs)

text \<open>Changing a client, but not who it is nor whether it is open, nor overfilling its queue.\<close>

lemma hub_set_client:
  assumes "\<And>k. k_userID (f k) = k_userID k" and "\<And>k. k_sendClosed (f k) = k_sendClosed k"
    and "\<And>k. length (k_send k) \<le> sendBufSize \<Longrightarrow> length (k_send (f k)) \<le> sendBufSize"
  shows "keeps hub_ok (modify (set_client c f))"
  using assms by (intro keeps_modify) (auto simp: hub_ok_defs set_client_def)

lemma push_msg_simps [simp]:
  "k_userID (snd (push_msg m k)) = k_userID k" "k_sendClosed (snd (push_msg m k)) = k_sendClosed k"
  "k_user (snd (push_msg m k)) = k_user k" "k_voiceChID (snd (push_msg m k)) = k_voiceChID k"
  "k_channelID (snd (push_msg m k)) = k_channelID k"
  by (simp_all add: push_msg_def)

lemma push_msg_length:
  "length (k_send k) \<le> sendBufSize \<Longrightarrow> length (k_send (snd (push_msg m k))) \<le> sendBufSize"
  by (simp add: push_msg_def)

lemma hub_client [hub_intro]: "keeps hub_ok (client c)" "keeps hub_ok (client_id c)"
  by (simp_all add: client_def client_id_def keeps_gets)

lemma hub_sendMsg [hub_intro]: "keeps hub_ok (sendMsg c m)"
  unfolding sendMsg_def by (rule hub_set_client) (simp_all add: push_msg_length)

lemma hub_sends [hub_intro]:
  "keeps hub_ok (sendError c code msg)" "keeps hub_ok (trySendMsg c m)" "keeps hub_ok (SendToUser u m)"
  "keeps hub_ok (send_to m u)"
  unfolding sendError_def trySendMsg_def SendToUser_def send_to_def trySendMsg_def
  by (intro hub_rules hub_intro hub_set_client; simp add: push_msg_length)+

lemma hub_client_fields [hub_intro]:
  "keeps hub_ok (touch c)" "keeps hub_ok (getVoiceChID c)" "keeps hub_ok (setVoiceChID c ch)" "keeps hub_ok (clearVoiceChID c)"
  unfolding touch_def getVoiceChID_def setVoiceChID_def clearVoiceChID_def
  by (intro hub_rules hub_intro hub_set_client; simp)+

section \<open>Queues, broadcast and the replay buffer\<close>

lemma hub_enqueue: "hub_ok s \<Longrightarrow> hub_ok (enqueue bm s)"
  by (auto simp: enqueue_def hub_ok_defs)

lemma hub_broadcasts [hub_intro]:
  "keeps hub_ok (BroadcastToAll m)" "keeps hub_ok (BroadcastToChannel ch m)"
  unfolding BroadcastToAll_def BroadcastToChannel_def by (auto intro: keeps_modify hub_enqueue)

lemma hub_nextSeq [hub_intro]: "keeps hub_ok nextSeq"
  unfolding nextSeq_def by (intro hub_rules keeps_modify) (simp add: hub_ok_defs)

lemma hub_fan_out [hub_intro]:
  "keeps hub_ok (for_each cs (\<lambda>c. do { k \<leftarrow> client c; (if receives ch k then sendMsg c m else return ()) }))"
  by (intro hub_rules hub_intro)

text \<open>The delivery of a broadcast, and that it does not panic.\<close>

lemma deliver_wp:
  assumes ok: "hub_ok s"
  shows "wp (deliverBroadcast bm) (\<lambda>r s'. r = Some () \<and> hub_ok s') s"
proof -
  let ?s1 = "s\<lparr>h_seq := h_seq s + 1\<rparr>"
  let ?msg = "wrapWithSeq (b_msg bm) (h_seq s + 1)"
  obtain b where push: "Push (h_replayBuf s) (h_seq s + 1) ?msg = Some b"
    and b: "ring_ok b" "rsize b = rsize (h_replayBuf s)"
  proof -
    have ring: "ring_ok (h_replayBuf s)"
      using ok by (simp add: hub_ok_def replay_ok_def)
    then obtain b where "Push (h_replayBuf s) (h_seq s + 1) ?msg = Some b"
      using Push_Some by blast
    with that Push_ok [OF ring] show thesis by blast
  qed
  have ok2: "hub_ok (?s1\<lparr>h_replayBuf := b\<rparr>)"
    using ok b by (simp add: hub_ok_defs)
  show ?thesis
    unfolding deliverBroadcast_def nextSeq_def Let_def wp_simps
    using keeps_wp [OF hub_fan_out ok2] push by (simp add: wp_simps)
qed

lemma run_broadcast_wp: "hub_ok s \<Longrightarrow> wp run_broadcast (\<lambda>r s'. r = Some () \<and> hub_ok s') s"
proof (cases "h_broadcast s")
  case Nil
  then show "hub_ok s \<Longrightarrow> ?thesis"
    by (simp add: run_broadcast_def wp_simps)
next
  case (Cons bm rest)
  assume "hub_ok s"
  with Cons have "hub_ok (s\<lparr>h_broadcast := rest\<rparr>)"
    by (auto simp: hub_ok_defs)
  then show ?thesis
    using Cons deliver_wp by (simp add: run_broadcast_def wp_simps)
qed

lemma hub_run_broadcast [hub_intro]: "keeps hub_ok run_broadcast"
  using run_broadcast_wp by (auto simp: keeps_def wp_run)

section \<open>Registration\<close>

lemma registered_mem: "hub_ok s \<Longrightarrow> registered s u = Some c \<Longrightarrow> client_ok s (u, c)"
  by (auto simp: registered_def hub_ok_def clients_ok_def dest: map_of_SomeD)

lemma drop_client_simps [simp]:
  "h_heap (drop_client c s) = h_heap s" "h_next (drop_client c s) = h_next s"
  "h_broadcast (drop_client c s) = h_broadcast s" "h_replayBuf (drop_client c s) = h_replayBuf s"
  "schema_ok (drop_client c s) = schema_ok s"
  by (simp_all add: drop_client_def Let_def)

lemma set_drop_client: "set (h_clients (drop_client c s)) \<subseteq> set (h_clients s)"
  by (auto simp: drop_client_def Let_def AList.delete_eq)

lemma hub_drop: "hub_ok s \<Longrightarrow> hub_ok (drop_client c s)"
proof -
  assume ok: "hub_ok s"
  have "distinct (map fst (h_clients (drop_client c s)))"
    using ok by (simp add: drop_client_def Let_def hub_ok_def clients_ok_def AList.delete_eq distinct_map_filter)
  moreover have "\<forall>p \<in> set (h_clients (drop_client c s)). client_ok (drop_client c s) p"
    using ok set_drop_client [of c s] by (auto simp: hub_ok_defs)
  ultimately show ?thesis
    using ok by (simp add: hub_ok_def clients_ok_def queues_ok_def replay_ok_def)
qed

lemma dropped: "hub_ok s \<Longrightarrow> c \<notin> snd ` set (h_clients (drop_client c s))"
proof
  assume ok: "hub_ok s" and "c \<in> snd ` set (h_clients (drop_client c s))"
  then obtain u where mem: "(u, c) \<in> set (h_clients (drop_client c s))"
    by auto
  then have "(u, c) \<in> set (h_clients s)"
    using set_drop_client by blast
  with ok have "k_userID (h_heap s c) = u" and "registered s u = Some c"
    by (auto simp: hub_ok_defs registered_def)
  with mem show False
    by (auto simp: drop_client_def Let_def AList.delete_eq)
qed

lemma hub_close: "hub_ok s \<Longrightarrow> c \<notin> snd ` set (h_clients s) \<Longrightarrow>
  hub_ok (set_client c (\<lambda>k. if \<not> k_sendClosed k then k\<lparr>k_sendClosed := True\<rparr> else k) s)"
  by (force simp: hub_ok_defs set_client_def)

lemma hub_unregister [hub_intro]: "keeps hub_ok (unregisterNow c)"
  unfolding unregisterNow_def by (rule keeps_modify) (rule hub_drop)

lemma hub_kickClient [hub_intro]: "keeps hub_ok (kickClient c)"
  by (rule keepsI) (simp add: kickClient_def closeSend_def hub_drop dropped hub_close)

lemma hub_sweep [hub_intro]: "keeps hub_ok sweepStaleClients"
  unfolding sweepStaleClients_def by (intro hub_rules hub_intro)

text \<open>Registering an open client that is not registered yet.\<close>

lemma hub_insert_client:
  assumes "distinct (map fst (h_clients s))" and "client_ok s (u, c)"
    and "\<forall>p \<in> set (h_clients s). fst p \<noteq> u \<longrightarrow> client_ok s p" and "queues_ok s" "replay_ok s" "schema_ok s"
  shows "hub_ok (s\<lparr>h_clients := AList.update u c (h_clients s)\<rparr>)"
proof -
  let ?cs = "AList.update u c (h_clients s)"
  have d: "distinct (map fst ?cs)"
    using assms(1) by (rule distinct_update)
  have "client_ok s p" if "p \<in> set ?cs" for p
  proof -
    have "map_of ?cs (fst p) = Some (snd p)"
      using that d by simp
    then have "(if fst p = u then snd p = c else map_of (h_clients s) (fst p) = Some (snd p))"
      by (simp add: update_conv' split: if_splits)
    then show ?thesis
      using assms(2,3) by (cases p) (auto split: if_splits dest: map_of_SomeD)
  qed
  then have "\<forall>p \<in> set ?cs. client_ok (s\<lparr>h_clients := ?cs\<rparr>) p"
    by (simp add: client_ok_def)
  with d assms(4-6) show ?thesis
    by (simp add: hub_ok_def clients_ok_def queues_ok_def replay_ok_def)
qed

lemma register_wp:
  assumes ok: "hub_ok s" and c: "c < h_next s" "\<not> k_sendClosed (h_heap s c)"
    and new: "registered s (k_userID (h_heap s c)) \<noteq> Some c"
  shows "wp (registerNow c) (\<lambda>_ s'. hub_ok s' \<and> registered s' (k_userID (h_heap s c)) = Some c) s"
proof (cases "registered s (k_userID (h_heap s c))")
  case None
  have "hub_ok (s\<lparr>h_clients := AList.update (k_userID (h_heap s c)) c (h_clients s)\<rparr>)"
    using ok c by (intro hub_insert_client) (auto simp: hub_ok_def clients_ok_def client_ok_def)
  with None show ?thesis
    by (simp add: registerNow_def wp_simps) (simp add: registered_def update_conv')
next
  case (Some old)
  with new have neq: "old \<noteq> c" by auto
  define u where "u = k_userID (h_heap s c)"
  define s1 where "s1 = set_client old (\<lambda>k. k\<lparr>k_voiceChID := 0\<rparr>) s"
  define s2 where "s2 = (if k_voiceChID (h_heap s1 c) = 0
    then set_client c (\<lambda>k. k\<lparr>k_voiceChID := k_voiceChID (h_heap s old)\<rparr>) s1 else s1)"
  define s3 where "s3 = set_client old (\<lambda>k. if \<not> k_sendClosed k then k\<lparr>k_sendClosed := True\<rparr> else k) s2"
  have fields: "h_clients s3 = h_clients s" "h_next s3 = h_next s" "h_broadcast s3 = h_broadcast s"
    "h_replayBuf s3 = h_replayBuf s" "schema_ok s3 = schema_ok s"
    by (simp_all add: s3_def s2_def s1_def set_client_def)
  have heap: "k_userID (h_heap s3 x) = k_userID (h_heap s x)" "k_send (h_heap s3 x) = k_send (h_heap s x)"
    "x \<noteq> old \<Longrightarrow> k_sendClosed (h_heap s3 x) = k_sendClosed (h_heap s x)" for x
    by (simp_all add: s3_def s2_def s1_def set_client_def)
  have "hub_ok (s3\<lparr>h_clients := AList.update u c (h_clients s3)\<rparr>)"
  proof (rule hub_insert_client)
    show "client_ok s3 (u, c)"
      using c neq by (simp add: client_ok_def fields heap u_def)
    show "\<forall>p \<in> set (h_clients s3). fst p \<noteq> u \<longrightarrow> client_ok s3 p"
    proof (intro ballI impI)
      fix p assume p: "p \<in> set (h_clients s3)" "fst p \<noteq> u"
      then have cp: "client_ok s p"
        using ok by (simp add: fields hub_ok_def clients_ok_def)
      have "client_ok s (u, old)"
        using registered_mem [OF ok] Some by (simp add: u_def)
      with cp p(2) have "snd p \<noteq> old"
        by (auto simp: client_ok_def)
      with cp show "client_ok s3 p"
        by (simp add: client_ok_def fields heap)
    qed
  qed (use ok in \<open>simp_all add: fields heap hub_ok_def clients_ok_def queues_ok_def replay_ok_def\<close>)
  moreover have "wp (registerNow c) (\<lambda>_ s'. s' = s3\<lparr>h_clients := AList.update u c (h_clients s3)\<rparr>) s"
    using Some by (simp add: registerNow_def clearVoiceChID_def getVoiceChID_def setVoiceChID_def closeSend_def wp_simps
      s3_def s2_def s1_def u_def)
  ultimately show ?thesis
    by (elim wp_mono) (simp add: registered_def update_conv' u_def)
qed

section \<open>Handlers\<close>

lemma hub_limiter [hub_intro]: "keeps hub_ok (limiter_allow key limit window)"
  unfolding limiter_allow_def by (intro hub_rules hub_intro keeps_modify) (simp add: hub_ok_defs)

lemma hub_checker [hub_intro]:
  "keeps hub_ok (HasChannelPerm GetChannelPermissions r role ch perm)"
  "keeps hub_ok (hasChannelPerm c ch perm)" "keeps hub_ok (requireChannelPerm c ch perm label)"
  unfolding requireChannelPerm_def hasChannelPerm_def HasChannelPerm_def query_defs
  by (intro hub_rules hub_intro)+

lemma hub_broadcast_helpers [hub_intro]:
  "keeps hub_ok (broadcastExclude ch u m)" "keeps hub_ok (broadcastToDMParticipants ch m)"
  "keeps hub_ok (broadcastToDMParticipantsExclude ch u m)" "keeps hub_ok (deliver_event dm ch m)"
  unfolding broadcastExclude_def broadcastToDMParticipants_def broadcastToDMParticipantsExclude_def deliver_event_def query_defs
  by (intro hub_rules hub_intro)+

lemma hub_chat_parts [hub_intro]:
  "keeps hub_ok (chat_send_authorized c chan ch)" "keeps hub_ok (slow_mode_passed c chan ch)"
  "keeps hub_ok (attach_allowed c chan ch atts)" "keeps hub_ok (link_message c i atts)"
  "keeps hub_ok (deliver_dm c ch m)"
  unfolding chat_send_authorized_def slow_mode_passed_def attach_allowed_def link_message_def deliver_dm_def reopen_dm_def query_defs
  by (intro hub_rules hub_intro)+

lemma hub_chat_send [hub_intro]: "keeps hub_ok (handleChatSend sanitize c reqID payload)"
  unfolding handleChatSend_def chat_send_channel_def chat_send_persist_def chat_send_deliver_def query_defs
  by (intro hub_rules hub_intro)

lemma hub_message_checks [hub_intro]:
  "keeps hub_ok (is_dm_channel ch)" "keeps hub_ok (dm_member c ch)" "keeps hub_ok (may_touch c dm ch perm)"
  unfolding is_dm_channel_def dm_member_def may_touch_def query_defs
  by (intro hub_rules hub_intro)+

lemma hub_chat_edit [hub_intro]: "keeps hub_ok (handleChatEdit sanitize c payload)"
  unfolding handleChatEdit_def chat_edit_message_def chat_edit_commit_def query_defs
  by (intro hub_rules hub_intro)

lemma hub_chat_delete [hub_intro]: "keeps hub_ok (handleChatDelete c payload)"
  unfolding handleChatDelete_def chat_delete_message_def chat_delete_commit_def query_defs
  by (intro hub_rules hub_intro)

lemma hub_reaction [hub_intro]: "keeps hub_ok (handleReaction c add payload)"
  unfolding handleReaction_def reaction_message_def reaction_commit_def query_defs
  by (intro hub_rules hub_intro)

lemma hub_presence [hub_intro]:
  "keeps hub_ok (handleTyping c payload)" "keeps hub_ok (handlePresence c payload)"
  unfolding handleTyping_def typing_channel_def handlePresence_def query_defs
  by (intro hub_rules hub_intro)+

lemma hub_focus [hub_intro]: "keeps hub_ok (handleChannelFocus c payload)"
  unfolding handleChannelFocus_def focus_channel_def query_defs
  by (intro hub_rules hub_intro hub_set_client) simp_all

section \<open>Voice\<close>

lemma hub_retry_queue: "keeps hub_ok (modify (\<lambda>s. s\<lparr>h_retries := f s\<rparr>))"
  by (rule keeps_modify) (simp add: hub_ok_defs)

lemma hub_leave_retry [hub_intro]:
  "keeps hub_ok (leaveVoiceChannelWithRetry u ch)" "keeps hub_ok run_retry"
  unfolding leaveVoiceChannelWithRetry_def run_retry_def
  by (intro hub_rules hub_intro hub_retry_queue)+

lemma hub_lkRemove [hub_intro]: "keeps hub_ok (lkRemove ch u)"
  unfolding lkRemove_def RemoveParticipant_def by (intro hub_rules keeps_modify) (simp add: hub_ok_defs)

lemma hub_voice_leave [hub_intro]:
  "keeps hub_ok (handleVoiceLeave c)" "keeps hub_ok (rollbackVoiceJoin c ch)" "keeps hub_ok (CleanupVoiceForChannel ch)"
  unfolding handleVoiceLeave_def rollbackVoiceJoin_def CleanupVoiceForChannel_def query_defs
  by (intro hub_rules hub_intro)+

lemma hub_voice_join [hub_intro]: "keeps hub_ok (handleVoiceJoin c payload)"
  unfolding handleVoiceJoin_def voice_join_enter_def voice_join_persist_def voice_capacity_ok_def voice_join_announce_def
    voice_join_token_def voice_join_inform_def query_defs
  by (intro hub_rules hub_intro)

lemma hub_voice_refresh [hub_intro]: "keeps hub_ok (handleVoiceTokenRefresh c)"
  unfolding handleVoiceTokenRefresh_def by (intro hub_rules hub_intro)

lemma hub_voice_controls [hub_intro]:
  "keeps hub_ok (handleVoiceMute c payload)" "keeps hub_ok (handleVoiceDeafen c payload)"
  "keeps hub_ok (handleVoiceCamera c payload)" "keeps hub_ok (handleVoiceScreenshare c payload)"
  unfolding handleVoiceMute_def handleVoiceDeafen_def handleVoiceCamera_def handleVoiceScreenshare_def voice_update_def
    broadcastVoiceStateUpdate_def video_limit_ok_def query_defs
  by (intro hub_rules hub_intro)+

lemma hub_webhook [hub_intro]: "keeps hub_ok (handleWebhookParticipantLeft i r)"
  unfolding handleWebhookParticipantLeft_def by (intro hub_rules hub_intro)

section \<open>Connections\<close>

lemma hub_session_check [hub_intro]: "keeps hub_ok (session_check c)"
  unfolding session_check_def ban_active_def IsSessionExpired_def query_defs
  by (intro hub_rules hub_intro)

lemma hub_count_message [hub_intro]: "keeps hub_ok (count_message c)"
  unfolding count_message_def by (intro hub_rules hub_intro hub_set_client) simp_all

lemma hub_dispatch [hub_intro]: "keeps hub_ok (Dispatch sanitize ty c reqID payload)"
proof -
  have "\<forall>h \<in> set (handlers sanitize c reqID payload). keeps hub_ok (snd h)"
    by (simp add: handlers_def hub_intro)
  then have "keeps hub_ok h" if "map_of (handlers sanitize c reqID payload) ty = Some h" for h
    using that by (force dest: map_of_SomeD)
  then show ?thesis
    unfolding Dispatch_def by (intro hub_rules)
qed

lemma hub_handleMessage [hub_intro]: "keeps hub_ok (handleMessage sanitize c raw)"
  unfolding handleMessage_def handle_envelope_def
  by (intro hub_rules hub_intro hub_set_client) simp_all

lemma hub_pumps [hub_intro]:
  "keeps hub_ok (pump_read sanitize c m)" "keeps hub_ok (pump_write c)"
proof -
  show "keeps hub_ok (pump_read sanitize c m)"
    unfolding pump_read_def by (intro hub_rules hub_intro)
  have "hub_ok (set_client c (\<lambda>k. k\<lparr>k_send := ms\<rparr>) s)" if "hub_ok s" "k_send (h_heap s c) = m # ms" for s m ms
    using that by (auto simp: hub_ok_defs set_client_def dest: spec [of _ c])
  then show "keeps hub_ok (pump_write c)"
    by (auto simp: keeps_def pump_write_def client_def split: list.split)
qed

subsection \<open>A client outside the map\<close>

text \<open>An open client that is allocated but not registered, as between \<^verbatim>\<open>newClient\<close> and \<^verbatim>\<open>registerNow\<close>.\<close>

definition unlisted :: "addr \<Rightarrow> hub \<Rightarrow> bool" where
  "unlisted c s \<longleftrightarrow> hub_ok s \<and> c \<notin> snd ` set (h_clients s)"

definition pending :: "addr \<Rightarrow> hub \<Rightarrow> bool" where
  "pending c s \<longleftrightarrow> unlisted c s \<and> c < h_next s \<and> \<not> k_sendClosed (h_heap s c)"

lemma keeps_unlisted_db:
  assumes "keeps hub_ok m" and "\<And>x. keeps (more_is x) m"
  shows "keeps (unlisted c) m" and "keeps (pending c) m"
proof -
  have "database.more (snd (run_state m s)) = database.more s" for s
    using keepsD [OF assms(2), of "database.more s" s] by (simp add: more_is_def)
  note same = hub_fields_more [OF this]
  show "keeps (unlisted c) m"
    using assms(1) by (auto simp: keeps_def unlisted_def same)
  then show "keeps (pending c) m"
    by (auto simp: keeps_def pending_def same)
qed

named_theorems unlisted_intro \<open>calls that leave the client map alone\<close>

lemma unlisted_db_calls [unlisted_intro]:
  "keeps (unlisted c) (UpdateUserStatus u t)" "keeps (unlisted c) (LeaveVoiceChannel u)" "keeps (unlisted c) (query f)"
  "keeps (pending c) (LogAudit u a ty i d)" "keeps (pending c) (query f)"
  by (intro keeps_unlisted_db hub_intro frame_intro)+

lemma unlisted_modify:
  assumes "keeps hub_ok (modify f)" and "\<And>s. h_clients (f s) = h_clients s"
  shows "keeps (unlisted c) (modify f)"
  using assms by (auto simp: keeps_def unlisted_def)

lemma unlisted_set_client:
  "keeps hub_ok (modify (set_client a f) :: (hub, unit) state) \<Longrightarrow> keeps (unlisted c) (modify (set_client a f))"
  by (rule unlisted_modify) (simp_all add: set_client_def)

lemma unlisted_calls [unlisted_intro]:
  "keeps (unlisted c) (clearVoiceChID a)" "keeps (unlisted c) (sendError a code m)" "keeps (unlisted c) (BroadcastToAll m)"
  "keeps (unlisted c) (lkRemove ch u)" "keeps (unlisted c) (client_id a)" "keeps (unlisted c) (client a)"
  "keeps (unlisted c) (leaveVoiceChannelWithRetry u ch)"
proof -
  show "keeps (unlisted c) (clearVoiceChID a)"
    unfolding clearVoiceChID_def by (intro hub_rules unlisted_set_client hub_set_client) simp_all
  show "keeps (unlisted c) (sendError a code m)"
    unfolding sendError_def sendMsg_def by (intro unlisted_set_client hub_set_client) (simp_all add: push_msg_length)
  show "keeps (unlisted c) (BroadcastToAll m)"
    unfolding BroadcastToAll_def by (intro unlisted_modify keeps_modify hub_enqueue) (simp_all add: enqueue_def)
  show "keeps (unlisted c) (lkRemove ch u)"
    unfolding lkRemove_def RemoveParticipant_def
    by (intro hub_rules unlisted_modify keeps_modify) (simp_all add: hub_ok_defs)
  show "keeps (unlisted c) (leaveVoiceChannelWithRetry u ch)"
    unfolding leaveVoiceChannelWithRetry_def
    by (intro hub_rules unlisted_intro unlisted_modify hub_retry_queue) simp
qed (simp_all add: client_id_def client_def keeps_gets)

lemma unlisted_voice_leave [unlisted_intro]: "keeps (unlisted c) (handleVoiceLeave a)"
  unfolding handleVoiceLeave_def by (intro hub_rules unlisted_intro)

lemma close_unlisted: "moves (unlisted c) hub_ok (closeSend c)"
  by (simp add: moves_def closeSend_def unlisted_def hub_close)

lemma unregister_unlisted: "moves hub_ok (unlisted c) (unregisterNow c)"
  by (simp add: moves_def unregisterNow_def unlisted_def hub_drop dropped)

lemma hub_pump_exit [hub_intro]: "keeps hub_ok (pump_exit c)"
  unfolding moves_keeps [symmetric] pump_exit_def
proof (rule moves_bind [OF unregister_unlisted])
  fix x :: unit
  show "moves (unlisted c) hub_ok (do {
     k \<leftarrow> client c;
     (if k_user k = None then return ()
      else do {
        replaced \<leftarrow> IsUserConnected (k_userID k);
        (if replaced then return ()
         else do {
           handleVoiceLeave c;
           _ \<leftarrow> UpdateUserStatus (k_userID k) ''offline'';
           BroadcastToAll (buildPresenceMsg (k_userID k) ''offline'')
         })
      });
     closeSend c })"
    unfolding IsUserConnected_def
    by (rule moves_keep_first, intro unlisted_intro, rule moves_bind [of _ "unlisted c"])
      (unfold moves_keeps, (intro hub_rules unlisted_intro), rule close_unlisted)
qed

subsection \<open>The handshake\<close>

lemma pending_modify:
  assumes "\<And>s. pending c s \<Longrightarrow> pending c (f s)"
  shows "keeps (pending c) (modify f)"
  using assms by (rule keeps_modify)

lemma pending_settings:
  "keeps (pending c) (modify (\<lambda>s. s\<lparr>h_settingsName := x\<rparr>))" "keeps (pending c) (modify (\<lambda>s. s\<lparr>h_settingsMotd := x\<rparr>))"
  "keeps (pending c) (modify (\<lambda>s. s\<lparr>h_settingsLastUpdate := t\<rparr>))" "keeps (pending c) time_now"
  by (simp_all add: keeps_def time_now_def pending_def unlisted_def hub_ok_defs schema_defs has_defs)

lemma pending_cached_settings [unlisted_intro]: "keeps (pending c) getCachedSettings"
  unfolding getCachedSettings_def refreshSettingsLocked_def
  by (intro hub_rules unlisted_intro pending_settings)

lemma new_connection_pending:
  assumes "hub_ok s"
  shows "wp (new_connection user h remote) pending s"
proof -
  let ?c = "h_next s"
  let ?k = "\<lparr>k_userID = u_ID user, k_user = Some user, k_channelID = 0, k_voiceChID = 0, k_roleName = [], k_tokenHash = h,
        k_connectedAt = clock s (reads s), k_remoteAddr = [], k_msgCount = 0, k_msgsReceived = 0, k_msgsSent = 0,
        k_msgsDropped = 0, k_invalidCount = 0, k_lastActivity = clock s (reads s), k_sendClosed = False, k_send = []\<rparr>"
  let ?s = "s\<lparr>reads := Suc (reads s), h_next := Suc ?c, h_heap := (h_heap s)(?c := ?k)\<rparr>"
  have "pending ?c ?s"
    using assms by (force simp: pending_def unlisted_def hub_ok_defs schema_defs has_defs)
  moreover have "keeps (pending ?c) (do {
     roleName \<leftarrow> client_role user;
     modify (set_client ?c (\<lambda>k. k\<lparr>k_remoteAddr := remote, k_roleName := roleName\<rparr>));
     _ \<leftarrow> LogAudit (u_ID user) ''ws_connect'' ''user'' (u_ID user) (''WebSocket connected from '' @ remote);
     return ?c })"
    unfolding client_role_def query_defs
    by (intro hub_rules unlisted_intro keeps_modify)
      (force simp: pending_def unlisted_def hub_ok_defs set_client_def)
  ultimately have "wp (do {
     roleName \<leftarrow> client_role user;
     modify (set_client ?c (\<lambda>k. k\<lparr>k_remoteAddr := remote, k_roleName := roleName\<rparr>));
     _ \<leftarrow> LogAudit (u_ID user) ''ws_connect'' ''user'' (u_ID user) (''WebSocket connected from '' @ remote);
     return ?c }) (\<lambda>_. pending ?c) ?s"
    by (rule keeps_wp [rotated])
  then show ?thesis
    by (simp add: new_connection_def newClient_def wp_simps)
qed

lemma register_pending: "moves (pending c) hub_ok (registerNow c)"
proof (rule moves_wp)
  fix s assume p: "pending c s"
  then have "registered s (k_userID (h_heap s c)) \<noteq> Some c"
    by (force simp: pending_def unlisted_def registered_def dest: map_of_SomeD)
  with p register_wp [of s c] show "wp (registerNow c) (\<lambda>_. hub_ok) s"
    by (auto simp: pending_def unlisted_def elim: wp_mono)
qed

lemma pending_hub: "pending c s \<Longrightarrow> hub_ok s"
  by (simp add: pending_def unlisted_def)

lemma serve_register_moves: "moves (pending c) hub_ok (serve_register c user out)"
  unfolding serve_register_def
  by (rule moves_keep_last [OF register_pending]) (intro hub_rules hub_intro)

lemma build_pending: "keeps (pending c) (buildAuthOK user r)" "keeps (pending c) (buildReady u)"
  unfolding buildAuthOK_def buildReady_def query_defs
  by (intro hub_rules unlisted_intro)+

lemma pending_client [unlisted_intro]: "keeps (pending c) (client a)"
  by (simp add: client_def keeps_gets)

lemma serve_replay_moves: "moves (pending c) hub_ok (serve_replay wok c user events)"
  unfolding serve_replay_def Let_def
  by (intro moves_keep_first [OF pending_client] moves_keep_first [OF build_pending(1)] moves_cases
      moves_weaken [OF keeps_return pending_hub] moves_keep_last [OF register_pending] hub_rules hub_intro)

lemma serve_fresh_moves: "moves (pending c) hub_ok (serve_fresh wok c user)"
  unfolding serve_fresh_def
  by (intro moves_keep_first [OF pending_client] moves_keep_first [OF build_pending(1)]
      moves_keep_first [OF build_pending(2)] moves_cases
      moves_weaken [OF keeps_return pending_hub] serve_register_moves)

lemma hub_authenticate [hub_intro]: "keeps hub_ok (authenticateConn sha256 raw)"
  unfolding authenticateConn_def authenticate_token_def IsSessionExpired_def IsEffectivelyBanned_def ban_active_def query_defs
  by (intro hub_rules hub_intro)

lemma hub_serve_authenticated [hub_intro]: "keeps hub_ok (serve_authenticated wok remote user h n)"
proof (rule keepsI)
  fix s :: hub
  assume "hub_ok s"
  then have "wp (serve_authenticated wok remote user h n) (\<lambda>_. hub_ok) s"
    unfolding serve_authenticated_def
    by (intro wp_moves [OF new_connection_pending] moves_keep_first [OF keeps_gets] moves_keep_last [where Q = hub_ok]
        moves_cases serve_replay_moves serve_fresh_moves hub_rules)
  then show "hub_ok (snd (run_state (serve_authenticated wok remote user h n) s))"
    by (simp add: wp_run)
qed

lemma hub_ServeWS [hub_intro]: "keeps hub_ok (ServeWS sha256 wok remote raw)"
  unfolding ServeWS_def by (intro hub_rules hub_intro)

lemma hub_livekit [hub_intro]: "keeps hub_ok (SetLiveKit lk)" "keeps hub_ok (SetLiveKitProcess b)"
  unfolding SetLiveKit_def SetLiveKitProcess_def
  by (rule keeps_modify, simp add: hub_ok_defs schema_defs has_defs)+

section \<open>Every interleaving\<close>

text \<open>
  The steps of the running server: a goroutine per connection (handshake, messages,
  disconnect, writes), the hub's loop (broadcasts, stale sweep), the background
  retries, LiveKit webhooks, the limiter's clean-up, and the calls other packages make
  on the database and the hub. The shutdown (\<^verbatim>\<open>GracefulStop\<close>, in \<open>Lifecycle\<close>) and the notice of a closed
  conversation, which a request sends to its own user, are no steps here.
\<close>

datatype event =
    Connect "nat \<Rightarrow> bool" string "bytes option"
  | Receive addr bytes
  | Disconnect addr
  | WriteOut addr
  | DeliverNext
  | Sweep
  | Retry
  | WebhookLeft "string option" "string option"
  | CleanupChannel int64
  | LimiterCleanup duration time time
  | Announce bytes
  | ConfigureLiveKit LiveKitClient
  | LiveKitProcess bool
  | DbCall db_call

text \<open>The packages the server links: HTML sanitizer, SHA-256 and SQLite's strftime.\<close>

record packages =
  pk_sanitize :: "string \<Rightarrow> string"
  pk_sha256 :: "string \<Rightarrow> string"
  pk_strftime :: "string \<Rightarrow> string option"

primrec hub_step :: "packages \<Rightarrow> event \<Rightarrow> hub \<Rightarrow> hub" where
  "hub_step pk (Connect wok remote raw) = run_call (ServeWS (pk_sha256 pk) wok remote raw)"
| "hub_step pk (Receive c raw) = run_call (pump_read (pk_sanitize pk) c raw)"
| "hub_step pk (Disconnect c) = run_call (pump_exit c)"
| "hub_step pk (WriteOut c) = run_call (pump_write c)"
| "hub_step pk DeliverNext = run_call run_broadcast"
| "hub_step pk Sweep = run_call sweepStaleClients"
| "hub_step pk Retry = run_call run_retry"
| "hub_step pk (WebhookLeft i r) = run_call (handleWebhookParticipantLeft i r)"
| "hub_step pk (CleanupChannel ch) = run_call (CleanupVoiceForChannel ch)"
| "hub_step pk (LimiterCleanup w t0 t1) = (\<lambda>s. s\<lparr>h_limiter := Cleanup (h_limiter s) w t0 t1\<rparr>)"
| "hub_step pk (Announce m) = run_call (BroadcastToAll m)"
| "hub_step pk (ConfigureLiveKit lk) = run_call (SetLiveKit lk)"
| "hub_step pk (LiveKitProcess b) = run_call (SetLiveKitProcess b)"
| "hub_step pk (DbCall dc) = db_step (pk_strftime pk) dc"

lemma hub_run_call: "keeps hub_ok m \<Longrightarrow> hub_ok s \<Longrightarrow> hub_ok (run_call m s)"
  by (simp add: run_call_def keepsD)

lemma hub_step_ok: "hub_ok s \<Longrightarrow> hub_ok (hub_step pk e s)"
proof (cases e)
  case (DbCall dc)
  assume "hub_ok s"
  then show ?thesis
    using hub_ok_more [of "db_step (pk_strftime pk) dc s" s] schema_db_step [of s]
    by (simp add: DbCall frame_db_step hub_ok_def)
next
  case (LimiterCleanup w t0 t1)
  assume "hub_ok s"
  then show ?thesis by (simp add: LimiterCleanup hub_ok_defs)
qed (simp_all add: hub_run_call hub_intro)

text \<open>A started hub on a migrated database.\<close>

definition started :: "hub \<Rightarrow> bool" where
  "started s \<longleftrightarrow> (\<exists>db rl. fresh_db db \<and> s = NewHub db rl)"

lemma hub_refresh: "keeps hub_ok refreshSettingsLocked"
proof -
  have "keeps hub_ok (modify (\<lambda>s. s\<lparr>h_settingsName := x\<rparr>))" "keeps hub_ok (modify (\<lambda>s. s\<lparr>h_settingsMotd := x\<rparr>))"
    "keeps hub_ok (modify (\<lambda>s. s\<lparr>h_settingsLastUpdate := t\<rparr>))" for x t
    by (simp_all add: keeps_def hub_ok_defs)
  then show ?thesis
    unfolding refreshSettingsLocked_def by (intro hub_rules hub_intro)
qed

lemma started_ok: "started s \<Longrightarrow> hub_ok s"
proof -
  assume "started s"
  then obtain db rl where db: "fresh_db db" and s: "s = NewHub db rl"
    by (auto simp: started_def)
  let ?h = "database.extend db (hub.fields [] (\<lambda>_. zero_client) 0 rl [] 0 (NewEventRingBuffer 1000)
        ''OwnCord Server'' ''Welcome!'' 0 None None [] [])"
  have "schema_ok db"
    using db by (auto simp: fresh_db_def schema_fresh)
  then have "schema_ok ?h"
    by (cases db) (simp add: schema_defs has_defs database.extend_def hub.fields_def)
  moreover have "ring_ok (NewEventRingBuffer 1000)" "rsize (NewEventRingBuffer 1000) = 1000"
    by (simp_all add: ring_ok_New, simp add: NewEventRingBuffer_def)
  ultimately have "hub_ok ?h"
    by (cases db) (simp add: hub_ok_defs database.extend_def hub.fields_def zero_client_def)
  then show ?thesis
    unfolding s NewHub_def by (rule keepsD [OF hub_refresh])
qed

interpretation hub_sys: inv_system started "hub_step pk" hub_ok for pk
  by unfold_locales (auto intro: started_ok hub_step_ok)

text \<open>
  C7: the hub's invariant, in every interleaving. Whatever the order of handshakes,
  messages, disconnects, writes, broadcasts, sweeps, retries, webhooks and database
  calls of other packages, with driver failures at any statement, any clock and any
  input bytes: a user has at most one registered client, every registered client is
  filed under its own user id and is open, no send buffer holds more than 256
  messages, the broadcast queue at most 256, and the constraints of the schema hold.
\<close>
theorem interleavings_safe:
  assumes "fresh_db db" and "s = fold (hub_step pk) events (NewHub db rl)"
  shows "distinct (map fst (h_clients s))
    \<and> (\<forall>(u, c) \<in> set (h_clients s). k_userID (h_heap s c) = u \<and> \<not> k_sendClosed (h_heap s c))
    \<and> (\<forall>c. length (k_send (h_heap s c)) \<le> 256)
    \<and> length (h_broadcast s) \<le> 256
    \<and> schema_ok s"
proof -
  have "hub_ok s"
    unfolding assms(2) using assms(1) by (intro hub_sys.inv_run) (auto simp: started_def)
  then show ?thesis
    by (auto simp: hub_ok_defs sendBufSize_def broadcastCap_def)
qed

text \<open>A server on the migrated database, two broadcasts queued, one delivered; the second read of the settings fails.\<close>

theorem interleavings_safe_witness:
  "length (h_broadcast (fold (hub_step \<lparr>pk_sanitize = (\<lambda>x. x), pk_sha256 = (\<lambda>x. x), pk_strftime = Some\<rparr>)
     [Announce ''a'', Announce ''b'', DeliverNext] (NewHub (initial_db\<lparr>faults := \<lambda>n. n = 1, clock := int\<rparr>) NewRateLimiter))) \<le> 256"
proof -
  have "fresh_db (initial_db\<lparr>faults := \<lambda>n. n = 1, clock := int\<rparr>)"
    by (auto simp: fresh_db_def)
  then show ?thesis
    using interleavings_safe [of _ _ _ _ NewRateLimiter] by blast
qed

end
