(* ===== verification/Sample.thy ===== *)
theory Sample
  imports HubSafety
begin

text \<open>
  A small running server, on which the theorems about the hub and its handlers are
  instantiated: three users, a text channel, a voice channel for one speaker, a direct
  message channel, and three open connections.
\<close>

definition sample_user :: "int64 \<Rightarrow> string \<Rightarrow> int64 \<Rightarrow> User" where
  "sample_user i name role = \<lparr>u_ID = i, u_Username = name, u_PasswordHash = ''x'', u_Avatar = None, u_RoleID = role,
     u_TOTPSecret = None, u_Status = ''online'', u_CreatedAt = ''2024-01-01 00:00:00'', u_LastSeen = None,
     u_Banned = False, u_BanReason = None, u_BanExpires = None\<rparr>"

definition sample_channel :: "int64 \<Rightarrow> string \<Rightarrow> string \<Rightarrow> int \<Rightarrow> Channel" where
  "sample_channel i name ty n = \<lparr>c_ID = i, c_Name = name, c_Type = ty, c_Category = [], c_Topic = [], c_Position = i,
     c_SlowMode = 0, c_Archived = False, c_CreatedAt = ''2024-01-01 00:00:00'', c_VoiceMaxUsers = n, c_VoiceQuality = None,
     c_MixingThreshold = None, c_VoiceMaxVideo = n\<rparr>"

definition sample_message :: "int64 \<Rightarrow> int64 \<Rightarrow> int64 \<Rightarrow> Message" where
  "sample_message i ch u = \<lparr>m_ID = i, m_ChannelID = ch, m_UserID = u, m_Content = ''hi'', m_ReplyTo = None, m_EditedAt = None,
     m_Deleted = False, m_Pinned = False, m_Timestamp = ''2024-01-01 00:00:00''\<rparr>"

definition sample_session :: "int64 \<Rightarrow> int64 \<Rightarrow> string \<Rightarrow> Session" where
  "sample_session i u h = \<lparr>s_ID = i, s_UserID = u, s_TokenHash = h, s_Device = [], s_IP = [],
     s_CreatedAt = ''2024-01-01 00:00:00'', s_LastUsed = ''2024-01-01 00:00:00'', s_ExpiresAt = ''2124-01-01T00:00:00Z''\<rparr>"

definition sample_db :: database where
  "sample_db = initial_db\<lparr>
     users := [sample_user 1 ''alice'' 1, sample_user 2 ''bob'' 4, sample_user 3 ''carol'' 4],
     sessions := [sample_session 1 1 ''h1'', sample_session 2 2 ''h2''],
     channels := [sample_channel 1 ''general'' ''text'' 0, sample_channel 2 ''lounge'' ''voice'' 1, sample_channel 3 [] ''dm'' 0],
     messages := [sample_message 1 1 2, sample_message 2 3 1],
     dm_participants := [(3, 1), (3, 2)],
     users_seq := 3, sessions_seq := 2, channels_seq := 3, messages_seq := 2\<rparr>"

definition sample_client :: "User \<Rightarrow> int64 \<Rightarrow> Client" where
  "sample_client u ch = zero_client\<lparr>k_userID := u_ID u, k_user := Some u, k_channelID := ch\<rparr>"

definition sample_heap :: "addr \<Rightarrow> Client" where
  "sample_heap = (\<lambda>_. zero_client)(0 := sample_client (sample_user 1 ''alice'' 1) 1,
     1 := sample_client (sample_user 2 ''bob'' 4) 1, 2 := sample_client (sample_user 3 ''carol'' 4) 2)"

definition sample_livekit :: LiveKitClient where
  "sample_livekit = \<lparr>lk_url = ''ws://lk'', lk_toJWT = (\<lambda>t. Some (at_room t))\<rparr>"

definition sample_hub :: hub where
  "sample_hub = database.extend sample_db (hub.fields [(1, 0), (2, 1), (3, 2)] sample_heap 3 NewRateLimiter
     [\<lparr>b_channelID = 1, b_msg = ''{a}''\<rparr>] 0 (NewEventRingBuffer 1000) ''OwnCord Server'' ''Welcome!'' 0
     (Some sample_livekit) None [] [])"

lemmas sample_rows = sample_user_def sample_channel_def sample_message_def sample_session_def

lemmas sample_defs = sample_hub_def sample_db_def sample_rows initial_db_def database.extend_def hub.fields_def
  sample_heap_def sample_client_def zero_client_def sample_livekit_def

lemma sample_schema: "schema_ok sample_hub"
proof -
  have "keys_ok sample_hub" "user_refs sample_hub" "channel_refs sample_hub"
    by (simp_all add: sample_defs schema_defs has_defs pk_ok_def)
  moreover have "uniq_ok sample_hub" "message_refs sample_hub"
    by (simp_all add: sample_defs schema_defs has_defs nocase_def ascii_lower_def)
  ultimately show ?thesis
    by (simp add: schema_ok_def)
qed

lemma sample_ok: "hub_ok sample_hub"
proof -
  have "clients_ok sample_hub"
    by (simp add: sample_defs clients_ok_def client_ok_def)
  moreover have "queues_ok sample_hub"
    by (simp add: sample_defs queues_ok_def sendBufSize_def broadcastCap_def)
  moreover have "replay_ok sample_hub"
    by (simp add: sample_hub_def database.extend_def hub.fields_def replay_ok_def ring_ok_New)
      (simp add: NewEventRingBuffer_def)
  ultimately show ?thesis
    by (simp add: hub_ok_def sample_schema)
qed

section \<open>Running on the sample\<close>

lemma run_time_now: "run_state time_now s = (clock s (reads s), s\<lparr>reads := Suc (reads s)\<rparr>)"
  by (simp add: time_now_def)

lemma run_exec:
  "run_state (exec f) s = (if faults s (calls s) then (Inl ErrDriver, tick s)
     else (case f (clock s (reads s) div Second) (tick s) of Inl e \<Rightarrow> (Inl e, tick s) | Inr (x, s') \<Rightarrow> (Inr x, s')))"
  by (simp add: exec_def)

lemma run_query:
  "run_state (query f) s = (if faults s (calls s) then (Inl ErrDriver, tick s) else (Inr (f (tick s)), tick s))"
  by (simp add: query_def exec_def)

lemma run_execute:
  "run_state (execute f) s = (if faults s (calls s) then (Inl ErrDriver, tick s)
     else (Inr (), f (clock s (reads s) div Second) (tick s)))"
  by (simp add: execute_def exec_def)

lemma run_bind_ok:
  "run_state (bind_ok m f) s =
     (case run_state m s of (r, s') \<Rightarrow> (case r of Inl e \<Rightarrow> (Inl e, s') | Inr x \<Rightarrow> run_state (f x) s'))"
  by (simp add: bind_ok_def split: prod.splits sum.splits)

lemmas run_simps = run_time_now run_exec run_query run_execute run_bind_ok

lemma sample_fields:
  "faults sample_hub = (\<lambda>_. False)" "clock sample_hub = (\<lambda>_. 0)" "h_limiter sample_hub = NewRateLimiter"
  "h_heap sample_hub = sample_heap" "h_clients sample_hub = [(1, 0), (2, 1), (3, 2)]" "h_retries sample_hub = []"
  "h_livekit sample_hub = Some sample_livekit" "h_lkRunning sample_hub = None"
  "roles sample_hub = roles initial_db" "channel_overrides sample_hub = []" "voice_states sample_hub = []" "reactions sample_hub = []"
  "users sample_hub = [sample_user 1 ''alice'' 1, sample_user 2 ''bob'' 4, sample_user 3 ''carol'' 4]"
  "sessions sample_hub = [sample_session 1 1 ''h1'', sample_session 2 2 ''h2'']"
  "messages sample_hub = [sample_message 1 1 2, sample_message 2 3 1]" "messages_seq sample_hub = 2"
  "dm_participants sample_hub = [(3, 1), (3, 2)]"
  "channels sample_hub = [sample_channel 1 ''general'' ''text'' 0, sample_channel 2 ''lounge'' ''voice'' 1, sample_channel 3 [] ''dm'' 0]"
  by (simp_all add: sample_hub_def sample_db_def database.extend_def hub.fields_def initial_db_def)

lemma sample_clients:
  "sample_heap 0 = sample_client (sample_user 1 ''alice'' 1) 1" "sample_heap (Suc 0) = sample_client (sample_user 2 ''bob'' 4) 1"
  "sample_heap 2 = sample_client (sample_user 3 ''carol'' 4) 2"
  "k_userID (sample_client u ch) = u_ID u" "k_user (sample_client u ch) = Some u" "k_voiceChID (sample_client u ch) = 0"
  by (simp_all add: sample_heap_def sample_client_def zero_client_def)

lemma allow_new:
  "0 < limit \<Longrightarrow> Allow NewRateLimiter key limit w t0 t1 = (True, NewRateLimiter\<lparr>windows := Mapping.update key [t1] Mapping.empty\<rparr>)"
  by (simp add: Allow_def allow_window_def NewRateLimiter_def stamps_def)

lemmas sample_json = number_field_def payload_field_def field_def key_matches_def runes_ascii fold_rune_def ParseInt_def
  parse_digits_def is_digit_def undec_def digit_val_def

lemma sample_payload:
  "number_field ''message_id'' (Some (JObj [(''message_id'', JNum ''1''), (''content'', JStr ''yo'')])) = Some (Some 1)"
  "payload_field dec_string [] ''content'' (Some (JObj [(''message_id'', JNum ''1''), (''content'', JStr ''yo'')])) = Some ''yo''"
  by (simp_all add: sample_json)

lemma sample_payloads:
  "number_field ''message_id'' (Some (JObj [(''message_id'', JNum ''1'')])) = Some (Some 1)"
  "number_field ''message_id'' (Some (JObj [(''message_id'', JNum ''1''), (''emoji'', JStr ''ok'')])) = Some (Some 1)"
  "number_field ''message_id'' (Some (JObj [(''message_id'', JNum ''2'')])) = Some (Some 2)"
  "payload_field dec_string [] ''emoji'' (Some (JObj [(''message_id'', JNum ''1''), (''emoji'', JStr ''ok'')])) = Some ''ok''"
  "parse_chat_send (Some (JObj [(''channel_id'', JNum ''1''), (''content'', JStr ''yo'')])) =
     Some \<lparr>p_channel = Some 1, p_content = ''yo'', p_replyTo = None, p_attachments = []\<rparr>"
  by (simp_all add: sample_json parse_chat_send_def)

lemmas sample_eval = run_simps sample_fields allow_new sample_payload sample_payloads client_id_def limiter_allow_def Let_def runes_ascii
  sample_message_def sample_channel_def sample_user_def sample_clients client_def initial_db_def 
  is_dm_channel_def GetChannel_def GetMessage_def find_message_def may_touch_def hasChannelPerm_def requireChannelPerm_def GetRoleByID_def
  HasAdmin_def HasChannelPerm_def GetChannelPermissions_def overrides_of_def EffectivePerms_def perm_bits
  deliver_event_def BroadcastToChannel_def BroadcastToAll_def enqueue_def

end
