(* ===== verification/Delivery.thy ===== *)
theory Delivery
  imports Sample
begin

text \<open>
  What the hub's operations do: a broadcast reaches exactly the clients it is for, a
  replaced connection hands over its voice channel and leaves nothing behind when it
  closes, and the loop recovers from panics.
\<close>

section \<open>Fan-out\<close>

lemma clients_distinct:
  assumes "hub_ok s"
  shows "distinct (map snd (h_clients s))"
proof -
  have d: "distinct (h_clients s)" "inj_on fst (set (h_clients s))"
    using assms by (simp_all add: hub_ok_def clients_ok_def distinct_map)
  have "inj_on snd (set (h_clients s))"
  proof (rule inj_onI)
    fix p q
    assume p: "p \<in> set (h_clients s)" and q: "q \<in> set (h_clients s)" and eq: "snd p = snd q"
    then have "fst p = fst q"
      using assms by (metis (no_types, lifting) client_ok_def clients_ok_def hub_ok_def)
    with eq show "p = q" by (simp add: prod_eq_iff)
  qed
  with d show ?thesis by (simp add: distinct_map)
qed

text \<open>The heap after the loop over the clients.\<close>

definition fan_out :: "bytes \<Rightarrow> (Client \<Rightarrow> bool) \<Rightarrow> addr set \<Rightarrow> (addr \<Rightarrow> Client) \<Rightarrow> addr \<Rightarrow> Client" where
  "fan_out m to cs heap c = (if c \<in> cs \<and> to (heap c) then snd (push_msg m (heap c)) else heap c)"

lemma fan_out_loop:
  fixes s :: hub
  shows "distinct cs \<Longrightarrow>
   run_state (for_each cs (\<lambda>c. do { k \<leftarrow> client c; (if receives ch k then sendMsg c m else return ()) })) s
     = ((), s\<lparr>h_heap := fan_out m (receives ch) (set cs) (h_heap s)\<rparr>)"
proof (induction cs arbitrary: s)
  case Nil
  have "fan_out m (receives ch) {} (h_heap s) = h_heap s"
    by (rule ext) (simp add: fan_out_def)
  then show ?case by simp
next
  case (Cons c cs)
  have "fan_out m (receives ch) (set cs) ((h_heap s)(c := snd (push_msg m (h_heap s c))))
      = fan_out m (receives ch) (set (c # cs)) (h_heap s)" if "receives ch (h_heap s c)"
    using that Cons.prems by (auto simp: fan_out_def fun_eq_iff)
  moreover have "fan_out m (receives ch) (set cs) (h_heap s) = fan_out m (receives ch) (set (c # cs)) (h_heap s)"
    if "\<not> receives ch (h_heap s c)"
    using that by (auto simp: fan_out_def fun_eq_iff)
  ultimately show ?case
    using Cons by (simp add: client_def sendMsg_def set_client_def)
qed

lemma deliver_run:
  fixes s :: hub
  assumes ok: "hub_ok s"
  obtains b where "Push (h_replayBuf s) (h_seq s + 1) (wrapWithSeq (b_msg bm) (h_seq s + 1)) = Some b"
    and "run_state (deliverBroadcast bm) s = (Some (), s\<lparr>h_seq := h_seq s + 1, h_replayBuf := b,
      h_heap := fan_out (wrapWithSeq (b_msg bm) (h_seq s + 1)) (receives (b_channelID bm)) (snd ` set (h_clients s)) (h_heap s)\<rparr>)"
proof -
  have "ring_ok (h_replayBuf s)"
    using ok by (simp add: hub_ok_def replay_ok_def)
  then obtain b where push: "Push (h_replayBuf s) (h_seq s + 1) (wrapWithSeq (b_msg bm) (h_seq s + 1)) = Some b"
    using Push_Some by blast
  moreover have "run_state (deliverBroadcast bm) s = (Some (), s\<lparr>h_seq := h_seq s + 1, h_replayBuf := b,
      h_heap := fan_out (wrapWithSeq (b_msg bm) (h_seq s + 1)) (receives (b_channelID bm)) (snd ` set (h_clients s)) (h_heap s)\<rparr>)"
    using push fan_out_loop [OF clients_distinct [OF ok]]
    by (simp add: deliverBroadcast_def nextSeq_def Let_def)
  ultimately show thesis by (rule that)
qed

text \<open>
  C11: a broadcast reaches exactly the clients it is for. In a state of the hub's
  invariant, taking the next message off the broadcast queue never panics; it gets
  the next sequence number and is the newest event of the replay buffer (which keeps
  its last 1000); every registered client that is in the message's channel, or any
  registered client for a global message, gets the stamped message once at the end
  of its send queue, or drops it if the queue is full; no other client, no
  registration and no table changes.
\<close>
theorem broadcast_exact:
  fixes s :: hub
  assumes "hub_ok s" and "h_broadcast s = bm # rest"
    and "msg = wrapWithSeq (b_msg bm) (h_seq s + 1)"
  shows "\<exists>s'. run_state run_broadcast s = (Some (), s')
    \<and> h_broadcast s' = rest \<and> h_seq s' = h_seq s + 1
    \<and> contents (h_replayBuf s') = lastn 1000 (contents (h_replayBuf s) @ [\<lparr>eseq = h_seq s + 1, edata = msg\<rparr>])
    \<and> (\<forall>c. h_heap s' c =
         (if c \<in> snd ` set (h_clients s) \<and>
             (b_channelID bm = 0 \<or> k_channelID (h_heap s c) = b_channelID bm \<or> k_voiceChID (h_heap s c) = b_channelID bm)
          then if length (k_send (h_heap s c)) < 256
            then (h_heap s c)\<lparr>k_send := k_send (h_heap s c) @ [msg], k_msgsSent := k_msgsSent (h_heap s c) + 1\<rparr>
            else (h_heap s c)\<lparr>k_msgsDropped := k_msgsDropped (h_heap s c) + 1\<rparr>
          else h_heap s c))
    \<and> h_clients s' = h_clients s \<and> database.truncate s' = database.truncate s"
proof -
  let ?s = "s\<lparr>h_broadcast := rest\<rparr>"
  have ok: "hub_ok ?s"
    using assms(1,2) by (auto simp: hub_ok_defs)
  then obtain b where push: "Push (h_replayBuf s) (h_seq s + 1) msg = Some b"
    and run: "run_state (deliverBroadcast bm) ?s = (Some (), ?s\<lparr>h_seq := h_seq s + 1, h_replayBuf := b,
      h_heap := fan_out msg (receives (b_channelID bm)) (snd ` set (h_clients s)) (h_heap s)\<rparr>)"
    using deliver_run [of ?s bm] assms(3) by auto
  have "contents b = lastn 1000 (contents (h_replayBuf s) @ [\<lparr>eseq = h_seq s + 1, edata = msg\<rparr>])"
    using assms(1) Push_contents [of "h_replayBuf s" "h_seq s + 1" msg b] push
    by (simp add: hub_ok_def replay_ok_def)
  moreover have "\<not> k_sendClosed (h_heap s c)" if "c \<in> snd ` set (h_clients s)" for c
    using assms(1) that by (auto simp: hub_ok_defs)
  then have "fan_out msg (receives (b_channelID bm)) (snd ` set (h_clients s)) (h_heap s) c =
      (if c \<in> snd ` set (h_clients s) \<and>
             (b_channelID bm = 0 \<or> k_channelID (h_heap s c) = b_channelID bm \<or> k_voiceChID (h_heap s c) = b_channelID bm)
          then if length (k_send (h_heap s c)) < 256
            then (h_heap s c)\<lparr>k_send := k_send (h_heap s c) @ [msg], k_msgsSent := k_msgsSent (h_heap s c) + 1\<rparr>
            else (h_heap s c)\<lparr>k_msgsDropped := k_msgsDropped (h_heap s c) + 1\<rparr>
          else h_heap s c)" for c
    by (auto simp: fan_out_def receives_def push_msg_def sendBufSize_def)
  moreover let ?t = "?s\<lparr>h_seq := h_seq s + 1, h_replayBuf := b,
      h_heap := fan_out msg (receives (b_channelID bm)) (snd ` set (h_clients s)) (h_heap s)\<rparr>"
  have "run_state run_broadcast s = (Some (), ?t)"
    using run assms(2) by (simp add: run_broadcast_def)
  ultimately show ?thesis
    by (intro exI [of _ ?t]) (simp add: database.truncate_def)
qed

text \<open>Alice and Bob look at the channel of the message, Carol does not.\<close>

theorem broadcast_exact_witness:
  "\<exists>s'. run_state run_broadcast sample_hub = (Some (), s')
    \<and> k_send (h_heap s' 0) = [wrapWithSeq ''{a}'' 1] \<and> k_send (h_heap s' 1) = [wrapWithSeq ''{a}'' 1]
    \<and> k_send (h_heap s' 2) = []"
proof -
  have q: "h_broadcast sample_hub = [\<lparr>b_channelID = 1, b_msg = ''{a}''\<rparr>]" and "h_seq sample_hub = 0"
    and "h_clients sample_hub = [(1, 0), (2, 1), (3, 2)]" and "h_heap sample_hub = sample_heap"
    by (simp_all add: sample_hub_def database.extend_def hub.fields_def)
  with broadcast_exact [OF sample_ok q refl] show ?thesis
    by (auto simp: sample_heap_def sample_client_def sample_user_def zero_client_def)
qed

section \<open>Replaced connections\<close>

lemma register_run:
  assumes "registered s u = Some old" and "k_userID (h_heap s c) = u" and "old \<noteq> c" and "k_voiceChID (h_heap s c) = 0"
    and "\<not> k_sendClosed (h_heap s old)"
  shows "run_state (registerNow c) s = ((), s\<lparr>
      h_heap := (h_heap s)(old := (h_heap s old)\<lparr>k_voiceChID := 0, k_sendClosed := True\<rparr>,
        c := (h_heap s c)\<lparr>k_voiceChID := k_voiceChID (h_heap s old)\<rparr>),
      h_clients := AList.update u c (h_clients s)\<rparr>)"
  using assms by (simp add: registerNow_def clearVoiceChID_def getVoiceChID_def setVoiceChID_def closeSend_def set_client_def
      fun_upd_twist)

lemma drop_replaced: "registered s (k_userID (h_heap s c)) = Some c' \<Longrightarrow> c' \<noteq> c \<Longrightarrow> drop_client c s = s"
  by (simp add: drop_client_def)

lemma exit_replaced:
  assumes "registered s (k_userID (h_heap s c)) = Some c'" and "c' \<noteq> c"
  shows "run_state (pump_exit c) s =
    ((), set_client c (\<lambda>k. if \<not> k_sendClosed k then k\<lparr>k_sendClosed := True\<rparr> else k) s)"
  using assms drop_replaced [OF assms]
  by (simp add: pump_exit_def unregisterNow_def client_def IsUserConnected_def closeSend_def)

text \<open>
  C12: a reconnect keeps the user in voice. When a second connection of a user is
  registered, it takes over the voice channel of the first, whose send channel is
  closed; and when the first connection's read loop then ends, its clean-up changes
  nothing: the new connection stays registered and in the voice channel, the user is
  not marked offline, no row of any table changes and nothing is broadcast.
\<close>
theorem reconnect_keeps_voice:
  assumes "hub_ok s" and "registered s u = Some old"
    and "k_userID (h_heap s new) = u" and "new \<noteq> old" and "k_voiceChID (h_heap s new) = 0"
  shows "\<exists>s'. run_state (do { registerNow new; pump_exit old }) s = ((), s')
    \<and> registered s' u = Some new
    \<and> h_heap s' = (h_heap s)(old := (h_heap s old)\<lparr>k_voiceChID := 0, k_sendClosed := True\<rparr>,
        new := (h_heap s new)\<lparr>k_voiceChID := k_voiceChID (h_heap s old)\<rparr>)
    \<and> database.truncate s' = database.truncate s \<and> h_broadcast s' = h_broadcast s"
proof -
  have old: "k_userID (h_heap s old) = u" "\<not> k_sendClosed (h_heap s old)"
    using registered_mem [OF assms(1,2)] by (simp_all add: client_ok_def)
  define t where "t = s\<lparr>h_heap := (h_heap s)(old := (h_heap s old)\<lparr>k_voiceChID := 0, k_sendClosed := True\<rparr>,
        new := (h_heap s new)\<lparr>k_voiceChID := k_voiceChID (h_heap s old)\<rparr>),
      h_clients := AList.update u new (h_clients s)\<rparr>"
  have reg: "registered t u = Some new" and id: "k_userID (h_heap t old) = u"
    using assms(4) old by (simp_all add: t_def registered_def update_conv')
  have "set_client old (\<lambda>k. if \<not> k_sendClosed k then k\<lparr>k_sendClosed := True\<rparr> else k) t = t"
    using assms(4) by (simp add: t_def set_client_def fun_upd_twist)
  then have "run_state (pump_exit old) t = ((), t)"
    using reg id assms(4) exit_replaced [of t old new] by simp
  moreover have "run_state (registerNow new) s = ((), t)"
    unfolding t_def using assms(2-5) old by (intro register_run) auto
  ultimately have "run_state (do { registerNow new; pump_exit old }) s = ((), t)"
    by simp
  with reg show ?thesis
    by (intro exI [of _ t]) (simp add: t_def database.truncate_def)
qed

text \<open>Bob, in voice channel 2, connects again as client 3.\<close>

definition voice_hub :: hub where
  "voice_hub = sample_hub\<lparr>h_next := 4, h_heap := (h_heap sample_hub)(1 := (sample_heap 1)\<lparr>k_voiceChID := 2\<rparr>,
     3 := sample_client (sample_user 2 ''bob'' 4) 0)\<rparr>"

lemma voice_hub_ok: "hub_ok voice_hub"
  using sample_ok by (simp add: voice_hub_def hub_ok_defs)
    (auto simp: sample_hub_def database.extend_def hub.fields_def sample_heap_def sample_client_def zero_client_def sample_user_def)

theorem reconnect_keeps_voice_witness:
  "\<exists>s'. run_state (do { registerNow 3; pump_exit 1 }) voice_hub = ((), s')
    \<and> registered s' 2 = Some 3 \<and> k_voiceChID (h_heap s' 3) = 2"
proof -
  have a: "registered voice_hub 2 = Some 1" "k_userID (h_heap voice_hub 3) = 2" "k_voiceChID (h_heap voice_hub 3) = 0"
    "k_voiceChID (h_heap voice_hub 1) = 2"
    by (simp_all add: voice_hub_def registered_def sample_hub_def database.extend_def hub.fields_def sample_client_def
      sample_user_def zero_client_def)
  show ?thesis
    using reconnect_keeps_voice [OF voice_hub_ok a(1) a(2) _ a(3)] a(4) by auto
qed

section \<open>The last connection\<close>

text \<open>What leaving voice achieves, from state \<open>s\<close> to state \<open>s'\<close>.\<close>

definition left_voice :: "int64 \<Rightarrow> addr \<Rightarrow> hub \<Rightarrow> hub \<Rightarrow> bool" where
  "left_voice u c s s' \<longleftrightarrow> k_voiceChID (h_heap s' c) = 0 \<and>
     (k_voiceChID (h_heap s c) \<noteq> 0 \<longrightarrow>
       (u \<notin> vr_user ` set (voice_states s') \<or> (u, 2) \<in> set (h_retries s')) \<and>
       (h_livekit s \<noteq> None \<longrightarrow> (k_voiceChID (h_heap s c), u) \<in> set (h_lkRemoved s')))"

lemma voice_leave_wp:
  "k_userID (h_heap s c) = u \<Longrightarrow>
   wp (handleVoiceLeave c) (\<lambda>_ s'. left_voice u c s s' \<and> h_clients s' = h_clients s) s"
  by (simp add: handleVoiceLeave_def clearVoiceChID_def client_id_def leaveVoiceChannelWithRetry_def LeaveVoiceChannel_def
    sendError_def BroadcastToAll_def lkRemove_def RemoveParticipant_def wp_simps left_voice_def)
    (auto simp: image_iff)

lemma left_voice_update:
  "left_voice u c s t \<Longrightarrow> voice_states t' = voice_states t \<Longrightarrow> h_retries t' = h_retries t \<Longrightarrow>
   h_lkRemoved t' = h_lkRemoved t \<Longrightarrow> k_voiceChID (h_heap t' c) = k_voiceChID (h_heap t c) \<Longrightarrow> left_voice u c s t'"
  by (simp add: left_voice_def)

lemma exit_tail_wp:
  assumes "left_voice u c s t" and "registered t u = None"
  shows "wp (do { _ \<leftarrow> UpdateUserStatus u x; BroadcastToAll m; closeSend c })
    (\<lambda>_ s'. left_voice u c s s' \<and> registered s' u = None \<and> k_sendClosed (h_heap s' c)) t"
  using assms
  by (auto simp: UpdateUserStatus_def set_user_def BroadcastToAll_def closeSend_def wp_simps registered_def
    elim: left_voice_update)

text \<open>
  C13: a disconnect leaves no ghost. When the read loop of a user's registered
  connection ends, the user is no longer registered, the connection is closed and out
  of voice, and if it was in a voice channel then either the user's voice row is gone
  or (when the driver failed) a background retry that will delete it is pending; with
  LiveKit configured, the participant is removed from that channel's room.
\<close>
theorem exit_leaves_no_ghost:
  assumes "hub_ok s" and "registered s u = Some c" and "k_user (h_heap s c) \<noteq> None"
    and "s' = snd (run_state (pump_exit c) s)"
  shows "registered s' u = None \<and> k_sendClosed (h_heap s' c) \<and> k_voiceChID (h_heap s' c) = 0
    \<and> (k_voiceChID (h_heap s c) \<noteq> 0 \<longrightarrow>
        (u \<notin> vr_user ` set (voice_states s') \<or> (u, 2) \<in> set (h_retries s'))
        \<and> (h_livekit s \<noteq> None \<longrightarrow> (k_voiceChID (h_heap s c), u) \<in> set (h_lkRemoved s')))"
proof -
  have u: "k_userID (h_heap s c) = u"
    using registered_mem [OF assms(1,2)] by (simp add: client_ok_def)
  define t where "t = s\<lparr>h_clients := AList.delete u (h_clients s)\<rparr>"
  have t: "drop_client c s = t" "registered t u = None" "h_heap t = h_heap s" "h_livekit t = h_livekit s"
    using assms(2) u by (simp_all add: drop_client_def t_def registered_def delete_conv')
  have "wp (do { handleVoiceLeave c; _ \<leftarrow> UpdateUserStatus u ''offline'';
      BroadcastToAll (buildPresenceMsg u ''offline''); closeSend c })
    (\<lambda>_ s'. left_voice u c t s' \<and> registered s' u = None \<and> k_sendClosed (h_heap s' c)) t"
    unfolding wp_bind [of "handleVoiceLeave c"]
  proof (rule wp_mono [OF voice_leave_wp [of t c u]])
    show "k_userID (h_heap t c) = u"
      using t(3) u by simp
    show "wp (do { _ \<leftarrow> UpdateUserStatus u ''offline''; BroadcastToAll (buildPresenceMsg u ''offline''); closeSend c })
        (\<lambda>_ s'. left_voice u c t s' \<and> registered s' u = None \<and> k_sendClosed (h_heap s' c)) s'"
      if "left_voice u c t s' \<and> h_clients s' = h_clients t" for s'
      using that t(2) by (intro exit_tail_wp) (simp_all add: registered_def)
  qed
  then have "wp (pump_exit c) (\<lambda>_ s'. left_voice u c t s' \<and> registered s' u = None \<and> k_sendClosed (h_heap s' c)) s"
    using assms(3) t u
    by (auto simp: pump_exit_def unregisterNow_def client_def IsUserConnected_def wp_simps)
  then show ?thesis
    using t by (simp add: wp_run assms(4) left_voice_def)
qed

text \<open>Bob is in voice channel 2, and the driver fails when his row is deleted.\<close>

theorem exit_leaves_no_ghost_witness:
  "registered (snd (run_state (pump_exit 1) (voice_hub\<lparr>faults := (\<lambda>n. n = 0)\<rparr>))) 2 = None"
proof -
  have "hub_ok (voice_hub\<lparr>faults := (\<lambda>n. n = 0)\<rparr>)"
    using voice_hub_ok by (simp add: hub_ok_defs schema_defs has_defs)
  then show ?thesis
    using exit_leaves_no_ghost [of "voice_hub\<lparr>faults := (\<lambda>n. n = 0)\<rparr>" 2 1]
    by (simp add: voice_hub_def registered_def sample_hub_def database.extend_def hub.fields_def sample_heap_def sample_client_def)
qed

section \<open>Recovery\<close>

text \<open>A run of the recovery at the given times, and whether the loop has given up at some point.\<close>

fun recoveries :: "time list \<Rightarrow> int \<times> time option \<Rightarrow> bool" where
  "recoveries [] st = False"
| "recoveries (t # ts) st = (let st' = run_recover t st in run_gives_up st' \<or> recoveries ts st')"

text \<open>
  the hub gives up at the third panic of a window, not later. Whatever happened
  before, three panics at times at most sixty seconds apart from the first of a fresh
  window stop the loop; the comment of \<^verbatim>\<open>Run\<close> promises to stop only after more than three.
\<close>
theorem third_panic_stops:
  assumes "t2 - t1 \<le> 60 * Second" and "t3 - t1 \<le> 60 * Second" and "w = None \<or> (\<exists>t. w = Some t \<and> t1 - t > 60 * Second)"
  shows "recoveries [t1, t2, t3] (n, w) \<and> \<not> recoveries [t1, t2] (n, w)"
  using assms by (auto simp: run_recover_def run_gives_up_def)

theorem third_panic_stops_witness:
  "recoveries [0, Second, 60 * Second] (0, None) \<and> \<not> recoveries [0, Second] (0, None)"
  by (rule third_panic_stops) (simp_all add: Second_def)

text \<open>
  The window is not sliding: three panics within two seconds are survived when the
  first of them is the last moment of the old window.
\<close>

lemma panics_across_windows:
  "\<not> recoveries [0, 60 * Second, 61 * Second, 62 * Second] (0, None)"
  by (simp add: run_recover_def run_gives_up_def Second_def)

end
