(* ===== verification/Authorization.thy ===== *)
theory Authorization
  imports Sample
begin

text \<open>
  Who may do what: a message is posted, edited, deleted or reacted to only by a user
  with the right to do so. The proofs follow what a handler can see of the database,
  its view, up to the one statement that changes it.
\<close>

section \<open>Rights\<close>

text \<open>The permission check on the tables, for a connection's cached user.\<close>

definition has_right :: "hub \<Rightarrow> Client \<Rightarrow> int64 \<Rightarrow> perms \<Rightarrow> bool" where
  "has_right s k channelID perm =
     (case k_user k of
        None \<Rightarrow> False
      | Some u \<Rightarrow>
          (case List.find (\<lambda>r. r_ID r = u_RoleID u) (roles s) of
             None \<Rightarrow> False
           | Some r \<Rightarrow> HasAdmin (r_Permissions r) \<or>
               (case overrides_of s channelID (r_ID r) of
                  (allow, deny) \<Rightarrow> EffectivePerms (r_Permissions r) allow deny AND perm = perm)))"

definition is_dm :: "hub \<Rightarrow> int64 \<Rightarrow> bool" where
  "is_dm s channelID \<longleftrightarrow> (\<exists>ch. List.find (\<lambda>c. c_ID c = channelID) (channels s) = Some ch \<and> c_Type ch = ''dm'')"

text \<open>Participation in a direct message channel, the permission on any other channel.\<close>

definition allowed :: "hub \<Rightarrow> Client \<Rightarrow> int64 \<Rightarrow> perms \<Rightarrow> bool" where
  "allowed s k channelID perm \<longleftrightarrow>
     (if is_dm s channelID then is_participant s (k_userID k) channelID else has_right s k channelID perm)"

section \<open>The view of a handler\<close>

definition view :: "addr \<Rightarrow> hub \<Rightarrow>
    (Message list \<times> int64 \<times> Reaction list \<times> VoiceRow list \<times> (nat \<Rightarrow> bool)) \<times>
    (Channel list \<times> Role list \<times> OverrideRow list \<times> (int64 \<times> int64) list \<times> User list \<times> LiveKitClient option) \<times>
    (int64 \<times> User option \<times> int64)" where
  "view c s = ((messages s, messages_seq s, reactions s, voice_states s, faults s), (channels s, roles s, channel_overrides s, dm_participants s, users s, h_livekit s),
     (k_userID (h_heap s c), k_user (h_heap s c), k_voiceChID (h_heap s c)))"

definition sees :: "addr \<Rightarrow> hub \<Rightarrow> hub \<Rightarrow> bool" where
  "sees c s0 s \<longleftrightarrow> view c s = view c s0"

named_theorems view_intro \<open>steps that leave the view of a client alone\<close>

lemma sees_refl [simp]: "sees c s s"
  by (simp add: sees_def)

lemma sees_tick: "sees c s0 s \<Longrightarrow> sees c s0 (tick s)"
  by (simp add: sees_def view_def)

lemma sees_push: "sees c s0 s \<Longrightarrow> sees c s0 (set_client a (snd \<circ> push_msg m) s)"
  by (auto simp: sees_def view_def set_client_def)

lemma sees_right: "sees c s0 s \<Longrightarrow> has_right s (h_heap s c) ch perm = has_right s0 (h_heap s0 c) ch perm"
proof -
  assume "sees c s0 s"
  then have eqs: "k_user (h_heap s c) = k_user (h_heap s0 c)" "roles s = roles s0" "channel_overrides s = channel_overrides s0"
    by (simp_all add: sees_def view_def)
  show ?thesis
    unfolding has_right_def overrides_of_def eqs ..
qed

lemma view_query [view_intro]: "keeps (sees c s0) (query f)"
  by (rule keeps_query) (rule sees_tick)

lemma view_execute:
  "(\<And>now s. view c (f now s) = view c s) \<Longrightarrow> keeps (sees c s0) (execute f)"
  by (rule keeps_execute) (simp_all add: sees_tick, simp add: sees_def)

lemma view_open [view_intro]: "keeps (sees c s0) (OpenDM u ch)"
  unfolding OpenDM_def
  by (rule keeps_exec) (auto simp: sees_tick insert_open_def Let_def sees_def view_def split: if_splits)

lemma view_audit [view_intro]: "keeps (sees c s0) (LogAudit u a ty i d)"
  unfolding LogAudit_def by (rule view_execute) (simp add: view_def)

lemma view_time [view_intro]: "keeps (sees c s0) time_now"
  by (simp add: keeps_def time_now_def sees_def view_def)

lemma view_client [view_intro]: "keeps (sees c s0) (client a)" "keeps (sees c s0) (client_id a)"
  by (simp_all add: client_def client_id_def keeps_gets)

lemma view_sends [view_intro]:
  "keeps (sees c s0) (sendMsg a m)" "keeps (sees c s0) (sendError a code t)" "keeps (sees c s0) (trySendMsg a m)"
  by (simp_all add: keeps_def sendError_def sendMsg_def trySendMsg_def set_client_def sees_def view_def)

lemma view_deliveries [view_intro]:
  "keeps (sees c s0) (send_to m u)" "keeps (sees c s0) (BroadcastToChannel ch m)" "keeps (sees c s0) (BroadcastToAll m)"
  unfolding send_to_def SendToUser_def BroadcastToChannel_def BroadcastToAll_def
  by (intro hub_rules view_intro keeps_modify; simp add: sees_def view_def enqueue_def)+

lemma view_helpers [view_intro]:
  "keeps (sees c s0) (limiter_allow k l w)" "keeps (sees c s0) (broadcastToDMParticipants ch m)"
  "keeps (sees c s0) (deliver_event b ch m)" "keeps (sees c s0) (reopen_dm a ch u)" "keeps (sees c s0) (deliver_dm a ch m)"
  unfolding limiter_allow_def deliver_event_def reopen_dm_def deliver_dm_def broadcastToDMParticipants_def query_defs
  by (intro hub_rules view_intro keeps_modify; simp add: sees_def view_def)+

lemma view_perms [view_intro]:
  "keeps (sees c s0) (hasChannelPerm a ch perm)" "keeps (sees c s0) (requireChannelPerm a ch perm label)"
  "keeps (sees c s0) (dm_member a ch)" "keeps (sees c s0) (is_dm_channel ch)" "keeps (sees c s0) (slow_mode_passed a chan ch)"
  unfolding slow_mode_passed_def dm_member_def is_dm_channel_def requireChannelPerm_def hasChannelPerm_def HasChannelPerm_def query_defs
  by (intro hub_rules view_intro)+

section \<open>What the checks find\<close>

lemma view_result:
  assumes "keeps (sees c s0) m" and "sees c s0 s" and "\<And>s'. wp m (\<lambda>r s'. R r) s"
  shows "wp m (\<lambda>r s'. sees c s0 s' \<and> R r) s"
  using assms by (intro wp_conj keeps_wp)

lemma perm_result:
  assumes "sees c s0 s"
  shows "wp (hasChannelPerm c ch perm) (\<lambda>ok s'. sees c s0 s' \<and> (ok \<longrightarrow> has_right s0 (h_heap s0 c) ch perm)) s"
proof (rule view_result [OF view_perms(1) assms])
  have "wp (hasChannelPerm c ch perm) (\<lambda>ok _. ok \<longrightarrow> has_right s (h_heap s c) ch perm) s"
    by (simp add: hasChannelPerm_def client_def GetRoleByID_def GetChannelPermissions_def HasChannelPerm_def has_right_def
      wp_simps overrides_of_def split: option.splits prod.splits)
  then show "wp (hasChannelPerm c ch perm) (\<lambda>ok _. ok \<longrightarrow> has_right s0 (h_heap s0 c) ch perm) s"
    by (simp add: sees_right [OF assms])
qed

lemma require_result:
  assumes "sees c s0 s"
  shows "wp (requireChannelPerm c ch perm label) (\<lambda>ok s'. sees c s0 s' \<and> (ok \<longrightarrow> has_right s0 (h_heap s0 c) ch perm)) s"
  unfolding requireChannelPerm_def wp_simps
  by (rule wp_mono [OF perm_result [OF assms]]) (auto simp: sees_push)

lemma member_result:
  assumes "sees c s0 s"
  shows "wp (dm_member c ch) (\<lambda>ok s'. sees c s0 s' \<and> (ok \<longrightarrow> is_participant s0 (k_userID (h_heap s0 c)) ch)) s"
  by (rule view_result [OF view_perms(3) assms])
    (use assms in \<open>simp add: dm_member_def client_id_def IsDMParticipant_def wp_simps is_participant_def sees_def view_def\<close>)

text \<open>The type of a channel is misread only when the driver fails.\<close>

lemma dm_result:
  assumes "sees c s0 s"
  shows "wp (is_dm_channel ch) (\<lambda>b s'. sees c s0 s' \<and> (b \<noteq> is_dm s0 ch \<longrightarrow> \<not> b \<and> (\<exists>n. faults s0 n))) s"
  by (rule view_result [OF view_perms(4) assms])
    (use assms in \<open>auto simp: is_dm_channel_def GetChannel_def wp_simps is_dm_def sees_def view_def split: option.splits\<close>)

lemma touch_result:
  assumes "sees c s0 s" and "b \<noteq> is_dm s0 ch \<longrightarrow> \<not> b \<and> (\<exists>n. faults s0 n)"
  shows "wp (may_touch c b ch perm) (\<lambda>ok s'. sees c s0 s' \<and> (ok \<longrightarrow> allowed s0 (h_heap s0 c) ch perm
    \<or> (\<exists>n. faults s0 n) \<and> has_right s0 (h_heap s0 c) ch perm)) s"
proof (cases b)
  case True
  then show ?thesis
    using assms(2) by (simp add: may_touch_def) (rule wp_mono [OF member_result [OF assms(1)]], auto simp: allowed_def)
next
  case False
  then show ?thesis
    using assms(2) by (simp add: may_touch_def) (rule wp_mono [OF perm_result [OF assms(1)]], auto simp: allowed_def)
qed

section \<open>Sequencing\<close>

lemma wp_view:
  "keeps (sees c s0) m \<Longrightarrow> sees c s0 s \<Longrightarrow> (\<And>r s'. sees c s0 s' \<Longrightarrow> wp (f r) Q s') \<Longrightarrow> wp (State_Monad.bind m f) Q s"
  by (rule wp_seq [OF keeps_wp])

lemma wp_view_end: "keeps (sees c s0) m \<Longrightarrow> sees c s0 s \<Longrightarrow> (\<And>s'. sees c s0 s' \<Longrightarrow> Q s') \<Longrightarrow> wp m (\<lambda>_. Q) s"
  by (rule wp_mono [OF keeps_wp])

text \<open>After the commit, the rest of a handler leaves messages and reactions alone.\<close>

lemma wp_rest:
  assumes "\<And>s0. keeps (sees c s0) m" and "R (messages s) (reactions s)"
  shows "wp m (\<lambda>_ s'. R (messages s') (reactions s')) s"
  using keeps_wp [OF assms(1), of s s] assms(2) by (auto simp: sees_def view_def elim: wp_mono)

section \<open>Editing\<close>

lemma edit_commit_wp:
  assumes "sees c s0 s"
  shows "wp (chat_edit_commit c dm msgID content) (\<lambda>_ s'. messages s' = messages s0 \<or>
    (\<exists>m t. find_message s0 msgID = Some m \<and> m_UserID m = k_userID (h_heap s0 c) \<and>
      messages s' = upd_where (\<lambda>m. m_ID m = msgID) (\<lambda>m. m\<lparr>m_Content := content, m_EditedAt := Some t\<rparr>) (messages s0))) s"
    (is "wp _ (\<lambda>_ s'. ?Q s') s")
proof -
  have "wp (EditMessage msgID (k_userID (h_heap s c)) content) (\<lambda>_. ?Q) s"
    using assms by (auto simp: EditMessage_def GetMessage_def find_message_def wp_simps sees_def view_def split: option.splits)
  then show ?thesis
    unfolding chat_edit_commit_def client_id_def wp_bind wp_gets query_defs
    by (rule wp_mono) (rule wp_rest [of c], intro hub_rules view_intro)
qed

text \<open>Permission to touch a message of a channel, as found by the handler.\<close>

definition cleared :: "hub \<Rightarrow> Client \<Rightarrow> int64 \<Rightarrow> perms \<Rightarrow> bool" where
  "cleared s k ch perm \<longleftrightarrow> allowed s k ch perm \<or> (\<exists>n. faults s n) \<and> has_right s k ch perm"

lemma cleared_member: "is_dm s ch \<Longrightarrow> is_participant s (k_userID k) ch \<Longrightarrow> cleared s k ch perm"
  by (simp add: cleared_def allowed_def)

lemma cleared_right: "\<not> is_dm s ch \<or> (\<exists>n. faults s n) \<Longrightarrow> has_right s k ch perm \<Longrightarrow> cleared s k ch perm"
  by (auto simp: cleared_def allowed_def)

lemma message_found:
  assumes "sees c s0 s"
  shows "wp (GetMessage i) (\<lambda>r s'. sees c s0 s' \<and> (\<forall>m. r = Inr (Some m) \<longrightarrow> find_message s0 i = Some m)) s"
  unfolding GetMessage_def
  by (rule view_result [OF view_query assms])
    (use assms in \<open>auto simp: wp_simps find_message_def sees_def view_def\<close>)

text \<open>The common middle of editing and deleting: find the message, check the channel.\<close>

lemma touch_message_wp:
  assumes "sees c s0 s"
    and commit: "\<And>m dm s1. find_message s0 i = Some m \<Longrightarrow> cleared s0 (h_heap s0 c) (m_ChannelID m) perm \<Longrightarrow>
      (dm \<noteq> is_dm s0 (m_ChannelID m) \<longrightarrow> \<not> dm \<and> (\<exists>n. faults s0 n)) \<Longrightarrow> sees c s0 s1 \<Longrightarrow> wp (f dm m) (\<lambda>_. Q) s1"
    and "\<And>s'. sees c s0 s' \<Longrightarrow> Q s'"
  shows "wp (do {
     r \<leftarrow> GetMessage i;
     (case r of
        Inr (Some msg) \<Rightarrow> do {
          isDM \<leftarrow> is_dm_channel (m_ChannelID msg);
          ok \<leftarrow> may_touch c isDM (m_ChannelID msg) perm;
          (if \<not> ok then sendError c ErrCodeForbidden e1 else f isDM msg)
        }
      | _ \<Rightarrow> sendError c ErrCodeForbidden e2)
   }) (\<lambda>_. Q) s"
proof (rule wp_seq [OF message_found [OF assms(1), of i]])
  fix r s1
  assume r: "sees c s0 s1 \<and> (\<forall>m. r = Inr (Some m) \<longrightarrow> find_message s0 i = Some m)"
  show "wp (case r of Inr (Some msg) \<Rightarrow> do {
          isDM \<leftarrow> is_dm_channel (m_ChannelID msg);
          ok \<leftarrow> may_touch c isDM (m_ChannelID msg) perm;
          (if \<not> ok then sendError c ErrCodeForbidden e1 else f isDM msg)
        } | _ \<Rightarrow> sendError c ErrCodeForbidden e2) (\<lambda>_. Q) s1"
  proof (cases "\<exists>m. r = Inr (Some m)")
    case True
    then obtain m where m: "r = Inr (Some m)" by blast
    have "wp (do { ok \<leftarrow> may_touch c b (m_ChannelID m) perm;
          (if \<not> ok then sendError c ErrCodeForbidden e1 else f b m) }) (\<lambda>_. Q) s2"
      if "sees c s0 s2 \<and> (b \<noteq> is_dm s0 (m_ChannelID m) \<longrightarrow> \<not> b \<and> (\<exists>n. faults s0 n))" for b s2
      using that m r
      by (intro wp_seq [OF touch_result [of c s0 s2 b]])
        (auto simp: cleared_def intro!: commit wp_view_end [OF view_sends(2)] assms(3))
    with r m show ?thesis
      by simp (rule wp_seq [OF dm_result [of c s0 s1]], auto)
  next
    case False
    with r show ?thesis
      by (auto split: sum.split option.split intro!: wp_view_end [OF view_sends(2)] assms(3))
  qed
qed

lemma edit_message_wp:
  assumes "sees c s0 s"
  shows "wp (chat_edit_message c msgID content) (\<lambda>_ s'. messages s' = messages s0 \<or>
    (\<exists>m t. find_message s0 msgID = Some m \<and> m_UserID m = k_userID (h_heap s0 c) \<and>
      cleared s0 (h_heap s0 c) (m_ChannelID m) SendMessages \<and>
      messages s' = upd_where (\<lambda>m. m_ID m = msgID) (\<lambda>m. m\<lparr>m_Content := content, m_EditedAt := Some t\<rparr>) (messages s0))) s"
  unfolding chat_edit_message_def
proof (rule touch_message_wp [OF assms])
  fix m dm s1
  assume "find_message s0 msgID = Some m" and "cleared s0 (h_heap s0 c) (m_ChannelID m) SendMessages" and "sees c s0 s1"
  then show "wp (chat_edit_commit c dm msgID content) (\<lambda>_ s'. messages s' = messages s0 \<or>
    (\<exists>m t. find_message s0 msgID = Some m \<and> m_UserID m = k_userID (h_heap s0 c) \<and>
      cleared s0 (h_heap s0 c) (m_ChannelID m) SendMessages \<and>
      messages s' = upd_where (\<lambda>m. m_ID m = msgID) (\<lambda>m. m\<lparr>m_Content := content, m_EditedAt := Some t\<rparr>) (messages s0))) s1"
    by (auto intro: wp_mono [OF edit_commit_wp])
qed (simp add: sees_def view_def)

text \<open>
  C15: only the author edits a message. If handling a \<^verbatim>\<open>chat_edit\<close> changes the message
  table at all, the request names a message of the connection's own user, that user
  is a participant of its direct message channel or holds the permission to send in
  its channel (the permission alone decides when the driver failed), and the one
  change is the new text, sanitized, not empty and at most 4000 characters long,
  with its edit time.
\<close>
theorem edit_only_by_author:
  assumes "s' = snd (run_state (handleChatEdit sanitize c payload) s)" and "messages s' \<noteq> messages s"
  shows "\<exists>msgID m raw t. number_field ''message_id'' payload = Some (Some msgID)
    \<and> payload_field dec_string [] ''content'' payload = Some raw
    \<and> find_message s msgID = Some m \<and> m_UserID m = k_userID (h_heap s c)
    \<and> cleared s (h_heap s c) (m_ChannelID m) SendMessages
    \<and> sanitize raw \<noteq> [] \<and> length (runes (sanitize raw)) \<le> 4000
    \<and> messages s' = upd_where (\<lambda>m. m_ID m = msgID)
        (\<lambda>m. m\<lparr>m_Content := sanitize raw, m_EditedAt := Some t\<rparr>) (messages s)"
proof -
  define E where "E s' \<longleftrightarrow> (\<exists>msgID m raw t. number_field ''message_id'' payload = Some (Some msgID)
    \<and> payload_field dec_string [] ''content'' payload = Some raw
    \<and> find_message s msgID = Some m \<and> m_UserID m = k_userID (h_heap s c)
    \<and> cleared s (h_heap s c) (m_ChannelID m) SendMessages
    \<and> sanitize raw \<noteq> [] \<and> length (runes (sanitize raw)) \<le> 4000
    \<and> messages s' = upd_where (\<lambda>m. m_ID m = msgID)
        (\<lambda>m. m\<lparr>m_Content := sanitize raw, m_EditedAt := Some t\<rparr>) (messages s))" for s' :: hub
  have no: "wp m (\<lambda>_ s'. messages s' = messages s \<or> E s') s1" if "keeps (sees c s) m" "sees c s s1"
    for m :: "(hub, unit) state" and s1
    using that by (rule wp_view_end) (simp add: sees_def view_def)
  have edit: "wp (chat_edit_message c msgID (sanitize raw)) (\<lambda>_ s'. messages s' = messages s \<or> E s') s1"
    if "sees c s s1" "number_field ''message_id'' payload = Some (Some msgID)" "sanitize raw \<noteq> []"
      "payload_field dec_string [] ''content'' payload = Some raw" "length (runes (sanitize raw)) \<le> 4000" for s1 msgID raw
    by (rule wp_mono [OF edit_message_wp [OF that(1)]]) (use that in \<open>auto simp: E_def\<close>)
  have "wp (handleChatEdit sanitize c payload) (\<lambda>_ s'. messages s' = messages s \<or> E s') s"
    unfolding handleChatEdit_def Let_def
    by (rule wp_view [OF view_client(2) sees_refl], rule wp_view [OF view_helpers(1)], assumption)
      (auto simp: maxMessageLen_def split: option.split intro!: no [OF view_sends(1)] no [OF view_sends(2)] edit)
  then show ?thesis
    using assms by (simp add: wp_run E_def)
qed

text \<open>Bob edits his own message.\<close>

theorem edit_only_by_author_witness:
  "\<exists>t. messages (snd (run_state (handleChatEdit (\<lambda>x. x) 1 (Some (JObj [(''message_id'', JNum ''1''), (''content'', JStr ''yo'')]))) sample_hub)) =
     upd_where (\<lambda>m. m_ID m = 1) (\<lambda>m. m\<lparr>m_Content := ''yo'', m_EditedAt := Some t\<rparr>) (messages sample_hub)"
proof -
  have "messages (snd (run_state (handleChatEdit (\<lambda>x. x) 1 (Some (JObj [(''message_id'', JNum ''1''), (''content'', JStr ''yo'')]))) sample_hub)) \<noteq> messages sample_hub"
    by (simp add: sample_eval handleChatEdit_def chatRateLimit_def maxMessageLen_def chat_edit_message_def
      chat_edit_commit_def EditMessage_def)
  from edit_only_by_author [OF refl this] show ?thesis
    by (auto simp: sample_payload)
qed

section \<open>Deleting\<close>

lemma delete_commit_wp:
  assumes "sees c s0 s" and "find_message s0 msgID = Some m"
    and "dm \<noteq> is_dm s0 ch \<longrightarrow> \<not> dm \<and> (\<exists>n. faults s0 n)"
  shows "wp (chat_delete_commit c dm msgID ch) (\<lambda>_ s'. messages s' = messages s0 \<or>
    (m_UserID m = k_userID (h_heap s0 c) \<or>
       has_right s0 (h_heap s0 c) ch ManageMessages \<and> (is_dm s0 ch \<longrightarrow> (\<exists>n. faults s0 n))) \<and>
    messages s' = upd_where (\<lambda>m. m_ID m = msgID) (\<lambda>m. m\<lparr>m_Deleted := True\<rparr>) (messages s0)) s"
    (is "wp _ (\<lambda>_ s'. ?Q s') s")
proof -
  have mods: "wp (if dm then return False else hasChannelPerm c ch ManageMessages)
    (\<lambda>b s'. sees c s0 s' \<and> (b \<longrightarrow> has_right s0 (h_heap s0 c) ch ManageMessages \<and> (is_dm s0 ch \<longrightarrow> (\<exists>n. faults s0 n)))) s"
    using assms(1,3) by (cases dm) (auto simp: wp_simps intro!: wp_mono [OF perm_result])
  have del: "wp (DeleteMessage msgID (k_userID (h_heap s1 c)) b) (\<lambda>_. ?Q) s1"
    if "sees c s0 s1 \<and> (b \<longrightarrow> has_right s0 (h_heap s0 c) ch ManageMessages \<and> (is_dm s0 ch \<longrightarrow> (\<exists>n. faults s0 n)))" for b s1
    using that assms(2)
    by (auto simp: DeleteMessage_def GetMessage_def find_message_def wp_simps sees_def view_def split: option.splits)
  show ?thesis
    unfolding chat_delete_commit_def client_id_def
    by (rule wp_seq [OF mods], unfold wp_bind [of "gets _"] wp_gets, rule wp_seq [OF del], assumption)
      (rule wp_rest [of c], intro hub_rules view_intro)
qed

lemma delete_message_wp:
  assumes "sees c s0 s"
  shows "wp (chat_delete_message c msgID) (\<lambda>_ s'. messages s' = messages s0 \<or>
    (\<exists>m. find_message s0 msgID = Some m \<and> cleared s0 (h_heap s0 c) (m_ChannelID m) ReadMessages \<and>
      (m_UserID m = k_userID (h_heap s0 c) \<or>
       has_right s0 (h_heap s0 c) (m_ChannelID m) ManageMessages \<and> (is_dm s0 (m_ChannelID m) \<longrightarrow> (\<exists>n. faults s0 n))) \<and>
      messages s' = upd_where (\<lambda>m. m_ID m = msgID) (\<lambda>m. m\<lparr>m_Deleted := True\<rparr>) (messages s0))) s"
  unfolding chat_delete_message_def
proof (rule touch_message_wp [OF assms])
  fix m dm s1
  assume m: "find_message s0 msgID = Some m" and "cleared s0 (h_heap s0 c) (m_ChannelID m) ReadMessages"
    and dm: "dm \<noteq> is_dm s0 (m_ChannelID m) \<longrightarrow> \<not> dm \<and> (\<exists>n. faults s0 n)" and "sees c s0 s1"
  then show "wp (chat_delete_commit c dm msgID (m_ChannelID m)) (\<lambda>_ s'. messages s' = messages s0 \<or>
    (\<exists>m. find_message s0 msgID = Some m \<and> cleared s0 (h_heap s0 c) (m_ChannelID m) ReadMessages \<and>
      (m_UserID m = k_userID (h_heap s0 c) \<or>
       has_right s0 (h_heap s0 c) (m_ChannelID m) ManageMessages \<and> (is_dm s0 (m_ChannelID m) \<longrightarrow> (\<exists>n. faults s0 n))) \<and>
      messages s' = upd_where (\<lambda>m. m_ID m = msgID) (\<lambda>m. m\<lparr>m_Deleted := True\<rparr>) (messages s0))) s1"
    by - (rule wp_mono [OF delete_commit_wp [OF _ m dm]], assumption, simp)
qed (simp add: sees_def view_def)

text \<open>
  C16: a message is deleted only by its author or a moderator of its channel. If
  handling a \<^verbatim>\<open>chat_delete\<close> changes the message table at all, the request names an
  existing message; the user may read its channel, and is its author or holds the
  permission to manage messages there, which counts in a direct message channel only
  when the driver failed; the one change marks the message deleted.
\<close>
theorem delete_only_by_author_or_moderator:
  assumes "s' = snd (run_state (handleChatDelete c payload) s)" and "messages s' \<noteq> messages s"
  shows "\<exists>msgID m. number_field ''message_id'' payload = Some (Some msgID)
    \<and> find_message s msgID = Some m \<and> cleared s (h_heap s c) (m_ChannelID m) ReadMessages
    \<and> (m_UserID m = k_userID (h_heap s c) \<or>
       has_right s (h_heap s c) (m_ChannelID m) ManageMessages \<and> (is_dm s (m_ChannelID m) \<longrightarrow> (\<exists>n. faults s n)))
    \<and> messages s' = upd_where (\<lambda>m. m_ID m = msgID) (\<lambda>m. m\<lparr>m_Deleted := True\<rparr>) (messages s)"
proof -
  define E where "E s' \<longleftrightarrow> (\<exists>msgID m. number_field ''message_id'' payload = Some (Some msgID)
    \<and> find_message s msgID = Some m \<and> cleared s (h_heap s c) (m_ChannelID m) ReadMessages
    \<and> (m_UserID m = k_userID (h_heap s c) \<or>
       has_right s (h_heap s c) (m_ChannelID m) ManageMessages \<and> (is_dm s (m_ChannelID m) \<longrightarrow> (\<exists>n. faults s n)))
    \<and> messages s' = upd_where (\<lambda>m. m_ID m = msgID) (\<lambda>m. m\<lparr>m_Deleted := True\<rparr>) (messages s))" for s' :: hub
  have no: "wp m (\<lambda>_ s'. messages s' = messages s \<or> E s') s1" if "keeps (sees c s) m" "sees c s s1"
    for m :: "(hub, unit) state" and s1
    using that by (rule wp_view_end) (simp add: sees_def view_def)
  have del: "wp (chat_delete_message c msgID) (\<lambda>_ s'. messages s' = messages s \<or> E s') s1"
    if "sees c s s1" "number_field ''message_id'' payload = Some (Some msgID)" for s1 msgID
    by (rule wp_mono [OF delete_message_wp [OF that(1)]]) (use that in \<open>auto simp: E_def\<close>)
  have "wp (handleChatDelete c payload) (\<lambda>_ s'. messages s' = messages s \<or> E s') s"
    unfolding handleChatDelete_def
    by (rule wp_view [OF view_client(2) sees_refl], rule wp_view [OF view_helpers(1)], assumption)
      (auto split: option.split intro!: no [OF view_sends(1)] no [OF view_sends(2)] del)
  then show ?thesis
    using assms by (simp add: wp_run E_def)
qed

theorem delete_only_by_author_or_moderator_witness:
  "messages (snd (run_state (handleChatDelete 1 (Some (JObj [(''message_id'', JNum ''1'')]))) sample_hub)) =
     upd_where (\<lambda>m. m_ID m = 1) (\<lambda>m. m\<lparr>m_Deleted := True\<rparr>) (messages sample_hub)"
proof -
  have "messages (snd (run_state (handleChatDelete 1 (Some (JObj [(''message_id'', JNum ''1'')]))) sample_hub)) \<noteq> messages sample_hub"
    by (simp add: sample_eval handleChatDelete_def chatRateLimit_def chat_delete_message_def chat_delete_commit_def
      DeleteMessage_def LogAudit_def)
  from delete_only_by_author_or_moderator [OF refl this] show ?thesis
    by (auto simp: sample_payloads)
qed

text \<open>Carol, a moderator, is not a participant of the direct message channel of Alice and Bob.\<close>

definition moderator_hub :: hub where
  "moderator_hub = sample_hub\<lparr>h_heap := sample_heap(2 := sample_client (sample_user 3 ''carol'' 3) 0)\<rparr>"

text \<open>
  when the driver fails to read the channel, deleting falls open. A moderator who
  is no participant of a direct message channel cannot delete a message there, unless
  the one query for the channel's type fails: then the channel is treated as a public
  one, and the role's permissions decide.
\<close>
theorem delete_fails_open:
  "is_dm moderator_hub 3 \<and> \<not> is_participant moderator_hub 3 3
    \<and> messages (snd (run_state (handleChatDelete 2 (Some (JObj [(''message_id'', JNum ''2'')]))) moderator_hub)) =
        messages moderator_hub
    \<and> (\<exists>m \<in> set (messages (snd (run_state (handleChatDelete 2 (Some (JObj [(''message_id'', JNum ''2'')])))
        (moderator_hub\<lparr>faults := (\<lambda>n. n = 1)\<rparr>)))). m_ID m = 2 \<and> m_ChannelID m = 3 \<and> m_Deleted m)"
proof (intro conjI)
  have [simp]: "calls sample_hub = 0"
    by (simp add: sample_defs)
  show "is_dm moderator_hub 3"
    by (simp add: moderator_hub_def is_dm_def sample_eval)
  show "\<not> is_participant moderator_hub 3 3"
    by (simp add: moderator_hub_def is_participant_def sample_eval)
  show "messages (snd (run_state (handleChatDelete 2 (Some (JObj [(''message_id'', JNum ''2'')]))) moderator_hub)) =
        messages moderator_hub"
    by (simp add: moderator_hub_def sample_eval handleChatDelete_def chatRateLimit_def chat_delete_message_def dm_member_def
      IsDMParticipant_def is_participant_def sendError_def sendMsg_def set_client_def)
  show "\<exists>m \<in> set (messages (snd (run_state (handleChatDelete 2 (Some (JObj [(''message_id'', JNum ''2'')])))
        (moderator_hub\<lparr>faults := (\<lambda>n. n = 1)\<rparr>)))). m_ID m = 2 \<and> m_ChannelID m = 3 \<and> m_Deleted m"
    by (simp add: moderator_hub_def sample_eval handleChatDelete_def chatRateLimit_def chat_delete_message_def
      chat_delete_commit_def DeleteMessage_def LogAudit_def)
qed

section \<open>Reacting\<close>

definition reaction_after :: "bool \<Rightarrow> Reaction \<Rightarrow> Reaction list \<Rightarrow> Reaction list" where
  "reaction_after add r rs = (if add then rs @ [r] else filter (\<lambda>x. x \<noteq> r) rs)"

lemma reaction_commit_wp:
  assumes "sees c s0 s"
  shows "wp (reaction_commit c add dm i ch e) (\<lambda>_ s'. reactions s' = reactions s0 \<or>
    reactions s' = reaction_after add \<lparr>rx_message = i, rx_user = k_userID (h_heap s0 c), rx_emoji = e\<rparr> (reactions s0)) s"
    (is "wp _ (\<lambda>_ s'. ?Q s') s")
proof -
  have "wp (if add then AddReaction i (k_userID (h_heap s c)) e else RemoveReaction i (k_userID (h_heap s c)) e) (\<lambda>_. ?Q) s"
    using assms by (auto simp: AddReaction_def RemoveReaction_def insert_reaction_def Let_def wp_simps reaction_after_def
      sees_def view_def)
  then show ?thesis
    unfolding reaction_commit_def client_id_def wp_bind wp_gets
    by (rule wp_mono) (rule wp_rest [of c], intro hub_rules view_intro)
qed

lemma reaction_message_wp:
  assumes "sees c s0 s"
  shows "wp (reaction_message c add i e) (\<lambda>_ s'. reactions s' = reactions s0 \<or>
    (\<exists>m. find_message s0 i = Some m \<and> cleared s0 (h_heap s0 c) (m_ChannelID m) AddReactions \<and>
     reactions s' = reaction_after add \<lparr>rx_message = i, rx_user = k_userID (h_heap s0 c), rx_emoji = e\<rparr> (reactions s0))) s"
    (is "wp _ (\<lambda>_ s'. ?Q s') s")
  unfolding reaction_message_def
proof (rule wp_seq [OF message_found [OF assms, of i]])
  fix r s1
  assume r: "sees c s0 s1 \<and> (\<forall>m. r = Inr (Some m) \<longrightarrow> find_message s0 i = Some m)"
  have fail: "wp m (\<lambda>_. ?Q) s2" if "keeps (sees c s0) m" "sees c s0 s2" for m :: "(hub, unit) state" and s2
    using that by (rule wp_view_end) (simp add: sees_def view_def)
  have commit: "wp (reaction_commit c add dm i (m_ChannelID m) e) (\<lambda>_. ?Q) s2"
    if "r = Inr (Some m)" "sees c s0 s2" "cleared s0 (h_heap s0 c) (m_ChannelID m) AddReactions" for dm m s2
    using that r by - (rule wp_mono [OF reaction_commit_wp], auto)
  have check: "wp (if b then do { ok \<leftarrow> dm_member c (m_ChannelID m);
             (if ok then reaction_commit c add b i (m_ChannelID m) e else sendError c ErrCodeBadRequest ''reaction failed'') }
           else do { ok \<leftarrow> requireChannelPerm c (m_ChannelID m) AddReactions ''ADD_REACTIONS'';
             (if ok then reaction_commit c add b i (m_ChannelID m) e else return ()) }) (\<lambda>_. ?Q) s2"
    if "r = Inr (Some m)" "sees c s0 s2 \<and> (b \<noteq> is_dm s0 (m_ChannelID m) \<longrightarrow> \<not> b \<and> (\<exists>n. faults s0 n))" for b m s2
  proof (cases b)
    case True
    then show ?thesis
      using that by simp (rule wp_seq [OF member_result [of c s0 s2]],
        auto intro!: commit cleared_member fail [OF view_sends(2)])
  next
    case False
    then show ?thesis
      using that by simp (rule wp_seq [OF require_result [of c s0 s2]],
        auto intro!: commit cleared_right fail [OF keeps_return])
  qed
  show "wp (case r of Inr (Some msg) \<Rightarrow> do {
          isDM \<leftarrow> is_dm_channel (m_ChannelID msg);
          (if isDM then do { ok \<leftarrow> dm_member c (m_ChannelID msg);
             (if ok then reaction_commit c add isDM i (m_ChannelID msg) e else sendError c ErrCodeBadRequest ''reaction failed'') }
           else do { ok \<leftarrow> requireChannelPerm c (m_ChannelID msg) AddReactions ''ADD_REACTIONS'';
             (if ok then reaction_commit c add isDM i (m_ChannelID msg) e else return ()) })
        } | _ \<Rightarrow> sendError c ErrCodeBadRequest ''reaction failed'') (\<lambda>_. ?Q) s1"
  proof (cases "\<exists>m. r = Inr (Some m)")
    case True
    then obtain m where m: "r = Inr (Some m)" by blast
    show ?thesis
      unfolding m sum.case option.case by (rule wp_seq [OF dm_result [OF conjunct1 [OF r]]]) (rule check [OF m])
  next
    case False
    with r show ?thesis
      by (cases r) (simp_all add: fail [OF view_sends(2)] split: option.split)
  qed
qed

text \<open>
  a reaction changes only its own row, and only with the right to react. If
  handling a reaction changes the table at all, the request names an existing message
  in a channel where the user may react, and an emoji of 1 to 32 bytes without control
  characters; the one row added or removed is that of this message, emoji and user.
\<close>
theorem reaction_only_with_right:
  assumes "s' = snd (run_state (handleReaction c add payload) s)" and "reactions s' \<noteq> reactions s"
  shows "\<exists>msgID m e. number_field ''message_id'' payload = Some (Some msgID)
    \<and> payload_field dec_string [] ''emoji'' payload = Some e
    \<and> 0 < length e \<and> length e \<le> 32 \<and> (\<forall>r \<in> set (runes e). 0x20 \<le> r \<and> r \<noteq> 0x7F)
    \<and> find_message s msgID = Some m \<and> cleared s (h_heap s c) (m_ChannelID m) AddReactions
    \<and> reactions s' = reaction_after add \<lparr>rx_message = msgID, rx_user = k_userID (h_heap s c), rx_emoji = e\<rparr> (reactions s)"
proof -
  define E where "E s' \<longleftrightarrow> (\<exists>msgID m e. number_field ''message_id'' payload = Some (Some msgID)
    \<and> payload_field dec_string [] ''emoji'' payload = Some e
    \<and> 0 < length e \<and> length e \<le> 32 \<and> (\<forall>r \<in> set (runes e). 0x20 \<le> r \<and> r \<noteq> 0x7F)
    \<and> find_message s msgID = Some m \<and> cleared s (h_heap s c) (m_ChannelID m) AddReactions
    \<and> reactions s' = reaction_after add \<lparr>rx_message = msgID, rx_user = k_userID (h_heap s c), rx_emoji = e\<rparr> (reactions s))"
    for s' :: hub
  have no: "wp m (\<lambda>_ s'. reactions s' = reactions s \<or> E s') s1" if "keeps (sees c s) m" "sees c s s1"
    for m :: "(hub, unit) state" and s1
    using that by (rule wp_view_end) (simp add: sees_def view_def)
  have react: "wp (reaction_message c add msgID e) (\<lambda>_ s'. reactions s' = reactions s \<or> E s') s1"
    if "sees c s s1" "number_field ''message_id'' payload = Some (Some msgID)"
      "payload_field dec_string [] ''emoji'' payload = Some e" "emoji_error e = None" for s1 msgID e
    using that by - (rule wp_mono [OF reaction_message_wp],
      auto simp: E_def emoji_error_def list_ex_iff not_less split: if_splits)
  have "wp (handleReaction c add payload) (\<lambda>_ s'. reactions s' = reactions s \<or> E s') s"
    unfolding handleReaction_def
    by (rule wp_view [OF view_client(2) sees_refl], rule wp_view [OF view_helpers(1)], assumption)
      (auto split: option.split intro!: no [OF view_sends(1)] no [OF view_sends(2)] react)
  then show ?thesis
    using assms by (simp add: wp_run E_def)
qed

theorem reaction_only_with_right_witness:
  "reactions (snd (run_state (handleReaction 1 True (Some (JObj [(''message_id'', JNum ''1''), (''emoji'', JStr ''ok'')]))) sample_hub)) =
     [\<lparr>rx_message = 1, rx_user = 2, rx_emoji = ''ok''\<rparr>]"
proof -
  have "reactions (snd (run_state (handleReaction 1 True (Some (JObj [(''message_id'', JNum ''1''), (''emoji'', JStr ''ok'')]))) sample_hub)) \<noteq> reactions sample_hub"
    by (simp add: sample_eval handleReaction_def reactionRateLimit_def emoji_error_def reaction_message_def
      reaction_commit_def AddReaction_def insert_reaction_def has_defs)
  from reaction_only_with_right [OF refl this] show ?thesis
    by (auto simp: sample_payloads reaction_after_def sample_fields sample_clients sample_user_def)
qed

section \<open>Sending\<close>

lemma send_result:
  assumes "sees c s0 s" and "List.find (\<lambda>c. c_ID c = channelID) (channels s0) = Some ch"
  shows "wp (chat_send_authorized c ch channelID)
    (\<lambda>ok s'. sees c s0 s' \<and> (ok \<longrightarrow> allowed s0 (h_heap s0 c) channelID (ReadMessages OR SendMessages))) s"
proof (cases "c_Type ch = ''dm''")
  case True
  have "keeps (sees c s0) (chat_send_authorized c ch channelID)"
    unfolding chat_send_authorized_def query_defs by (intro hub_rules view_intro)
  then show ?thesis
    using True assms
    by (intro view_result) (auto simp: chat_send_authorized_def client_id_def IsDMParticipant_def sendError_def wp_simps
      allowed_def is_dm_def is_participant_def sees_def view_def)
next
  case False
  then have "\<not> is_dm s0 channelID"
    using assms(2) by (simp add: is_dm_def)
  with False show ?thesis
    by (simp add: chat_send_authorized_def allowed_def require_result [OF assms(1)])
qed

text \<open>Marking the new message deleted touches no other, since its id is new.\<close>

lemma delete_new:
  "\<forall>m \<in> set ms. m_ID m < i \<Longrightarrow> m_ID m' = i \<Longrightarrow>
   upd_where (\<lambda>m. m_ID m = i) f (ms @ [m']) = ms @ [f m']"
  by (auto simp: upd_where_def intro!: map_idI)

lemma link_wp:
  assumes "messages s = ms @ [m]" and "\<forall>m \<in> set ms. m_ID m < i" and "m_ID m = i"
  shows "wp (link_message c i atts) (\<lambda>_ s'. messages s' = ms @ [m] \<or>
    atts \<noteq> [] \<and> messages s' = ms @ [m\<lparr>m_Deleted := True\<rparr>]) s"
proof (cases "atts = []")
  case True
  with assms show ?thesis
    by (simp add: link_message_def wp_simps)
next
  case False
  have del: "wp (do { _ \<leftarrow> DeleteMessage i u True; sendError c code e; return None })
      (\<lambda>_ s'. messages s' = ms @ [m] \<or> atts \<noteq> [] \<and> messages s' = ms @ [m\<lparr>m_Deleted := True\<rparr>]) s1"
    if "messages s1 = ms @ [m]" for u s1 code e
    using that assms False
    by (simp add: DeleteMessage_def GetMessage_def sendError_def wp_simps delete_new set_client_def split: option.splits)
  show ?thesis
    using assms False del
    by (simp add: link_message_def LinkAttachmentsToMessage_def link_attachments_def Let_def client_id_def
      GetAttachmentsByMessageIDs_def wp_simps split: if_splits)
qed

text \<open>The message a request posts.\<close>

definition posts :: "hub \<Rightarrow> int64 \<Rightarrow> int64 \<Rightarrow> string \<Rightarrow> chat_payload \<Rightarrow> Message list \<Rightarrow> bool" where
  "posts s userID channelID content p ms \<longleftrightarrow> (\<exists>m. ms = messages s @ [m] \<and> m_ID m = messages_seq s + 1 \<and>
     m_ChannelID m = channelID \<and> m_UserID m = userID \<and> m_Content m = content \<and> m_ReplyTo m = p_replyTo p \<and>
     (m_Deleted m \<longrightarrow> p_attachments p \<noteq> []))"

lemma persist_wp:
  assumes "sees c s0 s" and ids: "\<forall>m \<in> set (messages s0). m_ID m \<le> messages_seq s0"
  shows "wp (chat_send_persist c reqID ch channelID content p) (\<lambda>_ s'. messages s' = messages s0 \<or>
    posts s0 (k_userID (h_heap s0 c)) channelID content p (messages s')) s"
    (is "wp _ (\<lambda>_ s'. ?Q (messages s')) s")
proof -
  let ?uid = "k_userID (h_heap s0 c)"
  have created: "wp (CreateMessage channelID ?uid content (p_replyTo p)) (\<lambda>r s'.
      case r of Inl _ \<Rightarrow> ?Q (messages s')
        | Inr i \<Rightarrow> i = messages_seq s0 + 1 \<and> (\<exists>m. messages s' = messages s0 @ [m] \<and> m_ID m = i \<and> m_ChannelID m = channelID \<and>
            m_UserID m = ?uid \<and> m_Content m = content \<and> m_ReplyTo m = p_replyTo p \<and> \<not> m_Deleted m)) s"
    using assms(1) by (simp add: CreateMessage_def insert_message_def Let_def wp_simps sees_def view_def)
  have link: "wp (link_message c i (p_attachments p)) (\<lambda>_ s'. ?Q (messages s')) s1"
    if "i = messages_seq s0 + 1" "messages s1 = messages s0 @ [m]" "m_ID m = i" "m_ChannelID m = channelID"
      "m_UserID m = ?uid" "m_Content m = content" "m_ReplyTo m = p_replyTo p" "\<not> m_Deleted m" for i m s1
    by (rule wp_mono [OF link_wp [OF that(2) _ that(3)]])
      (use that ids in \<open>auto simp: posts_def\<close>)
  have rest: "wp (case l of None \<Rightarrow> return () | Some atts \<Rightarrow>
        chat_send_deliver c reqID ch channelID i content (p_replyTo p) atts) (\<lambda>_ s'. ?Q (messages s')) s1"
    if "?Q (messages s1)" for l i s1
    unfolding chat_send_deliver_def query_defs Let_def
    by (rule wp_rest [of c, where R = "\<lambda>ms _. ?Q ms"]) (intro hub_rules view_intro that)+
  have uid: "k_userID (h_heap s c) = ?uid"
    using assms(1) by (simp add: sees_def view_def)
  have fail: "wp (sendError c code e) (\<lambda>_ s'. ?Q (messages s')) s1" if "?Q (messages s1)" for code e s1
    using that by (simp add: sendError_def wp_simps set_client_def)
  show ?thesis
    unfolding chat_send_persist_def client_id_def wp_bind [of "gets _"] wp_gets uid
    by (rule wp_seq [OF created], split sum.split, intro conjI allI impI, simp add: fail)
      (hypsubst, unfold sum.case, elim conjE exE, rule wp_seq [OF link], assumption+, rule rest)
qed

lemma attach_result:
  assumes "sees c s0 s" and "List.find (\<lambda>c. c_ID c = channelID) (channels s0) = Some ch"
  shows "wp (attach_allowed c ch channelID atts) (\<lambda>ok s'. sees c s0 s' \<and>
    (ok \<and> atts \<noteq> [] \<and> \<not> is_dm s0 channelID \<longrightarrow> has_right s0 (h_heap s0 c) channelID AttachFiles)) s"
  unfolding attach_allowed_def wp_if wp_return
  by (cases "c_Type ch \<noteq> ''dm'' \<and> atts \<noteq> []")
    (use assms in \<open>auto simp: is_dm_def intro!: wp_mono [OF require_result [OF assms(1)]]\<close>)

text \<open>When a request is accepted.\<close>

definition accepts :: "hub \<Rightarrow> Client \<Rightarrow> string \<Rightarrow> chat_payload \<Rightarrow> int64 \<Rightarrow> bool" where
  "accepts s k content p channelID \<longleftrightarrow> has_channel s channelID
    \<and> allowed s k channelID (ReadMessages OR SendMessages)
    \<and> (p_attachments p \<noteq> [] \<and> \<not> is_dm s channelID \<longrightarrow> has_right s k channelID AttachFiles)
    \<and> length (runes content) \<le> 4000"

lemma send_channel_wp:
  assumes s: "sees c s0 s" and ids: "\<forall>m \<in> set (messages s0). m_ID m \<le> messages_seq s0"
    and ch: "List.find (\<lambda>c. c_ID c = i) (channels s0) = Some ch"
  shows "wp (chat_send_channel sanitize c reqID ch i p) (\<lambda>_ s'. messages s' = messages s0 \<or>
    accepts s0 (h_heap s0 c) (sanitize (p_content p)) p i \<and>
    posts s0 (k_userID (h_heap s0 c)) i (sanitize (p_content p)) p (messages s')) s"
proof -
  define Q where "Q s' \<longleftrightarrow> messages s' = messages s0 \<or> accepts s0 (h_heap s0 c) (sanitize (p_content p)) p i \<and>
    posts s0 (k_userID (h_heap s0 c)) i (sanitize (p_content p)) p (messages s')" for s' :: hub
  let ?content = "sanitize (p_content p)"
  have no: "wp m (\<lambda>_. Q) s1" if "keeps (sees c s0) m" "sees c s0 s1" for m :: "(hub, unit) state" and s1
    using that by (rule wp_view_end) (simp add: Q_def sees_def view_def)
  have has: "has_channel s0 i"
    using find_Some_set [OF ch] by (auto simp: has_channel_def)
  have persist: "wp (chat_send_persist c reqID ch i ?content p) (\<lambda>_. Q) s2"
    if "sees c s0 s2" "accepts s0 (h_heap s0 c) ?content p i" for s2
    by (rule wp_mono [OF persist_wp [OF that(1) ids]]) (use that(2) in \<open>auto simp: Q_def\<close>)
  have attach: "wp (do { ok \<leftarrow> attach_allowed c ch i (p_attachments p);
      (if \<not> ok then return () else chat_send_persist c reqID ch i ?content p) }) (\<lambda>_. Q) s2"
    if s2: "sees c s0 s2" and "allowed s0 (h_heap s0 c) i (ReadMessages OR SendMessages)" "length (runes ?content) \<le> 4000" for s2
  proof (rule wp_seq [OF attach_result [OF s2 ch]])
    fix ok s3
    assume ok: "sees c s0 s3 \<and>
      (ok \<and> p_attachments p \<noteq> [] \<and> \<not> is_dm s0 i \<longrightarrow> has_right s0 (h_heap s0 c) i AttachFiles)"
    show "wp (if \<not> ok then return () else chat_send_persist c reqID ch i ?content p) (\<lambda>_. Q) s3"
    proof (cases ok)
      case True
      then have "accepts s0 (h_heap s0 c) ?content p i"
        using ok that has by (simp add: accepts_def)
      from persist [OF conjunct1 [OF ok] this] True show ?thesis by (simp only: not_True_eq_False if_False)
    qed (simp only: ok no keeps_return not_False_eq_True if_True)
  qed
  have "wp (chat_send_channel sanitize c reqID ch i p) (\<lambda>_. Q) s"
    unfolding chat_send_channel_def Let_def
    by (rule wp_seq [OF send_result [OF s ch]], split if_split, intro conjI impI, simp add: no keeps_return)
      (elim conjE, rule wp_view [OF view_perms(5)], assumption,
        auto simp: content_error_def maxMessageLen_def not_less intro!: no [OF view_sends(2)] no [OF keeps_return] attach)
  then show ?thesis
    by (rule wp_mono) (simp add: Q_def)
qed

text \<open>
  C14: a message is posted only with the right to send. If handling a \<^verbatim>\<open>chat_send\<close>
  changes the message table at all, the request names an existing channel, where the
  user is a participant (direct messages) or may read and send; with attachments, the
  user may also attach files; and the one change is a new row at the end, by this
  user, in that channel, with the sanitized text of at most 4000 characters. The row
  is marked deleted only if its attachments could not be linked.
\<close>
theorem send_only_with_right:
  assumes "hub_ok s" and "s' = snd (run_state (handleChatSend sanitize c reqID payload) s)" and "messages s' \<noteq> messages s"
  shows "\<exists>p channelID. parse_chat_send payload = Some p \<and> p_channel p = Some channelID \<and> has_channel s channelID
    \<and> allowed s (h_heap s c) channelID (ReadMessages OR SendMessages)
    \<and> (p_attachments p \<noteq> [] \<and> \<not> is_dm s channelID \<longrightarrow> has_right s (h_heap s c) channelID AttachFiles)
    \<and> length (runes (sanitize (p_content p))) \<le> 4000
    \<and> (\<exists>m. messages s' = messages s @ [m] \<and> m_ID m = messages_seq s + 1 \<and> m_ChannelID m = channelID
        \<and> m_UserID m = k_userID (h_heap s c) \<and> m_Content m = sanitize (p_content p) \<and> m_ReplyTo m = p_replyTo p
        \<and> (m_Deleted m \<longrightarrow> p_attachments p \<noteq> []))"
proof -
  define E where "E s' \<longleftrightarrow> (\<exists>p i. parse_chat_send payload = Some p \<and> p_channel p = Some i
    \<and> accepts s (h_heap s c) (sanitize (p_content p)) p i
    \<and> posts s (k_userID (h_heap s c)) i (sanitize (p_content p)) p (messages s'))" for s' :: hub
  let ?Q = "\<lambda>_ s'. messages s' = messages s \<or> E s'"
  have ids: "\<forall>m \<in> set (messages s). m_ID m \<le> messages_seq s"
    using assms(1) by (simp add: hub_ok_def schema_ok_def keys_ok_def pk_ok_def)
  have no: "wp m ?Q s1" if "keeps (sees c s) m" "sees c s s1" for m :: "(hub, unit) state" and s1
    using that by (rule wp_view_end) (simp add: sees_def view_def)
  have send: "wp (chat_send_channel sanitize c reqID ch i p) ?Q s1"
    if "sees c s s1" and "parse_chat_send payload = Some p" "p_channel p = Some i"
      and "List.find (\<lambda>c. c_ID c = i) (channels s) = Some ch" for s1 p i ch
    by (rule wp_mono [OF send_channel_wp [OF that(1) ids that(4)]]) (use that in \<open>auto simp: E_def\<close>)
  have found: "wp (GetChannel i) (\<lambda>r s'. sees c s s' \<and>
      (\<forall>ch. r = Inr (Some ch) \<longrightarrow> List.find (\<lambda>c. c_ID c = i) (channels s) = Some ch)) s1" if "sees c s s1" for i s1
    unfolding GetChannel_def by (rule view_result [OF view_query that]) (use that in \<open>simp add: wp_simps sees_def view_def\<close>)
  have "wp (handleChatSend sanitize c reqID payload) ?Q s"
    unfolding handleChatSend_def
    by (rule wp_view [OF view_client(2) sees_refl], rule wp_view [OF view_helpers(1)], assumption)
      (auto split: option.split sum.split intro!: no [OF view_sends(1)] no [OF view_sends(2)] wp_seq [OF found] send)
  then show ?thesis
    using assms(2,3) by (simp add: wp_run E_def accepts_def posts_def)
qed

theorem send_only_with_right_witness:
  "\<exists>m. messages (snd (run_state (handleChatSend (\<lambda>x. x) 1 [] (Some (JObj [(''channel_id'', JNum ''1''), (''content'', JStr ''yo'')]))) sample_hub)) =
     messages sample_hub @ [m] \<and> m_ChannelID m = 1 \<and> m_UserID m = 2 \<and> m_Content m = ''yo'' \<and> \<not> m_Deleted m"
proof -
  have "messages (snd (run_state (handleChatSend (\<lambda>x. x) 1 [] (Some (JObj [(''channel_id'', JNum ''1''), (''content'', JStr ''yo'')]))) sample_hub)) \<noteq> messages sample_hub"
    by (simp add: sample_eval handleChatSend_def chatRateLimit_def chat_send_channel_def chat_send_authorized_def
      slow_mode_passed_def content_error_def maxMessageLen_def attach_allowed_def chat_send_persist_def CreateMessage_def
      insert_message_def has_defs link_message_def chat_send_deliver_def sendMsg_def set_client_def)
  from send_only_with_right [OF sample_ok refl this] show ?thesis
    by (auto simp: sample_payloads sample_fields sample_clients sample_user_def)
qed

end
