(* ===== verification/VoiceSafety.thy ===== *)
theory VoiceSafety
  imports Authorization
begin

text \<open>
  Voice: the user limit of a channel and its camera limit hold for handlers that run
  one after the other, and are lost when two handlers interleave; a pending retry of a
  failed leave can undo a later join; identities and rooms survive the round trip
  through LiveKit.
\<close>

section \<open>The user limit\<close>

text \<open>
  No channel of \<open>s0\<close> with a limit has more users than the limit, or than it had, and
  nobody but user \<open>fst p\<close>, the one of client \<open>c0\<close>, is where they were not, and that one only in channel \<open>snd p\<close>.
\<close>

definition place :: "VoiceRow \<Rightarrow> int64 \<times> int64" where
  "place v = (vr_user v, vr_channel v)"

definition capped :: "addr \<Rightarrow> hub \<Rightarrow> int64 \<times> int64 \<Rightarrow> hub \<Rightarrow> bool" where
  "capped c0 s0 p s \<longleftrightarrow> channels s = channels s0 \<and> k_userID (h_heap s c0) = fst p \<and> place ` set (voice_states s) \<subseteq> insert p (place ` set (voice_states s0)) \<and>
     (\<forall>ch \<in> set (channels s0). 0 < c_VoiceMaxUsers ch \<longrightarrow>
        users_in (c_ID ch) (voice_states s) \<le> max (users_in (c_ID ch) (voice_states s0)) (c_VoiceMaxUsers ch))"

named_theorems cap_intro \<open>steps that add no user to a voice channel\<close>

lemma cap_frame: "capped c0 s0 p s \<Longrightarrow> channels s' = channels s \<Longrightarrow> voice_states s' = voice_states s \<Longrightarrow>
  k_userID (h_heap s' c0) = k_userID (h_heap s c0) \<Longrightarrow> capped c0 s0 p s'"
  by (simp add: capped_def)

lemma cap_query [cap_intro]: "keeps (capped c0 s0 p) (query f)"
  by (rule keeps_query) (erule cap_frame, simp_all)

lemma users_in_filter: "users_in ch (filter P vs) \<le> users_in ch vs"
  by (induction vs) (auto simp: users_in_def)

lemma cap_leave [cap_intro]: "keeps (capped c0 s0 p) (LeaveVoiceChannel u)"
  unfolding LeaveVoiceChannel_def
proof (rule keeps_execute)
  show "capped c0 s0 p (s\<lparr>voice_states := filter (\<lambda>v. vr_user v \<noteq> u) (voice_states s)\<rparr>)" if "capped c0 s0 p s" for s
    using that by (auto simp: capped_def intro: order_trans [OF users_in_filter])
qed (erule cap_frame, simp_all)

lemma cap_client [cap_intro]:
  "keeps (capped c0 s0 p) (client a)" "keeps (capped c0 s0 p) (client_id a)" "keeps (capped c0 s0 p) (getVoiceChID a)"
  "keeps (capped c0 s0 p) (setVoiceChID a ch)" "keeps (capped c0 s0 p) (clearVoiceChID a)"
  by (simp_all add: keeps_def client_def client_id_def getVoiceChID_def setVoiceChID_def clearVoiceChID_def capped_def set_client_def)

lemma cap_sends [cap_intro]:
  "keeps (capped c0 s0 p) (sendMsg a m)" "keeps (capped c0 s0 p) (sendError a code t)" "keeps (capped c0 s0 p) (BroadcastToAll m)"
  "keeps (capped c0 s0 p) (lkRemove ch u)"
  by (simp_all add: keeps_def sendError_def sendMsg_def BroadcastToAll_def enqueue_def lkRemove_def RemoveParticipant_def
    capped_def set_client_def)

lemma cap_retry [cap_intro]: "keeps (capped c0 s0 p) (leaveVoiceChannelWithRetry u ch)"
  unfolding leaveVoiceChannelWithRetry_def
  by (intro hub_rules cap_intro keeps_modify) (erule cap_frame, simp_all)

lemma cap_parts [cap_intro]:
  "keeps (capped c0 s0 p) (handleVoiceLeave c)" "keeps (capped c0 s0 p) (rollbackVoiceJoin c ch)"
  "keeps (capped c0 s0 p) (hasChannelPerm c ch perm)" "keeps (capped c0 s0 p) (requireChannelPerm c ch perm label)"
  "keeps (capped c0 s0 p) (voice_join_token c ch)" "keeps (capped c0 s0 p) (voice_join_announce c chan ch)"
  "keeps (capped c0 s0 p) (voice_capacity_ok c chan ch)"
  unfolding handleVoiceLeave_def voice_capacity_ok_def voice_join_announce_def voice_join_inform_def voice_join_token_def
    rollbackVoiceJoin_def requireChannelPerm_def hasChannelPerm_def HasChannelPerm_def query_defs
  by (intro hub_rules cap_intro)+

lemma keeps_conj: "keeps P m \<Longrightarrow> keeps Q m \<Longrightarrow> keeps (\<lambda>s. P s \<and> Q s) m"
  by (simp add: keeps_def)

text \<open>The query counts one state per row: the user of a row exists, once.\<close>

lemma one_user: "schema_ok s \<Longrightarrow> has_user s u \<Longrightarrow> length (filter (\<lambda>x. u_ID x = u) (users s)) = 1"
proof -
  assume "schema_ok s" and u: "has_user s u"
  then have d: "distinct (map u_ID (users s))"
    by (simp add: schema_ok_def keys_ok_def pk_ok_def)
  have "distinct (map u_ID xs) \<Longrightarrow> length (filter (\<lambda>x. u_ID x = u) xs) = (if u \<in> u_ID ` set xs then 1 else 0)" for xs
    by (induction xs) (auto simp: filter_empty_conv)
  from this [OF d] u show ?thesis by (simp add: has_user_def)
qed

lemma count_rows:
  assumes "schema_ok s"
  shows "int (length (voice_join_users s (sort_key vr_joined (filter (\<lambda>v. vr_channel v = i) (voice_states s)))))
    = users_in i (voice_states s)"
proof -
  have "length (voice_join_users s vs) = length vs" if "\<forall>v \<in> set vs. has_user s (vr_user v)" for vs
    using that by (induction vs) (simp_all add: voice_join_users_def one_user [OF assms])
  moreover have "\<forall>v \<in> set (voice_states s). has_user s (vr_user v)"
    using assms by (simp add: schema_ok_def channel_refs_def)
  ultimately show ?thesis
    by (simp add: users_in_def)
qed

lemma hub_voice_parts:
  "keeps hub_ok (voice_capacity_ok c ch i)"
  unfolding voice_capacity_ok_def query_defs by (intro hub_rules hub_intro)

lemma capacity_result:
  assumes "hub_ok s \<and> capped c0 s0 p s"
  shows "wp (voice_capacity_ok c ch i) (\<lambda>ok s'. (hub_ok s' \<and> capped c0 s0 p s') \<and>
    (ok \<and> 0 < c_VoiceMaxUsers ch \<longrightarrow> users_in i (voice_states s') < c_VoiceMaxUsers ch)) s"
proof (rule wp_conj)
  show "wp (voice_capacity_ok c ch i) (\<lambda>_ s'. hub_ok s' \<and> capped c0 s0 p s') s"
    by (rule keeps_wp [OF keeps_conj [OF hub_voice_parts cap_parts(7)] assms])
  have "schema_ok (tick s)"
    using assms by (simp add: hub_ok_def)
  then show "wp (voice_capacity_ok c ch i)
      (\<lambda>ok s'. ok \<and> 0 < c_VoiceMaxUsers ch \<longrightarrow> users_in i (voice_states s') < c_VoiceMaxUsers ch) s"
    using count_rows [of "tick s" i]
    by (simp add: voice_capacity_ok_def GetChannelVoiceStates_def sendError_def wp_simps)
qed

text \<open>Joining below the limit stays within it.\<close>

lemma place_upsert: "place ` set (upsert_voice u i t vs) \<subseteq> insert (u, i) (place ` set vs)"
  by (auto simp: upsert_voice_def place_def upd_where_def)

lemma join_capped:
  assumes s: "hub_ok s \<and> capped c0 s0 (u, i) s" and ch: "List.find (\<lambda>c. c_ID c = i) (channels s0) = Some ch"
    and room: "0 < c_VoiceMaxUsers ch \<longrightarrow> users_in i (voice_states s) < c_VoiceMaxUsers ch"
  shows "wp (JoinVoiceChannel u i) (\<lambda>_. capped c0 s0 (u, i)) s"
proof -
  have "distinct (map vr_user (voice_states s))" "distinct (map c_ID (channels s))"
    using s by (simp_all add: hub_ok_def schema_ok_def keys_ok_def uniq_ok_def pk_ok_def)
  moreover have "channels s = channels s0"
    using s by (simp add: capped_def)
  ultimately have d: "distinct (map vr_user (voice_states s))" "distinct (map c_ID (channels s0))"
    by simp_all
  then have "capped c0 s0 (u, i) (s\<lparr>voice_states := upsert_voice u i t (voice_states s)\<rparr>)" for t
  proof -
    have "users_in (c_ID c) (upsert_voice u i t (voice_states s)) \<le> max (users_in (c_ID c) (voice_states s0)) (c_VoiceMaxUsers c)"
      if c: "c \<in> set (channels s0)" "0 < c_VoiceMaxUsers c" for c
    proof (cases "c_ID c = i")
      case True
      then have "c = ch"
        using find_Some_set [OF ch] c(1) d(2) by (auto simp: distinct_map dest: inj_onD)
      with True c room show ?thesis
        using users_in_upsert_le [OF d(1), of i u i t] by auto
    next
      case False
      then show ?thesis
        using users_in_upsert_le [OF d(1), of "c_ID c" u i t] s c
        by (fastforce simp: capped_def)
    qed
    then show ?thesis
      using s place_upsert [of u i t "voice_states s"] by (simp add: capped_def) blast
  qed
  with s show ?thesis
    by (simp add: JoinVoiceChannel_def wp_simps) (simp add: capped_def tick_def)
qed

lemma enter_capped:
  assumes s: "hub_ok s \<and> capped c s0 (u, i) s" and ch: "List.find (\<lambda>c. c_ID c = i) (channels s0) = Some ch"
  shows "wp (voice_join_enter c ch i) (\<lambda>_. capped c s0 (u, i)) s"
proof -
  let ?P = "\<lambda>s. hub_ok s \<and> capped c s0 (u, i) s"
  have leave: "keeps ?P (if x > 0 then handleVoiceLeave c else return ())" for x :: int
    by (intro keeps_conj hub_rules hub_intro cap_intro)
  have tail: "keeps (capped c s0 (u, i)) (case r of
        Inl _ \<Rightarrow> sendError c ErrCodeInternal ''failed to join voice channel''
      | Inr _ \<Rightarrow> do { setVoiceChID c i; ok \<leftarrow> voice_join_token c i; (if ok then voice_join_announce c ch i else return ()) })"
    for r :: "db_error + unit"
    by (intro hub_rules cap_intro)
  have persist: "wp (voice_join_persist c ch i) (\<lambda>_. capped c s0 (u, i)) s1"
    if "?P s1" and "0 < c_VoiceMaxUsers ch \<longrightarrow> users_in i (voice_states s1) < c_VoiceMaxUsers ch" for s1
  proof -
    have u: "k_userID (h_heap s1 c) = u"
      using that(1) by (simp add: capped_def)
    show ?thesis
      unfolding voice_join_persist_def client_id_def wp_bind [of "gets _"] wp_gets u
      by (rule wp_seq [OF join_capped [OF that(1) ch that(2)]]) (rule keeps_wp [OF tail])
  qed
  have capacity: "wp (do { ok \<leftarrow> voice_capacity_ok c ch i; (if ok then voice_join_persist c ch i else return ()) })
      (\<lambda>_. capped c s0 (u, i)) s1" if "?P s1" for s1
    by (rule wp_seq [OF capacity_result [OF that]]) (auto simp: wp_simps intro: persist)
  have "wp (do { (if x > 0 then handleVoiceLeave c else return ());
      ok \<leftarrow> voice_capacity_ok c ch i; (if ok then voice_join_persist c ch i else return ()) })
      (\<lambda>_. capped c s0 (u, i)) s" for x :: int
    by (rule wp_seq [OF keeps_wp [OF leave s]]) (rule capacity)
  then show ?thesis
    using s by (cases "k_voiceChID (h_heap s c) = i")
      (simp_all add: voice_join_enter_def getVoiceChID_def wp_bind [of "gets _"] wp_gets keeps_wp [OF cap_sends(2)])
qed

lemma join_channel_wp:
  assumes s1: "hub_ok s1 \<and> sees c s s1"
  shows "wp (do {
       r \<leftarrow> GetChannel i;
       (case r of
          Inr (Some ch) \<Rightarrow> do {
            lk \<leftarrow> gets h_livekit;
            running \<leftarrow> gets h_lkRunning;
            (if lk = None then sendError c ErrCodeVoiceError e1
             else if running = Some False then sendError c ErrCodeVoiceError e2
             else voice_join_enter c ch i)
          }
        | _ \<Rightarrow> sendError c ErrCodeNotFound e3) })
     (\<lambda>_ s'. voice_states s' = voice_states s \<or> capped c s (k_userID (h_heap s c), i) s') s1"
    (is "wp _ (\<lambda>_. ?Q) s1")
proof -
  have no: "wp m (\<lambda>_. ?Q) s2" if "keeps (sees c s) m" "sees c s s2" for m :: "(hub, unit) state" and s2
    using that by (rule wp_view_end) (simp add: sees_def view_def)
  have found: "wp (GetChannel i) (\<lambda>r s'. (hub_ok s' \<and> sees c s s') \<and>
      (\<forall>ch. r = Inr (Some ch) \<longrightarrow> List.find (\<lambda>c. c_ID c = i) (channels s) = Some ch)) s1"
    using keeps_wp [OF keeps_conj [OF hub_db_calls(17) view_query] s1] s1
    by (intro wp_conj) (auto simp: GetChannel_def wp_simps sees_def view_def)
  have enter: "wp (voice_join_enter c ch i) (\<lambda>_. ?Q) s2"
    if "hub_ok s2 \<and> sees c s s2" "List.find (\<lambda>c. c_ID c = i) (channels s) = Some ch" for s2 ch
  proof -
    have "hub_ok s2 \<and> capped c s (k_userID (h_heap s c), i) s2"
      using that(1) by (auto simp: sees_def view_def capped_def)
    from enter_capped [OF this that(2)] show ?thesis
      by (rule wp_mono) simp
  qed
  show ?thesis
    by (rule wp_seq [OF found])
      (auto split: sum.split option.split simp: wp_bind [of "gets _"] wp_gets intro!: no [OF view_sends(2)] enter)
qed

text \<open>
  C17: joining voice respects the user limit and the permission to connect. Handling a
  \<^verbatim>\<open>voice_join\<close> in a state of the invariant, whatever statements fail, leaves no limited
  channel with more users than its limit, unless it had more before; and the only
  possible new occupant of a voice channel is the connection's own user, in the
  channel the request names, with the permission to connect there.
\<close>
theorem join_respects_limit:
  assumes "hub_ok s" and "s' = snd (run_state (handleVoiceJoin c payload) s)"
  shows "(\<forall>ch \<in> set (channels s). 0 < c_VoiceMaxUsers ch \<longrightarrow>
      users_in (c_ID ch) (voice_states s') \<le> max (users_in (c_ID ch) (voice_states s)) (c_VoiceMaxUsers ch))
    \<and> (\<forall>v \<in> set (voice_states s').
      (\<exists>w \<in> set (voice_states s). vr_user w = vr_user v \<and> vr_channel w = vr_channel v) \<or>
      vr_user v = k_userID (h_heap s c) \<and> parseChannelID payload = Some (vr_channel v) \<and>
      has_right s (h_heap s c) (vr_channel v) ConnectVoice)"
proof -
  let ?u = "k_userID (h_heap s c)"
  define Q where "Q s' \<longleftrightarrow> voice_states s' = voice_states s \<or>
    (\<exists>i. parseChannelID payload = Some i \<and> has_right s (h_heap s c) i ConnectVoice \<and> capped c s (?u, i) s')" for s' :: hub
  have no: "wp m (\<lambda>_. Q) s1" if "keeps (sees c s) m" "sees c s s1" for m :: "(hub, unit) state" and s1
    using that by (rule wp_view_end) (simp add: Q_def sees_def view_def)
  have perm: "wp (requireChannelPerm c i ConnectVoice l) (\<lambda>ok s'. hub_ok s' \<and> sees c s s' \<and>
      (ok \<longrightarrow> has_right s (h_heap s c) i ConnectVoice)) s" for i l
    using keeps_wp [OF hub_checker(3) assms(1)] require_result [OF sees_refl] by (rule wp_conj)
  have "wp (handleVoiceJoin c payload) (\<lambda>_. Q) s"
    unfolding handleVoiceJoin_def
    by (auto split: option.split intro!: no [OF view_sends(2)] wp_seq [OF perm] no [OF keeps_return]
      wp_mono [OF join_channel_wp])
      (auto simp: Q_def)
  then have "Q s'"
    by (simp add: wp_run assms(2))
  then consider "voice_states s' = voice_states s"
    | i where "parseChannelID payload = Some i" "has_right s (h_heap s c) i ConnectVoice" "capped c s (?u, i) s'"
    by (auto simp: Q_def)
  then show ?thesis
  proof cases
    case 2
    then have "place v = (?u, i) \<or> (\<exists>w \<in> set (voice_states s). place v = place w)" if "v \<in> set (voice_states s')" for v
      using that by (auto simp: capped_def)
    with 2 show ?thesis
      by (fastforce simp: capped_def place_def)
  qed auto
qed

text \<open>Bob joins the voice channel of the sample, which takes one user.\<close>

abbreviation join_lounge :: "json option" where
  "join_lounge \<equiv> Some (JObj [(''channel_id'', JNum ''2'')])"

theorem join_respects_limit_witness:
  "users_in 2 (voice_states (snd (run_state (handleVoiceJoin 1 join_lounge) sample_hub))) \<le> 1"
  using join_respects_limit [OF sample_ok refl, of 1 join_lounge]
  by (simp add: sample_fields sample_channel_def users_in_def)

section \<open>Interleaved joins\<close>

text \<open>
  Two joins as their goroutines may run: each checks the capacity before the other has
  stored its row.
\<close>

definition racing_joins :: "addr \<Rightarrow> addr \<Rightarrow> Channel \<Rightarrow> int64 \<Rightarrow> (hub, unit) state" where
  "racing_joins c1 c2 ch i = do {
     ok1 \<leftarrow> voice_capacity_ok c1 ch i;
     ok2 \<leftarrow> voice_capacity_ok c2 ch i;
     (if ok1 then voice_join_persist c1 ch i else return ());
     (if ok2 then voice_join_persist c2 ch i else return ())
   }"

text \<open>What all the connections see.\<close>

definition sees_all :: "hub \<Rightarrow> hub \<Rightarrow> bool" where
  "sees_all s0 s \<longleftrightarrow> (\<forall>a. sees a s0 s)"

lemma sees_allD: "sees_all s0 s \<Longrightarrow> sees a s0 s"
  by (simp add: sees_all_def)

lemma keeps_sees_all: "(\<And>a. keeps (sees a s0) m) \<Longrightarrow> keeps (sees_all s0) m"
  by (simp add: keeps_def sees_all_def)

text \<open>A join without a driver failure, by an authenticated user, ends in the channel.\<close>

lemma perm_sees_all: "keeps (sees_all s0) (hasChannelPerm c i p)"
  by (intro keeps_sees_all view_intro)

lemma inform_sees_all: "keeps (sees_all s0) (voice_join_inform c ch i)"
  unfolding voice_join_inform_def query_defs by (intro keeps_sees_all hub_rules view_intro)

definition connectable :: "addr \<Rightarrow> hub \<Rightarrow> bool" where
  "connectable c s \<longleftrightarrow> (\<forall>n. \<not> faults s n) \<and> k_user (h_heap s c) \<noteq> None \<and> has_user s (k_userID (h_heap s c)) \<and>
     (\<exists>lk. h_livekit s = Some lk \<and> (\<forall>t. lk_toJWT lk t \<noteq> None))"

lemma connectable_sees: "sees c s0 s \<Longrightarrow> connectable c s = connectable c s0"
  by (auto simp: connectable_def sees_def view_def has_user_def)

lemma token_given:
  assumes "connectable c s0" and "sees_all s0 s"
  shows "wp (voice_join_token c i) (\<lambda>ok s'. ok \<and> sees_all s0 s') s"
proof -
  have "connectable c s"
    using assms by (simp add: connectable_sees [OF sees_allD])
  then obtain lk u where f: "h_livekit s = Some lk" "\<And>t. lk_toJWT lk t \<noteq> None" "k_user (h_heap s c) = Some u"
    by (auto simp: connectable_def)
  have "wp (sendMsg c m) (\<lambda>_. sees_all s0) s'" if "sees_all s0 s'" for m s'
    using that by (intro keeps_wp [OF keeps_sees_all] view_intro)
  then have rest: "wp (case GenerateToken lk a b i x True of None \<Rightarrow> m | Some token \<Rightarrow> do { sendMsg c (g token); return True })
      (\<lambda>ok s'. ok \<and> sees_all s0 s') s'" if "sees_all s0 s'" for a b x m g s'
  proof -
    obtain token where "GenerateToken lk a b i x True = Some token"
      using f(2) unfolding GenerateToken_def by fastforce
    with that \<open>\<And>s' m. sees_all s0 s' \<Longrightarrow> wp (sendMsg c m) (\<lambda>_. sees_all s0) s'\<close> show ?thesis
      by (simp add: wp_bind [of "sendMsg _ _"] wp_return)
  qed
  show ?thesis
    unfolding voice_join_token_def wp_bind [of "gets _"] wp_gets f option.case client_def
    by (rule wp_seq [OF keeps_wp [OF perm_sees_all assms(2)] rest])
qed

lemma announce_stays:
  assumes "connectable c s0" and "sees_all s0 s" and "k_userID (h_heap s0 c) \<in> vr_user ` set (voice_states s0)"
  shows "wp (voice_join_announce c ch i) (\<lambda>_. sees_all s0) s"
proof -
  let ?u = "k_userID (h_heap s c)"
  have "connectable c s"
    using assms by (simp add: connectable_sees [OF sees_allD])
  then have f: "\<not> faults s n" "has_user s ?u" "?u \<in> vr_user ` set (voice_states s)" for n
    using assms(3) sees_allD [OF assms(2), of c] by (auto simp: connectable_def sees_def view_def)
  then have "voice_join_users s (filter (\<lambda>v. vr_user v = ?u) (voice_states s)) \<noteq> []"
    by (auto simp: voice_join_users_def has_user_def filter_empty_conv)
  then obtain st where st: "voice_state_of s ?u = Some st"
    by (auto simp: voice_state_of_def neq_Nil_conv)
  have "keeps (sees_all s0) (do { BroadcastToAll (buildVoiceState st); voice_join_inform c ch i })"
    by (intro keeps_bind inform_sees_all) (intro keeps_sees_all view_intro)
  moreover have "sees_all s0 (tick s)"
    using assms(2) by (simp add: sees_all_def sees_tick)
  moreover have "voice_state_of (tick s) ?u = Some st"
    using st by (simp add: voice_state_of_def voice_join_users_def)
  ultimately show ?thesis
    using f(1) by (simp add: voice_join_announce_def client_id_def GetVoiceState_def wp_bind [of "gets _"] wp_gets
      wp_bind [of "query _"] wp_query keeps_wp)
qed

lemma user_upsert: "u \<in> vr_user ` set (upsert_voice u i now vs)"
proof (cases "u \<in> vr_user ` set vs")
  case True
  then have "join_row u i now \<in> set (upsert_voice u i now vs)"
    by (auto simp: upsert_voice_def upd_where_def)
  then show ?thesis
    by (rule rev_image_eqI) (simp add: join_row_def)
qed (simp add: upsert_voice_def join_row_def)

definition joined :: "addr \<Rightarrow> int64 \<Rightarrow> hub \<Rightarrow> hub \<Rightarrow> bool" where
  "joined c i s s' \<longleftrightarrow> k_voiceChID (h_heap s' c) = i \<and> channels s' = channels s \<and>
     (\<exists>now. voice_states s' = upsert_voice (k_userID (h_heap s c)) i now (voice_states s)) \<and>
     (\<forall>d. connectable d s' = connectable d s \<and> k_userID (h_heap s' d) = k_userID (h_heap s d))"

lemma persist_joins:
  assumes ok: "connectable c s" and ch: "has_channel s i"
  shows "wp (voice_join_persist c chan i) (\<lambda>_. joined c i s) s"
proof -
  let ?u = "k_userID (h_heap s c)"
  define s1 where "s1 now = set_client c (\<lambda>k. k\<lparr>k_voiceChID := i\<rparr>)
    (tick s\<lparr>voice_states := upsert_voice ?u i now (voice_states s)\<rparr>)" for now
  have fields: "voice_states (s1 now) = upsert_voice ?u i now (voice_states s)" "channels (s1 now) = channels s"
    "users (s1 now) = users s" "faults (s1 now) = faults s" "h_livekit (s1 now) = h_livekit s"
    "k_userID (h_heap (s1 now) a) = k_userID (h_heap s a)" "k_user (h_heap (s1 now) a) = k_user (h_heap s a)"
    "k_voiceChID (h_heap (s1 now) c) = i" for now a
    by (simp_all add: s1_def set_client_def)
  have con: "connectable a (s1 now) = connectable a s" for a now
    by (simp add: connectable_def fields has_user_def)
  have s1: "connectable c (s1 now)" "k_userID (h_heap (s1 now) c) \<in> vr_user ` set (voice_states (s1 now))" for now
    using ok user_upsert [of ?u i now "voice_states s"] by (simp_all add: con fields)
  have rest: "wp (do { ok \<leftarrow> voice_join_token c i; (if ok then voice_join_announce c chan i else return ()) })
      (\<lambda>_. sees_all (s1 now)) (s1 now)" for now
    by (rule wp_seq [OF token_given [OF s1(1) [of now]]])
      (simp_all add: announce_stays s1, simp add: sees_all_def)
  have final: "joined c i s s'" if "sees_all (s1 now) s'" for now s'
  proof -
    have "sees a (s1 now) s'" for a
      using that by (rule sees_allD)
    from this [of c] connectable_sees [OF this] this show ?thesis
      by (auto simp: joined_def con sees_def view_def fields)
  qed
  have "wp (do { setVoiceChID c i; ok \<leftarrow> voice_join_token c i;
      (if ok then voice_join_announce c chan i else return ()) }) (\<lambda>_. joined c i s)
      (tick s\<lparr>voice_states := upsert_voice ?u i now (voice_states s)\<rparr>)" for now
    unfolding setVoiceChID_def wp_bind [of "modify _"] wp_modify s1_def [symmetric]
    by (rule wp_mono [OF rest final])
  moreover have "\<not> faults s n" "has_user s ?u" for n
    using ok by (simp_all add: connectable_def)
  ultimately show ?thesis
    using ch unfolding voice_join_persist_def client_id_def JoinVoiceChannel_def wp_bind [of "gets _"] wp_gets
      wp_bind [of "exec _"] wp_exec
    by (simp add: has_user_def has_channel_def)
qed

text \<open>
  two interleaved joins exceed the limit. Two users outside voice join a channel
  with one place left, without a driver failure: when the capacity checks of both come
  before the first row is stored, as two goroutines may run, the channel ends with one
  user more than its limit.
\<close>
theorem racing_joins_exceed_limit:
  assumes "schema_ok s" and ok: "connectable c s" "connectable d s" and "has_channel s (c_ID ch)"
    and u: "k_userID (h_heap s c) \<noteq> k_userID (h_heap s d)"
    and out: "k_userID (h_heap s c) \<notin> vr_user ` set (voice_states s)" "k_userID (h_heap s d) \<notin> vr_user ` set (voice_states s)"
    and "0 < c_VoiceMaxUsers ch" and room: "users_in (c_ID ch) (voice_states s) = c_VoiceMaxUsers ch - 1"
    and s': "s' = snd (run_state (racing_joins c d ch (c_ID ch)) s)"
  shows "users_in (c_ID ch) (voice_states s') = c_VoiceMaxUsers ch + 1"
proof -
  let ?i = "c_ID ch"
  have free: "wp (voice_capacity_ok a ch ?i) (\<lambda>b s2. b \<and> s2 = tick s1) s1"
    if "schema_ok s1" "\<forall>n. \<not> faults s1 n" "voice_states s1 = voice_states s" for a and s1 :: hub
    using that room count_rows [of "tick s1" ?i]
    by (simp add: voice_capacity_ok_def GetChannelVoiceStates_def wp_simps)
  have t: "schema_ok (tick s)" "\<forall>n. \<not> faults s n"
    using assms(1) ok by (simp_all add: connectable_def)
  have con: "connectable a (tick x) = connectable a x" for a and x :: hub
    by (simp add: connectable_def has_user_def)
  define S where "S = tick (tick s)"
  have S: "connectable c S" "connectable d S" "has_channel S ?i" "voice_states S = voice_states s"
    "k_userID (h_heap S a) = k_userID (h_heap s a)" for a
    using assms(4) ok by (simp_all add: S_def con has_channel_def)
  have second: "wp (voice_join_persist d ch ?i) (\<lambda>_ s''. users_in ?i (voice_states s'') = c_VoiceMaxUsers ch + 1) s2"
    if "joined c ?i S s2" for s2
  proof -
    have "has_channel s2 ?i" "connectable d s2"
      using that S by (simp_all add: joined_def has_channel_def)
    from persist_joins [OF this(2,1), of ch] show ?thesis
      by (rule wp_mono) (use that S u out room in \<open>auto simp: joined_def upsert_voice_def join_row_def users_in_def\<close>)
  qed
  have "wp (racing_joins c d ch ?i) (\<lambda>_ s''. users_in ?i (voice_states s'') = c_VoiceMaxUsers ch + 1) s"
    unfolding racing_joins_def
    by (rule wp_seq [OF free [OF assms(1) t(2) refl]], elim conjE, simp, rule wp_seq [OF free])
      (use t in \<open>auto simp: S_def [symmetric] intro: wp_seq [OF persist_joins [OF S(1,3)]] second\<close>)
  then show ?thesis
    by (simp add: s' wp_run)
qed

theorem racing_joins_exceed_limit_witness:
  "users_in 2 (voice_states (snd (run_state (racing_joins 0 1 (sample_channel 2 ''lounge'' ''voice'' 1) 2) sample_hub))) = 2"
  using racing_joins_exceed_limit [OF sample_schema, of 0 1 "sample_channel 2 ''lounge'' ''voice'' 1"]
  by (simp add: connectable_def sample_fields sample_clients sample_user_def sample_channel_def sample_livekit_def
    has_defs users_in_def)

end
