(* ===== verification/GoNet.thy ===== *)
theory GoNet
  imports GoText
begin

text \<open>
  What the server uses of the packages \<^verbatim>\<open>net\<close>, \<^verbatim>\<open>encoding/base32\<close>, \<^verbatim>\<open>net/url\<close> and \<^verbatim>\<open>strings\<close>:
  splitting host and port, parsing addresses and networks and testing membership, the
  unpadded base32 alphabet of two-factor secrets, and query escaping. An address is its
  sixteen bytes, as \<^verbatim>\<open>net.ParseIP\<close> returns them.
\<close>

section \<open>Strings\<close>

definition index_of :: "char \<Rightarrow> string \<Rightarrow> nat option" where
  "index_of c s = (if c \<in> set s then Some (length (takeWhile (\<lambda>x. x \<noteq> c) s)) else None)"

fun split_on :: "char \<Rightarrow> string \<Rightarrow> string list" where
  "split_on c [] = [[]]"
| "split_on c (x # xs) = (if x = c then [] # split_on c xs
     else (case split_on c xs of [] \<Rightarrow> [[x]] | w # ws \<Rightarrow> (x # w) # ws))"

text \<open>\<^verbatim>\<open>strings.ToUpper\<close> and \<^verbatim>\<open>strings.ToLower\<close> on the letters of ASCII.\<close>

definition ascii_upper :: "char \<Rightarrow> char" where
  "ascii_upper c = (let n = of_char c :: nat in if 97 \<le> n \<and> n \<le> 122 then char_of (n - 32) else c)"

section \<open>Hosts\<close>

text \<open>\<^verbatim>\<open>net.SplitHostPort\<close>, without the port; \<open>None\<close> is the error.\<close>

definition last_colon :: "string \<Rightarrow> nat option" where
  "last_colon s = map_option (\<lambda>k. length s - 1 - k) (index_of (CHR '':'') (rev s))"

definition SplitHost :: "string \<Rightarrow> string option" where
  "SplitHost hostport =
     (case last_colon hostport of
        None \<Rightarrow> None
      | Some i \<Rightarrow>
          (case hostport of
             [] \<Rightarrow> None
           | c # _ \<Rightarrow>
               if c = CHR ''['' then
                 (case index_of (CHR '']'') hostport of
                    None \<Rightarrow> None
                  | Some e \<Rightarrow>
                      if e + 1 = i \<and> CHR ''['' \<notin> set (drop 1 hostport) \<and> CHR '']'' \<notin> set (drop (e + 1) hostport)
                      then Some (take (e - 1) (drop 1 hostport)) else None)
               else if CHR '':'' \<in> set (take i hostport) \<or> CHR ''['' \<in> set hostport \<or> CHR '']'' \<in> set hostport then None
               else Some (take i hostport)))"

section \<open>Addresses\<close>

type_synonym ip = "nat list"

text \<open>A field of a dotted address: digits without a leading zero, at most 255.\<close>

definition ipv4_field :: "string \<Rightarrow> nat option" where
  "ipv4_field s = (case parse_digits s of
     Some n \<Rightarrow> if n \<le> 255 \<and> \<not> (1 < length s \<and> hd s = CHR ''0'') then Some n else None
   | None \<Rightarrow> None)"

definition ipv4_fields :: "string \<Rightarrow> nat list option" where
  "ipv4_fields s = (let fs = split_on (CHR ''.'') s in if length fs = 4 then those (map ipv4_field fs) else None)"

definition v4InV6Prefix :: ip where
  "v4InV6Prefix = [0, 0, 0, 0, 0, 0, 0, 0, 0, 0, 255, 255]"

definition hex_digit_val :: "char \<Rightarrow> nat option" where
  "hex_digit_val c = (let n = of_char c :: nat in
     if 48 \<le> n \<and> n \<le> 57 then Some (n - 48)
     else if 97 \<le> n \<and> n \<le> 102 then Some (n - 87)
     else if 65 \<le> n \<and> n \<le> 70 then Some (n - 55) else None)"

definition hex_group :: "string \<Rightarrow> nat" where
  "hex_group s = foldl (\<lambda>a c. 16 * a + (case hex_digit_val c of Some v \<Rightarrow> v | None \<Rightarrow> 0)) 0 s"

text \<open>
  The groups of an IPv6 address: \<open>k\<close> more may follow, \<open>acc\<close> are the bytes so far, \<open>ell\<close> the
  place of the ellipsis. The result is the bytes and the ellipsis when the text is used up.
\<close>

fun ipv6_groups :: "nat \<Rightarrow> nat list \<Rightarrow> nat option \<Rightarrow> string \<Rightarrow> (nat list \<times> nat option) option" where
  "ipv6_groups 0 acc ell s = (if s = [] then Some (acc, ell) else None)"
| "ipv6_groups (Suc k) acc ell s =
     (let ds = takeWhile (\<lambda>c. hex_digit_val c \<noteq> None) s; r = drop (length ds) s in
      if ds = [] \<or> 4 < length ds then None
      else case r of
        [] \<Rightarrow> Some (acc @ [hex_group ds div 256, hex_group ds mod 256], ell)
      | c # r' \<Rightarrow>
          if c = CHR ''.'' then
            (if (ell = None \<and> length acc \<noteq> 12) \<or> 16 < length acc + 4 then None
             else map_option (\<lambda>f. (acc @ f, ell)) (ipv4_fields s))
          else if c \<noteq> CHR '':'' \<or> r' = [] then None
          else let acc' = acc @ [hex_group ds div 256, hex_group ds mod 256] in
            (if hd r' = CHR '':''
             then (if ell \<noteq> None then None
                   else if tl r' = [] then Some (acc', Some (length acc')) else ipv6_groups k acc' (Some (length acc')) (tl r'))
             else ipv6_groups k acc' ell r'))"

definition expand_ipv6 :: "nat list \<times> nat option \<Rightarrow> ip option" where
  "expand_ipv6 p = (case p of (acc, ell) \<Rightarrow>
     if length acc < 16 then map_option (\<lambda>e. take e acc @ replicate (16 - length acc) 0 @ drop e acc) ell
     else if ell \<noteq> None then None else Some acc)"

definition ParseIPv6 :: "string \<Rightarrow> ip option" where
  "ParseIPv6 s =
     (if take 2 s = ''::''
      then (if drop 2 s = [] then Some (replicate 16 0)
            else Option.bind (ipv6_groups 8 [] (Some 0) (drop 2 s)) expand_ipv6)
      else Option.bind (ipv6_groups 8 [] None s) expand_ipv6)"

text \<open>\<^verbatim>\<open>netip.ParseAddr\<close> without zones: the first of \<^verbatim>\<open>.\<close>, \<^verbatim>\<open>:\<close> and \<^verbatim>\<open>%\<close> decides. The bit length with the bytes.\<close>

definition parse_addr :: "string \<Rightarrow> (ip \<times> nat) option" where
  "parse_addr s =
     (case dropWhile (\<lambda>c. c \<noteq> CHR ''.'' \<and> c \<noteq> CHR '':'' \<and> c \<noteq> CHR ''%'') s of
        [] \<Rightarrow> None
      | c # _ \<Rightarrow>
          if c = CHR ''.'' then map_option (\<lambda>f. (v4InV6Prefix @ f, 32)) (ipv4_fields s)
          else if c = CHR '':'' \<and> CHR ''%'' \<notin> set s then map_option (\<lambda>f. (f, 128)) (ParseIPv6 s)
          else None)"

definition ParseIP :: "string \<Rightarrow> ip option" where
  "ParseIP s = map_option fst (parse_addr s)"

section \<open>Networks\<close>

text \<open>A network is the bytes of its base address and the length of its prefix in the sixteen bytes.\<close>

definition ParseCIDR :: "string \<Rightarrow> (ip \<times> nat) option" where
  "ParseCIDR s =
     (case split2 (CHR ''/'') s of
        [a, m] \<Rightarrow>
          (case (parse_addr a, parse_digits m) of
             (Some (b, bits), Some n) \<Rightarrow>
               if n \<le> bits \<and> n < 0xFFFFFF then Some (b, (128 - bits) + n) else None
           | _ \<Rightarrow> None)
      | _ \<Rightarrow> None)"

definition bit_at :: "ip \<Rightarrow> nat \<Rightarrow> bool" where
  "bit_at b i = odd ((b ! (i div 8)) div 2 ^ (7 - i mod 8))"

definition is_v4 :: "ip \<Rightarrow> bool" where
  "is_v4 b \<longleftrightarrow> take 12 b = v4InV6Prefix"

text \<open>
  \<^verbatim>\<open>IPNet.Contains\<close>: equal on the prefix, and of the same family. The base address of a
  network is masked, so a network of sixteen bytes is one of four bytes exactly when its
  masked address is.
\<close>

definition masked :: "ip \<Rightarrow> nat \<Rightarrow> ip" where
  "masked b p = map (\<lambda>i. foldl (\<lambda>a j. 2 * a + (if 8 * i + j < p \<and> bit_at b (8 * i + j) then 1 else 0)) 0 [0..<8]) [0..<16]"

definition net_contains :: "ip \<times> nat \<Rightarrow> ip \<Rightarrow> bool" where
  "net_contains net a = (case net of (b, p) \<Rightarrow>
     is_v4 (masked b p) = is_v4 a \<and> list_all (\<lambda>i. bit_at b i = bit_at a i) [0..<p])"

end
