(* ===== verification/Totp.thy ===== *)
theory Totp
  imports GoNet
begin

text \<open>
  Two-factor authentication, \<^verbatim>\<open>auth/totp.go\<close>: the store of half-finished logins, the store
  of pending enrolments, secrets, and the codes of RFC 6238. HMAC-SHA1 is a package: its
  function is the argument \<open>hmac\<close>. The clock readings of a method are its last arguments.
\<close>

section \<open>Half-finished logins\<close>

definition totpDigits :: nat where "totpDigits = 6"
definition totpPeriod :: duration where "totpPeriod = 30 * Second"
definition partialTokenTTL :: duration where "partialTokenTTL = 10 * Minute"

record PartialAuthChallenge =
  pc_UserID :: int64
  pc_Device :: string
  pc_IP :: string
  pc_Failures :: int
  pc_ExpiresAt :: time

record PartialAuthStore =
  ps_entries :: "(string, PartialAuthChallenge) mapping"
  ps_ttl :: duration

definition NewPartialAuthStore :: "duration \<Rightarrow> PartialAuthStore" where
  "NewPartialAuthStore ttl = \<lparr>ps_entries = Mapping.empty, ps_ttl = ttl\<rparr>"

definition partial_cleanup :: "PartialAuthStore \<Rightarrow> time \<Rightarrow> PartialAuthStore" where
  "partial_cleanup s now = s\<lparr>ps_entries := Mapping.filter (\<lambda>_ e. \<not> pc_ExpiresAt e < now) (ps_entries s)\<rparr>"

text \<open>\<open>raw\<close> are the random bytes of the new token; \<open>None\<close> is an error of the random source.\<close>

definition Issue ::
  "string option \<Rightarrow> int64 \<Rightarrow> string \<Rightarrow> string \<Rightarrow> PartialAuthStore \<Rightarrow> time \<Rightarrow> time \<Rightarrow> string option \<times> PartialAuthStore" where
  "Issue raw userID device ip s t0 t1 =
     (case raw of
        None \<Rightarrow> (None, s)
      | Some bs \<Rightarrow>
          (let token = hexEncode bs; s' = partial_cleanup s t0
           in (Some token, s'\<lparr>ps_entries := Mapping.update token
                 \<lparr>pc_UserID = userID, pc_Device = device, pc_IP = ip, pc_Failures = 0, pc_ExpiresAt = t1 + ps_ttl s\<rparr>
                 (ps_entries s')\<rparr>)))"

definition Lookup :: "string \<Rightarrow> PartialAuthStore \<Rightarrow> time \<Rightarrow> PartialAuthChallenge option \<times> PartialAuthStore" where
  "Lookup token s t0 = (let s' = partial_cleanup s t0 in (Mapping.lookup (ps_entries s') token, s'))"

definition Consume :: "string \<Rightarrow> PartialAuthStore \<Rightarrow> time \<Rightarrow> PartialAuthChallenge option \<times> PartialAuthStore" where
  "Consume token s t0 =
     (let s' = partial_cleanup s t0
      in case Mapping.lookup (ps_entries s') token of
           None \<Rightarrow> (None, s')
         | Some entry \<Rightarrow> (Some entry, s'\<lparr>ps_entries := Mapping.delete token (ps_entries s')\<rparr>))"

definition RegisterFailure :: "string \<Rightarrow> int \<Rightarrow> PartialAuthStore \<Rightarrow> time \<Rightarrow> bool \<times> PartialAuthStore" where
  "RegisterFailure token maxFailures s t0 =
     (let s' = partial_cleanup s t0
      in case Mapping.lookup (ps_entries s') token of
           None \<Rightarrow> (False, s')
         | Some entry \<Rightarrow>
             (let entry' = entry\<lparr>pc_Failures := pc_Failures entry + 1\<rparr>
              in if pc_Failures entry' \<ge> maxFailures
                 then (False, s'\<lparr>ps_entries := Mapping.delete token (ps_entries s')\<rparr>)
                 else (True, s'\<lparr>ps_entries := Mapping.update token entry' (ps_entries s')\<rparr>)))"

section \<open>Pending enrolments\<close>

record pendingTOTPEnrollment =
  pe_Secret :: string
  pe_ExpiresAt :: time

record PendingTOTPStore =
  pn_entries :: "(int64, pendingTOTPEnrollment) mapping"
  pn_ttl :: duration

definition NewPendingTOTPStore :: "duration \<Rightarrow> PendingTOTPStore" where
  "NewPendingTOTPStore ttl = \<lparr>pn_entries = Mapping.empty, pn_ttl = ttl\<rparr>"

definition pending_cleanup :: "PendingTOTPStore \<Rightarrow> time \<Rightarrow> PendingTOTPStore" where
  "pending_cleanup s now = s\<lparr>pn_entries := Mapping.filter (\<lambda>_ e. \<not> pe_ExpiresAt e < now) (pn_entries s)\<rparr>"

definition PutPending :: "int64 \<Rightarrow> string \<Rightarrow> PendingTOTPStore \<Rightarrow> time \<Rightarrow> time \<Rightarrow> PendingTOTPStore" where
  "PutPending userID secret s t0 t1 =
     (let s' = pending_cleanup s t0
      in s'\<lparr>pn_entries := Mapping.update userID \<lparr>pe_Secret = secret, pe_ExpiresAt = t1 + pn_ttl s\<rparr> (pn_entries s')\<rparr>)"

definition LookupPending :: "int64 \<Rightarrow> PendingTOTPStore \<Rightarrow> time \<Rightarrow> string option \<times> PendingTOTPStore" where
  "LookupPending userID s t0 =
     (let s' = pending_cleanup s t0 in (map_option pe_Secret (Mapping.lookup (pn_entries s') userID), s'))"

definition DeletePending :: "int64 \<Rightarrow> PendingTOTPStore \<Rightarrow> PendingTOTPStore" where
  "DeletePending userID s = s\<lparr>pn_entries := Mapping.delete userID (pn_entries s)\<rparr>"

section \<open>Base32\<close>

definition base32_char :: "nat \<Rightarrow> char" where
  "base32_char v = (if v < 26 then char_of (65 + v) else char_of (24 + v))"

definition base32_val :: "char \<Rightarrow> nat option" where
  "base32_val c = (let n = of_char c :: nat in
     if 65 \<le> n \<and> n \<le> 90 then Some (n - 65) else if 50 \<le> n \<and> n \<le> 55 then Some (n - 24) else None)"

text \<open>Five bytes as eight digits; a shorter last group gives as many digits as its bits need.\<close>

definition be_nat :: "string \<Rightarrow> nat" where
  "be_nat bs = foldl (\<lambda>a c. 256 * a + of_char c) 0 bs"

definition group_digits :: "nat \<Rightarrow> nat" where
  "group_digits n = (8 * n + 4) div 5"

definition enc_group :: "string \<Rightarrow> string" where
  "enc_group bs = (let v = be_nat (bs @ replicate (5 - length bs) (char_of (0 :: nat)))
     in map (\<lambda>i. base32_char (v div 32 ^ (7 - i) mod 32)) [0..<group_digits (length bs)])"

function base32_encode :: "string \<Rightarrow> string" where
  "base32_encode bs = (if bs = [] then [] else enc_group (take 5 bs) @ base32_encode (drop 5 bs))"
  by pat_completeness auto
termination by (relation "measure length") auto

declare base32_encode.simps [simp del]

text \<open>
  A group of up to eight digits gives the bytes its bits fill: groups of one, three or six
  digits give none, as the decoder's switch has no case for them.
\<close>

definition group_bytes :: "nat \<Rightarrow> nat" where
  "group_bytes n = (if n = 8 then 5 else if n = 7 then 4 else if n = 5 then 3 else if n = 4 then 2 else if n = 2 then 1 else 0)"

definition dec_group :: "nat list \<Rightarrow> string" where
  "dec_group vs = (let v = foldl (\<lambda>a d. 32 * a + d) 0 (vs @ replicate (8 - length vs) 0)
     in map (\<lambda>i. char_of (v div 256 ^ (4 - i) mod 256)) [0..<group_bytes (length vs)])"

function dec_groups :: "nat list \<Rightarrow> string" where
  "dec_groups vs = (if vs = [] then [] else dec_group (take 8 vs) @ dec_groups (drop 8 vs))"
  by pat_completeness auto
termination by (relation "measure length") auto

declare dec_groups.simps [simp del]

definition base32_decode :: "string \<Rightarrow> string option" where
  "base32_decode s = map_option dec_groups
     (those (map base32_val (filter (\<lambda>c. byte c \<noteq> 10 \<and> byte c \<noteq> 13) s)))"

section \<open>Codes\<close>

definition GenerateTOTPSecret :: "string option \<Rightarrow> string option" where
  "GenerateTOTPSecret raw = map_option base32_encode raw"

definition url_unreserved :: "char \<Rightarrow> bool" where
  "url_unreserved c = (let n = of_char c :: nat in (97 \<le> n \<and> n \<le> 122) \<or> (65 \<le> n \<and> n \<le> 90) \<or> (48 \<le> n \<and> n \<le> 57) \<or>
     c = CHR ''-'' \<or> c = CHR ''_'' \<or> c = CHR ''.'' \<or> c = CHR ''~'')"

definition upper_hex :: "nat \<Rightarrow> char" where
  "upper_hex d = (if d < 10 then char_of (48 + d) else char_of (55 + d))"

definition percent :: "char \<Rightarrow> string" where
  "percent c = [CHR ''%'', upper_hex (byte c div 16), upper_hex (byte c mod 16)]"

definition PathEscape :: "string \<Rightarrow> string" where
  "PathEscape s = concat (map (\<lambda>c. if url_unreserved c \<or> c \<in> set ''$&+:=@'' then [c] else percent c) s)"

definition QueryEscape :: "string \<Rightarrow> string" where
  "QueryEscape s = concat (map (\<lambda>c. if url_unreserved c then [c] else if c = CHR '' '' then ''+'' else percent c) s)"

definition BuildTOTPURI :: "string \<Rightarrow> string \<Rightarrow> string \<Rightarrow> string" where
  "BuildTOTPURI username secret issuer =
     ''otpauth://totp/'' @ PathEscape (issuer @ '':'' @ username) @ ''?algorithm=SHA1&digits='' @ itoa (int totpDigits) @
     ''&issuer='' @ QueryEscape issuer @ ''&period='' @ itoa (totpPeriod div Second) @ ''&secret='' @ QueryEscape secret"

text \<open>Go's division of \<^verbatim>\<open>int64\<close> truncates; \<^verbatim>\<open>Unix()\<close> rounds down.\<close>

definition totp_counter :: "time \<Rightarrow> uint64" where
  "totp_counter at = (let u = at div Second in of_int (if u < 0 then - ((- u) div 30) else u div 30))"

definition be_bytes :: "uint64 \<Rightarrow> string" where
  "be_bytes w = map (\<lambda>i. char_of (unat w div 256 ^ (7 - i) mod 256)) [0..<8]"

text \<open>\<^verbatim>\<open>fmt.Sprintf("%06d", n)\<close>.\<close>

definition pad6 :: "nat \<Rightarrow> string" where
  "pad6 n = replicate (6 - length (dec n)) (CHR ''0'') @ dec n"

text \<open>Dynamic truncation of the digest.\<close>

definition totp_truncate :: "string \<Rightarrow> nat" where
  "totp_truncate sm = (let off = byte (List.last sm) mod 16 in be_nat (take 4 (drop off sm)) mod 2 ^ 31)"

text \<open>\<^verbatim>\<open>strings.ToUpper\<close> of the secret is that of ASCII; the secrets the server draws are ASCII.\<close>

definition GenerateTOTPCode :: "(string \<Rightarrow> string \<Rightarrow> string) \<Rightarrow> string \<Rightarrow> time \<Rightarrow> string option" where
  "GenerateTOTPCode hmac secret at =
     (case base32_decode (map ascii_upper (TrimSpace secret)) of
        None \<Rightarrow> None
      | Some key \<Rightarrow> Some (pad6 (totp_truncate (hmac key (be_bytes (totp_counter at))) mod 1000000)))"

definition VerifyTOTPCode :: "(string \<Rightarrow> string \<Rightarrow> string) \<Rightarrow> string \<Rightarrow> string \<Rightarrow> time \<Rightarrow> bool" where
  "VerifyTOTPCode hmac secret code at \<longleftrightarrow>
     length code = totpDigits \<and>
     list_ex (\<lambda>off. GenerateTOTPCode hmac secret (at + off * totpPeriod) = Some code) [-1, 0, 1]"

section \<open>Digits of a number\<close>

abbreviation number :: "nat \<Rightarrow> nat list \<Rightarrow> nat" where
  "number b ds \<equiv> foldl (\<lambda>a d. b * a + d) 0 ds"

definition digits_of :: "nat \<Rightarrow> nat \<Rightarrow> nat \<Rightarrow> nat list" where
  "digits_of b k v = map (\<lambda>i. v div b ^ (k - 1 - i) mod b) [0..<k]"

lemma digits_of_Suc: "digits_of b (Suc k) v = digits_of b k (v div b) @ [v mod b]"
proof -
  have "v div b ^ (k - i) mod b = v div b div b ^ (k - 1 - i) mod b" if "i < k" for i
    using that by (simp add: div_mult2_eq [symmetric] power_Suc [symmetric] Suc_diff_Suc del: power_Suc)
  then show ?thesis by (simp add: digits_of_def)
qed

lemma number_digits: "number b (digits_of b k v) = v mod b ^ k"
  by (induction k arbitrary: v) (simp_all add: digits_of_def [of _ 0] digits_of_Suc mod_mult2_eq)

lemma digits_number: "\<forall>d \<in> set ds. d < b \<Longrightarrow> digits_of b (length ds) (number b ds) = ds"
  by (induction ds rule: rev_induct) (simp_all add: digits_of_def [of _ 0] digits_of_Suc)

lemma number_less: "\<forall>d \<in> set ds. d < b \<Longrightarrow> number b ds < b ^ length ds"
proof (induction ds rule: rev_induct)
  case (snoc d ds)
  then have "number b ds + 1 \<le> b ^ length ds" "d < b" by simp_all
  then have "b * (number b ds + 1) \<le> b * b ^ length ds" by (intro mult_le_mono2)
  with \<open>d < b\<close> show ?case by (simp add: algebra_simps)
qed simp

lemma number_zeros: "number b (ds @ replicate n 0) = b ^ n * number b ds"
  by (induction n) (simp_all add: replicate_append_same [symmetric] append_assoc [symmetric] del: append_assoc)

lemma bytes_bound: "\<forall>d \<in> set (map byte bs). d < 256"
  by (simp add: nat_of_char_less_256)

lemma be_nat_number: "be_nat bs = number 256 (map byte bs)"
  by (simp add: be_nat_def foldl_map)

lemma take_digits: "g \<le> k \<Longrightarrow> take g (digits_of b k v) = map (\<lambda>i. v div b ^ (k - 1 - i) mod b) [0..<g]"
  by (simp add: digits_of_def take_map)

lemma digits_low_zero: "b ^ (k - g) dvd v \<Longrightarrow> g \<le> k \<Longrightarrow> 0 < b \<Longrightarrow> drop g (digits_of b k v) = replicate (k - g) 0"
proof (rule nth_equalityI)
  fix i
  assume dv: "b ^ (k - g) dvd v" and g: "g \<le> k" and b: "0 < b" and "i < length (drop g (digits_of b k v))"
  then have i: "i < k - g" by (simp add: digits_of_def)
  from dv obtain q where v: "v = b ^ (k - g) * q" by (rule dvdE)
  have "b ^ (k - g) = b ^ (k - 1 - (g + i)) * b ^ Suc i"
    using i by (simp add: power_add [symmetric] Suc_diff_Suc del: power_Suc)
  then have "v div b ^ (k - 1 - (g + i)) = b * (b ^ i * q)"
    using b by (simp add: v mult.assoc)
  then have "v div b ^ (k - 1 - (g + i)) mod b = 0" by simp
  moreover have "g + i < k" using i by simp
  ultimately show "drop g (digits_of b k v) ! i = replicate (k - g) 0 ! i"
    using i g by (simp add: digits_of_def)
qed (simp add: digits_of_def)

section \<open>Base32 round trip\<close>

lemma base32_val_char: "v < 32 \<Longrightarrow> base32_val (base32_char v) = Some v"
  by (simp add: base32_val_def base32_char_def)

lemma dec_enc_group:
  assumes n: "length bs \<le> 5" "bs \<noteq> []"
  defines "v \<equiv> be_nat (bs @ replicate (5 - length bs) (char_of (0 :: nat)))"
  shows "dec_group (take (group_digits (length bs)) (digits_of 32 8 v)) = bs"
proof -
  let ?n = "length bs" and ?g = "group_digits (length bs)"
  have len: "?n = 1 \<or> ?n = 2 \<or> ?n = 3 \<or> ?n = 4 \<or> ?n = 5"
  proof -
    have "0 < ?n" using n(2) by simp
    with n(1) show ?thesis by linarith
  qed
  have v: "v = 256 ^ (5 - ?n) * be_nat bs" "v < 256 ^ 5"
    using number_zeros [of 256 "map byte bs" "5 - ?n"]
      number_less [OF bytes_bound [of "bs @ replicate (5 - ?n) (char_of (0 :: nat))"]] n
    by (simp_all add: v_def be_nat_number)
  have g: "?g \<le> 8" "(32 :: nat) ^ (8 - ?g) dvd 256 ^ (5 - ?n)" "group_bytes ?g = ?n"
    using len by (auto simp: group_digits_def group_bytes_def)
  have "take ?g (digits_of 32 8 v) @ replicate (8 - ?g) 0 = digits_of 32 8 v"
    using digits_low_zero [of 32 8 ?g v] g v(1) append_take_drop_id [of ?g "digits_of 32 8 v"] by simp
  moreover have "length (take ?g (digits_of 32 8 v)) = ?g"
    using g(1) by (simp add: digits_of_def)
  moreover have "number 32 (digits_of 32 8 v) = v"
    using v(2) number_digits [of 32 8 v] by simp
  ultimately have "dec_group (take ?g (digits_of 32 8 v)) = map (\<lambda>i. char_of (v div 256 ^ (4 - i) mod 256)) [0..<?n]"
    using g(3) by (simp add: dec_group_def)
  also have "\<dots> = map char_of (take ?n (digits_of 256 5 v))"
    using n(1) by (simp add: take_digits)
  also have "digits_of 256 5 v = map byte (bs @ replicate (5 - ?n) (char_of (0 :: nat)))"
    using digits_number [OF bytes_bound [of "bs @ replicate (5 - ?n) (char_of (0 :: nat))"]] n
    by (simp add: v_def be_nat_number)
  finally show ?thesis by (simp add: comp_def)
qed

lemma enc_group_digits:
  "length bs \<le> 5 \<Longrightarrow> enc_group bs = map base32_char
     (take (group_digits (length bs)) (digits_of 32 8 (be_nat (bs @ replicate (5 - length bs) (char_of (0 :: nat))))))"
  by (simp add: enc_group_def take_digits group_digits_def Let_def)

definition base32_digits :: "string \<Rightarrow> nat list" where
  "base32_digits bs = map (\<lambda>c. the (base32_val c)) (base32_encode bs)"

lemma digits_bound: "d \<in> set (digits_of 32 k v) \<Longrightarrow> d < 32"
  by (auto simp: digits_of_def)

lemma dec_groups_single: "ds \<noteq> [] \<Longrightarrow> length ds \<le> 8 \<Longrightarrow> dec_groups ds = dec_group ds"
  by (simp add: dec_groups.simps [of ds] dec_groups.simps [of "[]"])

lemma dec_groups_append: "length ds = 8 \<Longrightarrow> dec_groups (ds @ r) = dec_group ds @ dec_groups r"
  by (subst dec_groups.simps) auto

lemma base32_encode_digits:
  "base32_encode bs = map base32_char (base32_digits bs) \<and> (\<forall>d \<in> set (base32_digits bs). d < 32) \<and> dec_groups (base32_digits bs) = bs"
proof (induction bs rule: base32_encode.induct)
  case (1 bs)
  show ?case
  proof (cases "bs = []")
    case True
    then show ?thesis by (simp add: base32_digits_def base32_encode.simps dec_groups.simps)
  next
    case False
    let ?t = "take 5 bs"
    let ?ds = "take (group_digits (length ?t)) (digits_of 32 8 (be_nat (?t @ replicate (5 - length ?t) (char_of (0 :: nat)))))"
    have enc: "base32_encode bs = map base32_char ?ds @ base32_encode (drop 5 bs)"
      using False enc_group_digits [of ?t] by (subst base32_encode.simps) simp
    have b: "\<forall>d \<in> set ?ds. d < 32"
      using set_take_subset digits_bound by fast
    then have val: "map (\<lambda>c. the (base32_val c)) (map base32_char ?ds) = ?ds"
      by (simp add: base32_val_char map_idI)
    have ds: "base32_digits bs = ?ds @ base32_digits (drop 5 bs)"
      using val by (simp add: base32_digits_def enc)
    have "dec_groups (base32_digits bs) = bs"
    proof (cases "length bs < 5")
      case True
      then have "base32_digits (drop 5 bs) = []"
        by (simp add: base32_digits_def base32_encode.simps)
      moreover have "0 < length bs" using False by simp
      then have "length ?ds \<le> 8" "0 < length ?ds"
        using True by (simp_all add: digits_of_def group_digits_def div_greater_zero_iff Suc_le_eq)
      then have "length ?ds \<le> 8" "?ds \<noteq> []" by auto
      ultimately show ?thesis
        using dec_enc_group [of ?t] dec_groups_single [of ?ds] True False ds by simp
    next
      case n: False
      then have len: "length ?ds = 8" by (simp add: digits_of_def group_digits_def)
      then have "dec_groups (base32_digits bs) = dec_group ?ds @ dec_groups (base32_digits (drop 5 bs))"
        unfolding ds by (rule dec_groups_append)
      then show ?thesis
        using dec_enc_group [of ?t] 1 False n by simp
    qed
    with enc b 1 False ds show ?thesis
      by auto
  qed
qed

lemma base32_char_ascii:
  "d < 32 \<Longrightarrow> byte (base32_char d) < 0x80 \<and> \<not> IsSpace (byte (base32_char d)) \<and>
     ascii_upper (base32_char d) = base32_char d \<and> byte (base32_char d) \<noteq> 10 \<and> byte (base32_char d) \<noteq> 13"
  by (auto simp: base32_char_def IsSpace_def ascii_upper_def)

lemma utf8_seq_ascii: "\<forall>c \<in> set s. byte c < 0x80 \<Longrightarrow> utf8_seq s = map (\<lambda>c. (byte c, [c])) s"
  by (induction s) (simp_all add: decode_rune_def)

lemma TrimSpace_plain:
  assumes "\<forall>c \<in> set s. byte c < 0x80 \<and> \<not> IsSpace (byte c)"
  shows "TrimSpace s = s"
proof -
  have "dropWhile (IsSpace \<circ> fst) (map (\<lambda>c. (byte c, [c])) s') = map (\<lambda>c. (byte c, [c])) s'" if "set s' \<subseteq> set s" for s'
    using that assms by (cases s') auto
  then have "TrimSpace s = concat (map (\<lambda>c. [c]) s)"
    using assms utf8_seq_ascii [of s] by (simp add: TrimSpace_def rev_map comp_def)
  then show ?thesis by (induction s) simp_all
qed

lemma base32_roundtrip: "base32_decode (map ascii_upper (TrimSpace (base32_encode bs))) = Some bs"
proof -
  let ?s = "base32_encode bs" and ?ds = "base32_digits bs"
  have s: "?s = map base32_char ?ds" and d: "\<forall>d \<in> set ?ds. d < 32" and dec: "dec_groups ?ds = bs"
    using base32_encode_digits [of bs] by simp_all
  have "TrimSpace ?s = ?s"
    using d base32_char_ascii by (intro TrimSpace_plain) (auto simp: s)
  moreover have "map ascii_upper ?s = ?s"
    using d base32_char_ascii by (simp add: s)
  moreover have "filter (\<lambda>c. byte c \<noteq> 10 \<and> byte c \<noteq> 13) ?s = ?s"
    using d base32_char_ascii by (auto simp: s filter_id_conv)
  moreover have "those (map base32_val (map base32_char ds)) = Some ds" if "\<forall>d \<in> set ds. d < 32" for ds
    using that by (induction ds) (simp_all add: base32_val_char)
  then have "those (map base32_val ?s) = Some ?ds"
    using d s by simp
  ultimately show ?thesis
    by (simp add: base32_decode_def dec)
qed

section \<open>Codes are accepted\<close>

lemma length_dec_le: "n < 10 ^ k \<Longrightarrow> 0 < k \<Longrightarrow> length (dec n) \<le> k"
proof (induction k arbitrary: n)
  case (Suc k)
  show ?case
  proof (cases "n < 10")
    case False
    then have "0 < k" using Suc.prems by (cases k) simp_all
    with Suc.IH [of "n div 10"] Suc.prems(1) have "length (dec (n div 10)) \<le> k"
      by (simp add: less_mult_imp_div_less mult.commute)
    with False show ?thesis by (simp add: dec.simps [of n])
  qed (simp add: dec.simps [of n])
qed simp

lemma length_pad6: "n < 1000000 \<Longrightarrow> length (pad6 n) = 6"
  using length_dec_le [of n 6] by (simp add: pad6_def)

lemma code_length: "GenerateTOTPCode hmac secret at = Some code \<Longrightarrow> length code = totpDigits"
  by (auto simp: GenerateTOTPCode_def length_pad6 totpDigits_def split: option.splits)

text \<open>The code depends on the half-minute only.\<close>

lemma counter_step: "0 \<le> at \<Longrightarrow> totp_counter at = of_int (at div totpPeriod)"
proof -
  assume "0 \<le> at"
  moreover have "at div Second div 30 = at div totpPeriod"
    by (simp add: totpPeriod_def mult.commute zdiv_zmult2_eq Second_def)
  ultimately show ?thesis
    by (simp add: totp_counter_def Let_def Second_def pos_imp_zdiv_neg_iff)
qed

lemma code_of_counter:
  "totp_counter a = totp_counter b \<Longrightarrow> GenerateTOTPCode hmac secret a = GenerateTOTPCode hmac secret b"
  by (simp add: GenerateTOTPCode_def split: option.split)

lemma near_step:
  fixes a b p :: int
  assumes "0 < p" and "\<bar>a - b\<bar> \<le> p"
  shows "\<exists>k \<in> {-1, 0, 1}. a div p = (b + k * p) div p"
proof -
  have "a \<le> b + p" "b - p \<le> a" using assms(2) by linarith+
  then have "a div p \<le> (b + p) div p" "(b - p) div p \<le> a div p"
    using assms(1) by (intro zdiv_mono1; simp)+
  moreover have "(b + k * p) div p = b div p + k" for k
    using assms(1) by simp
  from this [of 1] this [of "-1"] have "(b + p) div p = b div p + 1" "(b - p) div p = b div p - 1"
    by simp_all
  ultimately have "a div p = b div p - 1 \<or> a div p = b div p \<or> a div p = b div p + 1"
    by linarith
  with \<open>\<And>k. (b + k * p) div p = b div p + k\<close> show ?thesis
    by (metis add_0_right diff_conv_add_uminus insertCI)
qed

text \<open>
  C27: an enrolled secret works. For the secret made from any random bytes, the code of
  any moment is accepted at every moment up to half a minute earlier or later (so a
  client whose clock is off by at most 30 seconds can log in), and what the server
  decodes from the secret is the key it drew.
\<close>
theorem secret_codes_accepted:
  assumes "GenerateTOTPSecret (Some raw) = Some secret"
    and "0 \<le> t" and "totpPeriod \<le> now" and "\<bar>t - now\<bar> \<le> 30 * Second"
  shows "base32_decode (map ascii_upper (TrimSpace secret)) = Some raw
    \<and> (\<exists>code. GenerateTOTPCode hmac secret t = Some code \<and> VerifyTOTPCode hmac secret code now)"
proof -
  have sec: "base32_decode (map ascii_upper (TrimSpace secret)) = Some raw"
    using assms(1) by (auto simp: GenerateTOTPSecret_def base32_roundtrip)
  then obtain code where code: "GenerateTOTPCode hmac secret t = Some code"
    by (simp add: GenerateTOTPCode_def)
  have p: "0 < totpPeriod" by (simp add: totpPeriod_def)
  obtain k where k: "k \<in> {-1, 0, 1 :: int}" "t div totpPeriod = (now + k * totpPeriod) div totpPeriod"
    using near_step [OF p, of t now] assms(4) unfolding totpPeriod_def by blast
  have "0 \<le> now + k * totpPeriod"
    using k(1) assms(3) p by auto
  then have "totp_counter t = totp_counter (now + k * totpPeriod)"
    using k(2) assms(2) by (simp add: counter_step)
  then have "GenerateTOTPCode hmac secret (now + k * totpPeriod) = Some code"
    using code code_of_counter by metis
  then have "VerifyTOTPCode hmac secret code now"
    using k(1) code_length [OF code] by (auto simp: VerifyTOTPCode_def)
  with sec code show ?thesis by blast
qed

theorem secret_codes_accepted_witness:
  "\<exists>code. GenerateTOTPCode (\<lambda>k m. k @ m) (base32_encode ''owncord'') (1000 * Second) = Some code
     \<and> VerifyTOTPCode (\<lambda>k m. k @ m) (base32_encode ''owncord'') code (1030 * Second)"
  using secret_codes_accepted [of "''owncord''" "base32_encode ''owncord''" "1000 * Second" "1030 * Second" "\<lambda>k m. k @ m"]
  by (simp add: GenerateTOTPSecret_def totpPeriod_def Second_def)

section \<open>A half-finished login is used at most once\<close>

text \<open>
  The calls the handlers make on the store, in any order: logins that issue challenges,
  and attempts with a token. \<open>five\<close> is the number of failures \<^verbatim>\<open>handleVerifyTOTP\<close> allows.
\<close>

datatype partial_op =
    OpIssue "string option" int64 string string time time
  | OpLookup string time
  | OpConsume string time
  | OpFail string int time

primrec partial_step :: "partial_op \<Rightarrow> PartialAuthStore \<Rightarrow> PartialAuthStore" where
  "partial_step (OpIssue raw u d i t0 t1) s = snd (Issue raw u d i s t0 t1)"
| "partial_step (OpLookup tk t) s = snd (Lookup tk s t)"
| "partial_step (OpConsume tk t) s = snd (Consume tk s t)"
| "partial_step (OpFail tk n t) s = snd (RegisterFailure tk n s t)"

abbreviation challenge :: "PartialAuthStore \<Rightarrow> string \<Rightarrow> PartialAuthChallenge option" where
  "challenge s tk \<equiv> Mapping.lookup (ps_entries s) tk"

text \<open>The successful attempts, and the wrong codes counted, for a token during a run.\<close>

fun logins :: "string \<Rightarrow> partial_op list \<Rightarrow> PartialAuthStore \<Rightarrow> nat" where
  "logins tk [] s = 0"
| "logins tk (e # es) s =
     (case e of OpConsume k t \<Rightarrow> if k = tk \<and> fst (Consume k s t) \<noteq> None then 1 else 0 | _ \<Rightarrow> 0) +
     logins tk es (partial_step e s)"

fun wrong_codes :: "string \<Rightarrow> partial_op list \<Rightarrow> PartialAuthStore \<Rightarrow> nat" where
  "wrong_codes tk [] s = 0"
| "wrong_codes tk (e # es) s =
     (case e of OpFail k n t \<Rightarrow> if k = tk \<and> challenge (partial_cleanup s t) k \<noteq> None then 1 else 0 | _ \<Rightarrow> 0) +
     wrong_codes tk es (partial_step e s)"

definition issues :: "string \<Rightarrow> partial_op \<Rightarrow> bool" where
  "issues tk e = (case e of OpIssue raw u d i t0 t1 \<Rightarrow> map_option hexEncode raw = Some tk | _ \<Rightarrow> False)"

definition fail_limit :: "nat \<Rightarrow> partial_op \<Rightarrow> bool" where
  "fail_limit m e = (case e of OpFail k n t \<Rightarrow> n = int m | _ \<Rightarrow> True)"

lemma cleanup_challenge:
  "challenge (partial_cleanup s t) tk = (case challenge s tk of Some e \<Rightarrow> if pc_ExpiresAt e < t then None else Some e | None \<Rightarrow> None)"
  by (simp add: partial_cleanup_def lookup_filter split: option.split)

lemma lookup_delete_if: "Mapping.lookup (Mapping.delete k m) k' = (if k = k' then None else Mapping.lookup m k')"
  by simp

text \<open>What a step leaves of a challenge: it may vanish, and only a counted failure changes it.\<close>

lemma step_challenge:
  assumes "\<not> issues tk e"
  shows "challenge (partial_step e s) tk \<in>
    {None, challenge s tk} \<union> (case e of OpFail k n t \<Rightarrow> (if k = tk then
       (\<lambda>c. Some (c\<lparr>pc_Failures := pc_Failures c + 1\<rparr>)) ` {c. challenge s tk = Some c \<and> pc_Failures c + 1 < n} else {}) | _ \<Rightarrow> {})"
  using assms
  by (cases e) (auto simp: Issue_def Lookup_def Consume_def RegisterFailure_def Let_def cleanup_challenge issues_def
    lookup_update' lookup_delete_if split: option.splits if_splits)

definition budget :: "nat \<Rightarrow> PartialAuthChallenge option \<Rightarrow> nat" where
  "budget m c = (case c of None \<Rightarrow> 0 | Some c \<Rightarrow> m - nat (pc_Failures c))"

definition counted :: "nat \<Rightarrow> PartialAuthChallenge option \<Rightarrow> bool" where
  "counted m c = (case c of None \<Rightarrow> True | Some c \<Rightarrow> 0 \<le> pc_Failures c \<and> pc_Failures c < int m)"

lemma step_counted:
  assumes "\<not> issues tk e" and "fail_limit m e" and "counted m (challenge s tk)"
  shows "counted m (challenge (partial_step e s) tk)"
  using step_challenge [OF assms(1), of s] assms(2,3)
  by (cases e) (auto simp: counted_def fail_limit_def split: if_splits option.splits)

text \<open>An attempt uses up the budget: a login all of it, a wrong code one unit.\<close>

lemma step_budget:
  assumes "\<not> issues tk e" and "fail_limit m e" and "counted m (challenge s tk)"
  shows "budget m (challenge (partial_step e s) tk) + wrong_codes tk [e] s + (if 0 < logins tk [e] s then 1 else 0)
     \<le> budget m (challenge s tk)
    \<and> (0 < logins tk [e] s \<longrightarrow> challenge (partial_step e s) tk = None)
    \<and> logins tk [e] s \<le> (if challenge s tk = None then 0 else 1)"
  using assms
  by (cases e) (auto simp: Issue_def Lookup_def Consume_def RegisterFailure_def Let_def cleanup_challenge issues_def
    lookup_update' lookup_delete_if budget_def counted_def fail_limit_def split: option.splits if_splits)

lemma attempts_budget:
  assumes "\<forall>e \<in> set es. \<not> issues tk e \<and> fail_limit m e" and "counted m (challenge s tk)"
  shows "wrong_codes tk es s + logins tk es s \<le> budget m (challenge s tk)
    \<and> logins tk es s \<le> (if challenge s tk = None then 0 else 1)"
  using assms
proof (induction es arbitrary: s)
  case (Cons e es)
  let ?s = "partial_step e s"
  have e: "\<not> issues tk e" "fail_limit m e" using Cons.prems(1) by simp_all
  have IH: "wrong_codes tk es ?s + logins tk es ?s \<le> budget m (challenge ?s tk)"
    "logins tk es ?s \<le> (if challenge ?s tk = None then 0 else 1)"
    using Cons.IH [of ?s] Cons.prems step_counted [OF e Cons.prems(2)] by simp_all
  have split: "logins tk (e # es) s = logins tk [e] s + logins tk es ?s"
    "wrong_codes tk (e # es) s = wrong_codes tk [e] s + wrong_codes tk es ?s"
    by simp_all
  have gone: "challenge ?s tk = None" if "challenge s tk = None"
    using step_challenge [OF e(1), of s] that by (auto split: partial_op.splits if_splits)
  show ?case
    unfolding split using step_budget [OF e Cons.prems(2)] IH gone
    by (cases "logins tk [e] s = 0") (auto split: if_splits)
qed simp

lemma steps_expiry:
  assumes "\<forall>e \<in> set es. \<not> issues tk e" and "\<forall>c. challenge s tk = Some c \<longrightarrow> pc_ExpiresAt c = x"
  shows "\<forall>c. challenge (fold partial_step es s) tk = Some c \<longrightarrow> pc_ExpiresAt c = x"
  using assms
proof (induction es arbitrary: s)
  case (Cons e es)
  have "\<forall>c. challenge (partial_step e s) tk = Some c \<longrightarrow> pc_ExpiresAt c = x"
    using step_challenge [of tk e s] Cons.prems by (auto split: partial_op.splits if_splits)
  with Cons show ?case by simp
qed simp

text \<open>
  C28: a two-factor challenge bounds its attempts. However the calls of concurrent
  requests on the store are interleaved after a challenge was issued, its token logs in
  at most once, at most five wrong codes are counted against it, a login leaves room for
  at most four of them, and ten minutes later the token is dead.
\<close>
theorem challenge_attempts_bounded:
  assumes "Issue (Some raw) u d i s0 t0 t1 = (Some tk, s)"
    and "\<forall>e \<in> set es. \<not> issues tk e \<and> fail_limit 5 e"
  shows "logins tk es s \<le> 1 \<and> wrong_codes tk es s \<le> 5 \<and> (logins tk es s = 1 \<longrightarrow> wrong_codes tk es s \<le> 4)
    \<and> (\<forall>t > t1 + ps_ttl s0. fst (Consume tk (fold partial_step es s) t) = None)"
proof -
  obtain c where c: "challenge s tk = Some c" "pc_Failures c = 0" "pc_ExpiresAt c = t1 + ps_ttl s0"
    using assms(1) by (auto simp: Issue_def Let_def)
  then have "wrong_codes tk es s + logins tk es s \<le> 5" "logins tk es s \<le> 1"
    using attempts_budget [OF assms(2), of s] by (simp_all add: counted_def budget_def)
  moreover have "\<forall>c. challenge (fold partial_step es s) tk = Some c \<longrightarrow> pc_ExpiresAt c = t1 + ps_ttl s0"
    using steps_expiry [of es tk s] assms(2) c by simp
  ultimately show ?thesis
    by (auto simp: Consume_def Let_def cleanup_challenge split: option.splits)
qed

text \<open>Four wrong codes, a login, and a second login that fails.\<close>

theorem challenge_attempts_bounded_witness:
  "logins ''6162'' (replicate 4 (OpFail ''6162'' 5 20) @ [OpConsume ''6162'' 30, OpConsume ''6162'' 40])
     (snd (Issue (Some ''ab'') 1 [] [] (NewPartialAuthStore partialTokenTTL) 0 10)) \<le> 1"
proof -
  have "Issue (Some ''ab'') 1 [] [] (NewPartialAuthStore partialTokenTTL) 0 10 =
      (Some ''6162'', snd (Issue (Some ''ab'') 1 [] [] (NewPartialAuthStore partialTokenTTL) 0 10))"
    by (simp add: Issue_def Let_def hexEncode_def hex_digit_def char_of_def bit_0)
  from challenge_attempts_bounded [OF this,
      of "replicate 4 (OpFail ''6162'' 5 20) @ [OpConsume ''6162'' 30, OpConsume ''6162'' 40]"]
  show ?thesis
    by (simp add: issues_def fail_limit_def del: logins.simps)
qed

end
