(* ===== verification/Storage.thy ===== *)
theory Storage
  imports GoNet
begin

text \<open>
  Uploaded files, \<^verbatim>\<open>storage/storage.go\<close>, on the lexical path functions of \<^verbatim>\<open>path/filepath\<close>
  (Unix separators). The disk is a map from absolute paths to contents. What the
  operating system may refuse is an argument: reading the upload, creating, writing and
  removing a file.
\<close>

section \<open>Paths\<close>

abbreviation slash :: char where "slash \<equiv> CHR ''/''"

text \<open>The elements of a cleaned path, innermost first; \<^verbatim>\<open>..\<close> goes up, or stays in front of a relative path.\<close>

fun clean_elems :: "bool \<Rightarrow> string list \<Rightarrow> string list \<Rightarrow> string list" where
  "clean_elems rooted acc [] = acc"
| "clean_elems rooted acc (e # es) =
     (if e = [] \<or> e = ''.'' then clean_elems rooted acc es
      else if e = ''..'' then
        (case acc of
           [] \<Rightarrow> clean_elems rooted (if rooted then [] else [e]) es
         | a # as \<Rightarrow> if a = ''..'' then clean_elems rooted (e # acc) es else clean_elems rooted as es)
      else clean_elems rooted (e # acc) es)"

fun join_with :: "string \<Rightarrow> string list \<Rightarrow> string" where
  "join_with sep [] = []"
| "join_with sep [x] = x"
| "join_with sep (x # y # xs) = x @ sep @ join_with sep (y # xs)"

definition is_rooted :: "string \<Rightarrow> bool" where
  "is_rooted p \<longleftrightarrow> p \<noteq> [] \<and> hd p = slash"

definition Clean :: "string \<Rightarrow> string" where
  "Clean p =
     (let body = join_with [slash] (rev (clean_elems (is_rooted p) [] (split_on slash p)))
      in if is_rooted p then slash # body else if body = [] then ''.'' else body)"

definition Join2 :: "string \<Rightarrow> string \<Rightarrow> string" where
  "Join2 a b = (if a = [] then (if b = [] then [] else Clean b) else Clean (a @ slash # b))"

definition Base :: "string \<Rightarrow> string" where
  "Base p =
     (if p = [] then ''.''
      else let p' = rev (dropWhile (\<lambda>c. c = slash) (rev p))
           in if p' = [] then [slash] else rev (takeWhile (\<lambda>c. c \<noteq> slash) (rev p')))"

text \<open>\<^verbatim>\<open>filepath.Abs\<close> in working directory \<open>cwd\<close>; \<open>None\<close> when the working directory is unknown.\<close>

definition Abs :: "string option \<Rightarrow> string \<Rightarrow> string option" where
  "Abs cwd p = (if is_rooted p then Some (Clean p) else map_option (\<lambda>d. Join2 d p) cwd)"

section \<open>Names and types\<close>

record Storage =
  st_dir :: string
  st_maxSizeMB :: int

datatype storage_error =
    InvalidFilename | DirUnresolved | PathEscapes | ReadFailed | BlockedType string | CreateFailed | WriteFailed | TooLarge | NoFile

definition sanitizeFilename :: "string \<Rightarrow> storage_error option" where
  "sanitizeFilename name =
     (if name = [] then Some InvalidFilename
      else if Base name \<noteq> name then Some InvalidFilename
      else if name = ''.'' \<or> name = ''..'' then Some InvalidFilename
      else if hasPrefix name ''.'' then Some InvalidFilename
      else if slash \<in> set name \<or> CHR 0x5C \<in> set name then Some InvalidFilename
      else None)"

definition resolvedPath :: "string option \<Rightarrow> Storage \<Rightarrow> string \<Rightarrow> storage_error + string" where
  "resolvedPath cwd s name =
     (case Abs cwd (st_dir s) of
        None \<Rightarrow> Inl DirUnresolved
      | Some absDir \<Rightarrow>
          (let target = Join2 absDir name
           in if \<not> hasPrefix target (absDir @ [slash]) \<and> target \<noteq> absDir then Inl PathEscapes else Inr target))"

definition blockedMagic :: "(string \<times> string) list" where
  "blockedMagic = [(''PE executable'', ''MZ''), (''ELF binary'', [CHR 0x7F] @ ''ELF''),
     (''Mach-O 64'', [CHR 0xCF, CHR 0xFA, CHR 0xED, CHR 0xFE]), (''Mach-O 32'', [CHR 0xCE, CHR 0xFA, CHR 0xED, CHR 0xFE]),
     (''shell script'', ''#!'')]"

definition ValidateFileType :: "string \<Rightarrow> storage_error option" where
  "ValidateFileType header =
     (case List.find (\<lambda>(name, magic). length magic \<le> length header \<and> take (length magic) header = magic) blockedMagic of
        None \<Rightarrow> None | Some (name, _) \<Rightarrow> Some (BlockedType name))"

section \<open>Operations\<close>

text \<open>
  What fails below the package: reading the stream, creating the file, writing after some
  bytes, removing the file.
\<close>

record disk_faults =
  df_read :: bool
  df_create :: bool
  df_write :: "nat option"
  df_remove :: bool

type_synonym disk = "(string, string) mapping"

definition MB :: int where "MB = 1024 * 1024"

definition target_path :: "string option \<Rightarrow> Storage \<Rightarrow> string \<Rightarrow> storage_error + string" where
  "target_path cwd s uuid = (case sanitizeFilename uuid of Some e \<Rightarrow> Inl e | None \<Rightarrow> resolvedPath cwd s uuid)"

text \<open>
  \<open>io.LimitReader\<close> with a bound that is not positive reads nothing; then the file is
  complete only when there is nothing more to read.
\<close>

definition Save :: "string option \<Rightarrow> Storage \<Rightarrow> disk_faults \<Rightarrow> string \<Rightarrow> string \<Rightarrow> disk \<Rightarrow> (storage_error + unit) \<times> disk" where
  "Save cwd s df uuid content disk =
     (case target_path cwd s uuid of
        Inl e \<Rightarrow> (Inl e, disk)
      | Inr dst \<Rightarrow>
          if df_read df then (Inl ReadFailed, disk)
          else case ValidateFileType (take 8 content) of
            Some e \<Rightarrow> (Inl e, disk)
          | None \<Rightarrow>
              if df_create df then (Inl CreateFailed, disk)
              else let maxBytes = st_maxSizeMB s * MB; data = take (nat maxBytes) content in
                case df_write df of
                  Some k \<Rightarrow> (Inl WriteFailed, Mapping.update dst (take k data) disk)
                | None \<Rightarrow>
                    if int (length data) = maxBytes \<and> length data < length content
                    then (Inl TooLarge, if df_remove df then Mapping.update dst data disk else Mapping.delete dst disk)
                    else (Inr (), Mapping.update dst data disk))"

definition DeleteFile :: "string option \<Rightarrow> Storage \<Rightarrow> disk_faults \<Rightarrow> string \<Rightarrow> disk \<Rightarrow> (storage_error + unit) \<times> disk" where
  "DeleteFile cwd s df uuid disk =
     (case target_path cwd s uuid of
        Inl e \<Rightarrow> (Inl e, disk)
      | Inr dst \<Rightarrow>
          if Mapping.lookup disk dst = None \<or> df_remove df then (Inl NoFile, disk)
          else (Inr (), Mapping.delete dst disk))"

definition OpenFile :: "string option \<Rightarrow> Storage \<Rightarrow> string \<Rightarrow> disk \<Rightarrow> storage_error + string" where
  "OpenFile cwd s uuid disk =
     (case target_path cwd s uuid of
        Inl e \<Rightarrow> Inl e
      | Inr dst \<Rightarrow> (case Mapping.lookup disk dst of None \<Rightarrow> Inl NoFile | Some c \<Rightarrow> Inr c))"

section \<open>Cleaned paths\<close>

text \<open>An element of a cleaned path of a rooted directory.\<close>

definition plain :: "string \<Rightarrow> bool" where
  "plain e \<longleftrightarrow> e \<noteq> [] \<and> e \<noteq> ''.'' \<and> e \<noteq> ''..'' \<and> slash \<notin> set e"

lemma split_on_no: "c \<notin> set s \<Longrightarrow> split_on c s = [s]"
  by (induction s) auto

lemma split_on_append: "c \<notin> set a \<Longrightarrow> split_on c (a @ c # b) = a # split_on c b"
  by (induction a) auto

lemma split_on_nonempty [simp]: "split_on c s \<noteq> []"
  by (cases s) (auto split: list.split)

lemma split_on_elems: "e \<in> set (split_on c s) \<Longrightarrow> c \<notin> set e"
proof (induction s arbitrary: e)
  case (Cons x xs)
  obtain w ws where w: "split_on c xs = w # ws" by (cases "split_on c xs") auto
  with Cons show ?case by (cases "x = c") auto
qed simp

lemma split_on_snoc: "split_on c (a @ c # b) = split_on c a @ split_on c b"
proof (induction a)
  case (Cons x a)
  obtain w ws where "split_on c a = w # ws" by (cases "split_on c a") auto
  with Cons show ?case by simp
qed simp

lemma clean_elems_plain:
  "\<forall>e \<in> set es. slash \<notin> set e \<Longrightarrow> \<forall>e \<in> set acc. plain e \<Longrightarrow> \<forall>e \<in> set (clean_elems True acc es). plain e"
proof (induction es arbitrary: acc)
  case (Cons e es)
  have es: "\<forall>e \<in> set es. slash \<notin> set e" using Cons.prems(1) by simp
  consider "e = [] \<or> e = ''.''" | "e = ''..''" "acc = []" | a as where "e = ''..''" "acc = a # as" | "plain e"
    using Cons.prems(1) by (cases acc) (auto simp: plain_def)
  then show ?case
  proof cases
    case 3
    have "a \<noteq> ''..''" using Cons.prems(2) unfolding 3(2) by (simp add: plain_def)
    then have "clean_elems True acc (e # es) = clean_elems True as es" unfolding 3 by simp
    moreover have "\<forall>e \<in> set as. plain e" using Cons.prems(2) unfolding 3(2) by simp
    ultimately show ?thesis using Cons.IH [OF es] by metis
  next
    case 4
    then have "clean_elems True acc (e # es) = clean_elems True (e # acc) es" by (simp add: plain_def)
    moreover have "\<forall>x \<in> set (e # acc). plain x" using 4 Cons.prems(2) by simp
    ultimately show ?thesis using Cons.IH [OF es] by metis
  qed (use Cons.IH [of acc] Cons.prems(2) es in simp_all)
qed simp

lemma clean_elems_id: "\<forall>e \<in> set es. plain e \<Longrightarrow> clean_elems r acc es = rev es @ acc"
  by (induction es arbitrary: acc) (auto simp: plain_def)

lemma split_join: "\<forall>e \<in> set es. c \<notin> set e \<Longrightarrow> es \<noteq> [] \<Longrightarrow> split_on c (join_with [c] es) = es"
  by (induction "[c]" es rule: join_with.induct) (simp_all add: split_on_no split_on_append)

lemma join_with_snoc: "es \<noteq> [] \<Longrightarrow> join_with sep (es @ [e]) = join_with sep es @ sep @ e"
  by (induction sep es rule: join_with.induct) simp_all

text \<open>A rooted path is the join of plain elements once it is cleaned.\<close>

lemma Clean_rooted:
  assumes "is_rooted p"
  obtains es where "Clean p = slash # join_with [slash] es" and "\<forall>e \<in> set es. plain e"
proof
  show "Clean p = slash # join_with [slash] (rev (clean_elems True [] (split_on slash p)))"
    using assms by (simp add: Clean_def)
  show "\<forall>e \<in> set (rev (clean_elems True [] (split_on slash p))). plain e"
    using clean_elems_plain [of "split_on slash p" "[]"] split_on_elems by auto
qed

lemma Join_plain:
  assumes "\<forall>e \<in> set es. plain e" and "plain name"
  shows "Join2 (slash # join_with [slash] es) name = slash # join_with [slash] (es @ [name])"
proof -
  let ?p = "slash # join_with [slash] es"
  have es: "clean_elems True [] (split_on slash (join_with [slash] es)) = rev es"
  proof (cases "es = []")
    case False
    then show ?thesis
      using split_join [of es] assms(1) clean_elems_id [of es True "[]"] by (simp add: plain_def)
  qed simp
  have cl: "clean_elems r acc (xs @ ys) = clean_elems r (clean_elems r acc xs) ys" for r acc xs ys
    by (induction r acc xs rule: clean_elems.induct) (auto split: list.split)
  have "split_on slash (?p @ slash # name) = [] # split_on slash (join_with [slash] es) @ [name]"
    using assms(2) split_on_no [of slash name] by (simp add: plain_def split_on_snoc)
  then have "clean_elems True [] (split_on slash (?p @ slash # name)) = name # rev es"
    using es assms(2) by (simp add: cl plain_def)
  then show ?thesis
    by (simp add: Join2_def Clean_def is_rooted_def)
qed

lemma sanitized_plain: "sanitizeFilename name = None \<Longrightarrow> plain name"
  by (auto simp: sanitizeFilename_def plain_def split: if_splits)

text \<open>The working directory is absolute, so an absolute storage directory is rooted.\<close>

lemma Abs_rooted: "Abs cwd p = Some d \<Longrightarrow> (\<And>c. cwd = Some c \<Longrightarrow> is_rooted c) \<Longrightarrow>
  \<exists>es. d = slash # join_with [slash] es \<and> (\<forall>e \<in> set es. plain e)"
proof -
  assume d: "Abs cwd p = Some d" and r: "\<And>c. cwd = Some c \<Longrightarrow> is_rooted c"
  have "is_rooted p \<and> d = Clean p \<or> (\<exists>c. is_rooted (c @ slash # p) \<and> d = Clean (c @ slash # p))"
    using d r by (auto simp: Abs_def Join2_def is_rooted_def split: if_splits intro!: exI [of _ "the cwd"])
  then show ?thesis by (metis Clean_rooted)
qed

lemma target_inside:
  assumes "target_path cwd s name = Inr dst" and "\<And>c. cwd = Some c \<Longrightarrow> is_rooted c"
  shows "\<exists>d. Abs cwd (st_dir s) = Some d \<and> dst = d @ slash # name \<and> plain name"
proof -
  have p: "plain name" and res: "resolvedPath cwd s name = Inr dst"
    using assms(1) sanitized_plain by (auto simp: target_path_def split: option.splits)
  then obtain d where d: "Abs cwd (st_dir s) = Some d" "dst = Join2 d name"
      "hasPrefix dst (d @ [slash]) \<or> dst = d"
    by (auto simp: resolvedPath_def Let_def split: option.splits if_splits)
  obtain es where es: "d = slash # join_with [slash] es" "\<forall>e \<in> set es. plain e"
    using Abs_rooted [OF d(1) assms(2)] by blast
  have dst: "dst = slash # join_with [slash] (es @ [name])"
    using Join_plain [OF es(2) p] d(2) es(1) by simp
  show ?thesis
  proof (cases "es = []")
    case True
    then have "take 1 name = [slash]" using dst es(1) d(3) p by (auto simp: hasPrefix_def plain_def)
    then show ?thesis using p by (cases name) (auto simp: plain_def)
  next
    case False
    with dst es d p show ?thesis by (simp add: join_with_snoc)
  qed
qed

section \<open>What an upload leaves behind\<close>

text \<open>
  C29: uploads stay in the storage directory and come back unchanged. A successful save
  stores exactly the uploaded bytes, under the storage directory's own path and the given
  name, an upload that can be opened again; it starts with none of the blocked
  signatures and respects the size limit; and a save that is refused before the file is
  created leaves the disk as it was. No save touches any other path.
\<close>
theorem save_open:
  assumes "\<And>c. cwd = Some c \<Longrightarrow> is_rooted c" and "Save cwd s df uuid content disk = (r, disk')"
  shows "(r = Inr () \<and> 0 \<le> st_maxSizeMB s \<longrightarrow> OpenFile cwd s uuid disk' = Inr content
      \<and> int (length content) \<le> st_maxSizeMB s * 1024 * 1024
      \<and> (\<forall>(n, m) \<in> set blockedMagic. take (length m) content \<noteq> m))
    \<and> (\<forall>e. r = Inl e \<and> e \<notin> {WriteFailed, TooLarge} \<longrightarrow> disk' = disk)
    \<and> (\<forall>p. Mapping.lookup disk' p \<noteq> Mapping.lookup disk p \<longrightarrow>
        (\<exists>d. Abs cwd (st_dir s) = Some d \<and> p = d @ slash # uuid \<and> slash \<notin> set uuid \<and> hd uuid \<noteq> CHR ''.''))"
proof (cases "target_path cwd s uuid")
  case (Inl e)
  with assms(2) show ?thesis by (auto simp: Save_def)
next
  case (Inr dst)
  obtain d where d: "Abs cwd (st_dir s) = Some d" "dst = d @ slash # uuid" "plain uuid"
    using target_inside [OF Inr assms(1)] by blast
  have dot: "hd uuid \<noteq> CHR ''.''"
    using Inr by (cases uuid) (auto simp: target_path_def sanitizeFilename_def hasPrefix_def split: option.splits if_splits)
  have other: "Mapping.lookup disk' p = Mapping.lookup disk p" if "p \<noteq> dst" for p
    using assms(2) Inr that by (auto simp: Save_def Let_def split: if_splits option.splits)
  have magic: "take (length m) content \<noteq> m" if "ValidateFileType (take 8 content) = None" "(n, m) \<in> set blockedMagic" for n m
  proof -
    have "length m \<le> 8" using that(2) by (auto simp: blockedMagic_def)
    moreover have "\<not> (length m \<le> length (take 8 content) \<and> take (length m) (take 8 content) = m)"
      using that by (fastforce simp: ValidateFileType_def find_None split: option.splits)
    moreover have "length m \<le> length content" if "take (length m) content = m"
      using arg_cong [OF that, of length] by simp
    ultimately show ?thesis by (auto simp: min_def split: if_splits)
  qed
  have saved: "OpenFile cwd s uuid disk' = Inr content \<and> int (length content) \<le> st_maxSizeMB s * MB \<and>
      ValidateFileType (take 8 content) = None"
    if "r = Inr ()" "0 \<le> st_maxSizeMB s"
  proof -
    have "disk' = Mapping.update dst (take (nat (st_maxSizeMB s * MB)) content) disk"
      and "\<not> (int (length (take (nat (st_maxSizeMB s * MB)) content)) = st_maxSizeMB s * MB \<and>
        length (take (nat (st_maxSizeMB s * MB)) content) < length content)"
      and "ValidateFileType (take 8 content) = None"
      using assms(2) Inr that(1) by (auto simp: Save_def Let_def split: if_splits option.splits)
    moreover from this(2) that(2) have "int (length content) \<le> st_maxSizeMB s * MB"
      by (auto simp: MB_def min_def split: if_splits)
    ultimately show ?thesis
      using Inr by (simp add: OpenFile_def nat_le_iff le_nat_iff)
  qed
  have refused: "disk' = disk" if "r = Inl e" "e \<notin> {WriteFailed, TooLarge}" for e
    using assms(2) Inr that by (auto simp: Save_def Let_def split: if_splits option.splits)
  show ?thesis
  proof (intro conjI allI impI)
    show "\<exists>d. Abs cwd (st_dir s) = Some d \<and> p = d @ slash # uuid \<and> slash \<notin> set uuid \<and> hd uuid \<noteq> CHR ''.''"
      if "Mapping.lookup disk' p \<noteq> Mapping.lookup disk p" for p
      using that other d dot by (metis plain_def)
    show "\<forall>(n, m) \<in> set blockedMagic. take (length m) content \<noteq> m" if "r = Inr () \<and> 0 \<le> st_maxSizeMB s"
      using saved that magic by blast
  qed (use saved refused in \<open>auto simp: MB_def\<close>)
qed

theorem save_open_witness:
  "let st = \<lparr>st_dir = ''/data/uploads'', st_maxSizeMB = 1\<rparr>;
       df = \<lparr>df_read = False, df_create = False, df_write = None, df_remove = False\<rparr>;
       (r, disk') = Save None st df ''a1'' ''hello'' Mapping.empty
   in r = Inr () \<and> OpenFile None st ''a1'' disk' = Inr ''hello''"
proof -
  let ?st = "\<lparr>st_dir = ''/data/uploads'', st_maxSizeMB = 1\<rparr>"
  let ?df = "\<lparr>df_read = False, df_create = False, df_write = None, df_remove = False\<rparr>"
  have "target_path None ?st ''a1'' = Inr ''/data/uploads/a1''"
    by (simp add: target_path_def sanitizeFilename_def resolvedPath_def Abs_def Base_def Clean_def Join2_def is_rooted_def hasPrefix_def)
  then have "Save None ?st ?df ''a1'' ''hello'' Mapping.empty =
      (Inr (), Mapping.update ''/data/uploads/a1'' ''hello'' Mapping.empty)"
    by (simp add: Save_def ValidateFileType_def blockedMagic_def MB_def Let_def)
  with save_open [of None ?st ?df "''a1''" "''hello''" Mapping.empty] show ?thesis
    by simp
qed

end
