(* ===== verification/Updater.thy ===== *)
theory Updater
  imports Storage Json
begin

text \<open>
  Updates, \<^verbatim>\<open>updater/updater.go\<close>: the check for a release with its two caches, the scan of the release's
  assets, and the download with its checksum. The network, the parser of URLs, the order of
  semantic versions (\<^verbatim>\<open>golang.org/x/mod/semver\<close>) and SHA-256 are arguments.
\<close>

section \<open>The network\<close>

text \<open>A reply: its status and body, and whether the connection broke after it.\<close>

record http_reply =
  hr_status :: nat
  hr_body :: string
  hr_broken :: bool

text \<open>
  \<open>wb_get url auth\<close> is the reply to a GET with that \<^verbatim>\<open>Authorization\<close> header; \<open>wb_host url\<close> the host name
  of a URL in lower case, \<open>None\<close> for one that does not parse.
\<close>

record web =
  wb_get :: "string \<Rightarrow> string option \<Rightarrow> http_reply option"
  wb_host :: "string \<Rightarrow> string option"
  wb_compare :: "string \<Rightarrow> string \<Rightarrow> int"

section \<open>State\<close>

record Asset =
  as_Name :: string
  as_DownloadURL :: string

record UpdateInfo =
  ui_Current :: string
  ui_Latest :: string
  ui_UpdateAvailable :: bool
  ui_ReleaseURL :: string
  ui_DownloadURL :: string
  ui_ChecksumURL :: string
  ui_ReleaseNotes :: string
  ui_Assets :: "Asset list"

record ClientAssets =
  ca_InstallerURL :: string
  ca_SignatureURL :: string

datatype update_error =
    Unreachable | BadStatus nat | BadRelease | NotAllowed string | NotListed string | CannotCreate | CannotWrite
  | OverLimit | CannotOpen | Mismatch string string

record Updater =
  ud_currentVersion :: string
  ud_githubToken :: string
  ud_repoOwner :: string
  ud_repoName :: string
  ud_baseURL :: string
  ud_cache :: "UpdateInfo option"
  ud_cacheExpiry :: time
  ud_cachedErr :: "update_error option"
  ud_errCacheExpiry :: time

definition cacheTTL :: duration where "cacheTTL = 60 * Minute"
definition errorCacheTTL :: duration where "errorCacheTTL = 5 * Minute"
definition binaryAsset :: string where "binaryAsset = ''chatserver.exe''"
definition checksumAsset :: string where "checksumAsset = ''checksums.sha256''"
definition defaultBaseURL :: string where "defaultBaseURL = ''https://api.github.com''"

definition NewUpdater :: "string \<Rightarrow> string \<Rightarrow> string \<Rightarrow> string \<Rightarrow> Updater" where
  "NewUpdater currentVersion githubToken repoOwner repoName =
     \<lparr>ud_currentVersion = currentVersion, ud_githubToken = githubToken, ud_repoOwner = repoOwner, ud_repoName = repoName,
      ud_baseURL = [], ud_cache = None, ud_cacheExpiry = 0, ud_cachedErr = None, ud_errCacheExpiry = 0\<rparr>"

definition ensureVPrefix :: "string \<Rightarrow> string" where
  "ensureVPrefix v = (if hasPrefix v ''v'' then v else ''v'' @ v)"

definition apiBaseURL :: "Updater \<Rightarrow> string" where
  "apiBaseURL u = (if ud_baseURL u \<noteq> [] then ud_baseURL u else defaultBaseURL)"

section \<open>The latest release\<close>

text \<open>The structs of the reply, decoded into the values that are there.\<close>

definition dec_asset :: "Asset \<Rightarrow> json \<Rightarrow> Asset option" where
  "dec_asset a v =
     (case (field dec_string (as_Name a) ''name'' v, field dec_string (as_DownloadURL a) ''browser_download_url'' v) of
        (Some n, Some d) \<Rightarrow> Some \<lparr>as_Name = n, as_DownloadURL = d\<rparr>
      | _ \<Rightarrow> None)"

fun dec_assets :: "Asset list \<Rightarrow> json \<Rightarrow> Asset list option" where
  "dec_assets x (JArr vs) =
     those (map (\<lambda>(i, v). dec_asset (if i < length x then x ! i else \<lparr>as_Name = [], as_DownloadURL = []\<rparr>) v) (enumerate 0 vs))"
| "dec_assets x JNull = Some []"
| "dec_assets x _ = None"

record releaseResponse =
  rl_TagName :: string
  rl_Body :: string
  rl_HTMLURL :: string
  rl_Assets :: "Asset list"

definition dec_release :: "json \<Rightarrow> releaseResponse option" where
  "dec_release v =
     (case (field dec_string [] ''tag_name'' v, field dec_string [] ''body'' v, field dec_string [] ''html_url'' v,
        field dec_assets [] ''assets'' v) of
        (Some t, Some b, Some h, Some as) \<Rightarrow> Some \<lparr>rl_TagName = t, rl_Body = b, rl_HTMLURL = h, rl_Assets = as\<rparr>
      | _ \<Rightarrow> None)"

definition decode_release :: "string \<Rightarrow> releaseResponse option" where
  "decode_release body =
     (if skip_ws body = [] then None
      else case scan_value (Suc (2 * length body)) 0 body of None \<Rightarrow> None | Some (v, _) \<Rightarrow> dec_release v)"

text \<open>The loop over the assets: the last one of each name counts.\<close>

fun scan_assets :: "string \<times> string \<Rightarrow> Asset list \<Rightarrow> string \<times> string" where
  "scan_assets (d, c) [] = (d, c)"
| "scan_assets (d, c) (a # as) =
     scan_assets (if key_matches binaryAsset (as_Name a) then (as_DownloadURL a, c)
                  else if key_matches checksumAsset (as_Name a) then (d, as_DownloadURL a) else (d, c)) as"

definition update_info :: "(string \<Rightarrow> string \<Rightarrow> int) \<Rightarrow> Updater \<Rightarrow> releaseResponse \<Rightarrow> UpdateInfo" where
  "update_info cmp u rl =
     (let currentV = ensureVPrefix (ud_currentVersion u); latestV = ensureVPrefix (rl_TagName rl);
          (downloadURL, checksumURL) = scan_assets ([], []) (rl_Assets rl)
      in \<lparr>ui_Current = currentV, ui_Latest = latestV, ui_UpdateAvailable = (cmp currentV latestV < 0),
          ui_ReleaseURL = rl_HTMLURL rl, ui_DownloadURL = downloadURL, ui_ChecksumURL = checksumURL,
          ui_ReleaseNotes = rl_Body rl, ui_Assets = rl_Assets rl\<rparr>)"

definition release_url :: "Updater \<Rightarrow> string" where
  "release_url u = apiBaseURL u @ ''/repos/'' @ ud_repoOwner u @ ''/'' @ ud_repoName u @ ''/releases/latest''"

definition fetchLatestRelease :: "web \<Rightarrow> Updater \<Rightarrow> update_error + UpdateInfo" where
  "fetchLatestRelease wb u =
     (case wb_get wb (release_url u) (if ud_githubToken u \<noteq> [] then Some (''token '' @ ud_githubToken u) else None) of
        None \<Rightarrow> Inl Unreachable
      | Some r \<Rightarrow>
          if hr_status r \<noteq> 200 then Inl (BadStatus (hr_status r))
          else case decode_release (hr_body r) of
            None \<Rightarrow> Inl BadRelease
          | Some rl \<Rightarrow> Inr (update_info (wb_compare wb) u rl))"

definition CheckForUpdate :: "web \<Rightarrow> time \<Rightarrow> Updater \<Rightarrow> (update_error + UpdateInfo) \<times> Updater" where
  "CheckForUpdate wb now u =
     (case (ud_cache u, ud_cachedErr u) of
        (cache, cachedErr) \<Rightarrow>
          if cache \<noteq> None \<and> now < ud_cacheExpiry u then (Inr (the cache), u)
          else if cachedErr \<noteq> None \<and> now < ud_errCacheExpiry u then (Inl (the cachedErr), u)
          else case fetchLatestRelease wb u of
            Inl e \<Rightarrow> (Inl e, u\<lparr>ud_cachedErr := Some e, ud_errCacheExpiry := now + errorCacheTTL\<rparr>)
          | Inr info \<Rightarrow> (Inr info, u\<lparr>ud_cache := Some info, ud_cacheExpiry := now + cacheTTL, ud_cachedErr := None\<rparr>))"

section \<open>Downloads\<close>

definition download_prefix :: "Updater \<Rightarrow> string" where
  "download_prefix u = ''https://github.com/'' @ ud_repoOwner u @ ''/'' @ ud_repoName u @ ''/releases/download/''"

definition ValidateDownloadURL :: "Updater \<Rightarrow> string \<Rightarrow> update_error option" where
  "ValidateDownloadURL u url = (if \<not> hasPrefix url (download_prefix u) then Some (NotAllowed url) else None)"

definition isGitHubHost :: "web \<Rightarrow> string \<Rightarrow> bool" where
  "isGitHubHost wb url =
     (case wb_host wb url of
        None \<Rightarrow> False
      | Some host \<Rightarrow> host = ''api.github.com'' \<or> host = ''github.com'' \<or> hasSuffix host ''.github.com'' \<or>
          hasSuffix host ''.githubusercontent.com'')"

definition shouldSendToken :: "web \<Rightarrow> Updater \<Rightarrow> string \<Rightarrow> bool" where
  "shouldSendToken wb u url =
     (if isGitHubHost wb url then True
      else if ud_baseURL u \<noteq> [] \<and> hasPrefix url (ud_baseURL u) then True else False)"

definition auth_header :: "web \<Rightarrow> Updater \<Rightarrow> string \<Rightarrow> string option" where
  "auth_header wb u url =
     (if ud_githubToken u \<noteq> [] \<and> shouldSendToken wb u url then Some (''token '' @ ud_githubToken u) else None)"

text \<open>At most a mebibyte is read; a connection that breaks later does not matter.\<close>

definition fetchBody :: "web \<Rightarrow> Updater \<Rightarrow> string \<Rightarrow> update_error + string" where
  "fetchBody wb u url =
     (case wb_get wb url (auth_header wb u url) of
        None \<Rightarrow> Inl Unreachable
      | Some r \<Rightarrow>
          if hr_status r \<noteq> 200 then Inl (BadStatus (hr_status r))
          else if hr_broken r \<and> length (hr_body r) < 1024 * 1024 then Inl Unreachable
          else Inr (take (1024 * 1024) (hr_body r)))"

definition FetchTextAsset :: "web \<Rightarrow> Updater \<Rightarrow> string \<Rightarrow> update_error + string" where
  "FetchTextAsset wb u url = (case fetchBody wb u url of Inl e \<Rightarrow> Inl e | Inr data \<Rightarrow> Inr data)"

text \<open>\<^verbatim>\<open>strings.Fields\<close>.\<close>

fun fields_from :: "string \<Rightarrow> (nat \<times> string) list \<Rightarrow> string list" where
  "fields_from acc [] = (if acc = [] then [] else [acc])"
| "fields_from acc ((r, b) # rs) =
     (if IsSpace r then (if acc = [] then fields_from [] rs else acc # fields_from [] rs) else fields_from (acc @ b) rs)"

definition Fields :: "string \<Rightarrow> string list" where
  "Fields s = fields_from [] (utf8_seq s)"

fun parse_checksum_lines :: "string list \<Rightarrow> string \<Rightarrow> string option" where
  "parse_checksum_lines [] filename = None"
| "parse_checksum_lines (line # lines) filename =
     (let line = TrimSpace line in
      if line = [] then parse_checksum_lines lines filename
      else let parts = Fields line in
        if 2 \<le> length parts \<and> last parts = filename then Some (hd parts) else parse_checksum_lines lines filename)"

definition ParseChecksumFile :: "string \<Rightarrow> string \<Rightarrow> update_error + string" where
  "ParseChecksumFile data filename =
     (case parse_checksum_lines (split_on (CHR 0x0A) data) filename of
        None \<Rightarrow> Inl (NotListed filename) | Some h \<Rightarrow> Inr h)"

definition maxBinarySize :: nat where
  "maxBinarySize = 500 * 1024 * 1024"

definition downloadFile :: "web \<Rightarrow> Updater \<Rightarrow> disk_faults \<Rightarrow> string \<Rightarrow> string \<Rightarrow> disk \<Rightarrow> (update_error + unit) \<times> disk" where
  "downloadFile wb u df url dest d =
     (case wb_get wb url (auth_header wb u url) of
        None \<Rightarrow> (Inl Unreachable, d)
      | Some r \<Rightarrow>
          if hr_status r \<noteq> 200 then (Inl (BadStatus (hr_status r)), d)
          else if df_create df then (Inl CannotCreate, d)
          else let data = take (maxBinarySize + 1) (hr_body r);
                   removed = (\<lambda>left. if df_remove df then Mapping.update dest left d else Mapping.delete dest d) in
            case df_write df of
              Some k \<Rightarrow> (Inl CannotWrite, removed (take k data))
            | None \<Rightarrow>
                if hr_broken r \<and> length (hr_body r) \<le> maxBinarySize then (Inl CannotWrite, removed data)
                else if maxBinarySize < length data then (Inl OverLimit, removed data)
                else (Inr (), Mapping.update dest data d))"

definition VerifyChecksum :: "(string \<Rightarrow> string) \<Rightarrow> disk_faults \<Rightarrow> string \<Rightarrow> string \<Rightarrow> disk \<Rightarrow> update_error option" where
  "VerifyChecksum sha256 df filePath expectedHash d =
     (case Mapping.lookup d filePath of
        None \<Rightarrow> Some CannotOpen
      | Some content \<Rightarrow>
          if df_read df then Some CannotOpen
          else let actual = hexEncode (sha256 content) in
            if \<not> key_matches actual expectedHash then Some (Mismatch expectedHash actual) else None)"

definition DownloadAndVerify ::
  "(string \<Rightarrow> string) \<Rightarrow> web \<Rightarrow> disk_faults \<Rightarrow> Updater \<Rightarrow> string \<Rightarrow> string \<Rightarrow> string \<Rightarrow> disk \<Rightarrow> (update_error + unit) \<times> disk" where
  "DownloadAndVerify sha256 wb df u downloadURL checksumURL dest d =
     (case ValidateDownloadURL u downloadURL of
        Some e \<Rightarrow> (Inl e, d)
      | None \<Rightarrow>
          (case ValidateDownloadURL u checksumURL of
             Some e \<Rightarrow> (Inl e, d)
           | None \<Rightarrow>
               (case fetchBody wb u checksumURL of
                  Inl e \<Rightarrow> (Inl e, d)
                | Inr checksumData \<Rightarrow>
                    (case ParseChecksumFile checksumData (Base dest) of
                       Inl e \<Rightarrow> (Inl e, d)
                     | Inr expectedHash \<Rightarrow>
                         (case downloadFile wb u df downloadURL dest d of
                            (Inl e, d') \<Rightarrow> (Inl e, d')
                          | (Inr _, d') \<Rightarrow>
                              (case VerifyChecksum sha256 df dest expectedHash d' of
                                 Some e \<Rightarrow> (Inl e, if df_remove df then d' else Mapping.delete dest d')
                               | None \<Rightarrow> (Inr (), d')))))))"

section \<open>The client's installer\<close>

fun scan_client_assets :: "ClientAssets \<Rightarrow> Asset list \<Rightarrow> ClientAssets" where
  "scan_client_assets ca [] = ca"
| "scan_client_assets ca (a # as) =
     scan_client_assets
       (if hasSuffix (as_Name a) ''_x64-setup.nsis.zip.sig'' then ca\<lparr>ca_SignatureURL := as_DownloadURL a\<rparr>
        else if hasSuffix (as_Name a) ''_x64-setup.nsis.zip'' then ca\<lparr>ca_InstallerURL := as_DownloadURL a\<rparr>
        else ca) as"

definition FindClientAssets :: "Updater \<Rightarrow> ClientAssets" where
  "FindClientAssets u =
     (let none = \<lparr>ca_InstallerURL = [], ca_SignatureURL = []\<rparr> in
      case ud_cache u of None \<Rightarrow> none | Some info \<Rightarrow> scan_client_assets none (ui_Assets info))"

end
