(* ===== verification/Http.thy ===== *)
theory Http
  imports HubSafety Totp Updater
begin

text \<open>
  The HTTP side of the server: requests and responses, JSON bodies as
  \<^verbatim>\<open>json.NewDecoder(r.Body).Decode\<close> reads them, the state the handlers share with the hub,
  and the middleware of \<^verbatim>\<open>api/middleware.go\<close>. A middleware is a function from the next
  handler to a handler, as in the source.
\<close>

section \<open>Requests and responses\<close>

text \<open>\<open>rq_cut\<close> says that the body was longer than \<^verbatim>\<open>http.MaxBytesReader\<close> lets through.\<close>

record request =
  rq_remote :: string
  rq_path :: string
  rq_header :: "string \<Rightarrow> string"
  rq_param :: "string \<Rightarrow> string"
  rq_query :: "string \<Rightarrow> string"
  rq_body :: string
  rq_cut :: bool

record response =
  rs_status :: nat
  rs_headers :: "(string \<times> string) list"
  rs_body :: "json option"

definition writeJSON :: "nat \<Rightarrow> json \<Rightarrow> response" where
  "writeJSON status v = \<lparr>rs_status = status, rs_headers = [(''Content-Type'', ''application/json; charset=utf-8'')], rs_body = Some v\<rparr>"

definition errorResponse :: "string \<Rightarrow> string \<Rightarrow> json" where
  "errorResponse e m = JObj [(''error'', JStr e), (''message'', JStr m)]"

definition writeErr :: "nat \<Rightarrow> string \<Rightarrow> string \<Rightarrow> response" where
  "writeErr status code msg = writeJSON status (errorResponse code msg)"

text \<open>\<^verbatim>\<open>w.WriteHeader(status)\<close> without a body.\<close>

definition writeHeader :: "nat \<Rightarrow> response" where
  "writeHeader status = \<lparr>rs_status = status, rs_headers = [], rs_body = None\<rparr>"

section \<open>Bodies\<close>

datatype decode_error = EOF | Malformed

text \<open>The decoder reads the first value of the stream and leaves what follows it.\<close>

definition Decode :: "request \<Rightarrow> decode_error + json" where
  "Decode r =
     (if skip_ws (rq_body r) = [] then Inl (if rq_cut r then Malformed else EOF)
      else case scan_value (Suc (2 * length (rq_body r))) 0 (rq_body r) of
        None \<Rightarrow> Inl Malformed
      | Some (v, _) \<Rightarrow> Inr v)"

text \<open>A body decoded into a struct: \<open>f\<close> reads the fields, \<open>None\<close> when one has the wrong type.\<close>

definition DecodeInto :: "(json \<Rightarrow> 'a option) \<Rightarrow> request \<Rightarrow> decode_error + 'a" where
  "DecodeInto f r = (case Decode r of
     Inl e \<Rightarrow> Inl e
   | Inr v \<Rightarrow> (case f v of None \<Rightarrow> Inl Malformed | Some x \<Rightarrow> Inr x))"

fun dec_int :: "int \<Rightarrow> json \<Rightarrow> int option" where
  "dec_int x (JNum n) = ParseInt n"
| "dec_int x JNull = Some x"
| "dec_int x _ = None"

definition fields2 :: "('a \<Rightarrow> 'b \<Rightarrow> 'c) \<Rightarrow> 'a option \<Rightarrow> 'b option \<Rightarrow> 'c option" where
  "fields2 f a b = (case a of None \<Rightarrow> None | Some x \<Rightarrow> map_option (f x) b)"

section \<open>The server's state\<close>

record ticketEntry =
  tk_createdAt :: time
  tk_tokenHash :: string

text \<open>
  The state of the process beside the hub's: the stores of two-factor logins, the limiter
  of the setup endpoint, the tickets of the log stream, the upload directory, the random
  source as an oracle of its reads, and the updater, if there is one.
\<close>

record server = hub +
  sv_partial :: PartialAuthStore
  sv_pending :: PendingTOTPStore
  sv_setupLimiter :: RateLimiter
  sv_tickets :: "(string, ticketEntry) mapping"
  sv_disk :: disk
  sv_rand :: "nat \<Rightarrow> string option"
  sv_draws :: nat
  sv_updater :: "Updater option"

text \<open>
  The packages the handlers call, beside those of the hub: bcrypt (with its salt),
  HMAC-SHA1, the full-text index of SQLite, and whether the text of a database error is one
  of a malformed search (and that text itself, and the verb \<^verbatim>\<open>%q\<close> of \<^verbatim>\<open>fmt\<close>), which \<^verbatim>\<open>isInvalidSearchQueryError\<close> finds in its words.
\<close>

record server_packages = packages +
  pk_bcrypt :: "string \<Rightarrow> string \<Rightarrow> nat \<Rightarrow> string option"
  pk_compare :: "string \<Rightarrow> string \<Rightarrow> bool"
  pk_hmac :: "string \<Rightarrow> string \<Rightarrow> string"
  pk_fts :: "string \<Rightarrow> (int64 \<times> string) list \<Rightarrow> db_error + int64 list"
  pk_bad_query :: "db_error \<Rightarrow> bool"
  pk_errtext :: "db_error \<Rightarrow> string"
  pk_quote :: "string \<Rightarrow> string"

definition rand_read :: "(server, string option) state" where
  "rand_read = do {
     n \<leftarrow> gets sv_draws;
     modify (\<lambda>s. s\<lparr>sv_draws := Suc n\<rparr>);
     gets (\<lambda>s. sv_rand s n)
   }"

section \<open>Client addresses\<close>

text \<open>\<open>None\<close> is the error of a malformed entry.\<close>

fun match_cidrs :: "ip \<Rightarrow> string list \<Rightarrow> bool option" where
  "match_cidrs a [] = Some False"
| "match_cidrs a (c # cs) = (case ParseCIDR c of
     None \<Rightarrow> None
   | Some net \<Rightarrow> if net_contains net a then Some True else match_cidrs a cs)"

definition isTrustedProxy :: "string \<Rightarrow> string list \<Rightarrow> bool option" where
  "isTrustedProxy remoteIP cidrList = (case ParseIP remoteIP of None \<Rightarrow> Some False | Some a \<Rightarrow> match_cidrs a cidrList)"

text \<open>The callers drop the error and use the false beside it.\<close>

definition trusted :: "string \<Rightarrow> string list \<Rightarrow> bool" where
  "trusted remoteIP cidrList = (isTrustedProxy remoteIP cidrList = Some True)"

definition remote_host :: "request \<Rightarrow> string" where
  "remote_host r = (case SplitHost (rq_remote r) of None \<Rightarrow> rq_remote r | Some h \<Rightarrow> h)"

definition clientIPWithProxies :: "request \<Rightarrow> string list \<Rightarrow> string" where
  "clientIPWithProxies r trustedCIDRs =
     (let remoteHost = remote_host r in
      if trustedCIDRs = [] then remoteHost
      else if \<not> trusted remoteHost trustedCIDRs then remoteHost
      else let xri = TrimSpace (rq_header r ''X-Real-IP'') in
        if xri \<noteq> [] then xri
        else let xff = rq_header r ''X-Forwarded-For'' in
          if xff \<noteq> [] then
            (let client = TrimSpace (takeWhile (\<lambda>c. c \<noteq> CHR '','') xff)
             in if client \<noteq> [] then client else remoteHost)
          else remoteHost)"

definition clientIP :: "request \<Rightarrow> string" where
  "clientIP r = clientIPWithProxies r []"

section \<open>Middleware\<close>

type_synonym handler = "request \<Rightarrow> (server, response) state"

text \<open>What the middleware puts into the request's context; \<open>None\<close> is a nil pointer.\<close>

record reqctx =
  cx_user :: User
  cx_session :: Session
  cx_role :: "Role option"

definition unauthorized :: "string \<Rightarrow> response" where
  "unauthorized msg = writeErr 401 ''UNAUTHORIZED'' msg"

definition AuthMiddleware :: "server_packages \<Rightarrow> (reqctx \<Rightarrow> handler) \<Rightarrow> handler" where
  "AuthMiddleware pk nxt r =
     (case ExtractBearerToken (rq_header r ''Authorization'') of
        None \<Rightarrow> return (unauthorized ''missing or invalid authorization header'')
      | Some token \<Rightarrow> do {
          let h = HashToken (pk_sha256 pk) token;
          sess \<leftarrow> GetSessionByTokenHash h;
          (case sess of
             Inr (Some sess) \<Rightarrow> do {
               expired \<leftarrow> IsSessionExpired (s_ExpiresAt sess);
               (if expired then return (unauthorized ''session has expired'')
                else do {
                  user \<leftarrow> GetUserByID (s_UserID sess);
                  (case user of
                     Inr (Some user) \<Rightarrow> do {
                       banned \<leftarrow> IsEffectivelyBanned (Some user);
                       (if banned then return (writeErr 403 ''FORBIDDEN'' ''your account has been suspended'')
                        else do {
                          role \<leftarrow> GetRoleByID (u_RoleID user);
                          (case role of
                             Inl _ \<Rightarrow> return (unauthorized ''role not found'')
                           | Inr role \<Rightarrow> do {
                               _ \<leftarrow> TouchSession h;
                               nxt \<lparr>cx_user = user, cx_session = sess, cx_role = role\<rparr> r
                             })
                        })
                     }
                   | _ \<Rightarrow> return (unauthorized ''user not found''))
                })
             }
           | _ \<Rightarrow> return (unauthorized ''invalid or expired session''))
        })"

definition RequirePermission :: "perms \<Rightarrow> (reqctx \<Rightarrow> handler) \<Rightarrow> reqctx \<Rightarrow> handler" where
  "RequirePermission perm nxt cx r =
     (case cx_role cx of
        None \<Rightarrow> return (writeErr 403 ''FORBIDDEN'' ''insufficient permissions'')
      | Some role \<Rightarrow>
          if HasAdmin (r_Permissions role) then nxt cx r
          else if r_Permissions role AND perm = 0
          then return (writeErr 403 ''FORBIDDEN'' ''insufficient permissions'')
          else nxt cx r)"

definition too_many :: "duration \<Rightarrow> response" where
  "too_many window = (writeErr 429 ''RATE_LIMITED'' ''too many requests, please slow down'')
     \<lparr>rs_headers := [(''Retry-After'', itoa (window div Second)), (''Content-Type'', ''application/json; charset=utf-8'')]\<rparr>"

definition rateLimitMiddlewareWithPrefix :: "string \<Rightarrow> int \<Rightarrow> duration \<Rightarrow> string list \<Rightarrow> handler \<Rightarrow> handler" where
  "rateLimitMiddlewareWithPrefix pre limit window proxies nxt r = do {
     ok \<leftarrow> limiter_allow (pre @ clientIPWithProxies r proxies) limit window;
     (if \<not> ok then return (too_many window) else nxt r)
   }"

definition RateLimitMiddleware :: "int \<Rightarrow> duration \<Rightarrow> string list \<Rightarrow> handler \<Rightarrow> handler" where
  "RateLimitMiddleware limit window proxies nxt r = rateLimitMiddlewareWithPrefix [] limit window proxies nxt r"

definition AdminIPRestrict :: "string list \<Rightarrow> handler \<Rightarrow> handler" where
  "AdminIPRestrict allowedCIDRs nxt r =
     (if allowedCIDRs = [] then nxt r
      else if \<not> trusted (clientIP r) allowedCIDRs then return (writeErr 403 ''FORBIDDEN'' ''access denied'')
      else nxt r)"

definition securityHeaders :: "string \<Rightarrow> (string \<times> string) list" where
  "securityHeaders tlsMode =
     [(''X-Content-Type-Options'', ''nosniff''), (''X-Frame-Options'', ''DENY''), (''X-XSS-Protection'', ''0''),
      (''Referrer-Policy'', ''strict-origin-when-cross-origin''),
      (''Content-Security-Policy'', ''default-src '' @ [CHR 0x27] @ ''self'' @ [CHR 0x27]),
      (''Permissions-Policy'', ''camera=(), microphone=(), geolocation=()''), (''Cache-Control'', ''no-store'')] @
     (if tlsMode \<noteq> [] then [(''Strict-Transport-Security'', ''max-age=31536000; includeSubDomains'')] else [])"

text \<open>A header set later replaces the one set here.\<close>

definition SecurityHeadersWithTLS :: "string \<Rightarrow> handler \<Rightarrow> handler" where
  "SecurityHeadersWithTLS tlsMode nxt r = do {
     rs \<leftarrow> nxt r;
     return (rs\<lparr>rs_headers := filter (\<lambda>(k, _). k \<notin> fst ` set (rs_headers rs)) (securityHeaders tlsMode) @ rs_headers rs\<rparr>)
   }"

definition MaxBodySize :: "nat \<Rightarrow> handler \<Rightarrow> handler" where
  "MaxBodySize maxBytes nxt r = nxt (r\<lparr>rq_body := take maxBytes (rq_body r), rq_cut := (rq_cut r \<or> maxBytes < length (rq_body r))\<rparr>)"

definition MaxBodySizeUnless :: "nat \<Rightarrow> string list \<Rightarrow> handler \<Rightarrow> handler" where
  "MaxBodySizeUnless maxBytes exempt nxt r = (if rq_path r \<in> set exempt then nxt r else MaxBodySize maxBytes nxt r)"

definition parseIDParam :: "request \<Rightarrow> string \<Rightarrow> response + int64" where
  "parseIDParam r param =
     (case ParseInt (rq_param r param) of
        Some i \<Rightarrow> if i \<le> 0 then Inl (writeErr 400 ''BAD_REQUEST'' (param @ '' must be a positive integer'')) else Inr i
      | None \<Rightarrow> Inl (writeErr 400 ''BAD_REQUEST'' (param @ '' must be a positive integer'')))"

end
