(* ===== verification/AuthApi.thy ===== *)
theory AuthApi
  imports Http
begin

text \<open>
  The authentication endpoints of \<^verbatim>\<open>api/auth_handler.go\<close>: registration with an invite, login
  with lockout and the two-factor step, enrolment, logout and account deletion, with the
  middleware each route is mounted behind.
\<close>

section \<open>Requests\<close>

record registerRequest =
  rg_Username :: string
  rg_Password :: string
  rg_InviteCode :: string

definition dec_register :: "json \<Rightarrow> registerRequest option" where
  "dec_register js = fields2 (\<lambda>u (p, i). \<lparr>rg_Username = u, rg_Password = p, rg_InviteCode = i\<rparr>)
     (field dec_string [] ''username'' js)
     (fields2 Pair (field dec_string [] ''password'' js) (field dec_string [] ''invite_code'' js))"

record loginRequest =
  lg_Username :: string
  lg_Password :: string

definition dec_login :: "json \<Rightarrow> loginRequest option" where
  "dec_login js = fields2 (\<lambda>u p. \<lparr>lg_Username = u, lg_Password = p\<rparr>)
     (field dec_string [] ''username'' js) (field dec_string [] ''password'' js)"

definition dec_code :: "json \<Rightarrow> string option" where
  "dec_code js = field dec_string [] ''code'' js"

definition dec_password :: "json \<Rightarrow> string option" where
  "dec_password js = field dec_string [] ''password'' js"

definition dec_totp_confirmation :: "json \<Rightarrow> (string \<times> string) option" where
  "dec_totp_confirmation js = fields2 Pair (field dec_string [] ''password'' js) (field dec_string [] ''code'' js)"

section \<open>Responses\<close>

definition toUserResponse :: "User \<Rightarrow> json" where
  "toUserResponse u =
     (let avatar = (case u_Avatar u of None \<Rightarrow> [] | Some a \<Rightarrow> a) in
      JObj ([(''id'', jint (u_ID u)), (''username'', JStr (u_Username u))] @
        (if avatar = [] then [] else [(''avatar'', JStr avatar)]) @
        [(''status'', JStr (u_Status u)), (''role_id'', jint (u_RoleID u)),
         (''totp_enabled'', JBool (u_TOTPSecret u \<noteq> None)), (''created_at'', JStr (u_CreatedAt u))]))"

definition authSuccess :: "string \<Rightarrow> User \<Rightarrow> json" where
  "authSuccess token u = JObj ((if token = [] then [] else [(''token'', JStr token)]) @
     [(''requires_2fa'', JBool False), (''user'', toUserResponse u)])"

definition twoFactorChallenge :: "string \<Rightarrow> json" where
  "twoFactorChallenge partialToken =
     JObj ((if partialToken = [] then [] else [(''partial_token'', JStr partialToken)]) @ [(''requires_2fa'', JBool True)])"

definition invalid_input :: "string \<Rightarrow> response" where
  "invalid_input msg = writeErr 400 ''INVALID_INPUT'' msg"

definition server_error :: "string \<Rightarrow> response" where
  "server_error msg = writeErr 500 ''SERVER_ERROR'' msg"

definition forbidden :: "string \<Rightarrow> response" where
  "forbidden msg = writeErr 403 ''FORBIDDEN'' msg"

definition genericAuthError :: response where
  "genericAuthError = writeErr 400 ''INVALID_CREDENTIALS'' ''invalid invite or credentials''"

definition username_message :: "username_error \<Rightarrow> string" where
  "username_message e = (case e of
     TooFew \<Rightarrow> ''username must be at least 2 characters''
   | TooMany \<Rightarrow> ''username must be at most 32 characters''
   | ControlChar \<Rightarrow> ''username must not contain control characters''
   | InvisibleChar \<Rightarrow> ''username must not contain invisible characters'')"

definition password_message :: "password_error \<Rightarrow> string" where
  "password_message e = (case e of
     ErrPasswordTooShort \<Rightarrow> ''password must be at least 8 characters''
   | ErrPasswordTooLong \<Rightarrow> ''password must not exceed 72 characters'')"

section \<open>Helpers\<close>

definition IsUniqueConstraintError :: "db_error \<Rightarrow> bool" where
  "IsUniqueConstraintError e \<longleftrightarrow> e = ErrUnique"

text \<open>\<open>None\<close> is the error.\<close>

definition parseBooleanSettingValue :: "string \<Rightarrow> bool option" where
  "parseBooleanSettingValue v =
     (let x = nocase (TrimSpace v)
      in if x = ''1'' \<or> x = ''true'' then Some True else if x = ''0'' \<or> x = ''false'' then Some False else None)"

definition getBooleanSetting :: "string \<Rightarrow> bool \<Rightarrow> (server, bool option) state" where
  "getBooleanSetting key defaultValue = do {
     r \<leftarrow> GetSetting key;
     (case r of
        Inl ErrNotFound \<Rightarrow> return (Some defaultValue)
      | Inl _ \<Rightarrow> return None
      | Inr v \<Rightarrow> return (parseBooleanSettingValue v))
   }"

definition isRequire2FAEnabled :: "(server, bool option) state" where
  "isRequire2FAEnabled = getBooleanSetting ''require_2fa'' False"

definition isRegistrationOpen :: "(server, bool option) state" where
  "isRegistrationOpen = getBooleanSetting ''registration_open'' False"

definition hash_password :: "server_packages \<Rightarrow> string \<Rightarrow> (server, string option) state" where
  "hash_password pk password = do {
     salt \<leftarrow> rand_read;
     return (case salt of None \<Rightarrow> None | Some salt \<Rightarrow> HashPassword (pk_bcrypt pk salt) password)
   }"

definition generate_token :: "(server, string option) state" where
  "generate_token = do { raw \<leftarrow> rand_read; return (GenerateSessionToken raw) }"

definition issueSession :: "server_packages \<Rightarrow> int64 \<Rightarrow> string \<Rightarrow> string \<Rightarrow> (server, string option) state" where
  "issueSession pk userID device ip = do {
     token \<leftarrow> generate_token;
     (case token of
        None \<Rightarrow> return None
      | Some token \<Rightarrow> do {
          r \<leftarrow> CreateSession userID (HashToken (pk_sha256 pk) token) device ip;
          (case r of Inl _ \<Rightarrow> return None | Inr _ \<Rightarrow> return (Some token))
        })
   }"

definition requirePasswordConfirmation :: "server_packages \<Rightarrow> User \<Rightarrow> string \<Rightarrow> string option" where
  "requirePasswordConfirmation pk user password =
     (if password = [] then Some ''password is required''
      else if \<not> CheckPassword (pk_compare pk) (u_PasswordHash user) password then Some ''password confirmation failed''
      else None)"

text \<open>The methods of the limiter and of the stores, on the server's state.\<close>

definition limiter_locked :: "string \<Rightarrow> (server, bool) state" where
  "limiter_locked key = do {
     t \<leftarrow> time_now;
     rl \<leftarrow> gets h_limiter;
     let (b, rl') = IsLockedOut rl key t;
     modify (\<lambda>s. s\<lparr>h_limiter := rl'\<rparr>);
     return b
   }"

definition limiter_lockout :: "string \<Rightarrow> duration \<Rightarrow> (server, unit) state" where
  "limiter_lockout key d = do { t \<leftarrow> time_now; modify (\<lambda>s. s\<lparr>h_limiter := Lockout (h_limiter s) key d t\<rparr>) }"

definition limiter_reset :: "string \<Rightarrow> (server, unit) state" where
  "limiter_reset key = modify (\<lambda>s. s\<lparr>h_limiter := Reset (h_limiter s) key\<rparr>)"

definition partial_issue :: "int64 \<Rightarrow> string \<Rightarrow> string \<Rightarrow> (server, string option) state" where
  "partial_issue userID device ip = do {
     raw \<leftarrow> rand_read;
     t0 \<leftarrow> time_now;
     t1 \<leftarrow> time_now;
     st \<leftarrow> gets sv_partial;
     let (token, st') = Issue raw userID device ip st t0 t1;
     modify (\<lambda>s. s\<lparr>sv_partial := st'\<rparr>);
     return token
   }"

definition on_partial :: "(PartialAuthStore \<Rightarrow> time \<Rightarrow> 'a \<times> PartialAuthStore) \<Rightarrow> (server, 'a) state" where
  "on_partial f = do {
     t \<leftarrow> time_now;
     st \<leftarrow> gets sv_partial;
     let (x, st') = f st t;
     modify (\<lambda>s. s\<lparr>sv_partial := st'\<rparr>);
     return x
   }"

definition pending_put :: "int64 \<Rightarrow> string \<Rightarrow> (server, unit) state" where
  "pending_put userID secret = do {
     t0 \<leftarrow> time_now;
     t1 \<leftarrow> time_now;
     modify (\<lambda>s. s\<lparr>sv_pending := PutPending userID secret (sv_pending s) t0 t1\<rparr>)
   }"

definition pending_lookup :: "int64 \<Rightarrow> (server, string option) state" where
  "pending_lookup userID = do {
     t \<leftarrow> time_now;
     st \<leftarrow> gets sv_pending;
     let (x, st') = LookupPending userID st t;
     modify (\<lambda>s. s\<lparr>sv_pending := st'\<rparr>);
     return x
   }"

definition pending_delete :: "int64 \<Rightarrow> (server, unit) state" where
  "pending_delete userID = modify (\<lambda>s. s\<lparr>sv_pending := DeletePending userID (sv_pending s)\<rparr>)"

section \<open>Registration\<close>

text \<open>The registration policy: open, and no two-factor requirement.\<close>

definition registration_policy :: "(server, response option) state" where
  "registration_policy = do {
     registrationOpen \<leftarrow> isRegistrationOpen;
     (case registrationOpen of
        None \<Rightarrow> return (Some (server_error ''failed to load registration policy''))
      | Some False \<Rightarrow> return (Some (forbidden ''registration is currently closed''))
      | Some True \<Rightarrow> do {
          require2FA \<leftarrow> isRequire2FAEnabled;
          (case require2FA of
             None \<Rightarrow> return (Some (server_error ''failed to load registration policy''))
           | Some True \<Rightarrow> return (Some (forbidden ''registration is unavailable while two-factor authentication is required''))
           | Some False \<Rightarrow> return None)
        })
   }"

text \<open>The checks of the request, in the order of the handler; the trimmed name and code.\<close>

definition register_input :: "server_packages \<Rightarrow> request \<Rightarrow> response + string \<times> string \<times> string" where
  "register_input pk r =
     (case DecodeInto dec_register r of
        Inl _ \<Rightarrow> Inl (invalid_input ''malformed request body'')
      | Inr req \<Rightarrow>
          (let username = TrimSpace (pk_sanitize pk (rg_Username req)); inviteCode = TrimSpace (rg_InviteCode req);
               password = rg_Password req
           in if username = [] \<or> password = [] \<or> inviteCode = []
              then Inl (invalid_input ''username, password, and invite_code are required'')
              else case ValidateUsername username of
                Some e \<Rightarrow> Inl (invalid_input (username_message e))
              | None \<Rightarrow> (case ValidatePasswordStrength password of
                    Some e \<Rightarrow> Inl (invalid_input (password_message e))
                  | None \<Rightarrow> Inr (username, password, inviteCode))))"

text \<open>After the account exists: audit, session, response.\<close>

definition register_finish :: "server_packages \<Rightarrow> request \<Rightarrow> int64 \<Rightarrow> (server, response) state" where
  "register_finish pk r uid = do {
     _ \<leftarrow> LogAudit uid ''user_register'' ''user'' uid ''new account created via invite'';
     token \<leftarrow> issueSession pk uid (rq_header r ''User-Agent'') (clientIP r);
     (case token of
        None \<Rightarrow> return (server_error ''failed to create session'')
      | Some token \<Rightarrow> do {
          user \<leftarrow> GetUserByID uid;
          (case user of
             Inr (Some user) \<Rightarrow> return (writeJSON 201 (authSuccess token user))
           | _ \<Rightarrow> return (server_error ''registration succeeded but user fetch failed''))
        })
   }"

definition handleRegister :: "server_packages \<Rightarrow> handler" where
  "handleRegister pk r = do {
     policy \<leftarrow> registration_policy;
     (case policy of
        Some e \<Rightarrow> return e
      | None \<Rightarrow>
          (case register_input pk r of
             Inl e \<Rightarrow> return e
           | Inr (username, password, inviteCode) \<Rightarrow> do {
               h \<leftarrow> hash_password pk password;
               (case h of
                  None \<Rightarrow> return (server_error ''failed to process registration'')
                | Some h \<Rightarrow> do {
                    uid \<leftarrow> CreateUserWithInvite (pk_strftime pk) username h MemberRoleID inviteCode;
                    (case uid of
                       Inl e \<Rightarrow>
                         if IsUniqueConstraintError e \<or> e = ErrNotFound then return genericAuthError
                         else return (server_error (''registration failed '' @ em_dash @ '' please try again''))
                     | Inr uid \<Rightarrow> register_finish pk r uid)
                  })
             }))
   }"

section \<open>Login\<close>

abbreviation lock_time :: duration where "lock_time \<equiv> 15 * Minute"

text \<open>A login whose password was right.\<close>

definition login_user :: "server_packages \<Rightarrow> request \<Rightarrow> string \<Rightarrow> User \<Rightarrow> (server, response) state" where
  "login_user pk r ip user = do {
     banned \<leftarrow> IsEffectivelyBanned (Some user);
     (if banned then do {
        _ \<leftarrow> LogAudit (u_ID user) ''login_blocked_banned'' ''user'' (u_ID user) (''banned user attempted login from '' @ ip);
        return (forbidden ''your account has been suspended'')
      }
      else do {
        require2FA \<leftarrow> isRequire2FAEnabled;
        (case require2FA of
           None \<Rightarrow> return (server_error ''failed to load authentication policy'')
         | Some require2FA \<Rightarrow>
             if u_TOTPSecret user \<noteq> None then do {
               partialToken \<leftarrow> partial_issue (u_ID user) (rq_header r ''User-Agent'') ip;
               (case partialToken of
                  None \<Rightarrow> return (server_error ''failed to start two-factor challenge'')
                | Some partialToken \<Rightarrow> return (writeJSON 200 (twoFactorChallenge partialToken)))
             }
             else if require2FA
             then return (forbidden ''two-factor authentication must be enabled on this account before login'')
             else do {
               token \<leftarrow> issueSession pk (u_ID user) (rq_header r ''User-Agent'') ip;
               (case token of
                  None \<Rightarrow> return (server_error ''failed to create session'')
                | Some token \<Rightarrow> do {
                    _ \<leftarrow> LogAudit (u_ID user) ''user_login'' ''user'' (u_ID user) (''logged in from '' @ ip);
                    return (writeJSON 200 (authSuccess token user))
                  })
             })
      })
   }"

definition login_key :: "string \<Rightarrow> string" where
  "login_key ip = ''login_lock:'' @ ip"

definition login_fail_key :: "string \<Rightarrow> string" where
  "login_fail_key ip = ''login_fail:'' @ ip"

text \<open>The failure is counted; the tenth in the window locks the address out.\<close>

definition login_failed :: "string \<Rightarrow> (server, response) state" where
  "login_failed ip = do {
     ok \<leftarrow> limiter_allow (login_fail_key ip) 9 lock_time;
     (if \<not> ok then limiter_lockout (login_key ip) lock_time else return ());
     return (unauthorized ''invalid credentials'')
   }"

definition handleLogin :: "server_packages \<Rightarrow> string list \<Rightarrow> handler" where
  "handleLogin pk proxies r =
     (case DecodeInto dec_login r of
        Inl _ \<Rightarrow> return (invalid_input ''malformed request body'')
      | Inr req \<Rightarrow>
          (let username = TrimSpace (lg_Username req); password = lg_Password req; ip = clientIPWithProxies r proxies in
           if username = [] \<or> password = [] then return (invalid_input ''username and password are required'')
           else do {
             locked \<leftarrow> limiter_locked (login_key ip);
             (if locked
              then return (writeErr 429 ''RATE_LIMITED'' ''account temporarily locked due to too many failed attempts'')
              else do {
                user \<leftarrow> GetUserByUsername username;
                (case user of
                   Inl _ \<Rightarrow> return (server_error ''login temporarily unavailable'')
                 | Inr None \<Rightarrow> login_failed ip
                 | Inr (Some user) \<Rightarrow>
                     if \<not> CheckPassword (pk_compare pk) (u_PasswordHash user) password then login_failed ip
                     else do {
                       limiter_reset (login_fail_key ip);
                       login_user pk r ip user
                     })
              })
           }))"

definition challenge_error :: response where
  "challenge_error = unauthorized ''invalid or expired two-factor challenge''"

definition verify_code :: "server_packages \<Rightarrow> string \<Rightarrow> PartialAuthChallenge \<Rightarrow> string \<Rightarrow> (server, response) state" where
  "verify_code pk partialToken chal code = do {
     user \<leftarrow> GetUserByID (pc_UserID chal);
     (case user of
        Inr (Some user) \<Rightarrow>
          (case u_TOTPSecret user of
             None \<Rightarrow> return challenge_error
           | Some secret \<Rightarrow> do {
               now \<leftarrow> time_now;
               (if \<not> VerifyTOTPCode (pk_hmac pk) secret (TrimSpace code) now then do {
                  _ \<leftarrow> on_partial (RegisterFailure partialToken 5);
                  return (unauthorized ''invalid two-factor code'')
                }
                else do {
                  consumed \<leftarrow> on_partial (Consume partialToken);
                  (case consumed of
                     None \<Rightarrow> return challenge_error
                   | Some _ \<Rightarrow> do {
                       token \<leftarrow> issueSession pk (u_ID user) (pc_Device chal) (pc_IP chal);
                       (case token of
                          None \<Rightarrow> return (server_error ''failed to create session'')
                        | Some token \<Rightarrow> return (writeJSON 200 (authSuccess token user)))
                     })
                })
             })
      | _ \<Rightarrow> return challenge_error)
   }"

definition handleVerifyTOTP :: "server_packages \<Rightarrow> handler" where
  "handleVerifyTOTP pk r =
     (case ExtractBearerToken (rq_header r ''Authorization'') of
        None \<Rightarrow> return (unauthorized ''missing or invalid authorization header'')
      | Some partialToken \<Rightarrow> do {
          chal \<leftarrow> on_partial (Lookup partialToken);
          (case chal of
             None \<Rightarrow> return challenge_error
           | Some chal \<Rightarrow>
               (case DecodeInto dec_code r of
                  Inl _ \<Rightarrow> return (invalid_input ''malformed request body'')
                | Inr code \<Rightarrow> verify_code pk partialToken chal code))
        })"

section \<open>Two-factor enrolment\<close>

definition handleEnableTOTP :: "server_packages \<Rightarrow> reqctx \<Rightarrow> handler" where
  "handleEnableTOTP pk cx r =
     (case DecodeInto dec_password r of
        Inl _ \<Rightarrow> return (invalid_input ''malformed request body'')
      | Inr password \<Rightarrow>
          (case requirePasswordConfirmation pk (cx_user cx) password of
             Some e \<Rightarrow> return (invalid_input e)
           | None \<Rightarrow> do {
               raw \<leftarrow> rand_read;
               (case GenerateTOTPSecret raw of
                  None \<Rightarrow> return (server_error ''failed to generate two-factor secret'')
                | Some secret \<Rightarrow> do {
                    pending_put (u_ID (cx_user cx)) secret;
                    return (writeJSON 200 (JObj [(''qr_uri'', JStr (BuildTOTPURI (u_Username (cx_user cx)) secret ''OwnCord'')),
                      (''backup_codes'', JArr [])]))
                  })
             }))"

definition handleConfirmTOTP :: "server_packages \<Rightarrow> reqctx \<Rightarrow> handler" where
  "handleConfirmTOTP pk cx r =
     (case DecodeInto dec_totp_confirmation r of
        Inl _ \<Rightarrow> return (invalid_input ''malformed request body'')
      | Inr (password, code) \<Rightarrow>
          (case requirePasswordConfirmation pk (cx_user cx) password of
             Some e \<Rightarrow> return (invalid_input e)
           | None \<Rightarrow> do {
               secret \<leftarrow> pending_lookup (u_ID (cx_user cx));
               (case secret of
                  None \<Rightarrow> return (writeErr 400 ''BAD_REQUEST'' ''no pending two-factor enrollment found'')
                | Some secret \<Rightarrow> do {
                    now \<leftarrow> time_now;
                    (if \<not> VerifyTOTPCode (pk_hmac pk) secret (TrimSpace code) now
                     then return (unauthorized ''invalid two-factor code'')
                     else do {
                       u \<leftarrow> UpdateUserTOTPSecret (u_ID (cx_user cx)) (Some secret);
                       (case u of
                          Inl _ \<Rightarrow> return (server_error ''failed to enable two-factor authentication'')
                        | Inr _ \<Rightarrow> do {
                            pending_delete (u_ID (cx_user cx));
                            return (writeHeader 204)
                          })
                     })
                  })
             }))"

text \<open>An empty body stands for an empty password here.\<close>

definition handleDisableTOTP :: "server_packages \<Rightarrow> reqctx \<Rightarrow> handler" where
  "handleDisableTOTP pk cx r =
     (case (case DecodeInto dec_password r of Inl EOF \<Rightarrow> Inr [] | x \<Rightarrow> x) of
        Inl _ \<Rightarrow> return (invalid_input ''malformed request body'')
      | Inr password \<Rightarrow>
          (case requirePasswordConfirmation pk (cx_user cx) password of
             Some e \<Rightarrow> return (invalid_input e)
           | None \<Rightarrow> do {
               require2FA \<leftarrow> isRequire2FAEnabled;
               (case require2FA of
                  None \<Rightarrow> return (server_error ''failed to load authentication policy'')
                | Some True \<Rightarrow> return (forbidden ''two-factor authentication is required for this server'')
                | Some False \<Rightarrow> do {
                    pending_delete (u_ID (cx_user cx));
                    u \<leftarrow> UpdateUserTOTPSecret (u_ID (cx_user cx)) None;
                    (case u of
                       Inl _ \<Rightarrow> return (server_error ''failed to disable two-factor authentication'')
                     | Inr _ \<Rightarrow> return (writeHeader 204))
                  })
             }))"

section \<open>Sessions and accounts\<close>

definition handleLogout :: "reqctx \<Rightarrow> handler" where
  "handleLogout cx r = do {
     d \<leftarrow> DeleteSession (s_TokenHash (cx_session cx));
     (case d of
        Inl _ \<Rightarrow> return (server_error ''failed to logout'')
      | Inr _ \<Rightarrow> do {
          _ \<leftarrow> LogAudit (s_UserID (cx_session cx)) ''user_logout'' ''user'' (s_UserID (cx_session cx)) [];
          return (writeHeader 204)
        })
   }"

definition handleMe :: "reqctx \<Rightarrow> handler" where
  "handleMe cx r = return (writeJSON 200 (toUserResponse (cx_user cx)))"

definition delete_lock_key :: "int64 \<Rightarrow> string" where
  "delete_lock_key uid = ''delete_lock:'' @ itoa uid"

definition delete_fail_key :: "int64 \<Rightarrow> string" where
  "delete_fail_key uid = ''delete_fail:'' @ itoa uid"

definition delete_confirmed :: "reqctx \<Rightarrow> request \<Rightarrow> (server, response) state" where
  "delete_confirmed cx r = do {
     d \<leftarrow> DeleteAccount (u_ID (cx_user cx));
     (case d of
        Inl ErrLastAdmin \<Rightarrow> return (forbidden ''cannot delete the last admin account'')
      | Inl _ \<Rightarrow> return (server_error ''failed to delete account'')
      | Inr _ \<Rightarrow> do {
          _ \<leftarrow> LogAudit (u_ID (cx_user cx)) ''account_deleted'' ''user'' (u_ID (cx_user cx))
                 (''account self-deleted from '' @ clientIP r);
          return (writeHeader 204)
        })
   }"

definition handleDeleteAccount :: "server_packages \<Rightarrow> reqctx \<Rightarrow> handler" where
  "handleDeleteAccount pk cx r = do {
     locked \<leftarrow> limiter_locked (delete_lock_key (u_ID (cx_user cx)));
     (if locked then return (writeErr 429 ''RATE_LIMITED'' ''too many failed attempts, try again later'')
      else case DecodeInto dec_password r of
        Inl _ \<Rightarrow> return (invalid_input ''malformed request body'')
      | Inr password \<Rightarrow>
          if password = [] then return (invalid_input ''password is required'')
          else if \<not> CheckPassword (pk_compare pk) (u_PasswordHash (cx_user cx)) password then do {
            ok \<leftarrow> limiter_allow (delete_fail_key (u_ID (cx_user cx))) 3 lock_time;
            (if \<not> ok then limiter_lockout (delete_lock_key (u_ID (cx_user cx))) lock_time else return ());
            return (invalid_input ''incorrect password'')
          }
          else do {
            limiter_reset (delete_fail_key (u_ID (cx_user cx)));
            delete_confirmed cx r
          })
   }"

section \<open>Routes\<close>

definition register_route :: "server_packages \<Rightarrow> string list \<Rightarrow> handler" where
  "register_route pk proxies = RateLimitMiddleware 3 Minute proxies (handleRegister pk)"

definition login_route :: "server_packages \<Rightarrow> string list \<Rightarrow> handler" where
  "login_route pk proxies = RateLimitMiddleware 60 Minute proxies (handleLogin pk proxies)"

definition verify_totp_route :: "server_packages \<Rightarrow> string list \<Rightarrow> handler" where
  "verify_totp_route pk proxies = RateLimitMiddleware 10 Minute proxies (handleVerifyTOTP pk)"

definition logout_route :: "server_packages \<Rightarrow> handler" where
  "logout_route pk = AuthMiddleware pk handleLogout"

definition me_route :: "server_packages \<Rightarrow> handler" where
  "me_route pk = AuthMiddleware pk handleMe"

definition account_route :: "server_packages \<Rightarrow> string list \<Rightarrow> handler" where
  "account_route pk proxies = AuthMiddleware pk (\<lambda>cx. RateLimitMiddleware 5 Minute proxies (handleDeleteAccount pk cx))"

definition totp_enable_route :: "server_packages \<Rightarrow> string list \<Rightarrow> handler" where
  "totp_enable_route pk proxies = AuthMiddleware pk (\<lambda>cx. RateLimitMiddleware 5 Minute proxies (handleEnableTOTP pk cx))"

definition totp_confirm_route :: "server_packages \<Rightarrow> string list \<Rightarrow> handler" where
  "totp_confirm_route pk proxies = AuthMiddleware pk (\<lambda>cx. RateLimitMiddleware 5 Minute proxies (handleConfirmTOTP pk cx))"

definition totp_disable_route :: "server_packages \<Rightarrow> string list \<Rightarrow> handler" where
  "totp_disable_route pk proxies = AuthMiddleware pk (\<lambda>cx. RateLimitMiddleware 5 Minute proxies (handleDisableTOTP pk cx))"

end
