(* ===== verification/RestApi.thy ===== *)
theory RestApi
  imports AuthApi
begin

text \<open>
  The REST endpoints beside authentication: invites (\<^verbatim>\<open>api/invite_handler.go\<close>), direct
  messages (\<^verbatim>\<open>api/dm_handler.go\<close>), channels, history, search and pins
  (\<^verbatim>\<open>api/channel_handler.go\<close>) and uploads (\<^verbatim>\<open>api/upload_handler.go\<close>). Every one but file
  serving is mounted behind \<^verbatim>\<open>AuthMiddleware\<close>, so its context has a user.
\<close>

section \<open>Shapes\<close>

definition jopt_field :: "string \<Rightarrow> ('a \<Rightarrow> json) \<Rightarrow> 'a option \<Rightarrow> (string \<times> json) list" where
  "jopt_field name f x = (case x of None \<Rightarrow> [] | Some v \<Rightarrow> [(name, f v)])"

definition channel_json :: "Channel \<Rightarrow> json" where
  "channel_json c = JObj ([(''id'', jint (c_ID c)), (''name'', JStr (c_Name c)), (''type'', JStr (c_Type c)),
     (''category'', JStr (c_Category c)), (''topic'', JStr (c_Topic c)), (''position'', jint (c_Position c)),
     (''slow_mode'', jint (c_SlowMode c)), (''archived'', JBool (c_Archived c)), (''created_at'', JStr (c_CreatedAt c)),
     (''voice_max_users'', jint (c_VoiceMaxUsers c))] @ jopt_field ''voice_quality'' JStr (c_VoiceQuality c) @
     jopt_field ''mixing_threshold'' jint (c_MixingThreshold c) @ [(''voice_max_video'', jint (c_VoiceMaxVideo c))])"

definition user_public_json :: "UserPublic \<Rightarrow> json" where
  "user_public_json u = JObj ([(''id'', jint (up_ID u)), (''username'', JStr (up_Username u))] @
     jopt_field ''avatar'' JStr (up_Avatar u))"

definition attachment_json :: "AttachmentInfo \<Rightarrow> json" where
  "attachment_json a = JObj ([(''id'', JStr (ai_ID a)), (''filename'', JStr (ai_Filename a)), (''size'', jint (ai_Size a)),
     (''mime'', JStr (ai_Mime a)), (''url'', JStr (ai_URL a))] @ jopt_field ''width'' jint (ai_Width a) @
     jopt_field ''height'' jint (ai_Height a))"

definition reaction_json :: "ReactionInfo \<Rightarrow> json" where
  "reaction_json x = JObj [(''emoji'', JStr (ri_Emoji x)), (''count'', jint (ri_Count x)), (''me'', JBool (ri_Me x))]"

definition message_json :: "MessageAPIResponse \<Rightarrow> json" where
  "message_json m = JObj [(''id'', jint (mr_ID m)), (''channel_id'', jint (mr_ChannelID m)),
     (''user'', user_public_json (mr_User m)), (''content'', JStr (mr_Content m)), (''reply_to'', jint_opt (mr_ReplyTo m)),
     (''attachments'', JArr (map attachment_json (mr_Attachments m))), (''reactions'', JArr (map reaction_json (mr_Reactions m))),
     (''pinned'', JBool (mr_Pinned m)), (''edited_at'', jstr_opt (mr_EditedAt m)), (''deleted'', JBool (mr_Deleted m)),
     (''timestamp'', JStr (mr_Timestamp m))]"

definition search_json :: "MessageSearchResult \<Rightarrow> json" where
  "search_json x = JObj [(''message_id'', jint (sr_MessageID x)), (''channel_id'', jint (sr_ChannelID x)),
     (''channel_name'', JStr (sr_ChannelName x)), (''user'', user_public_json (sr_User x)),
     (''content'', JStr (sr_Content x)), (''timestamp'', JStr (sr_Timestamp x))]"

definition dm_user_json :: "DMUser \<Rightarrow> json" where
  "dm_user_json u = JObj [(''id'', jint (du_ID u)), (''username'', JStr (du_Username u)), (''avatar'', JStr (du_Avatar u)),
     (''status'', JStr (du_Status u))]"

definition dm_channel_json :: "DMChannelInfo \<Rightarrow> json" where
  "dm_channel_json d = JObj [(''channel_id'', jint (di_ChannelID d)), (''recipient'', dm_user_json (di_Recipient d)),
     (''last_message_id'', jint_opt (di_LastMessageID d)), (''last_message'', JStr (di_LastMessage d)),
     (''last_message_at'', JStr (di_LastMessageAt d)), (''unread_count'', jint (di_UnreadCount d))]"

definition toInviteResponse :: "Invite \<Rightarrow> json" where
  "toInviteResponse i = JObj [(''id'', jint (i_ID i)), (''code'', JStr (i_Code i)), (''max_uses'', jint_opt (i_MaxUses i)),
     (''uses'', jint (i_Uses i)), (''expires_at'', jstr_opt (i_ExpiresAt i)), (''revoked'', JBool (i_Revoked i)),
     (''created_at'', JStr (i_CreatedAt i))]"

definition internal :: "string \<Rightarrow> response" where
  "internal msg = writeErr 500 ''INTERNAL'' msg"

definition bad_request :: "string \<Rightarrow> response" where
  "bad_request msg = writeErr 400 ''BAD_REQUEST'' msg"

definition not_found :: "string \<Rightarrow> response" where
  "not_found msg = writeErr 404 ''NOT_FOUND'' msg"

text \<open>A panic of a handler, here a nil channel: chi's \<^verbatim>\<open>Recoverer\<close> answers 500.\<close>

definition recovered :: response where
  "recovered = writeHeader 500"

section \<open>Invites\<close>

definition dec_create_invite :: "json \<Rightarrow> (int \<times> int) option" where
  "dec_create_invite js = fields2 Pair (field dec_int 0 ''max_uses'' js) (field dec_int 0 ''expires_in_hours'' js)"

text \<open>\<^verbatim>\<open>time.Duration(hours) * time.Hour\<close> is a product of \<^verbatim>\<open>int64\<close>.\<close>

definition invite_expiry :: "int \<Rightarrow> (server, time option) state" where
  "invite_expiry hours =
     (if hours > 0 then do { t \<leftarrow> time_now; return (Some (t + wrap64 (hours * (60 * Minute)))) } else return None)"

definition handleCreateInvite :: "reqctx \<Rightarrow> handler" where
  "handleCreateInvite cx r =
     (case (case DecodeInto dec_create_invite r of Inl EOF \<Rightarrow> Inr (0, 0) | x \<Rightarrow> x) of
        Inl _ \<Rightarrow> return (bad_request ''malformed JSON body'')
      | Inr (maxUses, hours) \<Rightarrow> do {
          expiresAt \<leftarrow> invite_expiry hours;
          raw \<leftarrow> rand_read;
          code \<leftarrow> CreateInvite raw (u_ID (cx_user cx)) maxUses expiresAt;
          (case code of
             Inl _ \<Rightarrow> return (server_error ''failed to create invite'')
           | Inr code \<Rightarrow> do {
               iv \<leftarrow> GetInvite code;
               (case iv of
                  Inr (Some iv) \<Rightarrow> return (writeJSON 201 (toInviteResponse iv))
                | _ \<Rightarrow> return (server_error ''failed to retrieve invite''))
             })
        })"

definition handleListInvites :: "reqctx \<Rightarrow> handler" where
  "handleListInvites cx r = do {
     invs \<leftarrow> ListInvites;
     (case invs of
        Inl _ \<Rightarrow> return (server_error ''failed to list invites'')
      | Inr invs \<Rightarrow> return (writeJSON 200 (JArr (map toInviteResponse invs))))
   }"

definition handleRevokeInvite :: "reqctx \<Rightarrow> handler" where
  "handleRevokeInvite cx r = do {
     iv \<leftarrow> GetInvite (rq_param r ''code'');
     (case iv of
        Inl _ \<Rightarrow> return (server_error ''failed to look up invite'')
      | Inr None \<Rightarrow> return (not_found ''invite not found'')
      | Inr (Some _) \<Rightarrow> do {
          d \<leftarrow> RevokeInvite (rq_param r ''code'');
          (case d of
             Inl _ \<Rightarrow> return (server_error ''failed to revoke invite'')
           | Inr _ \<Rightarrow> return (writeHeader 204))
        })
   }"

definition invite_route :: "server_packages \<Rightarrow> (reqctx \<Rightarrow> handler) \<Rightarrow> handler" where
  "invite_route pk h = AuthMiddleware pk (RequirePermission ManageInvites h)"

section \<open>Direct messages\<close>

definition handleCreateDM :: "reqctx \<Rightarrow> handler" where
  "handleCreateDM cx r =
     (case DecodeInto (field dec_int 0 ''recipient_id'') r of
        Inl _ \<Rightarrow> return (bad_request ''invalid request body'')
      | Inr recipientID \<Rightarrow>
          if recipientID \<le> 0 then return (bad_request ''recipient_id must be a positive integer'')
          else if recipientID = u_ID (cx_user cx) then return (bad_request ''cannot create a DM with yourself'')
          else do {
            recipient \<leftarrow> GetUserByID recipientID;
            (case recipient of
               Inl _ \<Rightarrow> return (internal ''failed to look up recipient'')
             | Inr None \<Rightarrow> return (not_found ''recipient not found'')
             | Inr (Some recipient) \<Rightarrow> do {
                 ch \<leftarrow> GetOrCreateDMChannel (u_ID (cx_user cx)) recipientID;
                 (case ch of
                    Inl _ \<Rightarrow> return (internal ''failed to create DM channel'')
                  | Inr (None, _) \<Rightarrow> return recovered
                  | Inr (Some ch, created) \<Rightarrow>
                      return (writeJSON (if created then 201 else 200) (JObj
                        [(''channel_id'', jint (c_ID ch)),
                         (''recipient'', dm_user_json \<lparr>du_ID = u_ID recipient, du_Username = u_Username recipient,
                            du_Avatar = (case u_Avatar recipient of None \<Rightarrow> [] | Some a \<Rightarrow> a), du_Status = u_Status recipient\<rparr>),
                         (''created'', JBool created)])))
               })
          })"

definition handleListDMs :: "reqctx \<Rightarrow> handler" where
  "handleListDMs cx r = do {
     chs \<leftarrow> GetUserDMChannels (u_ID (cx_user cx));
     (case chs of
        Inl _ \<Rightarrow> return (internal ''failed to list DM channels'')
      | Inr chs \<Rightarrow> return (writeJSON 200 (JObj [(''dm_channels'', JArr (map dm_channel_json chs))])))
   }"

definition dm_close_message :: "int64 \<Rightarrow> bytes" where
  "dm_close_message channelID = Marshal (JObj [(''type'', JStr ''dm_channel_close''), (''payload'', JObj [(''channel_id'', jint channelID)])])"

definition handleCloseDM :: "reqctx \<Rightarrow> handler" where
  "handleCloseDM cx r =
     (case parseIDParam r ''channelId'' of
        Inl e \<Rightarrow> return e
      | Inr channelID \<Rightarrow> do {
          p \<leftarrow> IsDMParticipant (u_ID (cx_user cx)) channelID;
          (case p of
             Inl _ \<Rightarrow> return (internal ''failed to verify DM participation'')
           | Inr False \<Rightarrow> return (forbidden ''you are not a participant in this DM'')
           | Inr True \<Rightarrow> do {
               d \<leftarrow> CloseDM (u_ID (cx_user cx)) channelID;
               (case d of
                  Inl _ \<Rightarrow> return (internal ''failed to close DM'')
                | Inr _ \<Rightarrow> do {
                    _ \<leftarrow> SendToUser (u_ID (cx_user cx)) (dm_close_message channelID);
                    return (writeHeader 204)
                  })
             })
        })"

section \<open>Channels\<close>

definition defaultMessageLimit :: int where "defaultMessageLimit = 50"
definition maxMessageLimit :: int where "maxMessageLimit = 100"

definition hasChannelPermREST :: "Role option \<Rightarrow> int64 \<Rightarrow> perms \<Rightarrow> (server, bool) state" where
  "hasChannelPermREST role channelID perm =
     (case role of
        None \<Rightarrow> return False
      | Some role \<Rightarrow>
          if HasAdmin (r_Permissions role) then return True
          else do {
            p \<leftarrow> GetChannelPermissions channelID (r_ID role);
            (case p of
               Inl _ \<Rightarrow> return False
             | Inr (allow, deny) \<Rightarrow> return (EffectivePerms (r_Permissions role) allow deny AND perm = perm))
          })"

definition hasChannelPermBatch :: "Role option \<Rightarrow> (int64, ChannelOverride) mapping \<Rightarrow> int64 \<Rightarrow> perms \<Rightarrow> bool" where
  "hasChannelPermBatch role overrides channelID perm =
     (case role of
        None \<Rightarrow> False
      | Some role \<Rightarrow>
          HasAdmin (r_Permissions role) \<or>
          (let ov = (case Mapping.lookup overrides channelID of
                       None \<Rightarrow> \<lparr>Allow_bits = 0, Deny_bits = 0\<rparr> | Some ov \<Rightarrow> ov)
           in EffectivePerms (r_Permissions role) (Allow_bits ov) (Deny_bits ov) AND perm = perm))"

text \<open>The overrides of the role, fetched once; an administrator needs none.\<close>

definition fetch_overrides :: "Role option \<Rightarrow> (server, db_error + (int64, ChannelOverride) mapping) state" where
  "fetch_overrides role =
     (case role of
        None \<Rightarrow> return (Inr Mapping.empty)
      | Some role \<Rightarrow>
          if HasAdmin (r_Permissions role) then return (Inr Mapping.empty)
          else GetAllChannelPermissionsForRole (r_ID role))"

definition handleListChannels :: "reqctx \<Rightarrow> handler" where
  "handleListChannels cx r = do {
     chs \<leftarrow> ListChannels;
     (case chs of
        Inl _ \<Rightarrow> return (internal ''failed to list channels'')
      | Inr chs \<Rightarrow> do {
          overrides \<leftarrow> fetch_overrides (cx_role cx);
          (case overrides of
             Inl _ \<Rightarrow> return (internal ''failed to fetch channel permissions'')
           | Inr overrides \<Rightarrow>
               return (writeJSON 200 (JArr (map channel_json
                 (filter (\<lambda>ch. hasChannelPermBatch (cx_role cx) overrides (c_ID ch) ReadMessages) chs)))))
        })
   }"

text \<open>
  The access check that history, pins and pinning share: participation in a direct message
  channel, the permission on any other. \<open>Inl\<close> is the response that ends the request.
\<close>

definition channel_access :: "reqctx \<Rightarrow> int64 \<Rightarrow> perms \<Rightarrow> string \<Rightarrow> (server, response + Channel) state" where
  "channel_access cx channelID perm denied = do {
     ch \<leftarrow> GetChannel channelID;
     (case ch of
        Inl _ \<Rightarrow> return (Inl (internal ''failed to look up channel''))
      | Inr None \<Rightarrow> return (Inl (not_found ''channel not found''))
      | Inr (Some ch) \<Rightarrow>
          if c_Type ch = ''dm'' then do {
            p \<leftarrow> IsDMParticipant (u_ID (cx_user cx)) channelID;
            (case p of
               Inr True \<Rightarrow> return (Inr ch)
             | _ \<Rightarrow> return (Inl (forbidden ''not a participant in this DM'')))
          }
          else do {
            ok \<leftarrow> hasChannelPermREST (cx_role cx) channelID perm;
            (if ok then return (Inr ch) else return (Inl (forbidden denied)))
          })
   }"

definition parse_before :: "request \<Rightarrow> response + int64" where
  "parse_before r =
     (let raw = rq_query r ''before'' in
      if raw = [] then Inr 0
      else case ParseInt raw of
        Some v \<Rightarrow> if v < 0 then Inl (bad_request ''before must be a non-negative integer'') else Inr v
      | None \<Rightarrow> Inl (bad_request ''before must be a non-negative integer''))"

definition parse_limit :: "request \<Rightarrow> response + int" where
  "parse_limit r =
     (let raw = rq_query r ''limit'' in
      if raw = [] then Inr defaultMessageLimit
      else case ParseInt raw of
        Some v \<Rightarrow> if v < 1 then Inl (bad_request ''limit must be a positive integer'') else Inr (min v maxMessageLimit)
      | None \<Rightarrow> Inl (bad_request ''limit must be a positive integer''))"

definition messages_response :: "MessageAPIResponse list \<Rightarrow> bool \<Rightarrow> response" where
  "messages_response msgs hasMore =
     writeJSON 200 (JObj [(''messages'', JArr (map message_json msgs)), (''has_more'', JBool hasMore)])"

definition handleGetMessages :: "reqctx \<Rightarrow> handler" where
  "handleGetMessages cx r =
     (case parseIDParam r ''id'' of
        Inl e \<Rightarrow> return e
      | Inr channelID \<Rightarrow> do {
          acc \<leftarrow> channel_access cx channelID ReadMessages ''no permission to view this channel'';
          (case acc of
             Inl e \<Rightarrow> return e
           | Inr _ \<Rightarrow>
               (case parse_before r of
                  Inl e \<Rightarrow> return e
                | Inr before \<Rightarrow>
                    (case parse_limit r of
                       Inl e \<Rightarrow> return e
                     | Inr limit \<Rightarrow> do {
                         msgs \<leftarrow> GetMessagesForAPI channelID before (limit + 1) (u_ID (cx_user cx));
                         (case msgs of
                            Inl _ \<Rightarrow> return (internal ''failed to fetch messages'')
                          | Inr msgs \<Rightarrow>
                              return (messages_response (if int (length msgs) > limit then take (nat limit) msgs else msgs)
                                (int (length msgs) > limit)))
                       })))
        })"

definition handleGetPins :: "reqctx \<Rightarrow> handler" where
  "handleGetPins cx r =
     (case parseIDParam r ''id'' of
        Inl e \<Rightarrow> return e
      | Inr channelID \<Rightarrow> do {
          acc \<leftarrow> channel_access cx channelID ReadMessages ''no permission to view this channel'';
          (case acc of
             Inl e \<Rightarrow> return e
           | Inr _ \<Rightarrow> do {
               msgs \<leftarrow> GetPinnedMessages channelID (u_ID (cx_user cx));
               (case msgs of
                  Inl _ \<Rightarrow> return (internal ''failed to fetch pinned messages'')
                | Inr msgs \<Rightarrow> return (messages_response msgs False))
             })
        })"

definition set_pinned :: "int64 \<Rightarrow> int64 \<Rightarrow> bool \<Rightarrow> (server, response) state" where
  "set_pinned channelID messageID pinned = do {
     msg \<leftarrow> GetMessage messageID;
     (case msg of
        Inl _ \<Rightarrow> return (internal ''failed to look up message'')
      | Inr None \<Rightarrow> return (not_found ''message not found'')
      | Inr (Some msg) \<Rightarrow>
          if m_ChannelID msg \<noteq> channelID then return (not_found ''message not found'')
          else do {
            d \<leftarrow> SetMessagePinned messageID pinned;
            (case d of
               Inl _ \<Rightarrow> return (internal (''failed to '' @ (if pinned then ''pin'' else ''unpin'') @ '' message''))
             | Inr _ \<Rightarrow> return (writeHeader 204))
          })
   }"

definition handleSetPinned :: "bool \<Rightarrow> reqctx \<Rightarrow> handler" where
  "handleSetPinned pinned cx r =
     (case parseIDParam r ''id'' of
        Inl e \<Rightarrow> return e
      | Inr channelID \<Rightarrow>
          (case parseIDParam r ''messageId'' of
             Inl e \<Rightarrow> return e
           | Inr messageID \<Rightarrow> do {
               acc \<leftarrow> channel_access cx channelID ManageMessages ''no permission to manage messages in this channel'';
               (case acc of
                  Inl e \<Rightarrow> return e
                | Inr _ \<Rightarrow> set_pinned channelID messageID pinned)
             }))"

section \<open>Search\<close>

definition parse_search_channel :: "request \<Rightarrow> response + int64 option" where
  "parse_search_channel r =
     (let raw = rq_query r ''channel_id'' in
      if raw = [] then Inr None
      else case ParseInt raw of
        Some v \<Rightarrow> if v \<le> 0 then Inl (bad_request ''channel_id must be a positive integer'') else Inr (Some v)
      | None \<Rightarrow> Inl (bad_request ''channel_id must be a positive integer''))"

text \<open>Whether one result may be shown; a channel of unknown type hides it.\<close>

definition search_visible ::
  "reqctx \<Rightarrow> (int64, ChannelOverride) mapping \<Rightarrow> (int64, string) mapping \<Rightarrow> MessageSearchResult \<Rightarrow> (server, bool) state" where
  "search_visible cx overrides types res =
     (case Mapping.lookup types (sr_ChannelID res) of
        None \<Rightarrow> return False
      | Some chType \<Rightarrow>
          if chType = ''dm'' then do {
            p \<leftarrow> IsDMParticipant (u_ID (cx_user cx)) (sr_ChannelID res);
            return (case p of Inr b \<Rightarrow> b | Inl _ \<Rightarrow> False)
          }
          else return (hasChannelPermBatch (cx_role cx) overrides (sr_ChannelID res) ReadMessages))"

primrec search_filter ::
  "reqctx \<Rightarrow> (int64, ChannelOverride) mapping \<Rightarrow> (int64, string) mapping \<Rightarrow> MessageSearchResult list \<Rightarrow>
   (server, MessageSearchResult list) state" where
  "search_filter cx ov ty [] = return []"
| "search_filter cx ov ty (x # xs) = do {
     ok \<leftarrow> search_visible cx ov ty x;
     rest \<leftarrow> search_filter cx ov ty xs;
     return (if ok then x # rest else rest)
   }"

text \<open>
  The channel ids come out of a Go map in any order; only their set matters to the query.
\<close>

definition search_results :: "reqctx \<Rightarrow> MessageSearchResult list \<Rightarrow> (server, response) state" where
  "search_results cx results = do {
     overrides \<leftarrow> fetch_overrides (cx_role cx);
     (case overrides of
        Inl _ \<Rightarrow> return (internal ''search failed'')
      | Inr overrides \<Rightarrow> do {
          types \<leftarrow> GetChannelTypes (remdups (map sr_ChannelID results));
          (case types of
             Inl _ \<Rightarrow> return (internal ''search failed'')
           | Inr types \<Rightarrow> do {
               filtered \<leftarrow> search_filter cx overrides types results;
               return (writeJSON 200 (JObj [(''results'', JArr (map search_json filtered))]))
             })
        })
   }"

definition handleSearch :: "server_packages \<Rightarrow> reqctx \<Rightarrow> handler" where
  "handleSearch pk cx r =
     (let q = rq_query r ''q'' in
      if q = [] then return (bad_request (''query parameter '' @ [CHR 0x27] @ ''q'' @ [CHR 0x27] @ '' is required''))
      else case parse_search_channel r of
        Inl e \<Rightarrow> return e
      | Inr channelID \<Rightarrow>
          (case parse_limit r of
             Inl e \<Rightarrow> return e
           | Inr limit \<Rightarrow> do {
               results \<leftarrow> SearchMessages (pk_fts pk) q channelID limit;
               (case results of
                  Inl e \<Rightarrow> if pk_bad_query pk e then return (bad_request ''invalid search query'') else return (internal ''search failed'')
                | Inr results \<Rightarrow> search_results cx results)
             }))"

definition search_route :: "server_packages \<Rightarrow> string list \<Rightarrow> handler" where
  "search_route pk proxies = AuthMiddleware pk (\<lambda>cx.
     rateLimitMiddlewareWithPrefix ''search:'' 30 Minute proxies (handleSearch pk cx))"

section \<open>Uploads\<close>

text \<open>
  An upload as the multipart parser hands it over: \<open>None\<close> when the form or its file field is
  missing. The detected type and the image dimensions are the results of
  \<^verbatim>\<open>http.DetectContentType\<close> and \<^verbatim>\<open>image.DecodeConfig\<close>; \<open>up_fileID\<close> is the new UUID, and
  \<open>up_errtext\<close> the text of an error of the storage.
\<close>

record upload =
  up_form :: bool
  up_file :: "(string \<times> string) option"
  up_size :: int64
  up_fileID :: string
  up_readable :: bool
  up_seekable :: bool
  up_mime :: string
  up_dims :: "(int \<times> int) option"
  up_errtext :: "storage_error \<Rightarrow> string"

definition on_disk :: "(disk \<Rightarrow> 'a \<times> disk) \<Rightarrow> (server, 'a) state" where
  "on_disk f = State (\<lambda>s. case f (sv_disk s) of (x, d) \<Rightarrow> (x, s\<lparr>sv_disk := d\<rparr>))"

definition handleUpload :: "string option \<Rightarrow> Storage \<Rightarrow> disk_faults \<Rightarrow> upload \<Rightarrow> reqctx \<Rightarrow> handler" where
  "handleUpload cwd store df up cx r =
     (if \<not> up_form up then return (bad_request ''invalid multipart form'')
      else case up_file up of
        None \<Rightarrow> return (bad_request ''missing file field'')
      | Some (filename, content) \<Rightarrow>
          if \<not> up_readable up then return (bad_request ''failed to read uploaded file'')
          else if \<not> up_seekable up then return (writeErr 500 ''INTERNAL_ERROR'' ''failed to process uploaded file'')
          else do {
            saved \<leftarrow> on_disk (Save cwd store df (up_fileID up) content);
            (case saved of
               Inl e \<Rightarrow> return (bad_request (''upload rejected: '' @ up_errtext up e))
             | Inr _ \<Rightarrow> do {
                 opened \<leftarrow> gets (\<lambda>s. OpenFile cwd store (up_fileID up) (sv_disk s));
                 let dims = (if hasPrefix (up_mime up) ''image/'' \<and> (\<exists>c. opened = Inr c) then up_dims up else None);
                 a \<leftarrow> CreateAttachment (up_fileID up) filename (up_fileID up) (up_mime up) (up_size up)
                        (map_option fst dims) (map_option snd dims);
                 (case a of
                    Inl _ \<Rightarrow> do {
                      _ \<leftarrow> on_disk (DeleteFile cwd store df (up_fileID up));
                      return (writeErr 500 ''INTERNAL_ERROR'' ''failed to save attachment'')
                    }
                  | Inr _ \<Rightarrow>
                      return (writeJSON 201 (JObj ([(''id'', JStr (up_fileID up)), (''filename'', JStr filename),
                        (''size'', jint (up_size up)), (''mime'', JStr (up_mime up)), (''url'', JStr (''/api/v1/files/'' @ up_fileID up))] @
                        jopt_field ''width'' (jint \<circ> fst) dims @ jopt_field ''height'' (jint \<circ> snd) dims))))
               })
          })"

text \<open>Serving: the stored bytes and the headers, or 404.\<close>

definition cors_headers :: "string list \<Rightarrow> string \<Rightarrow> (string \<times> string) list" where
  "cors_headers allowedOrigins origin =
     (if origin \<noteq> [] \<and> list_ex (\<lambda>a. a = ''*'' \<or> nocase a = nocase origin) allowedOrigins
      then [(''Access-Control-Allow-Origin'', origin), (''Access-Control-Expose-Headers'', ''Content-Type, Content-Length'')]
      else [])"

datatype served = ServeError nat | ServeContent "(string \<times> string) list" string

definition handleServeFile :: "string option \<Rightarrow> Storage \<Rightarrow> string list \<Rightarrow> request \<Rightarrow> (server, served) state" where
  "handleServeFile cwd store allowedOrigins r =
     (let fileID = rq_param r ''id'' in
      if fileID = [] then return (ServeError 404)
      else do {
        att \<leftarrow> GetAttachmentByID fileID;
        (case att of
           Inl _ \<Rightarrow> return (ServeError 500)
         | Inr None \<Rightarrow> return (ServeError 404)
         | Inr (Some att) \<Rightarrow> do {
             f \<leftarrow> gets (\<lambda>s. OpenFile cwd store (a_StoredAs att) (sv_disk s));
             (case f of
                Inl _ \<Rightarrow> return (ServeError 404)
              | Inr content \<Rightarrow>
                  return (ServeContent ([(''Content-Type'', a_MimeType att), (''Cache-Control'', ''public, max-age=31536000, immutable'')] @
                    cors_headers allowedOrigins (rq_header r ''Origin'')) content))
           })
      })"

section \<open>Health and information\<close>

definition handleHealth :: "string \<Rightarrow> time \<Rightarrow> handler" where
  "handleHealth ver serverStartTime r = do {
     t \<leftarrow> time_now;
     n \<leftarrow> ClientCount;
     return (writeJSON 200 (JObj [(''status'', JStr ''ok''), (''version'', JStr ver),
       (''uptime'', jint ((t - serverStartTime) div Second)), (''online_users'', jint n)]))
   }"

definition handleInfo :: "string \<Rightarrow> string \<Rightarrow> handler" where
  "handleInfo name ver r = return (writeJSON 200 (JObj [(''name'', JStr name), (''version'', JStr ver)]))"

end
