(* ===== verification/AdminApi.thy ===== *)
theory AdminApi
  imports RestApi
begin

text \<open>
  The admin panel's API, \<^verbatim>\<open>admin/\<close>: authentication of administrators, users, channels,
  settings, the audit log, the first-run setup, backups and the tickets of the log
  stream.
\<close>

section \<open>Middleware\<close>

definition adminAuthMiddleware :: "server_packages \<Rightarrow> (reqctx \<Rightarrow> handler) \<Rightarrow> handler" where
  "adminAuthMiddleware pk nxt r =
     (case ExtractBearerToken (rq_header r ''Authorization'') of
        None \<Rightarrow> return (unauthorized ''missing or invalid authorization header'')
      | Some token \<Rightarrow> do {
          sess \<leftarrow> GetSessionByTokenHash (HashToken (pk_sha256 pk) token);
          (case sess of
             Inr (Some sess) \<Rightarrow> do {
               expired \<leftarrow> IsSessionExpired (s_ExpiresAt sess);
               (if expired then return (unauthorized ''session has expired'')
                else do {
                  user \<leftarrow> GetUserByID (s_UserID sess);
                  (case user of
                     Inr (Some user) \<Rightarrow> do {
                       role \<leftarrow> GetRoleByID (u_RoleID user);
                       (case role of
                          Inr (Some role) \<Rightarrow>
                            if \<not> HasAdmin (r_Permissions role)
                            then return (forbidden ''administrator permission required'')
                            else nxt \<lparr>cx_user = user, cx_session = sess, cx_role = Some role\<rparr> r
                        | _ \<Rightarrow> return (unauthorized ''role not found''))
                     }
                   | _ \<Rightarrow> return (unauthorized ''user not found''))
                })
             }
           | _ \<Rightarrow> return (unauthorized ''invalid or expired session''))
        })"

definition ownerOnlyMiddleware :: "(reqctx \<Rightarrow> handler) \<Rightarrow> reqctx \<Rightarrow> handler" where
  "ownerOnlyMiddleware nxt cx r = do {
     role \<leftarrow> GetRoleByID (u_RoleID (cx_user cx));
     (case role of
        Inr (Some role) \<Rightarrow>
          if r_Position role < OwnerRolePosition then return (forbidden ''owner role required'') else nxt cx r
      | _ \<Rightarrow> return (forbidden ''role not found''))
   }"

definition internal_error :: "string \<Rightarrow> response" where
  "internal_error msg = writeErr 500 ''INTERNAL_ERROR'' msg"

abbreviation actor :: "reqctx \<Rightarrow> int64" where
  "actor cx \<equiv> u_ID (cx_user cx)"

text \<open>\<^verbatim>\<open>queryInt\<close>: out of range or malformed means the default; at most 500.\<close>

definition queryInt :: "request \<Rightarrow> string \<Rightarrow> int \<Rightarrow> int \<Rightarrow> int" where
  "queryInt r key defaultVal minVal =
     (if rq_query r key = [] then defaultVal
      else case ParseInt (rq_query r key) of
        None \<Rightarrow> defaultVal
      | Some n \<Rightarrow> if n < minVal then defaultVal else min n 500)"

section \<open>Transactions with messages\<close>

text \<open>
  The handlers that open their own transaction answer with a message per step: \<open>step_msg\<close>
  turns the error of a step into its message, and the message of the begin and the commit
  are arguments.
\<close>

definition step_msg :: "string \<Rightarrow> (server, db_error + 'a) state \<Rightarrow> (server, string + 'a) state" where
  "step_msg msg m = do { r \<leftarrow> m; return (case r of Inl _ \<Rightarrow> Inl msg | Inr x \<Rightarrow> Inr x) }"

definition transaction_msg :: "string \<Rightarrow> string \<Rightarrow> (server, string + unit) state \<Rightarrow> (server, string + unit) state" where
  "transaction_msg begin_msg commit_msg m = do {
     b \<leftarrow> execute (\<lambda>now s. s);
     (case b of
        Inl _ \<Rightarrow> return (Inl begin_msg)
      | Inr _ \<Rightarrow> do {
          s0 \<leftarrow> get;
          r \<leftarrow> m;
          (case r of
             Inl e \<Rightarrow> do { modify (rollback_to s0); return (Inl e) }
           | Inr _ \<Rightarrow> do {
               c \<leftarrow> execute (\<lambda>now s. s);
               (case c of
                  Inl _ \<Rightarrow> do { modify (rollback_to s0); return (Inl commit_msg) }
                | Inr _ \<Rightarrow> return (Inr ()))
             })
        })
   }"

section \<open>Users\<close>

definition admin_user_json :: "User \<Rightarrow> string \<Rightarrow> json" where
  "admin_user_json u roleName = JObj ([(''id'', jint (u_ID u)), (''username'', JStr (u_Username u))] @
     jopt_field ''avatar'' JStr (u_Avatar u) @ [(''role_id'', jint (u_RoleID u)), (''role_name'', JStr roleName),
     (''status'', JStr (u_Status u)), (''created_at'', JStr (u_CreatedAt u))] @ jopt_field ''last_seen'' JStr (u_LastSeen u) @
     [(''banned'', JBool (u_Banned u))] @ jopt_field ''ban_reason'' JStr (u_BanReason u) @
     jopt_field ''ban_expires'' JStr (u_BanExpires u))"

definition toAdminUserResponse :: "UserWithRole \<Rightarrow> json" where
  "toAdminUserResponse u = admin_user_json (User.truncate u) (ur_RoleName u)"

definition toAdminUserResponseFromUser :: "User \<Rightarrow> (server, json) state" where
  "toAdminUserResponseFromUser u = do {
     role \<leftarrow> GetRoleByID (u_RoleID u);
     return (admin_user_json u (case role of Inr (Some role) \<Rightarrow> r_Name role | _ \<Rightarrow> []))
   }"

text \<open>The counts of the dashboard; the page count and page size of the file are arguments.\<close>

definition GetServerStats :: "int64 \<Rightarrow> int64 \<Rightarrow> (server, db_error + (int64 \<times> int64 \<times> int64 \<times> int64 \<times> int64)) state" where
  "GetServerStats pageCount pageSize =
     bind_ok (query (\<lambda>s. int (length (users s)))) (\<lambda>us.
     bind_ok (query (\<lambda>s. int (length (filter (\<lambda>m. \<not> m_Deleted m) (messages s))))) (\<lambda>ms.
     bind_ok (query (\<lambda>s. int (length (channels s)))) (\<lambda>cs.
     bind_ok (query (\<lambda>s. int (length (filter (\<lambda>i. \<not> i_Revoked i) (invites s))))) (\<lambda>ivs.
     bind_ok (query (\<lambda>s. pageCount)) (\<lambda>pc.
     bind_ok (query (\<lambda>s. pageSize)) (\<lambda>ps.
       return (Inr (us, ms, cs, ivs, wrap64 (pc * ps)))))))))"

definition handleGetStats :: "int64 \<Rightarrow> int64 \<Rightarrow> reqctx \<Rightarrow> handler" where
  "handleGetStats pageCount pageSize cx r = do {
     st \<leftarrow> GetServerStats pageCount pageSize;
     (case st of
        Inl _ \<Rightarrow> return (internal_error ''failed to get stats'')
      | Inr (us, ms, cs, ivs, sz) \<Rightarrow> do {
          n \<leftarrow> ClientCount;
          return (writeJSON 200 (JObj [(''user_count'', jint us), (''message_count'', jint ms), (''channel_count'', jint cs),
            (''invite_count'', jint ivs), (''db_size_bytes'', jint sz), (''online_count'', jint n)]))
        })
   }"

definition handleListUsers :: "reqctx \<Rightarrow> handler" where
  "handleListUsers cx r = do {
     us \<leftarrow> ListAllUsers (queryInt r ''limit'' 50 1) (queryInt r ''offset'' 0 0);
     (case us of
        Inl _ \<Rightarrow> return (internal_error ''failed to list users'')
      | Inr us \<Rightarrow> return (writeJSON 200 (JArr (map toAdminUserResponse us))))
   }"

record patchUserRequest =
  pu_RoleID :: "int64 option"
  pu_Banned :: "bool option"
  pu_BanReason :: "string option"

fun dec_ptr :: "(json \<Rightarrow> 'a option) \<Rightarrow> 'a option \<Rightarrow> json \<Rightarrow> 'a option option" where
  "dec_ptr f x JNull = Some None"
| "dec_ptr f x v = map_option Some (f v)"

definition dec_patch_user :: "json \<Rightarrow> patchUserRequest option" where
  "dec_patch_user js = fields2 (\<lambda>a (b, c). \<lparr>pu_RoleID = a, pu_Banned = b, pu_BanReason = c\<rparr>)
     (field (dec_ptr (dec_int 0)) None ''role_id'' js)
     (fields2 Pair (field (dec_ptr (dec_bool False)) None ''banned'' js)
       (field (dec_ptr (dec_string [])) None ''ban_reason'' js))"

definition ban_reason :: "patchUserRequest \<Rightarrow> string" where
  "ban_reason req = (case pu_BanReason req of None \<Rightarrow> [] | Some x \<Rightarrow> x)"

definition patch_user_update :: "int64 \<Rightarrow> patchUserRequest \<Rightarrow> (server, string + unit) state" where
  "patch_user_update uid req = do {
     r \<leftarrow> (case pu_RoleID req of
             None \<Rightarrow> return (Inr ())
           | Some rid \<Rightarrow> step_msg ''failed to update role'' (UpdateUserRole uid rid));
     (case r of
        Inl e \<Rightarrow> return (Inl e)
      | Inr _ \<Rightarrow>
          (case pu_Banned req of
             None \<Rightarrow> return (Inr ())
           | Some True \<Rightarrow> step_msg ''failed to ban user'' (BanUser uid (ban_reason req) None)
           | Some False \<Rightarrow> step_msg ''failed to unban user'' (UnbanUser uid)))
   }"

text \<open>After the commit: audit entries and announcements.\<close>

definition patch_user_effects :: "reqctx \<Rightarrow> User \<Rightarrow> patchUserRequest \<Rightarrow> (server, unit) state" where
  "patch_user_effects cx user req = do {
     (case pu_RoleID req of
        None \<Rightarrow> return ()
      | Some rid \<Rightarrow> do {
          _ \<leftarrow> LogAudit (actor cx) ''role_change'' ''user'' (u_ID user)
                 (''changed '' @ u_Username user @ '' role to '' @ itoa rid);
          role \<leftarrow> GetRoleByID rid;
          (case role of Inr (Some role) \<Rightarrow> BroadcastMemberUpdate (u_ID user) (r_Name role) | _ \<Rightarrow> return ())
        });
     (case pu_Banned req of
        None \<Rightarrow> return ()
      | Some True \<Rightarrow> do {
          _ \<leftarrow> LogAudit (actor cx) ''user_ban'' ''user'' (u_ID user) (''banned '' @ u_Username user @ '': '' @ ban_reason req);
          BroadcastMemberBan (u_ID user)
        }
      | Some False \<Rightarrow> do {
          _ \<leftarrow> LogAudit (actor cx) ''user_unban'' ''user'' (u_ID user) (''unbanned '' @ u_Username user);
          return ()
        })
   }"

definition handlePatchUser :: "reqctx \<Rightarrow> handler" where
  "handlePatchUser cx r =
     (case ParseInt (rq_param r ''id'') of
        None \<Rightarrow> return (bad_request ''invalid user id'')
      | Some uid \<Rightarrow>
          (case DecodeInto dec_patch_user r of
             Inl _ \<Rightarrow> return (bad_request ''invalid request body'')
           | Inr req \<Rightarrow> do {
               user \<leftarrow> GetUserByID uid;
               (case user of
                  Inl _ \<Rightarrow> return (internal_error ''failed to fetch user'')
                | Inr None \<Rightarrow> return (not_found ''user not found'')
                | Inr (Some user) \<Rightarrow>
                    if uid = actor cx then return (bad_request ''cannot modify your own account via admin panel'')
                    else do {
                      tx \<leftarrow> transaction_msg ''failed to begin transaction'' ''failed to commit user update'' (patch_user_update uid req);
                      (case tx of
                         Inl msg \<Rightarrow> return (internal_error msg)
                       | Inr _ \<Rightarrow> do {
                           patch_user_effects cx user req;
                           updated \<leftarrow> GetUserByID uid;
                           (case updated of
                              Inl _ \<Rightarrow> return (internal_error ''failed to fetch updated user'')
                            | Inr None \<Rightarrow> return recovered
                            | Inr (Some u) \<Rightarrow> do {
                                js \<leftarrow> toAdminUserResponseFromUser u;
                                return (writeJSON 200 js)
                              })
                         })
                    })
             }))"

definition handleForceLogout :: "reqctx \<Rightarrow> handler" where
  "handleForceLogout cx r =
     (case ParseInt (rq_param r ''id'') of
        None \<Rightarrow> return (bad_request ''invalid user id'')
      | Some uid \<Rightarrow> do {
          d \<leftarrow> ForceLogoutUser uid;
          (case d of
             Inl _ \<Rightarrow> return (internal_error ''failed to logout user'')
           | Inr _ \<Rightarrow> do {
               _ \<leftarrow> LogAudit (actor cx) ''force_logout'' ''user'' uid ''all sessions terminated'';
               return (writeHeader 204)
             })
        })"

section \<open>Channels\<close>

definition voiceCategoryNames :: "string list" where
  "voiceCategoryNames = [''Voice Channels'']"

text \<open>\<^verbatim>\<open>strings.EqualFold\<close> with an ASCII name: the two runes outside ASCII that fold to a letter count.\<close>

definition isVoiceCategory :: "string \<Rightarrow> bool" where
  "isVoiceCategory category =
     list_ex (\<lambda>name. map fold_rune (runes category) = map fold_rune (runes name)) voiceCategoryNames"

definition allowedChannelTypes :: "string \<Rightarrow> string list" where
  "allowedChannelTypes category =
     (if category = [] then [''text'', ''voice'', ''announcement'']
      else if isVoiceCategory category then [''voice''] else [''text'', ''announcement''])"

definition validateCategoryType :: "string \<Rightarrow> string \<Rightarrow> string" where
  "validateCategoryType channelType category =
     (if category = [] then []
      else if channelType \<in> set (allowedChannelTypes category) then []
      else if isVoiceCategory category then ''only voice channels can be created under a voice category''
      else ''voice channels can only be created under a voice category'')"

definition handleAdminListChannels :: "reqctx \<Rightarrow> handler" where
  "handleAdminListChannels cx r = do {
     chs \<leftarrow> ListChannels;
     (case chs of
        Inl _ \<Rightarrow> return (internal_error ''failed to list channels'')
      | Inr chs \<Rightarrow> return (writeJSON 200 (JArr (map channel_json chs))))
   }"

record createChannelRequest =
  cr_Name :: string
  cr_Type :: string
  cr_Category :: string
  cr_Topic :: string
  cr_Position :: int

definition dec_create_channel :: "json \<Rightarrow> createChannelRequest option" where
  "dec_create_channel js = fields2 (\<lambda>(n, t) (c, tp, p). \<lparr>cr_Name = n, cr_Type = t, cr_Category = c, cr_Topic = tp, cr_Position = p\<rparr>)
     (fields2 Pair (field dec_string [] ''name'' js) (field dec_string [] ''type'' js))
     (fields2 Pair (field dec_string [] ''category'' js)
       (fields2 Pair (field dec_string [] ''topic'' js) (field dec_int 0 ''position'' js)))"

definition handleCreateChannel :: "reqctx \<Rightarrow> handler" where
  "handleCreateChannel cx r =
     (case DecodeInto dec_create_channel r of
        Inl _ \<Rightarrow> return (bad_request ''invalid request body'')
      | Inr req \<Rightarrow>
          if TrimSpace (cr_Name req) = [] then return (bad_request ''name is required'')
          else let ty = (if cr_Type req = [] then ''text'' else cr_Type req); msg = validateCategoryType ty (cr_Category req) in
            if msg \<noteq> [] then return (writeErr 400 ''INVALID_INPUT'' msg)
            else do {
              i \<leftarrow> AdminCreateChannel (cr_Name req) ty (cr_Category req) (cr_Topic req) (cr_Position req);
              (case i of
                 Inl _ \<Rightarrow> return (internal_error ''failed to create channel'')
               | Inr i \<Rightarrow> do {
                   ch \<leftarrow> GetChannel i;
                   (case ch of
                      Inr (Some ch) \<Rightarrow> do {
                        _ \<leftarrow> LogAudit (actor cx) ''channel_create'' ''channel'' i (''created #'' @ cr_Name req @ '' ('' @ ty @ '')'');
                        BroadcastChannelCreate ch;
                        return (writeJSON 201 (channel_json ch))
                      }
                    | _ \<Rightarrow> return (internal_error ''failed to fetch created channel''))
                 })
            })"

record updateChannelRequest =
  uc_Name :: string
  uc_Topic :: string
  uc_SlowMode :: int
  uc_Position :: int
  uc_Archived :: bool

text \<open>Decoded over the stored values, so an absent field keeps its value.\<close>

definition dec_update_channel :: "Channel \<Rightarrow> json \<Rightarrow> updateChannelRequest option" where
  "dec_update_channel ch js = fields2 (\<lambda>(n, t) (s, p, a). \<lparr>uc_Name = n, uc_Topic = t, uc_SlowMode = s, uc_Position = p, uc_Archived = a\<rparr>)
     (fields2 Pair (field dec_string (c_Name ch) ''name'' js) (field dec_string (c_Topic ch) ''topic'' js))
     (fields2 Pair (field dec_int (c_SlowMode ch) ''slow_mode'' js)
       (fields2 Pair (field dec_int (c_Position ch) ''position'' js) (field dec_bool (c_Archived ch) ''archived'' js)))"

definition handlePatchChannel :: "reqctx \<Rightarrow> handler" where
  "handlePatchChannel cx r =
     (case ParseInt (rq_param r ''id'') of
        None \<Rightarrow> return (bad_request ''invalid channel id'')
      | Some i \<Rightarrow> do {
          existing \<leftarrow> GetChannel i;
          (case existing of
             Inl _ \<Rightarrow> return (internal_error ''failed to fetch channel'')
           | Inr None \<Rightarrow> return (not_found ''channel not found'')
           | Inr (Some existing) \<Rightarrow>
               (case DecodeInto (dec_update_channel existing) r of
                  Inl _ \<Rightarrow> return (bad_request ''invalid request body'')
                | Inr req \<Rightarrow> do {
                    u \<leftarrow> AdminUpdateChannel i (uc_Name req) (uc_Topic req) (uc_SlowMode req) (uc_Position req) (uc_Archived req);
                    (case u of
                       Inl _ \<Rightarrow> return (internal_error ''failed to update channel'')
                     | Inr _ \<Rightarrow> do {
                         _ \<leftarrow> LogAudit (actor cx) ''channel_update'' ''channel'' i (''updated #'' @ uc_Name req);
                         updated \<leftarrow> GetChannel i;
                         (case updated of
                            Inr (Some ch) \<Rightarrow> do {
                              BroadcastChannelUpdate ch;
                              return (writeJSON 200 (channel_json ch))
                            }
                          | _ \<Rightarrow> return (internal_error ''failed to fetch updated channel''))
                       })
                  }))
        })"

definition handleDeleteChannel :: "reqctx \<Rightarrow> handler" where
  "handleDeleteChannel cx r =
     (case ParseInt (rq_param r ''id'') of
        None \<Rightarrow> return (bad_request ''invalid channel id'')
      | Some i \<Rightarrow> do {
          existing \<leftarrow> GetChannel i;
          (case existing of
             Inl _ \<Rightarrow> return (internal_error ''failed to fetch channel'')
           | Inr None \<Rightarrow> return (not_found ''channel not found'')
           | Inr (Some existing) \<Rightarrow> do {
               d \<leftarrow> AdminDeleteChannel i;
               (case d of
                  Inl _ \<Rightarrow> return (internal_error ''failed to delete channel'')
                | Inr _ \<Rightarrow> do {
                    _ \<leftarrow> LogAudit (actor cx) ''channel_delete'' ''channel'' i (''deleted #'' @ c_Name existing);
                    BroadcastChannelDelete i;
                    return (writeHeader 204)
                  })
             })
        })"

definition audit_json :: "AuditEntry \<Rightarrow> json" where
  "audit_json a = JObj [(''id'', jint (ae_ID a)), (''actor_id'', jint (ae_ActorID a)), (''actor_name'', JStr (ae_ActorName a)),
     (''action'', JStr (ae_Action a)), (''target_type'', JStr (ae_TargetType a)), (''target_id'', jint (ae_TargetID a)),
     (''detail'', JStr (ae_Detail a)), (''created_at'', JStr (ae_CreatedAt a))]"

definition handleGetAuditLog :: "reqctx \<Rightarrow> handler" where
  "handleGetAuditLog cx r = do {
     es \<leftarrow> GetAuditLog (queryInt r ''limit'' 50 1) (queryInt r ''offset'' 0 0);
     (case es of
        Inl _ \<Rightarrow> return (internal_error ''failed to get audit log'')
      | Inr es \<Rightarrow> return (writeJSON 200 (JArr (map audit_json es))))
   }"

end
