(* ===== verification/AdminSettings.thy ===== *)
theory AdminSettings
  imports AdminApi
begin

text \<open>
  The rest of the admin panel: settings (\<^verbatim>\<open>admin/handlers_settings.go\<close>), the first-run setup
  (\<^verbatim>\<open>admin/setup_handler.go\<close>), the tickets and the buffer of the log stream
  (\<^verbatim>\<open>admin/logstream.go\<close>), and the checks of a websocket's origin (\<^verbatim>\<open>ws/origin.go\<close>).
\<close>

section \<open>Settings\<close>

definition allowedSettingKeys :: "string list" where
  "allowedSettingKeys = [''server_name'', ''server_icon'', ''motd'', ''max_upload_bytes'', ''voice_quality'',
     ''require_2fa'', ''registration_open'', ''backup_schedule'', ''backup_retention'']"

text \<open>A body decoded into \<^verbatim>\<open>map[string]string\<close>: the last value of a key stays, and \<^verbatim>\<open>null\<close> is the empty map.\<close>

fun dec_pairs :: "(string \<times> json) list \<Rightarrow> (string \<times> string) list \<Rightarrow> (string \<times> string) list option" where
  "dec_pairs [] m = Some m"
| "dec_pairs ((k, v) # kvs) m = (case dec_string [] v of None \<Rightarrow> None | Some x \<Rightarrow> dec_pairs kvs (AList.update k x m))"

fun dec_string_map :: "json \<Rightarrow> (string \<times> string) list option" where
  "dec_string_map JNull = Some []"
| "dec_string_map (JObj kvs) = dec_pairs kvs []"
| "dec_string_map _ = None"

text \<open>
  Go ranges over a map in an order of the runtime's choice: \<open>ord n m\<close> is the order of the
  \<open>n\<close>-th loop of a request over the entries \<open>m\<close>.
\<close>

type_synonym range_order = "nat \<Rightarrow> (string \<times> string) list \<Rightarrow> (string \<times> string) list"

definition bool_setting_keys :: "string list" where
  "bool_setting_keys = [''require_2fa'', ''registration_open'']"

definition parse_bool_setting :: "server_packages \<Rightarrow> string \<Rightarrow> string + bool" where
  "parse_bool_setting pk v =
     (case parseBooleanSettingValue v of None \<Rightarrow> Inl (''invalid boolean value '' @ pk_quote pk v) | Some b \<Rightarrow> Inr b)"

definition bool_text :: "bool \<Rightarrow> string" where
  "bool_text b = (if b then ''1'' else ''0'')"

fun normalizeSettingUpdates :: "server_packages \<Rightarrow> (string \<times> string) list \<Rightarrow> string + (string \<times> string) list" where
  "normalizeSettingUpdates pk [] = Inr []"
| "normalizeSettingUpdates pk ((key, v) # kvs) =
     (case (if key \<in> set bool_setting_keys then map_sum id bool_text (parse_bool_setting pk v) else Inr v) of
        Inl e \<Rightarrow> Inl (key @ '': '' @ e)
      | Inr v' \<Rightarrow> map_sum id ((#) (key, v')) (normalizeSettingUpdates pk kvs))"

definition targetBoolSetting :: "server_packages \<Rightarrow> (string \<times> string) list \<Rightarrow> string \<Rightarrow> (server, string + bool) state" where
  "targetBoolSetting pk updates key =
     (case map_of updates key of
        Some v \<Rightarrow> return (parse_bool_setting pk v)
      | None \<Rightarrow> do {
          r \<leftarrow> GetSetting key;
          (case r of
             Inl ErrNotFound \<Rightarrow> return (Inr False)
           | Inl e \<Rightarrow> return (Inl (pk_errtext pk e))
           | Inr v \<Rightarrow> return (parse_bool_setting pk v))
        })"

definition validateRequire2FAUpdate :: "server_packages \<Rightarrow> (string \<times> string) list \<Rightarrow> (server, string option) state" where
  "validateRequire2FAUpdate pk updates = do {
     target \<leftarrow> targetBoolSetting pk updates ''require_2fa'';
     (case target of
        Inl e \<Rightarrow> return (Some e)
      | Inr False \<Rightarrow> return None
      | Inr True \<Rightarrow> do {
          registrationOpen \<leftarrow> targetBoolSetting pk updates ''registration_open'';
          (case registrationOpen of
             Inl e \<Rightarrow> return (Some e)
           | Inr True \<Rightarrow> return (Some ''require_2fa cannot be enabled while registration is open'')
           | Inr False \<Rightarrow> do {
               count \<leftarrow> CountUsersWithoutTOTP;
               (case count of
                  Inl _ \<Rightarrow> return (Some ''failed to validate 2FA enrollment'')
                | Inr n \<Rightarrow> return (if n > 0 then Some ''require_2fa cannot be enabled until all users have 2FA enabled'' else None))
             })
        })
   }"

primrec write_settings :: "(string \<times> string) list \<Rightarrow> (server, string + unit) state" where
  "write_settings [] = return (Inr ())"
| "write_settings (kv # kvs) = do {
     r \<leftarrow> step_msg (''failed to update setting: '' @ fst kv) (SetSetting (fst kv) (snd kv));
     (case r of Inl e \<Rightarrow> return (Inl e) | Inr _ \<Rightarrow> write_settings kvs)
   }"

primrec audit_settings :: "int64 \<Rightarrow> (string \<times> string) list \<Rightarrow> (server, unit) state" where
  "audit_settings a [] = return ()"
| "audit_settings a (kv # kvs) = do {
     _ \<leftarrow> LogAudit a ''setting_change'' ''setting'' 0 (fst kv @ '' updated'');
     audit_settings a kvs
   }"

text \<open>\<^verbatim>\<open>encoding/json\<close> prints a map with its keys in order.\<close>

definition settings_json :: "(string, string) mapping \<Rightarrow> json" where
  "settings_json m = JObj (map (\<lambda>k. (k, JStr (the (Mapping.lookup m k)))) (sorted_list_of_set (Mapping.keys m)))"

definition handleGetSettings :: "reqctx \<Rightarrow> handler" where
  "handleGetSettings cx r = do {
     m \<leftarrow> GetAllSettings;
     (case m of
        Inl _ \<Rightarrow> return (internal_error ''failed to get settings'')
      | Inr m \<Rightarrow> return (writeJSON 200 (settings_json m)))
   }"

definition apply_settings :: "range_order \<Rightarrow> reqctx \<Rightarrow> (string \<times> string) list \<Rightarrow> (server, response) state" where
  "apply_settings ord cx kvs = do {
     tx \<leftarrow> transaction_msg ''failed to start transaction'' ''failed to commit settings'' (write_settings (ord 2 kvs));
     (case tx of
        Inl msg \<Rightarrow> return (internal_error msg)
      | Inr _ \<Rightarrow> do {
          audit_settings (actor cx) (ord 3 kvs);
          m \<leftarrow> GetAllSettings;
          (case m of
             Inl _ \<Rightarrow> return (internal_error ''failed to fetch settings'')
           | Inr m \<Rightarrow> return (writeJSON 200 (settings_json m)))
        })
   }"

definition handlePatchSettings :: "server_packages \<Rightarrow> range_order \<Rightarrow> reqctx \<Rightarrow> handler" where
  "handlePatchSettings pk ord cx r =
     (case DecodeInto dec_string_map r of
        Inl _ \<Rightarrow> return (bad_request ''invalid request body'')
      | Inr updates \<Rightarrow>
          (case List.find (\<lambda>kv. fst kv \<notin> set allowedSettingKeys) (ord 0 updates) of
             Some kv \<Rightarrow> return (bad_request (''unknown setting key: '' @ pk_quote pk (fst kv)))
           | None \<Rightarrow>
               (case normalizeSettingUpdates pk (ord 1 updates) of
                  Inl e \<Rightarrow> return (bad_request e)
                | Inr kvs \<Rightarrow> do {
                    bad \<leftarrow> validateRequire2FAUpdate pk kvs;
                    (case bad of
                       Some e \<Rightarrow> return (bad_request e)
                     | None \<Rightarrow> apply_settings ord cx kvs)
                  })))"

section \<open>First-run setup\<close>

definition ownerRoleID :: int64 where "ownerRoleID = 1"

definition handleSetupStatus :: handler where
  "handleSetupStatus r = do {
     count \<leftarrow> UserCount;
     (case count of
        Inl _ \<Rightarrow> return (internal_error ''failed to check user count'')
      | Inr n \<Rightarrow> return (writeJSON 200 (JObj [(''needs_setup'', JBool (n = 0))])))
   }"

definition setup_allow :: "string \<Rightarrow> (server, bool) state" where
  "setup_allow key = do {
     t0 \<leftarrow> time_now;
     t1 \<leftarrow> time_now;
     rl \<leftarrow> gets sv_setupLimiter;
     let (ok, rl') = Allow rl key 5 (60 * Second) t0 t1;
     modify (\<lambda>s. s\<lparr>sv_setupLimiter := rl'\<rparr>);
     return ok
   }"

text \<open>The checks of the body: the sanitised name and the password, or the error.\<close>

definition setup_input :: "server_packages \<Rightarrow> request \<Rightarrow> response + string \<times> string" where
  "setup_input pk r =
     (case DecodeInto dec_login r of
        Inl _ \<Rightarrow> Inl (bad_request ''invalid request body'')
      | Inr req \<Rightarrow>
          (let username = TrimSpace (pk_sanitize pk (lg_Username req)) in
           if username = [] \<or> lg_Password req = [] then Inl (bad_request ''username and password are required'')
           else case ValidateUsername username of
             Some e \<Rightarrow> Inl (bad_request (username_message e))
           | None \<Rightarrow>
               (case ValidatePasswordStrength (lg_Password req) of
                  Some e \<Rightarrow> Inl (bad_request (password_message e))
                | None \<Rightarrow> Inr (username, lg_Password req))))"

definition setup_finish :: "server_packages \<Rightarrow> request \<Rightarrow> string \<Rightarrow> int64 \<Rightarrow> (server, response) state" where
  "setup_finish pk r username uid = do {
     token \<leftarrow> generate_token;
     (case token of
        None \<Rightarrow> return (internal_error ''failed to generate session token'')
      | Some token \<Rightarrow> do {
          se \<leftarrow> CreateSession uid (HashToken (pk_sha256 pk) token) (rq_header r ''User-Agent'') (remote_host r);
          (case se of
             Inl _ \<Rightarrow> return (internal_error ''failed to create session'')
           | Inr _ \<Rightarrow> do {
               _ \<leftarrow> CreateChannel ''general'' ''text'' ''Text Channels'' ''Welcome to the server!'' 0;
               _ \<leftarrow> CreateChannel ''General'' ''voice'' ''Voice Channels'' [] 0;
               raw \<leftarrow> rand_read;
               code \<leftarrow> CreateInvite raw uid 0 None;
               (case code of
                  Inl _ \<Rightarrow> return (internal_error ''failed to generate invite code'')
                | Inr code \<Rightarrow> do {
                    _ \<leftarrow> LogAudit uid ''server_setup'' ''server'' 0
                           ''initial setup: owner account created, default channel and invite generated'';
                    return (writeJSON 201 (JObj [(''token'', JStr token), (''user_id'', jint uid),
                      (''username'', JStr username), (''invite_code'', JStr code)]))
                  })
             })
        })
   }"

definition handleSetup :: "server_packages \<Rightarrow> handler" where
  "handleSetup pk r = do {
     ok \<leftarrow> setup_allow (''setup:'' @ remote_host r);
     (if \<not> ok then return (writeErr 429 ''RATE_LIMITED'' ''too many setup attempts, try again later'')
      else do {
        count \<leftarrow> UserCount;
        (case count of
           Inl _ \<Rightarrow> return (internal_error ''failed to check user count'')
         | Inr n \<Rightarrow>
             if n > 0 then return (forbidden ''setup has already been completed'')
             else (case setup_input pk r of
               Inl rs \<Rightarrow> return rs
             | Inr (username, password) \<Rightarrow> do {
                 h \<leftarrow> hash_password pk password;
                 (case h of
                    None \<Rightarrow> return (internal_error ''failed to hash password'')
                  | Some h \<Rightarrow> do {
                      uid \<leftarrow> CreateUser username h ownerRoleID;
                      (case uid of
                         Inl _ \<Rightarrow> return (internal_error ''failed to create user'')
                       | Inr uid \<Rightarrow> setup_finish pk r username uid)
                    })
               }))
      })
   }"

section \<open>Log tickets\<close>

definition ticketTTL :: duration where "ticketTTL = 30 * Second"

definition issue :: "string option \<Rightarrow> string \<Rightarrow> (string, ticketEntry) mapping \<Rightarrow> time \<Rightarrow> string option \<times> (string, ticketEntry) mapping" where
  "issue raw tokenHash ts now =
     (case raw of
        None \<Rightarrow> (None, ts)
      | Some b \<Rightarrow>
          (let ticket = hexEncode b; live = Mapping.filter (\<lambda>_ e. \<not> now - tk_createdAt e > ticketTTL) ts
           in (Some ticket, Mapping.update ticket \<lparr>tk_createdAt = now, tk_tokenHash = tokenHash\<rparr> live)))"

definition redeem :: "string \<Rightarrow> (string, ticketEntry) mapping \<Rightarrow> time \<Rightarrow> ticketEntry option \<times> (string, ticketEntry) mapping" where
  "redeem ticket ts now =
     (case Mapping.lookup ts ticket of
        None \<Rightarrow> (None, ts)
      | Some e \<Rightarrow> ((if now - tk_createdAt e > ticketTTL then None else Some e), Mapping.delete ticket ts))"

definition handleLogTicket :: "reqctx \<Rightarrow> handler" where
  "handleLogTicket cx r =
     (if s_TokenHash (cx_session cx) = [] then return (unauthorized ''invalid or expired session'')
      else do {
        raw \<leftarrow> rand_read;
        now \<leftarrow> (case raw of None \<Rightarrow> return 0 | Some _ \<Rightarrow> time_now);
        ts \<leftarrow> gets sv_tickets;
        let (ticket, ts') = issue raw (s_TokenHash (cx_session cx)) ts now;
        modify (\<lambda>s. s\<lparr>sv_tickets := ts'\<rparr>);
        (case ticket of
           None \<Rightarrow> return (internal_error ''failed to generate ticket'')
         | Some t \<Rightarrow> return (writeJSON 200 (JObj [(''ticket'', JStr t)])))
      })"

text \<open>The clock is read only for a ticket that exists.\<close>

definition redeem_ticket :: "string \<Rightarrow> (server, ticketEntry option) state" where
  "redeem_ticket ticket = do {
     ts \<leftarrow> gets sv_tickets;
     now \<leftarrow> (case Mapping.lookup ts ticket of None \<Rightarrow> return 0 | Some _ \<Rightarrow> time_now);
     let (e, ts') = redeem ticket ts now;
     modify (\<lambda>s. s\<lparr>sv_tickets := ts'\<rparr>);
     return e
   }"

definition sessionStillAuthorized :: "string \<Rightarrow> (server, bool) state" where
  "sessionStillAuthorized tokenHash = do {
     current \<leftarrow> GetSessionByTokenHash tokenHash;
     (case current of
        Inr (Some current) \<Rightarrow> do {
          expired \<leftarrow> IsSessionExpired (s_ExpiresAt current);
          (if expired then return False
           else do {
             user \<leftarrow> GetUserByID (s_UserID current);
             (case user of
                Inr (Some user) \<Rightarrow> do {
                  role \<leftarrow> GetRoleByID (u_RoleID user);
                  return (case role of Inr (Some role) \<Rightarrow> HasAdmin (r_Permissions role) | _ \<Rightarrow> False)
                }
              | _ \<Rightarrow> return False)
           })
        }
      | _ \<Rightarrow> return False)
   }"

section \<open>The log buffer\<close>

record LogEntry =
  le_Timestamp :: string
  le_Level :: string
  le_Message :: string
  le_Source :: string
  le_Attrs :: string

text \<open>A subscriber's channel holds 64 entries; the entries it still has to read, oldest first.\<close>

record LogBuffer =
  lb_entries :: "LogEntry list"
  lb_capacity :: nat
  lb_subscribers :: "(nat \<times> LogEntry list) list"
  lb_next :: nat

definition NewLogBuffer :: "nat \<Rightarrow> LogBuffer" where
  "NewLogBuffer capacity = \<lparr>lb_entries = [], lb_capacity = capacity, lb_subscribers = [], lb_next = 0\<rparr>"

definition subscriber_cap :: nat where "subscriber_cap = 64"

text \<open>\<open>None\<close> is the panic of \<^verbatim>\<open>rb.entries[1:]\<close> on an empty slice, which a capacity of zero meets.\<close>

definition WriteLog :: "LogEntry \<Rightarrow> LogBuffer \<Rightarrow> LogBuffer option" where
  "WriteLog entry rb =
     (if length (lb_entries rb) \<ge> lb_capacity rb \<and> lb_entries rb = [] then None
      else Some (rb\<lparr>
        lb_entries := (if length (lb_entries rb) \<ge> lb_capacity rb then tl (lb_entries rb) else lb_entries rb) @ [entry],
        lb_subscribers := map (\<lambda>(i, q). (i, if length q < subscriber_cap then q @ [entry] else q)) (lb_subscribers rb)\<rparr>))"

definition Snapshot :: "LogBuffer \<Rightarrow> LogEntry list" where
  "Snapshot rb = lb_entries rb"

definition Subscribe :: "LogBuffer \<Rightarrow> nat \<times> LogBuffer" where
  "Subscribe rb = (lb_next rb, rb\<lparr>lb_subscribers := lb_subscribers rb @ [(lb_next rb, [])], lb_next := Suc (lb_next rb)\<rparr>)"

definition Unsubscribe :: "nat \<Rightarrow> LogBuffer \<Rightarrow> LogBuffer" where
  "Unsubscribe i rb = rb\<lparr>lb_subscribers := filter (\<lambda>(j, _). j \<noteq> i) (lb_subscribers rb)\<rparr>"

definition strContains :: "string \<Rightarrow> string \<Rightarrow> bool" where
  "strContains s sub \<longleftrightarrow> list_ex (\<lambda>n. hasPrefix (drop n s) sub) [0..<Suc (length s)]"

definition categorizeSource :: "string option \<Rightarrow> string" where
  "categorizeSource frame =
     (case frame of
        None \<Rightarrow> ''server''
      | Some file \<Rightarrow>
          if strContains file ''/ws/'' then ''websocket''
          else if strContains file ''/api/'' then ''http''
          else if strContains file ''/admin/'' then ''admin''
          else if strContains file ''/auth/'' then ''auth''
          else if strContains file ''/db/'' then ''database''
          else if strContains file ''/storage/'' then ''storage''
          else if strContains file ''/updater/'' then ''updater''
          else if strContains file ''/config/'' then ''config''
          else ''server'')"

section \<open>The log stream\<close>

text \<open>What the stream's loop selects on: an entry of its channel, the keepalive, or the end of the request.\<close>

datatype stream_event = Entry LogEntry | Keepalive | Done

datatype stream_out = Data LogEntry | Comment

datatype stream_result = Refused nat string | Streamed "stream_out list"

primrec stream_backfill :: "string \<Rightarrow> LogEntry list \<Rightarrow> (server, stream_out list \<times> bool) state" where
  "stream_backfill h [] = return ([], True)"
| "stream_backfill h (e # es) = do {
     ok \<leftarrow> sessionStillAuthorized h;
     (if \<not> ok then return ([], False)
      else do { (out, live) \<leftarrow> stream_backfill h es; return (Data e # out, live) })
   }"

fun stream_loop :: "string \<Rightarrow> stream_event list \<Rightarrow> (server, stream_out list) state" where
  "stream_loop h [] = return []"
| "stream_loop h (Done # evs) = return []"
| "stream_loop h (Entry e # evs) = do {
     ok \<leftarrow> sessionStillAuthorized h;
     (if \<not> ok then return [] else do { out \<leftarrow> stream_loop h evs; return (Data e # out) })
   }"
| "stream_loop h (Keepalive # evs) = do {
     ok \<leftarrow> sessionStillAuthorized h;
     (if \<not> ok then return [] else do { out \<leftarrow> stream_loop h evs; return (Comment # out) })
   }"

text \<open>
  \<open>evs\<close> are the events the loop meets before it is looked at; the connection can be flushed
  (the server's writer always can).
\<close>

definition handleLogStream :: "LogEntry list \<Rightarrow> stream_event list \<Rightarrow> request \<Rightarrow> (server, stream_result) state" where
  "handleLogStream backlog evs r = do {
     let ticket = rq_query r ''ticket'';
     entry \<leftarrow> redeem_ticket ticket;
     (case entry of
        None \<Rightarrow> return (Refused 401 ''invalid or expired ticket'')
      | Some entry \<Rightarrow>
          if ticket = [] then return (Refused 401 ''invalid or expired ticket'')
          else do {
            sess \<leftarrow> GetSessionByTokenHash (tk_tokenHash entry);
            expired \<leftarrow> (case sess of Inr (Some sess) \<Rightarrow> IsSessionExpired (s_ExpiresAt sess) | _ \<Rightarrow> return True);
            (if expired then return (Refused 401 ''invalid or expired session'')
             else do {
               ok \<leftarrow> sessionStillAuthorized (tk_tokenHash entry);
               (if \<not> ok then return (Refused 403 ''administrator permission required'')
                else do {
                  (out, live) \<leftarrow> stream_backfill (tk_tokenHash entry) backlog;
                  (if \<not> live then return (Streamed out)
                   else do { out' \<leftarrow> stream_loop (tk_tokenHash entry) evs; return (Streamed (out @ out')) })
                })
             })
          })
   }"

section \<open>Websocket origins\<close>

record AcceptOptions =
  ao_InsecureSkipVerify :: bool
  ao_OriginPatterns :: "string list"

definition OriginAcceptOptions :: "string list \<Rightarrow> AcceptOptions" where
  "OriginAcceptOptions allowedOrigins =
     (if allowedOrigins = [] then \<lparr>ao_InsecureSkipVerify = True, ao_OriginPatterns = []\<rparr>
      else if ''*'' \<in> set allowedOrigins then \<lparr>ao_InsecureSkipVerify = True, ao_OriginPatterns = []\<rparr>
      else \<lparr>ao_InsecureSkipVerify = False, ao_OriginPatterns = allowedOrigins\<rparr>)"

end
