(* ===== verification/Backups.thy ===== *)
theory Backups
  imports AdminSettings
begin

text \<open>
  Backups: \<^verbatim>\<open>BackupToSafe\<close> of \<^verbatim>\<open>db/admin_queries.go\<close> and the handlers of
  \<^verbatim>\<open>admin/handlers_backup.go\<close>, on the disk of the server's state. What the operating system
  and SQLite do is an argument: failures, the directory listing, the file that \<^verbatim>\<open>VACUUM INTO\<close>
  writes and what an open connection sees of a file replaced under it.
\<close>

section \<open>Writing a backup\<close>

datatype backup_error = RootUnresolved | NotUnderRoot | ForbiddenChar | ForbiddenSequence | VacuumFailed

definition backup_rune :: "nat \<Rightarrow> bool" where
  "backup_rune c \<longleftrightarrow> 0x61 \<le> c \<and> c \<le> 0x7A \<or> 0x41 \<le> c \<and> c \<le> 0x5A \<or> 0x30 \<le> c \<and> c \<le> 0x39 \<or>
     c \<in> {0x2F, 0x5C, 0x2D, 0x5F, 0x2E, 0x20, 0x3A, 0x7E}"

text \<open>The guards: the cleaned path, or the reason of the refusal.\<close>

definition backup_path :: "string option \<Rightarrow> string \<Rightarrow> string \<Rightarrow> backup_error + string" where
  "backup_path cwd path safeRoot =
     (let clean = Clean path in
      case Abs cwd safeRoot of
        None \<Rightarrow> Inl RootUnresolved
      | Some absRoot \<Rightarrow>
          (case Abs cwd clean of
             None \<Rightarrow> Inl RootUnresolved
           | Some absClean \<Rightarrow>
               if \<not> hasPrefix absClean (absRoot @ [slash]) then Inl NotUnderRoot
               else if \<not> list_all backup_rune (runes clean) then Inl ForbiddenChar
               else if strContains clean ''--'' then Inl ForbiddenSequence
               else Inr clean))"

text \<open>\<open>vacuum s\<close> is the file SQLite writes of the database \<open>s\<close>; it refuses a file that exists.\<close>

definition BackupToSafe ::
  "string option \<Rightarrow> (server \<Rightarrow> string) \<Rightarrow> string \<Rightarrow> string \<Rightarrow> (server, backup_error + unit) state" where
  "BackupToSafe cwd vacuum path safeRoot =
     (case backup_path cwd path safeRoot of
        Inl e \<Rightarrow> return (Inl e)
      | Inr clean \<Rightarrow>
          (case Abs cwd clean of
             None \<Rightarrow> return (Inl VacuumFailed)
           | Some file \<Rightarrow> do {
               r \<leftarrow> execute (\<lambda>now s. s);
               d \<leftarrow> gets sv_disk;
               (case r of
                  Inl _ \<Rightarrow> return (Inl VacuumFailed)
                | Inr _ \<Rightarrow>
                    if Mapping.lookup d file \<noteq> None then return (Inl VacuumFailed)
                    else do {
                      modify (\<lambda>s. s\<lparr>sv_disk := Mapping.update file (vacuum s) (sv_disk s)\<rparr>);
                      return (Inr ())
                    })
             }))"

definition backups_dir :: string where
  "backups_dir = Join2 ''data'' ''backups''"

definition BackupTo :: "string option \<Rightarrow> (server \<Rightarrow> string) \<Rightarrow> string \<Rightarrow> (server, backup_error + unit) state" where
  "BackupTo cwd vacuum path = BackupToSafe cwd vacuum path backups_dir"

text \<open>The layout \<^verbatim>\<open>20060102_150405\<close>.\<close>

definition fmt_compact :: "int \<Rightarrow> string" where
  "fmt_compact u =
     (case civil (u div 86400) of (y, m, d) \<Rightarrow>
        pad 4 y @ pad 2 m @ pad 2 d @ ''_'' @ pad 2 (u mod 86400 div 3600) @ pad 2 (u mod 3600 div 60) @ pad 2 (u mod 60))"

text \<open>What the operating system may refuse.\<close>

record os_faults =
  of_mkdir :: bool
  of_stat :: bool
  of_remove :: bool
  of_open :: bool
  of_create :: bool
  of_copy :: "nat option"
  of_sync :: bool

definition handleBackup :: "string option \<Rightarrow> (server \<Rightarrow> string) \<Rightarrow> os_faults \<Rightarrow> reqctx \<Rightarrow> handler" where
  "handleBackup cwd vacuum os cx r =
     (if of_mkdir os then return (internal_error ''failed to create backup directory'')
      else do {
        t \<leftarrow> time_now;
        let timestamp = fmt_compact (t div Second);
        let backupPath = Join2 backups_dir (''chatserver_'' @ timestamp @ ''.db'');
        b \<leftarrow> BackupTo cwd vacuum backupPath;
        (case b of
           Inl _ \<Rightarrow> return (internal_error ''backup failed'')
         | Inr _ \<Rightarrow> do {
             _ \<leftarrow> LogAudit (actor cx) ''backup_create'' ''server'' 0 (''backup saved: '' @ Base backupPath);
             return (writeJSON 200 (JObj [(''created'', JStr timestamp), (''path'', JStr (Base backupPath))]))
           })
      })"

section \<open>Listing\<close>

text \<open>An entry of the directory: its name, whether it is a directory, and its size and time when they can be read.\<close>

record dir_entry =
  de_name :: string
  de_dir :: bool
  de_info :: "(int64 \<times> int) option"

datatype listing = NoDirectory | Unreadable | Entries "dir_entry list"

text \<open>\<^verbatim>\<open>filepath.Ext\<close>: the suffix from the last dot of the last element.\<close>

definition Ext :: "string \<Rightarrow> string" where
  "Ext p =
     (let tail = rev (takeWhile (\<lambda>c. c \<noteq> slash) (rev p))
      in if CHR ''.'' \<in> set tail then CHR ''.'' # rev (takeWhile (\<lambda>c. c \<noteq> CHR ''.'') (rev tail)) else [])"

definition backup_entries :: "dir_entry list \<Rightarrow> (string \<times> int64 \<times> string) list" where
  "backup_entries es = List.map_filter (\<lambda>e.
     if de_dir e \<or> Ext (de_name e) \<noteq> ''.db'' then None
     else map_option (\<lambda>(sz, mtime). (de_name e, sz, fmt_iso mtime)) (de_info e)) es"

text \<open>\<^verbatim>\<open>sort.Slice\<close> leaves the order of equal dates open; here they keep the order of the directory.\<close>

definition handleListBackups :: "listing \<Rightarrow> reqctx \<Rightarrow> handler" where
  "handleListBackups ls cx r =
     (case ls of
        NoDirectory \<Rightarrow> return (writeJSON 200 (JArr []))
      | Unreadable \<Rightarrow> return (internal_error ''failed to list backups'')
      | Entries es \<Rightarrow>
          return (writeJSON 200 (JArr (map (\<lambda>(name, sz, date).
            JObj [(''name'', JStr name), (''size'', jint sz), (''date'', JStr date)])
            (sort_desc (\<lambda>(name, sz, date). date) (backup_entries es))))))"

section \<open>Deleting and restoring\<close>

definition bad_backup_name :: "string \<Rightarrow> bool" where
  "bad_backup_name name \<longleftrightarrow> name = [] \<or> strContains name ''..'' \<or> slash \<in> set name \<or> CHR 0x5C \<in> set name"

text \<open>The absolute path of the named backup, or \<open>None\<close> for a name that is refused. An unknown working
  directory leaves the absolute directory empty, as the ignored error does.\<close>

definition named_backup :: "string option \<Rightarrow> string \<Rightarrow> string option" where
  "named_backup cwd name =
     (if bad_backup_name name then None
      else let absDir = (case Abs cwd backups_dir of None \<Rightarrow> [] | Some d \<Rightarrow> d); target = Join2 absDir name
        in if \<not> hasPrefix target (absDir @ [slash]) then None else Abs cwd (Join2 backups_dir name))"

definition handleDeleteBackup :: "string option \<Rightarrow> os_faults \<Rightarrow> reqctx \<Rightarrow> handler" where
  "handleDeleteBackup cwd os cx r =
     (let name = rq_param r ''name'' in
      case named_backup cwd name of
        None \<Rightarrow> return (bad_request ''invalid backup name'')
      | Some file \<Rightarrow> do {
          d \<leftarrow> gets sv_disk;
          (if \<not> of_stat os \<and> Mapping.lookup d file = None then return (not_found ''backup not found'')
           else if of_remove os \<or> Mapping.lookup d file = None then return (internal_error ''failed to delete backup'')
           else do {
             modify (\<lambda>s. s\<lparr>sv_disk := Mapping.delete file (sv_disk s)\<rparr>);
             _ \<leftarrow> LogAudit (actor cx) ''backup_delete'' ''server'' 0 (''deleted backup '' @ name);
             return (writeHeader 204)
           })
        })"

text \<open>\<^verbatim>\<open>copyFile\<close>: a failed copy leaves the destination truncated.\<close>

definition copyFile :: "os_faults \<Rightarrow> string \<Rightarrow> string \<Rightarrow> disk \<Rightarrow> bool \<times> disk" where
  "copyFile os src dst d =
     (case Mapping.lookup d src of
        None \<Rightarrow> (False, d)
      | Some content \<Rightarrow>
          if of_open os \<or> of_create os then (False, d)
          else (case of_copy os of
                  Some k \<Rightarrow> (False, Mapping.update dst (take k content) d)
                | None \<Rightarrow> (\<not> of_sync os, Mapping.update dst content d)))"

text \<open>
  \<open>reopened file s\<close> is the state an open connection finds when the database file was replaced
  under it, which SQLite does not define.
\<close>

definition handleRestoreBackup ::
  "string option \<Rightarrow> (server \<Rightarrow> string) \<Rightarrow> (string \<Rightarrow> server \<Rightarrow> server) \<Rightarrow> os_faults \<Rightarrow> reqctx \<Rightarrow> handler" where
  "handleRestoreBackup cwd vacuum reopened os cx r =
     (let name = rq_param r ''name'' in
      case named_backup cwd name of
        None \<Rightarrow> return (bad_request ''invalid backup name'')
      | Some file \<Rightarrow> do {
          d \<leftarrow> gets sv_disk;
          (if \<not> of_stat os \<and> Mapping.lookup d file = None then return (not_found ''backup not found'')
           else do {
             t \<leftarrow> time_now;
             _ \<leftarrow> BackupTo cwd vacuum (Join2 backups_dir (''pre_restore_'' @ fmt_compact (t div Second) @ ''.db''));
             (case Abs cwd (Join2 ''data'' ''chatserver.db'') of
                None \<Rightarrow> return (internal_error ''failed to restore database file'')
              | Some db \<Rightarrow> do {
                  ok \<leftarrow> on_disk (copyFile os file db);
                  (if \<not> ok then return (internal_error ''failed to restore database file'')
                   else do {
                     modify (\<lambda>s. reopened (the (Mapping.lookup (sv_disk s) db)) s);
                     _ \<leftarrow> LogAudit (actor cx) ''backup_restore'' ''server'' 0 (''restored from '' @ name);
                     return (writeJSON 200 (JObj [(''backup'', JStr name),
                       (''message'', JStr (''database restored '' @ [CHR 0xE2, CHR 0x80, CHR 0x94] @ '' server restart recommended''))]))
                   })
                })
           })
        })"

end
