(* ===== verification/Process.thy ===== *)
theory Process
  imports Backups
begin

text \<open>
  The start of the process and its maintenance goroutine, \<^verbatim>\<open>run\<close> of \<^verbatim>\<open>main.go\<close>: what is cleared before
  the first request, and the tick of every fifteen minutes that purges expired sessions and
  attachments no message refers to, behind a circuit breaker.
\<close>

section \<open>Start\<close>

definition clear_stale :: "(server, unit) state" where
  "clear_stale = do {
     _ \<leftarrow> ResetAllUserStatuses;
     _ \<leftarrow> ClearAllVoiceStates;
     return ()
   }"

section \<open>A tick\<close>

definition maxConsecutiveFailures :: nat where
  "maxConsecutiveFailures = 5"

text \<open>\<open>store\<close> is \<open>None\<close> when the storage directory could not be made; \<open>df\<close> gives what the disk refuses per file.\<close>

definition remove_orphans :: "string option \<Rightarrow> Storage option \<Rightarrow> (string \<Rightarrow> disk_faults) \<Rightarrow> string list \<Rightarrow> (server, unit) state" where
  "remove_orphans cwd store df files =
     (case store of
        None \<Rightarrow> return ()
      | Some st \<Rightarrow> for_each files (\<lambda>f. do { _ \<leftarrow> on_disk (DeleteFile cwd st (df f) f); return () }))"

definition purge :: "(string \<Rightarrow> string option) \<Rightarrow> string option \<Rightarrow> Storage option \<Rightarrow> (string \<Rightarrow> disk_faults) \<Rightarrow> (server, bool) state" where
  "purge strf cwd store df = do {
     e \<leftarrow> DeleteExpiredSessions strf;
     now \<leftarrow> time_now;
     let cutoff = fmt_iso ((now - 60 * Minute) div Second);
     o' \<leftarrow> DeleteOrphanedAttachments cutoff;
     (case o' of
        Inl _ \<Rightarrow> return True
      | Inr files \<Rightarrow> do {
          (if files = [] then return () else remove_orphans cwd store df files);
          return (isl e)
        })
   }"

text \<open>The state of the loop is the number of consecutive failures.\<close>

definition maintenance_tick ::
  "(string \<Rightarrow> string option) \<Rightarrow> string option \<Rightarrow> Storage option \<Rightarrow> (string \<Rightarrow> disk_faults) \<Rightarrow> nat \<Rightarrow> (server, nat) state" where
  "maintenance_tick strf cwd store df fails =
     (if maxConsecutiveFailures \<le> fails then return (maxConsecutiveFailures - 1)
      else do { failed \<leftarrow> purge strf cwd store df; return (if failed then fails + 1 else 0) })"

end
