(* ===== verification/Updates.thy ===== *)
theory Updates
  imports Process
begin

text \<open>
  The update endpoints: \<^verbatim>\<open>admin/update_handlers.go\<close> and \<^verbatim>\<open>api/client_update.go\<close> on the updater of the server's
  state. The replacement of the binary, which runs in the background five seconds after the
  reply, is a step of its own on the disk.
\<close>

section \<open>Checking\<close>

definition update_info_json :: "UpdateInfo \<Rightarrow> json" where
  "update_info_json i =
     JObj ([(''current'', JStr (ui_Current i)), (''latest'', JStr (ui_Latest i)), (''update_available'', JBool (ui_UpdateAvailable i)),
       (''release_url'', JStr (ui_ReleaseURL i)), (''download_url'', JStr (ui_DownloadURL i)),
       (''checksum_url'', JStr (ui_ChecksumURL i)), (''release_notes'', JStr (ui_ReleaseNotes i))] @
       (if ui_Assets i = [] then [] else [(''assets'', JArr (map (\<lambda>a.
          JObj [(''name'', JStr (as_Name a)), (''download_url'', JStr (as_DownloadURL a))]) (ui_Assets i)))]))"

text \<open>\<open>None\<close> when there is no updater.\<close>

definition check_update :: "web \<Rightarrow> (server, (update_error + UpdateInfo) option) state" where
  "check_update wb = do {
     up \<leftarrow> gets sv_updater;
     (case up of
        None \<Rightarrow> return None
      | Some u \<Rightarrow> do {
          now \<leftarrow> time_now;
          let (r, u') = CheckForUpdate wb now u;
          modify (\<lambda>s. s\<lparr>sv_updater := Some u'\<rparr>);
          return (Some r)
        })
   }"

definition update_unavailable :: response where
  "update_unavailable = writeErr 503 ''UPDATE_UNAVAILABLE'' ''update checking is not configured''"

text \<open>\<open>etext\<close> is the text of an error.\<close>

definition handleCheckUpdate :: "(update_error \<Rightarrow> string) \<Rightarrow> web \<Rightarrow> reqctx \<Rightarrow> handler" where
  "handleCheckUpdate etext wb cx r = do {
     c \<leftarrow> check_update wb;
     return (case c of
        None \<Rightarrow> update_unavailable
      | Some (Inl e) \<Rightarrow> writeErr 502 ''UPDATE_CHECK_FAILED'' (''failed to check for updates: '' @ etext e)
      | Some (Inr info) \<Rightarrow> writeJSON 200 (update_info_json info))
   }"

section \<open>Applying\<close>

text \<open>\<open>exe\<close> is the path of the running binary, \<open>link\<close> resolves symbolic links; both may fail.\<close>

definition download_update ::
  "(update_error \<Rightarrow> string) \<Rightarrow> (string \<Rightarrow> string) \<Rightarrow> web \<Rightarrow> disk_faults \<Rightarrow> string option \<Rightarrow> (string \<Rightarrow> string option) \<Rightarrow> UpdateInfo \<Rightarrow> (server, response) state" where
  "download_update etext sha256 wb df exe link info =
     (case exe of
        None \<Rightarrow> return (internal_error ''cannot determine executable path'')
      | Some p \<Rightarrow>
          (case link p of
             None \<Rightarrow> return (internal_error ''cannot resolve executable path'')
           | Some exePath \<Rightarrow> do {
               up \<leftarrow> gets sv_updater;
               v \<leftarrow> on_disk (DownloadAndVerify sha256 wb df (the up) (ui_DownloadURL info) (ui_ChecksumURL info) (exePath @ ''.new''));
               (case v of
                  Inl e \<Rightarrow> return (writeErr 502 ''DOWNLOAD_FAILED'' (etext e))
                | Inr _ \<Rightarrow> do {
                    BroadcastServerRestart ''update'' 5;
                    return (writeJSON 200 (JObj [(''status'', JStr ''applying''), (''version'', JStr (ui_Latest info))]))
                  })
             }))"

definition handleApplyUpdate ::
  "(update_error \<Rightarrow> string) \<Rightarrow> (string \<Rightarrow> string) \<Rightarrow> web \<Rightarrow> disk_faults \<Rightarrow> string option \<Rightarrow> (string \<Rightarrow> string option) \<Rightarrow> reqctx \<Rightarrow> handler" where
  "handleApplyUpdate etext sha256 wb df exe link cx r = do {
     c \<leftarrow> check_update wb;
     (case c of
        None \<Rightarrow> return update_unavailable
      | Some (Inl e) \<Rightarrow> return (writeErr 502 ''UPDATE_CHECK_FAILED'' (etext e))
      | Some (Inr info) \<Rightarrow>
          if \<not> ui_UpdateAvailable info then return (writeErr 409 ''NO_UPDATE'' ''server is already up to date'')
          else if ui_DownloadURL info = [] \<or> ui_ChecksumURL info = []
          then return (writeErr 502 ''MISSING_ASSETS'' ''release is missing required assets'')
          else download_update etext sha256 wb df exe link info)
   }"

text \<open>\<^verbatim>\<open>os.Rename\<close>: \<open>None\<close> when the operating system refuses it.\<close>

definition Rename :: "bool \<Rightarrow> string \<Rightarrow> string \<Rightarrow> disk \<Rightarrow> disk option" where
  "Rename refused a b d =
     (if refused then None
      else case Mapping.lookup d a of None \<Rightarrow> None | Some c \<Rightarrow> Some (Mapping.update b c (Mapping.delete a d)))"

record swap_faults =
  sw_remove :: bool
  sw_old :: bool
  sw_new :: bool
  sw_restore :: bool

datatype swap_result = Swapped | Kept | Restored | BinaryMissing

definition swap_binary :: "swap_faults \<Rightarrow> string \<Rightarrow> disk \<Rightarrow> swap_result \<times> disk" where
  "swap_binary sw exePath d =
     (let newPath = exePath @ ''.new''; oldPath = exePath @ ''.old'';
          d1 = (if sw_remove sw then d else Mapping.delete oldPath d) in
      case Rename (sw_old sw) exePath oldPath d1 of
        None \<Rightarrow> (Kept, d1)
      | Some d2 \<Rightarrow>
          (case Rename (sw_new sw) newPath exePath d2 of
             Some d3 \<Rightarrow> (Swapped, d3)
           | None \<Rightarrow>
               (case Rename (sw_restore sw) oldPath exePath d2 of
                  Some d3 \<Rightarrow> (Restored, d3)
                | None \<Rightarrow> (BinaryMissing, d2))))"

definition finish_update :: "swap_faults \<Rightarrow> string \<Rightarrow> (server, swap_result) state" where
  "finish_update sw exePath = do {
     r \<leftarrow> on_disk (swap_binary sw exePath);
     (if r = BinaryMissing then BroadcastServerRestart ''update_failed'' 0 else return ());
     return r
   }"

section \<open>The desktop client\<close>

definition ensureV :: "string \<Rightarrow> string" where
  "ensureV v = (if hasPrefix v ''v'' then v else ''v'' @ v)"

text \<open>\<^verbatim>\<open>http.Error\<close>: a plain text, whose words are not kept here.\<close>

definition plain_error :: "nat \<Rightarrow> response" where
  "plain_error status = \<lparr>rs_status = status, rs_headers = [(''Content-Type'', ''text/plain; charset=utf-8''),
     (''X-Content-Type-Options'', ''nosniff'')], rs_body = None\<rparr>"

definition tauri_json :: "string \<Rightarrow> string \<Rightarrow> string \<Rightarrow> string \<Rightarrow> string \<Rightarrow> json" where
  "tauri_json version notes target signature url =
     JObj ([(''version'', JStr version)] @ (if notes = [] then [] else [(''notes'', JStr notes)]) @
       [(''platforms'', JObj [(target, JObj [(''signature'', JStr signature), (''url'', JStr url)])])])"

definition handleClientUpdate :: "web \<Rightarrow> handler" where
  "handleClientUpdate wb r =
     (let target = rq_param r ''target''; currentVersion = rq_param r ''current_version'' in
      if target = [] \<or> currentVersion = [] then return (plain_error 400)
      else do {
        c \<leftarrow> check_update wb;
        up \<leftarrow> gets sv_updater;
        return (case (c, up) of
           (Some (Inr info), Some u) \<Rightarrow>
             if 0 \<le> wb_compare wb (ensureV currentVersion) (ensureV (ui_Latest info)) then writeHeader 204
             else let ca = FindClientAssets u in
               if ca_InstallerURL ca = [] \<or> ca_SignatureURL ca = [] then writeHeader 204
               else (case FetchTextAsset wb u (ca_SignatureURL ca) of
                       Inl _ \<Rightarrow> plain_error 502
                     | Inr sigContent \<Rightarrow>
                         writeJSON 200 (tauri_json
                           (if hasPrefix (ui_Latest info) ''v'' then drop 1 (ui_Latest info) else ui_Latest info)
                           (ui_ReleaseNotes info) target (TrimSpace sigContent) (ca_InstallerURL ca)))
         | _ \<Rightarrow> plain_error 502)
      })"

end
