(* ===== verification/Config.thy ===== *)
theory Config
  imports GoNet
begin

text \<open>
  The configuration, \<^verbatim>\<open>config/config.go\<close>: the structures with their defaults, the names of environment
  variables, and what \<^verbatim>\<open>Load\<close> does with the voice credentials after the layers are merged. The merge
  itself (koanf) and YAML are outside the repository; the merged configuration is an argument.
\<close>

section \<open>Structures and defaults\<close>

record VoiceConfig =
  vc_LiveKitAPIKey :: string
  vc_LiveKitAPISecret :: string
  vc_LiveKitURL :: string
  vc_LiveKitBinaryPath :: string
  vc_NodeIP :: string
  vc_Quality :: string

record ServerConfig =
  sc_Port :: int
  sc_Name :: string
  sc_DataDir :: string
  sc_AllowedOrigins :: "string list"
  sc_TrustedProxies :: "string list"
  sc_AdminAllowedCIDRs :: "string list"

record TLSConfig =
  tc_Mode :: string
  tc_CertFile :: string
  tc_KeyFile :: string
  tc_Domain :: string
  tc_AcmeCacheDir :: string

record UploadConfig =
  uc_MaxSizeMB :: int
  uc_StorageDir :: string

record Config =
  cg_Server :: ServerConfig
  cg_DatabasePath :: string
  cg_TLS :: TLSConfig
  cg_Upload :: UploadConfig
  cg_Voice :: VoiceConfig
  cg_GitHubToken :: string

definition defaults :: Config where
  "defaults =
     \<lparr>cg_Server = \<lparr>sc_Port = 8443, sc_Name = ''OwnCord Server'', sc_DataDir = ''data'', sc_AllowedOrigins = [''*''],
        sc_TrustedProxies = [], sc_AdminAllowedCIDRs = [''127.0.0.0/8'', ''::1/128'', ''10.0.0.0/8'', ''172.16.0.0/12'',
          ''192.168.0.0/16'', ''fc00::/7'']\<rparr>,
      cg_DatabasePath = ''data/chatserver.db'',
      cg_TLS = \<lparr>tc_Mode = ''self_signed'', tc_CertFile = ''data/cert.pem'', tc_KeyFile = ''data/key.pem'', tc_Domain = [],
        tc_AcmeCacheDir = ''data/acme_certs''\<rparr>,
      cg_Upload = \<lparr>uc_MaxSizeMB = 100, uc_StorageDir = ''data/uploads''\<rparr>,
      cg_Voice = \<lparr>vc_LiveKitAPIKey = [], vc_LiveKitAPISecret = [], vc_LiveKitURL = ''ws://localhost:7880'', vc_LiveKitBinaryPath = [],
        vc_NodeIP = [], vc_Quality = ''medium''\<rparr>,
      cg_GitHubToken = []\<rparr>"

section \<open>Environment variables\<close>

definition envKeyToKoanf :: "string \<Rightarrow> string" where
  "envKeyToKoanf s =
     (case index_of (CHR ''_'') s of None \<Rightarrow> s | Some i \<Rightarrow> take i s @ ''.'' @ drop (i + 1) s)"

text \<open>The callback of the environment provider; names of variables are ASCII.\<close>

definition env_key :: "string \<Rightarrow> string" where
  "env_key name =
     (let s = (if hasPrefix name ''OWNCORD_'' then drop 8 name else name) in envKeyToKoanf (nocase s))"

section \<open>Voice credentials\<close>

definition DefaultLiveKitAPIKey :: string where
  "DefaultLiveKitAPIKey = ''devkey''"

definition DefaultLiveKitAPISecret :: string where
  "DefaultLiveKitAPISecret = ''owncord-dev-secret-key-min-32chars''"

definition IsDefaultVoiceCredentials :: "VoiceConfig \<Rightarrow> bool" where
  "IsDefaultVoiceCredentials v \<longleftrightarrow> vc_LiveKitAPIKey v = DefaultLiveKitAPIKey \<or> vc_LiveKitAPISecret v = DefaultLiveKitAPISecret"

text \<open>\<open>rnd n\<close> are \<open>n\<close> bytes of the random source; its failure is a panic of the process and has no result.\<close>

definition generateRandomKey :: "(nat \<Rightarrow> string) \<Rightarrow> nat \<Rightarrow> string" where
  "generateRandomKey rnd byteLen = hexEncode (rnd byteLen)"

definition applyVoiceDefaults :: "(nat \<Rightarrow> string) \<Rightarrow> VoiceConfig \<Rightarrow> VoiceConfig" where
  "applyVoiceDefaults rnd v =
     v\<lparr>vc_LiveKitAPIKey := (if vc_LiveKitAPIKey v = [] then ''key-'' @ generateRandomKey rnd 8 else vc_LiveKitAPIKey v),
       vc_LiveKitAPISecret := (if vc_LiveKitAPISecret v = [] then generateRandomKey rnd 32 else vc_LiveKitAPISecret v),
       vc_LiveKitURL := (if vc_LiveKitURL v = [] then ''ws://localhost:7880'' else vc_LiveKitURL v),
       vc_Quality := (if vc_Quality v = [] then ''medium'' else vc_Quality v)\<rparr>"

definition finish_load :: "(nat \<Rightarrow> string) \<Rightarrow> Config \<Rightarrow> Config" where
  "finish_load rnd cfg =
     (let v = applyVoiceDefaults rnd (cg_Voice cfg) in
      cfg\<lparr>cg_Voice := (if IsDefaultVoiceCredentials v then v\<lparr>vc_LiveKitAPIKey := [], vc_LiveKitAPISecret := []\<rparr> else v)\<rparr>)"

section \<open>Lemmas\<close>

lemma index_of_first: "c \<notin> set xs \<Longrightarrow> index_of c (xs @ c # ys) = Some (length xs)"
  by (induction xs) (auto simp: index_of_def takeWhile_append2)

text \<open>A section and a key joined with an underscore come apart at the first one: keys may contain underscores, sections may not.\<close>

lemma env_key_splits: "CHR ''_'' \<notin> set sect \<Longrightarrow> envKeyToKoanf (sect @ ''_'' @ key) = sect @ ''.'' @ key"
  using index_of_first [of "CHR ''_''" sect key] by (simp add: envKeyToKoanf_def)

lemma ascii_lower_lower: "(\<forall>c \<in> set s. \<not> (65 \<le> (of_char c :: nat) \<and> (of_char c :: nat) \<le> 90)) \<Longrightarrow> nocase s = s"
  by (induction s) (auto simp: nocase_def ascii_lower_def Let_def)

end
