(* ===== verification/LiveKit.thy ===== *)
theory LiveKit
  imports Updates Config
begin

text \<open>
  The HTTP side of the media server: the client made from the configuration (\<^verbatim>\<open>ws/livekit.go\<close>), the
  webhook (\<^verbatim>\<open>ws/livekit_webhook.go\<close>), the health check (\<^verbatim>\<open>api/router.go\<close>), the diagnostics
  (\<^verbatim>\<open>api/diagnostics_handler.go\<close>) and what the reverse proxy (\<^verbatim>\<open>api/livekit_proxy.go\<close>) lets through. The SDK of
  LiveKit, its replies and the bytes that are proxied are arguments.
\<close>

section \<open>The client\<close>

datatype livekit_error = MissingCredentials | MissingURL | DefaultCredentials

text \<open>\<open>sdk key secret\<close> signs access tokens.\<close>

definition NewLiveKitClient :: "(string \<Rightarrow> string \<Rightarrow> AccessToken \<Rightarrow> string option) \<Rightarrow> VoiceConfig \<Rightarrow> livekit_error + LiveKitClient" where
  "NewLiveKitClient sdk v =
     (if vc_LiveKitAPIKey v = [] \<or> vc_LiveKitAPISecret v = [] then Inl MissingCredentials
      else if vc_LiveKitURL v = [] then Inl MissingURL
      else if IsDefaultVoiceCredentials v then Inl DefaultCredentials
      else Inr \<lparr>lk_url = vc_LiveKitURL v, lk_toJWT = sdk (vc_LiveKitAPIKey v) (vc_LiveKitAPISecret v)\<rparr>)"

section \<open>Health and diagnostics\<close>

text \<open>\<open>reach\<close> is the answer of the server to the SDK's \<^verbatim>\<open>ListRooms\<close>: \<open>None\<close> when it came, otherwise the error.\<close>

definition LiveKitHealthCheck :: "string option \<Rightarrow> (server, string option) state" where
  "LiveKitHealthCheck reach = do {
     lk \<leftarrow> gets h_livekit;
     return (case lk of None \<Rightarrow> Some ''not configured'' | Some _ \<Rightarrow> map_option (\<lambda>e. ''livekit health check failed: '' @ e) reach)
   }"

definition handleLiveKitHealth :: "string option \<Rightarrow> handler" where
  "handleLiveKitHealth reach r = do {
     e \<leftarrow> LiveKitHealthCheck reach;
     return (case e of
        None \<Rightarrow> writeJSON 200 (JObj [(''status'', JStr ''ok''), (''livekit_reachable'', JBool True)])
      | Some msg \<Rightarrow> writeJSON 503 (JObj ([(''status'', JStr ''degraded''), (''livekit_reachable'', JBool False)] @
          (if msg = [] then [] else [(''error'', JStr msg)]))))
   }"

definition isPrivateIP :: "string \<Rightarrow> bool" where
  "isPrivateIP ip \<longleftrightarrow> list_ex (\<lambda>prefix. length prefix \<le> length ip \<and> take (length prefix) ip = prefix)
     [''10.'', ''172.16.'', ''172.17.'', ''172.18.'', ''172.19.'',
      ''172.20.'', ''172.21.'', ''172.22.'', ''172.23.'', ''172.24.'',
      ''172.25.'', ''172.26.'', ''172.27.'', ''172.28.'', ''172.29.'',
      ''172.30.'', ''172.31.'', ''192.168.'', ''127.'', ''::1'', ''fc'', ''fd'']"

text \<open>\<open>url_host\<close> is the host of a URL with its port, \<open>None\<close> when it does not parse.\<close>

definition handleDiagnosticsConnectivity ::
  "(string \<Rightarrow> string option) \<Rightarrow> string option \<Rightarrow> string \<Rightarrow> string \<Rightarrow> time \<Rightarrow> VoiceConfig \<Rightarrow> reqctx \<Rightarrow> handler" where
  "handleDiagnosticsConnectivity url_host reach goVersion ver serverStartTime v cx r = do {
     let clientAddr = clientIP r;
     e \<leftarrow> LiveKitHealthCheck reach;
     let sanitized = (if vc_LiveKitURL v = [] then [] else case url_host (vc_LiveKitURL v) of None \<Rightarrow> [] | Some h \<Rightarrow> h);
     t \<leftarrow> time_now;
     n \<leftarrow> ClientCount;
     return (writeJSON 200 (JObj
       [(''server'', JObj [(''version'', JStr ver), (''uptime_s'', jint ((t - serverStartTime) div Second)),
          (''go_version'', JStr goVersion), (''online_users'', jint n)]),
        (''voice'', JObj ([(''enabled'', JBool (vc_LiveKitURL v \<noteq> []))] @
          (if sanitized = [] then [] else [(''livekit_url'', JStr sanitized)]) @
          [(''livekit_health'', JBool (e = None))] @
          (if vc_NodeIP v = [] then [] else [(''node_ip'', JStr (vc_NodeIP v))]) @
          [(''proxy_path'', JStr ''/livekit'')])),
        (''client'', JObj [(''remote_addr'', JStr clientAddr), (''is_private_network'', JBool (isPrivateIP clientAddr))])]))
   }"

section \<open>Metrics\<close>

text \<open>
  The runtime of Go: how a duration and its seconds are printed, the number of goroutines and
  collections, and the sizes of the heap in mebibytes as JSON prints them.
\<close>

record runtime =
  rt_String :: "duration \<Rightarrow> string"
  rt_Seconds :: "duration \<Rightarrow> string"
  rt_NumGoroutine :: int
  rt_HeapAlloc :: string
  rt_HeapSys :: string
  rt_NumGC :: int

definition handleMetrics :: "runtime \<Rightarrow> string option \<Rightarrow> time \<Rightarrow> handler" where
  "handleMetrics rt reach serverStartTime r = do {
     t \<leftarrow> time_now;
     let uptime = t - serverStartTime;
     n \<leftarrow> ClientCount;
     v \<leftarrow> VoiceSessionCount;
     e \<leftarrow> LiveKitHealthCheck reach;
     return (writeJSON 200 (JObj
       [(''uptime'', JStr (rt_String rt (uptime div Second * Second))), (''uptime_seconds'', JNum (rt_Seconds rt uptime)),
        (''goroutines'', jint (rt_NumGoroutine rt)), (''heap_alloc_mb'', JNum (rt_HeapAlloc rt)), (''heap_sys_mb'', JNum (rt_HeapSys rt)),
        (''num_gc'', jint (rt_NumGC rt)), (''connected_users'', jint n), (''voice_sessions'', jint v),
        (''livekit_healthy'', JBool (e = None))]))
   }"

section \<open>The webhook\<close>

text \<open>
  The SDK: the API key a token claims, \<open>None\<close> for a text that is no token; whether the signature
  and the dates of the token hold under a secret at some time; and the event a body encodes,
  with the identity of its participant and the name of its room.
\<close>

record webhook_sdk =
  ws_apiKey :: "string \<Rightarrow> string option"
  ws_verify :: "string \<Rightarrow> string \<Rightarrow> time \<Rightarrow> bool"
  ws_event :: "string \<Rightarrow> (string \<times> string option \<times> string option) option"

text \<open>A step of the hub on the hub's part of the server's state.\<close>

definition lift_hub :: "(hub \<Rightarrow> hub) \<Rightarrow> server \<Rightarrow> server" where
  "lift_hub f s = hub.extend (f (hub.truncate s)) (hub.more s)"

definition trim_bearer :: "string \<Rightarrow> string" where
  "trim_bearer h = (if hasPrefix h ''Bearer '' then drop 7 h else h)"

definition NewLiveKitWebhookHandler :: "webhook_sdk \<Rightarrow> string \<Rightarrow> string \<Rightarrow> handler" where
  "NewLiveKitWebhookHandler sdk apiKey apiSecret r =
     (let body = take (64 * 1024) (rq_body r); authHeader = rq_header r ''Authorization''; token = trim_bearer authHeader in
      if rq_cut r \<and> length (rq_body r) < 64 * 1024 then return (plain_error 400)
      else if authHeader = [] then return (plain_error 401)
      else case ws_apiKey sdk token of
        None \<Rightarrow> return (plain_error 401)
      | Some key \<Rightarrow>
          if key \<noteq> apiKey then return (plain_error 401)
          else do {
            now \<leftarrow> time_now;
            (if \<not> ws_verify sdk token apiSecret now then return (plain_error 401)
             else case ws_event sdk body of
               None \<Rightarrow> return (plain_error 400)
             | Some (event, identity, room) \<Rightarrow> do {
                 (if event = ''participant_left'' then modify (lift_hub (run_call (handleWebhookParticipantLeft identity room)))
                  else return ());
                 return (writeHeader 200)
               })
          })"

section \<open>The reverse proxy\<close>

text \<open>\<^verbatim>\<open>strings.ToLower\<close> as far as it can give a letter of ASCII, and \<^verbatim>\<open>strings.EqualFold\<close> with an ASCII text.\<close>

definition lower_rune :: "nat \<Rightarrow> nat" where
  "lower_rune r = (if 65 \<le> r \<and> r \<le> 90 then r + 32 else if r = 0x130 then 105 else if r = 0x212A then 107 else r)"

definition blockedSegments :: "string list" where
  "blockedSegments = [''admin'', ''metrics'', ''debug'', ''twirp'']"

definition blocked_path :: "string \<Rightarrow> bool" where
  "blocked_path path \<longleftrightarrow> list_ex (\<lambda>seg. list_ex (\<lambda>b. map lower_rune (runes seg) = map byte b) blockedSegments) (split_on slash path)"

text \<open>\<open>values\<close> are the values of the header \<^verbatim>\<open>Connection\<close>.\<close>

fun isWebSocketUpgrade :: "string list \<Rightarrow> string \<Rightarrow> bool" where
  "isWebSocketUpgrade [] upgrade = False"
| "isWebSocketUpgrade (v # values) upgrade =
     (if key_matches ''upgrade'' (TrimSpace v) then key_matches ''websocket'' upgrade else isWebSocketUpgrade values upgrade)"

fun origin_matches :: "string \<Rightarrow> string list \<Rightarrow> bool" where
  "origin_matches origin [] = False"
| "origin_matches origin (pattern # ps) =
     (if pattern = ''*'' then True
      else if map fold_rune (runes origin) = map fold_rune (runes pattern) then True else origin_matches origin ps)"

definition isOriginAllowed :: "request \<Rightarrow> string list \<Rightarrow> bool" where
  "isOriginAllowed r allowedOrigins =
     (let origin = rq_header r ''Origin'' in
      if origin = [] then True else if allowedOrigins = [] then False else origin_matches origin allowedOrigins)"

text \<open>What becomes of a request: refused, forwarded, or joined to a websocket of the backend.\<close>

datatype proxied = Refused response | ForwardHTTP | ForwardWebSocket

definition NewLiveKitProxy :: "string list \<Rightarrow> string list \<Rightarrow> request \<Rightarrow> proxied" where
  "NewLiveKitProxy allowedOrigins connection r =
     (if isWebSocketUpgrade connection (rq_header r ''Upgrade'') then ForwardWebSocket
      else if blocked_path (rq_path r) then Refused (writeErr 403 ''FORBIDDEN'' ''access denied'')
      else if \<not> isOriginAllowed r allowedOrigins then Refused (writeErr 403 ''FORBIDDEN'' ''access denied'')
      else ForwardHTTP)"

end
