(* ===== verification/Router.thy ===== *)
theory Router
  imports LiveKit
begin

text \<open>
  The routing table: \<^verbatim>\<open>NewRouter\<close> of \<^verbatim>\<open>api/router.go\<close> with the mounts of each API and
  \<^verbatim>\<open>NewAdminAPI\<close> of \<^verbatim>\<open>admin/api.go\<close>. A route is the pattern chi matched; its handler runs behind
  the middleware it is mounted with. The running server is the interleaving of requests
  with the steps of the hub and the ticks of the maintenance, whatever failures those count.
\<close>

section \<open>Configuration and environment\<close>

text \<open>The part of the configuration the router reads; no storage when its directory could not be made.\<close>

record config =
  cf_Name :: string
  cf_Version :: string
  cf_TLSMode :: string
  cf_TrustedProxies :: "string list"
  cf_AllowedOrigins :: "string list"
  cf_AdminAllowedCIDRs :: "string list"
  cf_Storage :: "Storage option"
  cf_Cwd :: "string option"
  cf_StartTime :: time
  cf_GitHubToken :: string
  cf_Voice :: VoiceConfig

text \<open>What the operating system and the libraries give to one request.\<close>

record io =
  io_upload :: upload
  io_df :: disk_faults
  io_os :: os_faults
  io_listing :: listing
  io_ord :: range_order
  io_vacuum :: "server \<Rightarrow> string"
  io_reopened :: "string \<Rightarrow> server \<Rightarrow> server"
  io_pages :: "int64 \<times> int64"
  io_backlog :: "LogEntry list"
  io_stream :: "stream_event list"
  io_web :: web
  io_exe :: "string option"
  io_link :: "string \<Rightarrow> string option"
  io_uptext :: "update_error \<Rightarrow> string"
  io_reach :: "string option"
  io_sdk :: webhook_sdk
  io_urlhost :: "string \<Rightarrow> string option"
  io_goVersion :: string
  io_runtime :: runtime
  io_connection :: "string list"

section \<open>Routes\<close>

datatype admin_route =
    Stats | Users | PatchUser | UserSessions | AdminChannels | PostChannel | PatchChannel | DeleteChannelRoute
  | AuditLog | GetSettings | PatchSettings | LogTicket | PostBackup | ListBackupFiles | DeleteBackupFile | RestoreBackupFile
  | Updates | ApplyUpdate

datatype route =
    Health | Info
  | Register | Login | VerifyTOTP | Logout | Me | DeleteMe | EnableTOTP | ConfirmTOTP | DisableTOTP
  | PostInvite | GetInvites | DeleteInvite
  | GetChannels | GetHistory | GetPins | PostPin | DeletePin | Search
  | PostUpload | GetFile
  | PostDM | GetDMs | DeleteDM
  | SetupStatus | Setup | LogStream | ClientUpdate
  | Webhook | LiveKitHealth | LiveKitProxy | Diagnostics | Metrics
  | Admin admin_route

datatype reply = Reply response | Served served | Stream stream_result | Proxied proxied | NotMounted

definition admin_handler :: "config \<Rightarrow> server_packages \<Rightarrow> io \<Rightarrow> admin_route \<Rightarrow> reqctx \<Rightarrow> handler" where
  "admin_handler cf pk io rt =
     (case rt of
        Stats \<Rightarrow> handleGetStats (fst (io_pages io)) (snd (io_pages io))
      | Users \<Rightarrow> handleListUsers
      | PatchUser \<Rightarrow> handlePatchUser
      | UserSessions \<Rightarrow> handleForceLogout
      | AdminChannels \<Rightarrow> handleAdminListChannels
      | PostChannel \<Rightarrow> handleCreateChannel
      | PatchChannel \<Rightarrow> handlePatchChannel
      | DeleteChannelRoute \<Rightarrow> handleDeleteChannel
      | AuditLog \<Rightarrow> handleGetAuditLog
      | GetSettings \<Rightarrow> handleGetSettings
      | PatchSettings \<Rightarrow> handlePatchSettings pk (io_ord io)
      | LogTicket \<Rightarrow> handleLogTicket
      | PostBackup \<Rightarrow> ownerOnlyMiddleware (handleBackup (cf_Cwd cf) (io_vacuum io) (io_os io))
      | ListBackupFiles \<Rightarrow> handleListBackups (io_listing io)
      | DeleteBackupFile \<Rightarrow> ownerOnlyMiddleware (handleDeleteBackup (cf_Cwd cf) (io_os io))
      | RestoreBackupFile \<Rightarrow> ownerOnlyMiddleware (handleRestoreBackup (cf_Cwd cf) (io_vacuum io) (io_reopened io) (io_os io))
      | Updates \<Rightarrow> handleCheckUpdate (io_uptext io) (io_web io)
      | ApplyUpdate \<Rightarrow> ownerOnlyMiddleware
          (handleApplyUpdate (io_uptext io) (pk_sha256 pk) (io_web io) (io_df io) (io_exe io) (io_link io)))"

text \<open>The routes of the media server exist only when its client could be made.\<close>

definition livekit_configured :: "config \<Rightarrow> bool" where
  "livekit_configured cf \<longleftrightarrow> (case NewLiveKitClient (\<lambda>_ _ _. None) (cf_Voice cf) of Inl _ \<Rightarrow> False | Inr _ \<Rightarrow> True)"

definition if_livekit :: "config \<Rightarrow> handler \<Rightarrow> handler option" where
  "if_livekit cf h = (if livekit_configured cf then Some (AdminIPRestrict (cf_AdminAllowedCIDRs cf) h) else None)"

definition json_handler :: "config \<Rightarrow> server_packages \<Rightarrow> io \<Rightarrow> route \<Rightarrow> handler option" where
  "json_handler cf pk io rt =
     (let proxies = cf_TrustedProxies cf; authed = AuthMiddleware pk in
      case rt of
        Health \<Rightarrow> Some (handleHealth (cf_Version cf) (cf_StartTime cf))
      | Info \<Rightarrow> Some (handleInfo (cf_Name cf) (cf_Version cf))
      | Register \<Rightarrow> Some (register_route pk proxies)
      | Login \<Rightarrow> Some (login_route pk proxies)
      | VerifyTOTP \<Rightarrow> Some (verify_totp_route pk proxies)
      | Logout \<Rightarrow> Some (logout_route pk)
      | Me \<Rightarrow> Some (me_route pk)
      | DeleteMe \<Rightarrow> Some (account_route pk proxies)
      | EnableTOTP \<Rightarrow> Some (totp_enable_route pk proxies)
      | ConfirmTOTP \<Rightarrow> Some (totp_confirm_route pk proxies)
      | DisableTOTP \<Rightarrow> Some (totp_disable_route pk proxies)
      | PostInvite \<Rightarrow> Some (invite_route pk handleCreateInvite)
      | GetInvites \<Rightarrow> Some (invite_route pk handleListInvites)
      | DeleteInvite \<Rightarrow> Some (invite_route pk handleRevokeInvite)
      | GetChannels \<Rightarrow> Some (authed handleListChannels)
      | GetHistory \<Rightarrow> Some (authed handleGetMessages)
      | GetPins \<Rightarrow> Some (authed handleGetPins)
      | PostPin \<Rightarrow> Some (authed (handleSetPinned True))
      | DeletePin \<Rightarrow> Some (authed (handleSetPinned False))
      | Search \<Rightarrow> Some (search_route pk proxies)
      | PostUpload \<Rightarrow> map_option (\<lambda>store. authed (\<lambda>cx. MaxBodySize (100 * 1024 * 1024)
          (handleUpload (cf_Cwd cf) store (io_df io) (io_upload io) cx))) (cf_Storage cf)
      | PostDM \<Rightarrow> Some (authed handleCreateDM)
      | GetDMs \<Rightarrow> Some (authed handleListDMs)
      | DeleteDM \<Rightarrow> Some (authed handleCloseDM)
      | Webhook \<Rightarrow> if_livekit cf (NewLiveKitWebhookHandler (io_sdk io) (vc_LiveKitAPIKey (cf_Voice cf)) (vc_LiveKitAPISecret (cf_Voice cf)))
      | LiveKitHealth \<Rightarrow> if_livekit cf (handleLiveKitHealth (io_reach io))
      | Diagnostics \<Rightarrow> Some (authed (handleDiagnosticsConnectivity (io_urlhost io) (io_reach io) (io_goVersion io) (cf_Version cf)
          (cf_StartTime cf) (cf_Voice cf)))
      | Metrics \<Rightarrow> Some (AdminIPRestrict (cf_AdminAllowedCIDRs cf) (handleMetrics (io_runtime io) (io_reach io) (cf_StartTime cf)))
      | ClientUpdate \<Rightarrow> Some (handleClientUpdate (io_web io))
      | SetupStatus \<Rightarrow> Some (AdminIPRestrict (cf_AdminAllowedCIDRs cf) handleSetupStatus)
      | Setup \<Rightarrow> Some (AdminIPRestrict (cf_AdminAllowedCIDRs cf) (handleSetup pk))
      | Admin ar \<Rightarrow> Some (AdminIPRestrict (cf_AdminAllowedCIDRs cf) (adminAuthMiddleware pk (admin_handler cf pk io ar)))
      | _ \<Rightarrow> None)"

text \<open>The limits of the body come before the route, the security headers around it.\<close>

definition limited :: "(request \<Rightarrow> 'a) \<Rightarrow> request \<Rightarrow> 'a" where
  "limited f r = f (if rq_path r = ''/api/v1/uploads'' then r
     else r\<lparr>rq_body := take (1024 * 1024) (rq_body r), rq_cut := (rq_cut r \<or> 1024 * 1024 < length (rq_body r))\<rparr>)"

definition serve_file :: "config \<Rightarrow> request \<Rightarrow> (server, reply) state" where
  "serve_file cf r =
     (case cf_Storage cf of
        None \<Rightarrow> return NotMounted
      | Some store \<Rightarrow> do {
          out \<leftarrow> limited (handleServeFile (cf_Cwd cf) store (cf_AllowedOrigins cf)) r;
          return (Served out)
        })"

definition serve_logs :: "config \<Rightarrow> io \<Rightarrow> request \<Rightarrow> (server, reply) state" where
  "serve_logs cf io r =
     (if cf_AdminAllowedCIDRs cf \<noteq> [] \<and> \<not> trusted (clientIP r) (cf_AdminAllowedCIDRs cf)
      then return (Reply (writeErr 403 ''FORBIDDEN'' ''access denied''))
      else do { out \<leftarrow> handleLogStream (io_backlog io) (io_stream io) r; return (Stream out) })"

text \<open>The proxy counts its requests under a prefix of its own.\<close>

definition serve_proxy :: "config \<Rightarrow> io \<Rightarrow> request \<Rightarrow> (server, reply) state" where
  "serve_proxy cf io r =
     (if \<not> livekit_configured cf then return NotMounted
      else do {
        ok \<leftarrow> limiter_allow (''livekit_proxy:'' @ clientIPWithProxies r (cf_TrustedProxies cf)) 30 Minute;
        return (if ok then Proxied (NewLiveKitProxy (cf_AllowedOrigins cf) (io_connection io) r) else Reply (too_many Minute))
      })"

definition serve_json :: "config \<Rightarrow> handler option \<Rightarrow> request \<Rightarrow> (server, reply) state" where
  "serve_json cf h r =
     (case h of
        None \<Rightarrow> return NotMounted
      | Some h \<Rightarrow> do {
          rs \<leftarrow> SecurityHeadersWithTLS (cf_TLSMode cf) (MaxBodySizeUnless (1024 * 1024) [''/api/v1/uploads''] h) r;
          return (Reply rs)
        })"

definition NewRouter :: "config \<Rightarrow> server_packages \<Rightarrow> io \<Rightarrow> route \<Rightarrow> request \<Rightarrow> (server, reply) state" where
  "NewRouter cf pk io rt r =
     (case rt of
        GetFile \<Rightarrow> serve_file cf r
      | LogStream \<Rightarrow> serve_logs cf io r
      | LiveKitProxy \<Rightarrow> serve_proxy cf io r
      | _ \<Rightarrow> serve_json cf (json_handler cf pk io rt) r)"

section \<open>The running server\<close>

datatype server_event = HubEvent event | Request route io request | Maintain "string \<Rightarrow> disk_faults" nat | FinishUpdate swap_faults string

primrec server_step :: "config \<Rightarrow> server_packages \<Rightarrow> server_event \<Rightarrow> server \<Rightarrow> server" where
  "server_step cf pk (HubEvent e) = lift_hub (hub_step (packages.truncate pk) e)"
| "server_step cf pk (Request rt io r) = run_call (NewRouter cf pk io rt r)"
| "server_step cf pk (Maintain df fails) = run_call (maintenance_tick (pk_strftime pk) (cf_Cwd cf) (cf_Storage cf) df fails)"
| "server_step cf pk (FinishUpdate sw exePath) = run_call (finish_update sw exePath)"

definition NewServer :: "config \<Rightarrow> database \<Rightarrow> (nat \<Rightarrow> string option) \<Rightarrow> disk \<Rightarrow> server" where
  "NewServer cf db rnd d = hub.extend (NewHub db NewRateLimiter)
     (server.fields (NewPartialAuthStore (10 * Minute)) (NewPendingTOTPStore (10 * Minute)) NewRateLimiter Mapping.empty d rnd 0
       (Some (NewUpdater (cf_Version cf) (cf_GitHubToken cf) ''J3vb'' ''OwnCord'')))"

end
