(* ===== verification/SampleServer.thy ===== *)
theory SampleServer
  imports Router Sample
begin

text \<open>
  The sample hub with the HTTP side around it, for the instances of the theorems about
  requests: alice (owner) and bob (member) hold the session tokens \<^verbatim>\<open>a\<close> and \<^verbatim>\<open>b\<close>; the digest is the
  identity, so a token is stored as its hexadecimal form.
\<close>

definition sample_packages :: server_packages where
  "sample_packages = \<lparr>pk_sanitize = (\<lambda>x. x), pk_sha256 = (\<lambda>x. x), pk_strftime = Some, pk_bcrypt = (\<lambda>salt p n. Some (salt @ p)),
     pk_compare = (\<lambda>h p. h = p), pk_hmac = (\<lambda>k m. replicate 20 (CHR 0x00)), pk_fts = (\<lambda>q rows. Inr (map fst rows)),
     pk_bad_query = (\<lambda>_. False), pk_errtext = (\<lambda>_. ''error''), pk_quote = (\<lambda>x. x)\<rparr>"

definition sample_config :: config where
  "sample_config = \<lparr>cf_Name = ''OwnCord'', cf_Version = ''1.0'', cf_TLSMode = [], cf_TrustedProxies = [], cf_AllowedOrigins = [],
     cf_AdminAllowedCIDRs = [], cf_Storage = None, cf_Cwd = None, cf_StartTime = 0, cf_GitHubToken = [],
     cf_Voice = cg_Voice defaults\<rparr>"

definition sample_io :: io where
  "sample_io = \<lparr>io_upload = \<lparr>up_form = False, up_file = None, up_size = 0, up_fileID = [], up_readable = True, up_seekable = True,
       up_mime = [], up_dims = None, up_errtext = (\<lambda>_. [])\<rparr>,
     io_df = \<lparr>df_read = False, df_create = False, df_write = None, df_remove = False\<rparr>,
     io_os = \<lparr>of_mkdir = False, of_stat = False, of_remove = False, of_open = False, of_create = False, of_copy = None, of_sync = False\<rparr>,
     io_listing = NoDirectory, io_ord = (\<lambda>_ m. m), io_vacuum = (\<lambda>_. []), io_reopened = (\<lambda>_ s. s), io_pages = (1, 4096), io_backlog = [], io_stream = [],
     io_web = \<lparr>wb_get = (\<lambda>_ _. None), wb_host = (\<lambda>_. None), wb_compare = (\<lambda>_ _. 0)\<rparr>, io_exe = Some ''/srv/chatserver.exe'',
     io_link = Some, io_uptext = (\<lambda>_. ''error''), io_reach = None,
     io_sdk = \<lparr>ws_apiKey = (\<lambda>_. None), ws_verify = (\<lambda>_ _ _. False), ws_event = (\<lambda>_. None)\<rparr>, io_urlhost = (\<lambda>_. None),
     io_goVersion = ''go1.25'',
     io_runtime = \<lparr>rt_String = (\<lambda>_. ''0s''), rt_Seconds = (\<lambda>_. ''0''), rt_NumGoroutine = 1, rt_HeapAlloc = ''1'', rt_HeapSys = ''1'', rt_NumGC = 0\<rparr>,
     io_connection = []\<rparr>"

definition sample_request :: "string \<Rightarrow> string \<Rightarrow> request" where
  "sample_request auth body = \<lparr>rq_remote = ''10.0.0.1:5'', rq_path = [], rq_header = (\<lambda>h. if h = ''Authorization'' then auth else []),
     rq_param = (\<lambda>_. ''1''), rq_query = (\<lambda>_. []), rq_body = body, rq_cut = False\<rparr>"

definition sample_server :: server where
  "sample_server = hub.extend (sample_hub\<lparr>sessions := [sample_session 1 1 ''61'', sample_session 2 2 ''62'']\<rparr>)
     (server.fields (NewPartialAuthStore (10 * Minute)) (NewPendingTOTPStore (10 * Minute)) NewRateLimiter Mapping.empty
       Mapping.empty (\<lambda>_. Some ''x'') 0 (Some (NewUpdater ''1.0'' [] ''J3vb'' ''OwnCord'')))"

definition sample_ctx :: reqctx where
  "sample_ctx = \<lparr>cx_user = sample_user 2 ''bob'' 4, cx_session = sample_session 2 2 ''62'',
     cx_role = Some \<lparr>r_ID = 4, r_Name = ''Member'', r_Color = None, r_Permissions = 7779, r_Position = 40, r_IsDefault = True\<rparr>\<rparr>"

lemma server_sample_fields:
  "faults sample_server = (\<lambda>_. False)" "clock sample_server = (\<lambda>_. 0)" "h_limiter sample_server = NewRateLimiter"
  "roles sample_server = roles initial_db" "channel_overrides sample_server = []"
  "users sample_server = [sample_user 1 ''alice'' 1, sample_user 2 ''bob'' 4, sample_user 3 ''carol'' 4]"
  "sessions sample_server = [sample_session 1 1 ''61'', sample_session 2 2 ''62'']"
  "messages sample_server = [sample_message 1 1 2, sample_message 2 3 1]" "reactions sample_server = []"
  "dm_participants sample_server = [(3, 1), (3, 2)]" "attachments sample_server = []"
  "channels sample_server = [sample_channel 1 ''general'' ''text'' 0, sample_channel 2 ''lounge'' ''voice'' 1, sample_channel 3 [] ''dm'' 0]"
  "settings sample_server = settings initial_db" "invites sample_server = []"
  "sv_draws sample_server = 0" "sv_rand sample_server = (\<lambda>_. Some ''x'')"
  by (simp_all add: sample_server_def sample_hub_def sample_db_def database.extend_def hub.extend_def hub.fields_def server.fields_def initial_db_def)

lemma sample_token: "hexEncode ''a'' = ''61''" "hexEncode ''b'' = ''62''"
  by (simp_all add: hexEncode_def hex_digit_def char_of_def bit_0)

end
