(* ===== verification/ServerSafety.thy ===== *)
theory ServerSafety
  imports SampleServer
begin

text \<open>
  The HTTP side keeps the invariant of the hub and of the schema: every handler behind its
  middleware, every route, and every interleaving of requests with the steps of the hub.
\<close>

section \<open>Calls of the handlers\<close>

lemma keeps_case_bool: "keeps P a \<Longrightarrow> keeps P b \<Longrightarrow> keeps P (case_bool a b c)"
  by (cases c) simp_all

lemma keeps_case_db_error:
  "keeps P a1 \<Longrightarrow> keeps P a2 \<Longrightarrow> keeps P a3 \<Longrightarrow> keeps P a4 \<Longrightarrow> keeps P a5 \<Longrightarrow> keeps P a6 \<Longrightarrow> keeps P a7 \<Longrightarrow>
   keeps P a8 \<Longrightarrow> keeps P a9 \<Longrightarrow> keeps P a10 \<Longrightarrow> keeps P (case_db_error a1 a2 a3 a4 a5 a6 a7 a8 a9 a10 e)"
  by (cases e) simp_all

lemma keeps_case_decode_error: "keeps P a \<Longrightarrow> keeps P b \<Longrightarrow> keeps P (case_decode_error a b e)"
  by (cases e) simp_all

lemmas server_rules = hub_rules keeps_case_bool keeps_case_db_error keeps_case_decode_error

lemma frame_AdminDeleteChannel: "keeps (more_is x) (AdminDeleteChannel ch)"
  unfolding AdminDeleteChannel_def by (intro frame_rules) (simp add: frame_delete_channel)

lemma server_db_calls [hub_intro]:
  "keeps hub_ok (CreateUser a b c)" "keeps hub_ok (CreateUserWithInvite st a b c d)"
  "keeps hub_ok (UpdateUserTOTPSecret u z)" "keeps hub_ok (UpdateUserRole u r)" "keeps hub_ok (BanUser u rs t)"
  "keeps hub_ok (UnbanUser u)" "keeps hub_ok (DeleteAccount u)"
  "keeps hub_ok (CreateSession u h d i)" "keeps hub_ok (DeleteSession h)" "keeps hub_ok (TouchSession h)"
  "keeps hub_ok (ForceLogoutUser u)" "keeps hub_ok (CreateInvite by u n t)" "keeps hub_ok (RevokeInvite co)"
  "keeps hub_ok (CreateChannel n' ty ca to po)" "keeps hub_ok (AdminCreateChannel n' ty ca to po)"
  "keeps hub_ok (AdminUpdateChannel ch n' to sm po ar)" "keeps hub_ok (AdminDeleteChannel ch)"
  "keeps hub_ok (SetMessagePinned i' p)" "keeps hub_ok (CreateAttachment j fn sa mt sz w hh)"
  "keeps hub_ok (GetOrCreateDMChannel u v)" "keeps hub_ok (CloseDM u ch)" "keeps hub_ok (SetSetting k x)"
  unfolding CreateUser_def AdminCreateChannel_def
  by (intro keeps_hub_db keeps_intro frame_intro frame_AdminDeleteChannel)+

lemma server_fields [hub_intro]:
  "keeps hub_ok (modify (\<lambda>s. s\<lparr>sv_partial := f1 s\<rparr>))" "keeps hub_ok (modify (\<lambda>s. s\<lparr>sv_pending := f2 s\<rparr>))"
  "keeps hub_ok (modify (\<lambda>s. s\<lparr>sv_setupLimiter := f3 s\<rparr>))" "keeps hub_ok (modify (\<lambda>s. s\<lparr>sv_tickets := f4 s\<rparr>))"
  "keeps hub_ok (modify (\<lambda>s. s\<lparr>sv_updater := f8 s\<rparr>))" "keeps hub_ok (modify (\<lambda>s. s\<lparr>sv_disk := f5 s\<rparr>))" "keeps hub_ok (modify (\<lambda>s. s\<lparr>sv_draws := f6 s\<rparr>))"
  "keeps hub_ok (modify (\<lambda>s :: server. s\<lparr>h_limiter := f7 s\<rparr>))"
  by (simp_all add: keeps_def hub_ok_defs schema_defs has_defs)

lemma server_tick: "hub_ok (tick s) = hub_ok s" for s :: "'z hub_scheme"
  by (simp add: hub_ok_defs schema_defs has_defs tick_def)

lemma server_on_disk [hub_intro]: "keeps hub_ok (on_disk f)"
  by (simp add: keeps_def on_disk_def hub_ok_defs schema_defs has_defs split: prod.split)

lemmas server_query_defs = query_defs GetUserByUsername_def GetInvite_def ListInvites_def GetSetting_def GetAllSettings_def
  UserCount_def CountUsersWithoutTOTP_def ListAllUsers_def GetAuditLog_def GetUserSessions_def GetMessagesForAPI_def
  GetPinnedMessages_def GetChannelTypes_def GetAllChannelPermissionsForRole_def GetAttachmentByID_def GetDMRecipient_def

lemma server_helpers [hub_intro]:
  "keeps hub_ok rand_read" "keeps hub_ok (hash_password pk p)" "keeps hub_ok generate_token"
  "keeps hub_ok (issueSession pk u d i)" "keeps hub_ok (limiter_locked k)" "keeps hub_ok (limiter_lockout k du)"
  "keeps hub_ok (limiter_reset k)" "keeps hub_ok (partial_issue u d i)" "keeps hub_ok (on_partial f)"
  "keeps hub_ok (pending_put u se)" "keeps hub_ok (pending_lookup u)" "keeps hub_ok (pending_delete u)"
  "keeps hub_ok (setup_allow k)"
  unfolding rand_read_def hash_password_def generate_token_def issueSession_def limiter_locked_def limiter_lockout_def
    limiter_reset_def partial_issue_def on_partial_def pending_put_def pending_lookup_def pending_delete_def setup_allow_def
  by (intro server_rules hub_intro)+

section \<open>Handlers\<close>

lemma server_bans [hub_intro]: "keeps hub_ok (IsEffectivelyBanned u)" "keeps hub_ok (IsSessionExpired e)"
  unfolding IsEffectivelyBanned_def ban_active_def IsSessionExpired_def by (intro server_rules hub_intro)+

lemma server_settings [hub_intro]: "keeps hub_ok isRequire2FAEnabled" "keeps hub_ok isRegistrationOpen"
  unfolding isRequire2FAEnabled_def isRegistrationOpen_def getBooleanSetting_def server_query_defs
  by (intro server_rules hub_intro)+

lemma server_register [hub_intro]: "keeps hub_ok (handleRegister pk r)"
  unfolding handleRegister_def registration_policy_def register_finish_def server_query_defs
  by (intro server_rules hub_intro)

lemma server_login [hub_intro]: "keeps hub_ok (handleLogin pk proxies r)"
  unfolding handleLogin_def login_user_def login_failed_def server_query_defs
  by (intro server_rules hub_intro)

lemma server_verify [hub_intro]: "keeps hub_ok (handleVerifyTOTP pk r)"
  unfolding handleVerifyTOTP_def verify_code_def server_query_defs
  by (intro server_rules hub_intro)

lemma server_totp [hub_intro]:
  "keeps hub_ok (handleEnableTOTP pk cx r)" "keeps hub_ok (handleConfirmTOTP pk cx r)" "keeps hub_ok (handleDisableTOTP pk cx r)"
  unfolding handleEnableTOTP_def handleConfirmTOTP_def handleDisableTOTP_def server_query_defs
  by (intro server_rules hub_intro)+

lemma server_account [hub_intro]:
  "keeps hub_ok (handleLogout cx r)" "keeps hub_ok (handleMe cx r)" "keeps hub_ok (handleDeleteAccount pk cx r)"
  unfolding handleLogout_def handleMe_def handleDeleteAccount_def delete_confirmed_def server_query_defs
  by (intro server_rules hub_intro)+

lemma server_invites [hub_intro]:
  "keeps hub_ok (handleCreateInvite cx r)" "keeps hub_ok (handleListInvites cx r)" "keeps hub_ok (handleRevokeInvite cx r)"
  unfolding handleCreateInvite_def invite_expiry_def handleListInvites_def handleRevokeInvite_def server_query_defs
  by (intro server_rules hub_intro)+

lemma server_dms [hub_intro]:
  "keeps hub_ok (handleCreateDM cx r)" "keeps hub_ok (handleListDMs cx r)" "keeps hub_ok (handleCloseDM cx r)"
  unfolding handleCreateDM_def handleListDMs_def handleCloseDM_def server_query_defs
  by (intro server_rules hub_intro)+

lemma server_channel_access [hub_intro]: "keeps hub_ok (channel_access cx ch p m)"
  unfolding channel_access_def hasChannelPermREST_def server_query_defs by (intro server_rules hub_intro)

lemma server_enrich [hub_intro]: "keeps hub_ok (scanAndEnrichMessages rows u)"
  unfolding scanAndEnrichMessages_def getReactionsBatch_def server_query_defs by (intro server_rules hub_intro)

lemma server_channels [hub_intro]:
  "keeps hub_ok (handleListChannels cx r)" "keeps hub_ok (handleGetMessages cx r)" "keeps hub_ok (handleGetPins cx r)"
  "keeps hub_ok (handleSetPinned b cx r)"
  unfolding handleListChannels_def fetch_overrides_def handleGetMessages_def handleGetPins_def handleSetPinned_def
    set_pinned_def server_query_defs
  by (intro server_rules hub_intro)+

lemma server_search_filter [hub_intro]: "keeps hub_ok (search_filter cx ov types rs)"
  by (induction rs) (auto simp: search_visible_def server_query_defs intro!: server_rules hub_intro)

lemma server_search_query [hub_intro]: "keeps hub_ok (SearchMessages fts q ch limit :: (server, _) state)"
  unfolding SearchMessages_def
  by (intro server_rules keeps_exec) (auto simp: server_tick split: sum.splits)

lemma server_search [hub_intro]: "keeps hub_ok (handleSearch pk cx r)"
  unfolding handleSearch_def search_results_def fetch_overrides_def server_query_defs
  by (intro server_rules hub_intro)

lemma server_upload [hub_intro]:
  "keeps hub_ok (handleUpload cwd store df up cx r)" "keeps hub_ok (handleServeFile cwd store origins r)"
  unfolding handleUpload_def handleServeFile_def server_query_defs by (intro server_rules hub_intro)+

lemma server_info [hub_intro]: "keeps hub_ok (handleHealth v t r)" "keeps hub_ok (handleInfo n v r)"
  unfolding handleHealth_def handleInfo_def ClientCount_def by (intro server_rules hub_intro)+

section \<open>Admin handlers\<close>

lemma server_begin [hub_intro]: "keeps hub_ok (execute (\<lambda>now s. s) :: (server, db_error + unit) state)"
  by (rule keeps_execute) (simp_all add: server_tick)

lemma server_step_msg [hub_intro]: "keeps hub_ok m \<Longrightarrow> keeps hub_ok (step_msg msg m)"
  unfolding step_msg_def by (intro server_rules)

lemma server_users [hub_intro]:
  "keeps hub_ok (handleGetStats pc ps cx r)" "keeps hub_ok (handleListUsers cx r)" "keeps hub_ok (handleForceLogout cx r)"
  "keeps hub_ok (handleGetAuditLog cx r)" "keeps hub_ok (toAdminUserResponseFromUser u)"
  unfolding handleGetStats_def GetServerStats_def ClientCount_def handleListUsers_def handleForceLogout_def handleGetAuditLog_def
    toAdminUserResponseFromUser_def server_query_defs
  by (intro server_rules hub_intro)+

lemma server_announcements [hub_intro]:
  "keeps hub_ok (BroadcastChannelCreate ch)" "keeps hub_ok (BroadcastChannelUpdate ch)" "keeps hub_ok (BroadcastChannelDelete i)"
  "keeps hub_ok (BroadcastMemberUpdate u n)" "keeps hub_ok (BroadcastMemberBan u)"
  unfolding BroadcastChannelCreate_def BroadcastChannelUpdate_def BroadcastChannelDelete_def BroadcastMemberUpdate_def
    BroadcastMemberBan_def
  by (intro server_rules hub_intro)+

lemma server_admin_channels [hub_intro]:
  "keeps hub_ok (handleAdminListChannels cx r)" "keeps hub_ok (handleCreateChannel cx r)" "keeps hub_ok (handlePatchChannel cx r)"
  "keeps hub_ok (handleDeleteChannel cx r)"
  unfolding handleAdminListChannels_def handleCreateChannel_def handlePatchChannel_def handleDeleteChannel_def server_query_defs
  by (intro server_rules hub_intro)+

lemma server_rollback: "hub_ok (rollback_to s0 s) = hub_ok s0" for s0 :: "'z hub_scheme"
  by (simp add: rollback_to_def hub_ok_defs schema_defs has_defs)

text \<open>A transaction restores the tables it began with, whatever its steps did.\<close>

lemma server_transaction_msg [hub_intro]:
  assumes "keeps hub_ok m"
  shows "keeps hub_ok (transaction_msg b c m)"
proof -
  have m: "wp m (\<lambda>_. hub_ok) (tick s)" if "hub_ok s" for s
    using that by (intro keeps_wp assms) (simp add: server_tick)
  have "wp (transaction_msg b c m) (\<lambda>_. hub_ok) s" if "hub_ok s" for s
    unfolding transaction_msg_def wp_simps using that m [OF that]
    by (auto simp: server_rollback server_tick wp_simps split: sum.splits elim!: wp_mono)
  then show ?thesis
    by (auto simp: keeps_def wp_run)
qed

lemma server_patch_user [hub_intro]: "keeps hub_ok (handlePatchUser cx r)"
  unfolding handlePatchUser_def patch_user_update_def patch_user_effects_def server_query_defs
  by (intro server_rules hub_intro)

lemma server_write_settings [hub_intro]: "keeps hub_ok (write_settings kvs)" "keeps hub_ok (audit_settings a kvs)"
  by (induction kvs) (auto intro!: server_rules hub_intro)

lemma server_settings_handlers [hub_intro]:
  "keeps hub_ok (handleGetSettings cx r)" "keeps hub_ok (handlePatchSettings pk ord cx r)"
  unfolding handleGetSettings_def handlePatchSettings_def apply_settings_def validateRequire2FAUpdate_def targetBoolSetting_def
    server_query_defs
  by (intro server_rules hub_intro)+

lemma server_setup [hub_intro]: "keeps hub_ok (handleSetupStatus r)" "keeps hub_ok (handleSetup pk r)"
  unfolding handleSetupStatus_def handleSetup_def setup_finish_def server_query_defs by (intro server_rules hub_intro)+

lemma server_log_stream [hub_intro]:
  "keeps hub_ok (handleLogTicket cx r)" "keeps hub_ok (redeem_ticket t)" "keeps hub_ok (sessionStillAuthorized h)"
  unfolding handleLogTicket_def redeem_ticket_def sessionStillAuthorized_def server_query_defs by (intro server_rules hub_intro)+

lemma server_stream [hub_intro]: "keeps hub_ok (stream_backfill h es)" "keeps hub_ok (stream_loop h evs)"
  by (induction es, auto intro!: server_rules hub_intro)
    (induction h evs rule: stream_loop.induct, auto intro!: server_rules hub_intro)

lemma server_handleLogStream [hub_intro]: "keeps hub_ok (handleLogStream backlog evs r)"
  unfolding handleLogStream_def server_query_defs by (intro server_rules hub_intro)

lemma server_backups [hub_intro]:
  "keeps hub_ok (handleBackup cwd vacuum os cx r)" "keeps hub_ok (handleListBackups ls cx r)" "keeps hub_ok (handleDeleteBackup cwd os cx r)"
  unfolding handleBackup_def BackupTo_def BackupToSafe_def handleDeleteBackup_def
  by (intro server_rules hub_intro | simp add: handleListBackups_def keeps_return split: listing.split)+

lemma server_restore:
  assumes "\<And>file s. hub_ok s \<Longrightarrow> hub_ok (reopened file s)"
  shows "keeps hub_ok (handleRestoreBackup cwd vacuum reopened os cx r)"
proof -
  have m: "keeps hub_ok (modify (\<lambda>s. reopened (the (Mapping.lookup (sv_disk s) db)) s))" for db
    by (simp add: keeps_def assms)
  show ?thesis
    unfolding handleRestoreBackup_def BackupTo_def BackupToSafe_def by (intro m server_rules hub_intro)
qed

lemma server_updates [hub_intro]:
  "keeps hub_ok (check_update wb)" "keeps hub_ok (finish_update sw exe)"
  unfolding check_update_def finish_update_def BroadcastServerRestart_def by (intro server_rules hub_intro)+

lemma server_update_handlers [hub_intro]:
  "keeps hub_ok (handleCheckUpdate etext wb cx r)" "keeps hub_ok (handleApplyUpdate etext sha wb df exe link cx r)"
  "keeps hub_ok (handleClientUpdate wb r)"
  unfolding handleCheckUpdate_def handleApplyUpdate_def download_update_def BroadcastServerRestart_def handleClientUpdate_def
  by (intro server_rules hub_intro)+

lemma hub_ok_truncate: "hub_ok (hub.truncate s) = hub_ok s"
  by (cases s) (simp add: hub.truncate_def hub_ok_defs schema_defs has_defs)

lemma hub_ok_extend: "hub_ok (hub.extend h x) = hub_ok h"
  by (cases h) (simp add: hub.extend_def hub_ok_defs schema_defs has_defs)

lemma server_lift: "(\<And>h. hub_ok h \<Longrightarrow> hub_ok (f h)) \<Longrightarrow> hub_ok s \<Longrightarrow> hub_ok (lift_hub f s)"
  by (simp add: lift_hub_def hub_ok_extend hub_ok_truncate)

lemma server_lifted [hub_intro]: "keeps hub_ok (modify (lift_hub (run_call (handleWebhookParticipantLeft i room))))"
  by (intro keeps_modify server_lift) (simp_all add: run_call_def keepsD [OF hub_webhook])

lemma server_livekit [hub_intro]:
  "keeps hub_ok (NewLiveKitWebhookHandler sdk k se r)" "keeps hub_ok (handleLiveKitHealth reach r)"
  "keeps hub_ok (handleDiagnosticsConnectivity uh reach gv ver st v cx r)" "keeps hub_ok (handleMetrics rt reach st r)"
  unfolding handleMetrics_def VoiceSessionCount_def NewLiveKitWebhookHandler_def handleLiveKitHealth_def handleDiagnosticsConnectivity_def LiveKitHealthCheck_def ClientCount_def
  by (intro server_rules hub_intro)+

section \<open>Middleware and routes\<close>

lemma server_middleware:
  "(\<And>cx r. keeps hub_ok (h cx r)) \<Longrightarrow> keeps hub_ok (AuthMiddleware pk h r)"
  "(\<And>cx r. keeps hub_ok (h cx r)) \<Longrightarrow> keeps hub_ok (adminAuthMiddleware pk h r)"
  "(\<And>cx r. keeps hub_ok (h cx r)) \<Longrightarrow> keeps hub_ok (ownerOnlyMiddleware h cx r)"
  "(\<And>cx r. keeps hub_ok (h cx r)) \<Longrightarrow> keeps hub_ok (RequirePermission p h cx r)"
  "(\<And>r. keeps hub_ok (g r)) \<Longrightarrow> keeps hub_ok (rateLimitMiddlewareWithPrefix pre l w proxies g r)"
  "(\<And>r. keeps hub_ok (g r)) \<Longrightarrow> keeps hub_ok (RateLimitMiddleware l w proxies g r)"
  "(\<And>r. keeps hub_ok (g r)) \<Longrightarrow> keeps hub_ok (AdminIPRestrict cidrs g r)"
  "(\<And>r. keeps hub_ok (g r)) \<Longrightarrow> keeps hub_ok (MaxBodySize n g r)"
  "(\<And>r. keeps hub_ok (g r)) \<Longrightarrow> keeps hub_ok (MaxBodySizeUnless n ps g r)"
  "(\<And>r. keeps hub_ok (g r)) \<Longrightarrow> keeps hub_ok (SecurityHeadersWithTLS m g r)"
  unfolding AuthMiddleware_def adminAuthMiddleware_def ownerOnlyMiddleware_def RequirePermission_def
    rateLimitMiddlewareWithPrefix_def RateLimitMiddleware_def AdminIPRestrict_def MaxBodySize_def MaxBodySizeUnless_def
    SecurityHeadersWithTLS_def server_query_defs
  by (assumption | rule server_rules hub_intro)+

text \<open>The file an owner restores is a backup: the rows it brings back satisfy the constraints of the schema.\<close>

definition sound_restore :: "io \<Rightarrow> bool" where
  "sound_restore io \<longleftrightarrow> (\<forall>file s. hub_ok s \<longrightarrow> hub_ok (io_reopened io file s))"

lemma server_admin_handler: "sound_restore io \<Longrightarrow> keeps hub_ok (admin_handler cf pk io rt cx r)"
  by (cases rt) (auto simp: admin_handler_def sound_restore_def intro!: hub_intro server_middleware server_restore)

lemmas route_defs = register_route_def login_route_def verify_totp_route_def logout_route_def me_route_def account_route_def
  totp_enable_route_def totp_confirm_route_def totp_disable_route_def invite_route_def search_route_def

lemma server_json_handler: "sound_restore io \<Longrightarrow> json_handler cf pk io rt = Some h \<Longrightarrow> keeps hub_ok (h r)"
  by (cases rt) (auto simp: json_handler_def if_livekit_def Let_def route_defs intro!: hub_intro server_middleware server_admin_handler split: if_splits)

lemma server_router:
  assumes "sound_restore io"
  shows "keeps hub_ok (NewRouter cf pk io rt r)"
proof -
  have "keeps hub_ok (serve_json cf (json_handler cf pk io rt) r)"
    by (cases "json_handler cf pk io rt")
      (auto simp: serve_json_def intro!: keeps_return keeps_bind server_middleware dest: server_json_handler [OF assms])
  moreover have "keeps hub_ok (serve_file cf r)" "keeps hub_ok (serve_logs cf io r)"
    "keeps hub_ok (serve_proxy cf io r)"
    unfolding serve_file_def serve_logs_def serve_proxy_def limited_def by (intro server_rules hub_intro)+
  ultimately show ?thesis
    by (cases rt) (simp_all add: NewRouter_def)
qed

section \<open>The running server\<close>

lemma server_maintenance [hub_intro]: "keeps hub_ok (maintenance_tick strf cwd store df fails)"
proof -
  have "keeps hub_ok (DeleteExpiredSessions strf)" "keeps hub_ok (DeleteOrphanedAttachments cutoff)" for cutoff
    by (intro keeps_hub_db keeps_intro frame_intro)+
  then show ?thesis
    unfolding maintenance_tick_def purge_def remove_orphans_def by (auto intro!: server_rules hub_intro)
qed

definition sound_event :: "server_event \<Rightarrow> bool" where
  "sound_event e \<longleftrightarrow> (case e of Request rt io r \<Rightarrow> sound_restore io | _ \<Rightarrow> True)"

lemma server_step_ok: "sound_event e \<Longrightarrow> hub_ok s \<Longrightarrow> hub_ok (server_step cf pk e s)"
  by (cases e) (auto intro: server_lift hub_step_ok simp: run_call_def sound_event_def intro!: keepsD [OF server_router] keepsD [OF server_maintenance] keepsD [OF server_updates(2)])

definition booted :: "server \<Rightarrow> bool" where
  "booted s \<longleftrightarrow> (\<exists>cf db rnd d. fresh_db db \<and> s = NewServer cf db rnd d)"

lemma booted_ok: "booted s \<Longrightarrow> hub_ok s"
proof -
  assume "booted s"
  then obtain cf db rnd d where db: "fresh_db db" and s: "s = NewServer cf db rnd d"
    by (auto simp: booted_def)
  have "started (NewHub db NewRateLimiter)"
    using db unfolding started_def by blast
  then show ?thesis
    using started_ok by (simp add: s NewServer_def hub_ok_extend)
qed

interpretation server_sys: legal_system booted sound_event "server_step cf pk" hub_ok for cf pk
  by unfold_locales (auto intro: booted_ok server_step_ok)

text \<open>
  The invariant of the hub holds for the whole server in every interleaving. From a migrated database, whatever
  sequence of HTTP requests (every route of the API and of the admin panel, any headers and
  bodies, any choices of the random source and of the operating system; what a restore makes of the
  state is assumed to satisfy the invariant again), of steps of the hub, of maintenance ticks and of replacements of the binary: user names stay unique without regard to case, every session belongs to an existing
  user with an existing role, every message to an existing channel and author, a user has
  at most one voice state and one registered client, and no queue exceeds its bound.
  Requests run one at a time here; the database serialises their statements.
\<close>
theorem server_runs_safe:
  assumes "fresh_db db" and "\<forall>e \<in> set events. sound_event e" and "s = fold (server_step cf pk) events (NewServer cf db rnd d)"
  shows "distinct (map (\<lambda>u. nocase (u_Username u)) (users s))
    \<and> (\<forall>x \<in> set (sessions s). \<exists>u \<in> set (users s). u_ID u = s_UserID x \<and> (\<exists>r \<in> set (roles s). r_ID r = u_RoleID u))
    \<and> (\<forall>m \<in> set (messages s). m_ChannelID m \<in> c_ID ` set (channels s) \<and> m_UserID m \<in> u_ID ` set (users s))
    \<and> distinct (map vr_user (voice_states s))
    \<and> distinct (map fst (h_clients s))
    \<and> (\<forall>c. length (k_send (h_heap s c)) \<le> 256) \<and> length (h_broadcast s) \<le> 256"
proof -
  have ok: "hub_ok s"
    unfolding assms(3) using assms(1,2) by (intro server_sys.legal_run) (auto simp: booted_def)
  then have "schema_ok s" by (simp add: hub_ok_def)
  then have refs: "uniq_ok s" "user_refs s" "message_refs s"
    by (simp_all add: schema_ok_def)
  have "\<exists>u \<in> set (users s). u_ID u = s_UserID x \<and> (\<exists>r \<in> set (roles s). r_ID r = u_RoleID u)" if "x \<in> set (sessions s)" for x
    using refs(2) that by (force simp: user_refs_def has_user_def has_role_def)
  moreover have "m_ChannelID m \<in> c_ID ` set (channels s) \<and> m_UserID m \<in> u_ID ` set (users s)" if "m \<in> set (messages s)" for m
    using refs(3) that by (auto simp: message_refs_def has_channel_def has_user_def)
  ultimately show ?thesis
    using ok refs(1) by (auto simp: uniq_ok_def hub_ok_def clients_ok_def queues_ok_def sendBufSize_def broadcastCap_def)
qed

text \<open>A first-run setup between two broadcasts, on a database whose fourth statement fails.\<close>

theorem server_runs_safe_witness:
  "length (h_broadcast (fold (server_step sample_config sample_packages)
     [HubEvent (Announce ''a''), Request Setup sample_io (sample_request [] ''{}''), HubEvent DeliverNext]
     (NewServer sample_config (initial_db\<lparr>faults := \<lambda>n. n = 3, clock := int\<rparr>) (\<lambda>_. Some ''x'') Mapping.empty))) \<le> 256"
proof -
  have "fresh_db (initial_db\<lparr>faults := \<lambda>n. n = 3, clock := int\<rparr>)"
    by (auto simp: fresh_db_def)
  moreover have "\<forall>e \<in> set [HubEvent (Announce ''a''), Request Setup sample_io (sample_request [] ''{}''), HubEvent DeliverNext].
      sound_event e"
    by (simp add: sound_event_def sound_restore_def sample_io_def)
  ultimately show ?thesis
    by (rule server_runs_safe [THEN conjunct2, THEN conjunct2, THEN conjunct2, THEN conjunct2, THEN conjunct2, THEN conjunct2,
      OF _ _ refl])
qed

end
