(* ===== verification/JsonRoundtrip.thy ===== *)
theory JsonRoundtrip
  imports Hub
begin

text \<open>
  What \<^verbatim>\<open>Marshal\<close> prints, the scanner reads back: every value comes back with its strings made valid
  UTF-8, so every frame the server sends is one JSON object with the fields it was built
  from. The proof also shows that the fuel of the scanner is enough.
\<close>

section \<open>Runes\<close>

text \<open>What becomes of a decoded rune on the way through a JSON string.\<close>

definition valid_bytes :: "nat \<times> string \<Rightarrow> string" where
  "valid_bytes p = (if fst p = RuneError then encode_rune RuneError else snd p)"

lemma to_valid_bytes: "to_valid s = concat (map valid_bytes (utf8_seq s))"
proof -
  have "valid_bytes = (\<lambda>(r, bs). if r = RuneError then encode_rune RuneError else bs)"
    by (rule ext) (simp add: valid_bytes_def split: prod.split)
  then show ?thesis by (simp add: to_valid_def)
qed

text \<open>The three kinds of elements of a decoded string: an invalid byte, an ASCII character, a longer sequence.\<close>

definition multibyte :: "nat \<times> string \<Rightarrow> bool" where
  "multibyte p \<longleftrightarrow> 0x80 \<le> fst p \<and> encode_rune (fst p) = snd p \<and> length (snd p) \<noteq> 1 \<and> (\<forall>c \<in> set (snd p). 0x80 \<le> byte c)
     \<and> (\<forall>rest. utf8_seq (snd p @ rest) = p # utf8_seq rest)"

definition rune_kind :: "nat \<times> string \<Rightarrow> bool" where
  "rune_kind p \<longleftrightarrow> (fst p = RuneError \<and> length (snd p) = 1) \<or> (fst p < 0x80 \<and> snd p = [char_of (fst p)]) \<or> multibyte p"

text \<open>Encoding inverts decoding, for each width.\<close>

lemma encode2: "2 \<le> k \<Longrightarrow> k < 32 \<Longrightarrow> x < 64 \<Longrightarrow> encode_rune (k * 64 + x) = [char_of (0xC0 + k), char_of (0x80 + x)]"
  by (simp add: encode_rune_def)

lemma encode3:
  "k < 16 \<Longrightarrow> k = 0 \<longrightarrow> 32 \<le> x \<Longrightarrow> x < 64 \<Longrightarrow> y < 64 \<Longrightarrow>
   encode_rune (k * 4096 + x * 64 + y) = [char_of (0xE0 + k), char_of (0x80 + x), char_of (0x80 + y)]"
proof -
  assume b: "k < 16" "k = 0 \<longrightarrow> 32 \<le> x" "x < 64" "y < 64"
  then have "(k * 4096 + x * 64 + y) div 64 = k * 64 + x" by (simp add: div_mult2_eq)
  moreover from b this have "(k * 4096 + x * 64 + y) div 4096 = k" using div_mult2_eq [of "k * 4096 + x * 64 + y" 64 64] by simp
  moreover from b have "(k * 4096 + x * 64 + y) mod 64 = y" by (simp add: mod_add_left_eq [symmetric])
  moreover from b have "(k * 64 + x) mod 64 = x" by simp
  moreover from b have "\<not> k * 4096 + x * 64 + y < 0x800" "k * 4096 + x * 64 + y < 0x10000" by (cases "k = 0"; simp)+
  ultimately show ?thesis by (simp add: encode_rune_def)
qed

lemma encode4:
  "k < 5 \<Longrightarrow> k = 0 \<longrightarrow> 16 \<le> x \<Longrightarrow> x < 64 \<Longrightarrow> y < 64 \<Longrightarrow> z < 64 \<Longrightarrow>
   encode_rune (k * 262144 + x * 4096 + y * 64 + z) = [char_of (0xF0 + k), char_of (0x80 + x), char_of (0x80 + y), char_of (0x80 + z)]"
proof -
  assume b: "k < 5" "k = 0 \<longrightarrow> 16 \<le> x" "x < 64" "y < 64" "z < 64"
  let ?n = "k * 262144 + x * 4096 + y * 64 + z"
  from b have d1: "?n div 64 = k * 4096 + x * 64 + y" by simp
  with b have d2: "?n div 4096 = k * 64 + x" using div_mult2_eq [of ?n 64 64] by simp
  with b have d3: "?n div 262144 = k" using div_mult2_eq [of ?n 4096 64] by simp
  have "(k * 4096 + x * 64 + y) mod 64 = y" "(k * 64 + x) mod 64 = x" "?n mod 64 = z"
    using b by (simp_all add: mod_add_left_eq [symmetric])
  moreover from b have "\<not> ?n < 0x10000" by (cases "k = 0") simp_all
  ultimately show ?thesis using d1 d2 d3 by (simp add: encode_rune_def)
qed

lemma cont_bits:
  assumes "cont lo hi c" and "0x80 \<le> lo" and "hi \<le> 0xBF"
  obtains x where "x < 64" "c = char_of (0x80 + x)" "byte c = 0x80 + x" "cbits c = x" "lo - 0x80 \<le> x" "x \<le> hi - 0x80"
proof -
  let ?x = "byte c - 0x80"
  have b: "byte c = 0x80 + ?x" using assms by (simp add: cont_def)
  then have "c = char_of (0x80 + ?x)" using char_of_char [of c] by simp
  with b assms show ?thesis by (intro that [of ?x]) (auto simp: cont_def cbits_def)
qed

lemma lead_bits:
  assumes "lo \<le> byte c"
  obtains k where "c = char_of (lo + k)" "byte c = lo + k"
proof -
  have b: "byte c = lo + (byte c - lo)" using assms by simp
  then have "c = char_of (lo + (byte c - lo))" using char_of_char [of c] by simp
  with b show ?thesis by (rule that [rotated])
qed

lemma multibyteI:
  assumes "\<And>s. decode_rune c (cs @ s) = (r, Suc (length cs))"
    and "0x80 \<le> r" and "encode_rune r = c # cs" and "cs \<noteq> []" and "\<forall>x \<in> set (c # cs). 0x80 \<le> byte x"
  shows "multibyte (r, c # cs)"
  using assms by (simp add: multibyte_def)

lemma multi2:
  assumes "0xC2 \<le> byte c" and "byte c \<le> 0xDF" and "cont 0x80 0xBF c1"
  shows "multibyte ((byte c - 0xC0) * 64 + cbits c1, [c, c1])"
proof -
  obtain k where k: "c = char_of (0xC2 + k)" "byte c = 0xC2 + k" using lead_bits [OF assms(1)] .
  obtain x where x: "x < 64" "c1 = char_of (0x80 + x)" "byte c1 = 0x80 + x" "cbits c1 = x" using cont_bits [OF assms(3)] by auto
  have "encode_rune ((k + 2) * 64 + x) = [c, c1]" using encode2 [of "k + 2" x] k x assms(2) by (simp add: add.commute)
  moreover have "decode_rune c ([c1] @ s) = ((k + 2) * 64 + x, Suc (length [c1]))" for s
    using k(2) x(3,4) assms by (simp add: decode_rune_def)
  ultimately have "multibyte ((k + 2) * 64 + x, [c, c1])"
    using k(2) x(3) by (intro multibyteI) auto
  then show ?thesis using k(2) x(4) by simp
qed

lemma multi3:
  assumes "0xE0 \<le> byte c" and "byte c \<le> 0xEF" and "cont (if byte c = 0xE0 then 0xA0 else 0x80) (if byte c = 0xED then 0x9F else 0xBF) c1"
    and "cont 0x80 0xBF c2"
  shows "multibyte ((byte c - 0xE0) * 4096 + cbits c1 * 64 + cbits c2, [c, c1, c2])"
proof -
  obtain k where k: "c = char_of (0xE0 + k)" "byte c = 0xE0 + k" using lead_bits [OF assms(1)] .
  obtain x where x: "x < 64" "c1 = char_of (0x80 + x)" "byte c1 = 0x80 + x" "cbits c1 = x"
    "(if byte c = 0xE0 then 0xA0 else 0x80) - 0x80 \<le> x"
    using assms(3) by (elim cont_bits) (simp_all split: if_splits)
  obtain y where y: "y < 64" "c2 = char_of (0x80 + y)" "byte c2 = 0x80 + y" "cbits c2 = y" using cont_bits [OF assms(4)] by auto
  have low: "k = 0 \<longrightarrow> 32 \<le> x" using x(5) k(2) by auto
  have "encode_rune (k * 4096 + x * 64 + y) = [c, c1, c2]" using encode3 [of k x y] k x y assms(2) low by simp
  moreover have "decode_rune c ([c1, c2] @ s) = (k * 4096 + x * 64 + y, Suc (length [c1, c2]))" for s
    using k(2) x(4) y(4) assms by (simp add: decode_rune_def)
  moreover have "0x80 \<le> k * 4096 + x * 64 + y" using low by (cases "k = 0") simp_all
  ultimately have "multibyte (k * 4096 + x * 64 + y, [c, c1, c2])"
    using k(2) x(3) y(3) by (intro multibyteI) auto
  then show ?thesis using k(2) x(4) y(4) by simp
qed

lemma multi4:
  assumes "0xF0 \<le> byte c" and "byte c \<le> 0xF4" and "cont (if byte c = 0xF0 then 0x90 else 0x80) (if byte c = 0xF4 then 0x8F else 0xBF) c1"
    and "cont 0x80 0xBF c2" and "cont 0x80 0xBF c3"
  shows "multibyte ((byte c - 0xF0) * 262144 + cbits c1 * 4096 + cbits c2 * 64 + cbits c3, [c, c1, c2, c3])"
proof -
  obtain k where k: "c = char_of (0xF0 + k)" "byte c = 0xF0 + k" using lead_bits [OF assms(1)] .
  obtain x where x: "x < 64" "c1 = char_of (0x80 + x)" "byte c1 = 0x80 + x" "cbits c1 = x"
    "(if byte c = 0xF0 then 0x90 else 0x80) - 0x80 \<le> x"
    using assms(3) by (elim cont_bits) (simp_all split: if_splits)
  obtain y where y: "y < 64" "c2 = char_of (0x80 + y)" "byte c2 = 0x80 + y" "cbits c2 = y" using cont_bits [OF assms(4)] by auto
  obtain z where z: "z < 64" "c3 = char_of (0x80 + z)" "byte c3 = 0x80 + z" "cbits c3 = z" using cont_bits [OF assms(5)] by auto
  have low: "k = 0 \<longrightarrow> 16 \<le> x" using x(5) k(2) by auto
  have "encode_rune (k * 262144 + x * 4096 + y * 64 + z) = [c, c1, c2, c3]" using encode4 [of k x y z] k x y z assms(2) low by simp
  moreover have "decode_rune c ([c1, c2, c3] @ s) = (k * 262144 + x * 4096 + y * 64 + z, Suc (length [c1, c2, c3]))" for s
    using k(2) x(4) y(4) z(4) assms by (simp add: decode_rune_def)
  moreover have "0x80 \<le> k * 262144 + x * 4096 + y * 64 + z" using low by (cases "k = 0") simp_all
  ultimately have "multibyte (k * 262144 + x * 4096 + y * 64 + z, [c, c1, c2, c3])"
    using k(2) x(3) y(3) z(3) by (intro multibyteI) auto
  then show ?thesis using k(2) x(4) y(4) z(4) by simp
qed

lemma decode_kinds:
  assumes "decode_rune c s = (r, w)"
  shows "rune_kind (r, c # take (w - 1) s)"
proof -
  consider "byte c < 0x80" | "0xC2 \<le> byte c" "byte c \<le> 0xDF" | "0xE0 \<le> byte c" "byte c \<le> 0xEF" | "0xF0 \<le> byte c" "byte c \<le> 0xF4"
    | "0x80 \<le> byte c" "byte c \<notin> {0xC2..0xDF} \<union> {0xE0..0xEF} \<union> {0xF0..0xF4}"
    by fastforce
  then show ?thesis
  proof cases
    case 1
    then show ?thesis using assms by (auto simp: decode_rune_def rune_kind_def)
  next
    case 2
    then show ?thesis using assms multi2 [of c]
      by (cases s) (auto simp: decode_rune_def rune_kind_def split: if_splits)
  next
    case 3
    define lo hi :: nat where "lo = (if byte c = 0xE0 then 0xA0 else 0x80)" and "hi = (if byte c = 0xED then 0x9F else 0xBF)"
    have decode: "decode_rune c s = (case s of c1 # c2 # _ \<Rightarrow> if cont lo hi c1 \<and> cont 0x80 0xBF c2 then ((byte c - 0xE0) * 4096 + cbits c1 * 64 + cbits c2, 3) else (RuneError, 1) | _ \<Rightarrow> (RuneError, 1))"
      using 3 unfolding lo_def hi_def by (simp add: decode_rune_def Let_def split del: if_split)
    show ?thesis
    proof (cases "\<exists>c1 c2 s'. s = c1 # c2 # s' \<and>
        cont lo hi c1 \<and> cont 0x80 0xBF c2")
      case True
      then obtain c1 c2 s' where s: "s = c1 # c2 # s'"
        and ok: "cont lo hi c1" "cont 0x80 0xBF c2" by blast
      with decode assms have "r = (byte c - 0xE0) * 4096 + cbits c1 * 64 + cbits c2" "w = 3" by simp_all
      with s multi3 [OF 3 ok [unfolded lo_def hi_def]] show ?thesis by (simp add: rune_kind_def)
    next
      case False
      then have "decode_rune c s = (RuneError, 1)" unfolding decode by (auto split: list.split)
      with assms show ?thesis by (simp add: rune_kind_def)
    qed
  next
    case 4
    define lo hi :: nat where "lo = (if byte c = 0xF0 then 0x90 else 0x80)" and "hi = (if byte c = 0xF4 then 0x8F else 0xBF)"
    have decode: "decode_rune c s = (case s of c1 # c2 # c3 # _ \<Rightarrow> if cont lo hi c1 \<and> cont 0x80 0xBF c2 \<and> cont 0x80 0xBF c3 then ((byte c - 0xF0) * 262144 + cbits c1 * 4096 + cbits c2 * 64 + cbits c3, 4) else (RuneError, 1) | _ \<Rightarrow> (RuneError, 1))"
      using 4 unfolding lo_def hi_def by (simp add: decode_rune_def Let_def split del: if_split)
    show ?thesis
    proof (cases "\<exists>c1 c2 c3 s'. s = c1 # c2 # c3 # s' \<and>
        cont lo hi c1 \<and> cont 0x80 0xBF c2 \<and> cont 0x80 0xBF c3")
      case True
      then obtain c1 c2 c3 s' where s: "s = c1 # c2 # c3 # s'"
        and ok: "cont lo hi c1" "cont 0x80 0xBF c2" "cont 0x80 0xBF c3"
        by blast
      with decode assms have "r = (byte c - 0xF0) * 262144 + cbits c1 * 4096 + cbits c2 * 64 + cbits c3" "w = 4"
        by simp_all
      with s multi4 [OF 4 ok [unfolded lo_def hi_def]] show ?thesis by (simp add: rune_kind_def)
    next
      case False
      then have "decode_rune c s = (RuneError, 1)" unfolding decode by (auto split: list.split)
      with assms show ?thesis by (simp add: rune_kind_def)
    qed
  next
    case 5
    then show ?thesis using assms by (auto simp: decode_rune_def rune_kind_def)
  qed
qed

lemma utf8_kinds: "p \<in> set (utf8_seq s) \<Longrightarrow> rune_kind p"
proof (induction s rule: utf8_seq.induct)
  case (2 c s)
  obtain r w where rw: "decode_rune c s = (r, w)" by fastforce
  with 2 decode_kinds [OF rw] show ?case by auto
qed simp

section \<open>Valid strings\<close>

lemma multibyte_error: "multibyte (RuneError, encode_rune RuneError)"
proof -
  have "byte (CHR 0xEF) = 0xEF" "cont 0x80 0xBF (CHR 0xBF)" "cont 0x80 0xBF (CHR 0xBD)" "cbits (CHR 0xBF) = 63" "cbits (CHR 0xBD) = 61"
    by (simp_all add: cont_def cbits_def)
  then have "multibyte (RuneError, [CHR 0xEF, CHR 0xBF, CHR 0xBD])"
    using multi3 [of "CHR 0xEF" "CHR 0xBF" "CHR 0xBD"] by (simp add: RuneError_def)
  moreover from this have "encode_rune RuneError = [CHR 0xEF, CHR 0xBF, CHR 0xBD]" by (simp add: multibyte_def)
  ultimately show ?thesis by simp
qed

lemma seq_valid_bytes:
  assumes "rune_kind p"
  shows "utf8_seq (valid_bytes p @ rest) = (fst p, valid_bytes p) # utf8_seq rest"
proof (cases "fst p = RuneError")
  case True
  then show ?thesis using multibyte_error by (simp add: valid_bytes_def multibyte_def)
next
  case False
  with assms show ?thesis
    by (cases p) (auto simp: rune_kind_def valid_bytes_def multibyte_def decode_rune_def)
qed

lemma seq_valid:
  "\<forall>p \<in> set ps. rune_kind p \<Longrightarrow> utf8_seq (concat (map valid_bytes ps)) = map (\<lambda>p. (fst p, valid_bytes p)) ps"
  by (induction ps) (simp_all add: seq_valid_bytes)

lemma to_valid_idem [simp]: "to_valid (to_valid s) = to_valid s"
proof -
  have seq: "utf8_seq (to_valid s) = map (\<lambda>p. (fst p, valid_bytes p)) (utf8_seq s)"
    unfolding to_valid_bytes by (rule seq_valid) (simp add: utf8_kinds)
  have "valid_bytes (fst p, valid_bytes p) = valid_bytes p" for p by (simp add: valid_bytes_def)
  then have "concat (map valid_bytes (utf8_seq (to_valid s))) = to_valid s" by (simp add: seq comp_def) (simp add: to_valid_bytes)
  then show ?thesis by (simp add: to_valid_bytes [of "to_valid s"])
qed

section \<open>String literals\<close>

lemma scan_plain:
  "\<forall>c \<in> set bs. 0x20 \<le> byte c \<and> c \<noteq> dquote \<and> c \<noteq> bslash \<Longrightarrow>
   scan_string (bs @ rest) = map_option (apfst ((@) bs)) (scan_string rest)"
proof (induction bs)
  case Nil
  show ?case by (cases "scan_string rest") auto
next
  case (Cons c bs)
  then show ?case by (cases "scan_string rest") auto
qed

lemma hex_val_digit: "d < 16 \<Longrightarrow> hex_val (hex_digit d) = Some d"
  by (simp add: hex_val_def hex_digit_def is_digit_def)

lemma hex_places: "r = a * 16 + d0 \<Longrightarrow> a = b * 16 + d1 \<Longrightarrow> b = c * 16 + d2 \<Longrightarrow> c * 4096 + d2 * 256 + d1 * 16 + d0 = (r :: nat)"
  by simp

lemma getu4_hex4:
  assumes "r < 65536"
  shows "getu4 (hex4 r @ rest) = Some (r, rest)"
proof -
  have d: "r div 256 = r div 16 div 16" "r div 4096 = r div 16 div 16 div 16" by (simp_all flip: div_mult2_eq)
  have "r div 4096 < 16" using assms by (simp add: less_mult_imp_div_less)
  moreover have "r div 4096 * 4096 + r div 256 mod 16 * 256 + r div 16 mod 16 * 16 + r mod 16 = r"
    unfolding d by (rule hex_places [OF div_mult_mod_eq [symmetric] div_mult_mod_eq [symmetric] div_mult_mod_eq [symmetric]])
  ultimately show ?thesis by (simp add: hex4_def hex_val_digit)
qed

lemma scan_escaped:
  assumes "r < 65536" and "\<not> surrogate r"
  shows "scan_string (bslash # CHR ''u'' # hex4 r @ rest) = map_option (apfst ((@) (encode_rune r))) (scan_string rest)"
proof -
  have "simple_escape (CHR ''u'') = None" by (simp add: simple_escape_def dquote_def bslash_def)
  moreover have "bslash \<noteq> dquote" by (simp add: bslash_def dquote_def)
  ultimately show ?thesis using assms getu4_hex4 [of r rest] by simp
qed

lemma append_single: "(@) [x] = (#) x"
  by (rule ext) simp

lemma scan_short:
  assumes "simple_escape e = Some x"
  shows "scan_string (bslash # e # rest) = map_option (apfst ((#) x)) (scan_string rest)"
  using assms by (simp add: bslash_def dquote_def)

lemma scan_end: "scan_string (dquote # rest) = Some ([], rest)"
  by simp

declare scan_string.simps(2) [simp del]

text \<open>An escaped ASCII character is read back as itself.\<close>

lemma scan_ascii:
  assumes "r < 0x80"
  shows "scan_string (enc_rune (r, [char_of r]) @ rest) = map_option (apfst ((#) (char_of r))) (scan_string rest)"
proof -
  have simple: "simple_escape dquote = Some dquote" "simple_escape bslash = Some bslash" "simple_escape (CHR ''b'') = Some (char_of (8 :: nat))"
    "simple_escape (CHR ''f'') = Some (char_of (12 :: nat))" "simple_escape (CHR ''n'') = Some (char_of (10 :: nat))"
    "simple_escape (CHR ''r'') = Some (char_of (13 :: nat))" "simple_escape (CHR ''t'') = Some (char_of (9 :: nat))"
    by (simp_all add: simple_escape_def dquote_def bslash_def)
  have quote: "char_of (0x22 :: nat) = dquote" "char_of (0x5C :: nat) = bslash" by (simp_all add: dquote_def bslash_def char_of_def bit_0)
  have id: "byte (char_of r) = r" using assms by simp
  consider "r = 0x22" | "r = 0x5C" | "r = 8" | "r = 12" | "r = 10" | "r = 13" | "r = 9"
    | "r \<notin> {8, 9, 10, 12, 13, 0x22, 0x5C}" "r < 0x20 \<or> r = 0x3C \<or> r = 0x3E \<or> r = 0x26" | "r \<notin> {0x22, 0x5C}" "0x20 \<le> r" "r \<notin> {0x3C, 0x3E, 0x26}"
    by (cases "r < 0x20 \<or> r = 0x3C \<or> r = 0x3E \<or> r = 0x26") auto
  then show ?thesis
  proof cases
    case 8
    then have "enc_rune (r, [char_of r]) = bslash # CHR ''u'' # hex4 r" by (auto simp: enc_rune_def)
    moreover have "encode_rune r = [char_of r]" "\<not> surrogate r" using assms by (simp_all add: encode_rune_def surrogate_def)
    ultimately show ?thesis using scan_escaped [of r rest] assms by (simp add: append_single)
  next
    case 9
    then have "enc_rune (r, [char_of r]) = [char_of r]" using assms by (simp add: enc_rune_def RuneError_def)
    moreover have "char_of r \<noteq> dquote" "char_of r \<noteq> bslash" using 9 id by (auto simp: dquote_def bslash_def dest: arg_cong [where f = byte])
    ultimately show ?thesis using scan_plain [of "[char_of r]" rest] 9 id by (simp add: append_single)
  qed (simp_all add: enc_rune_def scan_short simple quote)
qed

lemma scan_rune:
  assumes "rune_kind p"
  shows "scan_string (enc_rune p @ rest) = map_option (apfst ((@) (valid_bytes p))) (scan_string rest)"
proof -
  consider "fst p = RuneError" "length (snd p) = 1" | "fst p < 0x80" "snd p = [char_of (fst p)]" | "multibyte p"
    using assms by (auto simp: rune_kind_def)
  then show ?thesis
  proof cases
    case 1
    then have "enc_rune p = bslash # CHR ''u'' # hex4 RuneError" by (cases p) (simp add: enc_rune_def RuneError_def)
    then show ?thesis using 1 scan_escaped [of RuneError rest] by (simp add: RuneError_def surrogate_def valid_bytes_def)
  next
    case 2
    then show ?thesis using scan_ascii [of "fst p" rest] by (cases p) (simp add: valid_bytes_def RuneError_def append_single)
  next
    case 3
    then have p: "0x80 \<le> fst p" "encode_rune (fst p) = snd p" "length (snd p) \<noteq> 1" "\<forall>c \<in> set (snd p). 0x80 \<le> byte c"
      by (simp_all add: multibyte_def)
    then have v: "valid_bytes p = snd p" by (auto simp: valid_bytes_def)
    show ?thesis
    proof (cases "fst p = 0x2028 \<or> fst p = 0x2029")
      case True
      then have "enc_rune p = bslash # CHR ''u'' # hex4 (fst p)" by (cases p) (auto simp: enc_rune_def)
      then show ?thesis using True p(2) v scan_escaped [of "fst p" rest] by (auto simp: surrogate_def)
    next
      case False
      then have "enc_rune p = snd p" using p by (cases p) (auto simp: enc_rune_def)
      moreover have "\<forall>c \<in> set (snd p). 0x20 \<le> byte c \<and> c \<noteq> dquote \<and> c \<noteq> bslash"
        using p(4) by (auto simp: dquote_def bslash_def)
      ultimately show ?thesis using scan_plain [of "snd p" rest] v by simp
    qed
  qed
qed

lemma scan_runes:
  "\<forall>p \<in> set ps. rune_kind p \<Longrightarrow>
   scan_string (concat (map enc_rune ps) @ dquote # rest) = Some (concat (map valid_bytes ps), rest)"
  by (induction ps) (simp_all add: scan_rune scan_end)

lemma scan_enc_string: "scan_string (tl (enc_string s) @ rest) = Some (to_valid s, rest)"
  using scan_runes [of "utf8_seq s" rest] utf8_kinds [of _ s] by (simp add: enc_string_def to_valid_bytes)

section \<open>Numbers\<close>

text \<open>What follows a value inside a document.\<close>

definition delimited :: "string \<Rightarrow> bool" where
  "delimited rest \<longleftrightarrow> (case rest of [] \<Rightarrow> True | c # _ \<Rightarrow> c \<in> {CHR '','', CHR '']'', CHR ''}''})"

lemma delimited_simps [simp]: "delimited []" "delimited (CHR '','' # s)" "delimited (CHR '']'' # s)" "delimited (CHR ''}'' # s)"
  by (simp_all add: delimited_def)

lemma digits_then:
  "delimited rest \<Longrightarrow> takeWhile is_digit (s @ rest) = takeWhile is_digit s \<and> dropWhile is_digit (s @ rest) = dropWhile is_digit s @ rest"
  by (induction s) (cases rest, auto simp: delimited_def is_digit_def)

lemma scan_digits_append:
  "delimited rest \<Longrightarrow> scan_digits s = (ds, t) \<Longrightarrow> scan_digits (s @ rest) = (ds, t @ rest)"
  by (auto simp: digits_then scan_digits_def)

lemma scan_sign_append: "delimited rest \<Longrightarrow> scan_sign s = (sg, t) \<Longrightarrow> scan_sign (s @ rest) = (sg, t @ rest)"
  by (cases s; cases rest) (auto simp: scan_sign_def delimited_def split: if_splits)

lemma scan_int_append: "delimited rest \<Longrightarrow> scan_int s = Some (i, t) \<Longrightarrow> scan_int (s @ rest) = Some (i, t @ rest)"
  using scan_digits_append [of rest s i t] by (cases s) (auto simp: scan_int_def split: if_splits)

lemma scan_frac_append:
  assumes "delimited rest" and "scan_frac s = Some (f, t)"
  shows "scan_frac (s @ rest) = Some (f, t @ rest)"
proof (cases s)
  case Nil
  with assms show ?thesis by (cases rest) (auto simp: scan_frac_def delimited_def)
next
  case (Cons c r)
  obtain ds u where "scan_digits r = (ds, u)" by fastforce
  with Cons assms scan_digits_append [OF assms(1) this] show ?thesis by (auto simp: scan_frac_def split: if_splits)
qed

lemma scan_exp_append:
  assumes "delimited rest" and "scan_exp s = Some (f, t)"
  shows "scan_exp (s @ rest) = Some (f, t @ rest)"
proof (cases s)
  case Nil
  with assms show ?thesis by (cases rest) (auto simp: scan_exp_def delimited_def)
next
  case (Cons c r)
  show ?thesis
  proof (cases r)
    case Nil
    with Cons assms show ?thesis by (cases rest) (auto simp: scan_exp_def delimited_def scan_digits_def split: if_splits)
  next
    case r: (Cons d r')
    obtain ds u where 1: "scan_digits r = (ds, u)" by fastforce
    obtain ds' u' where 2: "scan_digits r' = (ds', u')" by fastforce
    from Cons r assms scan_digits_append [OF assms(1) 1] scan_digits_append [OF assms(1) 2] 1 2 show ?thesis
      by (auto simp: scan_exp_def split: if_splits)
  qed
qed

lemma scan_number_append:
  "delimited rest \<Longrightarrow> scan_number s = Some (n, t) \<Longrightarrow> scan_number (s @ rest) = Some (n, t @ rest)"
  by (auto simp: scan_number_def scan_sign_append scan_int_append scan_frac_append scan_exp_append split: prod.splits option.splits)

lemma scan_text:
  "scan_sign s = (x, t) \<Longrightarrow> s = x @ t" "scan_int s = Some (x, t) \<Longrightarrow> s = x @ t"
  "scan_frac s = Some (x, t) \<Longrightarrow> s = x @ t"
  by (auto simp: scan_sign_def scan_int_def scan_frac_def scan_digits_def split: list.splits if_splits)

lemma scan_exp_text: "scan_exp s = Some (x, t) \<Longrightarrow> s = x @ t"
  by (auto simp: scan_exp_def scan_digits_def split: list.splits if_splits)

lemma scan_number_text:
  assumes "scan_number s = Some (n, t)"
  shows "s = n @ t"
proof -
  obtain sg s1 i s2 f s3 e where 1: "scan_sign s = (sg, s1)" "scan_int s1 = Some (i, s2)" "scan_frac s2 = Some (f, s3)"
      "scan_exp s3 = Some (e, t)" and 2: "n = sg @ i @ f @ e"
    using assms by (auto simp: scan_number_def split: prod.splits option.splits)
  from scan_text(1) [OF 1(1)] scan_text(2) [OF 1(2)] scan_text(3) [OF 1(3)] scan_exp_text [OF 1(4)] 2 show ?thesis by simp
qed

lemma valid_number:
  assumes "isValidNumber n" and "delimited rest"
  shows "scan_number (n @ rest) = Some (n, rest)"
proof -
  obtain m where "scan_number n = Some (m, [])"
    using assms(1) by (auto simp: isValidNumber_def split: option.splits list.splits prod.splits intro: list.exhaust)
  moreover from this have "m = n" by (auto dest: scan_number_text)
  ultimately show ?thesis using scan_number_append [OF assms(2)] by force
qed

lemma number_head: "isValidNumber n \<Longrightarrow> \<exists>c s. n = c # s \<and> (c = CHR ''-'' \<or> is_digit c)"
  by (cases n) (auto simp: isValidNumber_def scan_number_def scan_sign_def scan_int_def is_digit_def split: option.splits if_splits)

lemma dec_leading: "0 < n \<Longrightarrow> hd (dec n) \<noteq> CHR ''0''"
proof (induction n rule: dec.induct)
  case (1 n)
  show ?case
  proof (cases "n < 10")
    case True
    then have "byte (hd (dec n)) = 48 + n" by (simp add: dec.simps [of n])
    with "1.prems" show ?thesis by auto
  next
    case False
    with 1 show ?thesis by (simp add: dec.simps [of n])
  qed
qed

lemma number_dec: "scan_int (dec n) = Some (dec n, [])"
proof (cases "n = 0")
  case True
  then show ?thesis by (simp add: dec.simps scan_int_def char_of_def bit_0)
next
  case False
  have "\<forall>c \<in> set (dec n). is_digit c" by (rule dec_digits)
  then have "scan_digits (dec n) = (dec n, [])" using takeWhile_eq_all_conv [of is_digit "dec n"] by (simp add: scan_digits_def)
  with False dec_leading [of n] dec_digits [of n] show ?thesis by (cases "dec n") (auto simp: scan_int_def)
qed

lemma valid_dec [simp]: "isValidNumber (dec n)" "isValidNumber (CHR ''-'' # dec n)"
proof -
  obtain c s where c: "dec n = c # s" by (cases "dec n") simp_all
  then have "is_digit c" using dec_digits [of n] by simp
  then have "c \<noteq> CHR ''-''" by (auto simp: is_digit_def)
  with c have "scan_sign (dec n) = ([], dec n)" by (simp add: scan_sign_def)
  then show "isValidNumber (dec n)" "isValidNumber (CHR ''-'' # dec n)"
    by (simp_all add: isValidNumber_def scan_number_def scan_sign_def number_dec scan_frac_def scan_exp_def)
qed

lemma valid_jint [simp]: "isValidNumber (itoa i)"
  by (simp add: itoa_def)

section \<open>Values\<close>

text \<open>Numbers are literals; the nesting is within the bound.\<close>

fun numbers_ok :: "json \<Rightarrow> bool" where
  "numbers_ok (JNum n) = isValidNumber n"
| "numbers_ok (JArr vs) = list_all numbers_ok vs"
| "numbers_ok (JObj kvs) = list_all (\<lambda>(k, v). numbers_ok v) kvs"
| "numbers_ok _ = True"

fun depth :: "json \<Rightarrow> nat" where
  "depth (JArr vs) = Suc (Max (set (0 # map depth vs)))"
| "depth (JObj kvs) = Suc (Max (set (0 # map (\<lambda>(k, v). depth v) kvs)))"
| "depth _ = 0"

text \<open>The value with its strings and keys as valid UTF-8.\<close>

fun utf8_valid :: "json \<Rightarrow> json" where
  "utf8_valid (JStr s) = JStr (to_valid s)"
| "utf8_valid (JArr vs) = JArr (map utf8_valid vs)"
| "utf8_valid (JObj kvs) = JObj (map (\<lambda>(k, v). (to_valid k, utf8_valid v)) kvs)"
| "utf8_valid v = v"

lemma depth_elem: "v \<in> set vs \<Longrightarrow> depth v < depth (JArr vs)"
  by (auto simp: less_Suc_eq_le intro!: Max_ge)

lemma depth_member: "(k, v) \<in> set kvs \<Longrightarrow> depth v < depth (JObj kvs)"
  by (force simp: less_Suc_eq_le intro!: Max_ge)

lemma skip_ws_head: "\<not> is_ws c \<Longrightarrow> skip_ws (c # s) = c # s"
  by (simp add: skip_ws_def)

lemma not_ws [simp]: "\<not> is_ws dquote" "\<not> is_ws (CHR '','')" "\<not> is_ws (CHR '']'')" "\<not> is_ws (CHR ''}'')" "\<not> is_ws (CHR '':'')"
  "\<not> is_ws (CHR ''['')" "\<not> is_ws (CHR ''{'')"
  by (simp_all add: is_ws_def dquote_def)

text \<open>The first character of a printed value, which is no blank and closes nothing.\<close>

lemma Marshal_head:
  assumes "numbers_ok v"
  obtains c s where "Marshal v = c # s" "\<not> is_ws c" "c \<noteq> CHR '']''" "c \<noteq> CHR ''}''"
proof (cases v)
  case (JNum n)
  then obtain c s where "n = c # s" "c = CHR ''-'' \<or> is_digit c" using assms number_head [of n] by auto
  with JNum show ?thesis by (intro that [of c s]) (auto simp: is_ws_def is_digit_def)
next
  case (JBool b)
  then show ?thesis by (cases b) (use that in \<open>auto simp: is_ws_def\<close>)
qed (use that in \<open>auto simp: enc_string_def is_ws_def dquote_def split: if_splits\<close>)

text \<open>A value is read back wherever it stands, with fuel of more than twice its length.\<close>

definition scans :: "json \<Rightarrow> bool" where
  "scans v \<longleftrightarrow> (\<forall>n d rest. numbers_ok v \<longrightarrow> d + depth v \<le> maxDepth \<longrightarrow> delimited rest \<longrightarrow> 2 * length (Marshal v) < n \<longrightarrow>
     scan_value n d (Marshal v @ rest) = Some (utf8_valid v, rest))"

lemma scansD:
  "scans v \<Longrightarrow> numbers_ok v \<Longrightarrow> d + depth v \<le> maxDepth \<Longrightarrow> delimited rest \<Longrightarrow> 2 * length (Marshal v) < n \<Longrightarrow>
   scan_value n d (Marshal v @ rest) = Some (utf8_valid v, rest)"
  by (simp add: scans_def)

lemma scansI:
  assumes "\<And>m d rest. numbers_ok v \<Longrightarrow> delimited rest \<Longrightarrow> scan_value (Suc m) d (Marshal v @ rest) = Some (utf8_valid v, rest)"
  shows "scans v"
  unfolding scans_def
proof (intro allI impI)
  fix n d rest
  assume "numbers_ok v" "delimited rest" "2 * length (Marshal v) < n"
  with assms show "scan_value n d (Marshal v @ rest) = Some (utf8_valid v, rest)" by (cases n) auto
qed

abbreviation elems_text :: "json list \<Rightarrow> string" where
  "elems_text vs \<equiv> sep_by '','' (map Marshal vs)"

abbreviation members_text :: "(string \<times> json) list \<Rightarrow> string" where
  "members_text kvs \<equiv> sep_by '','' (map (\<lambda>(k, v). enc_string k @ '':'' @ Marshal v) kvs)"

lemma scan_elems_ok:
  assumes "vs \<noteq> []" and "\<forall>v \<in> set vs. scans v \<and> numbers_ok v \<and> d + depth v \<le> maxDepth" and "2 * length (elems_text vs) + 2 \<le> n"
  shows "scan_elems n d (elems_text vs @ CHR '']'' # rest) = Some (map utf8_valid vs, rest)"
  using assms
proof (induction vs arbitrary: n)
  case (Cons v vs)
  then obtain m where n: "n = Suc m" by (cases n) auto
  show ?case
  proof (cases vs)
    case Nil
    then have "scan_value m d (Marshal v @ CHR '']'' # rest) = Some (utf8_valid v, CHR '']'' # rest)"
      using Cons.prems n by (intro scansD) auto
    then show ?thesis using Nil n by (simp add: skip_ws_head)
  next
    case more: (Cons w ws)
    have "scan_value m d (Marshal v @ CHR '','' # elems_text vs @ CHR '']'' # rest) = Some (utf8_valid v, CHR '','' # elems_text vs @ CHR '']'' # rest)"
      using Cons.prems n more by (intro scansD) auto
    moreover have "scan_elems m d (elems_text vs @ CHR '']'' # rest) = Some (map utf8_valid vs, rest)"
      using Cons.prems n more by (intro Cons.IH) auto
    ultimately show ?thesis using more n by (simp add: skip_ws_head)
  qed
qed simp

lemma skip_enc: "skip_ws (enc_string k @ s) = dquote # tl (enc_string k) @ s"
  by (simp add: enc_string_def skip_ws_head)

lemma scan_members_ok:
  assumes "kvs \<noteq> []" and "\<forall>(k, v) \<in> set kvs. scans v \<and> numbers_ok v \<and> d + depth v \<le> maxDepth" and "2 * length (members_text kvs) + 2 \<le> n"
  shows "scan_members n d (members_text kvs @ CHR ''}'' # rest) = Some (map (\<lambda>(k, v). (to_valid k, utf8_valid v)) kvs, rest)"
  using assms
proof (induction kvs arbitrary: n)
  case (Cons kv kvs)
  then obtain m where n: "n = Suc m" by (cases n) auto
  obtain k v where kv: "kv = (k, v)" by fastforce
  show ?case
  proof (cases kvs)
    case Nil
    then have "scan_value m d (Marshal v @ CHR ''}'' # rest) = Some (utf8_valid v, CHR ''}'' # rest)"
      using Cons.prems n kv by (intro scansD) auto
    then show ?thesis using Nil n kv by (simp add: skip_ws_head skip_enc scan_enc_string)
  next
    case more: (Cons w ws)
    have "scan_value m d (Marshal v @ CHR '','' # members_text kvs @ CHR ''}'' # rest) = Some (utf8_valid v, CHR '','' # members_text kvs @ CHR ''}'' # rest)"
      using Cons.prems n kv more by (intro scansD) auto
    moreover have "scan_members m d (members_text kvs @ CHR ''}'' # rest) = Some (map (\<lambda>(k, v). (to_valid k, utf8_valid v)) kvs, rest)"
      using Cons.prems n more by (intro Cons.IH) auto
    ultimately show ?thesis using more n kv by (simp add: skip_ws_head skip_enc scan_enc_string)
  qed
qed simp

lemma scans_all: "scans v"
proof (induction v)
  case (JArr vs)
  show ?case
    unfolding scans_def
  proof (intro allI impI)
    fix n d rest
    assume ok: "numbers_ok (JArr vs)" and dep: "d + depth (JArr vs) \<le> maxDepth" and "2 * length (Marshal (JArr vs)) < n"
    then obtain m where n: "n = Suc m" "2 * length (elems_text vs) + 2 \<le> m" by (cases n) auto
    have d: "d < maxDepth" using dep by simp
    show "scan_value n d (Marshal (JArr vs) @ rest) = Some (utf8_valid (JArr vs), rest)"
    proof (cases vs)
      case Nil
      with n d show ?thesis by (simp add: skip_ws_head dquote_def)
    next
      case (Cons w ws)
      obtain c s where "Marshal w = c # s" "\<not> is_ws c" "c \<noteq> CHR '']''"
        using ok Cons by (auto intro: Marshal_head [of w])
      with Cons obtain s' where c: "elems_text vs = c # s'" "\<not> is_ws c" "c \<noteq> CHR '']''" by (cases ws) auto
      have "\<forall>v \<in> set vs. scans v \<and> numbers_ok v \<and> Suc d + depth v \<le> maxDepth"
        using JArr ok dep depth_elem [of _ vs] by (fastforce simp: list_all_iff)
      then have "scan_elems m (Suc d) (elems_text vs @ CHR '']'' # rest) = Some (map utf8_valid vs, rest)"
        using Cons n by (intro scan_elems_ok) auto
      with c n d show ?thesis by (simp add: skip_ws_head dquote_def)
    qed
  qed
next
  case (JObj kvs)
  show ?case
    unfolding scans_def
  proof (intro allI impI)
    fix n d rest
    assume ok: "numbers_ok (JObj kvs)" and dep: "d + depth (JObj kvs) \<le> maxDepth" and "2 * length (Marshal (JObj kvs)) < n"
    then obtain m where n: "n = Suc m" "2 * length (members_text kvs) + 2 \<le> m" by (cases n) auto
    have d: "d < maxDepth" using dep by simp
    show "scan_value n d (Marshal (JObj kvs) @ rest) = Some (utf8_valid (JObj kvs), rest)"
    proof (cases kvs)
      case Nil
      with n d show ?thesis by (simp add: skip_ws_head)
    next
      case (Cons w ws)
      then obtain s where c: "members_text kvs = dquote # s"
        by (cases w; cases ws) (auto simp: enc_string_def)
      have "\<forall>(k, v) \<in> set kvs. scans v \<and> numbers_ok v \<and> Suc d + depth v \<le> maxDepth"
        using JObj ok dep depth_member [of _ _ kvs] by (fastforce simp: list_all_iff)
      then have "scan_members m (Suc d) (members_text kvs @ CHR ''}'' # rest) = Some (map (\<lambda>(k, v). (to_valid k, utf8_valid v)) kvs, rest)"
        using Cons n by (intro scan_members_ok) auto
      moreover have "dquote \<noteq> CHR ''}''" by (simp add: dquote_def)
      ultimately show ?thesis using c n d by (simp add: skip_ws_head)
    qed
  qed
next
  case (JNum n)
  show ?case
  proof (rule scansI)
    fix m d rest
    assume ok: "numbers_ok (JNum n)" "delimited rest"
    obtain c s where c: "n = c # s" "c = CHR ''-'' \<or> is_digit c" using ok number_head [of n] by auto
    have "scan_number (c # s @ rest) = Some (n, rest)" using valid_number [of n rest] ok c by simp
    with c show "scan_value (Suc m) d (Marshal (JNum n) @ rest) = Some (utf8_valid (JNum n), rest)"
      by (auto simp: skip_ws_head is_ws_def is_digit_def dquote_def)
  qed
next
  case (JStr s)
  have "dquote \<noteq> CHR ''{''" "dquote \<noteq> CHR ''[''" by (simp_all add: dquote_def)
  then show ?case by (intro scansI) (simp add: skip_enc scan_enc_string)
next
  case (JBool b)
  show ?case by (rule scansI) (simp add: skip_ws_head is_ws_def dquote_def scan_literal_def)
next
  case JNull
  show ?case by (rule scansI) (simp add: skip_ws_head is_ws_def dquote_def scan_literal_def)
qed

lemma parse_Marshal:
  assumes "numbers_ok v" and "depth v \<le> maxDepth"
  shows "parse_json (Marshal v) = Some (utf8_valid v)"
  using scansD [OF scans_all assms(1), of 0 "[]" "Suc (2 * length (Marshal v))"] assms(2)
  by (simp add: parse_json_def skip_ws_def)

section \<open>Frames\<close>

lemma to_valid_ascii: "\<forall>c \<in> set s. byte c < 0x80 \<Longrightarrow> to_valid s = s"
proof (induction s)
  case (Cons c s)
  then have "byte c \<noteq> RuneError" by (simp add: RuneError_def)
  with Cons show ?case by (simp add: to_valid_def decode_rune_def)
qed (simp add: to_valid_def)

text \<open>The splice of the sequence number prints the object with one more field.\<close>

lemma wrap_Marshal:
  assumes "kvs \<noteq> []"
  shows "wrapWithSeq (Marshal (JObj kvs)) n = Marshal (JObj ((''seq'', JNum (dec (unat n))) # kvs))"
proof -
  have "enc_string ''seq'' = dquote # ''seq'' @ [dquote]"
    by (simp add: enc_string_def decode_rune_def enc_rune_def RuneError_def)
  with assms show ?thesis
    by (cases kvs) (simp_all add: wrapWithSeq_def)
qed

text \<open>
  C30: What the server sends can be read. Every object it prints, however it is nested up to the limit of the
  decoder, and with the sequence number spliced into its text, is read back as the same
  fields in the same order, the sequence number first; only bytes of strings that are not
  UTF-8 come back as U+FFFD. In particular no content of a message can break out of its
  string, and the fuel of the scanner model is enough.
\<close>
theorem frame_roundtrip:
  assumes "kvs \<noteq> []" and "numbers_ok (JObj kvs)" and "depth (JObj kvs) \<le> maxDepth"
  shows "parse_json (Marshal (JObj kvs)) = Some (JObj (map (\<lambda>(k, v). (to_valid k, utf8_valid v)) kvs))
    \<and> parse_json (wrapWithSeq (Marshal (JObj kvs)) n) =
        Some (JObj ((''seq'', JNum (dec (unat n))) # map (\<lambda>(k, v). (to_valid k, utf8_valid v)) kvs))"
proof -
  have "depth (JObj ((''seq'', JNum (dec (unat n))) # kvs)) = depth (JObj kvs)" by simp
  moreover have "utf8_valid (JObj ((''seq'', JNum (dec (unat n))) # kvs)) =
      JObj ((''seq'', JNum (dec (unat n))) # map (\<lambda>(k, v). (to_valid k, utf8_valid v)) kvs)"
    by (simp add: to_valid_ascii)
  ultimately show ?thesis
    using assms parse_Marshal [of "JObj kvs"] parse_Marshal [of "JObj ((''seq'', JNum (dec (unat n))) # kvs)"]
    unfolding wrap_Marshal [OF assms(1)] by simp
qed

text \<open>A chat message whose text tries to close its string and add a field.\<close>

theorem frame_roundtrip_witness:
  "parse_json (wrapWithSeq (buildChatEdited 7 1 (''hi'' @ [dquote] @ '','' @ [dquote] @ ''x'') ''t'') 5) =
     Some (JObj [(''seq'', JNum (dec 5)), (''type'', JStr ''chat_edited''),
       (''payload'', JObj [(''message_id'', jint 7), (''channel_id'', jint 1), (''content'', JStr (''hi'' @ [dquote] @ '','' @ [dquote] @ ''x'')),
          (''edited_at'', JStr ''t'')])])"
proof -
  let ?kvs = "[(''type'', JStr ''chat_edited''), (''payload'', JObj [(''message_id'', jint 7), (''channel_id'', jint 1),
    (''content'', JStr (''hi'' @ [dquote] @ '','' @ [dquote] @ ''x'')), (''edited_at'', JStr ''t'')])]"
  have "depth (JObj ?kvs) \<le> maxDepth" by (simp add: maxDepth_def)
  moreover have "wrapWithSeq (buildChatEdited 7 1 (''hi'' @ [dquote] @ '','' @ [dquote] @ ''x'') ''t'') 5 = wrapWithSeq (Marshal (JObj ?kvs)) 5"
    by (simp add: buildChatEdited_def wsMsg_def)
  ultimately show ?thesis
    using frame_roundtrip [of ?kvs 5] by (simp add: to_valid_ascii dquote_def)
qed

end
