(* ===== verification/ApiAuth.thy ===== *)
theory ApiAuth
  imports SampleServer JsonRoundtrip
begin

text \<open>
  What the middleware guarantees to the handlers behind it: who a request speaks for, from
  which address it came, and what the rate limits and the lockout leave of an attack.
\<close>

section \<open>Sessions\<close>

text \<open>The user a bearer token stands for: a stored session of the token's digest, of an existing user.\<close>

definition speaks_for :: "server_packages \<Rightarrow> request \<Rightarrow> 'z database_scheme \<Rightarrow> Session \<Rightarrow> User \<Rightarrow> bool" where
  "speaks_for pk r s sess u \<longleftrightarrow>
     (\<exists>token. ExtractBearerToken (rq_header r ''Authorization'') = Some token \<and>
        s_TokenHash sess = HashToken (pk_sha256 pk) token) \<and>
     sess \<in> set (sessions s) \<and> u \<in> set (users s) \<and> u_ID u = s_UserID sess"

text \<open>The session is good at time \<open>t\<close>: its expiry can be read and is not past.\<close>

definition session_live :: "Session \<Rightarrow> time \<Rightarrow> bool" where
  "session_live sess t \<longleftrightarrow> (\<exists>e. parse_timestamp (s_ExpiresAt sess) = Some e \<and> t \<le> e)"

definition ban_over :: "User \<Rightarrow> time \<Rightarrow> bool" where
  "ban_over u t \<longleftrightarrow> \<not> u_Banned u \<or> (\<exists>e x. u_BanExpires u = Some e \<and> parse_timestamp e = Some x \<and> x \<le> t)"

text \<open>
  What reading requests leave alone: everything but the position of the clock and of the failures to
  come, and the time a session was last used.
\<close>

definition unused :: "Session \<Rightarrow> Session" where
  "unused x = x\<lparr>s_LastUsed := []\<rparr>"

definition reached :: "'z database_scheme \<Rightarrow> 'z database_scheme \<Rightarrow> bool" where
  "reached s s' \<longleftrightarrow> users s' = users s \<and> roles s' = roles s \<and> channels s' = channels s \<and> messages s' = messages s \<and>
     channel_overrides s' = channel_overrides s \<and> dm_participants s' = dm_participants s \<and> invites s' = invites s \<and>
     settings s' = settings s \<and> clock s' = clock s \<and> reads s \<le> reads s' \<and> faults s' = faults s \<and>
     map unused (sessions s') = map unused (sessions s) \<and> reactions s' = reactions s \<and> attachments s' = attachments s \<and>
     read_states s' = read_states s \<and> voice_states s' = voice_states s \<and> dm_open_state s' = dm_open_state s \<and>
     audit_log s' = audit_log s \<and> users_seq s' = users_seq s \<and> sessions_seq s' = sessions_seq s \<and> invites_seq s' = invites_seq s \<and>
     channels_seq s' = channels_seq s \<and> messages_seq s' = messages_seq s \<and> audit_seq s' = audit_seq s \<and> database.more s' = database.more s"

lemma reached_refl: "reached s s"
  by (simp add: reached_def)

lemma reached_trans: "reached s s' \<Longrightarrow> reached s' s'' \<Longrightarrow> reached s s''"
  by (simp add: reached_def)

lemma reached_tick: "reached s (tick s)"
  by (simp add: reached_def tick_def)

lemma find_in: "List.find P xs = Some x \<Longrightarrow> x \<in> set xs \<and> P x"
  by (induction xs) (auto split: if_splits)

text \<open>A query on the tables of \<open>s0\<close>: it fails, or finds what is there.\<close>

lemma wp_read:
  assumes "reached s0 s" and "\<And>s'. reached s0 s' \<Longrightarrow> sessions s' = sessions s \<Longrightarrow> f s' = v"
    and "\<And>e s'. reached s0 s' \<Longrightarrow> sessions s' = sessions s \<Longrightarrow> reads s \<le> reads s' \<Longrightarrow> wp (g (Inl e)) Q s'"
    and "\<And>s'. reached s0 s' \<Longrightarrow> sessions s' = sessions s \<Longrightarrow> reads s \<le> reads s' \<Longrightarrow> wp (g (Inr v)) Q s'"
  shows "wp (State_Monad.bind (query f) g) Q s"
proof -
  have "reached s0 (tick s)" "sessions (tick s) = sessions s" "reads s \<le> reads (tick s)"
    using reached_trans [OF assms(1) reached_tick] by (simp_all add: tick_def)
  then show ?thesis using assms(2-4) by (simp add: wp_bind wp_query)
qed

lemma wp_expired:
  assumes "reached s0 s"
    and "\<And>s'. reached s0 s' \<Longrightarrow> sessions s' = sessions s \<Longrightarrow> wp (g True) Q s'"
    and "\<And>s'. reached s0 s' \<Longrightarrow> sessions s' = sessions s \<Longrightarrow> reads s \<le> reads s' \<Longrightarrow> session_live x (clock s0 (reads s)) \<Longrightarrow> wp (g False) Q s'"
  shows "wp (State_Monad.bind (IsSessionExpired (s_ExpiresAt x)) g) Q s"
proof (cases "parse_timestamp (s_ExpiresAt x)")
  case None
  then show ?thesis using assms(1,2) by (simp add: IsSessionExpired_def wp_bind wp_return)
next
  case (Some e)
  have "reached s0 (s\<lparr>reads := Suc (reads s)\<rparr>)" "clock s = clock s0"
    using assms(1) by (simp_all add: reached_def)
  with Some assms(2,3) show ?thesis
    by (cases "e < clock s (reads s)") (simp_all add: IsSessionExpired_def wp_bind wp_time_now wp_return session_live_def)
qed

lemma wp_banned:
  assumes "reached s0 s"
    and "\<And>s'. reached s0 s' \<Longrightarrow> sessions s' = sessions s \<Longrightarrow> wp (g True) Q s'"
    and "\<And>s'. reached s0 s' \<Longrightarrow> sessions s' = sessions s \<Longrightarrow> ban_over u (clock s0 (reads s)) \<Longrightarrow> wp (g False) Q s'"
  shows "wp (State_Monad.bind (IsEffectivelyBanned (Some u)) g) Q s"
proof -
  have t: "reached s0 (s\<lparr>reads := Suc (reads s)\<rparr>)" "clock s = clock s0"
    using assms(1) by (simp_all add: reached_def)
  show ?thesis
  proof (cases "u_Banned u \<and> (\<exists>e x. u_BanExpires u = Some e \<and> parse_timestamp e = Some x)")
    case True
    then obtain e x where "u_Banned u" "u_BanExpires u = Some e" "parse_timestamp e = Some x" by blast
    with t assms show ?thesis
      by (cases "clock s (reads s) < x")
        (simp_all add: IsEffectivelyBanned_def ban_active_def wp_bind wp_time_now wp_return ban_over_def)
  next
    case False
    with assms show ?thesis
      by (auto simp: IsEffectivelyBanned_def ban_active_def wp_bind wp_return ban_over_def split: option.split)
  qed
qed

lemma unused_touched: "map unused (upd_where P (\<lambda>x. x\<lparr>s_LastUsed := v\<rparr>) xs) = map unused xs"
  by (induction xs) (simp_all add: upd_where_def unused_def)

lemma wp_touch: "reached s0 s \<Longrightarrow> wp (TouchSession h) (\<lambda>_. reached s0) s"
  by (auto simp: TouchSession_def wp_simps reached_def tick_def unused_touched)

lemma unauthorized_status [simp]: "rs_status (unauthorized m) = 401" "rs_status (writeErr n c m) = n" "rs_status (writeJSON n j) = n"
  by (simp_all add: unauthorized_def writeErr_def writeJSON_def)

lemma auth_wp:
  assumes refuse: "\<And>rs s'. rs_status rs \<in> {401, 403} \<Longrightarrow> reached s s' \<Longrightarrow> sessions s' = sessions s \<Longrightarrow> Q rs s'"
    and pass: "\<And>cx s1 n k. speaks_for pk r s (cx_session cx) (cx_user cx) \<Longrightarrow> reads s \<le> n \<Longrightarrow> n \<le> k \<Longrightarrow>
      session_live (cx_session cx) (clock s n) \<Longrightarrow> ban_over (cx_user cx) (clock s k) \<Longrightarrow>
      cx_role cx = List.find (\<lambda>x. r_ID x = u_RoleID (cx_user cx)) (roles s) \<Longrightarrow> reached s s1 \<Longrightarrow> wp (nxt cx r) Q s1"
  shows "wp (AuthMiddleware pk nxt r) Q s"
proof (cases "ExtractBearerToken (rq_header r ''Authorization'')")
  case None
  then show ?thesis by (simp add: AuthMiddleware_def wp_return refuse reached_refl)
next
  case (Some token)
  let ?h = "HashToken (pk_sha256 pk) token"
  have sess: "speaks_for pk r s sess user"
    if "find_session s ?h = Some sess" "find_user s (s_UserID sess) = Some user" for sess user
    using find_in [OF that(1) [unfolded find_session_def]] find_in [OF that(2) [unfolded find_user_def]] Some
    by (auto simp: speaks_for_def)
  show ?thesis
    unfolding AuthMiddleware_def Some Let_def option.case GetSessionByTokenHash_def GetUserByID_def GetRoleByID_def
    apply (rule wp_read [OF reached_refl, where v = "find_session s ?h"])
      apply (simp add: find_session_def)
     apply (simp add: wp_return refuse)
    subgoal for s1
      apply (cases "find_session s ?h"; simp only: sum.case option.case)
       apply (simp add: wp_return refuse)
      apply (erule wp_expired; simp only: if_True if_False)
       apply (simp add: wp_return refuse)
      subgoal for sess s2
        apply (erule wp_read [where v = "find_user s (s_UserID sess)"])
          apply (simp add: find_user_def reached_def)
         apply (simp add: wp_return refuse)
        subgoal for s3
          apply (cases "find_user s (s_UserID sess)"; simp only: sum.case option.case)
           apply (simp add: wp_return refuse)
          apply (erule wp_banned; simp only: if_True if_False)
           apply (simp add: wp_return refuse)
          subgoal for user s4
            apply (erule wp_read [where v = "List.find (\<lambda>x. r_ID x = u_RoleID user) (roles s)"])
              apply (simp add: reached_def)
             apply (simp add: wp_return refuse)
            subgoal for s5
              unfolding sum.case
              by (rule wp_seq [OF wp_touch], assumption, rule pass [of _ "reads s1" "reads s3"]) (simp_all add: sess)
            done
          done
        done
      done
    done
qed

text \<open>
  C19: no handler behind \<^verbatim>\<open>AuthMiddleware\<close> runs for a stranger. Whatever handler stands behind
  it: either the request is refused with 401 or 403 and no table has changed, or the handler
  ran with a session that is stored under the digest of the request's bearer token and whose
  expiry, readable, had not passed at a clock reading of the request, with the existing user
  of that session, who was not banned or whose ban had ended at a later reading, and with
  that user's role; users, roles, channels and messages were as at the start.
\<close>
theorem only_sessions_pass:
  assumes "run_state (AuthMiddleware pk nxt r) s = (rs, s2)"
  shows "rs_status rs \<in> {401, 403} \<and> reached s s2 \<and> sessions s2 = sessions s
    \<or> (\<exists>cx s1 n k. run_state (nxt cx r) s1 = (rs, s2) \<and> speaks_for pk r s (cx_session cx) (cx_user cx)
        \<and> reads s \<le> n \<and> n \<le> k \<and> session_live (cx_session cx) (clock s n) \<and> ban_over (cx_user cx) (clock s k)
        \<and> cx_role cx = List.find (\<lambda>x. r_ID x = u_RoleID (cx_user cx)) (roles s) \<and> reached s s1)"
    (is "?refused rs s2 \<or> ?passed rs s2")
proof -
  have "wp (AuthMiddleware pk nxt r) (\<lambda>rs s2. ?refused rs s2 \<or> ?passed rs s2) s"
  proof (rule auth_wp)
    fix cx :: reqctx and s1 n k
    assume "speaks_for pk r s (cx_session cx) (cx_user cx)" "reads s \<le> n" "n \<le> k" "session_live (cx_session cx) (clock s n)"
      "ban_over (cx_user cx) (clock s k)" "cx_role cx = List.find (\<lambda>x. r_ID x = u_RoleID (cx_user cx)) (roles s)" "reached s s1"
    moreover have "run_state (nxt cx r) s1 = (fst (run_state (nxt cx r) s1), snd (run_state (nxt cx r) s1))"
      by simp
    ultimately show "wp (nxt cx r) (\<lambda>rs s2. ?refused rs s2 \<or> ?passed rs s2) s1"
      unfolding wp_run by blast
  qed simp
  then show ?thesis
    by (simp add: wp_run assms)
qed

lemma sample_expiry: "parse_timestamp ''2124-01-01T00:00:00Z'' = Some 4859740800000000000"
  by code_simp

lemma sample_bearer: "ExtractBearerToken ''Bearer a'' = Some ''a''" "ExtractBearerToken ''Bearer b'' = Some ''b''"
  by (code_simp)+

lemma sample_me:
  "rs_status (fst (run_state (AuthMiddleware sample_packages handleMe (sample_request ''Bearer a'' [])) sample_server)) = 200"
  by (simp add: AuthMiddleware_def run_simps GetSessionByTokenHash_def find_session_def GetUserByID_def find_user_def GetRoleByID_def
    IsSessionExpired_def IsEffectivelyBanned_def ban_active_def TouchSession_def sample_request_def sample_bearer sample_packages_def
    HashToken_def sample_token server_sample_fields sample_session_def sample_user_def sample_expiry handleMe_def initial_db_def
    unauthorized_status Let_def)

theorem only_sessions_pass_witness:
  "\<exists>sess u. speaks_for sample_packages (sample_request ''Bearer a'' []) sample_server sess u"
proof -
  let ?r = "sample_request ''Bearer a'' []"
  obtain rs s2 where run: "run_state (AuthMiddleware sample_packages handleMe ?r) sample_server = (rs, s2)"
    by fastforce
  moreover have "rs_status rs = 200"
    using sample_me by (simp add: run)
  ultimately show ?thesis
    using only_sessions_pass [OF run] by auto
qed

section \<open>Banned administrators\<close>

text \<open>
  the admin panel does not look at bans. With a working database, a user whose role
  has the administrator bit, whose ban has no end, and who holds a session that has not
  expired, reaches every handler behind \<^verbatim>\<open>adminAuthMiddleware\<close>, while \<^verbatim>\<open>AuthMiddleware\<close> refuses the
  same request with 403. Banning an administrator leaves the panel open to them until their
  sessions are terminated separately.
\<close>
theorem banned_admin_passes:
  assumes "ExtractBearerToken (rq_header r ''Authorization'') = Some token"
    and "find_session s (HashToken (pk_sha256 pk) token) = Some sess" and "find_user s (s_UserID sess) = Some u"
    and "List.find (\<lambda>x. r_ID x = u_RoleID u) (roles s) = Some role" and "HasAdmin (r_Permissions role)"
    and "u_Banned u" and "u_BanExpires u = None"
    and "parse_timestamp (s_ExpiresAt sess) = Some e" and "\<forall>n. clock s n \<le> e" and "\<forall>n. \<not> faults s n"
  shows "(\<exists>s1. run_state (adminAuthMiddleware pk nxt r) s = run_state (nxt \<lparr>cx_user = u, cx_session = sess, cx_role = Some role\<rparr> r) s1)
    \<and> rs_status (fst (run_state (AuthMiddleware pk nxt r) s)) = 403"
proof -
  have [simp]: "\<not> e < clock s n" "\<not> faults s n" for n
    using assms(9,10) by (simp_all add: not_less)
  have [simp]: "find_session (tick s) h = find_session s h" "find_user (tick s') v = find_user s' v" for h v s'
    by (simp_all add: find_session_def find_user_def tick_def)
  have [simp]: "find_user (s'\<lparr>reads := n\<rparr>) v = find_user s' v" for v s' n
    by (simp add: find_user_def)
  show ?thesis
    using assms(1-8)
    by (auto simp: adminAuthMiddleware_def AuthMiddleware_def run_simps GetSessionByTokenHash_def GetUserByID_def GetRoleByID_def
      IsSessionExpired_def IsEffectivelyBanned_def ban_active_def unauthorized_status Let_def)
qed

theorem banned_admin_passes_witness:
  "let s = sample_server\<lparr>users := [(sample_user 1 ''alice'' 1)\<lparr>u_Banned := True\<rparr>]\<rparr>; r = sample_request ''Bearer a'' []
   in rs_status (fst (run_state (AuthMiddleware sample_packages handleMe r) s)) = 403"
  unfolding Let_def
  by (rule banned_admin_passes [of _ "''a''" _ _ "sample_session 1 1 ''61''" "(sample_user 1 ''alice'' 1)\<lparr>u_Banned := True\<rparr>"
        "\<lparr>r_ID = 1, r_Name = ''Owner'', r_Color = Some ''#E74C3C'', r_Permissions = 0x7FFFFFFF, r_Position = 100, r_IsDefault = False\<rparr>"
        4859740800000000000, THEN conjunct2])
    (simp_all add: sample_request_def sample_bearer sample_packages_def HashToken_def sample_token find_session_def find_user_def
      server_sample_fields sample_session_def sample_user_def sample_expiry initial_db_def HasAdmin_def Administrator_def)

section \<open>Trusted proxies\<close>

text \<open>
  which peers are trusted proxies. With a list of well-formed entries, a peer is
  trusted exactly when its address lies in one of the networks, whatever their order. A
  malformed entry ends the search instead of being skipped: every network after it is
  ignored, and the headers of a proxy listed there are not believed.
\<close>
theorem trusted_networks:
  "((\<forall>c \<in> set cidrs. ParseCIDR c \<noteq> None) \<longrightarrow>
     (trusted peer cidrs \<longleftrightarrow> (\<exists>a. ParseIP peer = Some a \<and> (\<exists>c \<in> set cidrs. net_contains (the (ParseCIDR c)) a))))
   \<and> (ParseCIDR bad = None \<longrightarrow> (trusted peer (cidrs @ bad # later) \<longleftrightarrow> trusted peer cidrs))"
proof -
  have m: "match_cidrs a cidrs = Some (\<exists>c \<in> set cidrs. net_contains (the (ParseCIDR c)) a)"
    if "\<forall>c \<in> set cidrs. ParseCIDR c \<noteq> None" for a
    using that by (induction cidrs) auto
  have 1: "(\<forall>c \<in> set cidrs. ParseCIDR c \<noteq> None) \<Longrightarrow>
     trusted peer cidrs \<longleftrightarrow> (\<exists>a. ParseIP peer = Some a \<and> (\<exists>c \<in> set cidrs. net_contains (the (ParseCIDR c)) a))"
    using m by (auto simp: trusted_def isTrustedProxy_def split: option.split)
  have "match_cidrs a (cidrs @ bad # later) = Some True \<longleftrightarrow> match_cidrs a cidrs = Some True" if "ParseCIDR bad = None" for a
    using that by (induction cidrs) (auto split: option.split)
  then have "ParseCIDR bad = None \<Longrightarrow> trusted peer (cidrs @ bad # later) \<longleftrightarrow> trusted peer cidrs"
    by (auto simp: trusted_def isTrustedProxy_def split: option.split)
  with 1 show ?thesis by blast
qed

lemmas net_eval = ParseCIDR_def ParseIP_def parse_addr_def split2_def ipv4_fields_def ipv4_field_def parse_digits_def is_digit_def
  undec_def digit_val_def v4InV6Prefix_def

lemma sample_network:
  "ParseCIDR ''10.0.0.0/8'' = Some (v4InV6Prefix @ [10, 0, 0, 0], 104)" "ParseCIDR ''10.0.0.0'' = None"
  "ParseIP ''10.1.2.3'' = Some (v4InV6Prefix @ [10, 1, 2, 3])"
  by (simp_all add: net_eval)

lemma sample_contains: "net_contains (v4InV6Prefix @ [10, 0, 0, 0], 104) (v4InV6Prefix @ [10, 1, 2, 3])"
  by (simp add: net_contains_def is_v4_def masked_def bit_at_def v4InV6Prefix_def upt_conv_Cons)

theorem trusted_networks_witness:
  "trusted ''10.1.2.3'' [''10.0.0.0/8''] \<and> \<not> trusted ''10.1.2.3'' [''10.0.0.0'', ''10.0.0.0/8'']"
  using trusted_networks [of "[''10.0.0.0/8'']" "''10.1.2.3''" "''10.0.0.0''" "[]"]
    trusted_networks [of "[]" "''10.1.2.3''" "''10.0.0.0''" "[''10.0.0.0/8'']"] sample_network sample_contains
  by (simp add: trusted_def isTrustedProxy_def)

section \<open>Guessing passwords\<close>

text \<open>The responses to requests served one after the other.\<close>

fun serve_all :: "handler \<Rightarrow> request list \<Rightarrow> server \<Rightarrow> response list" where
  "serve_all h [] s = []"
| "serve_all h (r # rs) s = (case run_state (h r) s of (out, s') \<Rightarrow> out # serve_all h rs s')"

text \<open>
  How many more failed logins an address can have from time \<open>T\<close> on: none when it is locked
  for the rest of the window, else ten, less the failures recorded since.
\<close>

definition guesses_left :: "time \<Rightarrow> string \<Rightarrow> RateLimiter \<Rightarrow> nat" where
  "guesses_left T ip rl =
     (if \<exists>x. Mapping.lookup (lockouts rl) (login_key ip) = Some x \<and> T + lock_time \<le> x then 0
      else 10 - min 9 (length (filter (\<lambda>t. T \<le> t) (stamps rl (login_fail_key ip)))))"

lemma keys_differ [simp]: "login_key a \<noteq> login_fail_key b" "login_fail_key b \<noteq> login_key a"
  by (simp_all add: login_key_def login_fail_key_def)

lemma left_locked:
  "T \<le> t \<Longrightarrow> t < T + lock_time \<Longrightarrow> guesses_left T ip (snd (IsLockedOut rl (login_key ip) t)) = guesses_left T ip rl"
  by (auto simp: IsLockedOut_def guesses_left_def lookup_delete' split: option.split)

lemma left_lockout: "T \<le> t \<Longrightarrow> guesses_left T ip (Lockout rl (login_key ip) lock_time t) = 0"
  by (simp add: guesses_left_def Lockout_def)

lemma allow_lockouts:
  "key \<noteq> k \<Longrightarrow> Mapping.lookup (lockouts (snd (Allow rl k l w t0 t))) key = Mapping.lookup (lockouts rl) key"
  by (auto simp: Allow_def lookup_delete' split: option.split)

lemma left_allowed:
  assumes "T \<le> t" "t < T + lock_time" and "Allow rl (login_fail_key ip) 9 lock_time t0 t = (True, rl')"
    and "guesses_left T ip rl \<noteq> 0"
  shows "Suc (guesses_left T ip rl') = guesses_left T ip rl"
proof -
  let ?k = "login_fail_key ip" and ?old = "filter (\<lambda>x. T \<le> x) (stamps rl (login_fail_key ip))"
  obtain r' where r': "stamps r' ?k = stamps rl ?k" "Allow rl ?k 9 lock_time t0 t = allow_window r' ?k 9 lock_time t"
    using assms(3) by (cases rule: Allow_cases [of rl ?k t0 9 lock_time t]) auto
  have aw: "allow_window r' ?k 9 lock_time t = (True, rl')"
    using r'(2) assms(3) by simp
  have st: "stamps rl' ?k = recent t lock_time (stamps rl ?k) @ [t]"
    and few: "length (recent t lock_time (stamps rl ?k)) < 9"
    using allow_window_stamps [of r' ?k 9 lock_time t] allow_window_result [of r' ?k 9 lock_time t] by (simp_all add: aw r'(1))
  have keep: "filter (\<lambda>x. T \<le> x) (recent t lock_time xs) = filter (\<lambda>x. T \<le> x) xs" for xs
    using assms(2) by (induction xs) auto
  have "length ?old \<le> length (recent t lock_time (stamps rl ?k))"
    using length_filter_le [of "\<lambda>x. T \<le> x" "recent t lock_time (stamps rl ?k)"] unfolding keep .
  moreover have "filter (\<lambda>x. T \<le> x) (stamps rl' ?k) = ?old @ [t]"
    using assms(1) unfolding st filter_append keep by simp
  moreover have "Mapping.lookup (lockouts rl') (login_key ip) = Mapping.lookup (lockouts rl) (login_key ip)"
    using allow_lockouts [of "login_key ip" ?k rl 9 lock_time t0 t] assms(3) by simp
  ultimately show ?thesis
    using few assms(4) by (auto simp: guesses_left_def split: if_splits)
qed

lemma left_zero: "guesses_left T ip rl = 0 \<Longrightarrow> t < T + lock_time \<Longrightarrow> fst (IsLockedOut rl (login_key ip) t)"
  by (auto simp: guesses_left_def IsLockedOut_def split: if_splits)

text \<open>A clock that stays in the window, and the measure of what is left after a request.\<close>

definition within :: "time \<Rightarrow> 'z env_scheme \<Rightarrow> bool" where
  "within T s \<longleftrightarrow> (\<forall>n. T \<le> clock s n \<and> clock s n < T + lock_time)"

definition spends :: "time \<Rightarrow> string \<Rightarrow> User list \<Rightarrow> nat \<Rightarrow> response \<Rightarrow> server \<Rightarrow> bool" where
  "spends T ip us n out s \<longleftrightarrow> within T s \<and> users s = us \<and> (if rs_status out = 401 then Suc (guesses_left T ip (h_limiter s)) else guesses_left T ip (h_limiter s)) \<le> n"

lemma login_failed_spends:
  assumes "within T s" and "guesses_left T ip (h_limiter s) \<noteq> 0"
  shows "wp (login_failed ip) (spends T ip (users s) (guesses_left T ip (h_limiter s))) s"
proof -
  let ?t0 = "clock s (reads s)" and ?t1 = "clock s (Suc (reads s))" and ?t2 = "clock s (Suc (Suc (reads s)))"
  obtain ok rl' where al: "Allow (h_limiter s) (login_fail_key ip) 9 lock_time ?t0 ?t1 = (ok, rl')" by fastforce
  have T: "T \<le> ?t1" "?t1 < T + lock_time" "T \<le> ?t2" using assms(1) by (simp_all add: within_def)
  show ?thesis
  proof (cases ok)
    case True
    with al have "Suc (guesses_left T ip rl') = guesses_left T ip (h_limiter s)"
      using left_allowed [OF T(1,2)] assms(2) by simp
    with True al assms(1) show ?thesis
      by (simp add: login_failed_def limiter_allow_def wp_simps Let_def spends_def unauthorized_status within_def)
  next
    case False
    with al T(3) assms show ?thesis
      by (simp add: login_failed_def limiter_allow_def limiter_lockout_def wp_simps Let_def spends_def unauthorized_status within_def left_lockout)
  qed
qed

text \<open>A request whose password is not that of the account it names; the name may be unknown.\<close>

definition wrong_guess :: "server_packages \<Rightarrow> User list \<Rightarrow> request \<Rightarrow> bool" where
  "wrong_guess pk us r \<longleftrightarrow> (\<forall>req u. DecodeInto dec_login r = Inr req \<longrightarrow>
     List.find (\<lambda>u. nocase (u_Username u) = nocase (TrimSpace (lg_Username req))) us = Some u \<longrightarrow>
     \<not> pk_compare pk (u_PasswordHash u) (lg_Password req))"

lemma login_spends:
  assumes "within T s" and "wrong_guess pk (users s) r" and "clientIPWithProxies r proxies = ip"
  shows "wp (handleLogin pk proxies r) (spends T ip (users s) (guesses_left T ip (h_limiter s))) s"
proof (cases "DecodeInto dec_login r")
  case (Inl e)
  with assms(1) show ?thesis by (simp add: handleLogin_def wp_return spends_def invalid_input_def unauthorized_status)
next
  case (Inr req)
  let ?t = "clock s (reads s)"
  obtain lk rl' where lo: "IsLockedOut (h_limiter s) (login_key ip) ?t = (lk, rl')" by fastforce
  define s1 where "s1 = s\<lparr>reads := Suc (reads s), h_limiter := rl'\<rparr>"
  have T: "T \<le> ?t" "?t < T + lock_time" using assms(1) by (simp_all add: within_def)
  have left: "guesses_left T ip rl' = guesses_left T ip (h_limiter s)"
    using left_locked [OF T, of ip "h_limiter s"] lo by simp
  have w: "within T s1" "within T (tick s1)" "h_limiter (tick s1) = rl'" "h_limiter s1 = rl'"
    using assms(1) by (simp_all add: s1_def within_def tick_def)
  have us: "users s1 = users s" "users (tick s1) = users s" by (simp_all add: s1_def)
  have no: "\<not> CheckPassword (pk_compare pk) (u_PasswordHash u) (lg_Password req)"
    if "List.find (\<lambda>u. nocase (u_Username u) = nocase (TrimSpace (lg_Username req))) (users s) = Some u" for u
    using assms(2) Inr that by (simp add: wrong_guess_def CheckPassword_def)
  have failed: "wp (login_failed ip) (spends T ip (users s) (guesses_left T ip (h_limiter s))) (tick s1)" if "\<not> lk"
    using login_failed_spends [of T "tick s1" ip] w us left left_zero [of T ip "h_limiter s" ?t] T lo that by auto
  show ?thesis
    using Inr assms(1,3) lo w us left failed no
    by (auto simp: handleLogin_def wp_simps Let_def limiter_locked_def GetUserByUsername_def spends_def invalid_input_def
      server_error_def unauthorized_status simp flip: s1_def split: option.split)
qed

lemma serve_spends:
  "within T s \<Longrightarrow> \<forall>r \<in> set rs. wrong_guess pk (users s) r \<and> clientIPWithProxies r proxies = ip \<Longrightarrow>
   length (filter (\<lambda>out. rs_status out = 401) (serve_all (handleLogin pk proxies) rs s)) \<le> guesses_left T ip (h_limiter s)"
proof (induction rs arbitrary: s)
  case (Cons r rs)
  obtain out s' where run: "run_state (handleLogin pk proxies r) s = (out, s')" by fastforce
  have sp: "spends T ip (users s) (guesses_left T ip (h_limiter s)) out s'"
    using login_spends [OF Cons.prems(1), of pk r proxies ip] Cons.prems(2) run by (simp add: wp_run)
  have "length (filter (\<lambda>out. rs_status out = 401) (serve_all (handleLogin pk proxies) rs s')) \<le> guesses_left T ip (h_limiter s')"
    using sp Cons.prems(2) by (intro Cons.IH) (auto simp: spends_def)
  with sp run show ?case
    by (auto simp: spends_def split: if_splits)
qed simp

text \<open>
  C20: an address gets ten wrong guesses in fifteen minutes. Whatever the state of the limiter and of
  the database, and however its statements fail: of any sequence of login requests from one
  client address within fifteen minutes, each with a password that is not that of the account it names,
  at most ten are answered \<^verbatim>\<open>401 invalid credentials\<close>; every other one is refused before the
  password is looked at, or fails for another reason. A correct login from the same address in
  between, which resets the counter, starts a new sequence.
\<close>
theorem guesses_bounded:
  assumes "\<forall>n. T \<le> clock s n \<and> clock s n < T + 15 * Minute"
    and "\<forall>r \<in> set rs. wrong_guess pk (users s) r \<and> clientIPWithProxies r proxies = ip"
  shows "length (filter (\<lambda>out. rs_status out = 401) (serve_all (handleLogin pk proxies) rs s)) \<le> 10"
proof -
  have "guesses_left T ip (h_limiter s) \<le> 10" by (simp add: guesses_left_def)
  then show ?thesis
    using serve_spends [of T s rs pk proxies ip] assms by (simp add: within_def)
qed

text \<open>Twenty guesses at bob's password, which bcrypt compares with the stored hash.\<close>

lemma Decode_Marshal:
  assumes "rq_body r = Marshal v" and "numbers_ok v" and "depth v \<le> maxDepth"
  shows "Decode r = Inr (utf8_valid v)"
proof -
  have "scan_value (Suc (2 * length (Marshal v))) 0 (Marshal v) = Some (utf8_valid v, [])"
    using scansD [OF scans_all assms(2), of 0 "[]" "Suc (2 * length (Marshal v))"] assms(3) by simp
  moreover from this have "skip_ws (Marshal v) \<noteq> []" by (auto split: list.splits)
  ultimately show ?thesis by (simp add: Decode_def assms(1))
qed

definition guess_request :: request where
  "guess_request = sample_request [] (Marshal (JObj [(''username'', JStr ''bob''), (''password'', JStr ''guess'')]))"

lemma guess_decoded: "DecodeInto dec_login guess_request = Inr \<lparr>lg_Username = ''bob'', lg_Password = ''guess''\<rparr>"
proof -
  have "Decode guess_request = Inr (utf8_valid (JObj [(''username'', JStr ''bob''), (''password'', JStr ''guess'')]))"
    by (rule Decode_Marshal) (simp_all only: guess_request_def sample_request_def request.simps, simp_all add: maxDepth_def)
  then show ?thesis
    by (simp add: DecodeInto_def dec_login_def fields2_def field_def key_matches_def runes_ascii fold_rune_def to_valid_ascii)
qed

lemma guess_wrong: "wrong_guess sample_packages (users sample_server) guess_request"
  unfolding wrong_guess_def guess_decoded by (auto simp: find_Some_iff server_sample_fields sample_packages_def sample_user_def)

lemma guess_address: "clientIPWithProxies guess_request [] = ''10.0.0.1''"
  by (simp add: guess_request_def sample_request_def clientIPWithProxies_def remote_host_def SplitHost_def index_of_def last_colon_def Let_def)

lemma guess_refused: "rs_status (fst (run_state (handleLogin sample_packages [] guess_request) sample_server)) = 401"
proof -
  have "TrimSpace ''bob'' = ''bob''" by (simp add: TrimSpace_def decode_rune_def IsSpace_def)
  then show ?thesis
    by (simp add: handleLogin_def guess_decoded guess_address limiter_locked_def IsLockedOut_def GetUserByUsername_def run_simps
        server_sample_fields NewRateLimiter_def sample_user_def CheckPassword_def sample_packages_def login_failed_def limiter_allow_def
        limiter_lockout_def unauthorized_status Let_def split: prod.split)
qed

theorem guesses_bounded_witness:
  "rs_status (fst (run_state (handleLogin sample_packages [] guess_request) sample_server)) = 401
   \<and> length (filter (\<lambda>out. rs_status out = 401)
       (serve_all (handleLogin sample_packages []) (replicate 20 guess_request) sample_server)) \<le> 10"
  using guess_refused guesses_bounded [of 0 sample_server "replicate 20 guess_request" sample_packages "[]" "''10.0.0.1''"]
  by (simp add: server_sample_fields guess_wrong [unfolded server_sample_fields] guess_address)

end
