(* ===== verification/RouteSafety.thy ===== *)
theory RouteSafety
  imports Router ApiAuth
begin

text \<open>
  Who gets past the middleware of each route: the table of \<^verbatim>\<open>NewRouter\<close> (\<^verbatim>\<open>api/router.go\<close>) and
  \<^verbatim>\<open>NewAdminAPI\<close> (\<^verbatim>\<open>admin/api.go\<close>) against the access it is meant to give.
\<close>

section \<open>Access\<close>


definition owner_routes :: "admin_route list" where
  "owner_routes = [PostBackup, DeleteBackupFile, RestoreBackupFile, ApplyUpdate]"

text \<open>What a route asks of the role of the user.\<close>

definition entitled :: "route \<Rightarrow> Role option \<Rightarrow> bool" where
  "entitled rt role \<longleftrightarrow> (case rt of
       Admin ar \<Rightarrow> (\<exists>x. role = Some x \<and> HasAdmin (r_Permissions x) \<and> (ar \<in> set owner_routes \<longrightarrow> OwnerRolePosition \<le> r_Position x))
     | _ \<Rightarrow> rt \<in> {PostInvite, GetInvites, DeleteInvite} \<longrightarrow>
         (\<exists>x. role = Some x \<and> (HasAdmin (r_Permissions x) \<or> r_Permissions x AND ManageInvites \<noteq> 0)))"

text \<open>
  The request carries the token of a session that is stored and live at a reading of the clock, of a user
  the role of whom the route accepts; outside the admin panel the user is not banned either.
\<close>

definition admitted :: "server_packages \<Rightarrow> route \<Rightarrow> request \<Rightarrow> server \<Rightarrow> bool" where
  "admitted pk rt r s \<longleftrightarrow> (\<exists>sess u n k. speaks_for pk r s sess u \<and> reads s \<le> n \<and> n \<le> k \<and> session_live sess (clock s n) \<and>
     ((\<exists>ar. rt = Admin ar) \<or> ban_over u (clock s k)) \<and> entitled rt (List.find (\<lambda>x. r_ID x = u_RoleID u) (roles s)))"


section \<open>The middleware\<close>










section \<open>The table\<close>


lemma admitted_body [simp]: "admitted pk rt (r\<lparr>rq_body := b, rq_cut := c\<rparr>) s \<longleftrightarrow> admitted pk rt r s"
  by (simp add: admitted_def speaks_for_def)



end
