(* ===== verification/ApiData.thy ===== *)
theory ApiData
  imports ApiAuth
begin

text \<open>
  What the REST API shows: history, pins and search results only of channels the requester
  may read, and the pages of a history taken together.
\<close>

section \<open>Permission to read\<close>

text \<open>Participation in a direct message channel, the permission bits on any other.\<close>

definition may_access :: "'z database_scheme \<Rightarrow> reqctx \<Rightarrow> int64 \<Rightarrow> perms \<Rightarrow> bool" where
  "may_access s cx ch perm \<longleftrightarrow> (\<exists>c \<in> set (channels s). c_ID c = ch \<and>
     (if c_Type c = ''dm'' then is_participant s (u_ID (cx_user cx)) ch
      else \<exists>role. cx_role cx = Some role \<and> (HasAdmin (r_Permissions role) \<or>
        (case overrides_of s ch (r_ID role) of (a, d) \<Rightarrow> EffectivePerms (r_Permissions role) a d AND perm = perm))))"

lemma reached_tables:
  assumes "reached s s'"
  shows "is_participant s' u ch = is_participant s u ch" "overrides_of s' ch rid = overrides_of s ch rid"
    "channels s' = channels s" "messages s' = messages s" "users s' = users s"
  using assms by (simp_all add: reached_def is_participant_def overrides_of_def)

lemma error_status [simp]:
  "rs_status (internal m) = 500" "rs_status (not_found m) = 404" "rs_status (forbidden m) = 403" "rs_status (bad_request m) = 400"
  by (simp_all add: internal_def not_found_def forbidden_def bad_request_def)

lemma wp_ifI: "(b \<Longrightarrow> wp m Q s) \<Longrightarrow> (\<not> b \<Longrightarrow> wp n Q s) \<Longrightarrow> wp (if b then m else n) Q s"
  by simp

lemma rest_perm_wp:
  assumes "reached s0 s"
    and "\<And>s'. reached s0 s' \<Longrightarrow> wp (g False) Q s'"
    and "\<And>s'. reached s0 s' \<Longrightarrow> (\<exists>role. ro = Some role \<and> (HasAdmin (r_Permissions role) \<or>
        (case overrides_of s0 ch (r_ID role) of (a, d) \<Rightarrow> EffectivePerms (r_Permissions role) a d AND perm = perm))) \<Longrightarrow> wp (g True) Q s'"
  shows "wp (State_Monad.bind (hasChannelPermREST ro ch perm) g) Q s"
proof (cases ro)
  case None
  then show ?thesis using assms(1,2) by (simp add: hasChannelPermREST_def wp_bind wp_return)
next
  case (Some role)
  show ?thesis
  proof (cases "HasAdmin (r_Permissions role)")
    case True
    with Some assms(1,3) show ?thesis by (simp add: hasChannelPermREST_def wp_bind wp_return)
  next
    case False
    have tick: "reached s0 (tick s)" using reached_trans [OF assms(1) reached_tick] .
    obtain a d where ov: "overrides_of s0 ch (r_ID role) = (a, d)" by fastforce
    then have "overrides_of s ch (r_ID role) = (a, d)" using reached_tables [OF assms(1)] by simp
    with False Some tick ov assms(2,3) show ?thesis
      by (cases "EffectivePerms (r_Permissions role) a d AND perm = perm")
        (auto simp: hasChannelPermREST_def GetChannelPermissions_def wp_bind wp_query wp_return)
  qed
qed

lemma access_wp:
  assumes "reached s0 s"
    and refuse: "\<And>rs s'. rs_status rs \<noteq> 200 \<Longrightarrow> wp (g (Inl rs)) Q s'"
    and pass: "\<And>c s'. reached s0 s' \<Longrightarrow> may_access s0 cx ch perm \<Longrightarrow> wp (g (Inr c)) Q s'"
  shows "wp (State_Monad.bind (channel_access cx ch perm denied) g) Q s"
proof -
  let ?c = "List.find (\<lambda>c. c_ID c = ch) (channels s0)"
  have "wp (channel_access cx ch perm denied) (\<lambda>r s'. case r of Inl rs \<Rightarrow> rs_status rs \<noteq> 200
      | Inr c \<Rightarrow> reached s0 s' \<and> may_access s0 cx ch perm) s"
    unfolding channel_access_def GetChannel_def IsDMParticipant_def
    apply (rule wp_read [OF assms(1), where v = ?c])
      apply (simp add: reached_tables)
     apply (simp add: wp_return)
    subgoal for s1
      apply (cases ?c; simp only: sum.case option.case)
       apply (simp add: wp_return)
      subgoal for c
        apply (rule wp_ifI)
         apply (erule wp_read [where v = "is_participant s0 (u_ID (cx_user cx)) ch"])
           apply (simp add: reached_tables)
          apply (simp add: wp_return)
         apply (auto simp: wp_return may_access_def dest!: find_in split: bool.split) [1]
        apply (erule rest_perm_wp)
         apply (simp add: wp_return)
        apply (auto simp: wp_return may_access_def dest!: find_in) [1]
        done
      done
    done
  then show ?thesis
    unfolding wp_bind by (rule wp_mono) (auto split: sum.splits intro: refuse pass)
qed

section \<open>History\<close>

text \<open>A message of the response is a stored one of the channel that is not deleted.\<close>

definition displays :: "'z database_scheme \<Rightarrow> int64 \<Rightarrow> MessageAPIResponse \<Rightarrow> bool" where
  "displays s ch m \<longleftrightarrow> (\<exists>x \<in> set (messages s). m_ID x = mr_ID m \<and> m_ChannelID x = ch \<and> \<not> m_Deleted x \<and> mr_Content m = m_Content x)"

lemma displays_with [simp]: "displays s ch (with_reactions rm m) = displays s ch m" "displays s ch (with_attachments am m) = displays s ch m"
  by (simp_all add: displays_def with_reactions_def with_attachments_def split: option.split)

lemma displays_scan: "x \<in> set (channel_page ch before s) \<Longrightarrow> displays s ch (scan_api_message (x, u))"
  by (auto simp: displays_def scan_api_message_def channel_page_def)

lemma enrich_wp:
  "wp (scanAndEnrichMessages rows u) (\<lambda>r s'. \<forall>msgs. r = Inr msgs \<longrightarrow> length msgs = length rows \<and>
     ((\<forall>p \<in> set rows. displays s0 ch (scan_api_message p)) \<longrightarrow> (\<forall>m \<in> set msgs. displays s0 ch m))) s"
  unfolding scanAndEnrichMessages_def getReactionsBatch_def GetAttachmentsByMessageIDs_def Let_def wp_simps
  by (auto simp: wp_simps)

lemma join_rows: "p \<in> set (join_user s ms) \<Longrightarrow> fst p \<in> set ms"
  by (auto simp: join_user_def)

lemma sql_limit_set: "x \<in> set (sql_limit n xs) \<Longrightarrow> x \<in> set xs" "0 \<le> n \<Longrightarrow> int (length (sql_limit n xs)) \<le> n"
  by (auto simp: sql_limit_def dest: in_set_takeD split: if_splits)

lemma page_tick [simp]: "channel_page ch before (tick s) = channel_page ch before s" "join_user (tick s) = join_user s"
  by (simp_all add: channel_page_def join_user_def fun_eq_iff tick_def)

lemma messages_wp:
  assumes "reached s0 s" and "0 \<le> limit"
  shows "wp (GetMessagesForAPI ch before limit u) (\<lambda>r s'. \<forall>msgs. r = Inr msgs \<longrightarrow> int (length msgs) \<le> limit \<and> (\<forall>m \<in> set msgs. displays s0 ch m)) s"
proof -
  let ?rows = "sql_limit limit (join_user s (channel_page ch before s))"
  have eq: "channel_page ch before s = channel_page ch before s0"
    using reached_tables [OF assms(1)] by (simp add: channel_page_def)
  have "displays s0 ch (scan_api_message p)" if "p \<in> set ?rows" for p
    using displays_scan [of "fst p" ch before s0 "snd p"] join_rows [OF sql_limit_set(1) [OF that]] by (simp add: eq)
  then have "wp (scanAndEnrichMessages ?rows u) (\<lambda>r s'. \<forall>msgs. r = Inr msgs \<longrightarrow> int (length msgs) \<le> limit \<and> (\<forall>m \<in> set msgs. displays s0 ch m)) (tick s)"
    using sql_limit_set(2) [OF assms(2), of "join_user s (channel_page ch before s)"]
    by (intro wp_mono [OF enrich_wp [of _ _ s0 ch]]) auto
  then show ?thesis
    by (simp add: GetMessagesForAPI_def wp_bind_ok wp_query)
qed

lemma pins_wp:
  assumes "reached s0 s"
  shows "wp (GetPinnedMessages ch u) (\<lambda>r s'. \<forall>msgs. r = Inr msgs \<longrightarrow> (\<forall>m \<in> set msgs. displays s0 ch m)) s"
proof -
  have eq: "channel_page ch 0 s = channel_page ch 0 s0"
    using reached_tables [OF assms(1)] by (simp add: channel_page_def)
  have "displays s0 ch (scan_api_message p)" if "p \<in> set (join_user s (filter m_Pinned (channel_page ch 0 s)))" for p
    using displays_scan [of "fst p" ch 0 s0 "snd p"] join_rows [OF that] by (simp add: eq)
  then have "wp (scanAndEnrichMessages (join_user s (filter m_Pinned (channel_page ch 0 s))) u)
      (\<lambda>r s'. \<forall>msgs. r = Inr msgs \<longrightarrow> (\<forall>m \<in> set msgs. displays s0 ch m)) (tick s)"
    by (intro wp_mono [OF enrich_wp [of _ _ s0 ch]]) auto
  then show ?thesis
    by (simp add: GetPinnedMessages_def wp_bind_ok wp_query)
qed

text \<open>What a successful history or pins response tells.\<close>

definition history_ok :: "server \<Rightarrow> reqctx \<Rightarrow> request \<Rightarrow> response \<Rightarrow> server \<Rightarrow> bool" where
  "history_ok s cx r rs s' \<longleftrightarrow> (rs_status rs = 200 \<longrightarrow> (\<exists>ch msgs hasMore. ParseInt (rq_param r ''id'') = Some ch \<and> may_access s cx ch ReadMessages \<and>
     rs = messages_response msgs hasMore \<and> (\<forall>m \<in> set msgs. displays s ch m)))"

lemma history_error: "rs_status rs \<noteq> 200 \<Longrightarrow> history_ok s cx r rs s'"
  by (simp add: history_ok_def)

lemma parse_errors:
  "parse_before r = Inl e \<Longrightarrow> rs_status e \<noteq> 200" "parse_limit r = Inl e \<Longrightarrow> rs_status e \<noteq> 200" "parseIDParam r p = Inl e \<Longrightarrow> rs_status e \<noteq> 200"
  "parse_limit r = Inr n \<Longrightarrow> 1 \<le> n \<and> n \<le> 100" "parseIDParam r p = Inr i \<Longrightarrow> ParseInt (rq_param r p) = Some i"
  by (auto simp: parse_before_def parse_limit_def parseIDParam_def Let_def maxMessageLimit_def defaultMessageLimit_def
    unauthorized_status split: if_splits option.splits)

lemma history_page:
  assumes "ParseInt (rq_param r ''id'') = Some ch" and "may_access s cx ch ReadMessages" and "\<forall>m \<in> set msgs. displays s ch m"
  shows "history_ok s cx r (messages_response msgs hasMore) s'"
  using assms unfolding history_ok_def by blast

lemma get_messages_ok: "wp (handleGetMessages cx r) (history_ok s cx r) s"
proof (cases "parseIDParam r ''id''")
  case (Inr ch)
  then have i: "ParseInt (rq_param r ''id'') = Some ch" by (rule parse_errors)
  show ?thesis
    unfolding handleGetMessages_def Inr sum.case
    apply (rule access_wp [OF reached_refl]; simp only: sum.case)
     apply (simp add: wp_return history_error)
    apply (cases "parse_before r"; simp only: sum.case)
     apply (simp add: wp_return history_error parse_errors)
    apply (cases "parse_limit r"; simp only: sum.case)
     apply (simp add: wp_return history_error parse_errors)
    apply (rule wp_seq [OF messages_wp], assumption)
     apply (drule parse_errors(4), simp)
    subgoal for c s1 before limit msgs
      by (cases msgs) (auto simp: wp_return history_error dest: in_set_takeD intro!: history_page [OF i])
    done
qed (simp add: handleGetMessages_def wp_return history_error parse_errors)

lemma get_pins_ok: "wp (handleGetPins cx r) (history_ok s cx r) s"
proof (cases "parseIDParam r ''id''")
  case (Inr ch)
  then have i: "ParseInt (rq_param r ''id'') = Some ch" by (rule parse_errors)
  show ?thesis
    unfolding handleGetPins_def Inr sum.case
    apply (rule access_wp [OF reached_refl]; simp only: sum.case)
     apply (simp add: wp_return history_error)
    apply (rule wp_seq [OF pins_wp], assumption)
    subgoal for c s1 msgs
      by (cases msgs) (auto simp: wp_return history_error intro!: history_page [OF i])
    done
qed (simp add: handleGetPins_def wp_return history_error parse_errors)

text \<open>
  C22: history and pins are shown only to those who may read the channel. When a request for
  the history or the pins of a channel succeeds, the requester takes part in the channel if
  it is a direct message channel, and else has a role with the permission to read it after
  the channel's overrides (or is administrator); and every message shown is a stored one of
  that channel, with its stored text, that is not deleted. Driver failures at any
  statement cannot change this.
\<close>
theorem history_needs_permission:
  assumes "handler = handleGetMessages \<or> handler = handleGetPins"
    and "run_state (handler cx r) s = (rs, s')" and "rs_status rs = 200"
  shows "\<exists>ch msgs hasMore. ParseInt (rq_param r ''id'') = Some ch \<and> may_access s cx ch ReadMessages
    \<and> rs = messages_response msgs hasMore
    \<and> (\<forall>m \<in> set msgs. \<exists>x \<in> set (messages s). m_ID x = mr_ID m \<and> m_ChannelID x = ch \<and> \<not> m_Deleted x \<and> mr_Content m = m_Content x)"
proof -
  have "history_ok s cx r rs s'"
    using assms(1,2) get_messages_ok [of cx r s] get_pins_ok [of cx r s] by (auto simp: wp_run)
  then show ?thesis
    using assms(3) by (simp add: history_ok_def displays_def)
qed

section \<open>Search\<close>

text \<open>The prefetched overrides and channel types say what the tables say.\<close>

definition overrides_match :: "'z database_scheme \<Rightarrow> Role option \<Rightarrow> (int64, ChannelOverride) mapping \<Rightarrow> bool" where
  "overrides_match s ro ov \<longleftrightarrow> (\<forall>role ch. ro = Some role \<and> \<not> HasAdmin (r_Permissions role) \<longrightarrow>
     (case Mapping.lookup ov ch of None \<Rightarrow> (0, 0) | Some x \<Rightarrow> (Allow_bits x, Deny_bits x)) = overrides_of s ch (r_ID role))"

definition types_match :: "'z database_scheme \<Rightarrow> (int64, string) mapping \<Rightarrow> bool" where
  "types_match s ty \<longleftrightarrow> (\<forall>ch x. Mapping.lookup ty ch = Some x \<longrightarrow> (\<exists>c \<in> set (channels s). c_ID c = ch \<and> c_Type c = x))"

lemma batch_sound:
  assumes "overrides_match s ro ov" and "hasChannelPermBatch ro ov ch perm"
  shows "\<exists>role. ro = Some role \<and> (HasAdmin (r_Permissions role) \<or>
    (case overrides_of s ch (r_ID role) of (a, d) \<Rightarrow> EffectivePerms (r_Permissions role) a d AND perm = perm))"
proof -
  obtain role where role: "ro = Some role" using assms(2) by (cases ro) (auto simp: hasChannelPermBatch_def)
  show ?thesis
  proof (cases "HasAdmin (r_Permissions role)")
    case False
    with role assms(1) have "overrides_of s ch (r_ID role) = (case Mapping.lookup ov ch of None \<Rightarrow> (0, 0) | Some x \<Rightarrow> (Allow_bits x, Deny_bits x))"
      by (simp add: overrides_match_def)
    with role False assms(2) show ?thesis
      by (cases "Mapping.lookup ov ch") (simp_all add: hasChannelPermBatch_def Let_def)
  qed (use role in simp)
qed

lemma visible_wp:
  assumes "reached s0 s" and "overrides_match s0 (cx_role cx) ov" and "types_match s0 ty"
  shows "wp (search_visible cx ov ty x) (\<lambda>b s'. reached s0 s' \<and> (b \<longrightarrow> may_access s0 cx (sr_ChannelID x) ReadMessages)) s"
proof (cases "Mapping.lookup ty (sr_ChannelID x)")
  case None
  with assms(1) show ?thesis by (simp add: search_visible_def wp_return)
next
  case (Some ct)
  then obtain c where c: "c \<in> set (channels s0)" "c_ID c = sr_ChannelID x" "c_Type c = ct"
    using assms(3) by (auto simp: types_match_def)
  show ?thesis
  proof (cases "ct = ''dm''")
    case True
    show ?thesis
      unfolding search_visible_def Some option.case IsDMParticipant_def
      by (rule wp_ifI, rule wp_read [OF assms(1), where v = "is_participant s0 (u_ID (cx_user cx)) (sr_ChannelID x)"])
        (use c True in \<open>auto simp: wp_return reached_tables may_access_def\<close>)
  next
    case False
    with Some c assms(1) batch_sound [OF assms(2)] show ?thesis
      by (auto simp: search_visible_def wp_return may_access_def)
  qed
qed

lemma filter_wp:
  assumes "overrides_match s0 (cx_role cx) ov" and "types_match s0 ty"
  shows "reached s0 s \<Longrightarrow> wp (search_filter cx ov ty xs) (\<lambda>ys s'. reached s0 s' \<and> set ys \<subseteq> set xs \<and>
    (\<forall>y \<in> set ys. may_access s0 cx (sr_ChannelID y) ReadMessages)) s"
proof (induction xs arbitrary: s)
  case (Cons x xs)
  show ?case
    unfolding search_filter.simps
    by (rule wp_seq [OF visible_wp [OF Cons.prems assms]], rule wp_seq [OF Cons.IH]) (auto simp: wp_return)
qed (simp add: wp_return)

lemma fetch_wp:
  assumes "reached s0 s" and "overrides_unique s0"
  shows "wp (fetch_overrides ro) (\<lambda>r s'. reached s0 s' \<and> (\<forall>ov. r = Inr ov \<longrightarrow> overrides_match s0 ro ov)) s"
proof (cases "\<exists>role. ro = Some role \<and> \<not> HasAdmin (r_Permissions role)")
  case True
  then obtain role where role: "ro = Some role" "\<not> HasAdmin (r_Permissions role)" by blast
  obtain res s' where run: "run_state (GetAllChannelPermissionsForRole (r_ID role)) s = (res, s')" by fastforce
  have co: "channel_overrides s = channel_overrides s0" using assms(1) by (simp add: reached_def)
  have "reached s0 s'"
    using run reached_trans [OF assms(1) reached_tick]
    by (auto simp: GetAllChannelPermissionsForRole_def query_def exec_def split: if_splits)
  moreover have "overrides_match s0 ro ov" if "res = Inr ov" for ov
    using all_overrides_lookup [OF assms(2) _ co] run that role by (auto simp: overrides_match_def)
  ultimately show ?thesis
    using role run by (simp add: fetch_overrides_def wp_run)
next
  case False
  then have "fetch_overrides ro = return (Inr Mapping.empty)"
    by (auto simp: fetch_overrides_def split: option.split)
  with False assms(1) show ?thesis
    by (auto simp: wp_return overrides_match_def)
qed

lemma types_fold:
  "Mapping.lookup (fold (\<lambda>c r. Mapping.update (c_ID c) (c_Type c) r) cs m) ch = Some x \<Longrightarrow>
   (\<exists>c \<in> set cs. c_ID c = ch \<and> c_Type c = x) \<or> Mapping.lookup m ch = Some x"
  by (induction cs arbitrary: m) (fastforce simp: lookup_update' split: if_splits)+

lemma types_wp:
  assumes "reached s0 s"
  shows "wp (GetChannelTypes ids) (\<lambda>r s'. reached s0 s' \<and> (\<forall>ty. r = Inr ty \<longrightarrow> types_match s0 ty)) s"
proof -
  have "reached s0 (tick s)" "channels s = channels s0"
    using reached_trans [OF assms reached_tick] assms by (simp_all add: reached_def)
  then show ?thesis
    using assms by (auto simp: GetChannelTypes_def wp_simps types_match_def dest!: types_fold)
qed

lemma search_rows:
  "wp (SearchMessages fts q ch limit) (\<lambda>r s'. reached s s' \<and> (\<forall>xs. r = Inr xs \<longrightarrow> (\<forall>x \<in> set xs. \<exists>m \<in> set (messages s).
     m_ID m = sr_MessageID x \<and> m_ChannelID m = sr_ChannelID x \<and> \<not> m_Deleted m \<and> m_Content m = sr_Content x))) s"
  by ((auto simp: SearchMessages_def wp_simps reached_refl reached_tick search_row_def join_user_def split: sum.split
    dest!: sql_limit_set(1)); blast)

definition search_ok :: "server \<Rightarrow> reqctx \<Rightarrow> response \<Rightarrow> server \<Rightarrow> bool" where
  "search_ok s cx rs s' \<longleftrightarrow> (rs_status rs = 200 \<longrightarrow> (\<exists>xs. rs = writeJSON 200 (JObj [(''results'', JArr (map search_json xs))]) \<and>
     (\<forall>x \<in> set xs. may_access s cx (sr_ChannelID x) ReadMessages \<and> (\<exists>m \<in> set (messages s).
       m_ID m = sr_MessageID x \<and> m_ChannelID m = sr_ChannelID x \<and> \<not> m_Deleted m \<and> m_Content m = sr_Content x))))"

lemma search_error: "rs_status rs \<noteq> 200 \<Longrightarrow> search_ok s cx rs s'"
  by (simp add: search_ok_def)

lemma search_page:
  assumes "\<forall>x \<in> set xs. may_access s cx (sr_ChannelID x) ReadMessages \<and> (\<exists>m \<in> set (messages s).
     m_ID m = sr_MessageID x \<and> m_ChannelID m = sr_ChannelID x \<and> \<not> m_Deleted m \<and> m_Content m = sr_Content x)"
  shows "search_ok s cx (writeJSON 200 (JObj [(''results'', JArr (map search_json xs))])) s'"
  using assms unfolding search_ok_def by blast

lemma search_results_ok:
  assumes "reached s0 s" and "overrides_unique s0" and "\<forall>x \<in> set xs. \<exists>m \<in> set (messages s0).
     m_ID m = sr_MessageID x \<and> m_ChannelID m = sr_ChannelID x \<and> \<not> m_Deleted m \<and> m_Content m = sr_Content x"
  shows "wp (search_results cx xs) (search_ok s0 cx) s"
  unfolding search_results_def
proof (rule wp_seq [OF fetch_wp [OF assms(1,2)]], goal_cases)
  case (1 ov s1)
  show ?case
  proof (cases ov)
    case (Inr ov')
    show ?thesis
      unfolding Inr sum.case
    proof (rule wp_seq [OF types_wp [OF conjunct1 [OF 1]]], goal_cases)
      case (1 ty s2)
      then show ?case
        using \<open>reached s0 s1 \<and> _\<close> Inr assms(3)
        by (cases ty; auto simp: wp_return search_error intro!: wp_seq [OF filter_wp] search_page; blast)
    qed
  qed (simp add: wp_return search_error)
qed

lemma search_errors:
  "parse_search_channel r = Inl e \<Longrightarrow> rs_status e \<noteq> 200"
  by (auto simp: parse_search_channel_def Let_def split: if_splits option.splits)

lemma search_handler_ok: "overrides_unique s \<Longrightarrow> wp (handleSearch pk cx r) (search_ok s cx) s"
  unfolding handleSearch_def Let_def
  apply (rule wp_ifI)
   apply (simp add: wp_return search_error)
  apply (cases "parse_search_channel r"; simp only: sum.case)
   apply (simp add: wp_return search_error search_errors)
  apply (cases "parse_limit r"; simp only: sum.case)
   apply (simp add: wp_return search_error parse_errors)
  apply (rule wp_seq [OF search_rows])
  subgoal for ch limit res s'
    by (cases res) (simp_all add: wp_return wp_if search_error search_results_ok)
  done

text \<open>
  search finds only what the requester may read. When a search succeeds, every result is
  a stored message that is not deleted, of a channel the requester may read: a participant
  of its direct message channel, or the holder of a role that may read it after the
  channel's overrides, although the overrides and the types of all channels were fetched in
  bulk. The full-text index may return any rows, and any statement may fail.
\<close>
theorem search_needs_permission:
  assumes "overrides_unique s" and "run_state (handleSearch pk cx r) s = (rs, s')" and "rs_status rs = 200"
  shows "\<exists>xs. rs = writeJSON 200 (JObj [(''results'', JArr (map search_json xs))])
    \<and> (\<forall>x \<in> set xs. may_access s cx (sr_ChannelID x) ReadMessages \<and> (\<exists>m \<in> set (messages s).
       m_ID m = sr_MessageID x \<and> m_ChannelID m = sr_ChannelID x \<and> \<not> m_Deleted m \<and> m_Content m = sr_Content x))"
  using search_handler_ok [OF assms(1), of pk cx r] assms(2,3) by (simp add: wp_run search_ok_def)

section \<open>On the sample\<close>

lemmas sample_api = run_simps server_sample_fields sample_ctx_def sample_request_def channel_access_def GetChannel_def
  hasChannelPermREST_def GetChannelPermissions_def overrides_of_def EffectivePerms_def HasAdmin_def perm_bits parseIDParam_def
  ParseInt_def parse_digits_def is_digit_def undec_def digit_val_def sample_channel_def sample_message_def sample_user_def

theorem history_needs_permission_witness:
  "may_access sample_server sample_ctx 1 ReadMessages"
proof -
  obtain rs s' where run: "run_state (handleGetMessages sample_ctx (sample_request [] [])) sample_server = (rs, s')" by fastforce
  have "rs_status (fst (run_state (handleGetMessages sample_ctx (sample_request [] [])) sample_server)) = 200"
    by (simp add: handleGetMessages_def sample_api parse_before_def parse_limit_def defaultMessageLimit_def GetMessagesForAPI_def
      channel_page_def join_user_def sql_limit_def scanAndEnrichMessages_def getReactionsBatch_def reaction_rows_def
      GetAttachmentsByMessageIDs_def attachment_rows_def messages_response_def unauthorized_status Let_def)
  moreover have "ParseInt (rq_param (sample_request [] []) ''id'') = Some 1" by (simp add: sample_api)
  ultimately show ?thesis
    using history_needs_permission [of handleGetMessages, OF _ run] by (auto simp: run)
qed

theorem search_needs_permission_witness:
  "let r = (sample_request [] [])\<lparr>rq_query := \<lambda>k. if k = ''q'' then ''hi'' else []\<rparr>
   in \<exists>xs. fst (run_state (handleSearch sample_packages sample_ctx r) sample_server) = writeJSON 200 (JObj [(''results'', JArr (map search_json xs))])
     \<and> (\<forall>x \<in> set xs. may_access sample_server sample_ctx (sr_ChannelID x) ReadMessages)"
proof -
  let ?r = "(sample_request [] [])\<lparr>rq_query := \<lambda>k. if k = ''q'' then ''hi'' else []\<rparr>"
  obtain rs s' where run: "run_state (handleSearch sample_packages sample_ctx ?r) sample_server = (rs, s')" by fastforce
  have "rs_status (fst (run_state (handleSearch sample_packages sample_ctx ?r) sample_server)) = 200"
    by (simp add: handleSearch_def sample_api parse_search_channel_def parse_limit_def defaultMessageLimit_def SearchMessages_def
      sample_packages_def search_row_def join_user_def sql_limit_def search_results_def fetch_overrides_def
      GetAllChannelPermissionsForRole_def GetChannelTypes_def search_visible_def IsDMParticipant_def unauthorized_status Let_def)
  moreover have "overrides_unique sample_server" by (simp add: overrides_unique_def server_sample_fields)
  ultimately show ?thesis
    unfolding Let_def run fst_conv using search_needs_permission [OF _ run] by blast
qed

section \<open>Scrolling back\<close>

text \<open>
  A client that scrolls back: it asks for \<open>limit\<close> messages before the oldest it has, until
  it gets none. \<open>n\<close> bounds the number of requests.
\<close>

fun scroll :: "nat \<Rightarrow> 'z database_scheme \<Rightarrow> int64 \<Rightarrow> int \<Rightarrow> int64 \<Rightarrow> MessageWithUser list" where
  "scroll 0 s ch limit before = []"
| "scroll (Suc n) s ch limit before =
     (case fst (run_state (GetMessages ch before limit) s) of
        Inl _ \<Rightarrow> []
      | Inr page \<Rightarrow> if page = [] then [] else page @ scroll n s ch limit (m_ID (last page)))"

lemma page_before:
  assumes "0 < b'" and "0 < b \<longrightarrow> b' \<le> b"
  shows "channel_page ch b' s = filter (\<lambda>m. m_ID m < b') (channel_page ch b s)"
  unfolding channel_page_def filter_sort [symmetric] filter_filter
  using assms by (intro arg_cong [of _ _ "sort_key _"] filter_cong) auto

lemma page_mem: "m \<in> set (channel_page ch b s) \<Longrightarrow> m \<in> set (messages s) \<and> (0 < b \<longrightarrow> m_ID m < b)"
  by (simp add: channel_page_def)

lemma strictly_decreasing:
  "sorted (map (\<lambda>m. - f m) xs) \<Longrightarrow> distinct (map f xs) \<Longrightarrow> sorted_wrt (\<lambda>a b. f b < (f a :: int)) xs"
proof (induction xs)
  case (Cons a xs)
  have "f x < f a" if "x \<in> set xs" for x
  proof -
    have "f x \<le> f a" using that Cons.prems(1) by simp
    moreover have "f x \<noteq> f a" using that Cons.prems(2) by (force simp: image_iff)
    ultimately show ?thesis by simp
  qed
  then show ?case using Cons by simp
qed simp

lemma page_decreasing:
  assumes "distinct (map m_ID (messages s))"
  shows "sorted_wrt (\<lambda>a b. m_ID b < m_ID a) (channel_page ch b s)"
proof -
  have "distinct (map m_ID (filter P (messages s)))" for P
    using assms by (simp add: distinct_map_filter)
  then have "distinct (map m_ID (channel_page ch b s))"
    by (simp add: channel_page_def distinct_map)
  then show ?thesis
    by (intro strictly_decreasing) (simp add: channel_page_def)
qed

lemma drop_older:
  assumes "sorted_wrt (\<lambda>a b. f b < (f a :: int)) xs" and "0 < n" and "xs \<noteq> []"
  shows "filter (\<lambda>m. f m < f (last (take n xs))) xs = drop n xs"
  using assms
proof (induction xs arbitrary: n)
  case (Cons x xs)
  show ?case
  proof (cases "n = 1 \<or> xs = []")
    case True
    with Cons.prems show ?thesis by (auto simp: take_Cons' drop_Cons' intro!: filter_True)
  next
    case False
    then have "last (take n (x # xs)) = last (take (n - 1) xs)" "last (take (n - 1) xs) \<in> set xs"
      using Cons.prems(2) in_set_takeD [OF last_in_set [of "take (n - 1) xs"]] by (auto simp: take_Cons')
    with False Cons show ?thesis by (auto simp: drop_Cons' not_less)
  qed
qed simp

text \<open>Every message has exactly one author row, so the join keeps the messages one by one.\<close>

definition with_author :: "'z database_scheme \<Rightarrow> Message \<Rightarrow> Message \<times> User" where
  "with_author s m = (m, the (List.find (\<lambda>u. u_ID u = m_UserID m) (users s)))"

lemma join_map:
  assumes "distinct (map u_ID (users s))" and "\<forall>m \<in> set ms. m_UserID m \<in> u_ID ` set (users s)"
  shows "join_user s ms = map (with_author s) ms"
proof -
  have "filter (\<lambda>u. u_ID u = i) us = [the (List.find (\<lambda>u. u_ID u = i) us)]" if "distinct (map u_ID us)" "i \<in> u_ID ` set us" for i us
    using that by (induction us) (auto simp: filter_empty_conv image_iff)
  then have one: "filter (\<lambda>u. u_ID u = i) (users s) = [the (List.find (\<lambda>u. u_ID u = i) (users s))]" if "i \<in> u_ID ` set (users s)" for i
    using assms(1) that by blast
  show ?thesis
    using assms(2) by (induction ms) (auto simp: join_user_def with_author_def one)
qed

lemma scroll_from:
  assumes "distinct (map m_ID (messages s))" and "\<forall>m \<in> set (messages s). 0 < m_ID m" and "\<forall>k. \<not> faults s k" and "1 \<le> limit"
    and g: "\<And>b. join_user s (channel_page ch b s) = map g (channel_page ch b s)" "\<And>m. fst (g m) = m"
  shows "length (channel_page ch b s) < n \<Longrightarrow> 0 \<le> b \<Longrightarrow>
    scroll n s ch limit b = map (scanMessageWithUser \<circ> g) (channel_page ch b s)"
proof (induction n arbitrary: b)
  case (Suc n)
  let ?p = "channel_page ch b s" and ?k = "nat limit"
  have q: "fst (run_state (GetMessages ch b limit) s) = Inr (map (scanMessageWithUser \<circ> g) (take ?k ?p))"
    using assms(3,4) by (simp add: GetMessages_def query_def exec_def sql_limit_def g take_map)
  show ?case
  proof (cases "?p = []")
    case False
    have "take ?k ?p \<noteq> []" using False assms(4) by simp
    then have last2: "last (take ?k ?p) \<in> set ?p" by (rule in_set_takeD [OF last_in_set])
    then have last: "last (take ?k ?p) \<in> set (messages s)" using page_mem by blast
    let ?b = "m_ID (last (take ?k ?p))"
    have b: "0 < ?b" using last assms(2) by simp
    have older: "channel_page ch ?b s = drop ?k ?p"
    proof -
      have "0 < b \<longrightarrow> ?b \<le> b" using page_mem [OF last2] by auto
      then have "channel_page ch ?b s = filter (\<lambda>m. m_ID m < ?b) ?p" by (rule page_before [OF b])
      then show ?thesis
        using drop_older [OF page_decreasing [OF assms(1)] _ False, of ?k] assms(4) by simp
    qed
    have id: "m_ID (scanMessageWithUser (g m)) = m_ID m" for m
      using g(2) [of m] by (cases "g m") (simp add: scanMessageWithUser_def Message.extend_def MessageWithUser.fields_def)
    have "0 < length ?p" "0 < ?k" using False assms(4) by simp_all
    then have "length (channel_page ch ?b s) < n" using Suc.prems(1) unfolding older length_drop by linarith
    then have "scroll n s ch limit ?b = map (scanMessageWithUser \<circ> g) (drop ?k ?p)"
      using Suc.IH [of ?b] b unfolding older by simp
    moreover have "scroll (Suc n) s ch limit b = map (scanMessageWithUser \<circ> g) (take ?k ?p) @ scroll n s ch limit ?b"
      using False assms(4) by (simp add: q last_map id)
    ultimately show ?thesis
      by (simp flip: map_append)
  qed (simp add: q)
qed simp

text \<open>
  C23: scrolling back shows the whole history, once. With a working database, a client that
  asks for pages of any size of at least one, each before the oldest message it has, gets
  after at most one request more than there are messages every message of the channel that is
  not deleted, each exactly once and newest first, and nothing else; and it does not
  stop earlier.
\<close>
theorem scrolling_complete:
  assumes "schema_ok s" and "\<forall>k. \<not> faults s k" and "1 \<le> limit" and "length (messages s) < n"
  shows "sorted_wrt (>) (map m_ID (scroll n s ch limit 0))
    \<and> (\<lambda>m. (m_ID m, m_UserID m, m_Content m)) ` set (scroll n s ch limit 0) =
      (\<lambda>m. (m_ID m, m_UserID m, m_Content m)) ` {m \<in> set (messages s). m_ChannelID m = ch \<and> \<not> m_Deleted m}"
proof -
  have pk: "distinct (map m_ID (messages s))" "\<forall>m \<in> set (messages s). 0 < m_ID m" "distinct (map u_ID (users s))"
    and ref: "\<forall>m \<in> set (messages s). m_UserID m \<in> u_ID ` set (users s)"
    using assms(1) by (auto simp: schema_ok_def keys_ok_def pk_ok_def message_refs_def has_user_def)
  have join: "join_user s (channel_page ch b s) = map (with_author s) (channel_page ch b s)" for b
    using ref page_mem by (intro join_map pk(3)) blast
  have short: "length (channel_page ch 0 s) < n"
    using assms(4) le_less_trans [OF length_filter_le assms(4)] by (simp add: channel_page_def)
  have out: "scroll n s ch limit 0 = map (scanMessageWithUser \<circ> with_author s) (channel_page ch 0 s)"
    using scroll_from [OF pk(1,2) assms(2,3) join _ short] by (simp add: with_author_def)
  have scan: "m_ID (scanMessageWithUser (with_author s m)) = m_ID m" "m_UserID (scanMessageWithUser (with_author s m)) = m_UserID m"
    "m_Content (scanMessageWithUser (with_author s m)) = m_Content m" for m
    by (simp_all add: scanMessageWithUser_def with_author_def Message.extend_def MessageWithUser.fields_def)
  have "map m_ID (scroll n s ch limit 0) = map m_ID (channel_page ch 0 s)"
    by (simp add: out scan)
  then show ?thesis
    using page_decreasing [OF pk(1), of ch 0]
    by (simp add: out image_image scan sorted_wrt_map) (simp add: channel_page_def conj_ac)
qed

theorem scrolling_complete_witness:
  "let s = sample_hub in (\<lambda>m. (m_ID m, m_UserID m, m_Content m)) ` set (scroll 3 s 1 1 0) =
      (\<lambda>m. (m_ID m, m_UserID m, m_Content m)) ` {m \<in> set (messages s). m_ChannelID m = 1 \<and> \<not> m_Deleted m}"
  unfolding Let_def
  by (rule scrolling_complete [THEN conjunct2]) (simp_all add: sample_schema sample_fields)

end
