(* ===== verification/AdminSafety.thy ===== *)
theory AdminSafety
  imports ApiAuth "HOL-Library.Multiset"
begin

text \<open>
  Guarantees of the admin panel: the policy the settings stay within, the setup that works
  once, the tickets of the log stream, and the files backups touch.
\<close>

section \<open>Settings\<close>

definition flag_on :: "'z database_scheme \<Rightarrow> string \<Rightarrow> bool" where
  "flag_on s key \<longleftrightarrow> (\<exists>v. map_of (settings s) key = Some v \<and> parseBooleanSettingValue v = Some True)"

text \<open>The settings after the updates \<open>kvs\<close>, by key.\<close>

definition updated :: "'z database_scheme \<Rightarrow> (string \<times> string) list \<Rightarrow> string \<Rightarrow> string option" where
  "updated s kvs key = (case map_of kvs key of Some v \<Rightarrow> Some v | None \<Rightarrow> map_of (settings s) key)"

definition on_after :: "'z database_scheme \<Rightarrow> (string \<times> string) list \<Rightarrow> string \<Rightarrow> bool" where
  "on_after s kvs key \<longleftrightarrow> (\<exists>v. updated s kvs key = Some v \<and> parseBooleanSettingValue v = Some True)"

text \<open>Two factors are required of nobody, or registration is closed and nobody in good standing lacks them.\<close>

definition policy_after :: "'z database_scheme \<Rightarrow> (string \<times> string) list \<Rightarrow> bool" where
  "policy_after s kvs \<longleftrightarrow> (on_after s kvs ''require_2fa'' \<longrightarrow>
     \<not> on_after s kvs ''registration_open'' \<and> (\<forall>u \<in> set (users s). u_Banned u \<or> u_TOTPSecret u \<noteq> None))"

lemma target_wp:
  assumes "reached s0 s"
  shows "wp (targetBoolSetting pk kvs key) (\<lambda>r s'. reached s0 s' \<and> (\<forall>b. r = Inr b \<longrightarrow> b = on_after s0 kvs key)) s"
proof (cases "map_of kvs key")
  case (Some v)
  with assms show ?thesis
    by (auto simp: targetBoolSetting_def wp_return parse_bool_setting_def on_after_def updated_def split: option.split)
next
  case None
  have "reached s0 (tick s)" "settings s = settings s0"
    using reached_trans [OF assms reached_tick] assms by (simp_all add: reached_def)
  with None show ?thesis
    by (auto simp: targetBoolSetting_def GetSetting_def wp_simps parse_bool_setting_def on_after_def updated_def
      split: option.split)
qed

lemma validate_wp:
  assumes "reached s0 s"
  shows "wp (validateRequire2FAUpdate pk kvs) (\<lambda>r s'. reached s0 s' \<and> (r = None \<longrightarrow> policy_after s0 kvs)) s"
  unfolding validateRequire2FAUpdate_def
proof (rule wp_seq [OF target_wp [OF assms]], goal_cases)
  case (1 r s1)
  consider (err) e where "r = Inl e" | (off) "r = Inr False" | (on) "r = Inr True" by (cases r) auto
  then show ?case
  proof cases
    case on
    show ?thesis
      unfolding on sum.case bool.case
    proof (rule wp_seq [OF target_wp [OF conjunct1 [OF 1]]], goal_cases)
      case (1 r2 s2)
      have "reached s0 (tick s2)" "users s2 = users s0"
        using 1 reached_trans [OF _ reached_tick, of s0 s2] by (auto simp: reached_def)
      with 1 show ?case
        by (cases r2) (auto simp: wp_simps CountUsersWithoutTOTP_def policy_after_def filter_empty_conv split: bool.split)
    qed
  qed (use 1 in \<open>auto simp: wp_return policy_after_def\<close>)
qed

lemma step_set:
  "wp (step_msg msg (SetSetting k v)) (\<lambda>r s'. users s' = users s \<and>
     (\<forall>y. r = Inr y \<longrightarrow> map_of (settings s') = (map_of (settings s))(k \<mapsto> v))) s"
  by (auto simp: step_msg_def SetSetting_def wp_simps update_conv' tick_def)

lemma write_wp:
  "wp (write_settings kvs) (\<lambda>r s'. users s' = users s \<and> (\<forall>y. r = Inr y \<longrightarrow> map_of (settings s') = map_of (settings s) ++ map_of (rev kvs))) s"
proof (induction kvs arbitrary: s)
  case (Cons kv kvs)
  show ?case
    unfolding write_settings.simps
  proof (rule wp_seq [OF step_set], goal_cases)
    case (1 r s1)
    show ?case
    proof (cases r)
      case (Inr y)
      then show ?thesis
        using 1 by (cases kv) (auto simp: map_add_def fun_eq_iff split: option.split intro!: wp_mono [OF Cons.IH])
    qed (use 1 in \<open>simp add: wp_return\<close>)
  qed
qed (simp add: wp_return)

text \<open>The transaction applies all the updates, or none.\<close>

lemma transaction_settings:
  "wp (transaction_msg b c (write_settings kvs)) (\<lambda>r s'. users s' = users s \<and>
     (\<forall>e. r = Inl e \<longrightarrow> settings s' = settings s) \<and> (\<forall>y. r = Inr y \<longrightarrow> map_of (settings s') = map_of (settings s) ++ map_of (rev kvs))) s"
proof -
  have "wp (write_settings kvs) (\<lambda>r s'. users s' = users s \<and> (\<forall>y. r = Inr y \<longrightarrow> map_of (settings s') = map_of (settings s) ++ map_of (rev kvs))) (tick s)"
    using write_wp [of kvs "tick s"] by (simp add: tick_def)
  then show ?thesis
    unfolding transaction_msg_def wp_simps
    by (auto simp: wp_simps rollback_to_def tick_def split: sum.split elim!: wp_mono)
qed

lemma audit_wp: "wp (audit_settings a kvs) (\<lambda>_ s'. users s' = users s \<and> settings s' = settings s) s"
proof (induction kvs arbitrary: s)
  case (Cons kv kvs)
  have "wp (LogAudit a ''setting_change'' ''setting'' 0 d) (\<lambda>_ s'. users s' = users s \<and> settings s' = settings s) s" for d
    by (simp add: LogAudit_def wp_simps)
  then show ?case
    unfolding audit_settings.simps by (rule wp_seq) (auto intro: wp_mono [OF Cons.IH])
qed (simp add: wp_return)

lemma dec_pairs_distinct: "dec_pairs kvs m = Some m' \<Longrightarrow> distinct (map fst m) \<Longrightarrow> distinct (map fst m')"
  by (induction kvs m rule: dec_pairs.induct) (auto simp: distinct_update split: option.splits)

lemma decoded_distinct: "DecodeInto dec_string_map r = Inr m \<Longrightarrow> distinct (map fst m)"
  by (auto simp: DecodeInto_def dec_pairs_distinct split: sum.splits option.splits elim!: dec_string_map.elims)

lemma normalized_keys: "normalizeSettingUpdates pk m = Inr kvs \<Longrightarrow> map fst kvs = map fst m"
proof (induction pk m arbitrary: kvs rule: normalizeSettingUpdates.induct)
  case (2 pk key v m)
  then show ?case
    by (cases "normalizeSettingUpdates pk m") (auto split: sum.splits if_splits)
qed simp

text \<open>What the table holds of a value given for a key: the two booleans in their normal form, anything else as it is.\<close>

definition stored_value :: "string \<Rightarrow> string \<Rightarrow> string" where
  "stored_value key v = (if key \<in> set bool_setting_keys then bool_text (parseBooleanSettingValue v = Some True) else v)"

definition boolean_values :: "(string \<times> string) list \<Rightarrow> bool" where
  "boolean_values m \<longleftrightarrow> (\<forall>(key, v) \<in> set m. key \<in> set bool_setting_keys \<longrightarrow> parseBooleanSettingValue v \<noteq> None)"

lemma normalized_values:
  "normalizeSettingUpdates pk m = Inr kvs \<Longrightarrow> boolean_values m \<and> map_of kvs key = map_option (stored_value key) (map_of m key)"
proof (induction pk m arbitrary: kvs rule: normalizeSettingUpdates.induct)
  case (2 pk k v m)
  then show ?case
    by (cases "normalizeSettingUpdates pk m")
      (auto simp: boolean_values_def stored_value_def parse_bool_setting_def split: sum.splits if_splits option.splits)
qed (simp add: boolean_values_def)

lemma map_of_perm:
  assumes "mset xs = mset ys" and "distinct (map fst ys)"
  shows "map_of xs = map_of ys"
proof
  fix k
  have "distinct (map fst xs)" using assms by (metis mset_map mset_eq_imp_distinct_iff)
  moreover have "set xs = set ys" using assms(1) by (metis set_mset_mset)
  ultimately show "map_of xs k = map_of ys k"
    using assms(2) by (metis (no_types) map_of_eq_Some_iff not_None_eq)
qed

text \<open>The order in which Go ranges over a map is a permutation of its entries.\<close>

definition range_ok :: "range_order \<Rightarrow> bool" where
  "range_ok ord \<longleftrightarrow> (\<forall>n m. mset (ord n m) = mset m)"

definition patch_ok :: "request \<Rightarrow> server \<Rightarrow> response \<Rightarrow> server \<Rightarrow> bool" where
  "patch_ok r s rs s' \<longleftrightarrow> users s' = users s \<and> (settings s' = settings s \<and> rs_status rs \<noteq> 200
     \<or> (\<exists>m kvs. DecodeInto dec_string_map r = Inr m \<and> fst ` set m \<subseteq> set allowedSettingKeys \<and> boolean_values m \<and>
          (\<forall>key. map_of kvs key = map_option (stored_value key) (map_of m key)) \<and>
          map_of (settings s') = updated s kvs \<and> policy_after s kvs))"

lemma apply_ok:
  assumes "reached s0 s" and "range_ok ord" and "distinct (map fst kvs)" and "policy_after s0 kvs"
    and "DecodeInto dec_string_map r = Inr m" and "fst ` set m \<subseteq> set allowedSettingKeys" and "boolean_values m"
    and "\<forall>key. map_of kvs key = map_option (stored_value key) (map_of m key)"
  shows "wp (apply_settings ord cx kvs) (patch_ok r s0) s"
proof -
  have "mset (rev (ord 2 kvs)) = mset kvs" using assms(2) by (simp add: range_ok_def)
  then have "map_of (rev (ord 2 kvs)) = map_of kvs" by (rule map_of_perm [OF _ assms(3)])
  then have u': "map_of (settings s) ++ map_of (rev (ord 2 kvs)) = updated s0 kvs"
    using assms(1) by (simp add: updated_def [abs_def] map_add_def reached_def)
  have u: "users s = users s0" "settings s = settings s0" using assms(1) by (simp_all add: reached_def)
  show ?thesis
    unfolding apply_settings_def
  proof (rule wp_seq [OF transaction_settings], goal_cases)
    case (1 r s1)
    show ?case
    proof (cases r)
      case (Inr y)
      show ?thesis
        unfolding Inr sum.case
        by (rule wp_seq [OF audit_wp])
          (use 1 Inr u' u assms(4-8) in \<open>auto simp: GetAllSettings_def wp_simps patch_ok_def\<close>)
    qed (use 1 u in \<open>auto simp: wp_return patch_ok_def internal_error_def unauthorized_status\<close>)
  qed
qed

lemma patch_error: "reached s s' \<Longrightarrow> rs_status rs \<noteq> 200 \<Longrightarrow> patch_ok r s rs s'"
  by (simp add: patch_ok_def reached_def)

lemma range_keys:
  assumes "range_ok ord" and "DecodeInto dec_string_map r = Inr m" and "normalizeSettingUpdates pk (ord 1 m) = Inr kvs"
    and "List.find (\<lambda>kv. fst kv \<notin> set allowedSettingKeys) (ord 0 m) = None"
  shows "distinct (map fst kvs)" "fst ` set m \<subseteq> set allowedSettingKeys" "boolean_values m"
    "\<forall>key. map_of kvs key = map_option (stored_value key) (map_of m key)"
proof -
  have p: "mset (ord n m) = mset m" for n using assms(1) by (simp add: range_ok_def)
  have k: "map fst kvs = map fst (ord 1 m)" using normalized_keys [OF assms(3)] .
  have d: "distinct (map fst m)" by (rule decoded_distinct [OF assms(2)])
  have "mset (map fst (ord 1 m)) = mset (map fst m)" using p by (simp add: mset_map)
  then show "distinct (map fst kvs)" using d mset_eq_imp_distinct_iff unfolding k by blast
  have s: "set (ord n m) = set m" for n using p by (metis set_mset_mset)
  then show "fst ` set m \<subseteq> set allowedSettingKeys" using assms(4) by (auto simp: find_None_iff)
  show "boolean_values m" using normalized_values [OF assms(3)] s by (simp add: boolean_values_def)
  show "\<forall>key. map_of kvs key = map_option (stored_value key) (map_of m key)"
    using normalized_values [OF assms(3)] map_of_perm [OF p d] by simp
qed

lemma patch_settings_ok:
  assumes "range_ok ord"
  shows "wp (handlePatchSettings pk ord cx r) (patch_ok r s) s"
  unfolding handlePatchSettings_def
  apply (cases "DecodeInto dec_string_map r"; simp only: sum.case)
   apply (simp add: wp_return patch_error reached_refl bad_request_def)
  subgoal for m
    apply (cases "List.find (\<lambda>kv. fst kv \<notin> set allowedSettingKeys) (ord 0 m)"; simp only: option.case)
     prefer 2
     apply (simp add: wp_return patch_error reached_refl bad_request_def)
    apply (cases "normalizeSettingUpdates pk (ord 1 m)"; simp only: sum.case)
     apply (simp add: wp_return patch_error reached_refl bad_request_def)
    subgoal for kvs
      apply (rule wp_seq [OF validate_wp [OF reached_refl]])
      subgoal premises prems for bad s1
        by (cases bad) (use prems range_keys [OF assms prems(1,3,2)] in
          \<open>auto simp: wp_return patch_error bad_request_def intro!: apply_ok [OF _ _ _ _ prems(1)] assms\<close>)
      done
    done
  done

text \<open>
  C24: a settings request is all or nothing, and never leaves two-factor authentication
  required while it cannot be satisfied. Either the answer is not 200 and every setting is
  as before; or the body is an object of strings, every key of it is a known setting, the
  two booleans have boolean values, each key the body names holds the value the body gives
  (a boolean as \<open>1\<close> or \<open>0\<close>) and every other key its old value; and then, if two-factor
  authentication is required, registration is closed and every user who is not banned has
  enrolled. No account changes. This holds for every order in which Go visits the entries
  of the request and every failure of the database; a read that fails after the commit
  answers 500 with all the values stored, which is the second case.
\<close>
theorem settings_policy:
  assumes "\<forall>n m. mset (ord n m) = mset m" and "run_state (handlePatchSettings pk ord cx r) s = (rs, s')"
  shows "users s' = users s \<and> (settings s' = settings s \<and> rs_status rs \<noteq> 200
    \<or> (\<exists>m. DecodeInto dec_string_map r = Inr m \<and> fst ` set m \<subseteq> set allowedSettingKeys \<and> boolean_values m
        \<and> (\<forall>key. map_of (settings s') key
              = (case map_of m key of Some v \<Rightarrow> Some (stored_value key v) | None \<Rightarrow> map_of (settings s) key)))
      \<and> (flag_on s' ''require_2fa'' \<longrightarrow> \<not> flag_on s' ''registration_open'' \<and> (\<forall>u \<in> set (users s'). u_Banned u \<or> u_TOTPSecret u \<noteq> None)))"
proof -
  have "patch_ok r s rs s'"
    using patch_settings_ok [of ord pk cx r s] assms by (simp add: range_ok_def wp_run)
  moreover have "updated s kvs key = (case map_of m key of Some v \<Rightarrow> Some (stored_value key v) | None \<Rightarrow> map_of (settings s) key)"
    if "\<forall>key. map_of kvs key = map_option (stored_value key) (map_of m key)" for m kvs key
    using that by (simp add: updated_def split: option.split)
  ultimately show ?thesis
    unfolding patch_ok_def policy_after_def on_after_def flag_on_def by (elim conjE disjE exE) simp_all
qed

lemma parse_zero: "parseBooleanSettingValue ''0'' = Some False"
  by (simp add: parseBooleanSettingValue_def TrimSpace_def decode_rune_def IsSpace_def nocase_def ascii_lower_def Let_def)

definition motd_request :: request where
  "motd_request = sample_request [] (Marshal (JObj [(''motd'', JStr ''hi''), (''require_2fa'', JStr ''false'')]))"

lemma motd_decoded: "DecodeInto dec_string_map motd_request = Inr [(''motd'', ''hi''), (''require_2fa'', ''false'')]"
proof -
  have "Decode motd_request = Inr (utf8_valid (JObj [(''motd'', JStr ''hi''), (''require_2fa'', JStr ''false'')]))"
    by (rule Decode_Marshal) (simp_all only: motd_request_def sample_request_def request.simps, simp_all add: maxDepth_def)
  then show ?thesis by (simp add: DecodeInto_def to_valid_ascii)
qed

lemma parse_false: "parseBooleanSettingValue ''false'' = Some False"
  by (simp add: parseBooleanSettingValue_def TrimSpace_def decode_rune_def IsSpace_def nocase_def ascii_lower_def Let_def)

lemma motd_accepted: "rs_status (fst (run_state (handlePatchSettings sample_packages (\<lambda>_ m. rev m) sample_ctx motd_request) sample_server)) = 200"
  by (simp add: handlePatchSettings_def motd_decoded allowedSettingKeys_def bool_setting_keys_def parse_bool_setting_def parse_false
    parse_zero bool_text_def validateRequire2FAUpdate_def targetBoolSetting_def apply_settings_def transaction_msg_def step_msg_def SetSetting_def
    LogAudit_def GetAllSettings_def run_simps server_sample_fields)

theorem settings_policy_witness:
  "let (rs, s') = run_state (handlePatchSettings sample_packages (\<lambda>_ m. rev m) sample_ctx motd_request) sample_server
   in rs_status rs = 200 \<and> map_of (settings s') ''motd'' = Some ''hi'' \<and> map_of (settings s') ''require_2fa'' = Some ''0''"
proof -
  let ?m = "handlePatchSettings sample_packages (\<lambda>_ m. rev m) sample_ctx motd_request"
  obtain rs s' where run: "run_state ?m sample_server = (rs, s')" by fastforce
  have "rs_status rs = 200" using motd_accepted by (simp add: run)
  then show ?thesis
    using settings_policy [OF _ run]
    by (auto simp: run motd_decoded stored_value_def bool_setting_keys_def parse_false bool_text_def
      dest!: spec [of _ "''motd''"] spec [of _ "''require_2fa''"])
qed

section \<open>Setup\<close>

definition users_are :: "User list \<Rightarrow> server \<Rightarrow> bool" where
  "users_are us s \<longleftrightarrow> users s = us"

lemma users_steps:
  "keeps (users_are us) rand_read" "keeps (users_are us) (CreateSession u h d i)" "keeps (users_are us) (CreateChannel n ty ca to po)"
  "keeps (users_are us) (CreateInvite b u m e)" "keeps (users_are us) (LogAudit a x y z w)"
proof -
  have t: "users_are us s \<Longrightarrow> users_are us (tick s)" for s by (simp add: users_are_def)
  have now: "keeps (users_are us) time_now" by (rule keepsI) (simp add: time_now_def users_are_def)
  show "keeps (users_are us) rand_read"
    unfolding rand_read_def by (intro keeps_bind keeps_gets keeps_modify) (simp add: users_are_def)
  show "keeps (users_are us) (CreateSession u h d i)"
    unfolding CreateSession_def
    by (intro keeps_bind keeps_let now keeps_exec t) (auto simp: users_are_def insert_session_def Let_def split: if_splits)
  show "keeps (users_are us) (CreateChannel n ty ca to po)"
    unfolding CreateChannel_def by (intro keeps_exec t) (auto simp: users_are_def insert_channel_def Let_def)
  show "keeps (users_are us) (CreateInvite b u m e)"
    unfolding CreateInvite_def
    by (intro keeps_case_sum keeps_return keeps_let keeps_exec t) (auto simp: users_are_def insert_invite_def Let_def split: if_splits)
  show "keeps (users_are us) (LogAudit a x y z w)"
    unfolding LogAudit_def by (rule keeps_execute) (simp_all add: users_are_def)
qed

lemma setup_finish_users: "keeps (users_are us) (setup_finish pk r name uid)"
  unfolding setup_finish_def generate_token_def
  by (intro keeps_bind keeps_case_option keeps_case_sum keeps_return users_steps)

text \<open>What a setup request may leave behind.\<close>

definition setup_ok :: "server \<Rightarrow> response \<Rightarrow> server \<Rightarrow> bool" where
  "setup_ok s rs s' \<longleftrightarrow>
     rs_status rs \<noteq> 201 \<and> users s' = users s \<and> sessions s' = sessions s \<and> invites s' = invites s \<and> channels s' = channels s \<or>
     users s = [] \<and> (\<exists>u. users s' = [u] \<and> u_RoleID u = ownerRoleID)"

definition accounts_as :: "server \<Rightarrow> server \<Rightarrow> bool" where
  "accounts_as s0 s \<longleftrightarrow> users s = users s0 \<and> sessions s = sessions s0 \<and> invites s = invites s0 \<and> channels s = channels s0"

lemma setup_refused: "rs_status rs \<noteq> 201 \<Longrightarrow> accounts_as s s' \<Longrightarrow> setup_ok s rs s'"
  by (simp add: setup_ok_def accounts_as_def)

lemma accounts_steps:
  "keeps (accounts_as s0) (setup_allow k)" "keeps (accounts_as s0) (hash_password pk p)" "keeps (accounts_as s0) (query f)"
proof -
  have now: "keeps (accounts_as s0) time_now" by (rule keepsI) (simp add: time_now_def accounts_as_def)
  show "keeps (accounts_as s0) (setup_allow k)"
    unfolding setup_allow_def
    by (intro keeps_bind keeps_gets now keeps_let keeps_case_prod keeps_modify keeps_return) (simp add: accounts_as_def)
  show "keeps (accounts_as s0) (hash_password pk p)"
    unfolding hash_password_def rand_read_def
    by (intro keeps_bind keeps_gets keeps_modify keeps_return) (simp add: accounts_as_def)
  show "keeps (accounts_as s0) (query f)"
    by (rule keeps_query) (simp add: accounts_as_def)
qed

lemma internal_status: "rs_status (internal_error m) = 500"
  by (simp add: internal_error_def unauthorized_status)

lemma setup_input_error: "setup_input pk r = Inl rs \<Longrightarrow> rs_status rs \<noteq> 201"
  by (auto simp: setup_input_def bad_request_def unauthorized_status Let_def split: sum.splits if_splits option.splits)

lemma setup_create:
  assumes "accounts_as s0 s" and "users s = []"
  shows "wp (State_Monad.bind (CreateUser name h ownerRoleID) (\<lambda>uid. case uid of Inl _ \<Rightarrow> return (internal_error ''failed to create user'')
      | Inr uid \<Rightarrow> setup_finish pk r name uid)) (setup_ok s0) s"
proof -
  have fin: "wp (setup_finish pk r name uid) (setup_ok s0) s1" if "users s1 = [u]" "u_RoleID u = ownerRoleID" for uid s1 u
    using that assms by (intro wp_mono [OF keeps_wp [OF setup_finish_users [of "[u]"]]]) (auto simp: users_are_def setup_ok_def accounts_as_def)
  have "accounts_as s0 (tick s)" using assms(1) by (simp add: accounts_as_def)
  then show ?thesis
    unfolding CreateUser_def wp_simps insert_user_def
    using assms(2) by (auto simp: wp_return Let_def new_user_def setup_refused internal_error_def unauthorized_status intro!: fin)
qed

text \<open>
  C25: the setup works once, for the owner. A setup request changes no user, session, invite or
  channel and is not answered 201, unless the server has no user yet; then the only user
  afterwards is the one it created, in the owner's role. So after the first account nobody can
  make themselves owner through the unauthenticated endpoint.
\<close>
theorem setup_once:
  assumes "run_state (handleSetup pk r) s = (rs, s')"
  shows "rs_status rs \<noteq> 201 \<and> users s' = users s \<and> sessions s' = sessions s \<and> invites s' = invites s \<and> channels s' = channels s
    \<or> users s = [] \<and> (\<exists>u. users s' = [u] \<and> u_RoleID u = OwnerRoleID)"
proof -
  have err: "accounts_as s s' \<Longrightarrow> rs_status rs \<noteq> 201 \<Longrightarrow> wp (return rs) (setup_ok s) s'" for rs s'
    by (simp add: wp_return setup_refused)
  have create: "wp (case setup_input pk r of Inl rs \<Rightarrow> return rs | Inr (username, password) \<Rightarrow> do {
       h \<leftarrow> hash_password pk password;
       (case h of None \<Rightarrow> return (internal_error ''failed to hash password'')
        | Some h \<Rightarrow> do { uid \<leftarrow> CreateUser username h ownerRoleID;
            (case uid of Inl _ \<Rightarrow> return (internal_error ''failed to create user'') | Inr uid \<Rightarrow> setup_finish pk r username uid) }) })
     (setup_ok s) s1" if "accounts_as s s1" "users s1 = []" for s1
  proof (cases "setup_input pk r")
    case (Inl rs)
    with that(1) show ?thesis by (simp add: err setup_input_error)
  next
    case (Inr np)
    have "keeps (\<lambda>s'. accounts_as s s' \<and> users s' = []) (hash_password pk (snd np))"
      using keepsD [OF accounts_steps(2), of s] that by (intro keepsI) (auto simp: accounts_as_def)
    then show ?thesis
      unfolding Inr sum.case case_prod_unfold
      by (rule wp_seq [OF keeps_wp])
        (use that in \<open>auto simp: internal_status split: option.split intro!: err setup_create\<close>)
  qed
  have "wp (handleSetup pk r) (setup_ok s) s"
    unfolding handleSetup_def
  proof (rule wp_seq [OF keeps_wp [OF accounts_steps(1) [of s]]], goal_cases)
    case (2 ok s1)
    then have "accounts_as s (tick s1)" "users (tick s1) = users s" by (simp_all add: accounts_as_def)
    with 2 show ?case
      by (auto simp: wp_bind wp_query wp_return UserCount_def internal_status forbidden_def unauthorized_status setup_refused
        intro!: create)
  qed (simp add: accounts_as_def)
  then show ?thesis
    using assms by (simp add: wp_run setup_ok_def ownerRoleID_def OwnerRoleID_def)
qed

theorem setup_once_witness:
  "users (snd (run_state (handleSetup sample_packages (sample_request [] [])) sample_server)) = users sample_server"
proof -
  obtain rs s' where run: "run_state (handleSetup sample_packages (sample_request [] [])) sample_server = (rs, s')" by fastforce
  then show ?thesis
    using setup_once [OF run] by (auto simp: server_sample_fields)
qed

section \<open>Tickets\<close>

datatype ticket_op = TIssue "string option" string time | TRedeem string time

fun ticket_step :: "ticket_op \<Rightarrow> (string, ticketEntry) mapping \<Rightarrow> (string, ticketEntry) mapping" where
  "ticket_step (TIssue raw h now) ts = snd (issue raw h ts now)"
| "ticket_step (TRedeem t now) ts = snd (redeem t ts now)"

text \<open>The session digests the redemptions of ticket \<open>t\<close> in a run have let in, with the times of redemption.\<close>

fun let_in :: "string \<Rightarrow> ticket_op list \<Rightarrow> (string, ticketEntry) mapping \<Rightarrow> (string \<times> time) list" where
  "let_in t [] ts = []"
| "let_in t (TRedeem t' now # ops) ts =
     (if t' = t then (case fst (redeem t ts now) of Some e \<Rightarrow> [(tk_tokenHash e, now)] | None \<Rightarrow> []) else []) @
     let_in t ops (ticket_step (TRedeem t' now) ts)"
| "let_in t (op # ops) ts = let_in t ops (ticket_step op ts)"

definition draws_ticket :: "string \<Rightarrow> ticket_op \<Rightarrow> bool" where
  "draws_ticket t op \<longleftrightarrow> (case op of TIssue (Some b) h now \<Rightarrow> hexEncode b = t | _ \<Rightarrow> False)"

lemma gone_stays: "Mapping.lookup ts t = None \<Longrightarrow> \<not> draws_ticket t op \<Longrightarrow> Mapping.lookup (ticket_step op ts) t = None"
  by (cases op) (auto simp: issue_def redeem_def draws_ticket_def lookup_update' lookup_filter lookup_delete_if Let_def
    split: option.splits)

lemma gone_closed: "Mapping.lookup ts t = None \<Longrightarrow> \<forall>op \<in> set ops. \<not> draws_ticket t op \<Longrightarrow> let_in t ops ts = []"
proof (induction t ops ts rule: let_in.induct)
  case (2 t t' now ops ts)
  then show ?case using gone_stays [of ts t "TRedeem t' now"] by (auto simp: redeem_def)
next
  case (3 t raw h now ops ts)
  then show ?case using gone_stays [of ts t "TIssue raw h now"] by simp
qed simp

lemma live_once:
  "Mapping.lookup ts t = Some e \<Longrightarrow> \<forall>op \<in> set ops. \<not> draws_ticket t op \<Longrightarrow>
   let_in t ops ts = [] \<or> (\<exists>now. let_in t ops ts = [(tk_tokenHash e, now)] \<and> now - tk_createdAt e \<le> ticketTTL)"
proof (induction t ops ts rule: let_in.induct)
  case (2 t t' now ops ts)
  show ?case
  proof (cases "t' = t")
    case True
    then have "Mapping.lookup (ticket_step (TRedeem t' now) ts) t = None"
      using 2 by (simp add: redeem_def lookup_delete_if)
    then have "let_in t ops (ticket_step (TRedeem t' now) ts) = []"
      using 2 by (intro gone_closed) auto
    with True 2 show ?thesis by (auto simp: redeem_def)
  next
    case False
    with 2 have "Mapping.lookup (ticket_step (TRedeem t' now) ts) t = Some e"
      by (auto simp: redeem_def lookup_delete_if split: option.split)
    with False 2 show ?thesis by simp
  qed
next
  case (3 t raw h now ops ts)
  show ?case
  proof (cases "Mapping.lookup (ticket_step (TIssue raw h now) ts) t")
    case None
    with 3 show ?thesis using gone_closed by simp
  next
    case (Some e')
    with 3 have "e' = e"
      by (auto simp: issue_def draws_ticket_def lookup_update' lookup_filter Let_def split: option.splits if_splits)
    with Some 3 show ?thesis by simp
  qed
qed simp

text \<open>
  C26: a ticket of the log stream opens it once, for thirty seconds, to the session it was
  issued to. In any run of issues and redemptions after a ticket was issued, in which the
  random source does not draw its bytes again, at most one redemption of the ticket succeeds;
  it succeeds at most thirty seconds after the issue and hands over the digest of the
  issuing session. A redemption that comes first and in time does succeed.
\<close>
theorem ticket_once:
  assumes "issue (Some b) h ts now = (Some t, ts')" and "\<forall>op \<in> set ops. \<not> draws_ticket t op"
  shows "(let_in t ops ts' = [] \<or> (\<exists>n. let_in t ops ts' = [(h, n)] \<and> n - now \<le> 30 * Second))
    \<and> (n - now \<le> 30 * Second \<longrightarrow> let_in t (TRedeem t n # ops) ts' = [(h, n)])"
proof -
  have e: "Mapping.lookup ts' t = Some \<lparr>tk_createdAt = now, tk_tokenHash = h\<rparr>"
    using assms(1) by (auto simp: issue_def Let_def)
  have "Mapping.lookup (snd (redeem t ts' n)) t = None"
    using e by (simp add: redeem_def lookup_delete_if)
  then have "let_in t ops (snd (redeem t ts' n)) = []"
    using assms(2) by (rule gone_closed)
  with live_once [OF e assms(2)] e show ?thesis
    by (auto simp: redeem_def ticketTTL_def)
qed

theorem ticket_once_witness:
  "let ts' = snd (issue (Some ''a'') ''h'' Mapping.empty 0)
   in let_in ''61'' [TRedeem ''61'' 5, TRedeem ''61'' 6] ts' = [(''h'', 5)]"
proof -
  have "issue (Some ''a'') ''h'' Mapping.empty 0 = (Some ''61'', snd (issue (Some ''a'') ''h'' Mapping.empty 0))"
    by (simp add: issue_def sample_token Let_def)
  from ticket_once [OF this, of "[TRedeem ''61'' 6]" 5] show ?thesis
    by (simp add: draws_ticket_def Let_def Second_def)
qed

end
