(* ===== verification/Maintenance.thy ===== *)
theory Maintenance
  imports ServerSafety
begin

text \<open>
  The maintenance tick recovers from failures, and what it deletes: the order of the two
  formats of timestamps as text decides which uploads count as old.
\<close>

section \<open>The order of timestamps as text\<close>

lemma text_less: "a < b \<Longrightarrow> p @ a # xs < p @ b # ys" for a :: char
  by (simp add: list_less_def lexord_append_leftI)

lemma same_day_less: "u div 86400 = c div 86400 \<Longrightarrow> fmt_sqlite u < fmt_iso c"
proof -
  assume day: "u div 86400 = c div 86400"
  obtain y m d where c: "civil (c div 86400) = (y, m, d)"
    by (cases "civil (c div 86400)")
  define p where "p = pad 4 y @ ''-'' @ pad 2 m @ ''-'' @ pad 2 d"
  have "CHR '' '' < CHR ''T''" by (simp add: less_char_def)
  then show ?thesis
    using text_less [of "CHR '' ''" "CHR ''T''" p] day c
    by (simp add: fmt_sqlite_def fmt_iso_def fmt_layout_def p_def)
qed

lemma less_snoc: "length xs = length ys \<Longrightarrow> xs @ [a] < ys @ [b] \<longleftrightarrow> xs < ys \<or> xs = ys \<and> a < b" for xs :: string
  by (induction xs ys rule: list_induct2) auto

lemma dec_width: "10 ^ k \<le> n \<Longrightarrow> n < 10 ^ Suc k \<Longrightarrow> length (dec n) = Suc k"
proof (induction k arbitrary: n)
  case 0
  then show ?case by (simp add: dec.simps [of n])
next
  case (Suc k)
  then have "10 ^ k \<le> n div 10" and "n div 10 < 10 ^ Suc k"
    by simp_all
  moreover have "10 \<le> n"
    using Suc.prems(1) by (rule order_trans [rotated]) simp
  ultimately show ?case
    using Suc.IH [of "n div 10"] by (simp add: dec.simps [of n])
qed

lemma digit_less: "a < b \<Longrightarrow> b < 10 \<Longrightarrow> (char_of (48 + a) :: char) < char_of (48 + b)" for a b :: nat
  by (simp add: less_char_def)

lemma dec_less: "length (dec m) = length (dec n) \<Longrightarrow> m < n \<Longrightarrow> dec m < dec n"
proof (induction n arbitrary: m rule: dec.induct)
  case (1 n)
  show ?case
  proof (cases "n < 10")
    case True
    with 1 show ?thesis
      by (simp add: dec.simps [of n] dec.simps [of m] digit_less)
  next
    case False
    then have "\<not> m < 10"
      using 1(2) by (auto simp: dec.simps [of n] dec.simps [of m])
    then have "length (dec (m div 10)) = length (dec (n div 10))"
      using 1(2) False by (simp add: dec.simps [of n] dec.simps [of m])
    moreover have "m div 10 < n div 10 \<or> m div 10 = n div 10 \<and> m mod 10 < n mod 10"
      using \<open>m < n\<close> div_le_mono [of m n 10] div_mult_mod_eq [of m 10] div_mult_mod_eq [of n 10] by linarith
    ultimately show ?thesis
      using 1(1) [OF False] False \<open>\<not> m < 10\<close>
      by (auto simp: dec.simps [of n] dec.simps [of m] less_snoc digit_less)
  qed
qed

text \<open>Seconds since 1970 as text are ordered like numbers while they have ten digits, from 2001 to 2286.\<close>

lemma itoa_less: "10 ^ 9 \<le> e \<Longrightarrow> e < n \<Longrightarrow> n < 10 ^ 10 \<Longrightarrow> itoa e < itoa n"
proof -
  assume e: "10 ^ 9 \<le> e" and n: "e < n" "n < 10 ^ 10"
  have "length (dec (nat e)) = Suc 9" "length (dec (nat n)) = Suc 9"
    using e n by (intro dec_width; simp)+
  then show ?thesis
    using e n by (simp add: itoa_def dec_less)
qed

section \<open>What a tick does\<close>

lemma orphan_files_disk_only: "\<exists>d. snd (run_state (remove_orphans cwd store df files) s) = s\<lparr>sv_disk := d\<rparr>"
proof -
  have "\<exists>d. snd (run_state (for_each files (\<lambda>f. do { _ \<leftarrow> on_disk (DeleteFile cwd st (df f) f); return () })) s) = s\<lparr>sv_disk := d\<rparr>" for st
  proof (induction files arbitrary: s)
    case Nil
    show ?case by (auto intro: exI [of _ "sv_disk s"])
  next
    case (Cons f files)
    obtain r d where "DeleteFile cwd st (df f) f (sv_disk s) = (r, d)"
      by (cases "DeleteFile cwd st (df f) f (sv_disk s)")
    with Cons [of "s\<lparr>sv_disk := d\<rparr>"] show ?case
      by (auto simp: on_disk_def split: prod.splits)
  qed
  then show ?thesis
    by (cases store) (auto simp: remove_orphans_def intro: exI [of _ "sv_disk s"])
qed

definition expired_at :: "(string \<Rightarrow> string option) \<Rightarrow> int \<Rightarrow> Session \<Rightarrow> bool" where
  "expired_at strf now x \<longleftrightarrow> (case strf (s_ExpiresAt x) of None \<Rightarrow> False | Some t \<Rightarrow> t < itoa now)"

lemma orphan_files_fields:
  "run_state (remove_orphans cwd store df files) s = (u, s') \<Longrightarrow>
   sessions s' = sessions s \<and> attachments s' = attachments s \<and> faults s' = faults s \<and> clock s' = clock s"
  using orphan_files_disk_only [of cwd store df files s] by auto

lemma purge_effect:
  assumes "\<forall>k. \<not> faults s k" and "run_state (purge strf cwd store df) s = (failed, s')"
  shows "\<not> failed" and "faults s' = faults s" and "clock s' = clock s"
    and "sessions s' = filter (\<lambda>x. \<not> expired_at strf (clock s (reads s) div Second) x) (sessions s)"
    and "attachments s' =
      filter (\<lambda>a. \<not> orphaned (fmt_iso ((clock s (Suc (reads s)) - 60 * Minute) div Second)) a) (attachments s)"
  using assms
  by (auto dest!: orphan_files_fields simp: purge_def DeleteExpiredSessions_def DeleteOrphanedAttachments_def run_simps tick_def Let_def expired_at_def
      filter_empty_conv split: prod.splits if_splits)

definition linked :: "server \<Rightarrow> AttachmentRow list" where
  "linked s = filter (\<lambda>a. a_MessageID a \<noteq> None) (attachments s)"

text \<open>No session is left whose expiry, in seconds with ten digits, lies before \<open>T\<close>.\<close>

definition purged :: "(string \<Rightarrow> string option) \<Rightarrow> int \<Rightarrow> server \<Rightarrow> bool" where
  "purged strf T s \<longleftrightarrow> (\<forall>x \<in> set (sessions s). \<forall>e. strf (s_ExpiresAt x) = Some (itoa e) \<and> 10 ^ 9 \<le> e \<longrightarrow> T div Second \<le> e)"

lemma purge_purges:
  assumes "\<forall>k. \<not> faults s k" and "\<forall>k. T \<le> clock s k \<and> clock s k < 10 ^ 10 * Second"
    and "run_state (purge strf cwd store df) s = (failed, s')"
  shows "\<not> failed \<and> faults s' = faults s \<and> clock s' = clock s \<and> purged strf T s' \<and> linked s' = linked s"
proof -
  note eff = purge_effect [OF assms(1,3)]
  let ?now = "clock s (reads s) div Second"
  have "T \<le> clock s (reads s)" "clock s (reads s) < 10 ^ 10 * Second"
    using assms(2) by simp_all
  then have now: "T div Second \<le> ?now" "?now < 10 ^ 10"
    unfolding Second_def by linarith+
  have "T div Second \<le> e" if "x \<in> set (sessions s')" "strf (s_ExpiresAt x) = Some (itoa e)" "10 ^ 9 \<le> e" for x e
  proof (rule ccontr)
    assume "\<not> T div Second \<le> e"
    then have "itoa e < itoa ?now"
      using now that(3) by (intro itoa_less) auto
    with that(1,2) show False
      by (simp add: eff(4) expired_at_def)
  qed
  moreover have "linked s' = linked s"
    unfolding linked_def eff(5) by (auto simp: orphaned_def intro!: filter_cong)
  ultimately show ?thesis
    using eff(1-3) by (simp add: purged_def)
qed

text \<open>
  the maintenance recovers by itself. However many ticks have failed before, once the
  database works again two ticks remove every session that had expired when they began, as
  far as SQLite can read its expiry, whatever the circuit breaker did; and neither tick touches
  an attachment of a message.
\<close>
theorem maintenance_recovers:
  assumes "\<forall>k. \<not> faults s k" and "\<forall>k. T \<le> clock s k \<and> clock s k < 10 ^ 10 * Second"
    and "run_state (maintenance_tick strf cwd store df fails) s = (fails1, s1)"
    and "run_state (maintenance_tick strf cwd store df' fails1) s1 = (fails2, s2)"
  shows "fails2 = 0 \<and> purged strf T s2 \<and> linked s2 = linked s"
proof (cases "maxConsecutiveFailures \<le> fails")
  case True
  with assms(3) have 1: "fails1 = maxConsecutiveFailures - 1" "s1 = s"
    by (simp_all add: maintenance_tick_def)
  obtain failed where "run_state (purge strf cwd store df') s = (failed, s2)" "fails2 = (if failed then fails1 + 1 else 0)"
    using assms(4) 1 by (auto simp: maintenance_tick_def maxConsecutiveFailures_def split: prod.splits)
  then show ?thesis
    using purge_purges [OF assms(1,2), of strf cwd store df' failed s2] by auto
next
  case False
  then obtain failed1 where 1: "run_state (purge strf cwd store df) s = (failed1, s1)" "fails1 = (if failed1 then fails + 1 else 0)"
    using assms(3) by (auto simp: maintenance_tick_def split: prod.splits)
  note p1 = purge_purges [OF assms(1,2) 1(1)]
  then obtain failed2 where 2: "run_state (purge strf cwd store df') s1 = (failed2, s2)" "fails2 = (if failed2 then fails1 + 1 else 0)"
    using assms(4) 1(2) by (auto simp: maintenance_tick_def maxConsecutiveFailures_def split: prod.splits)
  have "\<forall>k. \<not> faults s1 k" "\<forall>k. T \<le> clock s1 k \<and> clock s1 k < 10 ^ 10 * Second"
    using p1 assms(1,2) by simp_all
  from purge_purges [OF this 2(1)] show ?thesis
    using p1 2(2) by auto
qed

theorem maintenance_recovers_witness:
  "let t = maintenance_tick (\<lambda>_. Some (itoa 1700000000)) None None (\<lambda>_. io_df sample_io);
       s = sample_server\<lparr>clock := \<lambda>_. 1800000000 * Second\<rparr>;
       r = run_state (t 5) s
   in sessions (snd (run_state (t (fst r)) (snd r))) = []"
proof -
  define t where "t = maintenance_tick (\<lambda>_. Some (itoa 1700000000)) None None (\<lambda>_. io_df sample_io)"
  define s where "s = sample_server\<lparr>clock := \<lambda>_. 1800000000 * Second\<rparr>"
  obtain f1 s1 where 1: "run_state (t 5) s = (f1, s1)" by (cases "run_state (t 5) s")
  obtain f2 s2 where 2: "run_state (t f1) s1 = (f2, s2)" by (cases "run_state (t f1) s1")
  have "\<forall>k. \<not> faults s k" "\<forall>k. 1800000000 * Second \<le> clock s k \<and> clock s k < 10 ^ 10 * Second"
    by (simp_all add: s_def server_sample_fields Second_def)
  from maintenance_recovers [OF this 1 [unfolded t_def] 2 [unfolded t_def]] have "purged (\<lambda>_. Some (itoa 1700000000)) (1800000000 * Second) s2"
    by simp
  then have "sessions s2 = []"
    by (cases "sessions s2") (auto simp: purged_def Second_def)
  with 1 2 show ?thesis
    by (simp add: t_def s_def Let_def)
qed

text \<open>
  the purge deletes uploads that are not yet sent. The comment and the cutoff mean
  uploads older than an hour; but the cutoff is written as \<^verbatim>\<open>2006-01-02T15:04:05Z\<close> and compared as
  text with \<^verbatim>\<open>2006-01-02 15:04:05\<close>, and a blank sorts before a T. So whatever time of the cutoff's
  day an attachment was uploaded, up to the moment of the tick itself, it is deleted unless
  a message already refers to it.
\<close>
theorem fresh_uploads_purged:
  assumes "\<forall>k. \<not> faults s k" and "\<forall>k. clock s k = t"
    and "a_MessageID a = None" and "a_UploadedAt a = fmt_sqlite u"
    and "u div 86400 = (t - 60 * Minute) div Second div 86400"
    and "run_state (purge strf cwd store df) s = (failed, s')"
  shows "a \<notin> set (attachments s')"
  using same_day_less [OF assms(5)] assms(2-4) by (simp add: purge_effect(5) [OF assms(1,6)] orphaned_def)

text \<open>An upload of the very second of the tick.\<close>

theorem fresh_uploads_purged_witness:
  "let a = \<lparr>a_ID = ''f'', a_MessageID = None, a_Filename = ''f'', a_StoredAs = ''f'', a_MimeType = [], a_Size = 1,
             a_UploadedAt = fmt_sqlite 1800000000, a_Width = None, a_Height = None\<rparr>;
       s = sample_server\<lparr>attachments := [a], clock := \<lambda>_. 1800000000 * Second\<rparr>
   in a \<notin> set (attachments (snd (run_state (purge Some None None (\<lambda>_. io_df sample_io)) s)))"
  unfolding Let_def
  by (rule fresh_uploads_purged [where t = "1800000000 * Second" and u = 1800000000, OF _ _ _ _ _ prod.collapse [symmetric]])
    (simp_all add: server_sample_fields Second_def Minute_def)

end
