(* ===== verification/Migrate.thy ===== *)
theory Migrate
  imports GoText "HOL-Library.List_Lexorder" "HOL-Library.Char_ord"
begin

text \<open>
  The migration runner, \<^verbatim>\<open>db/migrate.go\<close>. The tables the scripts make are a parameter of the model:
  a state \<open>'d\<close>, the effect \<open>run_sql\<close> of a script on it (\<open>None\<close> when SQLite refuses it) and whether it
  has the table \<^verbatim>\<open>users\<close>. The table of applied versions is modelled, as are the transactions and
  the failure of any statement; a crash is a point after which every statement fails.
\<close>

section \<open>The database of the runner\<close>

record 'd mdb =
  md_db :: 'd
  md_versions :: "string list option"
  md_faults :: "nat \<Rightarrow> bool"
  md_calls :: nat

text \<open>The embedded files: the directory (\<open>None\<close> when it cannot be read), with a flag for directories, and the contents.\<close>

record migrations_fs =
  fs_entries :: "(string \<times> bool) list option"
  fs_read :: "string \<Rightarrow> string option"

datatype migrate_error =
    CreateVersions | ReadDir | Seeding string | BeginTx string | ReadMigration string | ExecMigration string
  | RecordMigration string | CommitMigration string

text \<open>A statement: it fails in the driver, or does \<open>f\<close>, which may fail too.\<close>

definition stmt :: "('d mdb \<Rightarrow> ('a \<times> 'd mdb) option) \<Rightarrow> ('d mdb, 'a option) state" where
  "stmt f = State (\<lambda>s. let s' = s\<lparr>md_calls := Suc (md_calls s)\<rparr> in
     if md_faults s (md_calls s) then (None, s')
     else case f s' of None \<Rightarrow> (None, s') | Some (x, s'') \<Rightarrow> (Some x, s''))"

definition ensureSchemaVersions :: "('d mdb, unit option) state" where
  "ensureSchemaVersions = stmt (\<lambda>s. Some ((),
     case md_versions s of None \<Rightarrow> s\<lparr>md_versions := Some []\<rparr> | Some _ \<Rightarrow> s))"

text \<open>The three lookups take any error for the absence of the row.\<close>

definition found :: "('d mdb \<Rightarrow> bool) \<Rightarrow> ('d mdb, bool) state" where
  "found p = do { r \<leftarrow> stmt (\<lambda>s. if p s then Some ((), s) else None); return (r \<noteq> None) }"

definition isExistingDatabase :: "('d \<Rightarrow> bool) \<Rightarrow> ('d mdb, bool) state" where
  "isExistingDatabase has_users = found (\<lambda>s. has_users (md_db s))"

definition schemaVersionsExists :: "('d mdb, bool) state" where
  "schemaVersionsExists = found (\<lambda>s. md_versions s \<noteq> None)"

definition recorded :: "string \<Rightarrow> 'd mdb \<Rightarrow> bool" where
  "recorded name s \<longleftrightarrow> (case md_versions s of None \<Rightarrow> False | Some vs \<Rightarrow> name \<in> set vs)"

definition isApplied :: "string \<Rightarrow> ('d mdb, bool) state" where
  "isApplied name = found (recorded name)"

text \<open>The primary key refuses a version that is recorded already.\<close>

definition insert_version :: "string \<Rightarrow> 'd mdb \<Rightarrow> (unit \<times> 'd mdb) option" where
  "insert_version name s =
     (case md_versions s of
        None \<Rightarrow> None
      | Some vs \<Rightarrow> if name \<in> set vs then None else Some ((), s\<lparr>md_versions := Some (vs @ [name])\<rparr>))"

definition recordApplied :: "string \<Rightarrow> ('d mdb, unit option) state" where
  "recordApplied name = stmt (insert_version name)"

definition sqlFilenames :: "migrations_fs \<Rightarrow> string list option" where
  "sqlFilenames fsys = map_option (\<lambda>es.
     map fst (filter (\<lambda>(name, dir). \<not> dir \<and> hasSuffix name ''.sql'') (sort_key fst es))) (fs_entries fsys)"

fun seedExistingDatabase :: "string list \<Rightarrow> ('d mdb, migrate_error option) state" where
  "seedExistingDatabase [] = return None"
| "seedExistingDatabase (name # names) = do {
     r \<leftarrow> recordApplied name;
     (case r of None \<Rightarrow> return (Some (Seeding name)) | Some _ \<Rightarrow> seedExistingDatabase names)
   }"

section \<open>One migration\<close>

definition undo :: "'d mdb \<Rightarrow> migrate_error \<Rightarrow> ('d mdb, migrate_error option) state" where
  "undo s0 e = do { modify (\<lambda>s. s\<lparr>md_db := md_db s0, md_versions := md_versions s0\<rparr>); return (Some e) }"

definition exec_script :: "(string \<Rightarrow> 'd \<Rightarrow> 'd option) \<Rightarrow> string \<Rightarrow> 'd mdb \<Rightarrow> (unit \<times> 'd mdb) option" where
  "exec_script run_sql raw s = map_option (\<lambda>d. ((), s\<lparr>md_db := d\<rparr>)) (run_sql raw (md_db s))"

definition apply_migration :: "(string \<Rightarrow> 'd \<Rightarrow> 'd option) \<Rightarrow> migrations_fs \<Rightarrow> string \<Rightarrow> ('d mdb, migrate_error option) state" where
  "apply_migration run_sql fsys name = do {
     tx \<leftarrow> stmt (\<lambda>s. Some ((), s));
     (case tx of
        None \<Rightarrow> return (Some (BeginTx name))
      | Some _ \<Rightarrow> do {
          s0 \<leftarrow> get;
          (case fs_read fsys name of
             None \<Rightarrow> undo s0 (ReadMigration name)
           | Some raw \<Rightarrow> do {
               e \<leftarrow> stmt (exec_script run_sql raw);
               (case e of
                  None \<Rightarrow> undo s0 (ExecMigration name)
                | Some _ \<Rightarrow> do {
                    i \<leftarrow> stmt (insert_version name);
                    (case i of
                       None \<Rightarrow> undo s0 (RecordMigration name)
                     | Some _ \<Rightarrow> do {
                         c \<leftarrow> stmt (\<lambda>s. Some ((), s));
                         (case c of None \<Rightarrow> undo s0 (CommitMigration name) | Some _ \<Rightarrow> return None)
                       })
                  })
             })
        })
   }"

fun apply_pending :: "(string \<Rightarrow> 'd \<Rightarrow> 'd option) \<Rightarrow> migrations_fs \<Rightarrow> string list \<Rightarrow> ('d mdb, migrate_error option) state" where
  "apply_pending run_sql fsys [] = return None"
| "apply_pending run_sql fsys (name # names) = do {
     applied \<leftarrow> isApplied name;
     (if applied then apply_pending run_sql fsys names
      else do {
        e \<leftarrow> apply_migration run_sql fsys name;
        (case e of None \<Rightarrow> apply_pending run_sql fsys names | Some err \<Rightarrow> return (Some err))
      })
   }"

section \<open>The runner\<close>

definition MigrateFS ::
  "('d \<Rightarrow> bool) \<Rightarrow> (string \<Rightarrow> 'd \<Rightarrow> 'd option) \<Rightarrow> migrations_fs \<Rightarrow> ('d mdb, migrate_error option) state" where
  "MigrateFS has_users run_sql fsys = do {
     svExists \<leftarrow> schemaVersionsExists;
     r \<leftarrow> ensureSchemaVersions;
     (case r of
        None \<Rightarrow> return (Some CreateVersions)
      | Some _ \<Rightarrow>
          (case sqlFilenames fsys of
             None \<Rightarrow> return (Some ReadDir)
           | Some filenames \<Rightarrow> do {
               existing \<leftarrow> (if svExists then return False else isExistingDatabase has_users);
               (if existing then seedExistingDatabase filenames else apply_pending run_sql fsys filenames)
             }))
   }"

section \<open>Exactly once\<close>

lemma wp_stmt: "wp (stmt f) Q s =
  (let s' = s\<lparr>md_calls := Suc (md_calls s)\<rparr> in
   if md_faults s (md_calls s) then Q None s' else case f s' of None \<Rightarrow> Q None s' | Some (x, s'') \<Rightarrow> Q (Some x) s'')"
  by (simp add: wp_def stmt_def Let_def split: option.splits prod.splits)

lemma wp_found: "wp (found p) Q s =
  (let s' = s\<lparr>md_calls := Suc (md_calls s)\<rparr> in Q (\<not> md_faults s (md_calls s) \<and> p s') s')"
  by (simp add: found_def wp_bind wp_stmt wp_return Let_def)

text \<open>The database the scripts of the given names make of \<open>d\<close>, run in this order, once each.\<close>

fun made_by :: "(string \<Rightarrow> 'd \<Rightarrow> 'd option) \<Rightarrow> (string \<Rightarrow> string option) \<Rightarrow> string list \<Rightarrow> 'd \<Rightarrow> 'd option" where
  "made_by run_sql content [] d = Some d"
| "made_by run_sql content (n # ns) d =
     (case content n of None \<Rightarrow> None
      | Some raw \<Rightarrow> (case run_sql raw d of None \<Rightarrow> None | Some d' \<Rightarrow> made_by run_sql content ns d'))"

lemma made_by_snoc:
  "made_by run_sql content (ns @ [n]) d =
     (case made_by run_sql content ns d of None \<Rightarrow> None
      | Some d' \<Rightarrow> (case content n of None \<Rightarrow> None | Some raw \<Rightarrow> run_sql raw d'))"
  by (induction ns arbitrary: d) (auto split: option.splits)

text \<open>The first \<open>k\<close> migrations are recorded, and the tables are what they make of \<open>d0\<close>.\<close>

definition applied :: "(string \<Rightarrow> 'd \<Rightarrow> 'd option) \<Rightarrow> (string \<Rightarrow> string option) \<Rightarrow> string list \<Rightarrow> 'd \<Rightarrow> nat \<Rightarrow> 'd mdb \<Rightarrow> bool" where
  "applied run_sql content ns d0 k s \<longleftrightarrow> k \<le> length ns \<and> md_versions s = Some (take k ns)
     \<and> made_by run_sql content (take k ns) d0 = Some (md_db s)"

lemma applied_calls [simp]: "applied run_sql content ns d0 k (s\<lparr>md_calls := c\<rparr>) = applied run_sql content ns d0 k s"
  by (simp add: applied_def)

text \<open>The files of a release hold the contents of the migrations they are named after.\<close>

definition holds :: "migrations_fs \<Rightarrow> (string \<Rightarrow> string option) \<Rightarrow> bool" where
  "holds fsys content \<longleftrightarrow> (\<forall>n raw. fs_read fsys n = Some raw \<longrightarrow> content n = Some raw)"

lemma apply_again:
  assumes "applied run_sql content ns d0 k s" and "name \<in> set (take k ns)"
  shows "wp (apply_migration run_sql fsys name) (\<lambda>e s'. e \<noteq> None \<and> applied run_sql content ns d0 k s') s"
  using assms
  by (auto simp: apply_migration_def wp_simps wp_stmt Let_def undo_def exec_script_def insert_version_def applied_def
      split: option.splits)

lemma apply_next:
  assumes "applied run_sql content ns d0 k s" and "k < length ns" and "distinct ns" and "holds fsys content"
  shows "wp (apply_migration run_sql fsys (ns ! k)) (\<lambda>e s'. case e of
    None \<Rightarrow> applied run_sql content ns d0 (Suc k) s' | Some _ \<Rightarrow> applied run_sql content ns d0 k s') s"
  using assms
  by (auto simp: apply_migration_def wp_simps wp_stmt Let_def undo_def exec_script_def insert_version_def applied_def
      take_Suc_conv_app_nth made_by_snoc holds_def split: option.splits)

lemma not_yet: "distinct ns \<Longrightarrow> k < length ns \<Longrightarrow> ns ! k \<notin> set (take k ns)"
  by (auto simp: in_set_conv_nth nth_eq_iff_index_eq)

lemma pending_applied:
  assumes "distinct ns" and "holds fsys content"
  shows "take m ns = pre @ names \<Longrightarrow> length pre \<le> k \<Longrightarrow> applied run_sql content ns d0 k s \<Longrightarrow>
    wp (apply_pending run_sql fsys names) (\<lambda>e s'. \<exists>k' \<ge> k. applied run_sql content ns d0 k' s'
      \<and> (e = None \<longrightarrow> length (take m ns) \<le> k')) s"
proof (induction names arbitrary: pre k s)
  case Nil
  then show ?case by (auto simp: wp_simps)
next
  case (Cons name names)
  let ?s = "s\<lparr>md_calls := Suc (md_calls s)\<rparr>"
  have "length pre < length (take m ns)" "take m ns ! length pre = name"
    by (simp_all add: Cons.prems(1))
  then have len: "length pre < length ns" "name = ns ! length pre"
    by simp_all
  show ?case
  proof (cases "length pre < k")
    case True
    then have k: "k \<le> length ns" and mem: "name \<in> set (take k ns)"
      using Cons.prems(3) len by (auto simp: applied_def in_set_conv_nth intro!: exI [of _ "length pre"])
    have "recorded name ?s"
      using Cons.prems(3) mem by (simp add: recorded_def applied_def)
    moreover have "wp (apply_pending run_sql fsys names) (\<lambda>e s'. \<exists>k' \<ge> k. applied run_sql content ns d0 k' s'
      \<and> (e = None \<longrightarrow> length (take m ns) \<le> k')) ?s"
      using Cons.IH [of "pre @ [name]" k ?s] Cons.prems True by simp
    moreover have "wp (apply_migration run_sql fsys name) (\<lambda>e s'. e \<noteq> None \<and> applied run_sql content ns d0 k s') ?s"
      using Cons.prems(3) mem by (intro apply_again) simp_all
    ultimately show ?thesis
      by (auto simp: isApplied_def wp_simps wp_found Let_def elim!: wp_mono split: option.splits)
  next
    case False
    then have k: "k = length pre" using Cons.prems(2) by simp
    have "name \<notin> set (take k ns)"
      using len k assms(1) by (simp add: not_yet)
    then have "\<not> recorded name ?s"
      using Cons.prems(3) by (simp add: recorded_def applied_def)
    moreover have "wp (apply_migration run_sql fsys name) (\<lambda>e s'. case e of
        None \<Rightarrow> applied run_sql content ns d0 (Suc k) s' | Some _ \<Rightarrow> applied run_sql content ns d0 k s') ?s"
      using apply_next [of run_sql content ns d0 k ?s fsys] Cons.prems(3) len k assms by simp
    moreover have "wp (apply_pending run_sql fsys names) (\<lambda>e s'. \<exists>k' \<ge> k. applied run_sql content ns d0 k' s'
      \<and> (e = None \<longrightarrow> length (take m ns) \<le> k')) s'" if "applied run_sql content ns d0 (Suc k) s'" for s'
      using Cons.IH [of "pre @ [name]" "Suc k" s'] Cons.prems(1) k that by (auto elim!: wp_mono intro: Suc_leD)
    ultimately show ?thesis
      by (auto simp: isApplied_def wp_simps wp_found Let_def elim!: wp_mono split: option.splits)
  qed
qed

text \<open>Before the first start there is no table of versions.\<close>

definition migrated :: "(string \<Rightarrow> 'd \<Rightarrow> 'd option) \<Rightarrow> (string \<Rightarrow> string option) \<Rightarrow> string list \<Rightarrow> 'd \<Rightarrow> 'd mdb \<Rightarrow> bool" where
  "migrated run_sql content ns d0 s \<longleftrightarrow>
     md_versions s = None \<and> md_db s = d0 \<or> (\<exists>k. applied run_sql content ns d0 k s)"

lemma seed_refused:
  assumes "applied run_sql content ns d0 k s" and "0 < k"
  shows "wp (seedExistingDatabase (take m ns)) (\<lambda>e s'. applied run_sql content ns d0 k s' \<and> (e = None \<longrightarrow> m = 0)) s"
proof (cases "take m ns")
  case Nil
  with assms show ?thesis by (auto simp: wp_simps applied_def)
next
  case (Cons name names)
  then have "name \<in> set (take k ns)"
    using assms(2) by (cases ns; cases m; cases k) auto
  with Cons assms(1) show ?thesis
    by (auto simp: wp_simps wp_stmt recordApplied_def insert_version_def Let_def applied_def split: option.splits)
qed

lemma MigrateFS_applied:
  assumes "distinct ns" and "holds fsys content" and "\<not> has_users d0"
    and "sqlFilenames fsys = Some (take m ns)" and "migrated run_sql content ns d0 s"
  shows "wp (MigrateFS has_users run_sql fsys) (\<lambda>e s'. migrated run_sql content ns d0 s'
    \<and> (e = None \<longrightarrow> (\<exists>k. applied run_sql content ns d0 k s' \<and> length (take m ns) \<le> k))) s"
proof -
  define goal where "goal = (\<lambda>(e :: migrate_error option) s'. migrated run_sql content ns d0 s'
    \<and> (e = None \<longrightarrow> (\<exists>k. applied run_sql content ns d0 k s' \<and> length (take m ns) \<le> k)))"
  have fail: "goal (Some e) s'" if "applied run_sql content ns d0 k s'" for s' k e
    using that by (auto simp: goal_def migrated_def)
  have pend: "wp (apply_pending run_sql fsys (take m ns)) goal s'" if "applied run_sql content ns d0 k s'" for s' k
    using pending_applied [OF assms(1,2), of m "[]" "take m ns" k run_sql d0 s'] that
    by (auto simp: goal_def migrated_def elim!: wp_mono)
  have seed: "wp (seedExistingDatabase (take m ns)) goal s'" if "applied run_sql content ns d0 k s'" "0 < k" for s' k
    using seed_refused [OF that, of m] that by (auto simp: goal_def migrated_def elim!: wp_mono)
  consider "md_versions s = None" "md_db s = d0" | k where "applied run_sql content ns d0 k s"
    using assms(5) by (auto simp: migrated_def)
  then have "wp (MigrateFS has_users run_sql fsys) goal s"
  proof cases
    case 1
    have "applied run_sql content ns d0 0 (s\<lparr>md_versions := Some [], md_calls := c\<rparr>)" for c
      using 1 by (simp add: applied_def)
    with 1 assms(3,4) pend [of 0] show ?thesis
      by (auto simp: MigrateFS_def schemaVersionsExists_def ensureSchemaVersions_def isExistingDatabase_def wp_simps wp_found
          wp_stmt Let_def goal_def migrated_def)
  next
    case (2 k)
    have ens: "wp ensureSchemaVersions (\<lambda>r s'. applied run_sql content ns d0 k s') s'" if "applied run_sql content ns d0 k s'" for s'
      using that by (auto simp: ensureSchemaVersions_def wp_stmt Let_def applied_def)
    have ex: "wp (isExistingDatabase has_users) (\<lambda>b s'. applied run_sql content ns d0 k s' \<and> (b \<longrightarrow> 0 < k)) s'"
      if "applied run_sql content ns d0 k s'" for s'
      using that assms(3) by (cases k) (auto simp: isExistingDatabase_def wp_found Let_def applied_def)
    show ?thesis
      unfolding MigrateFS_def schemaVersionsExists_def wp_bind wp_found Let_def
      by (rule wp_mono [OF ens]) (use 2 in \<open>auto simp: assms(4) wp_simps split: option.splits
          intro!: wp_mono [OF ex] intro: pend seed fail\<close>)
  qed
  then show ?thesis by (simp add: goal_def)
qed

section \<open>A start on a working disk completes\<close>

lemma made_by_append:
  "made_by run_sql content (xs @ ys) d = (case made_by run_sql content xs d of None \<Rightarrow> None | Some d' \<Rightarrow> made_by run_sql content ys d')"
  by (induction xs arbitrary: d) (auto split: option.splits)

lemma pending_skip:
  "\<forall>c. \<not> md_faults s c \<Longrightarrow> md_versions s = Some vs \<Longrightarrow> set xs \<subseteq> set vs \<Longrightarrow>
   wp (apply_pending run_sql fsys ys) Q (s\<lparr>md_calls := length xs + md_calls s\<rparr>) \<Longrightarrow> wp (apply_pending run_sql fsys (xs @ ys)) Q s"
proof (induction xs arbitrary: s)
  case (Cons x xs)
  with Cons.IH [of "s\<lparr>md_calls := Suc (md_calls s)\<rparr>"] show ?case
    by (simp add: isApplied_def wp_simps wp_found Let_def recorded_def)
qed simp

lemma pending_run:
  "\<forall>c. \<not> md_faults s c \<Longrightarrow> md_versions s = Some vs \<Longrightarrow> distinct names \<Longrightarrow> set vs \<inter> set names = {} \<Longrightarrow>
   \<forall>n \<in> set names. fs_read fsys n = content n \<Longrightarrow> made_by run_sql content names (md_db s) = Some d' \<Longrightarrow>
   wp (apply_pending run_sql fsys names) (\<lambda>e s'. e = None \<and> md_versions s' = Some (vs @ names) \<and> md_db s' = d') s"
proof (induction names arbitrary: s vs)
  case (Cons n names)
  then obtain raw d where raw: "content n = Some raw" "run_sql raw (md_db s) = Some d" "made_by run_sql content names d = Some d'"
    by (auto split: option.splits)
  have "wp (apply_pending run_sql fsys names) (\<lambda>e s'. e = None \<and> md_versions s' = Some ((vs @ [n]) @ names) \<and> md_db s' = d')
      (s\<lparr>md_db := d, md_versions := Some (vs @ [n]), md_calls := c\<rparr>)" for c
    using Cons.prems raw(3) by (intro Cons.IH) auto
  with Cons.prems raw show ?case
    by (auto simp: isApplied_def wp_simps wp_found wp_stmt Let_def recorded_def apply_migration_def exec_script_def insert_version_def)
qed (simp add: wp_simps)

lemma MigrateFS_succeeds:
  assumes "distinct ns" and "\<not> has_users d0" and "sqlFilenames fsys = Some (take m ns)"
    and "\<forall>n \<in> set (take m ns). fs_read fsys n = content n" and "made_by run_sql content (take m ns) d0 \<noteq> None"
    and "migrated run_sql content ns d0 s" and "\<forall>c. \<not> md_faults s c"
  shows "wp (MigrateFS has_users run_sql fsys) (\<lambda>e s'. e = None) s"
proof -
  have pend: "wp (apply_pending run_sql fsys (take m ns)) (\<lambda>e s'. e = None) s'"
    if "applied run_sql content ns d0 k s'" "\<forall>c. \<not> md_faults s' c" for k s'
  proof -
    let ?xs = "take (min k m) ns" and ?ys = "drop k (take m ns)"
    have split: "take m ns = ?xs @ ?ys"
      by (metis append_take_drop_id min.commute take_take)
    have "set ?ys \<subseteq> set (drop k ns)"
      unfolding drop_take by (rule set_take_subset)
    then have disj: "set (take k ns) \<inter> set ?ys = {}"
      using set_take_disj_set_drop_if_distinct [OF assms(1), of k k] by auto
    obtain d' where "made_by run_sql content ?ys (md_db s') = Some d'"
    proof (cases "k \<le> m")
      case True
      then have "made_by run_sql content (take k ns @ ?ys) d0 \<noteq> None"
        using assms(5) split by (simp add: min_absorb1)
      then show ?thesis
        using that \<open>applied run_sql content ns d0 k s'\<close> \<open>\<And>d'. made_by run_sql content ?ys (md_db s') = Some d' \<Longrightarrow> thesis\<close>
        by (auto simp: made_by_append applied_def)
    next
      case False
      with \<open>\<And>d'. made_by run_sql content ?ys (md_db s') = Some d' \<Longrightarrow> thesis\<close> show ?thesis by simp
    qed
    then have "wp (apply_pending run_sql fsys ?ys) (\<lambda>e s'. e = None) (s'\<lparr>md_calls := c\<rparr>)" for c
      using pending_run [of "s'\<lparr>md_calls := c\<rparr>" "take k ns" ?ys fsys content run_sql d'] that disj assms(1,4)
        in_set_dropD [of _ k "take m ns"] by (auto simp: applied_def elim!: wp_mono)
    then show ?thesis
      using pending_skip [of s' "take k ns" ?xs run_sql fsys ?ys] that set_take_subset_set_take [of "min k m" k ns]
      by (simp flip: split add: applied_def)
  qed
  consider "md_versions s = None" "md_db s = d0" | k where "applied run_sql content ns d0 k s"
    using assms(6) by (auto simp: migrated_def)
  then show ?thesis
  proof cases
    case 1
    have "applied run_sql content ns d0 0 (s\<lparr>md_versions := Some [], md_calls := c\<rparr>)" for c
      using 1 by (simp add: applied_def)
    with 1 assms(2,3,7) pend [of 0] show ?thesis
      by (simp add: MigrateFS_def schemaVersionsExists_def ensureSchemaVersions_def isExistingDatabase_def wp_simps wp_found wp_stmt Let_def)
  next
    case (2 k)
    then obtain vs where "md_versions s = Some vs" by (auto simp: applied_def)
    with 2 assms(3,7) pend [of k] show ?thesis
      by (simp add: MigrateFS_def schemaVersionsExists_def ensureSchemaVersions_def wp_simps wp_found wp_stmt Let_def)
  qed
qed

section \<open>Starts\<close>

text \<open>A start of the server with the files of its release, on a database whose statements fail where \<open>fl\<close> says.\<close>

definition start :: "('d \<Rightarrow> bool) \<Rightarrow> (string \<Rightarrow> 'd \<Rightarrow> 'd option) \<Rightarrow> migrations_fs \<times> (nat \<Rightarrow> bool) \<Rightarrow> 'd mdb \<Rightarrow> 'd mdb" where
  "start has_users run_sql = (\<lambda>(fsys, fl) s.
     snd (run_state (MigrateFS has_users run_sql fsys) (s\<lparr>md_faults := fl, md_calls := 0\<rparr>)))"

text \<open>A release ships the first migrations of the final list \<open>ns\<close>, with their final contents.\<close>

definition release :: "(string \<Rightarrow> string option) \<Rightarrow> string list \<Rightarrow> migrations_fs \<Rightarrow> bool" where
  "release content ns fsys \<longleftrightarrow> (\<exists>m. sqlFilenames fsys = Some (take m ns)) \<and> holds fsys content"

definition empty_mdb :: "'d \<Rightarrow> 'd mdb" where
  "empty_mdb d0 = \<lparr>md_db = d0, md_versions = None, md_faults = \<lambda>_. False, md_calls = 0\<rparr>"

lemma migrated_env [simp]:
  "migrated run_sql content ns d0 (s\<lparr>md_faults := fl, md_calls := c\<rparr>) = migrated run_sql content ns d0 s"
  by (simp add: migrated_def applied_def)

lemma migrated_empty: "migrated run_sql content ns d0 (empty_mdb d0)"
  by (simp add: migrated_def empty_mdb_def)

lemma start_keeps:
  assumes "distinct ns" and "\<not> has_users d0" and "release content ns (fst l)" and "migrated run_sql content ns d0 s"
  shows "migrated run_sql content ns d0 (start has_users run_sql l s)"
proof -
  obtain m where "sqlFilenames (fst l) = Some (take m ns)" and "holds (fst l) content"
    using assms(3) by (auto simp: release_def)
  with assms MigrateFS_applied [of ns "fst l" content has_users d0 m run_sql "s\<lparr>md_faults := snd l, md_calls := 0\<rparr>"]
  show ?thesis by (cases l) (simp add: start_def wp_run)
qed

interpretation starts: legal_system "\<lambda>s. distinct ns \<and> \<not> has_users d0 \<and> s = empty_mdb d0" "\<lambda>l. release content ns (fst l)"
    "start has_users run_sql" "\<lambda>s. distinct ns \<and> \<not> has_users d0 \<and> migrated run_sql content ns d0 s"
  for has_users run_sql content ns d0
  by unfold_locales (auto intro: start_keeps migrated_empty)

text \<open>
  C34: every migration is applied exactly once, in order, whatever fails. Starting from an
  empty database, after any sequence of starts of any releases (up- and downgrades), with
  statements failing or the process dying at any points: either nothing has happened, or
  the recorded versions are the first \<open>k\<close> migrations and the tables are exactly what these \<open>k\<close>
  scripts, run once each in order, make of the empty database. No release may insert a
  migration before an older one or change the contents of a released one.
\<close>
theorem migrations_exactly_once:
  assumes "distinct ns" and "\<not> has_users d0" and "\<forall>l \<in> set ls. release content ns (fst l)"
    and "s = fold (start has_users run_sql) ls (empty_mdb d0)"
  shows "md_versions s = None \<and> md_db s = d0
    \<or> (\<exists>k \<le> length ns. md_versions s = Some (take k ns) \<and> made_by run_sql content (take k ns) d0 = Some (md_db s))"
proof -
  have "migrated run_sql content ns d0 s"
    using starts.legal_run [of ls content ns has_users d0 "empty_mdb d0" run_sql] assms by simp
  then show ?thesis by (auto simp: migrated_def applied_def)
qed

text \<open>
  C35: the migration recovers by itself. Take a database that began empty, without users and
  without the table of versions, and any sequence of starts on it, failed or interrupted at
  any point, of releases whose files are all beginnings of one list of migrations (no migration
  is inserted before an older one or changed). Then a start in which no statement fails, with a
  release of that kind whose scripts SQLite accepts on the tables the earlier ones make, reports no
  error and leaves all its migrations applied, each once and in order. (A database from before the
  versions were tracked is not covered: \<open>seeding_interrupted\<close> below.)
\<close>
theorem migration_completes:
  assumes "distinct ns" and "\<not> has_users d0" and "\<forall>l \<in> set ls. release content ns (fst l)"
    and "s = fold (start has_users run_sql) ls (empty_mdb d0)"
    and "sqlFilenames fsys = Some (take m ns)" and "\<forall>n. fs_read fsys n = content n"
    and "made_by run_sql content (take m ns) d0 \<noteq> None"
  shows "\<exists>s' k. run_state (MigrateFS has_users run_sql fsys) (s\<lparr>md_faults := \<lambda>_. False, md_calls := 0\<rparr>) = (None, s')
    \<and> length (take m ns) \<le> k \<and> md_versions s' = Some (take k ns) \<and> made_by run_sql content (take k ns) d0 = Some (md_db s')"
proof -
  let ?s = "s\<lparr>md_faults := \<lambda>_. False, md_calls := 0\<rparr>"
  have s: "migrated run_sql content ns d0 ?s"
    using starts.legal_run [of ls content ns has_users d0 "empty_mdb d0" run_sql] assms(1-4) by simp
  have "holds fsys content" using assms(6) by (simp add: holds_def)
  with s assms have "wp (MigrateFS has_users run_sql fsys) (\<lambda>e s'. migrated run_sql content ns d0 s'
      \<and> (e = None \<longrightarrow> (\<exists>k. applied run_sql content ns d0 k s' \<and> length (take m ns) \<le> k))) ?s"
    by (intro MigrateFS_applied)
  moreover have "wp (MigrateFS has_users run_sql fsys) (\<lambda>e s'. e = None) ?s"
    using s assms by (intro MigrateFS_succeeds [of ns has_users d0 fsys m content run_sql]) simp_all
  ultimately show ?thesis
    by (auto simp: wp_def applied_def split: prod.splits)
qed

section \<open>Databases older than the tracking\<close>

lemma seed_prefix:
  assumes "distinct (vs @ xs @ y # ys)"
  shows "md_versions s = Some vs \<Longrightarrow> md_faults s = (\<lambda>c. c = md_calls s + length xs) \<Longrightarrow>
    \<exists>c. run_state (seedExistingDatabase (xs @ y # ys)) s = (Some (Seeding y), s\<lparr>md_versions := Some (vs @ xs), md_calls := c\<rparr>)"
  using assms
proof (induction xs arbitrary: vs s)
  case Nil
  then show ?case by (auto simp: recordApplied_def stmt_def Let_def intro!: exI [of _ "Suc (md_calls s)"])
next
  case (Cons x xs)
  let ?s = "s\<lparr>md_versions := Some (vs @ [x]), md_calls := Suc (md_calls s)\<rparr>"
  have "run_state (recordApplied x) s = (Some (), ?s)"
    using Cons.prems by (simp add: recordApplied_def stmt_def insert_version_def Let_def)
  with Cons.IH [of ?s "vs @ [x]"] Cons.prems show ?case by auto
qed

text \<open>
  an interrupted seeding destroys its purpose. On a database that was made before
  versions were tracked, the first start records every migration without running it, one
  statement at a time and outside any transaction. When one of these statements fails, or the
  process dies there, the next start takes the table of versions for complete and runs the
  remaining scripts on the tables that already have them, which the seeding exists to
  prevent (a script that SQLite refuses on existing tables keeps the server from starting).
\<close>
theorem seeding_interrupted:
  assumes "has_users d" and "sqlFilenames fsys = Some (xs @ y # ys)" and "distinct (xs @ y # ys)"
    and "\<forall>n. fs_read fsys n = content n" and "made_by run_sql content (y # ys) d = Some d'"
  shows "md_db (start has_users run_sql (fsys, \<lambda>_. False) (start has_users run_sql (fsys, \<lambda>c. c = 3 + length xs) (empty_mdb d))) = d'"
proof -
  define s1 where "s1 = start has_users run_sql (fsys, \<lambda>c. c = 3 + length xs) (empty_mdb d)"
  have s1: "md_versions s1 = Some xs \<and> md_db s1 = d"
    using seed_prefix [of "[]" xs y ys "empty_mdb d\<lparr>md_faults := \<lambda>c. c = 3 + length xs, md_calls := Suc (Suc (Suc 0)), md_versions := Some []\<rparr>"] assms(1-3)
    by (auto simp: s1_def start_def MigrateFS_def schemaVersionsExists_def ensureSchemaVersions_def isExistingDatabase_def found_def
        stmt_def Let_def empty_mdb_def numeral_3_eq_3)
  let ?s = "s1\<lparr>md_faults := \<lambda>_. False, md_calls := length xs + 2\<rparr>"
  have "wp (apply_pending run_sql fsys (y # ys)) (\<lambda>e s'. e = None \<and> md_versions s' = Some (xs @ y # ys) \<and> md_db s' = d') ?s"
    using s1 assms by (intro pending_run) auto
  then have "wp (apply_pending run_sql fsys (xs @ y # ys)) (\<lambda>e s'. e = None \<and> md_versions s' = Some (xs @ y # ys) \<and> md_db s' = d')
      (s1\<lparr>md_faults := \<lambda>_. False, md_calls := 2\<rparr>)"
    using s1 by (intro pending_skip [where vs = xs]) simp_all
  then have "wp (MigrateFS has_users run_sql fsys) (\<lambda>e s'. md_db s' = d') (s1\<lparr>md_faults := \<lambda>_. False, md_calls := 0\<rparr>)"
    using s1 assms(2)
    by (auto simp: MigrateFS_def schemaVersionsExists_def ensureSchemaVersions_def wp_simps wp_found wp_stmt Let_def numeral_2_eq_2 elim!: wp_mono)
  then show ?thesis
    unfolding s1_def [symmetric] by (simp add: start_def wp_run)
qed

section \<open>Instances\<close>

text \<open>Tables that are the list of the scripts run on them.\<close>

definition log_sql :: "string \<Rightarrow> string list \<Rightarrow> string list option" where
  "log_sql raw d = Some (d @ [raw])"

definition sample_fs :: migrations_fs where
  "sample_fs = \<lparr>fs_entries = Some [(''2.sql'', False), (''README'', False), (''1.sql'', False)], fs_read = Some\<rparr>"

lemma sample_names: "sqlFilenames sample_fs = Some [''1.sql'', ''2.sql'']"
  by (simp add: sqlFilenames_def sample_fs_def hasSuffix_def hasPrefix_def sort_key_def less_char_def list_le_def list_less_def)

lemma sample_release: "release Some [''1.sql'', ''2.sql''] sample_fs"
proof -
  have "sqlFilenames sample_fs = Some (take 2 [''1.sql'', ''2.sql''])"
    by (simp add: sample_names)
  moreover have "holds sample_fs Some"
    by (simp add: holds_def sample_fs_def)
  ultimately show ?thesis unfolding release_def by blast
qed

text \<open>The first start dies before its second migration is committed.\<close>

theorem migrations_exactly_once_witness:
  "let s = fold (start (\<lambda>d. d \<noteq> []) log_sql) [(sample_fs, \<lambda>c. 10 \<le> c), (sample_fs, \<lambda>_. False)] (empty_mdb [])
   in md_versions s = None \<and> md_db s = []
    \<or> (\<exists>k \<le> length [''1.sql'', ''2.sql'']. md_versions s = Some (take k [''1.sql'', ''2.sql'']) \<and> made_by log_sql Some (take k [''1.sql'', ''2.sql'']) [] = Some (md_db s))"
  using migrations_exactly_once [of "[''1.sql'', ''2.sql'']" "\<lambda>d. d \<noteq> []" "[]" "[(sample_fs, \<lambda>c. 10 \<le> c), (sample_fs, \<lambda>_. False)]"
    Some _ log_sql, OF _ _ _ refl] sample_release
  unfolding Let_def by simp

theorem migration_completes_witness:
  "let s = fold (start (\<lambda>d. d \<noteq> []) log_sql) [(sample_fs, \<lambda>c. 10 \<le> c)] (empty_mdb [])
   in fst (run_state (MigrateFS (\<lambda>d. d \<noteq> []) log_sql sample_fs) (s\<lparr>md_faults := \<lambda>_. False, md_calls := 0\<rparr>)) = None"
proof -
  have "sqlFilenames sample_fs = Some (take 2 [''1.sql'', ''2.sql''])" "\<forall>n. fs_read sample_fs n = Some n"
    by (simp_all add: sample_names) (simp add: sample_fs_def)
  from migration_completes [of _ "\<lambda>d. d \<noteq> []" "[]" "[(sample_fs, \<lambda>c. 10 \<le> c)]" Some _ log_sql, OF _ _ _ refl this] sample_release
  show ?thesis by (auto simp: Let_def log_sql_def)
qed

theorem seeding_interrupted_witness:
  "md_db (start (\<lambda>d. d \<noteq> []) log_sql (sample_fs, \<lambda>_. False)
     (start (\<lambda>d. d \<noteq> []) log_sql (sample_fs, \<lambda>c. c = 3 + length [''1.sql'']) (empty_mdb [''1.sql'', ''2.sql'']))) =
   [''1.sql'', ''2.sql'', ''2.sql'']"
  by (rule seeding_interrupted [where xs = "[''1.sql'']" and y = "''2.sql''" and ys = "[]" and content = Some])
    (simp_all add: sample_names log_sql_def, simp add: sample_fs_def)

end
