(* ===== verification/UpdateSafety.thy ===== *)
theory UpdateSafety
  imports SampleServer
begin

text \<open>
  Updates are verified before they are installed, the binary is never lost without a copy,
  and GitHub is asked at most every five minutes. The name under which the checksum is
  looked up is that of the temporary file, which no release lists.
\<close>

section \<open>How often GitHub is asked\<close>

definition asks :: "time \<Rightarrow> Updater \<Rightarrow> bool" where
  "asks now u \<longleftrightarrow> \<not> (ud_cache u \<noteq> None \<and> now < ud_cacheExpiry u) \<and> \<not> (ud_cachedErr u \<noteq> None \<and> now < ud_errCacheExpiry u)"

text \<open>The times at which a sequence of checks fetches the release, each with the network it finds.\<close>

fun fetch_times :: "(web \<times> time) list \<Rightarrow> Updater \<Rightarrow> time list" where
  "fetch_times [] u = []"
| "fetch_times ((wb, now) # cs) u =
     (if asks now u then [now] else []) @ fetch_times cs (snd (CheckForUpdate wb now u))"

definition quiet_until :: "time \<Rightarrow> Updater \<Rightarrow> bool" where
  "quiet_until t u \<longleftrightarrow> (\<forall>now. asks now u \<longrightarrow> t \<le> now)"

lemma check_without_asking: "\<not> asks now u \<Longrightarrow> snd (CheckForUpdate wb now u) = u"
  by (auto simp: asks_def CheckForUpdate_def)

lemma quiet_after_asking: "asks now u \<Longrightarrow> quiet_until (now + errorCacheTTL) (snd (CheckForUpdate wb now u))"
  by (auto simp: asks_def quiet_until_def CheckForUpdate_def cacheTTL_def errorCacheTTL_def Minute_def Second_def split: sum.splits)

lemma fetch_times_after: "quiet_until t u \<Longrightarrow> f \<in> set (fetch_times cs u) \<Longrightarrow> t \<le> f"
proof (induction cs u arbitrary: t rule: fetch_times.induct)
  case (2 wb now cs u)
  show ?case
  proof (cases "asks now u")
    case True
    then have "t \<le> now" using "2.prems"(1) by (simp add: quiet_until_def)
    moreover have "now + errorCacheTTL \<le> f" if "f \<in> set (fetch_times cs (snd (CheckForUpdate wb now u)))"
      using "2.IH" quiet_after_asking [OF True] that by blast
    moreover have "0 < errorCacheTTL" by (simp add: errorCacheTTL_def)
    ultimately show ?thesis using "2.prems"(2) True by force
  next
    case False
    with "2.prems" "2.IH" show ?thesis by (simp add: check_without_asking)
  qed
qed simp

text \<open>
  However often clients and administrators ask for updates, and whatever GitHub answers, the
  API of GitHub is asked at most once in five minutes.
\<close>
theorem github_spared:
  "sorted_wrt (\<lambda>a b. a + 5 * Minute \<le> b) (fetch_times cs u)"
proof (induction cs u rule: fetch_times.induct)
  case (2 wb now cs u)
  have "now + 5 * Minute \<le> f" if "asks now u" "f \<in> set (fetch_times cs (snd (CheckForUpdate wb now u)))" for f
    using fetch_times_after [OF quiet_after_asking [OF that(1)] that(2)] by (simp add: errorCacheTTL_def)
  with 2 show ?case by simp
qed simp

section \<open>What is installed\<close>

lemma key_lookup: "Mapping.lookup (Mapping.update k v m) k = Some v" "k' \<noteq> k \<Longrightarrow> Mapping.lookup (Mapping.update k v m) k' = Mapping.lookup m k'"
  "Mapping.lookup (Mapping.delete k m) k = None" "k' \<noteq> k \<Longrightarrow> Mapping.lookup (Mapping.delete k m) k' = Mapping.lookup m k'"
  by (simp_all add: lookup_update lookup_update_neq lookup_delete lookup_delete_neq)

text \<open>
  The content of a download that the updater may install under a name: from a release of its repository, complete, not over
  the limit, and with the digest that the checksum file of a release of the repository gives for the name.
\<close>

definition genuine :: "(string \<Rightarrow> string) \<Rightarrow> web \<Rightarrow> Updater \<Rightarrow> string \<Rightarrow> string \<Rightarrow> string \<Rightarrow> string \<Rightarrow> bool" where
  "genuine sha256 wb u downloadURL checksumURL name content \<longleftrightarrow>
     (let releases = ''https://github.com/'' @ ud_repoOwner u @ ''/'' @ ud_repoName u @ ''/releases/download/''
      in hasPrefix downloadURL releases \<and> hasPrefix checksumURL releases)
     \<and> length content \<le> maxBinarySize
     \<and> (\<exists>reply. wb_get wb downloadURL (auth_header wb u downloadURL) = Some reply \<and> hr_status reply = 200 \<and> content = hr_body reply)
     \<and> (\<exists>data hash. fetchBody wb u checksumURL = Inr data \<and> ParseChecksumFile data name = Inr hash
          \<and> key_matches (hexEncode (sha256 content)) hash)"

lemma download_ok:
  assumes "downloadFile wb u df url dest d = (Inr x, d')"
  shows "\<exists>reply. wb_get wb url (auth_header wb u url) = Some reply \<and> hr_status reply = 200 \<and> length (hr_body reply) \<le> maxBinarySize
    \<and> d' = Mapping.update dest (hr_body reply) d"
  using assms by (auto simp: downloadFile_def Let_def split: option.splits if_splits)

lemma download_other:
  "downloadFile wb u df url dest d = (r, d') \<Longrightarrow> p \<noteq> dest \<Longrightarrow> Mapping.lookup d' p = Mapping.lookup d p"
  by (auto simp: downloadFile_def Let_def key_lookup split: option.splits if_splits)

lemma verified_genuine:
  assumes "DownloadAndVerify sha256 wb df u downloadURL checksumURL dest d = (Inr x, d')"
  shows "\<exists>content. Mapping.lookup d' dest = Some content \<and> genuine sha256 wb u downloadURL checksumURL (Base dest) content"
  using assms
  by (auto simp: DownloadAndVerify_def genuine_def ValidateDownloadURL_def download_prefix_def VerifyChecksum_def Let_def key_lookup
      split: option.splits sum.splits prod.splits if_splits dest!: download_ok)

lemma verified_other:
  "DownloadAndVerify sha256 wb df u downloadURL checksumURL dest d = (r, d') \<Longrightarrow> p \<noteq> dest \<Longrightarrow> Mapping.lookup d' p = Mapping.lookup d p"
  by (auto simp: DownloadAndVerify_def key_lookup split: option.splits sum.splits prod.splits if_splits dest!: download_other)

lemma failed_leaves_nothing:
  "DownloadAndVerify sha256 wb df u downloadURL checksumURL dest d = (Inl e, d') \<Longrightarrow> \<not> df_remove df \<Longrightarrow>
   Mapping.lookup d' dest = None \<or> d' = d"
  by (auto simp: DownloadAndVerify_def downloadFile_def Let_def key_lookup split: option.splits sum.splits prod.splits if_splits)

lemma genuine_accepted:
  assumes "wb_get wb downloadURL (auth_header wb u downloadURL) = Some reply" and "\<not> hr_broken reply"
    and "\<not> df_create df" and "df_write df = None" and "\<not> df_read df"
    and "genuine sha256 wb u downloadURL checksumURL (Base dest) (hr_body reply)"
  shows "fst (DownloadAndVerify sha256 wb df u downloadURL checksumURL dest d) = Inr ()"
  using assms
  by (auto simp: DownloadAndVerify_def genuine_def ValidateDownloadURL_def download_prefix_def downloadFile_def VerifyChecksum_def Let_def key_lookup split: option.splits)

text \<open>
  C39: What an update downloads is verified. If \<^verbatim>\<open>DownloadAndVerify\<close> succeeds, both URLs are under
  the releases of the updater's own repository, and the destination holds the complete reply to the
  download, at most 500 MiB, whose SHA-256 digest is the one the fetched checksum file lists
  under the base name of the destination. If it fails, the destination holds nothing or the
  disk is as it was, unless the operating system refuses to remove the file. No other file changes. And a
  genuine download is accepted when the disk and the connection work.
\<close>
theorem download_verified:
  assumes "DownloadAndVerify sha256 wb df u downloadURL checksumURL dest d = (r, d')"
  shows "(case r of
        Inr _ \<Rightarrow> \<exists>content. Mapping.lookup d' dest = Some content \<and> genuine sha256 wb u downloadURL checksumURL (Base dest) content
      | Inl _ \<Rightarrow> Mapping.lookup d' dest = None \<or> d' = d \<or> df_remove df)
    \<and> (\<forall>p. p \<noteq> dest \<longrightarrow> Mapping.lookup d' p = Mapping.lookup d p)
    \<and> (\<forall>reply. wb_get wb downloadURL (auth_header wb u downloadURL) = Some reply \<and> \<not> hr_broken reply \<and> \<not> df_create df \<and> df_write df = None
         \<and> \<not> df_read df \<and> genuine sha256 wb u downloadURL checksumURL (Base dest) (hr_body reply) \<longrightarrow> r = Inr ())"
proof (intro conjI allI impI)
  show "case r of
        Inr _ \<Rightarrow> \<exists>content. Mapping.lookup d' dest = Some content \<and> genuine sha256 wb u downloadURL checksumURL (Base dest) content
      | Inl _ \<Rightarrow> Mapping.lookup d' dest = None \<or> d' = d \<or> df_remove df"
    using assms verified_genuine failed_leaves_nothing by (fastforce split: sum.split)
qed (use verified_other [OF assms] genuine_accepted [of wb downloadURL u _ df sha256 checksumURL dest d] assms in auto)

lemma swap_keeps_a_binary:
  assumes "swap_binary sw exePath d = (res, d')"
  shows "case res of
      Swapped \<Rightarrow> Mapping.lookup d' exePath = Mapping.lookup d (exePath @ ''.new'') \<and> Mapping.lookup d' (exePath @ ''.old'') = Mapping.lookup d exePath
    | BinaryMissing \<Rightarrow> Mapping.lookup d' (exePath @ ''.old'') = Mapping.lookup d exePath
    | _ \<Rightarrow> Mapping.lookup d' exePath = Mapping.lookup d exePath"
  using assms
  by (auto simp: swap_binary_def Rename_def Let_def key_lookup split: option.splits if_splits)

lemma disk_check_update: "sv_disk (snd (run_state (check_update wb) s)) = sv_disk s"
  by (auto simp: check_update_def run_simps split: option.splits prod.splits)

lemma disk_restart: "sv_disk (snd (run_state (BroadcastServerRestart reason n) s)) = sv_disk s" for s :: server
  by (simp add: BroadcastServerRestart_def BroadcastToAll_def enqueue_def split: prod.splits)

lemma download_update_ok:
  assumes "run_state (download_update etext sha256 wb df exe link info) s = (rs, s')" and "rs_status rs = 200"
  shows "\<exists>exePath. Option.bind exe link = Some exePath \<and>
    DownloadAndVerify sha256 wb df (the (sv_updater s)) (ui_DownloadURL info) (ui_ChecksumURL info) (exePath @ ''.new'') (sv_disk s) = (Inr (), sv_disk s')"
proof -
  obtain p exePath where p: "exe = Some p" "link p = Some exePath"
    using assms by (auto simp: download_update_def internal_error_def writeErr_def writeJSON_def split: option.splits)
  obtain v d' where v: "DownloadAndVerify sha256 wb df (the (sv_updater s)) (ui_DownloadURL info) (ui_ChecksumURL info)
      (exePath @ ''.new'') (sv_disk s) = (v, d')"
    by (metis surj_pair)
  with assms p have "v = Inr ()"
    by (auto simp: download_update_def on_disk_def writeErr_def writeJSON_def split: sum.splits)
  moreover from this v assms p have "s' = snd (run_state (BroadcastServerRestart ''update'' 5) (s\<lparr>sv_disk := d'\<rparr>))"
    by (auto simp: download_update_def on_disk_def split: prod.splits)
  then have "sv_disk s' = d'" by (simp add: disk_restart)
  ultimately show ?thesis using v p by auto
qed

lemma checked_updater:
  "run_state (check_update wb) s = (Some (Inr info), s1) \<Longrightarrow> \<exists>u. sv_updater s1 = Some u"
  by (auto simp: check_update_def run_simps split: option.splits prod.splits)

lemma apply_update_ok:
  assumes "run_state (handleApplyUpdate etext sha256 wb df exe link cx r) s = (rs, s')" and "rs_status rs = 200"
  shows "\<exists>info s1. run_state (check_update wb) s = (Some (Inr info), s1) \<and> ui_UpdateAvailable info \<and> sv_disk s1 = sv_disk s
    \<and> run_state (download_update etext sha256 wb df exe link info) s1 = (rs, s')"
proof -
  obtain c s1 where c: "run_state (check_update wb) s = (c, s1)" by (cases "run_state (check_update wb) s")
  then have "sv_disk s1 = sv_disk s" using disk_check_update [of wb s] by simp
  with assms c show ?thesis
    by (auto simp: handleApplyUpdate_def update_unavailable_def writeErr_def writeJSON_def split: option.splits sum.splits if_splits)
qed

text \<open>
  Only what the release lists is installed: when the request to apply an update succeeds, the
  file beside the binary is what \<open>download_verified\<close> says of the release and the repository of the server's
  updater, and replacing the binary puts this file in its place, or leaves the old binary
  there, or, when both renames fail, leaves it beside its place: it is never lost.
\<close>
theorem update_installs_listed:
  assumes "run_state (handleApplyUpdate etext sha256 wb df exe link cx r) s = (rs, s')" and "rs_status rs = 200"
  shows "\<exists>exePath info s1 u content. Option.bind exe link = Some exePath
    \<and> run_state (check_update wb) s = (Some (Inr info), s1) \<and> sv_updater s1 = Some u \<and> ui_UpdateAvailable info
    \<and> Mapping.lookup (sv_disk s') (exePath @ ''.new'') = Some content
    \<and> genuine sha256 wb u (ui_DownloadURL info) (ui_ChecksumURL info) (Base (exePath @ ''.new'')) content
    \<and> (\<forall>p. p \<noteq> exePath @ ''.new'' \<longrightarrow> Mapping.lookup (sv_disk s') p = Mapping.lookup (sv_disk s) p)
    \<and> (\<forall>sw. case swap_binary sw exePath (sv_disk s') of (res, d) \<Rightarrow>
        if res = BinaryMissing then Mapping.lookup d (exePath @ ''.old'') = Mapping.lookup (sv_disk s) exePath
        else Mapping.lookup d exePath = (if res = Swapped then Some content else Mapping.lookup (sv_disk s) exePath))"
proof -
  from apply_update_ok [OF assms] obtain info s1 where info: "run_state (check_update wb) s = (Some (Inr info), s1)" "ui_UpdateAvailable info"
    and disk: "sv_disk s1 = sv_disk s" and run: "run_state (download_update etext sha256 wb df exe link info) s1 = (rs, s')" by blast
  obtain u where u: "sv_updater s1 = Some u" using checked_updater [OF info(1)] ..
  from download_update_ok [OF run assms(2)] disk u obtain exePath where exe: "Option.bind exe link = Some exePath" and
    v: "DownloadAndVerify sha256 wb df u (ui_DownloadURL info) (ui_ChecksumURL info) (exePath @ ''.new'') (sv_disk s) = (Inr (), sv_disk s')"
    by auto
  from verified_genuine [OF v] obtain content where content: "Mapping.lookup (sv_disk s') (exePath @ ''.new'') = Some content"
    "genuine sha256 wb u (ui_DownloadURL info) (ui_ChecksumURL info) (Base (exePath @ ''.new'')) content" by blast
  have sw: "case swap_binary sw exePath (sv_disk s') of (res, d) \<Rightarrow>
        if res = BinaryMissing then Mapping.lookup d (exePath @ ''.old'') = Mapping.lookup (sv_disk s) exePath
        else Mapping.lookup d exePath = (if res = Swapped then Some content else Mapping.lookup (sv_disk s) exePath)" for sw
    using swap_keeps_a_binary [of sw exePath "sv_disk s'"] verified_other [OF v, of exePath] content(1)
    by (auto split: prod.splits swap_result.splits)
  show ?thesis
    by (intro exI [of _ exePath] exI [of _ info] exI [of _ s1] exI [of _ u] exI [of _ content] conjI allI impI exe sw info u content verified_other [OF v])
qed

section \<open>Which name is looked up\<close>

lemma Base_new: "hasSuffix (Base (p @ ''.new'')) ''.new''"
  by (simp add: Base_def hasSuffix_def hasPrefix_def Let_def)

text \<open>A checksum file that lists the release's files, none of which is called \<^verbatim>\<open>.new\<close>.\<close>

definition lists_no_new :: "string \<Rightarrow> bool" where
  "lists_no_new data \<longleftrightarrow> (\<forall>line \<in> set (split_on (CHR 0x0A) data).
     case Fields (TrimSpace line) of [] \<Rightarrow> True | parts \<Rightarrow> \<not> hasSuffix (last parts) ''.new'')"

lemma not_listed:
  assumes "lists_no_new data" and "hasSuffix name ''.new''"
  shows "ParseChecksumFile data name = Inl (NotListed name)"
proof -
  have "parse_checksum_lines lines name = None"
    if "\<forall>line \<in> set lines. case Fields (TrimSpace line) of [] \<Rightarrow> True | parts \<Rightarrow> \<not> hasSuffix (last parts) ''.new''" for lines
    using that assms(2) by (induction lines) (auto simp: Let_def split: list.splits)
  then show ?thesis
    using assms(1) by (simp add: ParseChecksumFile_def lists_no_new_def)
qed

lemma unlisted_download:
  assumes "\<And>data. fetchBody wb u checksumURL = Inr data \<Longrightarrow> lists_no_new data"
  shows "\<exists>e. DownloadAndVerify sha256 wb df u downloadURL checksumURL (p @ ''.new'') d = (Inl e, d)
    \<and> (hasPrefix downloadURL (download_prefix u) \<and> hasPrefix checksumURL (download_prefix u) \<and> (\<exists>data. fetchBody wb u checksumURL = Inr data)
       \<longrightarrow> e = NotListed (Base (p @ ''.new'')))"
  using not_listed [OF assms Base_new] by (auto simp: DownloadAndVerify_def ValidateDownloadURL_def split: sum.splits)

lemma apply_run:
  assumes "run_state (check_update wb) s = (c, s1)"
  shows "run_state (handleApplyUpdate etext sha256 wb df exe link cx r) s =
    (case c of
       None \<Rightarrow> (update_unavailable, s1)
     | Some (Inl e) \<Rightarrow> (writeErr 502 ''UPDATE_CHECK_FAILED'' (etext e), s1)
     | Some (Inr info) \<Rightarrow>
         if \<not> ui_UpdateAvailable info then (writeErr 409 ''NO_UPDATE'' ''server is already up to date'', s1)
         else if ui_DownloadURL info = [] \<or> ui_ChecksumURL info = [] then (writeErr 502 ''MISSING_ASSETS'' ''release is missing required assets'', s1)
         else run_state (download_update etext sha256 wb df exe link info) s1)"
  using assms by (simp add: handleApplyUpdate_def split: option.split sum.split)

lemma download_update_unlisted:
  assumes "sv_updater s = Some u" and "\<And>data. fetchBody wb u (ui_ChecksumURL info) = Inr data \<Longrightarrow> lists_no_new data"
    and "run_state (download_update etext sha256 wb df exe link info) s = (rs, s')"
  shows "rs_status rs \<noteq> 200 \<and> sv_disk s' = sv_disk s
    \<and> (\<forall>exePath. Option.bind exe link = Some exePath \<and> hasPrefix (ui_DownloadURL info) (download_prefix u)
         \<and> hasPrefix (ui_ChecksumURL info) (download_prefix u) \<and> (\<exists>data. fetchBody wb u (ui_ChecksumURL info) = Inr data)
         \<longrightarrow> rs = writeErr 502 ''DOWNLOAD_FAILED'' (etext (NotListed (Base (exePath @ ''.new'')))))"
proof (cases "Option.bind exe link")
  case None
  with assms(3) show ?thesis by (auto simp: download_update_def internal_error_def writeErr_def writeJSON_def split: option.splits)
next
  case (Some exePath)
  from unlisted_download [of wb u "ui_ChecksumURL info" sha256 df "ui_DownloadURL info" exePath "sv_disk s", OF assms(2)]
  obtain e where e: "DownloadAndVerify sha256 wb df u (ui_DownloadURL info) (ui_ChecksumURL info) (exePath @ ''.new'') (sv_disk s) = (Inl e, sv_disk s)"
    "hasPrefix (ui_DownloadURL info) (download_prefix u) \<and> hasPrefix (ui_ChecksumURL info) (download_prefix u)
       \<and> (\<exists>data. fetchBody wb u (ui_ChecksumURL info) = Inr data) \<longrightarrow> e = NotListed (Base (exePath @ ''.new''))"
    by blast
  have "rs = writeErr 502 ''DOWNLOAD_FAILED'' (etext e)" "sv_disk s' = sv_disk s"
    using assms(1,3) Some e(1) by (auto simp: download_update_def on_disk_def bind_eq_Some_conv)
  with e(2) Some show ?thesis by (auto simp: writeErr_def writeJSON_def)
qed

text \<open>
  No update can be applied. The download is saved as the path of the binary with \<^verbatim>\<open>.new\<close>
  appended, and the checksum is looked up under the name of that file instead of the name of
  the asset. So when the checksum file of the release that the server's updater finds lists only
  names that do not end in \<^verbatim>\<open>.new\<close> (the asset is \<^verbatim>\<open>chatserver.exe\<close>), the request never succeeds and no file
  changes; and where the release, its URLs and the checksum file are in order, the answer
  is 502 and says that the name with \<^verbatim>\<open>.new\<close> is not listed.
\<close>
theorem update_never_succeeds:
  assumes "run_state (check_update wb) s = (c, s1)"
    and "\<forall>info u data. c = Some (Inr info) \<and> sv_updater s1 = Some u \<and> fetchBody wb u (ui_ChecksumURL info) = Inr data \<longrightarrow> lists_no_new data"
    and "run_state (handleApplyUpdate etext sha256 wb df exe link cx r) s = (rs, s')"
  shows "rs_status rs \<noteq> 200 \<and> sv_disk s' = sv_disk s
    \<and> (\<forall>info u exePath. c = Some (Inr info) \<and> sv_updater s1 = Some u \<and> ui_UpdateAvailable info \<and> Option.bind exe link = Some exePath
         \<and> hasPrefix (ui_DownloadURL info) (download_prefix u) \<and> hasPrefix (ui_ChecksumURL info) (download_prefix u)
         \<and> (\<exists>data. fetchBody wb u (ui_ChecksumURL info) = Inr data)
         \<longrightarrow> rs = writeErr 502 ''DOWNLOAD_FAILED'' (etext (NotListed (Base (exePath @ ''.new'')))))"
proof (cases "\<exists>info. c = Some (Inr info) \<and> ui_UpdateAvailable info \<and> ui_DownloadURL info \<noteq> [] \<and> ui_ChecksumURL info \<noteq> []")
  case True
  then obtain info where info: "c = Some (Inr info)" "ui_UpdateAvailable info" "ui_DownloadURL info \<noteq> []" "ui_ChecksumURL info \<noteq> []" by blast
  then obtain u where u: "sv_updater s1 = Some u" using checked_updater assms(1) by blast
  have run: "run_state (download_update etext sha256 wb df exe link info) s1 = (rs, s')"
    using assms(3) info by (simp add: apply_run [OF assms(1)])
  have "sv_disk s1 = sv_disk s" using disk_check_update [of wb s] assms(1) by simp
  with download_update_unlisted [OF u _ run] assms(2) info(1) u show ?thesis by auto
next
  case False
  have "sv_disk s1 = sv_disk s" using disk_check_update [of wb s] assms(1) by simp
  moreover have "\<not> hasPrefix [] (download_prefix u)" for u by (simp add: hasPrefix_def download_prefix_def)
  ultimately show ?thesis
    using False assms(3) by (auto simp: apply_run [OF assms(1)] update_unavailable_def writeErr_def writeJSON_def split: option.splits sum.splits if_splits)
qed

section \<open>Instances\<close>

text \<open>A release of one byte and a checksum file of one line, on a network that serves both.\<close>

definition sample_info :: UpdateInfo where
  "sample_info = \<lparr>ui_Current = ''v1'', ui_Latest = ''v2'', ui_UpdateAvailable = True, ui_ReleaseURL = [],
     ui_DownloadURL = ''https://github.com/o/r/releases/download/b'', ui_ChecksumURL = ''https://github.com/o/r/releases/download/c'',
     ui_ReleaseNotes = [], ui_Assets = []\<rparr>"

definition sample_web :: "string \<Rightarrow> web" where
  "sample_web line = \<lparr>wb_get = (\<lambda>url _. Some \<lparr>hr_status = 200, hr_body = (if last url = CHR ''b'' then ''B'' else line), hr_broken = False\<rparr>),
     wb_host = (\<lambda>_. None), wb_compare = (\<lambda>_ _. 0)\<rparr>"

definition updating_server :: server where
  "updating_server = sample_server\<lparr>sv_updater := Some ((NewUpdater ''1'' [] ''o'' ''r'')\<lparr>ud_cache := Some sample_info, ud_cacheExpiry := 1\<rparr>)\<rparr>"

lemma sample_lines:
  "split_on (CHR 0x0A) ''42 x.new'' = [''42 x.new'']" "Fields (TrimSpace ''42 x.new'') = [''42'', ''x.new'']"
  "split_on (CHR 0x0A) ''43 x.new'' = [''43 x.new'']" "Fields (TrimSpace ''43 x.new'') = [''43'', ''x.new'']"
  "split_on (CHR 0x0A) ''42 x'' = [''42 x'']" "Fields (TrimSpace ''42 x'') = [''42'', ''x'']"
  "split_on (CHR 0x0A) ''B'' = [''B'']" "Fields (TrimSpace ''B'') = [''B'']"
  by (simp_all add: Fields_def TrimSpace_def IsSpace_def decode_rune_def)

lemma sample_trim: "TrimSpace ''42 x.new'' = ''42 x.new''" "TrimSpace ''43 x.new'' = ''43 x.new''"
  by (simp_all add: TrimSpace_def IsSpace_def decode_rune_def)

lemma sample_replies:
  "hr_body (the (wb_get (sample_web line) url auth)) \<in> {''B'', line}"
  by (simp add: sample_web_def)

lemmas sample_download = DownloadAndVerify_def ValidateDownloadURL_def hasPrefix_def download_prefix_def NewUpdater_def fetchBody_def sample_web_def
  Let_def ParseChecksumFile_def sample_lines sample_lines [unfolded sample_trim] sample_trim Base_def downloadFile_def sample_io_def maxBinarySize_def
  VerifyChecksum_def key_matches_def runes_ascii hexEncode_def hex_digit_def fold_rune_def

theorem update_installs_listed_witness:
  "\<exists>content. Mapping.lookup (sv_disk (snd (run_state (handleApplyUpdate (\<lambda>_. []) (\<lambda>x. x) (sample_web ''42 x.new'') (io_df sample_io)
     (Some ''/x'') Some sample_ctx (sample_request [] [])) updating_server))) ''/x.new'' = Some content"
proof -
  let ?run = "run_state (handleApplyUpdate (\<lambda>_. []) (\<lambda>x. x) (sample_web ''42 x.new'') (io_df sample_io)
     (Some ''/x'') Some sample_ctx (sample_request [] [])) updating_server"
  have "rs_status (fst ?run) = 200"
    by (simp add: handleApplyUpdate_def check_update_def CheckForUpdate_def updating_server_def run_simps server_sample_fields sample_info_def
        download_update_def on_disk_def BroadcastServerRestart_def BroadcastToAll_def writeJSON_def sample_download)
  from update_installs_listed [OF prod.collapse [symmetric] this] show ?thesis by auto
qed

theorem update_never_succeeds_witness:
  "fst (run_state (handleApplyUpdate (\<lambda>_. []) (\<lambda>x. x) (sample_web ''42 x'') (io_df sample_io)
     (Some ''/x'') Some sample_ctx (sample_request [] [])) updating_server) = writeErr 502 ''DOWNLOAD_FAILED'' []"
proof -
  let ?u = "(NewUpdater ''1'' [] ''o'' ''r'')\<lparr>ud_cache := Some sample_info, ud_cacheExpiry := 1\<rparr>"
  obtain s1 where check: "run_state (check_update (sample_web ''42 x'')) updating_server = (Some (Inr sample_info), s1)" and u: "sv_updater s1 = Some ?u"
    by (simp add: check_update_def CheckForUpdate_def updating_server_def run_simps server_sample_fields)
  have data: "fetchBody (sample_web ''42 x'') ?u (ui_ChecksumURL sample_info) = Inr ''42 x''"
    by (simp add: fetchBody_def sample_web_def sample_info_def)
  have listed: "\<forall>info u data. Some (Inr sample_info) = Some (Inr info) \<and> sv_updater s1 = Some u \<and>
      fetchBody (sample_web ''42 x'') u (ui_ChecksumURL info) = Inr data \<longrightarrow> lists_no_new data"
    using u data by (auto simp: lists_no_new_def sample_lines hasSuffix_def hasPrefix_def)
  have "hasPrefix (ui_DownloadURL sample_info) (download_prefix ?u)" "hasPrefix (ui_ChecksumURL sample_info) (download_prefix ?u)"
    by (simp_all add: sample_info_def hasPrefix_def download_prefix_def NewUpdater_def)
  moreover have "ui_UpdateAvailable sample_info" by (simp add: sample_info_def)
  ultimately show ?thesis
    using update_never_succeeds [OF check listed prod.collapse [symmetric], where exe = "Some ''/x''" and link = Some and etext = "\<lambda>_. []"] u data by auto
qed

definition sample_update :: "string \<Rightarrow> (update_error + unit) \<times> disk" where
  "sample_update line = DownloadAndVerify (\<lambda>x. x) (sample_web line) (io_df sample_io) (NewUpdater ''1'' [] ''o'' ''r'')
     ''https://github.com/o/r/releases/download/b'' ''https://github.com/o/r/releases/download/c'' ''/x.new'' Mapping.empty"

lemma sample_updates: "fst (sample_update ''42 x.new'') = Inr ()" "isl (fst (sample_update ''43 x.new''))"
  by (simp_all add: sample_update_def sample_download)

text \<open>The digest of the release is listed, or another one is.\<close>

theorem download_verified_witness:
  "Mapping.lookup (snd (sample_update ''42 x.new'')) ''/x.new'' = Some ''B'' \<and> Mapping.lookup (snd (sample_update ''43 x.new'')) ''/x.new'' = None"
proof
  note verified = download_verified [OF trans [OF sample_update_def [symmetric] prod.collapse [symmetric]]]
  show "Mapping.lookup (snd (sample_update ''42 x.new'')) ''/x.new'' = Some ''B''"
    using verified [of "''42 x.new''"] sample_updates(1) by (auto simp: genuine_def sample_web_def)
  show "Mapping.lookup (snd (sample_update ''43 x.new'')) ''/x.new'' = None"
    using verified [of "''43 x.new''"] sample_updates(2) by (cases "fst (sample_update ''43 x.new'')") (auto simp: sample_io_def)
qed

end
