(* ===== verification/LiveKitProcess.thy ===== *)
theory LiveKitProcess
  imports Config Storage
begin

text \<open>
  The manager of the companion media server, \<^verbatim>\<open>ws/livekit_process.go\<close>: the configuration file it writes,
  and the goroutine \<^verbatim>\<open>runLoop\<close> with the calls that run beside it as a step relation. The process
  itself is the environment: it exits when it likes, or never.
\<close>

section \<open>The configuration file\<close>

abbreviation newline :: char where "newline \<equiv> CHR 0x0A"

definition unsafe_credential :: "char \<Rightarrow> bool" where
  "unsafe_credential c \<longleftrightarrow> c \<in> set '':#{}'' \<union> {newline, CHR 0x0D, CHR 0x22, CHR 0x5C}"

definition unsafe_address :: "char \<Rightarrow> bool" where
  "unsafe_address c \<longleftrightarrow> c \<in> {CHR 0x22, CHR 0x5C, newline, CHR 0x0D} \<union> set ''#{}''"

definition quoted :: "string \<Rightarrow> string" where
  "quoted s = [CHR 0x22] @ s @ [CHR 0x22]"

text \<open>The lines of the file; the first one is a comment with a dash outside ASCII.\<close>

definition config_lines :: "VoiceConfig \<Rightarrow> string list" where
  "config_lines v =
     [''# Auto-generated by OwnCord '' @ [CHR 0xE2, CHR 0x80, CHR 0x94] @ '' do not edit manually.'',
      ''port: 7880'', [], ''rtc:'', ''  port_range_start: 57000'', ''  port_range_end: 60000'', ''  use_external_ip: true''] @
     (if vc_NodeIP v = [] then [] else [''  node_ip: '' @ quoted (vc_NodeIP v)]) @
     [''  pli_throttle:'', ''    low_quality: 500ms'', ''    mid_quality: 1s'', ''    high_quality: 1s'', [],
      ''keys:'', ''  '' @ quoted (vc_LiveKitAPIKey v) @ '': '' @ quoted (vc_LiveKitAPISecret v), [],
      ''logging:'', ''  level: info'', []]"

datatype process_error = UnsafeCredential | UnsafeAddress | NoDataDir | NoConfigFile | AlreadyRunning

definition config_text :: "VoiceConfig \<Rightarrow> process_error + string" where
  "config_text v =
     (if list_ex unsafe_credential (vc_LiveKitAPIKey v) \<or> list_ex unsafe_credential (vc_LiveKitAPISecret v) then Inl UnsafeCredential
      else if vc_NodeIP v \<noteq> [] \<and> list_ex unsafe_address (vc_NodeIP v) then Inl UnsafeAddress
      else Inr (join_with [newline] (config_lines v)))"

text \<open>\<open>refused\<close> says whether the directory and the file can be written.\<close>

definition generateConfig :: "VoiceConfig \<Rightarrow> string \<Rightarrow> bool \<times> bool \<Rightarrow> disk \<Rightarrow> (process_error + string) \<times> disk" where
  "generateConfig v dataDir refused d =
     (let cfgPath = Join2 dataDir ''livekit.yaml'' in
      case config_text v of
        Inl e \<Rightarrow> (Inl e, d)
      | Inr content \<Rightarrow>
          if fst refused then (Inl NoDataDir, d)
          else if snd refused then (Inl NoConfigFile, d)
          else (Inr cfgPath, Mapping.update cfgPath content d))"

section \<open>The loop\<close>

definition baseDelay :: duration where "baseDelay = 3 * Second"
definition maxDelay :: duration where "maxDelay = 60 * Second"
definition maxRetries :: nat where "maxRetries = 10"
definition stableAfter :: duration where "stableAfter = 30 * Second"

text \<open>Where the goroutine is; \<open>Idle\<close> before \<^verbatim>\<open>Start\<close>, \<open>Ended\<close> after it returned.\<close>

datatype phase = Idle | AtTop | Running | Waiting | Ended

record LiveKitProcess =
  lp_phase :: phase
  lp_stopped :: bool
  lp_cancelled :: bool
  lp_rapidFailures :: nat
  lp_delay :: duration

definition NewLiveKitProcess :: LiveKitProcess where
  "NewLiveKitProcess = \<lparr>lp_phase = Idle, lp_stopped = False, lp_cancelled = False, lp_rapidFailures = 0, lp_delay = baseDelay\<rparr>"

text \<open>
  \<^verbatim>\<open>Start\<close>: nothing to do without a binary, refused while a process runs. The server calls it once, so
  there is one goroutine.
\<close>

definition Start :: "VoiceConfig \<Rightarrow> string \<Rightarrow> bool \<times> bool \<Rightarrow> LiveKitProcess \<Rightarrow> disk \<Rightarrow> process_error option \<times> LiveKitProcess \<times> disk" where
  "Start v dataDir refused p d =
     (if vc_LiveKitBinaryPath v = [] then (None, p, d)
      else if lp_phase p = Running then (Some AlreadyRunning, p, d)
      else (case generateConfig v dataDir refused d of
              (Inl e, d') \<Rightarrow> (Some e, p, d')
            | (Inr _, d') \<Rightarrow> (None, p\<lparr>lp_phase := AtTop, lp_cancelled := False, lp_rapidFailures := 0, lp_delay := baseDelay\<rparr>, d')))"

text \<open>The command is set while the process runs, from just before its start until it has ended; the instant before the start is not told apart.\<close>

definition IsRunning :: "LiveKitProcess \<Rightarrow> bool" where
  "IsRunning p \<longleftrightarrow> lp_phase p = Running"

text \<open>The top of the loop: start the process, unless stopped.\<close>

definition loop_top :: "LiveKitProcess \<Rightarrow> LiveKitProcess" where
  "loop_top p = (if lp_cancelled p \<or> lp_stopped p then p\<lparr>lp_phase := Ended\<rparr> else p\<lparr>lp_phase := Running\<rparr>)"

text \<open>The process ended after it ran for \<open>lasted\<close>.\<close>

definition after_run :: "duration \<Rightarrow> LiveKitProcess \<Rightarrow> LiveKitProcess" where
  "after_run lasted p =
     (if lp_stopped p \<or> lp_cancelled p then p\<lparr>lp_phase := Ended\<rparr>
      else let p' = (if lasted > stableAfter then p\<lparr>lp_rapidFailures := 0, lp_delay := baseDelay\<rparr>
                     else p\<lparr>lp_rapidFailures := lp_rapidFailures p + 1\<rparr>)
           in if lp_rapidFailures p' \<ge> maxRetries then p'\<lparr>lp_phase := Ended\<rparr> else p'\<lparr>lp_phase := Waiting\<rparr>)"

text \<open>The timer fired, or the context was cancelled first.\<close>

definition after_wait :: "LiveKitProcess \<Rightarrow> LiveKitProcess" where
  "after_wait p = p\<lparr>lp_phase := AtTop, lp_delay := (if lp_delay p * 2 > maxDelay then maxDelay else lp_delay p * 2)\<rparr>"

definition wait_cancelled :: "LiveKitProcess \<Rightarrow> LiveKitProcess" where
  "wait_cancelled p = p\<lparr>lp_phase := Ended\<rparr>"

definition Stop :: "LiveKitProcess \<Rightarrow> LiveKitProcess" where
  "Stop p = p\<lparr>lp_stopped := True, lp_cancelled := True\<rparr>"

datatype label = Launch | Return | Exit duration | TimerFired duration | WaitCancelled | Halt

text \<open>The label of the timer is the delay that was waited for.\<close>

inductive lk_step :: "LiveKitProcess \<Rightarrow> label \<Rightarrow> LiveKitProcess \<Rightarrow> bool" where
  launch: "lp_phase p = AtTop \<Longrightarrow> \<not> lp_cancelled p \<Longrightarrow> \<not> lp_stopped p \<Longrightarrow> lk_step p Launch (loop_top p)"
| return: "lp_phase p = AtTop \<Longrightarrow> lp_cancelled p \<or> lp_stopped p \<Longrightarrow> lk_step p Return (loop_top p)"
| exit: "lp_phase p = Running \<Longrightarrow> 0 \<le> lasted \<Longrightarrow> lk_step p (Exit lasted) (after_run lasted p)"
| timer: "lp_phase p = Waiting \<Longrightarrow> lk_step p (TimerFired (lp_delay p)) (after_wait p)"
| cancelled: "lp_phase p = Waiting \<Longrightarrow> lp_cancelled p \<Longrightarrow> lk_step p WaitCancelled (wait_cancelled p)"
| halt: "lk_step p Halt (Stop p)"

inductive lk_run :: "LiveKitProcess \<Rightarrow> label list \<Rightarrow> LiveKitProcess \<Rightarrow> bool" where
  stay: "lk_run p [] p"
| move: "lk_step p l p' \<Longrightarrow> lk_run p' ls p'' \<Longrightarrow> lk_run p (l # ls) p''"

inductive_cases lk_stepE: "lk_step p l p'"
inductive_simps lk_run_simps: "lk_run p [] p'" "lk_run p (l # ls) p'"

section \<open>Restarts\<close>

definition lp_ok :: "LiveKitProcess \<Rightarrow> bool" where
  "lp_ok p \<longleftrightarrow> lp_delay p \<in> {3 * Second, 6 * Second, 12 * Second, 24 * Second, 48 * Second, 60 * Second}
     \<and> (lp_phase p \<noteq> Ended \<longrightarrow> lp_rapidFailures p < maxRetries)"

lemma step_ok: "lk_step p l p' \<Longrightarrow> lp_ok p \<Longrightarrow> lp_ok p'"
  by (elim lk_stepE)
    (auto simp: lp_ok_def loop_top_def after_run_def after_wait_def wait_cancelled_def Stop_def Let_def baseDelay_def maxDelay_def
      maxRetries_def Second_def)

text \<open>How many more steps the goroutine can take while every run of the process is short.\<close>

definition steps_left :: "LiveKitProcess \<Rightarrow> nat" where
  "steps_left p =
     (case lp_phase p of
        AtTop \<Rightarrow> 3 * (maxRetries - lp_rapidFailures p) + 2
      | Running \<Rightarrow> 3 * (maxRetries - lp_rapidFailures p) + 1
      | Waiting \<Rightarrow> 3 * (maxRetries - lp_rapidFailures p) + 3
      | _ \<Rightarrow> 0)"

definition launches_left :: "LiveKitProcess \<Rightarrow> nat" where
  "launches_left p =
     (case lp_phase p of
        AtTop \<Rightarrow> maxRetries - lp_rapidFailures p
      | Running \<Rightarrow> maxRetries - lp_rapidFailures p - 1
      | Waiting \<Rightarrow> maxRetries - lp_rapidFailures p
      | _ \<Rightarrow> 0)"

definition short :: "label \<Rightarrow> bool" where
  "short l \<longleftrightarrow> (case l of Exit lasted \<Rightarrow> lasted \<le> stableAfter | _ \<Rightarrow> True)"

lemma step_decreases:
  assumes "lk_step p l p'" and "lp_ok p" and "short l"
  shows "(if l = Halt then 0 else 1) + steps_left p' \<le> steps_left p \<and> (if l = Launch then 1 else 0) + launches_left p' \<le> launches_left p"
  using assms(1)
proof cases
  case (exit lasted)
  then show ?thesis
    using assms(2,3) by (auto simp: steps_left_def launches_left_def short_def lp_ok_def after_run_def Let_def maxRetries_def)
next
  case halt
  then show ?thesis
    by (cases "lp_phase p") (simp_all add: steps_left_def launches_left_def Stop_def)
qed (use assms(2) in \<open>auto simp: steps_left_def launches_left_def loop_top_def after_wait_def wait_cancelled_def lp_ok_def\<close>)

lemma run_bounded:
  "lk_run p ls p' \<Longrightarrow> lp_ok p \<Longrightarrow> list_all short ls \<Longrightarrow>
   length (filter (\<lambda>l. l \<noteq> Halt) ls) + steps_left p' \<le> steps_left p
   \<and> length (filter (\<lambda>l. l = Launch) ls) + launches_left p' \<le> launches_left p \<and> lp_ok p'"
proof (induction rule: lk_run.induct)
  case (move p l p' ls p'')
  with step_decreases [of p l p'] step_ok [of p l p'] show ?case by (auto split: if_splits)
qed simp

lemma not_stuck:
  assumes "lp_phase p \<notin> {Idle, Ended}"
  shows "\<exists>l p'. l \<noteq> Halt \<and> lk_step p l p'"
proof (cases "lp_phase p")
  case AtTop
  then show ?thesis by (cases "lp_cancelled p \<or> lp_stopped p") (auto intro: lk_step.intros)
next
  case Running
  then have "lk_step p (Exit 0) (after_run 0 p)" by (auto intro: lk_step.intros)
  then show ?thesis by blast
next
  case Waiting
  then have "lk_step p (TimerFired (lp_delay p)) (after_wait p)" by (rule timer)
  then show ?thesis by blast
qed (use assms in auto)

lemma step_not_idle: "lk_step p l p' \<Longrightarrow> lp_phase p \<noteq> Idle \<Longrightarrow> lp_phase p' \<noteq> Idle"
  by (elim lk_stepE) (simp_all add: loop_top_def after_run_def after_wait_def wait_cancelled_def Stop_def Let_def)

lemma runs_not_idle: "lk_run p ls p' \<Longrightarrow> lp_phase p \<noteq> Idle \<Longrightarrow> lp_phase p' \<noteq> Idle"
  by (induction rule: lk_run.induct) (auto dest: step_not_idle)

definition lk_started :: LiveKitProcess where
  "lk_started = NewLiveKitProcess\<lparr>lp_phase := AtTop\<rparr>"

lemma Start_started:
  "Start v dataDir refused NewLiveKitProcess d = (None, p, d') \<Longrightarrow> vc_LiveKitBinaryPath v \<noteq> [] \<Longrightarrow> p = lk_started"
  by (auto simp: Start_def lk_started_def NewLiveKitProcess_def split: sum.splits prod.splits if_splits)

lemma lk_started_ok: "lp_ok lk_started"
  by (simp add: lk_started_def NewLiveKitProcess_def lp_ok_def baseDelay_def maxRetries_def)

text \<open>
  C36: A crashing media server is given up. After a successful start, when every run of the process
  is no longer than thirty seconds, the goroutine launches it at most ten times and takes at most 32
  steps, whatever stops come in between; it is never stuck before its end, so it ends; and no
  wait between two launches is longer than a minute.
\<close>
theorem crash_loop_ends:
  assumes "Start v dataDir refused NewLiveKitProcess d = (None, p0, d')" and "vc_LiveKitBinaryPath v \<noteq> []"
    and "lk_run p0 ls p" and "\<forall>lasted. Exit lasted \<in> set ls \<longrightarrow> lasted \<le> 30 * Second"
  shows "length (filter (\<lambda>l. l \<noteq> Halt) ls) \<le> 32 \<and> length (filter (\<lambda>l. l = Launch) ls) \<le> 10
    \<and> (lp_phase p \<noteq> Ended \<longrightarrow> (\<exists>l p'. l \<noteq> Halt \<and> lk_step p l p')) \<and> lp_delay p \<le> 60 * Second"
proof -
  have run: "lk_run lk_started ls p" using assms(3) Start_started [OF assms(1,2)] by simp
  have "list_all short ls"
    using assms(4) by (auto simp: list_all_iff short_def stableAfter_def split: label.splits)
  from run_bounded [OF run lk_started_ok this] have b: "length (filter (\<lambda>l. l \<noteq> Halt) ls) \<le> 32"
    "length (filter (\<lambda>l. l = Launch) ls) \<le> 10" "lp_ok p"
    by (simp_all add: steps_left_def launches_left_def lk_started_def NewLiveKitProcess_def maxRetries_def)
  have "lp_phase p \<noteq> Idle"
    using runs_not_idle [OF run] by (simp add: lk_started_def)
  then show ?thesis
    using b not_stuck [of p] by (auto simp: lp_ok_def Second_def)
qed

definition sample_voice :: VoiceConfig where
  "sample_voice = (cg_Voice defaults)\<lparr>vc_LiveKitAPIKey := ''k'', vc_LiveKitAPISecret := ''s'', vc_LiveKitBinaryPath := ''livekit-server''\<rparr>"

lemma sample_voice_starts: "\<exists>d'. Start sample_voice ''data'' (False, False) NewLiveKitProcess Mapping.empty = (None, lk_started, d')"
  by (simp add: Start_def sample_voice_def defaults_def generateConfig_def config_text_def unsafe_credential_def lk_started_def
      NewLiveKitProcess_def Let_def)

theorem crash_loop_ends_witness:
  "\<exists>p. lk_run lk_started [Launch, Exit 0, TimerFired (3 * Second), Launch] p \<and> lp_delay p \<le> 60 * Second"
proof -
  have "\<exists>p. lk_run lk_started [Launch, Exit 0, TimerFired (3 * Second), Launch] p"
    by (simp add: lk_run_simps lk_step.simps lk_started_def NewLiveKitProcess_def loop_top_def after_run_def after_wait_def Let_def
        maxRetries_def stableAfter_def baseDelay_def)
  then obtain p where p: "lk_run lk_started [Launch, Exit 0, TimerFired (3 * Second), Launch] p" ..
  obtain d' where st: "Start sample_voice ''data'' (False, False) NewLiveKitProcess Mapping.empty = (None, lk_started, d')"
    using sample_voice_starts ..
  have bin: "vc_LiveKitBinaryPath sample_voice \<noteq> []" by (simp add: sample_voice_def)
  from p crash_loop_ends [OF st bin p] show ?thesis by (auto simp: Second_def)
qed

section \<open>Stopping\<close>

lemma stop_stays: "lk_step p l p' \<Longrightarrow> lp_stopped p \<Longrightarrow> lp_stopped p' \<and> l \<noteq> Launch"
  by (elim lk_stepE) (auto simp: loop_top_def after_run_def after_wait_def wait_cancelled_def Stop_def)

text \<open>
  After \<^verbatim>\<open>Stop\<close> the process is never started again, in whatever state the loop was and however the
  steps of the goroutine are interleaved with further calls.
\<close>
theorem stop_is_final:
  assumes "lk_run (Stop p) ls p'"
  shows "Launch \<notin> set ls"
proof -
  have "lk_run q ls q' \<Longrightarrow> lp_stopped q \<Longrightarrow> Launch \<notin> set ls" for q ls q'
    by (induction rule: lk_run.induct) (auto dest: stop_stays)
  from this [OF assms] show ?thesis by (simp add: Stop_def)
qed

section \<open>What the file can say\<close>

lemma safe_credential: "list_all (\<lambda>c. \<not> unsafe_credential c) s \<Longrightarrow> CHR 0x22 \<notin> set s \<and> CHR 0x5C \<notin> set s \<and> newline \<notin> set s"
  by (induction s) (auto simp: unsafe_credential_def)

lemma safe_address: "list_all (\<lambda>c. \<not> unsafe_address c) s \<Longrightarrow> CHR 0x22 \<notin> set s \<and> CHR 0x5C \<notin> set s \<and> newline \<notin> set s"
  by (induction s) (auto simp: unsafe_address_def)

text \<open>
  The credentials cannot change the structure of the file. Whatever the configuration says, the
  file that is written consists of exactly the intended lines: the quoted strings stay within
  their line and contain no quote and no backslash that would end or change them.
\<close>
theorem yaml_not_injected:
  assumes "config_text v = Inr text"
  shows "split_on newline text = config_lines v
    \<and> (\<forall>s \<in> {vc_LiveKitAPIKey v, vc_LiveKitAPISecret v, vc_NodeIP v}. CHR 0x22 \<notin> set s \<and> CHR 0x5C \<notin> set s \<and> newline \<notin> set s)"
proof -
  have key: "list_all (\<lambda>c. \<not> unsafe_credential c) (vc_LiveKitAPIKey v)" "list_all (\<lambda>c. \<not> unsafe_credential c) (vc_LiveKitAPISecret v)"
    and addr: "list_all (\<lambda>c. \<not> unsafe_address c) (vc_NodeIP v)"
    using assms by (auto simp: config_text_def list_all_iff list_ex_iff split: if_splits)
  note chars = safe_credential [OF key(1)] safe_credential [OF key(2)] safe_address [OF addr]
  have "\<forall>l \<in> set (config_lines v). newline \<notin> set l"
    using chars by (simp add: config_lines_def quoted_def)
  moreover have "config_lines v \<noteq> []" by (simp add: config_lines_def)
  moreover have "text = join_with [newline] (config_lines v)"
    using assms by (auto simp: config_text_def split: if_splits)
  ultimately show ?thesis using chars by (simp add: split_join)
qed

end
