(* ===== verification/LiveKitSafety.thy ===== *)
theory LiveKitSafety
  imports SampleServer LiveKitProcess
begin

text \<open>
  The credentials of the media server, who can speak for it through the webhook, and what
  the reverse proxy lets through to it.
\<close>

section \<open>Credentials\<close>

lemma random_not_default:
  assumes "\<forall>n. length (rnd n) = n"
  shows "generateRandomKey rnd 32 \<noteq> DefaultLiveKitAPISecret" and "generateRandomKey rnd 32 \<noteq> []"
proof -
  have "length (generateRandomKey rnd 32) = 64" using assms by (simp add: generateRandomKey_def)
  then show "generateRandomKey rnd 32 \<noteq> DefaultLiveKitAPISecret" "generateRandomKey rnd 32 \<noteq> []"
    by (auto simp: DefaultLiveKitAPISecret_def)
qed

text \<open>
  Voice never runs on the credentials of the source code, and always runs on others. Whatever
  the merged configuration says, and for every random source that returns the bytes asked
  for: the client of the media server is made exactly when neither the key nor the secret of
  the configuration is the public one; its key and secret are then the configured ones, or
  fresh random ones where none is configured, never empty and never the public ones.
\<close>
theorem public_credentials_disable_voice:
  assumes "\<forall>n. length (rnd n) = n"
  shows "((\<exists>c. NewLiveKitClient sdk (cg_Voice (finish_load rnd cfg)) = Inr c) \<longleftrightarrow> \<not> IsDefaultVoiceCredentials (cg_Voice cfg))
    \<and> (\<forall>c. NewLiveKitClient sdk (cg_Voice (finish_load rnd cfg)) = Inr c \<longrightarrow>
        (\<exists>key secret. lk_toJWT c = sdk key secret \<and> key \<notin> {[], ''devkey''} \<and> secret \<notin> {[], ''owncord-dev-secret-key-min-32chars''}
          \<and> vc_LiveKitAPIKey (cg_Voice cfg) \<in> {[], key} \<and> vc_LiveKitAPISecret (cg_Voice cfg) \<in> {[], secret}))"
  using random_not_default [OF assms]
  by (auto simp: NewLiveKitClient_def finish_load_def applyVoiceDefaults_def IsDefaultVoiceCredentials_def Let_def
      DefaultLiveKitAPIKey_def DefaultLiveKitAPISecret_def)

theorem public_credentials_disable_voice_witness:
  "\<exists>c. NewLiveKitClient (\<lambda>_ _ _. None) (cg_Voice (finish_load (\<lambda>n. replicate n (CHR ''x'')) defaults)) = Inr c"
  using public_credentials_disable_voice [of "\<lambda>n. replicate n (CHR ''x'')" "\<lambda>_ _ _. None" defaults]
  by (simp add: IsDefaultVoiceCredentials_def defaults_def DefaultLiveKitAPIKey_def DefaultLiveKitAPISecret_def)

section \<open>The webhook\<close>

text \<open>
  C40: Every voice user can speak for the media server. The webhook accepts any token signed with
  the API secret, not only those over the digest of the body, and the tokens that let users join a room are
  signed with the same secret. So, as long as the SDK accepts now the tokens it signs, a user who
  was given a token for one channel can report that anybody left any channel, and the server
  handles it as the report of the media server: the other user is removed from voice.
\<close>
theorem voice_token_forges_webhook:
  assumes "\<forall>grant tok. sign key secret grant = Some tok \<longrightarrow> ws_apiKey sdk tok = Some key \<and> ws_verify sdk tok secret (clock s (reads s))"
    and "NewLiveKitClient sign v = Inr lk" and "vc_LiveKitAPIKey v = key" and "vc_LiveKitAPISecret v = secret"
    and "GenerateToken lk attacker name channel pub sub = Some tok"
    and "rq_header r ''Authorization'' = ''Bearer '' @ tok" and "\<not> rq_cut r" and "length (rq_body r) \<le> 64 * 1024"
    and "ws_event sdk (rq_body r) = Some (''participant_left'', Some victim, Some room)"
  shows "run_state (NewLiveKitWebhookHandler sdk key secret r) s =
    (writeHeader 200, lift_hub (run_call (handleWebhookParticipantLeft (Some victim) (Some room))) (s\<lparr>reads := Suc (reads s)\<rparr>))"
proof -
  have "lk_toJWT lk = sign key secret"
    using assms(2-4) by (auto simp: NewLiveKitClient_def split: if_splits)
  with assms(1,5) have tok: "ws_apiKey sdk tok = Some key" "ws_verify sdk tok secret (clock s (reads s))"
    by (auto simp: GenerateToken_def)
  have "take (64 * 1024) (rq_body r) = rq_body r" using assms(8) by simp
  with tok assms(6,7,9) show ?thesis
    by (simp add: NewLiveKitWebhookHandler_def trim_bearer_def hasPrefix_def Let_def run_simps)
qed

text \<open>The SDK of the instance signs with the name of the room and accepts every such token.\<close>

definition sample_sdk :: webhook_sdk where
  "sample_sdk = \<lparr>ws_apiKey = (\<lambda>_. Some ''k''), ws_verify = (\<lambda>_ _ _. True), ws_event = (\<lambda>_. Some (''participant_left'', Some ''user-1'', Some ''channel-2''))\<rparr>"

theorem voice_token_forges_webhook_witness:
  "fst (run_state (NewLiveKitWebhookHandler sample_sdk ''k'' ''s'' ((sample_request ''Bearer channel-7'' ''{}'')))
     sample_server) = writeHeader 200"
proof -
  let ?v = "(cg_Voice defaults)\<lparr>vc_LiveKitAPIKey := ''k'', vc_LiveKitAPISecret := ''s''\<rparr>"
  let ?sign = "\<lambda>(_ :: string) (_ :: string) t. Some (at_room t)"
  have new: "NewLiveKitClient ?sign ?v = Inr \<lparr>lk_url = ''ws://localhost:7880'', lk_toJWT = \<lambda>t. Some (at_room t)\<rparr>"
    by (simp add: NewLiveKitClient_def defaults_def IsDefaultVoiceCredentials_def DefaultLiveKitAPIKey_def DefaultLiveKitAPISecret_def)
  have gen: "GenerateToken \<lparr>lk_url = ''ws://localhost:7880'', lk_toJWT = \<lambda>t. Some (at_room t)\<rparr> 2 ''bob'' 7 True True = Some ''channel-7''"
    by (simp add: GenerateToken_def RoomName_def itoa_def dec.simps char_of_def bit_0)
  show ?thesis
    using voice_token_forges_webhook [of ?sign "''k''" "''s''" sample_sdk sample_server ?v _ 2 "''bob''" 7 True True "''channel-7''"
      "sample_request ''Bearer channel-7'' ''{}''" "''user-1''" "''channel-2''", OF _ new _ _ gen]
    by (simp add: sample_sdk_def sample_request_def)
qed

section \<open>The proxy\<close>

text \<open>
  What is forwarded as HTTP has an allowed origin and no blocked segment in its path; a
  request that asks for a websocket is joined to the backend under any path.
\<close>
theorem proxy_guards:
  "NewLiveKitProxy origins conn r = ForwardHTTP \<longleftrightarrow>
     \<not> isWebSocketUpgrade conn (rq_header r ''Upgrade'') \<and> \<not> blocked_path (rq_path r) \<and> isOriginAllowed r origins"
  by (simp add: NewLiveKitProxy_def)

end
