(* ===== verification/Startup.thy ===== *)
theory Startup
  imports LiveKitProcess Router
begin

text \<open>
  The start of the process: \<^verbatim>\<open>config.Load\<close> (\<^verbatim>\<open>config/config.go\<close>), the certificates (\<^verbatim>\<open>auth/tls.go\<close>) and the part of
  \<^verbatim>\<open>run\<close> in \<^verbatim>\<open>main.go\<close> before the database is opened, on the disk of \<open>Storage\<close>; and the loop that waits for the
  port of a process that is still going down. The merge of configuration layers, YAML, the
  cryptography and the encoding of certificates are arguments.
\<close>

section \<open>Loading the configuration\<close>

text \<open>The default file; a tilde stands for a quotation mark and a caret for a dash outside ASCII.\<close>

definition yaml_char :: "char \<Rightarrow> string" where
  "yaml_char c = (if c = CHR ''~'' then [CHR 0x22] else if c = CHR ''^'' then [CHR 0xE2, CHR 0x80, CHR 0x94] else [c])"

definition defaultYAML :: string where
  "defaultYAML = concat (map yaml_char (join_with [newline]
     [''# OwnCord Server Configuration'',
      ''server:'',
      ''  port: 8443'',
      ''  name: ~OwnCord Server~'',
      ''  data_dir: ~data~'',
      ''  # allowed_origins: [~*~]   # restrict WebSocket origins, e.g. [~https://example.com~]'',
      ''  # trusted_proxies: []       # CIDRs of trusted reverse proxies, e.g. [~10.0.0.0/8~]'',
      ''  # admin_allowed_cidrs:      # CIDRs allowed to access /admin (default: private networks only)'',
      ''  #   - ~127.0.0.0/8~'',
      ''  #   - ~::1/128~'',
      ''  #   - ~10.0.0.0/8~'',
      ''  #   - ~172.16.0.0/12~'',
      ''  #   - ~192.168.0.0/16~'',
      [],
      ''database:'',
      ''  path: ~data/chatserver.db~'',
      [],
      ''tls:'',
      ''  mode: ~self_signed~  # self_signed, acme, manual, off'',
      ''  cert_file: ~data/cert.pem~'',
      ''  key_file: ~data/key.pem~'',
      ''  domain: ~~              # required for acme mode (e.g. ~chat.example.com~)'',
      ''  acme_cache_dir: ~data/acme_certs~  # where Let's Encrypt certs are cached'',
      [],
      ''upload:'',
      ''  max_size_mb: 100'',
      ''  storage_dir: ~data/uploads~'',
      [],
      ''voice:'',
      ''  # livekit_api_key: ~~       # LiveKit API key (REQUIRED for voice ^ generate a unique key)'',
      ''  # livekit_api_secret: ~~    # LiveKit API secret (REQUIRED, min 32 chars ^ generate a unique secret)'',
      ''  livekit_url: ~ws://localhost:7880~  # LiveKit server WebSocket URL'',
      ''  # livekit_binary: ~~             # path to livekit-server binary; empty = don't auto-start'',
      ''  # node_ip: ~~                    # public IP for WebRTC media (required for remote users behind NAT)'',
      ''  # quality: ~medium~              # low | medium | high'',
      [],
      ''# github:'',
      ''#   token: ~~  # optional: GitHub API token for higher rate limits (5000 req/hr vs 60)'',
      []]))"

datatype load_error = CannotWriteDefault | CannotReadConfig | BadYAML | BadLayers

text \<open>
  The library: whether a text is YAML, and the merge of the defaults, the file if there was one,
  and the variables of the environment under their dotted names; \<open>None\<close> when a layer does not fit.
\<close>

record koanf =
  kf_yaml :: "string \<Rightarrow> bool"
  kf_merge :: "Config \<Rightarrow> string option \<Rightarrow> (string \<times> string) list \<Rightarrow> Config option"

definition env_layer :: "(string \<times> string) list \<Rightarrow> (string \<times> string) list" where
  "env_layer environ = map (\<lambda>(name, v). (env_key name, v)) (filter (\<lambda>(name, _). hasPrefix name ''OWNCORD_'') environ)"

text \<open>The layer of the file: the default file is written, not read, when there is none.\<close>

definition file_layer :: "koanf \<Rightarrow> disk_faults \<Rightarrow> string \<Rightarrow> disk \<Rightarrow> (load_error + string option) \<times> disk" where
  "file_layer kf df cfgPath d =
     (case Mapping.lookup d cfgPath of
        None \<Rightarrow>
          if df_create df then (Inl CannotWriteDefault, d)
          else (case df_write df of
                  Some k \<Rightarrow> (Inl CannotWriteDefault, Mapping.update cfgPath (take k defaultYAML) d)
                | None \<Rightarrow> (Inr None, Mapping.update cfgPath defaultYAML d))
      | Some raw \<Rightarrow>
          if df_read df then (Inl CannotReadConfig, d)
          else if \<not> kf_yaml kf raw then (Inl BadYAML, d)
          else (Inr (Some raw), d))"

definition Load :: "koanf \<Rightarrow> (nat \<Rightarrow> string) \<Rightarrow> disk_faults \<Rightarrow> (string \<times> string) list \<Rightarrow> string \<Rightarrow> disk \<Rightarrow> (load_error + Config) \<times> disk" where
  "Load kf rnd df environ cfgPath d =
     (case file_layer kf df cfgPath d of
        (Inl e, d') \<Rightarrow> (Inl e, d')
      | (Inr layer, d') \<Rightarrow>
          (case kf_merge kf defaults layer (env_layer environ) of
             None \<Rightarrow> (Inl BadLayers, d')
           | Some cfg \<Rightarrow> (Inr (finish_load rnd cfg), d')))"

section \<open>Certificates\<close>

record Certificate =
  ct_SerialNumber :: nat
  ct_Organization :: "string list"
  ct_CommonName :: string
  ct_NotBefore :: time
  ct_NotAfter :: time
  ct_IsCA :: bool

text \<open>
  The library, with what its random source gives now: a private key, a serial number, the signed
  certificate and the key in DER; the PEM text of a block, and the certificate a pair of files
  holds. \<open>None\<close> is an error.
\<close>

record tls_lib =
  tl_key :: "string option"
  tl_serial :: "nat option"
  tl_sign :: "Certificate \<Rightarrow> string \<Rightarrow> string option"
  tl_marshal :: "string \<Rightarrow> string option"
  tl_pem :: "string \<Rightarrow> string \<Rightarrow> string"
  tl_pair :: "string \<Rightarrow> string \<Rightarrow> string option"

datatype tls_error =
    NoKey | NoSerial | NoCertificate | CannotWriteCert | NoKeyText | CannotWriteKey | BadPair
  | NoDomain | DomainIsAddress | WildcardDomain | NoCacheDir | UnknownMode string

definition writePEM :: "tls_lib \<Rightarrow> disk_faults \<Rightarrow> string \<Rightarrow> string \<Rightarrow> string \<Rightarrow> disk \<Rightarrow> bool \<times> disk" where
  "writePEM lib df path pemType data d =
     (if df_create df then (False, d)
      else case df_write df of
        Some k \<Rightarrow> (False, Mapping.update path (take k (tl_pem lib pemType data)) d)
      | None \<Rightarrow> (True, Mapping.update path (tl_pem lib pemType data) d))"

definition template :: "nat \<Rightarrow> time \<Rightarrow> Certificate" where
  "template serial now = \<lparr>ct_SerialNumber = serial, ct_Organization = [''OwnCord Server''], ct_CommonName = ''OwnCord Self-Signed'',
     ct_NotBefore = now, ct_NotAfter = now + 10 * 365 * 24 * 60 * Minute, ct_IsCA = True\<rparr>"

text \<open>\<open>dfs\<close> are the failures of the two files.\<close>

definition GenerateSelfSigned ::
  "tls_lib \<Rightarrow> disk_faults \<times> disk_faults \<Rightarrow> time \<Rightarrow> string \<Rightarrow> string \<Rightarrow> disk \<Rightarrow> tls_error option \<times> disk" where
  "GenerateSelfSigned lib dfs now certFile keyFile d =
     (case tl_key lib of
        None \<Rightarrow> (Some NoKey, d)
      | Some privKey \<Rightarrow>
          (case tl_serial lib of
             None \<Rightarrow> (Some NoSerial, d)
           | Some serial \<Rightarrow>
               (case tl_sign lib (template serial now) privKey of
                  None \<Rightarrow> (Some NoCertificate, d)
                | Some certDER \<Rightarrow>
                    (case writePEM lib (fst dfs) certFile ''CERTIFICATE'' certDER d of
                       (False, d1) \<Rightarrow> (Some CannotWriteCert, d1)
                     | (True, d1) \<Rightarrow>
                         (case tl_marshal lib privKey of
                            None \<Rightarrow> (Some NoKeyText, d1)
                          | Some keyDER \<Rightarrow>
                              (case writePEM lib (snd dfs) keyFile ''EC PRIVATE KEY'' keyDER d1 of
                                 (False, d2) \<Rightarrow> (Some CannotWriteKey, d2)
                               | (True, d2) \<Rightarrow> (None, d2)))))))"

definition fileExists :: "string \<Rightarrow> disk \<Rightarrow> bool" where
  "fileExists path d \<longleftrightarrow> Mapping.lookup d path \<noteq> None"

text \<open>What is served: a certificate, or those the ACME manager obtains for a host.\<close>

datatype tls_config = KeyPair string | Acme string string

definition loadCertPair :: "tls_lib \<Rightarrow> string \<Rightarrow> string \<Rightarrow> disk \<Rightarrow> tls_error + tls_config" where
  "loadCertPair lib certFile keyFile d =
     (case (Mapping.lookup d certFile, Mapping.lookup d keyFile) of
        (Some c, Some k) \<Rightarrow> (case tl_pair lib c k of None \<Rightarrow> Inl BadPair | Some cert \<Rightarrow> Inr (KeyPair cert))
      | _ \<Rightarrow> Inl BadPair)"

definition loadOrGenerateSelfSigned ::
  "tls_lib \<Rightarrow> disk_faults \<times> disk_faults \<Rightarrow> time \<Rightarrow> TLSConfig \<Rightarrow> disk \<Rightarrow> (tls_error + tls_config) \<times> disk" where
  "loadOrGenerateSelfSigned lib dfs now cfg d =
     (let load = loadCertPair lib (tc_CertFile cfg) (tc_KeyFile cfg) in
      if \<not> fileExists (tc_CertFile cfg) d \<or> \<not> fileExists (tc_KeyFile cfg) d
      then (case GenerateSelfSigned lib dfs now (tc_CertFile cfg) (tc_KeyFile cfg) d of
              (Some e, d') \<Rightarrow> (Inl e, d')
            | (None, d') \<Rightarrow> (load d', d'))
      else (load d, d))"

text \<open>The server on port 80 sends everything but challenges to the host of the certificate.\<close>

definition acme_redirect :: "string \<Rightarrow> string \<Rightarrow> string" where
  "acme_redirect domain requestURI = ''https://'' @ domain @ requestURI"

record TLSResult =
  tr_TLSConfig :: "tls_config option"
  tr_HTTPHandler :: "(string \<Rightarrow> string) option"

definition loadACME :: "bool \<Rightarrow> TLSConfig \<Rightarrow> tls_error + TLSResult" where
  "loadACME mkdir_refused cfg =
     (if tc_Domain cfg = [] then Inl NoDomain
      else if ParseIP (tc_Domain cfg) \<noteq> None then Inl DomainIsAddress
      else if hasPrefix (tc_Domain cfg) ''*.'' \<or> CHR ''*'' \<in> set (tc_Domain cfg) then Inl WildcardDomain
      else let cacheDir = (if tc_AcmeCacheDir cfg = [] then ''data/acme_certs'' else tc_AcmeCacheDir cfg) in
        if mkdir_refused then Inl NoCacheDir
        else Inr \<lparr>tr_TLSConfig = Some (Acme (tc_Domain cfg) cacheDir), tr_HTTPHandler = Some (acme_redirect (tc_Domain cfg))\<rparr>)"

definition with_config :: "tls_error + tls_config \<Rightarrow> tls_error + TLSResult" where
  "with_config r = (case r of Inl e \<Rightarrow> Inl e | Inr c \<Rightarrow> Inr \<lparr>tr_TLSConfig = Some c, tr_HTTPHandler = None\<rparr>)"

definition LoadOrGenerate ::
  "tls_lib \<Rightarrow> disk_faults \<times> disk_faults \<Rightarrow> bool \<Rightarrow> time \<Rightarrow> TLSConfig \<Rightarrow> disk \<Rightarrow> (tls_error + TLSResult) \<times> disk" where
  "LoadOrGenerate lib dfs mkdir_refused now cfg d =
     (if tc_Mode cfg = ''off'' then (Inr \<lparr>tr_TLSConfig = None, tr_HTTPHandler = None\<rparr>, d)
      else if tc_Mode cfg = ''self_signed'' then apfst with_config (loadOrGenerateSelfSigned lib dfs now cfg d)
      else if tc_Mode cfg = ''manual'' then (with_config (loadCertPair lib (tc_CertFile cfg) (tc_KeyFile cfg) d), d)
      else if tc_Mode cfg = ''acme'' then (loadACME mkdir_refused cfg, d)
      else (Inl (UnknownMode (tc_Mode cfg)), d))"

section \<open>The first steps of the process\<close>

record start_faults =
  sf_remove :: bool
  sf_config :: disk_faults
  sf_mkdir :: bool
  sf_pem :: "disk_faults \<times> disk_faults"
  sf_acme :: bool

datatype start_error = ConfigError load_error | DataDirError | TLSError tls_error

text \<open>The binary an update replaced is removed; failures are only logged. \<open>exe\<close> is the path of the running one.\<close>

definition remove_old_binary :: "bool \<Rightarrow> string option \<Rightarrow> disk \<Rightarrow> disk" where
  "remove_old_binary refused exe d =
     (case exe of
        None \<Rightarrow> d
      | Some exePath \<Rightarrow>
          if fileExists (exePath @ ''.old'') d \<and> \<not> refused then Mapping.delete (exePath @ ''.old'') d else d)"

definition prepare ::
  "koanf \<Rightarrow> tls_lib \<Rightarrow> (nat \<Rightarrow> string) \<Rightarrow> start_faults \<Rightarrow> time \<Rightarrow> (string \<times> string) list \<Rightarrow> string option \<Rightarrow> disk \<Rightarrow>
   (start_error + Config \<times> TLSResult) \<times> disk" where
  "prepare kf lib rnd sf now environ exe d =
     (case Load kf rnd (sf_config sf) environ ''config.yaml'' (remove_old_binary (sf_remove sf) exe d) of
        (Inl e, d1) \<Rightarrow> (Inl (ConfigError e), d1)
      | (Inr cfg, d1) \<Rightarrow>
          if sf_mkdir sf then (Inl DataDirError, d1)
          else (case LoadOrGenerate lib (sf_pem sf) (sf_acme sf) now (cg_TLS cfg) d1 of
                  (Inl e, d2) \<Rightarrow> (Inl (TLSError e), d2)
                | (Inr res, d2) \<Rightarrow> (Inr (cfg, res), d2)))"

section \<open>The media server\<close>

text \<open>
  What \<^verbatim>\<open>NewRouter\<close> (\<^verbatim>\<open>api/router.go\<close>) starts: no process without a client or without a binary, and none when the
  start fails, which is only logged.
\<close>

definition start_livekit :: "config \<Rightarrow> string \<Rightarrow> bool \<times> bool \<Rightarrow> disk \<Rightarrow> LiveKitProcess option \<times> disk" where
  "start_livekit cf dataDir refused d =
     (if \<not> livekit_configured cf \<or> vc_LiveKitBinaryPath (cf_Voice cf) = [] then (None, d)
      else case Start (cf_Voice cf) dataDir refused NewLiveKitProcess d of
        (Some _, _, d') \<Rightarrow> (None, d')
      | (None, p, d') \<Rightarrow> (Some p, d'))"

text \<open>A process that was started writes its configuration and is at the top of its loop.\<close>

lemma start_livekit_started:
  assumes "start_livekit cf dataDir refused d = (Some p, d')"
  shows "p = lk_started \<and> (\<exists>text. config_text (cf_Voice cf) = Inr text \<and> d' = Mapping.update (Join2 dataDir ''livekit.yaml'') text d)"
  using assms
  by (auto simp: start_livekit_def Start_def generateConfig_def lk_started_def NewLiveKitProcess_def Let_def
      split: if_splits sum.splits prod.splits option.splits)

section \<open>Waiting for the port\<close>

definition contains :: "string \<Rightarrow> string \<Rightarrow> bool" where
  "contains s sub \<longleftrightarrow> list_ex (\<lambda>i. hasPrefix (drop i s) sub) [0..<length s + 1]"

definition isAddrInUse :: "string \<Rightarrow> bool" where
  "isAddrInUse err \<longleftrightarrow> contains err ''address already in use'' \<or> contains err ''Only one usage of each socket address''"

text \<open>
  The end of one \<^verbatim>\<open>ListenAndServe\<close>: it served until the server was closed, or an error. The loop waits
  half a second after each attempt that found the port in use; \<open>None\<close> is an orderly end.
\<close>

datatype listen_end = ServerClosed | ListenError string

function serve_loop :: "(nat \<Rightarrow> listen_end) \<Rightarrow> nat \<Rightarrow> string option" where
  "serve_loop listen attempt =
     (if attempt < 20 then
        (case listen attempt of
           ServerClosed \<Rightarrow> None
         | ListenError e \<Rightarrow> if attempt < 19 \<and> isAddrInUse e then serve_loop listen (attempt + 1) else Some e)
      else None)"
  by pat_completeness auto
termination by (relation "measure (\<lambda>(_, attempt). 20 - attempt)") auto

declare serve_loop.simps [simp del]

section \<open>Restarts keep the certificate\<close>

lemma loaded_exists:
  "loadCertPair lib c k d = Inr x \<Longrightarrow> fileExists c d \<and> fileExists k d"
  by (auto simp: loadCertPair_def fileExists_def split: option.splits)

lemma load_agrees:
  "Mapping.lookup d' c = Mapping.lookup d c \<Longrightarrow> Mapping.lookup d' k = Mapping.lookup d k \<Longrightarrow> tl_pair lib' = tl_pair lib \<Longrightarrow>
   loadCertPair lib' c k d' = loadCertPair lib c k d"
  by (auto simp: loadCertPair_def split: option.splits)

lemma loads_again:
  assumes "loadCertPair lib (tc_CertFile cfg) (tc_KeyFile cfg) d = Inr x"
    and "Mapping.lookup d' (tc_CertFile cfg) = Mapping.lookup d (tc_CertFile cfg)"
    and "Mapping.lookup d' (tc_KeyFile cfg) = Mapping.lookup d (tc_KeyFile cfg)" and "tl_pair lib' = tl_pair lib"
  shows "loadOrGenerateSelfSigned lib' dfs now cfg d' = (Inr x, d')"
    and "loadCertPair lib' (tc_CertFile cfg) (tc_KeyFile cfg) d' = Inr x"
proof -
  show load: "loadCertPair lib' (tc_CertFile cfg) (tc_KeyFile cfg) d' = Inr x"
    using assms by (simp add: load_agrees [of d' _ d _ lib' lib])
  from loaded_exists [OF this] show "loadOrGenerateSelfSigned lib' dfs now cfg d' = (Inr x, d')"
    by (simp add: loadOrGenerateSelfSigned_def load)
qed

lemma self_signed_loaded:
  "loadOrGenerateSelfSigned lib dfs now cfg d = (Inr x, d') \<Longrightarrow> loadCertPair lib (tc_CertFile cfg) (tc_KeyFile cfg) d' = Inr x"
  by (auto simp: loadOrGenerateSelfSigned_def Let_def split: if_splits option.splits prod.splits)

lemma tls_stable:
  assumes "LoadOrGenerate lib dfs refused now cfg d0 = (Inr res, d')"
    and "Mapping.lookup d'' (tc_CertFile cfg) = Mapping.lookup d' (tc_CertFile cfg)"
    and "Mapping.lookup d'' (tc_KeyFile cfg) = Mapping.lookup d' (tc_KeyFile cfg)"
    and "tl_pair lib' = tl_pair lib"
  shows "LoadOrGenerate lib' dfs' False now' cfg d'' = (Inr res, d'')"
proof -
  let ?mode = "tc_Mode cfg"
  consider "?mode = ''off''" | "?mode = ''self_signed''" | "?mode = ''manual''" | "?mode = ''acme''"
    using assms(1) by (auto simp: LoadOrGenerate_def split: if_splits)
  then show ?thesis
  proof cases
    case 2
    then obtain x where "loadOrGenerateSelfSigned lib dfs now cfg d0 = (Inr x, d')" and x: "res = \<lparr>tr_TLSConfig = Some x, tr_HTTPHandler = None\<rparr>"
      using assms(1) by (cases "loadOrGenerateSelfSigned lib dfs now cfg d0") (auto simp: LoadOrGenerate_def with_config_def split: sum.splits)
    then have "loadCertPair lib (tc_CertFile cfg) (tc_KeyFile cfg) d' = Inr x" by (simp add: self_signed_loaded)
    from loads_again(1) [OF this assms(2-4)] 2 x show ?thesis by (simp add: LoadOrGenerate_def with_config_def)
  next
    case 3
    then obtain x where "loadCertPair lib (tc_CertFile cfg) (tc_KeyFile cfg) d' = Inr x" and x: "res = \<lparr>tr_TLSConfig = Some x, tr_HTTPHandler = None\<rparr>"
      using assms(1) by (auto simp: LoadOrGenerate_def with_config_def split: sum.splits)
    from loads_again(2) [OF this(1) assms(2-4)] 3 x show ?thesis by (simp add: LoadOrGenerate_def with_config_def)
  qed (use assms(1) in \<open>auto simp: LoadOrGenerate_def loadACME_def Let_def split: if_splits\<close>)
qed

text \<open>Before the certificates a start touches the configuration file, if there is none, and the replaced binary.\<close>

definition start_touches :: "string option \<Rightarrow> disk \<Rightarrow> string \<Rightarrow> bool" where
  "start_touches exe d path \<longleftrightarrow> path = ''config.yaml'' \<and> \<not> fileExists path d \<or> (case exe of None \<Rightarrow> False | Some exePath \<Rightarrow> path = exePath @ ''.old'')"

lemma remove_old_lookup: "\<not> start_touches exe d path \<Longrightarrow> Mapping.lookup (remove_old_binary refused exe d) path = Mapping.lookup d path"
  by (auto simp: remove_old_binary_def start_touches_def lookup_delete_neq split: option.splits)

lemma Load_lookup:
  assumes "Load kf rnd df environ cfgPath d = (r, d')" and "path \<noteq> cfgPath \<or> fileExists path d"
  shows "Mapping.lookup d' path = Mapping.lookup d path"
proof -
  have "Mapping.lookup (snd (file_layer kf df cfgPath d)) path = Mapping.lookup d path"
    using assms(2) by (auto simp: file_layer_def fileExists_def lookup_update_neq split: option.splits)
  with assms(1) show ?thesis by (auto simp: Load_def split: prod.splits sum.splits option.splits)
qed

lemma Load_touches:
  assumes "Load kf rnd df environ ''config.yaml'' (remove_old_binary refused exe d) = (r, d')" and "\<not> start_touches exe d path"
  shows "Mapping.lookup d' path = Mapping.lookup d path"
proof -
  note same = remove_old_lookup [OF assms(2), of refused]
  have "path \<noteq> ''config.yaml'' \<or> fileExists path d" using assms(2) by (auto simp: start_touches_def)
  then have "path \<noteq> ''config.yaml'' \<or> fileExists path (remove_old_binary refused exe d)" using same by (simp add: fileExists_def)
  from Load_lookup [OF assms(1) this] same show ?thesis by simp
qed

text \<open>
  C31: A server keeps its identity. Let a start have come as far as its certificates, and
  take any later start: on a disk where the certificate and the key file are as the first
  one left them (and are not the files a start itself replaces), which loads a configuration
  with the same TLS settings and can create its directories, with the same decoder of pairs.
  Then that start serves the same certificate, or the same ACME host, as the first, whatever the
  random source and the clock give and whatever files could not be written; and it changes no file,
  the two among them, except that it writes \<^verbatim>\<open>config.yaml\<close> if there is none and may remove
  the binary an update left.
\<close>
theorem identity_stable:
  assumes "prepare kf lib rnd sf now environ exe d = (Inr (cfg, res), d')"
    and "Mapping.lookup d'' (tc_CertFile (cg_TLS cfg)) = Mapping.lookup d' (tc_CertFile (cg_TLS cfg))"
    and "Mapping.lookup d'' (tc_KeyFile (cg_TLS cfg)) = Mapping.lookup d' (tc_KeyFile (cg_TLS cfg))"
    and "\<not> start_touches exe' d'' (tc_CertFile (cg_TLS cfg))" and "\<not> start_touches exe' d'' (tc_KeyFile (cg_TLS cfg))"
    and "fst (Load kf' rnd' (sf_config sf') environ' ''config.yaml'' (remove_old_binary (sf_remove sf') exe' d'')) = Inr cfg'"
    and "cg_TLS cfg' = cg_TLS cfg" and "tl_pair lib' = tl_pair lib" and "\<not> sf_mkdir sf'" and "\<not> sf_acme sf'"
  shows "\<exists>d3. prepare kf' lib' rnd' sf' now' environ' exe' d'' = (Inr (cfg', res), d3)
    \<and> (\<forall>path. \<not> start_touches exe' d'' path \<longrightarrow> Mapping.lookup d3 path = Mapping.lookup d'' path)"
proof -
  obtain d0 where first: "LoadOrGenerate lib (sf_pem sf) (sf_acme sf) now (cg_TLS cfg) d0 = (Inr res, d')"
    using assms(1) by (auto simp: prepare_def split: sum.splits prod.splits if_splits)
  obtain d3 where load: "Load kf' rnd' (sf_config sf') environ' ''config.yaml'' (remove_old_binary (sf_remove sf') exe' d'') = (Inr cfg', d3)"
    using assms(6) by (metis prod.collapse)
  note same = Load_touches [OF load]
  have "LoadOrGenerate lib' (sf_pem sf') False now' (cg_TLS cfg) d3 = (Inr res, d3)"
    using assms(2-5) by (intro tls_stable [OF first _ _ assms(8)]) (simp_all add: same)
  with load assms(7,9,10) same show ?thesis by (auto simp: prepare_def)
qed

text \<open>An instance: the default settings on an empty disk, with a library whose pairs always fit.\<close>

definition no_faults :: disk_faults where
  "no_faults = \<lparr>df_read = False, df_create = False, df_write = None, df_remove = False\<rparr>"

definition sample_lib :: "string \<Rightarrow> tls_lib" where
  "sample_lib key = \<lparr>tl_key = Some key, tl_serial = Some 1, tl_sign = (\<lambda>_ k. Some (''cert of '' @ k)), tl_marshal = Some,
     tl_pem = (\<lambda>t x. t @ '': '' @ x), tl_pair = (\<lambda>c k. Some c)\<rparr>"

definition sample_koanf :: koanf where
  "sample_koanf = \<lparr>kf_yaml = (\<lambda>_. True), kf_merge = (\<lambda>cfg _ _. Some cfg)\<rparr>"

definition sample_start :: start_faults where
  "sample_start = \<lparr>sf_remove = False, sf_config = no_faults, sf_mkdir = False, sf_pem = (no_faults, no_faults), sf_acme = False\<rparr>"

lemmas sample_start_defs = sample_start_def no_faults_def sample_lib_def sample_koanf_def

definition default_tls :: TLSConfig where
  "default_tls = cg_TLS defaults"

lemma sample_prepared:
  "prepare sample_koanf (sample_lib ''a'') (\<lambda>n. replicate n (CHR ''x'')) sample_start 0 [] None Mapping.empty =
     (Inr (finish_load (\<lambda>n. replicate n (CHR ''x'')) defaults, \<lparr>tr_TLSConfig = Some (KeyPair ''CERTIFICATE: cert of a''), tr_HTTPHandler = None\<rparr>),
      Mapping.update ''data/key.pem'' ''EC PRIVATE KEY: a'' (Mapping.update ''data/cert.pem'' ''CERTIFICATE: cert of a''
        (Mapping.update ''config.yaml'' defaultYAML Mapping.empty)))"
proof -
  have tls: "cg_TLS (finish_load rnd defaults) = default_tls" for rnd by (simp add: finish_load_def Let_def default_tls_def)
  have d: "tc_Mode default_tls = ''self_signed''" "tc_CertFile default_tls = ''data/cert.pem''" "tc_KeyFile default_tls = ''data/key.pem''"
    by (simp_all add: default_tls_def defaults_def)
  show ?thesis
    by (simp add: prepare_def Load_def file_layer_def remove_old_binary_def sample_start_defs tls LoadOrGenerate_def d
        loadOrGenerateSelfSigned_def fileExists_def GenerateSelfSigned_def writePEM_def loadCertPair_def with_config_def
        lookup_update lookup_update_neq Let_def)
qed

definition sample_disk :: disk where
  "sample_disk = Mapping.update ''server.exe.old'' ''old binary'' (Mapping.update ''data/key.pem'' ''EC PRIVATE KEY: a''
     (Mapping.update ''data/cert.pem'' ''CERTIFICATE: cert of a'' Mapping.empty))"

text \<open>The second start has another random source and a disk that refuses to write certificates.\<close>

theorem identity_stable_witness:
  "\<exists>cfg d3. prepare sample_koanf (sample_lib ''b'') (\<lambda>n. replicate n (CHR ''y'')) (sample_start\<lparr>sf_pem := (no_faults\<lparr>df_create := True\<rparr>, no_faults)\<rparr>)
      7 [] (Some ''server.exe'') sample_disk
    = (Inr (cfg, \<lparr>tr_TLSConfig = Some (KeyPair ''CERTIFICATE: cert of a''), tr_HTTPHandler = None\<rparr>), d3)
   \<and> Mapping.lookup d3 ''data/key.pem'' = Some ''EC PRIVATE KEY: a''"
proof -
  let ?rnd = "\<lambda>n. replicate n (CHR ''y'')" and ?sf = "sample_start\<lparr>sf_pem := (no_faults\<lparr>df_create := True\<rparr>, no_faults)\<rparr>"
  have tls: "cg_TLS (finish_load rnd defaults) = default_tls" for rnd by (simp add: finish_load_def Let_def default_tls_def)
  have d: "tc_CertFile default_tls = ''data/cert.pem''" "tc_KeyFile default_tls = ''data/key.pem''"
    by (simp_all add: default_tls_def defaults_def)
  have pair: "tl_pair (sample_lib ''b'') = tl_pair (sample_lib ''a'')" by (simp add: sample_lib_def)
  have load: "fst (Load sample_koanf ?rnd (sf_config ?sf) [] ''config.yaml'' (remove_old_binary (sf_remove ?sf) (Some ''server.exe'') sample_disk))
      = Inr (finish_load ?rnd defaults)"
    by (simp add: Load_def file_layer_def remove_old_binary_def sample_start_defs sample_disk_def fileExists_def lookup_update lookup_update_neq
      lookup_delete_neq Mapping.lookup_empty)
  have same: "cg_TLS (finish_load ?rnd defaults) = cg_TLS (finish_load (\<lambda>n. replicate n (CHR ''x'')) defaults)" by (simp add: tls)
  show ?thesis
    using identity_stable [OF sample_prepared _ _ _ _ load same pair, where now' = 7]
    by (auto simp: tls d sample_disk_def start_touches_def sample_start_def lookup_update lookup_update_neq)
qed

section \<open>A half-written key\<close>

text \<open>
  A failure while the key is written stops the server for good. When the first start has written
  the certificate and the write of the key breaks off, so that the pair does not load, the start
  fails; both files now exist, so no later start generates them again: every one fails too and
  changes nothing, even when the disk works again.
\<close>
theorem half_key_sticks:
  assumes "tc_Mode cfg = ''self_signed''" and "tc_CertFile cfg \<noteq> tc_KeyFile cfg" and "\<not> fileExists (tc_KeyFile cfg) d"
    and "tl_key lib = Some key" and "tl_serial lib = Some serial" and "tl_sign lib (template serial now) key = Some cert"
    and "tl_marshal lib key = Some der" and "\<not> df_create (fst dfs)" and "df_write (fst dfs) = None"
    and "\<not> df_create (snd dfs)" and "df_write (snd dfs) = Some k"
    and "tl_pair lib (tl_pem lib ''CERTIFICATE'' cert) (take k (tl_pem lib ''EC PRIVATE KEY'' der)) = None"
    and "LoadOrGenerate lib dfs False now cfg d = (r, d')"
  shows "r = Inl CannotWriteKey
    \<and> (\<forall>lib' dfs' now'. tl_pair lib' = tl_pair lib \<longrightarrow> LoadOrGenerate lib' dfs' False now' cfg d' = (Inl BadPair, d'))"
proof -
  have gen: "GenerateSelfSigned lib dfs now (tc_CertFile cfg) (tc_KeyFile cfg) d =
      (Some CannotWriteKey, Mapping.update (tc_KeyFile cfg) (take k (tl_pem lib ''EC PRIVATE KEY'' der))
         (Mapping.update (tc_CertFile cfg) (tl_pem lib ''CERTIFICATE'' cert) d))"
    using assms by (simp add: GenerateSelfSigned_def writePEM_def)
  with assms have r: "r = Inl CannotWriteKey" and d': "d' = Mapping.update (tc_KeyFile cfg) (take k (tl_pem lib ''EC PRIVATE KEY'' der))
      (Mapping.update (tc_CertFile cfg) (tl_pem lib ''CERTIFICATE'' cert) d)"
    by (auto simp: LoadOrGenerate_def loadOrGenerateSelfSigned_def with_config_def Let_def)
  have "Mapping.lookup d' (tc_CertFile cfg) = Some (tl_pem lib ''CERTIFICATE'' cert)"
    "Mapping.lookup d' (tc_KeyFile cfg) = Some (take k (tl_pem lib ''EC PRIVATE KEY'' der))"
    using assms(2) by (simp_all add: d' lookup_update lookup_update_neq)
  then show ?thesis
    using r assms(1,12) by (auto simp: LoadOrGenerate_def loadOrGenerateSelfSigned_def loadCertPair_def fileExists_def with_config_def Let_def)
qed

section \<open>The port\<close>

definition in_use :: "listen_end \<Rightarrow> bool" where
  "in_use r \<longleftrightarrow> (case r of ServerClosed \<Rightarrow> False | ListenError e \<Rightarrow> isAddrInUse e)"

lemma serve_loop_from:
  "k < 20 \<Longrightarrow> a \<le> k \<Longrightarrow> \<forall>i. a \<le> i \<and> i < k \<longrightarrow> in_use (listen i) \<Longrightarrow> k = 19 \<or> \<not> in_use (listen k) \<Longrightarrow>
   serve_loop listen a = (case listen k of ServerClosed \<Rightarrow> None | ListenError e \<Rightarrow> Some e)"
proof (induction "k - a" arbitrary: a)
  case 0
  then have "a = k" by simp
  then show ?case using 0 by (auto simp: serve_loop.simps [of listen k] in_use_def split: listen_end.splits)
next
  case (Suc n)
  then have "in_use (listen a)" "a < k" by auto
  then obtain e where "listen a = ListenError e" "isAddrInUse e" by (auto simp: in_use_def split: listen_end.splits)
  moreover have "serve_loop listen (a + 1) = (case listen k of ServerClosed \<Rightarrow> None | ListenError e \<Rightarrow> Some e)"
    using Suc \<open>a < k\<close> by (intro Suc.hyps(1)) auto
  ultimately show ?case using \<open>a < k\<close> Suc.prems(1) by (simp add: serve_loop.simps [of listen a])
qed

text \<open>
  The server waits for a port that is still in use, but not for ever: the outcome is that of the
  first attempt that does not find the port in use, or of the twentieth attempt.
\<close>
theorem port_awaited:
  "serve_loop listen 0 =
     (case listen (LEAST k. k = 19 \<or> \<not> in_use (listen k)) of ServerClosed \<Rightarrow> None | ListenError e \<Rightarrow> Some e)"
proof -
  define k where "k = (LEAST k. k = 19 \<or> \<not> in_use (listen k))"
  have "k = 19 \<or> \<not> in_use (listen k)" unfolding k_def by (rule LeastI [of _ 19]) simp
  moreover have "k < 20" using Least_le [of "\<lambda>k. k = 19 \<or> \<not> in_use (listen k)" 19] by (simp add: k_def)
  moreover have "in_use (listen i)" if "i < k" for i using not_less_Least [OF that [unfolded k_def]] by simp
  ultimately show ?thesis unfolding k_def [symmetric] by (intro serve_loop_from) auto
qed

end
