(* ===== verification/LogHandler.thy ===== *)
theory LogHandler
  imports AdminSettings RingBuffer
begin

text \<open>
  The log handlers of \<^verbatim>\<open>admin/logstream.go\<close>, which fill the buffer of the log stream: every record goes to
  the standard output and, with its attributes as one JSON object, to the buffer. The
  theorem is that the panel shows the last records.
\<close>

section \<open>Records\<close>

text \<open>
  A record of \<^verbatim>\<open>log/slog\<close>: its time as RFC 3339 text, its level, the source file of the call when it is
  known, and its attributes; \<open>None\<close> is a value that \<^verbatim>\<open>encoding/json\<close> refuses.
\<close>

record LogRecord =
  lr_Time :: string
  lr_Level :: int
  lr_Message :: string
  lr_File :: "string option"
  lr_Attrs :: "(string \<times> json option) list"

definition LevelDebug :: int where "LevelDebug = - 4"
definition LevelInfo :: int where "LevelInfo = 0"
definition LevelWarn :: int where "LevelWarn = 4"
definition LevelError :: int where "LevelError = 8"

text \<open>\<^verbatim>\<open>slog.Level.String\<close>.\<close>

definition level_text :: "string \<Rightarrow> int \<Rightarrow> string" where
  "level_text base v = (if v = 0 then base else base @ (if v < 0 then [] else ''+'') @ itoa v)"

definition LevelString :: "int \<Rightarrow> string" where
  "LevelString l =
     (if l < LevelInfo then level_text ''DEBUG'' (l - LevelDebug)
      else if l < LevelWarn then level_text ''INFO'' (l - LevelInfo)
      else if l < LevelError then level_text ''WARN'' (l - LevelWarn)
      else level_text ''ERROR'' (l - LevelError))"

section \<open>Handlers\<close>

record ringHandler =
  rh_level :: int
  rh_attrs :: "(string \<times> json option) list"
  rh_groups :: "string list"

definition ring_Enabled :: "ringHandler \<Rightarrow> int \<Rightarrow> bool" where
  "ring_Enabled rh l \<longleftrightarrow> l \<ge> rh_level rh"

definition withAttrs :: "(string \<times> json option) list \<Rightarrow> ringHandler \<Rightarrow> ringHandler" where
  "withAttrs attrs rh = rh\<lparr>rh_attrs := rh_attrs rh @ attrs\<rparr>"

definition withGroup :: "string \<Rightarrow> ringHandler \<Rightarrow> ringHandler" where
  "withGroup name rh = rh\<lparr>rh_groups := rh_groups rh @ [name]\<rparr>"

definition attr_key :: "string list \<Rightarrow> string \<Rightarrow> string" where
  "attr_key groups key = (if groups \<noteq> [] then join_with ''.'' groups @ ''.'' @ key else key)"

text \<open>The map of the attributes: the ones set before, then those of the record; a later one of the same key wins.\<close>

definition record_attrs :: "ringHandler \<Rightarrow> LogRecord \<Rightarrow> (string \<times> json option) list" where
  "record_attrs rh r =
     fold (\<lambda>(k, v) m. AList.update k v m) (rh_attrs rh @ map (\<lambda>(k, v). (attr_key (rh_groups rh) k, v)) (lr_Attrs r)) []"

text \<open>A map is printed with its keys sorted; nothing is printed when a value cannot be.\<close>

definition attrs_text :: "(string \<times> json option) list \<Rightarrow> string" where
  "attrs_text m =
     (if m = [] then []
      else case those (map (\<lambda>(k, v). map_option (Pair k) v) (sort_key fst m)) of
        None \<Rightarrow> [] | Some kvs \<Rightarrow> Marshal (JObj kvs))"

definition ring_entry :: "ringHandler \<Rightarrow> LogRecord \<Rightarrow> LogEntry" where
  "ring_entry rh r = \<lparr>le_Timestamp = lr_Time r, le_Level = LevelString (lr_Level r), le_Message = lr_Message r,
     le_Source = categorizeSource (lr_File r), le_Attrs = attrs_text (record_attrs rh r)\<rparr>"

text \<open>Both handlers; the standard output takes a record from its own level up. \<open>None\<close> is a panic of the buffer.\<close>

record multiHandler =
  mh_stdout :: int
  mh_ring :: ringHandler

definition NewMultiHandler :: "int \<Rightarrow> int \<Rightarrow> multiHandler" where
  "NewMultiHandler stdout minLevel = \<lparr>mh_stdout = stdout, mh_ring = \<lparr>rh_level = minLevel, rh_attrs = [], rh_groups = []\<rparr>\<rparr>"

definition Enabled :: "multiHandler \<Rightarrow> int \<Rightarrow> bool" where
  "Enabled h l \<longleftrightarrow> l \<ge> mh_stdout h \<or> ring_Enabled (mh_ring h) l"

definition Handle :: "multiHandler \<Rightarrow> LogRecord list \<times> LogBuffer \<Rightarrow> LogRecord \<Rightarrow> (LogRecord list \<times> LogBuffer) option" where
  "Handle h s r =
     (let out = (if lr_Level r \<ge> mh_stdout h then fst s @ [r] else fst s) in
      if ring_Enabled (mh_ring h) (lr_Level r) then map_option (Pair out) (WriteLog (ring_entry (mh_ring h) r) (snd s))
      else Some (out, snd s))"

text \<open>A logger asks \<^verbatim>\<open>Enabled\<close> first.\<close>

definition log_record :: "multiHandler \<Rightarrow> LogRecord list \<times> LogBuffer \<Rightarrow> LogRecord \<Rightarrow> (LogRecord list \<times> LogBuffer) option" where
  "log_record h s r = (if Enabled h (lr_Level r) then Handle h s r else Some s)"

section \<open>The buffer keeps the last entries\<close>

definition log_ok :: "LogBuffer \<Rightarrow> bool" where
  "log_ok rb \<longleftrightarrow> 0 < lb_capacity rb \<and> length (lb_entries rb) \<le> lb_capacity rb
     \<and> (\<forall>(i, q) \<in> set (lb_subscribers rb). length q \<le> subscriber_cap)"

lemma WriteLog_last:
  assumes "log_ok rb"
  shows "\<exists>rb'. WriteLog e rb = Some rb' \<and> log_ok rb' \<and> lb_capacity rb' = lb_capacity rb
    \<and> Snapshot rb' = lastn (lb_capacity rb) (Snapshot rb @ [e])"
proof (cases "length (lb_entries rb) < lb_capacity rb")
  case True
  with assms show ?thesis by (force simp: WriteLog_def log_ok_def Snapshot_def lastn_def)
next
  case False
  with assms have full: "length (lb_entries rb) = lb_capacity rb" "lb_entries rb \<noteq> []" by (auto simp: log_ok_def)
  then have "tl (lb_entries rb) @ [e] = lastn (lb_capacity rb) (lb_entries rb @ [e])"
    by (cases "lb_entries rb") (auto simp: lastn_def)
  with full assms show ?thesis by (force simp: WriteLog_def log_ok_def Snapshot_def)
qed

interpretation panel_log: last_buffer NewLogBuffer "\<lambda>rb e. WriteLog e rb" Snapshot lb_capacity log_ok
proof unfold_locales
  show "log_ok b \<Longrightarrow> \<exists>b'. WriteLog e b = Some b' \<and> log_ok b' \<and> lb_capacity b' = lb_capacity b
      \<and> Snapshot b' = lastn (lb_capacity b) (Snapshot b @ [e])" for b e
    by (rule WriteLog_last)
qed (simp_all add: log_ok_def NewLogBuffer_def Snapshot_def)

lemma log_records:
  "log_ok (snd s) \<Longrightarrow> \<exists>rb. adds (\<lambda>rb e. WriteLog e rb) (snd s) (map (ring_entry (mh_ring h)) (filter (\<lambda>r. rh_level (mh_ring h) \<le> lr_Level r) rs)) = Some rb
     \<and> adds (log_record h) s rs = Some (fst s @ filter (\<lambda>r. mh_stdout h \<le> lr_Level r) rs, rb)"
proof (induction rs arbitrary: s)
  case (Cons r rs)
  show ?case
  proof (cases "rh_level (mh_ring h) \<le> lr_Level r")
    case True
    obtain rb1 where rb1: "WriteLog (ring_entry (mh_ring h) r) (snd s) = Some rb1" "log_ok rb1"
      using WriteLog_last [OF Cons.prems] by blast
    let ?out = "if mh_stdout h \<le> lr_Level r then fst s @ [r] else fst s"
    have "log_record h s r = Some (?out, rb1)"
      using True rb1(1) by (simp add: log_record_def Enabled_def Handle_def ring_Enabled_def Let_def)
    with Cons.IH [of "(?out, rb1)"] rb1 True show ?thesis by (auto split: if_splits)
  next
    case False
    let ?out = "if mh_stdout h \<le> lr_Level r then fst s @ [r] else fst s"
    have "log_record h s r = Some (?out, snd s)"
      using False by (simp add: log_record_def Enabled_def Handle_def ring_Enabled_def)
    with Cons.IH [of "(?out, snd s)"] Cons.prems False show ?thesis by (auto split: if_splits)
  qed
qed simp

text \<open>
  C33: The panel shows the last records. However many records are logged, with the handlers made at the
  start of the process the log never panics; the buffer holds exactly the entries of the last
  2000 records from debug level up, in order; and the standard output has exactly the records from info level up.
\<close>
theorem panel_shows_last:
  "\<exists>rb. adds (log_record (NewMultiHandler LevelInfo LevelDebug)) ([], NewLogBuffer 2000) rs =
       Some (filter (\<lambda>r. LevelInfo \<le> lr_Level r) rs, rb)
     \<and> Snapshot rb = lastn 2000 (map (ring_entry \<lparr>rh_level = LevelDebug, rh_attrs = [], rh_groups = []\<rparr>)
         (filter (\<lambda>r. LevelDebug \<le> lr_Level r) rs))"
proof -
  let ?h = "NewMultiHandler LevelInfo LevelDebug" and ?b = "NewLogBuffer 2000"
  let ?es = "map (ring_entry (mh_ring ?h)) (filter (\<lambda>r. rh_level (mh_ring ?h) \<le> lr_Level r) rs)"
  have "log_ok ?b" by (simp add: log_ok_def NewLogBuffer_def)
  with log_records [of "([], ?b)" ?h rs] obtain rb where rb: "adds (\<lambda>rb e. WriteLog e rb) ?b ?es = Some rb"
      "adds (log_record ?h) ([], ?b) rs = Some (filter (\<lambda>r. mh_stdout ?h \<le> lr_Level r) rs, rb)"
    by auto
  with panel_log.adds_new [of 2000 ?es] have "log_ok rb" "Snapshot rb = lastn 2000 ?es" by auto
  with rb(2) show ?thesis by (auto simp: NewMultiHandler_def)
qed

end
