(* ===== verification/FrameTypes.thy ===== *)
theory FrameTypes
  imports JsonRoundtrip
begin

text \<open>
  Every message builder gives a frame of its type: one JSON object whose \<^verbatim>\<open>type\<close> is the one clients
  dispatch on, before and after the hub splices the sequence number in.
\<close>

section \<open>Frames\<close>

definition typed_object :: "string \<Rightarrow> bytes \<Rightarrow> bool" where
  "typed_object ty msg \<longleftrightarrow> (\<exists>fields. parse_json msg = Some (JObj fields) \<and> map_of fields ''type'' = Some (JStr ty))"

definition frame :: "string \<Rightarrow> bytes \<Rightarrow> bool" where
  "frame ty msg \<longleftrightarrow> typed_object ty msg \<and> (\<forall>n. typed_object ty (wrapWithSeq msg n))"

definition plain :: "string \<Rightarrow> bool" where
  "plain s \<longleftrightarrow> (\<forall>c \<in> set s. byte c < 0x80)"

text \<open>Values a frame can be made of: literal numbers, and nesting far below the limit.\<close>

definition payload_ok :: "nat \<Rightarrow> json \<Rightarrow> bool" where
  "payload_ok d v \<longleftrightarrow> numbers_ok v \<and> depth v \<le> d"

lemma payload_atoms [simp]:
  "payload_ok d JNull" "payload_ok d (JBool b)" "payload_ok d (JStr s)" "payload_ok d (jint i)" "payload_ok d (jstr_opt x)" "payload_ok d (jint_opt y)"
  by (simp_all add: payload_ok_def jstr_opt_def jint_opt_def split: option.split)

lemma payload_obj [simp]: "payload_ok (Suc d) (JObj kvs) \<longleftrightarrow> (\<forall>(k, v) \<in> set kvs. payload_ok d v)"
  by (auto simp: payload_ok_def list_all_iff)

lemma payload_arr [simp]: "payload_ok (Suc d) (JArr vs) \<longleftrightarrow> (\<forall>v \<in> set vs. payload_ok d v)"
  by (auto simp: payload_ok_def list_all_iff)

lemma payload_mono: "payload_ok d v \<Longrightarrow> d \<le> e \<Longrightarrow> payload_ok e v"
  by (simp add: payload_ok_def)

lemma map_of_valid:
  "map_of kvs ''type'' = Some (JStr ty) \<Longrightarrow> plain ty \<Longrightarrow> \<forall>(k, v) \<in> set kvs. plain k \<Longrightarrow>
   map_of (map (\<lambda>(k, v). (to_valid k, utf8_valid v)) kvs) ''type'' = Some (JStr ty)"
  by (induction kvs) (auto simp: plain_def to_valid_ascii split: if_splits)

lemma frame_object:
  assumes "\<forall>(k, v) \<in> set kvs. payload_ok 9000 v \<and> plain k" and "map_of kvs ''type'' = Some (JStr ty)" and "plain ty"
  shows "frame ty (Marshal (JObj kvs))"
proof -
  have "kvs \<noteq> []" using assms(2) by auto
  have "payload_ok (Suc 9000) (JObj kvs)" using assms(1) unfolding payload_obj by auto
  then have ok: "numbers_ok (JObj kvs)" "depth (JObj kvs) \<le> maxDepth" unfolding payload_ok_def maxDepth_def by linarith+
  let ?fields = "map (\<lambda>(k, v). (to_valid k, utf8_valid v)) kvs"
  have ty: "map_of ?fields ''type'' = Some (JStr ty)" using assms by (intro map_of_valid) auto
  have "parse_json (Marshal (JObj kvs)) = Some (JObj ?fields)" using parse_Marshal [OF ok] by simp
  moreover have "parse_json (wrapWithSeq (Marshal (JObj kvs)) n) = Some (JObj ((''seq'', JNum (dec (unat n))) # ?fields))" for n
    using ok parse_Marshal [of "JObj ((''seq'', JNum (dec (unat n))) # kvs)"]
    unfolding wrap_Marshal [OF \<open>kvs \<noteq> []\<close>] by (simp add: to_valid_ascii)
  ultimately show ?thesis using ty by (simp add: frame_def typed_object_def)
qed

lemma payload_level: "payload_ok 9000 (JObj kvs) \<longleftrightarrow> (\<forall>(k, v) \<in> set kvs. payload_ok 8999 v)"
  "payload_ok 8999 (JObj kvs) \<longleftrightarrow> (\<forall>(k, v) \<in> set kvs. payload_ok 8998 v)"
  "payload_ok 8999 (JArr vs) \<longleftrightarrow> (\<forall>v \<in> set vs. payload_ok 8998 v)"
  using payload_obj [of 8999 kvs] payload_obj [of 8998 kvs] payload_arr [of 8998 vs] by simp_all

lemma frame_wsMsg: "payload_ok 9000 p \<Longrightarrow> plain ty \<Longrightarrow> frame ty (Marshal (wsMsg ty rid p))"
  unfolding wsMsg_def by (rule frame_object) (auto simp: plain_def)

lemma attachments_ok: "payload_ok 8998 (attachment_map a)"
  using payload_obj [of 8997] by (simp add: attachment_map_def)

lemma member_ok: "payload_ok 8999 (memberUserPayload i u a r)"
  by (simp add: memberUserPayload_def payload_level)

text \<open>
  Every message the server builds is a frame of its type, for all names, texts and numbers that
  go into it: chat messages with their attachments, edits, deletions, reactions, typing,
  presence, members, voice, channels, restarts and errors.
\<close>
theorem builders_typed:
  "frame ''chat_message'' (buildChatMessage msgID chID uID username avatar roleName content timestamp replyTo (map attachment_map atts))
   \<and> frame ''chat_send_ok'' (buildChatSendOK reqID msgID timestamp)
   \<and> frame ''chat_edited'' (buildChatEdited msgID chID content editedAt)
   \<and> frame ''chat_deleted'' (buildChatDeleted msgID chID)
   \<and> frame ''reaction_update'' (buildReactionUpdate msgID chID uID emoji action)
   \<and> frame ''typing'' (buildTypingMsg chID uID username)
   \<and> frame ''presence'' (buildPresenceMsg uID status)
   \<and> frame ''member_join'' (buildMemberJoin user roleName)
   \<and> frame ''member_update'' (buildMemberUpdate uID roleName)
   \<and> frame ''member_ban'' (buildMemberBan uID)
   \<and> frame ''voice_state'' (buildVoiceState st)
   \<and> frame ''voice_config'' (buildVoiceConfig chID quality bitrate maxUsers)
   \<and> frame ''voice_token'' (buildVoiceToken chID token proxyPath directURL)
   \<and> frame ''voice_leave'' (buildVoiceLeave chID uID)
   \<and> frame ''channel_create'' (buildChannelCreate ch)
   \<and> frame ''channel_update'' (buildChannelUpdate ch)
   \<and> frame ''channel_delete'' (buildChannelDelete chID)
   \<and> frame ''dm_channel_open'' (buildDMChannelOpen chID (Some user))
   \<and> frame ''server_restart'' (buildServerRestartMsg reason secs)
   \<and> frame ''error'' (buildErrorMsg code message)
   \<and> frame ''error'' (buildRateLimitError message secs)
   \<and> frame ''auth_error'' (buildAuthError message)
   \<and> frame ''pong'' buildPong"
  unfolding buildChatMessage_def buildChatSendOK_def buildChatEdited_def buildChatDeleted_def buildReactionUpdate_def buildTypingMsg_def
    buildPresenceMsg_def buildMemberJoin_def buildMemberUpdate_def buildMemberBan_def buildVoiceState_def buildVoiceConfig_def
    buildVoiceToken_def buildVoiceLeave_def buildChannelCreate_def buildChannelUpdate_def buildChannelDelete_def buildDMChannelOpen_def
    buildServerRestartMsg_def buildErrorMsg_def buildRateLimitError_def buildAuthError_def buildPong_def option.case channelPayload_def
  by (intro conjI frame_wsMsg frame_object) (simp_all add: payload_level attachments_ok member_ok plain_def)

end
