(* ===== verification/HubCalls.thy ===== *)
theory HubCalls
  imports HubSafety FrameTypes
begin

text \<open>
  What the calls of the hub share: a contract for predicates of its queues, its replay buffer and its
  counter (locale \<open>hub_calls\<close>). A predicate that survives the queueing of a message, the announcement of
  one, the taking of one from a queue and a new client is kept by every handler and every step but
  the delivery of a broadcast. The types of the queued messages and the numbering of the
  events interpret it.
\<close>

section \<open>Messages handlers send\<close>

text \<open>A message that is a frame, as it is and numbered.\<close>

definition source :: "bytes \<Rightarrow> bool" where
  "source m \<longleftrightarrow> (\<exists>ty. frame ty m)"

named_theorems source_intro \<open>messages that are frames\<close>

lemma source_wsMsg: "payload_ok 9000 p \<Longrightarrow> plain ty \<Longrightarrow> source (Marshal (wsMsg ty rid p))"
  unfolding source_def using frame_wsMsg by blast

lemma source_object:
  "\<forall>(k, v) \<in> set kvs. payload_ok 9000 v \<and> plain k \<Longrightarrow> map_of kvs ''type'' = Some (JStr ty) \<Longrightarrow> plain ty \<Longrightarrow>
   source (Marshal (JObj kvs))"
  unfolding source_def using frame_object by blast

lemma source_chat [source_intro]:
  "list_all (payload_ok 8998) atts \<Longrightarrow> source (buildChatMessage msgID chID uID username avatar roleName content timestamp replyTo atts)"
  unfolding buildChatMessage_def
  by (intro source_wsMsg) (simp_all add: payload_level member_ok plain_def list_all_iff)

lemma source_dm_open [source_intro]: "u \<noteq> None \<Longrightarrow> source (buildDMChannelOpen chID u)"
  unfolding buildDMChannelOpen_def
  by (cases u) (auto intro!: source_wsMsg simp: payload_level plain_def)

lemma source_builders [source_intro]:
  "source (buildChatSendOK reqID msgID timestamp)" "source (buildChatEdited msgID chID content editedAt)"
  "source (buildChatDeleted msgID chID)" "source (buildReactionUpdate msgID chID uID emoji action)"
  "source (buildTypingMsg chID uID username)" "source (buildPresenceMsg uID status)" "source (buildMemberJoin user roleName)"
  "source (buildVoiceState st)" "source (buildVoiceConfig chID quality bitrate maxUsers)"
  "source (buildVoiceToken chID token proxyPath directURL)" "source (buildVoiceLeave chID uID)"
  unfolding buildChatSendOK_def buildChatEdited_def buildChatDeleted_def buildReactionUpdate_def buildTypingMsg_def
    buildPresenceMsg_def buildMemberJoin_def buildVoiceState_def buildVoiceConfig_def buildVoiceToken_def buildVoiceLeave_def
  by (rule source_wsMsg; simp add: payload_level member_ok plain_def)+

lemma source_payload: "payload_ok 9000 p \<Longrightarrow> plain ty \<Longrightarrow> source (Marshal (JObj [(''payload'', p), (''type'', JStr ty)]))"
  by (rule source_object [where ty = ty]) (simp_all add: plain_def)

lemma source_errors [source_intro]:
  "source (buildErrorMsg code message)" "source (buildRateLimitError message secs)" "source (buildAuthError message)"
  unfolding buildErrorMsg_def buildRateLimitError_def buildAuthError_def
  by (rule source_payload; simp add: payload_level plain_def)+

lemma source_pong [source_intro]: "source buildPong"
  unfolding buildPong_def by (rule source_object [where ty = "''pong''"]) (simp_all add: plain_def)

section \<open>What a call returns\<close>

definition yields :: "('a \<Rightarrow> bool) \<Rightarrow> ('s, 'a) state \<Rightarrow> bool" where
  "yields R m \<longleftrightarrow> (\<forall>s. R (fst (run_state m s)))"

named_theorems yields_intro \<open>rules for the results of a call\<close>

lemma yields_return: "R x \<Longrightarrow> yields R (return x)"
  by (simp add: yields_def)

lemma yields_bind: "(\<And>x. yields R (f x)) \<Longrightarrow> yields R (State_Monad.bind m f)"
  by (simp add: yields_def split: prod.splits)

lemma yields_bind_ok: "(\<And>e. R (Inl e)) \<Longrightarrow> (\<And>x. yields R (f x)) \<Longrightarrow> yields R (bind_ok m f)"
  unfolding bind_ok_def by (rule yields_bind) (auto intro: yields_return split: sum.splits)

lemma yields_cases:
  "(b \<Longrightarrow> yields R m) \<Longrightarrow> (\<not> b \<Longrightarrow> yields R n) \<Longrightarrow> yields R (if b then m else n)"
  "(\<And>e. v = Inl e \<Longrightarrow> yields R (f e)) \<Longrightarrow> (\<And>x. v = Inr x \<Longrightarrow> yields R (g x)) \<Longrightarrow>
   yields R (case v of Inl e \<Rightarrow> f e | Inr x \<Rightarrow> g x)"
  "(w = None \<Longrightarrow> yields R m') \<Longrightarrow> (\<And>x. w = Some x \<Longrightarrow> yields R (h x)) \<Longrightarrow>
   yields R (case w of None \<Rightarrow> m' | Some x \<Rightarrow> h x)"
  "(\<And>a b. p = (a, b) \<Longrightarrow> yields R (k a b)) \<Longrightarrow> yields R (case p of (a, b) \<Rightarrow> k a b)"
  by (auto split: sum.split option.split prod.split)

lemmas yields_rules = yields_return yields_bind yields_bind_ok yields_cases

lemma keeps_bind_yields:
  "yields R m \<Longrightarrow> keeps P m \<Longrightarrow> (\<And>x. R x \<Longrightarrow> keeps P (f x)) \<Longrightarrow> keeps P (State_Monad.bind m f)"
  by (auto simp: keeps_def yields_def split: prod.splits) (metis fst_conv snd_conv)

lemma yields_bind_yields: "yields R m \<Longrightarrow> (\<And>x. R x \<Longrightarrow> yields Q (f x)) \<Longrightarrow> yields Q (State_Monad.bind m f)"
  by (auto simp: yields_def split: prod.splits) (metis fst_conv)

definition attachments_are_ok :: "json list option \<Rightarrow> bool" where
  "attachments_are_ok r \<longleftrightarrow> (\<forall>atts. r = Some atts \<longrightarrow> list_all (payload_ok 8998) atts)"

lemma link_message_yields: "yields attachments_are_ok (link_message c i as)"
  unfolding link_message_def
  by (intro yields_rules) (auto simp: attachments_are_ok_def list_all_iff attachments_ok)

section \<open>The contract\<close>

text \<open>A database call does not touch the hub.\<close>

lemma more_run: "(\<And>x. keeps (more_is x) m) \<Longrightarrow> database.more (snd (run_state m s)) = database.more s"
  using keepsD [where P = "more_is (database.more s)" and m = m and s = s] by (simp add: more_is_def)

named_theorems flow_intro \<open>calls that keep a predicate of the queues\<close>

locale hub_calls =
  fixes P :: "hub \<Rightarrow> bool" and allowed :: "bytes \<Rightarrow> bool"
  assumes source_allowed: "source m \<Longrightarrow> allowed m"
    and view_kept: "(\<And>c. k_send (h_heap t c) = k_send (h_heap s c)) \<Longrightarrow> h_broadcast t = h_broadcast s \<Longrightarrow>
      h_replayBuf t = h_replayBuf s \<Longrightarrow> h_seq t = h_seq s \<Longrightarrow> P s \<Longrightarrow> P t"
    and queue_kept: "allowed m \<Longrightarrow> P s \<Longrightarrow> P (set_client c (snd \<circ> push_msg m) s)"
    and take_kept: "P s \<Longrightarrow> k_send (h_heap s c) = m # ms \<Longrightarrow> P (set_client c (\<lambda>k. k\<lparr>k_send := ms\<rparr>) s)"
    and fresh_kept: "P s \<Longrightarrow> k_send k = [] \<Longrightarrow> P (s\<lparr>h_next := n, h_heap := (h_heap s)(c := k)\<rparr>)"
    and announce_kept: "allowed m \<Longrightarrow> P s \<Longrightarrow> P (enqueue \<lparr>b_channelID = ch, b_msg = m\<rparr> s)"
begin

lemma view_set_client:
  assumes "\<And>k. k_send (f k) = k_send k"
  shows "keeps P (modify (set_client c f))"
  using assms by (intro keeps_modify) (erule view_kept [rotated -1]; simp add: set_client_def)

lemma view_modify:
  assumes "\<And>s. h_heap (f s) = h_heap s" "\<And>s. h_broadcast (f s) = h_broadcast s" "\<And>s. h_replayBuf (f s) = h_replayBuf s"
    and "\<And>s. h_seq (f s) = h_seq s"
  shows "keeps P (modify f)"
  using assms by (intro keeps_modify) (erule view_kept [rotated -1]; simp)

lemma view_more: "database.more t = database.more s \<Longrightarrow> P s \<Longrightarrow> P t"
  using view_kept [of t s] hub_fields_more [of t s] by simp

lemma view_db:
  assumes "\<And>x. keeps (more_is x) m"
  shows "keeps P m"
  using view_more [OF more_run [OF assms]] by (intro keepsI)

lemma calls_db_calls [flow_intro]:
  "keeps P (CreateMessage ch u t r)" "keeps P (EditMessage i u t)" "keeps P (DeleteMessage i u b)"
  "keeps P (AddReaction i u t)" "keeps P (RemoveReaction i u t)" "keeps P (LinkAttachmentsToMessage i as)"
  "keeps P (UpdateReadState u ch i)" "keeps P (UpdateUserStatus u t)" "keeps P (OpenDM u ch)"
  "keeps P (LogAudit u a ty i d)" "keeps P (JoinVoiceChannel u ch)" "keeps P (LeaveVoiceChannel u)"
  "keeps P (UpdateVoiceMute u b)" "keeps P (UpdateVoiceDeafen u b)" "keeps P (UpdateVoiceCamera u b)"
  "keeps P (UpdateVoiceScreenshare u b)" "keeps P (query f)" "keeps P time_now"
  by (intro view_db frame_intro frame_time_now)+

lemma calls_client [flow_intro]: "keeps P (client c)" "keeps P (client_id c)" "keeps P (getVoiceChID c)"
  by (simp_all add: client_def client_id_def getVoiceChID_def keeps_gets)

lemma calls_send [flow_intro]: "source m \<Longrightarrow> keeps P (sendMsg c m)"
  unfolding sendMsg_def by (intro keeps_modify queue_kept source_allowed)

lemma calls_sends [flow_intro]:
  "keeps P (sendError c code msg)"
  "source m \<Longrightarrow> keeps P (send_to m u)"
proof -
  show "keeps P (sendError c code msg)"
    unfolding sendError_def by (intro flow_intro source_intro)
  show "keeps P (send_to m u)" if "source m"
    unfolding send_to_def SendToUser_def trySendMsg_def
    by (intro hub_rules keeps_modify queue_kept source_allowed that)
qed

lemma calls_client_fields [flow_intro]:
  "keeps P (touch c)" "keeps P (setVoiceChID c ch)" "keeps P (clearVoiceChID c)" "keeps P (closeSend c)"
  unfolding touch_def setVoiceChID_def clearVoiceChID_def closeSend_def
  by (intro hub_rules flow_intro view_set_client; simp)+

lemma calls_announce: "allowed m \<Longrightarrow> keeps P (BroadcastToAll m)"
  unfolding BroadcastToAll_def by (intro keeps_modify announce_kept)

lemma calls_broadcasts [flow_intro]:
  "source m \<Longrightarrow> keeps P (BroadcastToAll m)" "source m \<Longrightarrow> keeps P (BroadcastToChannel ch m)"
  unfolding BroadcastToAll_def BroadcastToChannel_def
  by (intro keeps_modify announce_kept source_allowed; assumption)+

lemma calls_registration [flow_intro]:
  "keeps P (unregisterNow c)" "keeps P (kickClient c)" "keeps P (registerNow c)"
  unfolding unregisterNow_def kickClient_def registerNow_def
  by (intro hub_rules flow_intro view_modify; simp add: drop_client_def Let_def)+

lemma calls_sweep [flow_intro]: "keeps P sweepStaleClients"
  unfolding sweepStaleClients_def by (intro hub_rules flow_intro)

lemma calls_limiter [flow_intro]: "keeps P (limiter_allow key limit window)"
  unfolding limiter_allow_def by (intro hub_rules flow_intro view_modify) simp_all

lemma calls_checker [flow_intro]:
  "keeps P (HasChannelPerm GetChannelPermissions r role ch perm)"
  "keeps P (hasChannelPerm c ch perm)" "keeps P (requireChannelPerm c ch perm label)"
  unfolding requireChannelPerm_def hasChannelPerm_def HasChannelPerm_def query_defs
  by (intro hub_rules flow_intro source_intro)+

lemma calls_broadcast_helpers [flow_intro]:
  "source m \<Longrightarrow> keeps P (broadcastExclude ch u m)" "source m \<Longrightarrow> keeps P (broadcastToDMParticipants ch m)"
  "source m \<Longrightarrow> keeps P (broadcastToDMParticipantsExclude ch u m)" "source m \<Longrightarrow> keeps P (deliver_event dm ch m)"
  unfolding broadcastExclude_def broadcastToDMParticipants_def broadcastToDMParticipantsExclude_def deliver_event_def query_defs
  by (intro hub_rules flow_intro; assumption)+

text \<open>The handlers.\<close>

lemma calls_chat_parts [flow_intro]:
  "keeps P (chat_send_authorized c chan ch)" "keeps P (slow_mode_passed c chan ch)"
  "keeps P (attach_allowed c chan ch atts)" "keeps P (link_message c i atts)" "keeps P (reopen_dm c ch u)"
  "source m \<Longrightarrow> keeps P (deliver_dm c ch m)"
  unfolding chat_send_authorized_def slow_mode_passed_def attach_allowed_def link_message_def deliver_dm_def reopen_dm_def query_defs
  by (intro hub_rules flow_intro source_intro; assumption)+

lemma calls_chat_deliver:
  "list_all (payload_ok 8998) atts \<Longrightarrow> keeps P (chat_send_deliver c reqID ch cid mid t r atts)"
  unfolding chat_send_deliver_def query_defs
  by (intro hub_rules flow_intro; (simp only:)?; intro source_intro; assumption?)

lemma calls_chat_persist [flow_intro]: "keeps P (chat_send_persist c reqID ch cid t p)"
  unfolding chat_send_persist_def query_defs
  by (intro keeps_bind_yields [OF link_message_yields] hub_rules flow_intro calls_chat_deliver) (auto simp: attachments_are_ok_def)

lemma calls_chat_send [flow_intro]: "keeps P (handleChatSend sanitize c reqID payload)"
  unfolding handleChatSend_def chat_send_channel_def query_defs
  by (intro hub_rules flow_intro source_intro)

lemma calls_message_checks [flow_intro]:
  "keeps P (is_dm_channel ch)" "keeps P (dm_member c ch)" "keeps P (may_touch c dm ch perm)"
  unfolding is_dm_channel_def dm_member_def may_touch_def query_defs
  by (intro hub_rules flow_intro)+

lemma calls_chat_edit [flow_intro]: "keeps P (handleChatEdit sanitize c payload)"
  unfolding handleChatEdit_def chat_edit_message_def chat_edit_commit_def query_defs
  by (intro hub_rules flow_intro source_intro)

lemma calls_chat_delete [flow_intro]: "keeps P (handleChatDelete c payload)"
  unfolding handleChatDelete_def chat_delete_message_def chat_delete_commit_def query_defs
  by (intro hub_rules flow_intro source_intro)

lemma calls_reaction [flow_intro]: "keeps P (handleReaction c add payload)"
  unfolding handleReaction_def reaction_message_def reaction_commit_def query_defs
  by (intro hub_rules flow_intro source_intro)

lemma calls_presence [flow_intro]:
  "keeps P (handleTyping c payload)" "keeps P (handlePresence c payload)"
  unfolding handleTyping_def typing_channel_def handlePresence_def Let_def query_defs
  by (intro hub_rules flow_intro source_intro)+

lemma calls_focus [flow_intro]: "keeps P (handleChannelFocus c payload)"
  unfolding handleChannelFocus_def focus_channel_def query_defs
  by (intro hub_rules flow_intro view_set_client) simp_all

lemma calls_leave_retry [flow_intro]:
  "keeps P (leaveVoiceChannelWithRetry u ch)" "keeps P run_retry" "keeps P (lkRemove ch u)"
  unfolding leaveVoiceChannelWithRetry_def run_retry_def lkRemove_def RemoveParticipant_def
  by (intro hub_rules flow_intro view_modify; simp)+

lemma calls_voice_leave [flow_intro]:
  "keeps P (handleVoiceLeave c)" "keeps P (rollbackVoiceJoin c ch)" "keeps P (CleanupVoiceForChannel ch)"
  unfolding handleVoiceLeave_def rollbackVoiceJoin_def CleanupVoiceForChannel_def query_defs
  by (intro hub_rules flow_intro source_intro)+

lemma calls_voice_join [flow_intro]: "keeps P (handleVoiceJoin c payload)"
  unfolding handleVoiceJoin_def voice_join_enter_def voice_join_persist_def voice_capacity_ok_def voice_join_announce_def
    voice_join_token_def voice_join_inform_def query_defs
  by (intro hub_rules flow_intro source_intro)

lemma calls_voice_refresh [flow_intro]: "keeps P (handleVoiceTokenRefresh c)"
  unfolding handleVoiceTokenRefresh_def by (intro hub_rules flow_intro source_intro)

lemma calls_voice_controls [flow_intro]:
  "keeps P (handleVoiceMute c payload)" "keeps P (handleVoiceDeafen c payload)"
  "keeps P (handleVoiceCamera c payload)" "keeps P (handleVoiceScreenshare c payload)"
  unfolding handleVoiceMute_def handleVoiceDeafen_def handleVoiceCamera_def handleVoiceScreenshare_def voice_update_def
    broadcastVoiceStateUpdate_def video_limit_ok_def query_defs
  by (intro hub_rules flow_intro source_intro)+

lemma calls_webhook [flow_intro]: "keeps P (handleWebhookParticipantLeft i r)"
  unfolding handleWebhookParticipantLeft_def by (intro hub_rules flow_intro source_intro)

text \<open>The life of a connection.\<close>

lemma calls_session_check [flow_intro]: "keeps P (session_check c)"
  unfolding session_check_def ban_active_def IsSessionExpired_def query_defs
  by (intro hub_rules flow_intro)

lemma calls_count_message [flow_intro]: "keeps P (count_message c)"
  unfolding count_message_def by (intro hub_rules flow_intro view_set_client) simp

lemma calls_dispatch [flow_intro]: "keeps P (Dispatch sanitize ty c reqID payload)"
proof -
  have "\<forall>h \<in> set (handlers sanitize c reqID payload). keeps P (snd h)"
    by (simp add: handlers_def flow_intro source_intro)
  then have "keeps P h" if "map_of (handlers sanitize c reqID payload) ty = Some h" for h
    using that by (force dest: map_of_SomeD)
  then show ?thesis
    unfolding Dispatch_def by (intro hub_rules)
qed

lemma calls_handleMessage [flow_intro]: "keeps P (handleMessage sanitize c raw)"
  unfolding handleMessage_def handle_envelope_def
  by (intro hub_rules flow_intro view_set_client) simp_all

lemma calls_pump_write [flow_intro]: "keeps P (pump_write c)"
  by (auto simp: keeps_def pump_write_def client_def take_kept split: list.split)

lemma calls_pumps [flow_intro]: "keeps P (pump_read sanitize c m)" "keeps P (pump_exit c)"
  unfolding pump_read_def pump_exit_def IsUserConnected_def by (intro hub_rules flow_intro source_intro)+

lemma calls_settings [flow_intro]: "keeps P getCachedSettings" "keeps P refreshSettingsLocked"
  unfolding getCachedSettings_def refreshSettingsLocked_def
  by (intro hub_rules flow_intro view_modify; simp)+

lemma calls_build [flow_intro]: "keeps P (buildAuthOK user r)" "keeps P (buildReady u)"
  unfolding buildAuthOK_def buildReady_def query_defs by (intro hub_rules flow_intro)+

lemma calls_new_connection [flow_intro]: "keeps P (new_connection user h remote)"
proof -
  have "keeps P (newClient user h)"
    unfolding newClient_def by (intro hub_rules flow_intro keeps_modify fresh_kept) simp_all
  then show ?thesis
    unfolding new_connection_def client_role_def query_defs
    by (intro hub_rules flow_intro view_set_client) simp_all
qed

lemma calls_serve [flow_intro]:
  "keeps P (serve_replay wok c user events)" "keeps P (serve_register c user out)"
  "keeps P (serve_fresh wok c user)"
proof -
  show reg: "keeps P (serve_register c user out)" for out
    unfolding serve_register_def by (intro hub_rules flow_intro source_intro)
  show "keeps P (serve_replay wok c user events)"
    unfolding serve_replay_def by (intro hub_rules flow_intro source_intro)
  show "keeps P (serve_fresh wok c user)"
    unfolding serve_fresh_def by (intro hub_rules flow_intro reg)
qed

lemma calls_authenticate [flow_intro]: "keeps P (authenticateConn sha256 raw)"
  unfolding authenticateConn_def authenticate_token_def IsSessionExpired_def IsEffectivelyBanned_def ban_active_def query_defs
  by (intro hub_rules flow_intro)

lemma calls_ServeWS [flow_intro]: "keeps P (ServeWS sha256 wok remote raw)"
  unfolding ServeWS_def serve_authenticated_def by (intro hub_rules flow_intro)

lemma calls_livekit [flow_intro]: "keeps P (SetLiveKit lk)" "keeps P (SetLiveKitProcess b)"
  unfolding SetLiveKit_def SetLiveKitProcess_def by (intro view_modify; simp)+

lemma calls_run: "keeps P m \<Longrightarrow> P s \<Longrightarrow> P (run_call m s)"
  by (simp add: run_call_def keepsD)

text \<open>Every step but a delivery.\<close>

lemma calls_step:
  assumes "P s" and "e \<noteq> DeliverNext" and "\<And>m. e = Announce m \<Longrightarrow> allowed m"
  shows "P (hub_step pk e s)"
proof (cases e)
  case (LimiterCleanup w t0 t1)
  then show ?thesis using view_kept [of "hub_step pk e s" s] assms(1) by simp
next
  case (DbCall dc)
  then show ?thesis using view_more [OF frame_db_step assms(1)] by simp
next
  case (Announce m)
  then show ?thesis using assms by (simp add: calls_run calls_announce)
qed (use assms in \<open>simp_all add: calls_run flow_intro\<close>)

lemma calls_NewHub:
  "P (database.extend db (hub.fields [] (\<lambda>_. zero_client) 0 rl [] 0 (NewEventRingBuffer 1000)
     ''OwnCord Server'' ''Welcome!'' 0 None None [] [])) \<Longrightarrow> P (NewHub db rl)"
  unfolding NewHub_def by (rule keepsD [OF calls_settings(2)])

end

end
