(* ===== verification/FrameFlow.thy ===== *)
theory FrameFlow
  imports HubCalls
begin

text \<open>
  The messages on their way: in every interleaving of connections, messages and broadcasts, whatever is
  queued for a client, waits to be broadcast or is kept for replay is a frame, so everything that is
  written to a websocket is one JSON object with the type clients dispatch on.
\<close>

section \<open>Frames in the hub\<close>

text \<open>A message the hub may queue as it is, and one it may number and broadcast.\<close>

definition typed :: "bytes \<Rightarrow> bool" where
  "typed m \<longleftrightarrow> (\<exists>ty. typed_object ty m)"

definition frames_ok :: "hub \<Rightarrow> bool" where
  "frames_ok s \<longleftrightarrow> (\<forall>c. \<forall>m \<in> set (k_send (h_heap s c)). typed m) \<and> (\<forall>b \<in> set (h_broadcast s). source (b_msg b)) \<and>
     (\<forall>e \<in> set (contents (h_replayBuf s)). typed (edata e))"

lemma source_typed: "source m \<Longrightarrow> typed m"
  by (auto simp: source_def typed_def frame_def)

lemma source_numbered: "source m \<Longrightarrow> typed (wrapWithSeq m n)"
  by (auto simp: source_def typed_def frame_def)

interpretation frames: hub_calls frames_ok source
proof unfold_locales
  fix s :: hub and c m ms
  assume "frames_ok s" "k_send (h_heap s c) = m # ms"
  then show "frames_ok (set_client c (\<lambda>k. k\<lparr>k_send := ms\<rparr>) s)"
    by (auto simp: frames_ok_def set_client_def dest: spec [of _ c])
qed (auto simp: frames_ok_def set_client_def push_msg_def enqueue_def source_typed)

lemma frames_sendMsg: "typed m \<Longrightarrow> keeps frames_ok (sendMsg c m)"
  unfolding sendMsg_def by (intro keeps_modify) (auto simp: frames_ok_def set_client_def push_msg_def)

section \<open>Broadcasts\<close>

lemma set_lastn: "x \<in> set (lastn n xs) \<Longrightarrow> x \<in> set xs"
  unfolding lastn_def by (rule in_set_dropD)

lemma frames_fan_out: "typed m \<Longrightarrow>
  keeps frames_ok (for_each cs (\<lambda>c. do { k \<leftarrow> client c; (if receives ch k then sendMsg c m else return ()) }))"
  by (intro hub_rules flow_intro frames_sendMsg)

lemma deliver_frames:
  assumes ok: "hub_ok s" "frames_ok s" and src: "source (b_msg bm)"
  shows "wp (deliverBroadcast bm) (\<lambda>_. frames_ok) s"
proof -
  let ?s1 = "s\<lparr>h_seq := h_seq s + 1\<rparr>"
  let ?msg = "wrapWithSeq (b_msg bm) (h_seq s + 1)"
  have ring: "ring_ok (h_replayBuf s)" using ok by (simp add: hub_ok_def replay_ok_def)
  then obtain b where push: "Push (h_replayBuf s) (h_seq s + 1) ?msg = Some b"
    using Push_Some by blast
  have ok2: "frames_ok (?s1\<lparr>h_replayBuf := b\<rparr>)"
    using ok(2) Push_contents [OF ring push] source_numbered [OF src]
    by (auto simp: frames_ok_def dest!: set_lastn)
  show ?thesis
    unfolding deliverBroadcast_def nextSeq_def Let_def wp_simps
    using keeps_wp [OF frames_fan_out [OF source_numbered [OF src]] ok2] push by (simp add: wp_simps)
qed

lemma run_broadcast_frames:
  assumes "hub_ok s" "frames_ok s"
  shows "frames_ok (run_call run_broadcast s)"
proof (cases "h_broadcast s")
  case Nil
  then show ?thesis using assms(2) by (simp add: run_broadcast_def run_call_def)
next
  case (Cons bm rest)
  have "hub_ok (s\<lparr>h_broadcast := rest\<rparr>)" "frames_ok (s\<lparr>h_broadcast := rest\<rparr>)" "source (b_msg bm)"
    using assms Cons by (auto simp: hub_ok_defs frames_ok_def)
  from deliver_frames [OF this] show ?thesis
    using Cons by (simp add: run_broadcast_def run_call_def wp_run)
qed

section \<open>Every interleaving\<close>

text \<open>What other packages broadcast: the admin API, through the hub's methods for it.\<close>

inductive announced :: "bytes \<Rightarrow> bool" where
  restart: "announced (buildServerRestartMsg reason secs)"
| channel_create: "announced (buildChannelCreate ch)"
| channel_update: "announced (buildChannelUpdate ch)"
| channel_delete: "announced (buildChannelDelete i)"
| member_ban: "announced (buildMemberBan u)"
| member_update: "announced (buildMemberUpdate u r)"

lemma announced_source: "announced m \<Longrightarrow> source m"
proof (induction rule: announced.induct)
  case (restart reason secs)
  show ?case unfolding buildServerRestartMsg_def by (rule source_payload source_wsMsg; simp add: payload_level plain_def)
next
  case (channel_create ch)
  show ?case unfolding buildChannelCreate_def channelPayload_def by (rule source_wsMsg; simp add: payload_level plain_def)
next
  case (channel_update ch)
  show ?case unfolding buildChannelUpdate_def channelPayload_def by (rule source_wsMsg; simp add: payload_level plain_def)
next
  case (channel_delete i)
  show ?case unfolding buildChannelDelete_def by (rule source_wsMsg; simp add: payload_level plain_def)
next
  case (member_ban u)
  show ?case unfolding buildMemberBan_def by (rule source_wsMsg; simp add: payload_level plain_def)
next
  case (member_update u r)
  show ?case unfolding buildMemberUpdate_def by (rule source_wsMsg; simp add: payload_level plain_def)
qed

fun announces_frames :: "event \<Rightarrow> bool" where
  "announces_frames (Announce m) \<longleftrightarrow> announced m"
| "announces_frames _ \<longleftrightarrow> True"

definition flow_ok :: "hub \<Rightarrow> bool" where
  "flow_ok s \<longleftrightarrow> hub_ok s \<and> frames_ok s"

lemma flow_step:
  assumes "announces_frames e" and "flow_ok s"
  shows "flow_ok (hub_step pk e s)"
proof -
  have ok: "hub_ok s" "frames_ok s" using assms(2) by (simp_all add: flow_ok_def)
  have "frames_ok (hub_step pk e s)"
  proof (cases "e = DeliverNext")
    case True
    then show ?thesis using run_broadcast_frames [OF ok] by simp
  next
    case False
    then show ?thesis by (rule frames.calls_step [OF ok(2)]) (use assms(1) in \<open>simp add: announced_source\<close>)
  qed
  with hub_step_ok [OF ok(1)] show ?thesis by (simp add: flow_ok_def)
qed

lemma started_flow: "started s \<Longrightarrow> flow_ok s"
proof -
  assume st: "started s"
  then obtain db rl where s: "s = NewHub db rl" by (auto simp: started_def)
  have "frames_ok (NewHub db rl)"
    by (rule frames.calls_NewHub; cases db) (simp add: frames_ok_def database.extend_def hub.fields_def zero_client_def)
  with started_ok [OF st] show ?thesis by (simp add: flow_ok_def s)
qed

interpretation flow_sys: legal_system started announces_frames "hub_step pk" flow_ok for pk
  by unfold_locales (auto intro: started_flow flow_step)

section \<open>What is written\<close>

text \<open>The messages a step writes to a websocket: the handshake's, and what the write pump takes.\<close>

fun hub_out :: "packages \<Rightarrow> event \<Rightarrow> hub \<Rightarrow> bytes list" where
  "hub_out pk (Connect wok remote raw) s = fst (fst (run_state (ServeWS (pk_sha256 pk) wok remote raw) s))"
| "hub_out pk (WriteOut c) s = (case fst (run_state (pump_write c) s) of None \<Rightarrow> [] | Some m \<Rightarrow> [m])"
| "hub_out pk _ s = []"

definition all_typed :: "bytes list \<Rightarrow> bool" where
  "all_typed ms \<longleftrightarrow> (\<forall>m \<in> set ms. typed m)"

lemma all_typed_simps [simp]: "all_typed []" "all_typed (m # ms) \<longleftrightarrow> typed m \<and> all_typed ms"
  by (auto simp: all_typed_def)

lemma all_typed_written: "all_typed ms \<Longrightarrow> all_typed (fst (write_all wok n ms))"
  by (induction wok n ms rule: write_all.induct) (auto split: prod.splits)

lemma since_typed:
  assumes "\<forall>e \<in> set (contents rb). typed (edata e)" and "EventsSince rb a = Some events"
  shows "all_typed events"
proof -
  have "events = map edata (filter (\<lambda>e. a < eseq e) (contents rb))"
    using assms(2) by (auto simp: EventsSince_def since_loop_eq contents_def split: if_splits list.splits)
  with assms(1) show ?thesis by (auto simp: all_typed_def)
qed

lemma yields_auth_ok: "yields typed (buildAuthOK user r)"
  unfolding buildAuthOK_def
  by (intro yields_rules source_typed source_payload) (simp_all add: payload_level plain_def)

lemma payload_ready:
  "payload_ok 8998 (ready_channel un ch)" "payload_ok 8998 (json_role ro)" "payload_ok 8998 (json_member me)"
  "payload_ok 8998 (json_voice vo)" "payload_ok 8998 (json_dm dm)"
  using payload_obj [of 8997] payload_obj [of 8996]
  by (auto simp: ready_channel_def json_role_def json_member_def json_voice_def json_dm_def Let_def)

lemma yields_ready: "yields (case_sum (\<lambda>_. True) typed) (buildReady u)"
  unfolding buildReady_def
  by (intro yields_rules; (unfold sum.case)?; (intro TrueI source_typed source_payload)?)
    (auto simp: payload_level payload_ready plain_def)

abbreviation writes_typed :: "(hub, bytes list \<times> 'a) state \<Rightarrow> bool" where
  "writes_typed \<equiv> yields (\<lambda>r. all_typed (fst r))"

lemma register_writes: "all_typed out \<Longrightarrow> writes_typed (serve_register c user out)"
  unfolding serve_register_def by (intro yields_rules) simp

lemma replay_writes: "all_typed events \<Longrightarrow> writes_typed (serve_replay wok c user events)"
proof -
  assume ev: "all_typed events"
  have "all_typed (fst (write_all wok 0 (authOK # events)))" if "typed authOK" for authOK
    using ev that by (intro all_typed_written) simp
  then show ?thesis
    unfolding serve_replay_def Let_def
    by (intro yields_bind [of _ _ "client c"] yields_bind_yields [OF yields_auth_ok] yields_rules) (metis fst_conv)+
qed

lemma fresh_writes: "writes_typed (serve_fresh wok c user)"
  unfolding serve_fresh_def
  by (intro yields_bind [of _ _ "client c"] yields_bind_yields [OF yields_auth_ok] yields_bind_yields [OF yields_ready]
      yields_rules register_writes) (auto intro: source_typed source_intro)

lemma authenticate_writes: "yields (case_sum (\<lambda>m. all_typed (case m of None \<Rightarrow> [] | Some m \<Rightarrow> [m])) (\<lambda>_. True)) (authenticateConn sha256 raw)"
  unfolding authenticateConn_def authenticate_token_def
  by (intro yields_rules; (unfold sum.case option.case)?) (auto intro: source_typed source_intro)

lemma writes_then:
  "writes_typed (f (g s)) \<Longrightarrow> wp (gets g \<bind> (\<lambda>b. f b \<bind> (\<lambda>(out, ok). return (out, h ok)))) (\<lambda>r _. all_typed (fst r)) s"
proof -
  assume y: "writes_typed (f (g s))"
  obtain out ok s' where "run_state (f (g s)) s = ((out, ok), s')" by (metis prod_cases3 surj_pair)
  with y show ?thesis unfolding yields_def wp_bind wp_gets wp_run
    by (simp add: wp_run) (metis fst_conv)
qed

lemma authenticated_writes:
  assumes "frames_ok s"
  shows "all_typed (fst (fst (run_state (serve_authenticated wok remote user hash lastSeq) s)))"
proof -
  have "wp (serve_authenticated wok remote user hash lastSeq) (\<lambda>r _. all_typed (fst r)) s"
    unfolding serve_authenticated_def
  proof (rule wp_seq [OF keeps_wp [OF frames.calls_new_connection assms]])
    fix c s1 assume "frames_ok s1"
    then have since: "all_typed events" if "(if lastSeq > 0 then EventsSince (h_replayBuf s1) (of_nat lastSeq) else None) = Some events" for events
      using that by (auto simp: frames_ok_def intro: since_typed split: if_splits)
    have "writes_typed (case (if lastSeq > 0 then EventsSince (h_replayBuf s1) (of_nat lastSeq) else None) of
        Some events \<Rightarrow> serve_replay wok c user events | None \<Rightarrow> serve_fresh wok c user)"
      using replay_writes [OF since] fresh_writes by (intro yields_cases) simp_all
    then show "wp (gets h_replayBuf \<bind> (\<lambda>buf. (case (if lastSeq > 0 then EventsSince buf (of_nat lastSeq) else None) of
          Some events \<Rightarrow> serve_replay wok c user events | None \<Rightarrow> serve_fresh wok c user) \<bind>
          (\<lambda>(out, ok). return (out, if ok then Some c else None)))) (\<lambda>r _. all_typed (fst r)) s1"
      by (rule writes_then)
  qed
  then show ?thesis by (simp add: wp_run)
qed

lemma ServeWS_writes:
  assumes "frames_ok s"
  shows "all_typed (fst (fst (run_state (ServeWS sha256 wok remote raw) s)))"
proof -
  obtain auth s1 where run: "run_state (authenticateConn sha256 raw) s = (auth, s1)" by force
  then have s1: "frames_ok s1" using keepsD [OF frames.calls_authenticate assms, of sha256 raw] by simp
  have "case_sum (\<lambda>m. all_typed (case m of None \<Rightarrow> [] | Some m \<Rightarrow> [m])) (\<lambda>_. True) auth"
    using authenticate_writes [of sha256 raw] run unfolding yields_def by (metis fst_conv)
  then show ?thesis
    using authenticated_writes [OF s1] run by (auto simp: ServeWS_def split: sum.split)
qed

lemma out_typed: "frames_ok s \<Longrightarrow> all_typed (hub_out pk e s)"
proof (cases e)
  case (WriteOut c)
  assume "frames_ok s"
  then show ?thesis
    by (auto simp: WriteOut pump_write_def client_def frames_ok_def split: list.split dest!: spec [of _ c])
qed (simp_all add: ServeWS_writes)

text \<open>
  C8: Whatever the interleaving of connections, messages, broadcasts and database failures, every
  message that is written to a websocket - a handshake's answer, a replayed event, a queued reply or a
  numbered broadcast - parses as one JSON object with a string \<^verbatim>\<open>type\<close>, when the other packages announce
  what the hub's methods for them build.
\<close>
theorem output_typed:
  assumes "fresh_db db" and "\<forall>e \<in> set events. announces_frames e" and "m \<in> set (hub_out pk e (fold (hub_step pk) events (NewHub db rl)))"
  shows "\<exists>fields ty. parse_json m = Some (JObj fields) \<and> map_of fields ''type'' = Some (JStr ty)"
proof -
  have "flow_ok (fold (hub_step pk) events (NewHub db rl))"
    using assms(1,2) by (intro flow_sys.legal_run) (auto simp: started_def)
  then have "typed m"
    using assms(3) out_typed by (auto simp: flow_ok_def all_typed_def)
  then show ?thesis by (auto simp: typed_def typed_object_def)
qed

text \<open>A run in which a ban is announced and delivered, and then a connection fails to authenticate.\<close>

theorem output_typed_witness:
  "buildAuthError ''invalid message'' \<in> set (hub_out \<lparr>pk_sanitize = (\<lambda>x. x), pk_sha256 = (\<lambda>x. x), pk_strftime = Some\<rparr>
      (Connect (\<lambda>_. True) ''10.0.0.1'' (Some ''x''))
      (fold (hub_step \<lparr>pk_sanitize = (\<lambda>x. x), pk_sha256 = (\<lambda>x. x), pk_strftime = Some\<rparr>)
        [Announce (buildMemberBan 7), DeliverNext] (NewHub (initial_db\<lparr>faults := \<lambda>n. n = 1, clock := int\<rparr>) NewRateLimiter)))
   \<and> (\<exists>fields ty. parse_json (buildAuthError ''invalid message'') = Some (JObj fields) \<and> map_of fields ''type'' = Some (JStr ty))"
proof
  let ?pk = "\<lparr>pk_sanitize = (\<lambda>x. x), pk_sha256 = (\<lambda>x. x), pk_strftime = Some\<rparr>"
  let ?db = "initial_db\<lparr>faults := \<lambda>n. n = 1, clock := int\<rparr>" and ?es = "[Announce (buildMemberBan 7), DeliverNext]"
  let ?e = "Connect (\<lambda>_. True) ''10.0.0.1'' (Some ''x'')"
  have "parse_envelope ''x'' = None" by code_simp
  then show mem: "buildAuthError ''invalid message'' \<in> set (hub_out ?pk ?e (fold (hub_step ?pk) ?es (NewHub ?db NewRateLimiter)))"
    by (simp only: hub_out.simps ServeWS_def authenticateConn_def option.case wp_simps run_state_bind run_state_return
        prod.case sum.case fst_conv list.set insert_iff simp_thms)
  have "fresh_db ?db" by (auto simp: fresh_db_def)
  moreover have "\<forall>e \<in> set ?es. announces_frames e" by (simp add: announced.member_ban)
  ultimately show "\<exists>fields ty. parse_json (buildAuthError ''invalid message'') = Some (JObj fields) \<and> map_of fields ''type'' = Some (JStr ty)"
    using mem by (rule output_typed)
qed

end
