(* ===== verification/Replay.thy ===== *)
theory Replay
  imports HubCalls Delivery
begin

text \<open>
  The numbering of the events over a whole run, and the recovery of a client that reconnects: which
  events it is sent, and which one it can miss because the handshake reads the buffer before it
  registers the client (\<^verbatim>\<open>ServeWS\<close> in \<^verbatim>\<open>ws/serve.go\<close>).
\<close>

section \<open>The counter\<close>

definition counter_is :: "uint64 \<Rightarrow> EventRingBuffer \<Rightarrow> hub \<Rightarrow> bool" where
  "counter_is q b s \<longleftrightarrow> h_seq s = q \<and> h_replayBuf s = b"

interpretation counter: hub_calls "counter_is q b" "\<lambda>_. True" for q b
  by unfold_locales (simp_all add: counter_is_def set_client_def enqueue_def)

text \<open>The messages a run broadcasts, in order.\<close>

fun delivered :: "packages \<Rightarrow> event list \<Rightarrow> hub \<Rightarrow> bytes list" where
  "delivered pk [] s = []"
| "delivered pk (e # es) s =
     (case e of DeliverNext \<Rightarrow> map b_msg (take 1 (h_broadcast s)) | _ \<Rightarrow> []) @ delivered pk es (hub_step pk e s)"

text \<open>The i-th message, counted from 0, gets the number i + 1.\<close>

definition stamped :: "bytes list \<Rightarrow> nat \<Rightarrow> bytes" where
  "stamped ms i = wrapWithSeq (ms ! i) (of_nat (Suc i))"

definition event_log_of :: "bytes list \<Rightarrow> eventEntry list" where
  "event_log_of ms = map (\<lambda>i. \<lparr>eseq = of_nat (Suc i), edata = stamped ms i\<rparr>) [0..<length ms]"

definition logged :: "bytes list \<Rightarrow> hub \<Rightarrow> bool" where
  "logged ms s \<longleftrightarrow> hub_ok s \<and> h_seq s = of_nat (length ms) \<and> contents (h_replayBuf s) = lastn 1000 (event_log_of ms)"

lemma log_snoc: "event_log_of (ms @ [m]) =
  event_log_of ms @ [\<lparr>eseq = of_nat (Suc (length ms)), edata = wrapWithSeq m (of_nat (Suc (length ms)))\<rparr>]"
  by (auto simp: event_log_of_def stamped_def nth_append)

lemma logged_deliver:
  assumes "logged ms s" and "h_broadcast s = bm # rest"
  shows "logged (ms @ [b_msg bm]) (run_call run_broadcast s)"
proof -
  let ?s = "s\<lparr>h_broadcast := rest\<rparr>" and ?q = "of_nat (Suc (length ms)) :: uint64"
  have ok: "hub_ok s" "hub_ok ?s" using assms by (auto simp: logged_def hub_ok_defs)
  have q: "h_seq ?s + 1 = ?q" using assms(1) by (simp add: logged_def)
  obtain b where push: "Push (h_replayBuf s) ?q (wrapWithSeq (b_msg bm) ?q) = Some b"
    and run: "run_state (deliverBroadcast bm) ?s = (Some (), ?s\<lparr>h_seq := ?q, h_replayBuf := b,
      h_heap := fan_out (wrapWithSeq (b_msg bm) ?q) (receives (b_channelID bm)) (snd ` set (h_clients s)) (h_heap s)\<rparr>)"
    using deliver_run [OF ok(2), of bm] unfolding q by auto
  have ring: "ring_ok (h_replayBuf s)" "rsize (h_replayBuf s) = 1000"
    using ok(1) by (simp_all add: hub_ok_def replay_ok_def)
  have "contents b = lastn 1000 (event_log_of (ms @ [b_msg bm]))"
    using Push_contents [OF ring(1) push] assms(1) by (simp add: ring(2) logged_def log_snoc lastn_snoc_lastn)
  moreover have "hub_ok (run_call run_broadcast s)"
    using keepsD [OF hub_run_broadcast ok(1)] by (simp add: run_call_def)
  ultimately show ?thesis
    using run assms(2) by (simp add: logged_def run_call_def run_broadcast_def)
qed

lemma logged_step:
  assumes "logged ms s"
  shows "logged (ms @ (case e of DeliverNext \<Rightarrow> map b_msg (take 1 (h_broadcast s)) | _ \<Rightarrow> [])) (hub_step pk e s)"
proof (cases "e = DeliverNext")
  case True
  then show ?thesis
    using logged_deliver [OF assms] assms by (cases "h_broadcast s") (simp_all add: run_broadcast_def run_call_def)
next
  case False
  then have "counter_is (h_seq s) (h_replayBuf s) (hub_step pk e s)"
    by (intro counter.calls_step) (simp_all add: counter_is_def)
  moreover have "hub_ok (hub_step pk e s)" using assms by (intro hub_step_ok) (simp add: logged_def)
  ultimately have "logged ms (hub_step pk e s)" using assms by (simp add: logged_def counter_is_def)
  with False show ?thesis by (cases e) simp_all
qed

lemma logged_run: "logged ms s \<Longrightarrow> logged (ms @ delivered pk es s) (fold (hub_step pk) es s)"
proof (induction es arbitrary: ms s)
  case (Cons e es)
  from Cons.IH [OF logged_step [OF Cons.prems]] show ?case by simp
qed simp

lemma logged_start: "started s \<Longrightarrow> logged [] s"
proof -
  assume st: "started s"
  then obtain db rl where s: "s = NewHub db rl" by (auto simp: started_def)
  have "counter_is 0 (NewEventRingBuffer 1000) (NewHub db rl)"
    by (rule counter.calls_NewHub; cases db) (simp add: counter_is_def database.extend_def hub.fields_def)
  with started_ok [OF st] show ?thesis
    by (simp add: logged_def counter_is_def s event_log_of_def lastn_def)
qed

lemma run_logged:
  assumes "fresh_db db"
  shows "logged (delivered pk es (NewHub db rl)) (fold (hub_step pk) es (NewHub db rl))"
  using logged_run [OF logged_start, of "NewHub db rl" pk es] assms by (auto simp: started_def)

lemma length_delivered: "length (delivered pk es s) \<le> length es"
proof (induction es arbitrary: s)
  case (Cons e es)
  from Cons.IH [of "hub_step pk e s"] show ?case by (cases e) auto
qed simp

section \<open>What a reconnecting client is sent\<close>

lemma seq_less: "a < 2 ^ 64 \<Longrightarrow> b < 2 ^ 64 \<Longrightarrow> (of_nat a :: uint64) < of_nat b \<longleftrightarrow> a < b"
  by (simp add: word_less_nat_alt unat_of_nat)

lemma seq_le: "a < 2 ^ 64 \<Longrightarrow> b < 2 ^ 64 \<Longrightarrow> (of_nat a :: uint64) \<le> of_nat b \<longleftrightarrow> a \<le> b"
  using seq_less [of b a] by (simp flip: not_less)

lemma log_after:
  assumes "length ms < 2 ^ 64 - 1" and "L < 2 ^ 64"
  shows "map edata (filter (\<lambda>e. of_nat L < eseq e) (event_log_of ms)) = map (stamped ms) [L..<length ms]"
proof -
  have "filter (\<lambda>i. (of_nat L :: uint64) < of_nat (Suc i)) [0..<length ms] = filter (\<lambda>i. L \<le> i) [0..<length ms]"
    using assms seq_less [of L] by (intro filter_cong) (simp_all del: of_nat_Suc add: less_Suc_eq_le)
  also have "\<dots> = [L..<length ms]"
    by (induction ms rule: rev_induct) auto
  finally show ?thesis
    by (simp add: event_log_of_def filter_map comp_def del: of_nat_Suc)
qed

lemma log_sorted: "length ms < 2 ^ 64 - 1 \<Longrightarrow> sorted_wrt (\<lambda>x y. eseq x < eseq y) (event_log_of ms)"
  by (auto simp: event_log_of_def sorted_wrt_iff_nth_less seq_less simp del: of_nat_Suc)

lemma log_oldest:
  assumes "L < length ms"
  shows "\<exists>rest. lastn 1000 (event_log_of ms) = \<lparr>eseq = of_nat (Suc (length ms - 1000)), edata = stamped ms (length ms - 1000)\<rparr> # rest"
proof -
  have "lastn 1000 (event_log_of ms) = map (\<lambda>i. \<lparr>eseq = of_nat (Suc i), edata = stamped ms i\<rparr>) [length ms - 1000..<length ms]"
    by (simp add: lastn_def event_log_of_def drop_map)
  with assms show ?thesis by (simp add: upt_conv_Cons)
qed

lemma logged_since:
  assumes "logged ms s" and len: "length ms < 2 ^ 64 - 1" and L: "L < 2 ^ 64"
  shows "EventsSince (h_replayBuf s) (of_nat L) =
    (if length ms - 1000 < L \<and> L < length ms then Some (map (stamped ms) [L..<length ms]) else None)"
proof -
  have ring: "ring_ok (h_replayBuf s)" and log: "contents (h_replayBuf s) = lastn 1000 (event_log_of ms)"
    using assms(1) by (simp_all add: logged_def hub_ok_def replay_ok_def)
  consider (now) "length ms \<le> L" | (old) "L \<le> length ms - 1000" "L < length ms" | (kept) "length ms - 1000 < L" "L < length ms"
    by linarith
  then show ?thesis
  proof cases
    case now
    have "\<forall>e \<in> set (event_log_of ms). eseq e \<le> of_nat L"
      using now len L by (auto simp: event_log_of_def seq_le simp del: of_nat_Suc)
    from ring.since_nil [OF ring log this] now show ?thesis by simp
  next
    case old
    then obtain rest where "contents (h_replayBuf s) = \<lparr>eseq = of_nat (Suc (length ms - 1000)), edata = stamped ms (length ms - 1000)\<rparr> # rest"
      using log_oldest [OF old(2)] log by auto
    moreover have "(of_nat L :: uint64) < of_nat (Suc (length ms - 1000))"
      using old len L by (subst seq_less) auto
    ultimately show ?thesis
      using old EventsSince_contents [OF ring] by (simp del: of_nat_Suc)
  next
    case kept
    then obtain rest where first: "contents (h_replayBuf s) = \<lparr>eseq = of_nat (Suc (length ms - 1000)), edata = stamped ms (length ms - 1000)\<rparr> # rest"
      using log_oldest [OF kept(2)] log by auto
    let ?e = "\<lparr>eseq = of_nat (Suc (length ms - 1)), edata = stamped ms (length ms - 1)\<rparr>"
    have mem: "?e \<in> set (event_log_of ms)"
      using kept by (force simp: event_log_of_def)
    have "(of_nat (Suc (length ms - 1000)) :: uint64) \<le> of_nat L" "(of_nat L :: uint64) < of_nat (Suc (length ms - 1))"
      using kept len L by (simp_all add: seq_le seq_less del: of_nat_Suc)
    with ring.since_complete [OF ring log log_sorted [OF len] first _ mem] kept log_after [OF len L] show ?thesis
      by (simp del: of_nat_Suc)
  qed
qed

lemma run_since:
  assumes "fresh_db db" and "s = fold (hub_step pk) events (NewHub db rl)" and "ms = delivered pk events (NewHub db rl)"
  shows "logged ms s"
    and "length events < 2 ^ 64 - 1 \<Longrightarrow> length ms - 1000 < L \<Longrightarrow> L < length ms \<Longrightarrow>
      EventsSince (h_replayBuf s) (of_nat L) = Some (map (stamped ms) [L..<length ms])"
proof -
  show log: "logged ms s" unfolding assms(2,3) by (rule run_logged [OF assms(1)])
  assume "length events < 2 ^ 64 - 1" and L: "length ms - 1000 < L" "L < length ms"
  then have "length ms < 2 ^ 64 - 1" unfolding assms(3) using le_less_trans [OF length_delivered] by blast
  with L show "EventsSince (h_replayBuf s) (of_nat L) = Some (map (stamped ms) [L..<length ms])"
    using logged_since [OF log] by simp
qed

section \<open>The halves of a handshake\<close>

text \<open>
  The handler of a reconnect reads the buffer, writes to the network, and registers the client only
  then; between the two the hub goes on. \<open>serve_authenticated\<close> is their composition.
\<close>

definition replay_begin :: "string \<Rightarrow> User \<Rightarrow> string \<Rightarrow> nat \<Rightarrow> (hub, addr \<times> bytes list option) state" where
  "replay_begin remoteAddr user tokenHash lastSeq = do {
     c \<leftarrow> new_connection user tokenHash remoteAddr;
     buf \<leftarrow> gets h_replayBuf;
     return (c, if lastSeq > 0 then EventsSince buf (of_nat lastSeq) else None)
   }"

definition replay_end :: "addr \<Rightarrow> User \<Rightarrow> (hub, unit) state" where
  "replay_end c user = do {
     registerNow c;
     _ \<leftarrow> UpdateUserStatus (u_ID user) ''online'';
     BroadcastToAll (buildPresenceMsg (u_ID user) ''online'')
   }"


text \<open>A client with an empty queue that belongs to a user.\<close>

definition joining :: "addr \<Rightarrow> int64 \<Rightarrow> hub \<Rightarrow> bool" where
  "joining c u s \<longleftrightarrow> k_send (h_heap s c) = [] \<and> k_userID (h_heap s c) = u"

lemma joining_set_client:
  "(\<And>k. k_send (f k) = k_send k \<and> k_userID (f k) = k_userID k) \<Longrightarrow> keeps (joining c u) (modify (set_client a f))"
  by (intro keeps_modify) (auto simp: joining_def set_client_def)

lemma joining_modify: "(\<And>s. h_heap (f s) = h_heap s) \<Longrightarrow> keeps (joining c u) (modify f)"
  by (intro keeps_modify) (simp add: joining_def)

lemma joining_db:
  assumes "\<And>x. keeps (more_is x) m"
  shows "keeps (joining c u) m"
  using hub_fields_more(2) [OF more_run [OF assms]] by (intro keepsI) (simp add: joining_def)

named_theorems joining_intro \<open>calls that queue nothing\<close>

lemma joining_calls [joining_intro]:
  "keeps (joining c u) (LogAudit v a ty i d)" "keeps (joining c u) (UpdateUserStatus v t)" "keeps (joining c u) (query f)"
  "keeps (joining c u) time_now" "keeps (joining c u) (client k)" "keeps (joining c u) (BroadcastToAll m)"
  by (intro joining_db frame_intro frame_time_now)+ (simp_all add: client_def keeps_gets BroadcastToAll_def joining_modify enqueue_def)


lemma joining_new:
  fixes s :: hub
  shows "wp (new_connection user h remote) (\<lambda>c. joining c (u_ID user)) s"
proof -
  have "keeps (joining c (u_ID user)) (do {
     roleName \<leftarrow> client_role user;
     modify (set_client c (\<lambda>k. k\<lparr>k_remoteAddr := remote, k_roleName := roleName\<rparr>));
     _ \<leftarrow> LogAudit (u_ID user) ''ws_connect'' ''user'' (u_ID user) (''WebSocket connected from '' @ remote);
     return c })" for c
    unfolding client_role_def query_defs by (intro hub_rules joining_intro joining_set_client) simp
  from keeps_wp [OF this] have "joining c (u_ID user) s1 \<Longrightarrow> wp (do {
     roleName \<leftarrow> client_role user;
     modify (set_client c (\<lambda>k. k\<lparr>k_remoteAddr := remote, k_roleName := roleName\<rparr>));
     _ \<leftarrow> LogAudit (u_ID user) ''ws_connect'' ''user'' (u_ID user) (''WebSocket connected from '' @ remote);
     return c }) (\<lambda>c. joining c (u_ID user)) s1" for c s1
    by (simp add: wp_simps)
  then show ?thesis
    unfolding new_connection_def newClient_def wp_simps by (simp add: wp_simps joining_def time_now_def)
qed

lemma joining_register:
  assumes "joining c u s"
  shows "wp (registerNow c) (\<lambda>_ t. joining c u t \<and> registered t u = Some c) s"
proof -
  have "keeps (joining c u) (case old of None \<Rightarrow> return () | Some old \<Rightarrow> do {
      oldVoiceChID \<leftarrow> clearVoiceChID old; ch \<leftarrow> getVoiceChID c;
      (if ch = 0 then setVoiceChID c oldVoiceChID else return ()); closeSend old })" for old
    unfolding clearVoiceChID_def getVoiceChID_def setVoiceChID_def closeSend_def
    by (intro hub_rules joining_set_client) simp_all
  note old = keeps_wp [OF this assms]
  show ?thesis
    unfolding registerNow_def wp_bind wp_gets wp_modify
    by (rule wp_mono [OF old]) (use assms in \<open>auto simp: joining_def registered_def update_conv'\<close>)
qed

definition joined_as :: "addr \<Rightarrow> int64 \<Rightarrow> hub \<Rightarrow> bool" where
  "joined_as c u s \<longleftrightarrow> joining c u s \<and> registered s u = Some c"

lemma joined_online: "keeps (joined_as c u) (UpdateUserStatus v t)" "keeps (joined_as c u) (BroadcastToAll m)"
proof -
  have more: "keeps (more_is x) (UpdateUserStatus v t :: (hub, _) state)" for x by (rule frame_intro)
  show "keeps (joined_as c u) (UpdateUserStatus v t)"
    using hub_fields_more(1,2) [OF more_run [OF more]] by (intro keepsI) (simp add: joined_as_def joining_def registered_def)
  show "keeps (joined_as c u) (BroadcastToAll m)"
    unfolding BroadcastToAll_def by (intro keeps_modify) (simp add: joined_as_def joining_def registered_def enqueue_def)
qed

lemma end_joins:
  assumes "joining c (u_ID user) s"
  shows "wp (replay_end c user) (\<lambda>_. joined_as c (u_ID user)) s"
  unfolding replay_end_def
proof (rule wp_seq [OF joining_register [OF assms]])
  fix t assume "joining c (u_ID user) t \<and> registered t (u_ID user) = Some c"
  then show "wp (do { _ \<leftarrow> UpdateUserStatus (u_ID user) ''online''; BroadcastToAll (buildPresenceMsg (u_ID user) ''online'') })
      (\<lambda>_. joined_as c (u_ID user)) t"
    by (intro keeps_wp hub_rules joined_online) (simp add: joined_as_def)
qed

lemma counter_end: "keeps (counter_is q b) (replay_end c user)"
  unfolding replay_end_def by (intro hub_rules flow_intro source_intro)

lemma begin_reads:
  assumes "hub_ok s"
  shows "wp (replay_begin remote user h L) (\<lambda>r t. pending (fst r) t \<and> joining (fst r) (u_ID user) t \<and>
    counter_is (h_seq s) (h_replayBuf s) t \<and> snd r = (if L > 0 then EventsSince (h_replayBuf s) (of_nat L) else None)) s"
proof -
  have "counter_is (h_seq s) (h_replayBuf s) s" by (simp add: counter_is_def)
  note counted = keeps_wp [OF counter.calls_new_connection this]
  have "wp (new_connection user h remote) (\<lambda>c t. pending c t \<and> joining c (u_ID user) t \<and> counter_is (h_seq s) (h_replayBuf s) t) s"
    by (intro wp_conj new_connection_pending assms joining_new counted)
  then show ?thesis
    unfolding replay_begin_def by (rule wp_seq) (simp add: wp_simps counter_is_def)
qed

lemma pending_broadcast:
  assumes "pending c s" and "joining c u s" and "h_broadcast s = bm # rest"
  shows "joining c u (run_call run_broadcast s)"
proof -
  let ?s = "s\<lparr>h_broadcast := rest\<rparr>"
  have "hub_ok ?s" and out: "c \<notin> snd ` set (h_clients s)"
    using assms by (auto simp: pending_def unlisted_def hub_ok_defs)
  then obtain b where "run_state (deliverBroadcast bm) ?s = (Some (), ?s\<lparr>h_seq := h_seq s + 1, h_replayBuf := b,
      h_heap := fan_out (wrapWithSeq (b_msg bm) (h_seq s + 1)) (receives (b_channelID bm)) (snd ` set (h_clients s)) (h_heap s)\<rparr>)"
    using deliver_run [of ?s bm] by auto
  then show ?thesis
    using assms(2,3) out by (simp add: run_call_def run_broadcast_def joining_def fan_out_def)
qed






text \<open>
  C10: The event that is broadcast between the reading of the buffer and the registration is lost: it takes the
  number after the replayed ones and is stored for others, but it is neither in the replay nor in the
  queue of the client, which is registered and goes on with later numbers.
\<close>
theorem handshake_gap:
  assumes "fresh_db db" and "s = fold (hub_step pk) events (NewHub db rl)" and "ms = delivered pk events (NewHub db rl)"
    and "length events < 2 ^ 64 - 1" and "length ms - 1000 < L" and "L < length ms"
    and "run_state (replay_begin remote user hash L) s = ((c, replay), s1)" and "h_broadcast s1 = bm # rest"
    and "t = run_call (replay_end c user) (run_call run_broadcast s1)"
  shows "replay = Some (map (stamped ms) [L..<length ms]) \<and> registered t (u_ID user) = Some c \<and> k_send (h_heap t c) = []
    \<and> h_seq t = of_nat (Suc (length ms)) \<and> contents (h_replayBuf t) = lastn 1000 (event_log_of (ms @ [b_msg bm]))"
proof -
  note log = run_since(1) [OF assms(1-3)] and since = run_since(2) [OF assms(1-6)]
  from log have ok: "hub_ok s" by (simp add: logged_def)
  have s1: "pending c s1" "joining c (u_ID user) s1" "counter_is (h_seq s) (h_replayBuf s) s1"
    and r: "replay = Some (map (stamped ms) [L..<length ms])"
    using begin_reads [OF ok, of remote user hash L] since assms(5,7) by (simp_all add: wp_run)
  let ?s2 = "run_call run_broadcast s1"
  have "logged ms s1" using log s1 by (simp add: logged_def counter_is_def pending_hub)
  then have log2: "logged (ms @ [b_msg bm]) ?s2" using assms(8) by (rule logged_deliver)
  have "joining c (u_ID user) ?s2" by (rule pending_broadcast [OF s1(1,2) assms(8)])
  then have "joined_as c (u_ID user) t"
    unfolding assms(9) using end_joins by (simp add: run_call_def wp_run)
  moreover have "counter_is (h_seq ?s2) (h_replayBuf ?s2) t"
    unfolding assms(9) using keepsD [OF counter_end, of "h_seq ?s2" "h_replayBuf ?s2" ?s2] by (simp add: run_call_def counter_is_def)
  ultimately show ?thesis
    using log2 r by (simp add: logged_def counter_is_def joined_as_def joining_def)
qed

section \<open>A sample run\<close>

text \<open>Two messages are broadcast and a third waits; a client has seen the first.\<close>

definition replay_packages :: packages where
  "replay_packages = \<lparr>pk_sanitize = (\<lambda>x. x), pk_sha256 = (\<lambda>x. x), pk_strftime = Some\<rparr>"

definition replay_events :: "event list" where
  "replay_events = [Announce ''{a}'', DeliverNext, Announce ''{b}'', DeliverNext, Announce ''{c}'']"

definition replay_hub :: hub where
  "replay_hub = fold (hub_step replay_packages) replay_events (NewHub initial_db NewRateLimiter)"

lemma replay_fresh: "fresh_db initial_db"
  unfolding fresh_db_def by (intro exI [of _ "\<lambda>_. False"] exI [of _ "\<lambda>_. 0"]) (simp add: initial_db_def)

lemma replay_delivered: "delivered replay_packages replay_events (NewHub initial_db NewRateLimiter) = [''{a}'', ''{b}'']"
  by code_simp

lemma queue_new_connection: "keeps (\<lambda>s :: hub. h_broadcast s = ws) (new_connection user h remote)"
proof -
  have db: "(\<And>x. keeps (more_is x) m) \<Longrightarrow> keeps (\<lambda>s :: hub. h_broadcast s = ws) m" for m :: "(hub, 'a) state"
    by (rule keepsI) (metis hub_fields_more(5) more_run)
  show ?thesis
    unfolding new_connection_def newClient_def client_role_def query_defs
    by (intro hub_rules keeps_modify db frame_intro frame_time_now) (simp_all add: set_client_def)
qed

lemma replay_waiting:
  "h_broadcast (snd (run_state (replay_begin remote user h L) replay_hub)) = [\<lparr>b_channelID = 0, b_msg = ''{c}''\<rparr>]"
proof -
  have "h_broadcast replay_hub = [\<lparr>b_channelID = 0, b_msg = ''{c}''\<rparr>]" by code_simp
  then show ?thesis
    unfolding replay_begin_def using keepsD [OF queue_new_connection] by (simp split: prod.split) (metis snd_conv)
qed


theorem handshake_gap_witness:
  "\<exists>c s1 t. run_state (replay_begin ''10.0.0.1'' (sample_user 1 ''alice'' 4) ''h'' 1) replay_hub = ((c, Some [wrapWithSeq ''{b}'' 2]), s1)
    \<and> t = run_call (replay_end c (sample_user 1 ''alice'' 4)) (run_call run_broadcast s1)
    \<and> registered t 1 = Some c \<and> k_send (h_heap t c) = [] \<and> h_seq t = 3"
proof -
  have len: "length replay_events < 2 ^ 64 - 1" by (simp add: replay_events_def)
  obtain c r s1 where run: "run_state (replay_begin ''10.0.0.1'' (sample_user 1 ''alice'' 4) ''h'' 1) replay_hub = ((c, r), s1)"
    by (metis prod.collapse)
  with replay_waiting have "h_broadcast s1 = [\<lparr>b_channelID = 0, b_msg = ''{c}''\<rparr>]" by (metis snd_conv)
  from handshake_gap [OF replay_fresh replay_hub_def replay_delivered [symmetric] len _ _ run this refl] run
  show ?thesis by (auto simp: stamped_def upt_conv_Cons sample_user_def)
qed

end
