(* ===== verification/JsonFuel.thy ===== *)
theory JsonFuel
  imports Json
begin

text \<open>
  The fuel of the JSON scanner is enough for every input: more of it changes no result, so a
  failure of the model is a failure of \<^verbatim>\<open>encoding/json\<close> and never a lack of fuel.
\<close>

section \<open>Every scan consumes input\<close>

lemma skip_ws_le: "length (skip_ws s) \<le> length s"
  by (simp add: skip_ws_def length_dropWhile_le)

lemma skip_ws_less: "skip_ws s = c # r \<Longrightarrow> length r < length s"
  using skip_ws_le [of s] by simp

lemma scan_string_less: "scan_string s = Some (x, r) \<Longrightarrow> length r < length s"
proof (induction "length s" arbitrary: s x r rule: less_induct)
  case less
  show ?case
  proof (cases s)
    case (Cons c s1)
    have rest: "length r < length s" if "scan_string t = Some (y, r)" "length t < length s" for t y
      using less.hyps [OF that(2,1)] that(2) by simp
    consider "c = dquote" | "c = bslash" "c \<noteq> dquote" | "c \<noteq> dquote" "c \<noteq> bslash" by blast
    then show ?thesis
    proof cases
      case 1
      then show ?thesis using less.prems Cons by simp
    next
      case 2
      then obtain e s2 where s2: "s1 = e # s2" using less.prems Cons by (auto split: list.splits)
      show ?thesis
      proof (cases "simple_escape e")
        case None
        then obtain q t where t: "getu4 s2 = Some (q, t)" using less.prems Cons 2 s2 by (auto split: if_splits option.splits)
        let ?p = "if surrogate q then low_half q t else (q, t)"
        have "length (snd ?p) < length s" using getu4_shorter [OF t] low_half_shorter [of q t] Cons s2 by simp
        moreover obtain y where "scan_string (snd ?p) = Some (y, r)"
          using less.prems Cons 2 s2 None t by (auto simp: Let_def split: if_splits)
        ultimately show ?thesis using rest by blast
      next
        case (Some z)
        then obtain y where "scan_string s2 = Some (y, r)" using less.prems Cons 2 s2 by (auto split: if_splits)
        then show ?thesis using rest Cons s2 by simp
      qed
    next
      case 3
      then obtain y where "scan_string s1 = Some (y, r)" using less.prems Cons by (auto split: if_splits)
      then show ?thesis using rest Cons by simp
    qed
  qed (use less.prems in simp)
qed

lemma scan_number_less: "scan_number s = Some (x, r) \<Longrightarrow> length r < length s"
proof -
  assume "scan_number s = Some (x, r)"
  then obtain sg s1 i s2 f s3 e where 1: "scan_sign s = (sg, s1)" "scan_int s1 = Some (i, s2)" "scan_frac s2 = Some (f, s3)"
      "scan_exp s3 = Some (e, r)"
    by (auto simp: scan_number_def split: prod.splits option.splits)
  have "length s1 \<le> length s" using 1(1) by (auto simp: scan_sign_def split: list.splits if_splits)
  moreover have "length s2 < length s1"
    using 1(2) length_dropWhile_le [of is_digit "tl s1"] by (auto simp: scan_int_def scan_digits_def split: list.splits if_splits)
  moreover have "length s3 \<le> length s2"
    using 1(3) length_dropWhile_le [of is_digit "tl s2"] by (auto simp: scan_frac_def scan_digits_def split: list.splits if_splits)
  moreover have "length r \<le> length s3"
    using 1(4) length_dropWhile_le [of is_digit "tl s3"] length_dropWhile_le [of is_digit "tl (tl s3)"]
    by (auto simp: scan_exp_def scan_digits_def split: list.splits if_splits)
  ultimately show ?thesis by simp
qed

lemma scan_literal_le: "scan_literal w v s = Some (x, r) \<Longrightarrow> length r \<le> length s"
  by (auto simp: scan_literal_def split: if_splits)

lemma scan_less:
  "scan_value n d s = Some (v, r) \<Longrightarrow> length r < length s"
  "scan_elems n d s = Some (vs, r) \<Longrightarrow> length r < length s"
  "scan_members n d s = Some (kvs, r) \<Longrightarrow> length r < length s"
proof (induction n arbitrary: d s v vs kvs r)
  case (Suc n)
  {
    case 1
    then obtain c s1 where s1: "skip_ws s = c # s1" by (auto split: list.splits)
    note l = skip_ws_less [OF s1]
    have inner: "length r < length s" if "skip_ws s1 = c' # s2" "length r < length (c' # s2) \<or> r = s2" for c' s2
      using skip_ws_less [OF that(1)] that(2) l by auto
    show ?case
      using 1 s1 l inner
      by (auto split: list.splits if_splits dest!: Suc.IH(2,3) scan_string_less scan_literal_le scan_number_less)
  next
    case 2
    then obtain v1 r1 c r2 where "scan_value n d s = Some (v1, r1)" "skip_ws r1 = c # r2"
      "r = r2 \<or> (\<exists>vs'. scan_elems n d r2 = Some (vs', r))"
      by (auto split: option.splits list.splits if_splits)
    then show ?case using Suc.IH(1) [of d s v1 r1] Suc.IH(2) [of d r2] skip_ws_less [of r1 c r2] by auto
  next
    case 3
    then obtain c s1 k r1 c2 r2 v3 r3 c4 r4 where "skip_ws s = c # s1" "scan_string s1 = Some (k, r1)" "skip_ws r1 = c2 # r2"
      "scan_value n d r2 = Some (v3, r3)" "skip_ws r3 = c4 # r4" "r = r4 \<or> (\<exists>kvs'. scan_members n d r4 = Some (kvs', r))"
      by (auto split: option.splits list.splits if_splits)
    then show ?case
      using Suc.IH(1) [of d r2 v3 r3] Suc.IH(3) [of d r4] skip_ws_less [of s c s1] skip_ws_less [of r1 c2 r2] skip_ws_less [of r3 c4 r4]
        scan_string_less [of s1 k r1]
      by auto
  }
qed simp_all

section \<open>More fuel changes nothing\<close>

declare scan_value.simps [simp del] scan_elems.simps [simp del] scan_members.simps [simp del]

lemma scan_stable:
  "2 * length s < n \<Longrightarrow> scan_value (Suc n) d s = scan_value n d s"
  "2 * length s + 1 < n \<Longrightarrow> scan_elems (Suc n) d s = scan_elems n d s"
  "2 * length s + 1 < n \<Longrightarrow> scan_members (Suc n) d s = scan_members n d s"
proof (induction n arbitrary: d s)
  case (Suc n)
  {
    case 1
    have "scan_elems (Suc n) d' (c' # r') = scan_elems n d' (c' # r') \<and> scan_members (Suc n) d' (c' # r') = scan_members n d' (c' # r')"
      if "skip_ws s = c # r" "skip_ws r = c' # r'" for c r c' r' d'
      using 1 skip_ws_less [OF that(1)] skip_ws_less [OF that(2)] by (intro conjI Suc.IH) simp_all
    then show ?case
      unfolding scan_value.simps(2) by (auto split: list.split)
  next
    case 2
    have "scan_value (Suc n) d s = scan_value n d s" using 2 by (intro Suc.IH) simp
    moreover have "scan_elems (Suc n) d r' = scan_elems n d r'" if "scan_value n d s = Some (v, r)" "skip_ws r = c # r'" for v r c r'
      using 2 scan_less(1) [OF that(1)] skip_ws_less [OF that(2)] by (intro Suc.IH) simp
    ultimately show ?case
      unfolding scan_elems.simps(2) by (auto split: list.split option.split)
  next
    case 3
    have "scan_value (Suc n) d r2 = scan_value n d r2" if "skip_ws s = c # r" "scan_string r = Some (k, r1)" "skip_ws r1 = c2 # r2" for c r k r1 c2 r2
      using 3 skip_ws_less [OF that(1)] scan_string_less [OF that(2)] skip_ws_less [OF that(3)] by (intro Suc.IH) simp
    moreover have "scan_members (Suc n) d r4 = scan_members n d r4"
      if "skip_ws s = c # r" "scan_string r = Some (k, r1)" "skip_ws r1 = c2 # r2" "scan_value n d r2 = Some (v, r3)" "skip_ws r3 = c4 # r4"
      for c r k r1 c2 r2 v r3 c4 r4
      using 3 skip_ws_less [OF that(1)] scan_string_less [OF that(2)] skip_ws_less [OF that(3)] scan_less(1) [OF that(4)] skip_ws_less [OF that(5)]
      by (intro Suc.IH) simp
    ultimately show ?case
      unfolding scan_members.simps(2) by (auto split: list.split option.split)
  }
qed simp_all

text \<open>
  The result of the scanner does not depend on its fuel: twice the length of the input plus one,
  which the model uses, gives the same as any larger amount, for every input and depth.
\<close>
theorem fuel_enough:
  assumes "Suc (2 * length s) \<le> n"
  shows "scan_value n d s = scan_value (Suc (2 * length s)) d s"
  using assms
proof (induction n rule: dec_induct)
  case (step m)
  then show ?case using scan_stable(1) [of s m d] by simp
qed simp

end
