(* ===== verification/InviteBudget.thy ===== *)
theory InviteBudget
  imports Schema
begin

text \<open>
  Invites admit no more users than they say: over every sequence of calls of the package \<^verbatim>\<open>db\<close>, with
  statements failing at any points, the registrations and uses that succeed with a code are
  counted and compared with the \<^verbatim>\<open>max_uses\<close> of its invite.
\<close>

section \<open>Calls that leave the invites alone\<close>

abbreviation invites_are :: "Invite list \<Rightarrow> 'z database_scheme \<Rightarrow> bool" where
  "invites_are v s \<equiv> invites s = v"

lemma invites_exec:
  "(\<And>now s x s'. f now s = Inr (x, s') \<Longrightarrow> invites s' = invites s) \<Longrightarrow> keeps (invites_are v) (exec f)"
  by (rule keeps_exec) auto

lemma invites_execute: "(\<And>now s. invites (f now s) = invites s) \<Longrightarrow> keeps (invites_are v) (execute f)"
  by (rule keeps_execute) auto

lemma invites_query [keeps_intro]: "keeps (invites_are v) (query f)"
  by (rule keeps_query) simp

lemma invites_now [keeps_intro]: "keeps (invites_are v) time_now"
  by (simp add: keeps_def time_now_def)

lemma invites_transaction [keeps_intro]:
  assumes "keeps (invites_are v) m"
  shows "keeps (invites_are v) (transaction m)"
proof (rule keepsI)
  fix s :: "'a database_scheme"
  assume s: "invites s = v"
  then have "wp m (\<lambda>_ s'. invites s' = v) (tick s)"
    by (intro keeps_wp assms) simp
  then have "wp (transaction m) (\<lambda>_ s'. invites s' = v) s"
    unfolding wp_simps using s
    by (auto elim!: wp_mono simp: rollback_to_def split: sum.splits if_splits)
  then show "invites (snd (run_state (transaction m) s)) = v"
    by (simp add: wp_run)
qed

lemma invites_inserts:
  "insert_user n h r now s = Inr (x, s') \<Longrightarrow> invites s' = invites s"
  "insert_session u th d ip e now s = Inr (y, s') \<Longrightarrow> invites s' = invites s"
  "insert_channel n ty ca to po now s = Inr (z, s') \<Longrightarrow> invites s' = invites s"
  "insert_message c u t rp now s = Inr (z, s') \<Longrightarrow> invites s' = invites s"
  "insert_reaction m u e now s = Inr (w, s') \<Longrightarrow> invites s' = invites s"
  "insert_open ps now s = Inr (w, s') \<Longrightarrow> invites s' = invites s"
  "insert_participants c u v s = Inr (w, s') \<Longrightarrow> invites s' = invites s"
  "link_attachments m is s = Inr (z, s') \<Longrightarrow> invites s' = invites s"
  "anonymise_row u s = Inr (w, s') \<Longrightarrow> invites s' = invites s"
  by (auto simp: insert_user_def insert_session_def insert_channel_def insert_message_def insert_reaction_def insert_open_def
      insert_participants_def link_attachments_def anonymise_row_def Let_def split: if_splits option.splits)

lemma invites_user_calls:
  "keeps (invites_are v) (CreateUser n h r)" "keeps (invites_are v) (UpdateUserStatus u x)"
  "keeps (invites_are v) (UpdateUserTOTPSecret u y)" "keeps (invites_are v) (UpdateUserRole u r)"
  "keeps (invites_are v) ResetAllUserStatuses" "keeps (invites_are v) (BanUser u n t)" "keeps (invites_are v) (UnbanUser u)"
  "keeps (invites_are v) (DeleteAccount u)"
  unfolding CreateUser_def UpdateUserStatus_def UpdateUserTOTPSecret_def UpdateUserRole_def ResetAllUserStatuses_def BanUser_def
    UnbanUser_def DeleteAccount_def last_admin_guard_def set_user_def
  by (intro keeps_intro invites_exec invites_execute; auto simp: invites_inserts split: if_splits)+

lemma invites_auth_calls:
  "keeps (invites_are v) (CreateSession u th d ip)" "keeps (invites_are v) (DeleteSession th)"
  "keeps (invites_are v) (DeleteExpiredSessions st)" "keeps (invites_are v) (TouchSession th)" "keeps (invites_are v) (ForceLogoutUser u)"
  unfolding CreateSession_def DeleteSession_def DeleteExpiredSessions_def TouchSession_def ForceLogoutUser_def
  by (intro keeps_intro invites_exec invites_execute; auto simp: invites_inserts)+

lemma invites_channel_calls:
  "keeps (invites_are v) (CreateChannel n ty ca to po)" "keeps (invites_are v) (UpdateChannel c n to sm)"
  "keeps (invites_are v) (SetChannelSlowMode c x)" "keeps (invites_are v) (SetChannelVoiceMaxUsers c x)"
  "keeps (invites_are v) (AdminUpdateChannel c n to sm po a)" "keeps (invites_are v) (DeleteChannel c)"
  unfolding CreateChannel_def UpdateChannel_def SetChannelSlowMode_def SetChannelVoiceMaxUsers_def AdminUpdateChannel_def
    DeleteChannel_def delete_channel_cascade_def
  by (intro keeps_intro invites_exec invites_execute; auto simp: invites_inserts Let_def)+

lemma invites_message_calls:
  "keeps (invites_are v) (CreateMessage c u t r)" "keeps (invites_are v) (EditMessage i u t)"
  "keeps (invites_are v) (DeleteMessage i u b)" "keeps (invites_are v) (SetMessagePinned i b)"
  "keeps (invites_are v) (AddReaction i u t)" "keeps (invites_are v) (RemoveReaction i u t)"
  "keeps (invites_are v) (CreateAttachment ai f sa mt sz w h)" "keeps (invites_are v) (LinkAttachmentsToMessage i as)"
  "keeps (invites_are v) (DeleteOrphanedAttachments t)" "keeps (invites_are v) (UpdateReadState u c i)"
  unfolding CreateMessage_def EditMessage_def DeleteMessage_def SetMessagePinned_def AddReaction_def RemoveReaction_def
    CreateAttachment_def LinkAttachmentsToMessage_def DeleteOrphanedAttachments_def UpdateReadState_def GetMessage_def
  by (intro keeps_intro invites_exec invites_execute; auto simp: invites_inserts Let_def split: if_splits)+

lemma invites_voice_calls:
  "keeps (invites_are v) (JoinVoiceChannel u c)" "keeps (invites_are v) (LeaveVoiceChannel u)" "keeps (invites_are v) (ClearVoiceState u)"
  "keeps (invites_are v) ClearAllVoiceStates" "keeps (invites_are v) (UpdateVoiceMute u b)" "keeps (invites_are v) (UpdateVoiceDeafen u b)"
  "keeps (invites_are v) (UpdateVoiceCamera u b)" "keeps (invites_are v) (UpdateVoiceScreenshare u b)"
  unfolding JoinVoiceChannel_def LeaveVoiceChannel_def ClearVoiceState_def ClearAllVoiceStates_def UpdateVoiceMute_def
    UpdateVoiceDeafen_def UpdateVoiceCamera_def UpdateVoiceScreenshare_def set_voice_def
  by (intro keeps_intro invites_exec invites_execute; auto split: if_splits)+

lemma invites_dm_calls:
  "keeps (invites_are v) (GetOrCreateDMChannel u w)" "keeps (invites_are v) (OpenDM u c)" "keeps (invites_are v) (CloseDM u c)"
  "keeps (invites_are v) (LogAudit a x ty i d)" "keeps (invites_are v) (SetSetting k y)"
  unfolding GetOrCreateDMChannel_def dm_transaction_def GetChannel_def OpenDM_def CloseDM_def LogAudit_def SetSetting_def
  by (intro keeps_intro invites_exec invites_execute; auto simp: invites_inserts)+

section \<open>Calls that use an invite\<close>

definition uses_of :: "string \<Rightarrow> 'z database_scheme \<Rightarrow> int" where
  "uses_of code s = sum_list (map i_Uses (filter (\<lambda>i. i_Code i = code) (invites s)))"

definition budget_ok :: "'z database_scheme \<Rightarrow> bool" where
  "budget_ok s \<longleftrightarrow> (\<forall>i \<in> set (invites s). 0 \<le> i_Uses i \<and> (\<forall>n. i_MaxUses i = Some n \<longrightarrow> i_Uses i \<le> n))"

text \<open>Within the budget afterwards, and \<open>k\<close> more uses of the code counted.\<close>

definition spends :: "string \<Rightarrow> nat \<Rightarrow> 'z database_scheme \<Rightarrow> 'z database_scheme \<Rightarrow> bool" where
  "spends code k s s' \<longleftrightarrow> budget_ok s' \<and> uses_of code s + int k \<le> uses_of code s'"

lemma spends_same: "budget_ok s \<Longrightarrow> invites s' = invites s \<Longrightarrow> spends code 0 s s'"
  by (simp add: spends_def budget_ok_def uses_of_def)

lemma sum_uses_where:
  assumes "\<And>i. P i \<Longrightarrow> i_Code i = c"
  shows "sum_list (map i_Uses (filter (\<lambda>i. i_Code i = code) (upd_where P (\<lambda>i. i\<lparr>i_Uses := i_Uses i + 1\<rparr>) is))) =
    sum_list (map i_Uses (filter (\<lambda>i. i_Code i = code) is)) + (if c = code then int (length (filter P is)) else 0)"
  using assms by (induction "is") auto

lemma usable_within: "invite_usable st c now i \<Longrightarrow> i_MaxUses i = Some n \<Longrightarrow> i_Uses i < n"
  by (simp add: invite_usable_def)

lemma usable_code: "invite_usable st c now i \<Longrightarrow> i_Code i = c"
  by (simp add: invite_usable_def)

lemma only_of_code: "distinct (map i_Code is) \<Longrightarrow> i \<in> set is \<Longrightarrow> filter (\<lambda>j. i_Code j = i_Code i) is = [i]"
proof (induction "is")
  case (Cons j js)
  then show ?case by (cases "j = i") (auto simp: filter_empty_conv, metis image_eqI)
qed simp

lemma budget_use:
  "budget_ok s \<Longrightarrow> budget_ok (s\<lparr>invites := upd_where (invite_usable st c now) (\<lambda>i. i\<lparr>i_Uses := i_Uses i + 1\<rparr>) (invites s)\<rparr>)"
  by (auto simp: budget_ok_def set_upd_where dest: usable_within)

lemma use_invite_spends:
  assumes "budget_ok s"
  shows "wp (use_invite st c) (\<lambda>r s'. case r of Inl _ \<Rightarrow> invites s' = invites s
     | Inr rows \<Rightarrow> spends code (if c = code then rows else 0) s s') s"
  using budget_use [of "tick s" st c] assms
  by (simp add: use_invite_def wp_simps spends_def uses_of_def sum_uses_where [OF usable_code]) (simp add: budget_ok_def)

lemma UseInviteAtomic_spends:
  "budget_ok s \<Longrightarrow> wp (UseInviteAtomic st c) (\<lambda>r s'. spends code (if c = code \<and> \<not> isl r then 1 else 0) s s') s"
  unfolding UseInviteAtomic_def wp_simps
  by (rule wp_mono [OF use_invite_spends [where code = code]])
    (auto simp: spends_def uses_of_def budget_ok_def split: sum.splits if_splits)

lemma CreateUserWithInvite_spends:
  assumes "budget_ok s"
  shows "wp (CreateUserWithInvite st n h r c) (\<lambda>r s'. spends code (if c = code \<and> \<not> isl r then 1 else 0) s s') s"
proof -
  have t: "budget_ok (tick s)" using assms by (simp add: budget_ok_def)
  have undone: "spends code 0 s (rollback_to (tick s) s')" for s'
    by (rule spends_same [OF assms]) (simp add: rollback_to_def)
  have "wp (bind_ok (use_invite st c) (\<lambda>rows. if rows = 0 then return (Inl ErrNotFound) else exec (insert_user n h r)))
      (\<lambda>x s'. \<not> isl x \<longrightarrow> spends code (if c = code then 1 else 0) s s') (tick s)"
    unfolding wp_simps
    by (rule wp_mono [OF use_invite_spends [OF t, where code = code]])
      (auto simp: spends_def uses_of_def budget_ok_def dest!: invites_inserts(1) split: sum.splits prod.splits if_splits)
  then show ?thesis
    unfolding CreateUserWithInvite_def wp_transaction
    using spends_same [OF assms] undone
    by (auto elim!: wp_mono simp: spends_def uses_of_def budget_ok_def split: sum.splits)
qed

lemma CreateInvite_spends: "budget_ok s \<Longrightarrow> wp (CreateInvite b u n t) (\<lambda>r s'. spends code 0 s s') s"
  by (auto simp: CreateInvite_def insert_invite_def spends_def budget_ok_def uses_of_def wp_simps Let_def split: sum.splits)

lemma RevokeInvite_spends: "budget_ok s \<Longrightarrow> wp (RevokeInvite c) (\<lambda>r s'. spends code 0 s s') s"
proof -
  have "sum_list (map i_Uses (filter (\<lambda>i. i_Code i = code) (upd_where (\<lambda>i. i_Code i = c) (\<lambda>i. i\<lparr>i_Revoked := True\<rparr>) is))) =
      sum_list (map i_Uses (filter (\<lambda>i. i_Code i = code) is))" for "is" :: "Invite list"
    by (induction "is") auto
  then show "budget_ok s \<Longrightarrow> ?thesis"
    by (auto simp: RevokeInvite_def wp_simps spends_def uses_of_def budget_ok_def set_upd_where)
qed

section \<open>Every run\<close>

text \<open>Whether a call lets somebody in with a code.\<close>

fun admits :: "(string \<Rightarrow> string option) \<Rightarrow> string \<Rightarrow> db_call \<Rightarrow> 'z database_scheme \<Rightarrow> bool" where
  "admits st code (UserCall (DCreateUserWithInvite n h r c)) s = (c = code \<and> \<not> isl (fst (run_state (CreateUserWithInvite st n h r c) s)))"
| "admits st code (AuthCall (DUseInvite c)) s = (c = code \<and> \<not> isl (fst (run_state (UseInviteAtomic st c) s)))"
| "admits st code _ s = False"

fun admissions :: "(string \<Rightarrow> string option) \<Rightarrow> string \<Rightarrow> db_call list \<Rightarrow> 'z database_scheme \<Rightarrow> nat" where
  "admissions st code [] s = 0"
| "admissions st code (c # cs) s = (if admits st code c s then 1 else 0) + admissions st code cs (db_step st c s)"

lemma run_same: "keeps (invites_are (invites s)) m \<Longrightarrow> budget_ok s \<Longrightarrow> spends code 0 s (run_call m s)"
  by (auto intro: spends_same simp: run_call_def keeps_def)

lemma run_spends: "wp m (\<lambda>r s'. spends code k s s') s \<Longrightarrow> spends code k s (run_call m s)"
  by (simp add: wp_run run_call_def)

lemma run_CreateUserWithInvite:
  "budget_ok s \<Longrightarrow> spends code (if c = code \<and> \<not> isl (fst (run_state (CreateUserWithInvite st n h r c) s)) then 1 else 0) s
     (run_call (CreateUserWithInvite st n h r c) s)"
  using CreateUserWithInvite_spends [of s st n h r c code] by (simp add: wp_run run_call_def)

lemma run_UseInviteAtomic:
  "budget_ok s \<Longrightarrow> spends code (if c = code \<and> \<not> isl (fst (run_state (UseInviteAtomic st c) s)) then 1 else 0) s
     (run_call (UseInviteAtomic st c) s)"
  using UseInviteAtomic_spends [of s st c code] by (simp add: wp_run run_call_def)

lemma db_step_spends: "budget_ok s \<Longrightarrow> spends code (if admits st code c s then 1 else 0) s (db_step st c s)"
proof (cases c)
  case (UserCall uc)
  show "budget_ok s \<Longrightarrow> ?thesis"
  proof (cases uc)
    case (DCreateUserWithInvite n h r c')
    show "budget_ok s \<Longrightarrow> ?thesis"
      unfolding UserCall DCreateUserWithInvite db_step.simps user_step.simps admits.simps by (rule run_CreateUserWithInvite)
  qed (simp_all add: UserCall run_same invites_user_calls)
next
  case (AuthCall ac)
  show "budget_ok s \<Longrightarrow> ?thesis"
  proof (cases ac)
    case (DUseInvite c')
    show "budget_ok s \<Longrightarrow> ?thesis"
      unfolding AuthCall DUseInvite db_step.simps auth_step.simps admits.simps by (rule run_UseInviteAtomic)
  qed (simp_all add: AuthCall run_same invites_auth_calls run_spends CreateInvite_spends RevokeInvite_spends)
next
  case (ChannelCall cc)
  then show "budget_ok s \<Longrightarrow> ?thesis" by (cases cc) (simp_all add: run_same invites_channel_calls)
next
  case (MessageCall mc)
  then show "budget_ok s \<Longrightarrow> ?thesis" by (cases mc) (simp_all add: run_same invites_message_calls)
next
  case (VoiceCall vc)
  then show "budget_ok s \<Longrightarrow> ?thesis" by (cases vc) (simp_all add: run_same invites_voice_calls)
next
  case (DMCall dc)
  then show "budget_ok s \<Longrightarrow> ?thesis" by (cases dc) (simp_all add: run_same invites_dm_calls)
qed

lemma run_admissions:
  "budget_ok s \<Longrightarrow> spends code (admissions st code cs s) s (fold (db_step st) cs s)"
proof (induction cs arbitrary: s)
  case Nil
  then show ?case by (simp add: spends_same)
next
  case (Cons c cs)
  from db_step_spends [OF Cons.prems, of code st c]
  have "budget_ok (db_step st c s)" by (simp add: spends_def)
  from Cons.IH [OF this] db_step_spends [OF Cons.prems, of code st c] show ?case
    by (auto simp: spends_def)
qed

text \<open>
  C21: An invite admits no more users than its \<^verbatim>\<open>max_uses\<close>. Starting from the migrated database, over any sequence of
  database calls with statements failing at any points, the registrations and uses that
  succeeded with the code of an invite number at most its \<^verbatim>\<open>max_uses\<close>.
\<close>
theorem invite_budget:
  assumes s: "s = fold (db_step st) ops (initial_db\<lparr>faults := fs, clock := cl\<rparr>)"
    and i: "i \<in> set (invites s)" "i_MaxUses i = Some n"
  shows "int (admissions st (i_Code i) ops (initial_db\<lparr>faults := fs, clock := cl\<rparr>)) \<le> n"
proof -
  let ?s0 = "initial_db\<lparr>faults := fs, clock := cl\<rparr>"
  have "budget_ok ?s0" and zero: "uses_of (i_Code i) ?s0 = 0"
    by (simp_all add: budget_ok_def uses_of_def initial_db_def)
  from run_admissions [OF this(1), of "i_Code i" st ops]
  have fin: "budget_ok s" "int (admissions st (i_Code i) ops ?s0) \<le> uses_of (i_Code i) s"
    by (simp_all add: spends_def s zero)
  have "schema_ok s"
    unfolding s by (rule db_sys.inv_run) (auto simp: fresh_db_def)
  then have "distinct (map i_Code (invites s))" by (simp add: schema_ok_def uniq_ok_def)
  from only_of_code [OF this i(1)] have "filter (\<lambda>j. i_Code j = i_Code i) (invites s) = [i]" .
  then have "uses_of (i_Code i) s = i_Uses i" by (simp add: uses_of_def)
  with fin i show ?thesis by (auto simp: budget_ok_def)
qed

text \<open>An owner makes an invite for one user; the first registration with it succeeds and the second does not.\<close>

definition invite_ops :: "db_call list" where
  "invite_ops = [UserCall (DCreateUser ''root'' ''h'' 1), AuthCall (DCreateInvite (Some ''A'') 1 1 None),
     UserCall (DCreateUserWithInvite ''bob'' ''h'' 4 ''41''), UserCall (DCreateUserWithInvite ''eve'' ''h'' 4 ''41'')]"

definition one_use :: Invite where
  "one_use = \<lparr>i_ID = 1, i_Code = ''41'', i_CreatedBy = 1, i_Uses = 1, i_MaxUses = Some 1, i_ExpiresAt = None, i_Revoked = False,
     i_CreatedAt = fmt_sqlite 0\<rparr>"

lemma invite_run:
  "invites (fold (db_step (\<lambda>_. None)) invite_ops (initial_db\<lparr>faults := (\<lambda>_. False), clock := (\<lambda>_. 0)\<rparr>)) = [one_use]"
  by code_simp

theorem invite_budget_witness:
  "one_use \<in> set (invites (fold (db_step (\<lambda>_. None)) invite_ops (initial_db\<lparr>faults := (\<lambda>_. False), clock := (\<lambda>_. 0)\<rparr>))) \<and>
   int (admissions (\<lambda>_. None) ''41'' invite_ops (initial_db\<lparr>faults := (\<lambda>_. False), clock := (\<lambda>_. 0)\<rparr>)) \<le> 1"
  using invite_budget [OF refl, where i = one_use and st = "\<lambda>_. None" and ops = invite_ops and fs = "\<lambda>_. False" and cl = "\<lambda>_. 0" and n = 1]
  by (simp add: invite_run) (simp add: one_use_def)

end
