(* ===== verification/DMPrivacy.thy ===== *)
theory DMPrivacy
  imports Schema
begin

text \<open>
  Direct messages are between two people: over every sequence of calls of the package \<^verbatim>\<open>db\<close>, with statements
  failing at any points, a channel with participants is a direct-message channel of at most two
  users (an account that is deleted leaves), nobody joins one later, and no two users share
  two of them. No constraint of the schema says so; it rests on the transaction of
  \<^verbatim>\<open>GetOrCreateDMChannel\<close> (\<^verbatim>\<open>db/dm_queries.go\<close>) and on who writes the table.
\<close>

section \<open>Participants\<close>

definition members :: "'z database_scheme \<Rightarrow> int64 \<Rightarrow> int64 list" where
  "members s ch = map snd (filter (\<lambda>p. fst p = ch) (dm_participants s))"

definition dm_private :: "'z database_scheme \<Rightarrow> bool" where
  "dm_private s \<longleftrightarrow>
     (\<forall>ch. members s ch \<noteq> [] \<longrightarrow> channel_type s ch = Some ''dm'' \<and> distinct (members s ch) \<and> length (members s ch) \<le> 2) \<and>
     (\<forall>ch ch' a b. a \<noteq> b \<longrightarrow> {a, b} \<subseteq> set (members s ch) \<longrightarrow> {a, b} \<subseteq> set (members s ch') \<longrightarrow> ch = ch')"

text \<open>What the invariant looks at beside the participants: the type of each channel.\<close>

definition types :: "'z database_scheme \<Rightarrow> (int64 \<times> string) list" where
  "types s = map (\<lambda>c. (c_ID c, c_Type c)) (channels s)"

lemma channel_type_of: "channel_type s ch = map_of (types s) ch"
proof -
  have "map_option c_Type (List.find (\<lambda>c. c_ID c = ch) cs) = map_of (map (\<lambda>c. (c_ID c, c_Type c)) cs) ch" for cs
    by (induction cs) auto
  then show ?thesis by (simp add: channel_type_def types_def)
qed

text \<open>Nobody new: no channel that has been given out gets a participant.\<close>

definition narrows :: "'z database_scheme \<Rightarrow> 'z database_scheme \<Rightarrow> bool" where
  "narrows s s' \<longleftrightarrow> channels_seq s \<le> channels_seq s' \<and> (\<forall>ch \<le> channels_seq s. set (members s' ch) \<subseteq> set (members s ch))"

lemma narrows_trans: "narrows s s' \<Longrightarrow> narrows s' s'' \<Longrightarrow> narrows s s''"
  unfolding narrows_def by (meson order_trans)

section \<open>Calls that make no channel\<close>

text \<open>Participants may leave; channels stay.\<close>

definition shrunk :: "'z database_scheme \<Rightarrow> 'z database_scheme \<Rightarrow> bool" where
  "shrunk s s' \<longleftrightarrow> (\<exists>P. dm_participants s' = filter P (dm_participants s)) \<and> types s' = types s \<and> channels_seq s' = channels_seq s"

lemma shrunkI: "dm_participants s' = dm_participants s \<Longrightarrow> types s' = types s \<Longrightarrow> channels_seq s' = channels_seq s \<Longrightarrow> shrunk s s'"
  unfolding shrunk_def by (intro conjI exI [of _ "\<lambda>_. True"]) simp_all

lemma shrunk_trans: "shrunk s s' \<Longrightarrow> shrunk s' s'' \<Longrightarrow> shrunk s s''"
  by (auto simp: shrunk_def)

lemma shrunk_tick: "shrunk s (tick s)"
  by (rule shrunkI) (simp_all add: types_def)

lemma members_filter: "set (map snd (filter (\<lambda>p. fst p = ch) (filter P ps))) \<subseteq> set (map snd (filter (\<lambda>p. fst p = ch) ps))"
  "distinct (map snd (filter (\<lambda>p. fst p = ch) ps)) \<Longrightarrow> distinct (map snd (filter (\<lambda>p. fst p = ch) (filter P ps)))"
  "length (map snd (filter (\<lambda>p. fst p = ch) (filter P ps))) \<le> length (map snd (filter (\<lambda>p. fst p = ch) ps))"
proof -
  have eq: "filter (\<lambda>p. fst p = ch) (filter P ps) = filter P (filter (\<lambda>p. fst p = ch) ps)" by (simp add: conj_commute)
  show "set (map snd (filter (\<lambda>p. fst p = ch) (filter P ps))) \<subseteq> set (map snd (filter (\<lambda>p. fst p = ch) ps))" by auto
  show "distinct (map snd (filter (\<lambda>p. fst p = ch) ps)) \<Longrightarrow> distinct (map snd (filter (\<lambda>p. fst p = ch) (filter P ps)))"
    unfolding eq by (rule distinct_map_filter)
  show "length (map snd (filter (\<lambda>p. fst p = ch) (filter P ps))) \<le> length (map snd (filter (\<lambda>p. fst p = ch) ps))"
    unfolding eq by (simp only: length_map length_filter_le)
qed

lemma shrunk_members:
  assumes "shrunk s s'"
  shows "set (members s' ch) \<subseteq> set (members s ch)" "distinct (members s ch) \<Longrightarrow> distinct (members s' ch)"
    "length (members s' ch) \<le> length (members s ch)" "channel_type s' ch = channel_type s ch"
  using assms members_filter unfolding shrunk_def members_def channel_type_of by metis+

lemma private_shrunk:
  assumes "shrunk s s'" and "dm_private s"
  shows "dm_private s'"
  unfolding dm_private_def
proof (intro conjI allI impI)
  fix ch assume "members s' ch \<noteq> []"
  then have "members s ch \<noteq> []" using shrunk_members(1) [OF assms(1), of ch] by auto
  with assms(2) have *: "channel_type s ch = Some ''dm''" "distinct (members s ch)" "length (members s ch) \<le> 2"
    by (simp_all add: dm_private_def)
  then show "channel_type s' ch = Some ''dm''" "distinct (members s' ch)" "length (members s' ch) \<le> 2"
    using shrunk_members [OF assms(1), of ch] by auto
next
  fix ch ch' a b assume "a \<noteq> b" "{a, b} \<subseteq> set (members s' ch)" "{a, b} \<subseteq> set (members s' ch')"
  with shrunk_members(1) [OF assms(1)] have "{a, b} \<subseteq> set (members s ch)" "{a, b} \<subseteq> set (members s ch')" by blast+
  with assms(2) \<open>a \<noteq> b\<close> show "ch = ch'" unfolding dm_private_def by blast
qed

lemma narrows_shrunk: "shrunk s s' \<Longrightarrow> narrows s s'"
  using shrunk_members(1) by (auto simp: narrows_def shrunk_def)

lemma shrunk_exec: "(\<And>now s x s'. f now s = Inr (x, s') \<Longrightarrow> shrunk s s') \<Longrightarrow> keeps (shrunk s0) (exec f)"
  by (rule keeps_exec) (metis shrunk_trans shrunk_tick)+

lemma shrunk_execute: "(\<And>now s. shrunk s (f now s)) \<Longrightarrow> keeps (shrunk s0) (execute f)"
  by (rule keeps_execute) (metis shrunk_trans shrunk_tick)+

lemma shrunk_query [keeps_intro]: "keeps (shrunk s0) (query f)"
  by (rule keeps_query) (metis shrunk_trans shrunk_tick)

lemma shrunk_now [keeps_intro]: "keeps (shrunk s0) time_now"
  by (auto simp: keeps_def time_now_def types_def elim!: shrunk_trans intro!: shrunkI)

lemma shrunk_rollback: "shrunk s (rollback_to s s')"
  by (rule shrunkI) (simp_all add: rollback_to_def types_def)

lemma shrunk_transaction [keeps_intro]:
  assumes "keeps (shrunk s0) m"
  shows "keeps (shrunk s0) (transaction m)"
proof (rule keepsI)
  fix s :: "'a database_scheme"
  assume s: "shrunk s0 s"
  note t = shrunk_trans [OF _ shrunk_tick]
  note undone = shrunk_trans [OF t [OF s] shrunk_rollback]
  have "wp m (\<lambda>_. shrunk s0) (tick s)" by (intro keeps_wp assms t s)
  then have "wp (transaction m) (\<lambda>_. shrunk s0) s"
    unfolding wp_simps using t [OF s]
    by (auto elim!: wp_mono simp: undone t split: sum.splits)
  then show "shrunk s0 (snd (run_state (transaction m) s))" by (simp add: wp_run)
qed

lemma shrunk_leave: "shrunk s (s\<lparr>dm_participants := filter P (dm_participants s)\<rparr>)"
  by (auto simp: shrunk_def types_def)

lemma dms_inserts:
  "insert_user n h r now s = Inr (x, s') \<Longrightarrow> shrunk s s'"
  "insert_session u th d ip e now s = Inr (y, s') \<Longrightarrow> shrunk s s'"
  "insert_invite ic iu mx it now s = Inr (i, s') \<Longrightarrow> shrunk s s'"
  "insert_message c u t rp now s = Inr (z, s') \<Longrightarrow> shrunk s s'"
  "insert_reaction m u e now s = Inr (w, s') \<Longrightarrow> shrunk s s'"
  "insert_open ps now s = Inr (w, s') \<Longrightarrow> shrunk s s'"
  "link_attachments m is s = Inr (z, s') \<Longrightarrow> shrunk s s'"
  "anonymise_row u s = Inr (w, s') \<Longrightarrow> shrunk s s'"
  by (auto simp: insert_user_def insert_session_def insert_invite_def insert_message_def insert_reaction_def insert_open_def
      link_attachments_def anonymise_row_def types_def Let_def intro!: shrunkI split: if_splits option.splits)

lemma types_update: "(\<And>c. c_ID (f c) = c_ID c \<and> c_Type (f c) = c_Type c) \<Longrightarrow>
  map (\<lambda>c. (c_ID c, c_Type c)) (upd_where P f cs) = map (\<lambda>c. (c_ID c, c_Type c)) cs"
  by (simp add: upd_where_def)

lemma dms_user_calls:
  "keeps (shrunk s0) (CreateUser n h r)" "keeps (shrunk s0) (CreateUserWithInvite st n h r c)" "keeps (shrunk s0) (UpdateUserStatus u x)"
  "keeps (shrunk s0) (UpdateUserTOTPSecret u y)" "keeps (shrunk s0) (UpdateUserRole u r)"
  "keeps (shrunk s0) ResetAllUserStatuses" "keeps (shrunk s0) (BanUser u n t)" "keeps (shrunk s0) (UnbanUser u)"
  "keeps (shrunk s0) (DeleteAccount u)"
  unfolding CreateUser_def CreateUserWithInvite_def use_invite_def UpdateUserStatus_def UpdateUserTOTPSecret_def UpdateUserRole_def
    ResetAllUserStatuses_def BanUser_def UnbanUser_def DeleteAccount_def last_admin_guard_def set_user_def
  by (intro keeps_intro shrunk_exec shrunk_execute;
      (rule shrunk_leave | erule dms_inserts | auto simp: types_def Let_def intro!: shrunkI split: if_splits))+

lemma dms_auth_calls:
  "keeps (shrunk s0) (CreateSession u th d ip)" "keeps (shrunk s0) (DeleteSession th)"
  "keeps (shrunk s0) (DeleteExpiredSessions st)" "keeps (shrunk s0) (TouchSession th)" "keeps (shrunk s0) (ForceLogoutUser u)"
  "keeps (shrunk s0) (CreateInvite b u n t)" "keeps (shrunk s0) (UseInviteAtomic st c)" "keeps (shrunk s0) (RevokeInvite c)"
  unfolding CreateSession_def DeleteSession_def DeleteExpiredSessions_def TouchSession_def ForceLogoutUser_def CreateInvite_def
    UseInviteAtomic_def use_invite_def RevokeInvite_def
  by (intro keeps_intro shrunk_exec shrunk_execute;
      (rule shrunk_leave | erule dms_inserts | auto simp: types_def Let_def intro!: shrunkI split: if_splits))+

lemma dms_channel_calls:
  "keeps (shrunk s0) (UpdateChannel c n to sm)" "keeps (shrunk s0) (SetChannelSlowMode c x)"
  "keeps (shrunk s0) (SetChannelVoiceMaxUsers c x)" "keeps (shrunk s0) (AdminUpdateChannel c n to sm po a)"
  unfolding UpdateChannel_def SetChannelSlowMode_def SetChannelVoiceMaxUsers_def AdminUpdateChannel_def
  by (intro keeps_intro shrunk_execute shrunkI; simp add: types_def types_update)+

lemma dms_message_calls:
  "keeps (shrunk s0) (CreateMessage c u t r)" "keeps (shrunk s0) (EditMessage i u t)"
  "keeps (shrunk s0) (DeleteMessage i u b)" "keeps (shrunk s0) (SetMessagePinned i b)"
  "keeps (shrunk s0) (AddReaction i u t)" "keeps (shrunk s0) (RemoveReaction i u t)"
  "keeps (shrunk s0) (CreateAttachment ai f sa mt sz w h)" "keeps (shrunk s0) (LinkAttachmentsToMessage i as)"
  "keeps (shrunk s0) (DeleteOrphanedAttachments t)" "keeps (shrunk s0) (UpdateReadState u c i)"
  unfolding CreateMessage_def EditMessage_def DeleteMessage_def SetMessagePinned_def AddReaction_def RemoveReaction_def
    CreateAttachment_def LinkAttachmentsToMessage_def DeleteOrphanedAttachments_def UpdateReadState_def GetMessage_def
  by (intro keeps_intro shrunk_exec shrunk_execute;
      (rule shrunk_leave | erule dms_inserts | auto simp: types_def Let_def intro!: shrunkI split: if_splits))+

lemma dms_voice_calls:
  "keeps (shrunk s0) (JoinVoiceChannel u c)" "keeps (shrunk s0) (LeaveVoiceChannel u)" "keeps (shrunk s0) (ClearVoiceState u)"
  "keeps (shrunk s0) ClearAllVoiceStates" "keeps (shrunk s0) (UpdateVoiceMute u b)" "keeps (shrunk s0) (UpdateVoiceDeafen u b)"
  "keeps (shrunk s0) (UpdateVoiceCamera u b)" "keeps (shrunk s0) (UpdateVoiceScreenshare u b)"
  unfolding JoinVoiceChannel_def LeaveVoiceChannel_def ClearVoiceState_def ClearAllVoiceStates_def UpdateVoiceMute_def
    UpdateVoiceDeafen_def UpdateVoiceCamera_def UpdateVoiceScreenshare_def set_voice_def
  by (intro keeps_intro shrunk_exec shrunk_execute;
      (rule shrunk_leave | erule dms_inserts | auto simp: types_def Let_def intro!: shrunkI split: if_splits))+

lemma dms_dm_calls:
  "keeps (shrunk s0) (OpenDM u c)" "keeps (shrunk s0) (CloseDM u c)"
  "keeps (shrunk s0) (LogAudit a x ty i d)" "keeps (shrunk s0) (SetSetting k y)"
  unfolding OpenDM_def CloseDM_def LogAudit_def SetSetting_def
  by (intro keeps_intro shrunk_exec shrunk_execute;
      (rule shrunk_leave | erule dms_inserts | auto simp: types_def Let_def intro!: shrunkI split: if_splits))+

section \<open>Calls that make and delete channels\<close>

definition stays_private :: "'z database_scheme \<Rightarrow> 'z database_scheme \<Rightarrow> bool" where
  "stays_private s s' \<longleftrightarrow> dm_private s' \<and> narrows s s'"

lemma private_tick: "dm_private s \<Longrightarrow> dm_private (tick s)"
  by (rule private_shrunk [OF shrunk_tick])

lemma run_shrunk:
  assumes "keeps (shrunk s) m" and "dm_private s"
  shows "stays_private s (run_call m s)"
proof -
  have "shrunk s (run_call m s)" unfolding run_call_def by (rule keepsD [OF assms(1)]) (simp add: shrunkI)
  then show ?thesis by (simp add: stays_private_def narrows_shrunk private_shrunk [OF _ assms(2)])
qed

lemma private_grown:
  assumes "dm_private s" and "dm_participants s' = dm_participants s" and "types s' = types s @ ts" and "channels_seq s \<le> channels_seq s'"
  shows "stays_private s s'"
proof -
  have m: "members s' = members s" by (rule ext) (simp add: members_def assms(2))
  have "channel_type s' ch = Some t" if "channel_type s ch = Some t" for ch t
    using that by (simp add: channel_type_of assms(3) map_add_Some_iff map_add_def)
  with assms(1,4) show ?thesis by (simp add: stays_private_def dm_private_def narrows_def m)
qed

lemma private_CreateChannel:
  assumes "dm_private s"
  shows "stays_private s (run_call (CreateChannel n ty ca to po) s)"
proof (cases "faults s (calls s)")
  case True
  then show ?thesis
    using assms private_tick [OF assms] narrows_shrunk [OF shrunk_tick, of s] by (simp add: run_call_def CreateChannel_def exec_def stays_private_def)
next
  case False
  then show ?thesis
    by (intro private_grown [OF assms, where ts = "[(channels_seq s + 1, ty)]"])
      (simp_all add: run_call_def CreateChannel_def exec_def insert_channel_def new_channel_def types_def Let_def)
qed

lemma members_cascade: "members (delete_channel_cascade c s) ch = (if ch = c then [] else members s ch)"
proof (cases "ch = c")
  case False
  then have "(\<lambda>p :: int64 \<times> int64. fst p \<noteq> c \<and> fst p = ch) = (\<lambda>p. fst p = ch)" by auto
  with False show ?thesis by (simp add: members_def delete_channel_cascade_def Let_def)
qed (simp add: members_def delete_channel_cascade_def Let_def filter_empty_conv)

lemma type_cascade: "ch \<noteq> c \<Longrightarrow> channel_type (delete_channel_cascade c s) ch = channel_type s ch"
proof -
  assume "ch \<noteq> c"
  then have "List.find (\<lambda>x. c_ID x = ch) (filter (\<lambda>x. c_ID x \<noteq> c) cs) = List.find (\<lambda>x. c_ID x = ch) cs" for cs :: "Channel list"
    by (induction cs) auto
  then show ?thesis by (simp add: channel_type_def delete_channel_cascade_def Let_def)
qed

lemma private_cascade:
  assumes "dm_private s"
  shows "stays_private s (delete_channel_cascade c s)"
proof -
  have "channels_seq (delete_channel_cascade c s) = channels_seq s" by (simp add: delete_channel_cascade_def Let_def)
  then have "narrows s (delete_channel_cascade c s)" by (simp add: narrows_def members_cascade)
  moreover have "dm_private (delete_channel_cascade c s)"
    using assms unfolding dm_private_def members_cascade by (auto simp: type_cascade split: if_splits)
  ultimately show ?thesis by (simp add: stays_private_def)
qed

lemma private_DeleteChannel:
  assumes "dm_private s"
  shows "stays_private s (run_call (DeleteChannel c) s)"
proof -
  have "stays_private s (tick s)" by (simp add: stays_private_def narrows_shrunk shrunk_tick private_tick assms)
  moreover have "stays_private s (delete_channel_cascade c (tick s))"
    using private_cascade [OF private_tick [OF assms], of c] by (auto simp: stays_private_def intro: narrows_trans [OF narrows_shrunk [OF shrunk_tick]])
  ultimately show ?thesis by (simp add: run_call_def DeleteChannel_def execute_def exec_def)
qed

text \<open>What the transaction may do: nothing to the participants and types, or add one channel for two users who have none.\<close>

definition adds_dm :: "int64 \<Rightarrow> int64 \<Rightarrow> 'z database_scheme \<Rightarrow> 'z database_scheme \<Rightarrow> bool" where
  "adds_dm u v s s' \<longleftrightarrow> u \<noteq> v \<and> dm_lookup u v s = None \<and> channels_seq s' = channels_seq s + 1 \<and>
     dm_participants s' = dm_participants s @ [(channels_seq s + 1, u), (channels_seq s + 1, v)] \<and>
     types s' = types s @ [(channels_seq s + 1, ''dm'')]"

definition dms_same :: "'z database_scheme \<Rightarrow> 'z database_scheme \<Rightarrow> bool" where
  "dms_same s s' \<longleftrightarrow> dm_participants s' = dm_participants s \<and> types s' = types s \<and> channels_seq s' = channels_seq s"

definition dm_outcome :: "int64 \<Rightarrow> int64 \<Rightarrow> 'z database_scheme \<Rightarrow> 'z database_scheme \<Rightarrow> bool" where
  "dm_outcome u v s s' \<longleftrightarrow> dms_same s s' \<or> adds_dm u v s s'"

lemma outcome_tick: "dm_outcome u v s s' \<Longrightarrow> dm_outcome u v s (tick s')"
  by (simp add: dm_outcome_def dms_same_def adds_dm_def types_def)

lemma outcome_rollback: "dm_outcome u v s (rollback_to (tick s) s')"
  by (simp add: dm_outcome_def dms_same_def rollback_to_def types_def)

lemma outcome_open: "dm_outcome u v s s' \<Longrightarrow> insert_open ps now s' = Inr (x, s'') \<Longrightarrow> dm_outcome u v s s''"
  by (auto simp: insert_open_def dm_outcome_def dms_same_def adds_dm_def types_def split: if_splits)

lemma outcome_added:
  "dm_lookup u v s = None \<Longrightarrow> insert_participants (channels_seq s + 1) u v s2 = Inr (x, s3) \<Longrightarrow>
   channels_seq s2 = channels_seq s + 1 \<Longrightarrow> dm_participants s2 = dm_participants s \<Longrightarrow> types s2 = types s @ [(channels_seq s + 1, ''dm'')] \<Longrightarrow>
   dm_outcome u v s s3"
  by (auto simp: insert_participants_def dm_outcome_def adds_dm_def types_def Let_def split: if_splits)

lemma outcome_refl: "dm_outcome u v s s"
  by (simp add: dm_outcome_def dms_same_def)

lemma transaction_outcome:
  "wp m (\<lambda>r s'. \<not> isl r \<longrightarrow> dm_outcome u v s s') (tick s) \<Longrightarrow> wp (transaction m) (\<lambda>_. dm_outcome u v s) s"
  by (auto simp: wp_transaction outcome_rollback outcome_refl outcome_tick elim!: wp_mono split: sum.split)

lemma lookup_tick [simp]: "dm_lookup u v (tick s) = dm_lookup u v s"
  by (simp add: dm_lookup_def channel_type_def)

lemma dm_transaction_outcome: "wp (dm_transaction u v) (\<lambda>_. dm_outcome u v s) s"
  unfolding dm_transaction_def
  by (rule transaction_outcome, cases "dm_lookup u v s")
    (auto simp: wp_simps insert_channel_def Let_def types_def new_channel_def outcome_tick outcome_refl split: sum.split
      intro: outcome_open [OF outcome_tick [OF outcome_added]] outcome_open [OF outcome_tick [OF outcome_tick [OF outcome_tick [OF outcome_refl]]]])

lemma GetOrCreateDM_outcome: "dm_outcome u v s (run_call (GetOrCreateDMChannel u v) s)"
proof -
  have "wp (GetOrCreateDMChannel u v) (\<lambda>_. dm_outcome u v s) s"
    unfolding GetOrCreateDMChannel_def wp_simps
    by (rule wp_mono [OF dm_transaction_outcome])
      (auto simp: GetChannel_def wp_simps intro: outcome_tick split: sum.splits prod.splits)
  then show ?thesis by (simp add: wp_run run_call_def)
qed

lemma type_below: "schema_ok s \<Longrightarrow> channel_type s ch = Some t \<Longrightarrow> ch \<le> channels_seq s"
  by (auto simp: channel_type_def schema_ok_def keys_ok_def pk_ok_def find_Some_iff)

lemma lookup_none:
  assumes "dm_lookup u v s = None" and "channel_type s ch = Some ''dm''"
  shows "\<not> {u, v} \<subseteq> set (members s ch)"
proof
  assume "{u, v} \<subseteq> set (members s ch)"
  then have "(ch, u) \<in> set (dm_participants s)" "(ch, v) \<in> set (dm_participants s)" by (auto simp: members_def)
  with assms show False by (auto simp: dm_lookup_def find_None_iff)
qed

lemma private_added:
  assumes "schema_ok s" and "dm_private s" and "adds_dm u v s s'"
  shows "stays_private s s'"
proof -
  let ?n = "channels_seq s + 1"
  have none: "channel_type s ?n = None" using type_below [OF assms(1), of ?n] by (cases "channel_type s ?n") auto
  have fresh: "members s ?n = []" using assms(2) none unfolding dm_private_def by (metis option.distinct(1))
  have m: "members s' ch = (if ch = ?n then [u, v] else members s ch)" for ch
    using fresh assms(3) by (auto simp: members_def adds_dm_def filter_empty_conv)
  have t: "channel_type s' ch = (if ch = ?n then Some ''dm'' else channel_type s ch)" for ch
    using none assms(3) by (auto simp: channel_type_of adds_dm_def map_add_def split: option.split)
  have new: "u \<noteq> v" "dm_lookup u v s = None" "channels_seq s' = ?n" using assms(3) by (simp_all add: adds_dm_def)
  have alone: "\<not> {u, v} \<subseteq> set (members s ch)" for ch
  proof
    assume *: "{u, v} \<subseteq> set (members s ch)"
    then have "channel_type s ch = Some ''dm''" using assms(2) unfolding dm_private_def by (metis empty_iff insert_subset list.set(1))
    with lookup_none [OF new(2)] * show False by blast
  qed
  have "dm_private s'"
    unfolding dm_private_def
  proof (intro conjI allI impI)
    fix ch ch' a b assume ab: "a \<noteq> b" "{a, b} \<subseteq> set (members s' ch)" "{a, b} \<subseteq> set (members s' ch')"
    have other: "{a, b} \<subseteq> set (members s x) \<and> {a, b} \<noteq> {u, v}" if "x \<noteq> ?n" "{a, b} \<subseteq> set (members s' x)" for x
      using that alone [of x] by (auto simp: m)
    have this_one: "{a, b} = {u, v}" if "{a, b} \<subseteq> set (members s' ?n)" using that ab(1) by (auto simp: m)
    show "ch = ch'"
      by (cases "ch = ?n"; cases "ch' = ?n") (use ab other this_one assms(2) in \<open>metis dm_private_def\<close>)+
  qed (use assms(2) new(1) in \<open>auto simp: m t dm_private_def split: if_splits\<close>)
  moreover have "narrows s s'" using new(3) by (simp add: narrows_def m)
  ultimately show ?thesis by (simp add: stays_private_def)
qed

section \<open>Every run\<close>

lemma private_GetOrCreateDM:
  assumes "schema_ok s" and "dm_private s"
  shows "stays_private s (run_call (GetOrCreateDMChannel u v) s)"
proof (cases "adds_dm u v s (run_call (GetOrCreateDMChannel u v) s)")
  case False
  then have "shrunk s (run_call (GetOrCreateDMChannel u v) s)"
    using GetOrCreateDM_outcome [of u v s] by (auto simp: dm_outcome_def dms_same_def intro: shrunkI)
  then show ?thesis using assms(2) by (simp add: stays_private_def narrows_shrunk private_shrunk)
qed (rule private_added [OF assms])

lemma db_step_private:
  assumes "schema_ok s" and "dm_private s"
  shows "stays_private s (db_step st c s)"
proof (cases c)
  case (UserCall x)
  then show ?thesis using assms(2) by (cases x) (simp_all add: run_shrunk dms_user_calls)
next
  case (AuthCall x)
  then show ?thesis using assms(2) by (cases x) (simp_all add: run_shrunk dms_auth_calls)
next
  case (ChannelCall x)
  then show ?thesis using assms(2) by (cases x) (simp_all add: run_shrunk dms_channel_calls private_CreateChannel private_DeleteChannel)
next
  case (MessageCall x)
  then show ?thesis using assms(2) by (cases x) (simp_all add: run_shrunk dms_message_calls)
next
  case (VoiceCall x)
  then show ?thesis using assms(2) by (cases x) (simp_all add: run_shrunk dms_voice_calls)
next
  case (DMCall x)
  then show ?thesis using assms by (cases x) (simp_all add: run_shrunk dms_dm_calls private_GetOrCreateDM)
qed

lemma private_fresh: "dm_private (initial_db\<lparr>faults := fs, clock := cl\<rparr>)"
  by (simp add: dm_private_def members_def initial_db_def)

lemma private_db_step: "schema_ok s \<and> dm_private s \<Longrightarrow> schema_ok (db_step st c s) \<and> dm_private (db_step st c s)"
  using schema_db_step [of s st c] db_step_private [of s st c] by (simp add: stays_private_def)

interpretation dm_sys: inv_system fresh_db "db_step st" "\<lambda>s. schema_ok s \<and> dm_private s" for st
proof (unfold_locales, goal_cases)
  case (1 s)
  then show ?case unfolding fresh_db_def using schema_fresh private_fresh by blast
next
  case (2 s e)
  then show ?case by (rule private_db_step)
qed

lemma run_narrows: "schema_ok s \<Longrightarrow> dm_private s \<Longrightarrow> narrows s (fold (db_step st) ops s)"
proof (induction ops arbitrary: s)
  case (Cons c ops)
  have step: "dm_private (db_step st c s)" "narrows s (db_step st c s)"
    using db_step_private [OF Cons.prems] by (simp_all add: stays_private_def)
  from Cons.IH [OF schema_db_step [OF Cons.prems(1)] step(1)] step(2) show ?case by (simp add: narrows_trans)
qed (simp add: narrows_def)

text \<open>
  C6: direct messages stay between two people. Starting from the migrated database, after any
  sequence of calls of the package \<^verbatim>\<open>db\<close>, with statements failing at any points and any clock: a
  channel that has participants is a channel of the type \<^verbatim>\<open>dm\<close> with at most two, each once; two
  different users share at most one channel, whichever of them asked for it and however often; and
  after any further calls nobody participates in the channel who does not now. The schema
  demands none of this.
\<close>
theorem dm_between_two:
  assumes "s = fold (db_step st) ops (initial_db\<lparr>faults := fs, clock := cl\<rparr>)" and "(ch, u) \<in> set (dm_participants s)"
  shows "channel_type s ch = Some ''dm'' \<and> distinct (members s ch) \<and> length (members s ch) \<le> 2
    \<and> (\<forall>ch' v. u \<noteq> v \<and> {u, v} \<subseteq> set (members s ch) \<and> {u, v} \<subseteq> set (members s ch') \<longrightarrow> ch' = ch)
    \<and> set (members (fold (db_step st) later s) ch) \<subseteq> set (members s ch)"
proof -
  have inv: "schema_ok s \<and> dm_private s" unfolding assms(1) by (rule dm_sys.inv_run) (auto simp: fresh_db_def)
  have "members s ch \<noteq> []" using assms(2) by (force simp: members_def filter_empty_conv)
  with inv have dm: "channel_type s ch = Some ''dm''" "distinct (members s ch)" "length (members s ch) \<le> 2" by (simp_all add: dm_private_def)
  moreover have "\<forall>ch' v. u \<noteq> v \<and> {u, v} \<subseteq> set (members s ch) \<and> {u, v} \<subseteq> set (members s ch') \<longrightarrow> ch' = ch"
    using inv unfolding dm_private_def by blast
  moreover have "set (members (fold (db_step st) later s) ch) \<subseteq> set (members s ch)"
    using run_narrows [of s st later] inv type_below [OF conjunct1 [OF inv] dm(1)] by (simp add: narrows_def)
  ultimately show ?thesis by blast
qed

text \<open>Two users open a conversation; then the other asks for it, a third account is made and asks for one of its own.\<close>

definition dm_ops :: "db_call list" where
  "dm_ops = [UserCall (DCreateUser ''a'' ''h'' 1), UserCall (DCreateUser ''b'' ''h'' 4), DMCall (DGetOrCreateDM 1 2)]"

definition dm_later :: "db_call list" where
  "dm_later = [DMCall (DGetOrCreateDM 2 1), UserCall (DCreateUser ''c'' ''h'' 4), DMCall (DGetOrCreateDM 3 1)]"

lemma dm_run:
  "dm_participants (fold (db_step (\<lambda>_. None)) dm_ops (initial_db\<lparr>faults := (\<lambda>_. False), clock := (\<lambda>_. 0)\<rparr>)) = [(1, 1), (1, 2)]"
  by code_simp

theorem dm_between_two_witness:
  "let s = fold (db_step (\<lambda>_. None)) dm_ops (initial_db\<lparr>faults := (\<lambda>_. False), clock := (\<lambda>_. 0)\<rparr>)
   in members s 1 = [1, 2] \<and> channel_type s 1 = Some ''dm''
     \<and> set (members (fold (db_step (\<lambda>_. None)) dm_later s) 1) \<subseteq> {1, 2}"
proof -
  let ?s = "fold (db_step (\<lambda>_. None)) dm_ops (initial_db\<lparr>faults := (\<lambda>_. False), clock := (\<lambda>_. 0)\<rparr>)"
  have in1: "(1, 1) \<in> set (dm_participants ?s)" and m: "members ?s 1 = [1, 2]" by (simp_all add: dm_run members_def)
  from dm_between_two [OF refl in1, of dm_later] show ?thesis by (simp add: Let_def m)
qed

end
