(* ===== verification/Seed.thy ===== *)
theory Seed
  imports Schema AuthHelpers
begin

text \<open>
  The tool that fills a database with development data, \<^verbatim>\<open>scripts/seed.go\<close>: users, channels,
  messages and a direct-message conversation, each looked up before it is created. The file says
  that it is idempotent; that is proved here over a locale for such look-up-or-create steps. What
  it prints is left out, the random salt of bcrypt is in the parameter \<open>generate\<close>.
\<close>

section \<open>The data\<close>

record seedUser =
  su_Username :: string
  su_Password :: string
  su_RoleID :: int64

record seedChannel =
  sc_Name :: string
  sc_Type :: string
  sc_Category :: string
  sc_Topic :: string
  sc_Position :: int

record seedMessage =
  sm_ChannelIdx :: nat
  sm_UserIdx :: nat
  sm_Content :: string

definition seedUsers :: "seedUser list" where
  "seedUsers = [
     \<lparr>su_Username = ''admin'', su_Password = ''admin123'', su_RoleID = 1\<rparr>,
     \<lparr>su_Username = ''alice'', su_Password = ''password123'', su_RoleID = 4\<rparr>,
     \<lparr>su_Username = ''bob'', su_Password = ''password123'', su_RoleID = 4\<rparr>,
     \<lparr>su_Username = ''charlie'', su_Password = ''password123'', su_RoleID = 4\<rparr>]"

definition seedChannels :: "seedChannel list" where
  "seedChannels = [
     \<lparr>sc_Name = ''general'', sc_Type = ''text'', sc_Category = ''Text Channels'', sc_Topic = ''General chat'', sc_Position = 0\<rparr>,
     \<lparr>sc_Name = ''random'', sc_Type = ''text'', sc_Category = ''Text Channels'', sc_Topic = ''Off-topic discussion'', sc_Position = 1\<rparr>,
     \<lparr>sc_Name = ''gaming'', sc_Type = ''text'', sc_Category = ''Text Channels'', sc_Topic = ''Gaming talk'', sc_Position = 2\<rparr>,
     \<lparr>sc_Name = ''Voice Lounge'', sc_Type = ''voice'', sc_Category = ''Voice Channels'', sc_Topic = [], sc_Position = 3\<rparr>,
     \<lparr>sc_Name = ''Gaming Voice'', sc_Type = ''voice'', sc_Category = ''Voice Channels'', sc_Topic = [], sc_Position = 4\<rparr>]"

definition chGeneral :: nat where
  "chGeneral = 0"

definition chRandom :: nat where
  "chRandom = 1"

definition chGaming :: nat where
  "chGaming = 2"

definition uAdmin :: nat where
  "uAdmin = 0"

definition uAlice :: nat where
  "uAlice = 1"

definition uBob :: nat where
  "uBob = 2"

definition uCharlie :: nat where
  "uCharlie = 3"

definition seed_msg :: "nat \<Rightarrow> nat \<Rightarrow> string \<Rightarrow> seedMessage" where
  "seed_msg c u content = \<lparr>sm_ChannelIdx = c, sm_UserIdx = u, sm_Content = content\<rparr>"

definition seedMessages :: "seedMessage list" where
  "seedMessages = [
     seed_msg chGeneral uAdmin ''Welcome to OwnCord! This is the general channel.'',
     seed_msg chGeneral uAlice ''Hey everyone! Glad to be here.'',
     seed_msg chGeneral uBob ''Hello! This looks great.'',
     seed_msg chGeneral uCharlie ''Hi all, what's everyone up to?'',
     seed_msg chGeneral uAdmin ''Feel free to chat about anything here.'',
     seed_msg chGeneral uAlice ''Anyone tried the voice chat yet?'',
     seed_msg chGeneral uBob ''Not yet, but I'm about to!'',
     seed_msg chGeneral uCharlie ''The UI looks really clean.'',
     seed_msg chGeneral uAdmin ''Thanks! We've been working hard on it.'',
     seed_msg chGeneral uAlice ''Can we customize themes?'',
     seed_msg chGeneral uAdmin ''Yes! Check the settings panel.'',
     seed_msg chRandom uBob ''Random thought: pineapple on pizza is underrated.'',
     seed_msg chRandom uCharlie ''Hard disagree, but I respect your opinion.'',
     seed_msg chRandom uAlice ''Let's not start a war here lol'',
     seed_msg chRandom uBob ''Too late, the war has begun!'',
     seed_msg chRandom uAdmin ''Keep it friendly, folks!'',
     seed_msg chRandom uCharlie ''Anyone watching any good shows lately?'',
     seed_msg chRandom uAlice ''I just finished a great series, highly recommend it.'',
     seed_msg chRandom uBob ''What series?'',
     seed_msg chRandom uAlice ''I'll share the link later!'',
     seed_msg chGaming uCharlie ''Anyone up for some co-op tonight?'',
     seed_msg chGaming uBob ''I'm down! What game?'',
     seed_msg chGaming uCharlie ''Thinking something chill, maybe Minecraft?'',
     seed_msg chGaming uAlice ''Count me in!'',
     seed_msg chGaming uAdmin ''I might join later if I finish some work.'',
     seed_msg chGaming uBob ''No pressure, we'll be on for a while.'']"

text \<open>The index of the sender in \<open>seedUsers\<close> and the content.\<close>

definition seedDMMessages :: "(nat \<times> string) list" where
  "seedDMMessages = [
     (uAdmin, ''Hey Alice, welcome to the server!''),
     (uAlice, ''Thanks! Everything looks awesome.''),
     (uAdmin, ''Let me know if you run into any issues.''),
     (uAlice, ''Will do! One question: how do I change my avatar?''),
     (uAdmin, ''Go to Settings > Account, you can upload one there.'')]"

section \<open>The steps\<close>

datatype seed_error = SeedDb db_error | SeedHash | NilChannel | NotConfirmed | SeedOpen | SeedMigrate

definition db_ok :: "('s, db_error + 'a) state \<Rightarrow> ('s, seed_error + 'a) state" where
  "db_ok m = do { r \<leftarrow> m; return (map_sum SeedDb (\<lambda>x. x) r) }"

text \<open>A loop over a slice that returns at the first error and collects the results.\<close>

fun collect :: "('a \<Rightarrow> ('s, 'e + 'b) state) \<Rightarrow> 'a list \<Rightarrow> ('s, 'e + 'b list) state" where
  "collect f [] = return (Inr [])"
| "collect f (x # xs) = bind_ok (f x) (\<lambda>y. bind_ok (collect f xs) (\<lambda>ys. return (Inr (y # ys))))"

definition ensure_user :: "(string \<Rightarrow> nat \<Rightarrow> string option) \<Rightarrow> seedUser \<Rightarrow> (database, seed_error + int64) state" where
  "ensure_user generate su =
     bind_ok (db_ok (GetUserByUsername (su_Username su))) (\<lambda>existing. case existing of
         Some u \<Rightarrow> return (Inr (u_ID u))
       | None \<Rightarrow>
           (case HashPassword generate (su_Password su) of
              None \<Rightarrow> return (Inl SeedHash)
            | Some hash \<Rightarrow> db_ok (CreateUser (su_Username su) hash (su_RoleID su))))"

definition createUsers :: "(string \<Rightarrow> nat \<Rightarrow> string option) \<Rightarrow> (database, seed_error + int64 list) state" where
  "createUsers generate = collect (ensure_user generate) seedUsers"

text \<open>\<^verbatim>\<open>existingByName\<close>: a later channel of the listing replaces an earlier one of its name.\<close>

definition by_name :: "Channel list \<Rightarrow> string \<rightharpoonup> int64" where
  "by_name cs = map_of (rev (map (\<lambda>c. (c_Name c, c_ID c)) cs))"

definition ensure_channel :: "(string \<rightharpoonup> int64) \<Rightarrow> seedChannel \<Rightarrow> (database, seed_error + int64) state" where
  "ensure_channel existingByName sc =
     (case existingByName (sc_Name sc) of
        Some i \<Rightarrow> return (Inr i)
      | None \<Rightarrow> db_ok (CreateChannel (sc_Name sc) (sc_Type sc) (sc_Category sc) (sc_Topic sc) (sc_Position sc)))"

definition createChannels :: "(database, seed_error + int64 list) state" where
  "createChannels =
     bind_ok (db_ok ListChannels) (\<lambda>existing. collect (ensure_channel (by_name existing)) seedChannels)"

definition message_count :: "int64 \<Rightarrow> int64 \<Rightarrow> string \<Rightarrow> database \<Rightarrow> nat" where
  "message_count channelID userID content s =
     length (filter (\<lambda>m. m_ChannelID m = channelID \<and> m_UserID m = userID \<and> m_Content m = content \<and> \<not> m_Deleted m) (messages s))"

definition messageExists :: "int64 \<Rightarrow> int64 \<Rightarrow> string \<Rightarrow> (database, seed_error + bool) state" where
  "messageExists channelID userID content =
     db_ok (query (\<lambda>s. message_count channelID userID content s > 0))"

text \<open>One turn of both message loops: whether it created the message.\<close>

definition ensure_message :: "int64 \<times> int64 \<times> string \<Rightarrow> (database, seed_error + bool) state" where
  "ensure_message k = (case k of (channelID, userID, content) \<Rightarrow>
     bind_ok (messageExists channelID userID content) (\<lambda>present.
       if present then return (Inr False)
       else bind_ok (db_ok (CreateMessage channelID userID content None)) (\<lambda>_. return (Inr True))))"

definition created :: "bool list \<Rightarrow> nat" where
  "created bs = length (filter (\<lambda>b. b) bs)"

definition createMessages :: "int64 list \<Rightarrow> int64 list \<Rightarrow> (database, seed_error + nat) state" where
  "createMessages channelIDs userIDs =
     bind_ok (collect (\<lambda>sm. ensure_message (channelIDs ! sm_ChannelIdx sm, userIDs ! sm_UserIdx sm, sm_Content sm)) seedMessages)
       (\<lambda>bs. return (Inr (created bs)))"

definition createDMConversation :: "int64 list \<Rightarrow> (database, seed_error + nat) state" where
  "createDMConversation userIDs =
     bind_ok (db_ok (GetOrCreateDMChannel (userIDs ! uAdmin) (userIDs ! uAlice))) (\<lambda>(ch, isNew). case ch of
         None \<Rightarrow> return (Inl NilChannel)
       | Some c \<Rightarrow>
           bind_ok (collect (\<lambda>(from, content). ensure_message (c_ID c, userIDs ! from, content)) seedDMMessages)
             (\<lambda>bs. return (Inr (created bs))))"

text \<open>\<^verbatim>\<open>main\<close>, on a database opened and migrated; the summary is its result.\<close>

definition seed :: "(string \<Rightarrow> nat \<Rightarrow> string option) \<Rightarrow> (database, seed_error + int64 list \<times> int64 list \<times> nat \<times> nat) state" where
  "seed generate =
     bind_ok (createUsers generate) (\<lambda>userIDs.
     bind_ok createChannels (\<lambda>channelIDs.
     bind_ok (createMessages channelIDs userIDs) (\<lambda>msgCount.
     bind_ok (createDMConversation userIDs) (\<lambda>dmMsgCount.
     return (Inr (userIDs, channelIDs, msgCount, dmMsgCount))))))"

definition seed_main ::
  "bool \<Rightarrow> bool \<Rightarrow> bool \<Rightarrow> (string \<Rightarrow> nat \<Rightarrow> string option) \<Rightarrow>
   (database, seed_error + int64 list \<times> int64 list \<times> nat \<times> nat) state" where
  "seed_main confirmDev opened migrated generate =
     (if \<not> confirmDev then return (Inl NotConfirmed)
      else if \<not> opened then return (Inl SeedOpen)
      else if \<not> migrated then return (Inl SeedMigrate)
      else seed generate)"

section \<open>Look up or create\<close>

text \<open>
  The contract of one step: a key that is found is left alone whatever fails (\<open>present\<close>), and in a
  state without failures a key that is not found is made and then found (\<open>makes\<close>), while what was
  found before stays found. \<open>fresh\<close> says that what the step knows of the table is still true of a
  key, \<open>apart\<close> that making one key does not change it for another.
\<close>

locale seeding =
  fixes look :: "'k \<Rightarrow> 's \<Rightarrow> 'v option"
    and ensure :: "'k \<Rightarrow> ('s, 'e + 'r) state"
    and kept :: "'v \<Rightarrow> 'r"
    and gives :: "'r \<Rightarrow> 'v \<Rightarrow> bool"
    and same :: "'s \<Rightarrow> 's \<Rightarrow> bool"
    and grows :: "'s \<Rightarrow> 's \<Rightarrow> bool"
    and good :: "'s \<Rightarrow> bool"
    and fresh :: "'k \<Rightarrow> 's \<Rightarrow> bool"
    and ready :: "'k \<Rightarrow> 's \<Rightarrow> bool"
    and apart :: "'k \<Rightarrow> 'k \<Rightarrow> bool"
  assumes same_refl: "same s s"
    and same_trans: "same s s' \<Longrightarrow> same s' s'' \<Longrightarrow> same s s''"
    and look_same: "same s s' \<Longrightarrow> look k s' = look k s"
    and fresh_same: "same s s' \<Longrightarrow> fresh k s \<Longrightarrow> fresh k s'"
    and grows_refl: "grows s s"
    and grows_trans: "grows s s' \<Longrightarrow> grows s' s'' \<Longrightarrow> grows s s''"
    and look_grows: "grows s s' \<Longrightarrow> look k s = Some v \<Longrightarrow> look k s' = Some v"
    and ready_grows: "grows s s' \<Longrightarrow> ready k s \<Longrightarrow> ready k s'"
    and good_grows: "grows s s' \<Longrightarrow> good s \<Longrightarrow> good s'"
    and present: "fresh k s \<Longrightarrow> look k s = Some v \<Longrightarrow>
      wp (ensure k) (\<lambda>r s'. same s s' \<and> (\<forall>x. r = Inr x \<longrightarrow> x = kept v)) s"
    and makes: "good s \<Longrightarrow> fresh k s \<Longrightarrow> ready k s \<Longrightarrow>
      wp (ensure k) (\<lambda>r s'. grows s s' \<and> (\<exists>x v. r = Inr x \<and> look k s' = Some v \<and> gives x v) \<and>
        (\<forall>j. apart k j \<longrightarrow> fresh j s \<longrightarrow> fresh j s')) s"
begin

text \<open>When every key is found, the loop changes nothing, whatever fails.\<close>

lemma collect_present:
  "\<forall>k \<in> set ks. fresh k s \<Longrightarrow> map (\<lambda>k. look k s) ks = map Some vs \<Longrightarrow>
   wp (collect ensure ks) (\<lambda>r s'. same s s' \<and> (\<forall>xs. r = Inr xs \<longrightarrow> xs = map kept vs)) s"
proof (induction ks arbitrary: s vs)
  case Nil
  then show ?case by (simp add: wp_simps same_refl)
next
  case (Cons k ks)
  then obtain v ws where vs: "vs = v # ws" and v: "look k s = Some v" and ws: "map (\<lambda>k. look k s) ks = map Some ws"
    by (cases vs) auto
  have tail: "wp (collect ensure ks) (\<lambda>r s''. same s s'' \<and> (\<forall>xs. r = Inr xs \<longrightarrow> xs = map kept ws)) s'"
    if "same s s'" for s'
    by (rule wp_mono [OF Cons.IH [of s' ws]])
      (use Cons.prems(1) that ws in \<open>auto simp: look_same intro: fresh_same same_trans\<close>)
  show ?case
    unfolding collect.simps wp_bind_ok
    by (rule wp_mono [OF present [OF _ v]])
      (use Cons.prems(1) in \<open>auto split: sum.splits simp: vs wp_simps intro!: wp_mono [OF tail]\<close>)
qed

text \<open>Without failures the loop finds or makes every key, and nothing that was found is lost.\<close>

lemma collect_makes:
  "good s \<Longrightarrow> \<forall>k \<in> set ks. fresh k s \<and> ready k s \<Longrightarrow> sorted_wrt apart ks \<Longrightarrow>
   wp (collect ensure ks) (\<lambda>r s'. grows s s' \<and>
     (\<exists>xs vs. r = Inr xs \<and> map (\<lambda>k. look k s') ks = map Some vs \<and> list_all2 gives xs vs)) s"
proof (induction ks arbitrary: s)
  case Nil
  then show ?case by (simp add: wp_simps grows_refl)
next
  case (Cons k ks)
  have tail: "wp (collect ensure ks) (\<lambda>r s''. grows s s'' \<and> look k s'' = Some v \<and>
      (\<exists>xs vs. r = Inr xs \<and> map (\<lambda>k. look k s'') ks = map Some vs \<and> list_all2 gives xs vs)) s'"
    if "grows s s'" "look k s' = Some v" "\<forall>j. apart k j \<longrightarrow> fresh j s \<longrightarrow> fresh j s'" for s' v
    by (rule wp_mono [OF Cons.IH [of s']])
      (use Cons.prems that in \<open>auto intro: good_grows ready_grows grows_trans look_grows\<close>)
  show ?case
    unfolding collect.simps wp_bind_ok
    by (rule wp_mono [OF makes])
      (use Cons.prems in \<open>auto split: sum.splits simp: wp_simps map_eq_Cons_conv intro!: wp_mono [OF tail] exI [of _ "_ # _"]\<close>)
qed

end

section \<open>Users\<close>

definition same_tables :: "database \<Rightarrow> database \<Rightarrow> bool" where
  "same_tables s s' \<longleftrightarrow> (\<exists>c r. s' = s\<lparr>calls := c, reads := r\<rparr>)"

definition undisturbed :: "database \<Rightarrow> bool" where
  "undisturbed s \<longleftrightarrow> (\<forall>n. \<not> faults s n)"

lemma same_tablesI: "s' = s\<lparr>calls := c, reads := r\<rparr> \<Longrightarrow> same_tables s s'"
  unfolding same_tables_def by blast

lemma same_tables_upd [simp]: "same_tables s (s\<lparr>calls := c, reads := r\<rparr>)"
  by (rule same_tablesI) (rule refl)

lemma same_tablesE: "same_tables s s' \<Longrightarrow> (\<And>c r. s' = s\<lparr>calls := c, reads := r\<rparr> \<Longrightarrow> Q) \<Longrightarrow> Q"
  unfolding same_tables_def by blast

lemma same_tables_refl: "same_tables s s"
  by (rule same_tablesI [where c = "calls s" and r = "reads s"]) simp

lemma same_tables_trans: "same_tables s s' \<Longrightarrow> same_tables s' s'' \<Longrightarrow> same_tables s s''"
  by (elim same_tablesE) (rule same_tablesI, simp)

lemma same_tables_tick: "same_tables s s' \<Longrightarrow> same_tables s (tick s')"
  by (elim same_tablesE) (rule same_tablesI, simp add: tick_def)

lemma wp_db_ok [wp_simps]: "wp (db_ok m) Q = wp m (\<lambda>r. Q (map_sum SeedDb (\<lambda>x. x) r))"
  by (simp add: db_ok_def wp_simps)

definition user_look :: "seedUser \<Rightarrow> database \<Rightarrow> int64 option" where
  "user_look su s = map_option u_ID (List.find (\<lambda>u. nocase (u_Username u) = nocase (su_Username su)) (users s))"

definition more_users :: "database \<Rightarrow> database \<Rightarrow> bool" where
  "more_users s s' \<longleftrightarrow> (\<exists>us n c r. s' = s\<lparr>users := users s @ us, users_seq := n, calls := c, reads := r\<rparr>)"

definition user_ready :: "(string \<Rightarrow> nat \<Rightarrow> string option) \<Rightarrow> seedUser \<Rightarrow> database \<Rightarrow> bool" where
  "user_ready generate su s \<longleftrightarrow> has_role s (su_RoleID su) \<and> generate (su_Password su) bcryptCost \<noteq> None"

lemma more_usersI:
  "s' = s\<lparr>users := users s @ us, users_seq := n, calls := c, reads := r\<rparr> \<Longrightarrow> more_users s s'"
  unfolding more_users_def by blast

lemma more_users_upd [simp]: "more_users s (s\<lparr>users := users s @ us, users_seq := n, calls := c, reads := r\<rparr>)"
  by (rule more_usersI) (rule refl)

lemma more_usersE:
  "more_users s s' \<Longrightarrow>
   (\<And>us n c r. s' = s\<lparr>users := users s @ us, users_seq := n, calls := c, reads := r\<rparr> \<Longrightarrow> Q) \<Longrightarrow> Q"
  unfolding more_users_def by blast

lemma more_users_same: "same_tables s s' \<Longrightarrow> more_users s s'"
  by (elim same_tablesE) (rule more_usersI [where us = "[]" and n = "users_seq s"], simp)

lemma more_users_trans: "more_users s s' \<Longrightarrow> more_users s' s'' \<Longrightarrow> more_users s s''"
  by (elim more_usersE) (rule more_usersI, simp)

lemma user_present:
  "user_look su s = Some v \<Longrightarrow>
   wp (ensure_user generate su) (\<lambda>r s'. same_tables s s' \<and> (\<forall>x. r = Inr x \<longrightarrow> x = v)) s"
  by (auto simp: ensure_user_def user_look_def GetUserByUsername_def wp_simps same_tables_refl same_tables_tick)

lemma user_makes:
  assumes nf: "undisturbed s" and rd: "user_ready generate su s"
  shows "wp (ensure_user generate su) (\<lambda>r s'. more_users s s' \<and> (\<exists>x v. r = Inr x \<and> user_look su s' = Some v \<and> x = v)) s"
proof (cases "user_look su s")
  case None
  then have new: "nocase (su_Username su) \<notin> (\<lambda>u. nocase (u_Username u)) ` set (users s)"
    by (auto simp: user_look_def find_None)
  obtain h where h: "generate (su_Password su) bcryptCost = Some h"
    using rd by (auto simp: user_ready_def)
  have grow: "more_users s (tick (tick s)\<lparr>users := users s @ [u], users_seq := n\<rparr>)" for u n
    by (rule more_usersI [where us = "[u]" and n = n and c = "Suc (Suc (calls s))" and r = "Suc (Suc (reads s))"]) (simp add: tick_def)
  show ?thesis
    using nf rd None new h grow
    by (simp add: ensure_user_def user_look_def GetUserByUsername_def CreateUser_def insert_user_def wp_simps
        undisturbed_def user_ready_def HashPassword_def has_role_def find_append new_user_def Let_def)
next
  case (Some v)
  then show ?thesis
    using nf more_users_same [OF same_tables_tick [OF same_tables_refl]]
    by (auto simp: ensure_user_def user_look_def GetUserByUsername_def wp_simps undisturbed_def)
qed

interpretation seed_users: seeding user_look "ensure_user generate" "\<lambda>v. v" "(=)" same_tables more_users undisturbed
  "\<lambda>_ _. True" "user_ready generate" "\<lambda>_ _. True" for generate
proof (unfold_locales, goal_cases)
  case (10 k s v)
  then show ?case by (auto intro: user_present)
next
  case (11 s k)
  then show ?case using user_makes by simp
qed (auto simp: same_tables_refl more_users_same user_look_def find_append user_ready_def has_role_def undisturbed_def
    intro: more_users_trans same_tables_trans elim!: same_tablesE more_usersE)

section \<open>Channels\<close>

definition channel_look :: "seedChannel \<Rightarrow> database \<Rightarrow> int64 option" where
  "channel_look sc s = by_name (sort_key c_Position (sort_key c_ID (channels s))) (sc_Name sc)"

definition more_channels :: "database \<Rightarrow> database \<Rightarrow> bool" where
  "more_channels s s' \<longleftrightarrow> (\<exists>cs n c r. s' = s\<lparr>channels := channels s @ cs, channels_seq := n, calls := c, reads := r\<rparr> \<and>
     c_Name ` set cs \<inter> c_Name ` set (channels s) = {})"

definition channel_fresh :: "(string \<rightharpoonup> int64) \<Rightarrow> seedChannel \<Rightarrow> database \<Rightarrow> bool" where
  "channel_fresh existingByName sc s \<longleftrightarrow> existingByName (sc_Name sc) = channel_look sc s"

text \<open>What a name stands for depends only on the channels of that name.\<close>

lemma by_name_last:
  "by_name cs n = (case filter (\<lambda>c. c_Name c = n) cs of [] \<Rightarrow> None | d # ds \<Rightarrow> Some (c_ID (List.last (d # ds))))"
  by (induction cs rule: rev_induct) (auto simp: by_name_def split: list.splits)

lemma channel_look_filter:
  "filter (\<lambda>c. c_Name c = sc_Name sc) (channels s') = filter (\<lambda>c. c_Name c = sc_Name sc) (channels s) \<Longrightarrow>
   channel_look sc s' = channel_look sc s"
  by (simp add: channel_look_def by_name_last filter_sort)

lemma channel_look_None: "channel_look sc s = None \<longleftrightarrow> sc_Name sc \<notin> c_Name ` set (channels s)"
  by (simp add: channel_look_def by_name_def map_of_eq_None_iff image_image)

lemma filter_names: "n \<notin> c_Name ` set cs \<Longrightarrow> filter (\<lambda>c. c_Name c = n) cs = []"
  by (auto simp: filter_empty_conv)

lemma channel_look_append:
  assumes "sc_Name sc \<notin> c_Name ` set cs" and "channels s' = channels s @ cs"
  shows "channel_look sc s' = channel_look sc s"
  by (rule channel_look_filter) (simp add: assms filter_names)

lemma channel_look_new:
  "sc_Name sc \<notin> c_Name ` set (channels s) \<Longrightarrow> channels s' = channels s @ [c] \<Longrightarrow> c_Name c = sc_Name sc \<Longrightarrow>
   channel_look sc s' = Some (c_ID c)"
  by (simp add: channel_look_def by_name_last filter_sort filter_names)

lemma more_channelsI:
  "s' = s\<lparr>channels := channels s @ cs, channels_seq := n, calls := c, reads := r\<rparr> \<Longrightarrow>
   c_Name ` set cs \<inter> c_Name ` set (channels s) = {} \<Longrightarrow> more_channels s s'"
  unfolding more_channels_def by blast

lemma more_channelsE:
  "more_channels s s' \<Longrightarrow>
   (\<And>cs n c r. s' = s\<lparr>channels := channels s @ cs, channels_seq := n, calls := c, reads := r\<rparr> \<Longrightarrow>
      c_Name ` set cs \<inter> c_Name ` set (channels s) = {} \<Longrightarrow> Q) \<Longrightarrow> Q"
  unfolding more_channels_def by blast

lemma more_channels_same: "same_tables s s' \<Longrightarrow> more_channels s s'"
  by (elim same_tablesE) (rule more_channelsI [where cs = "[]" and n = "channels_seq s"], simp_all)

lemma more_channels_trans: "more_channels s s' \<Longrightarrow> more_channels s' s'' \<Longrightarrow> more_channels s s''"
  by (elim more_channelsE) (rule more_channelsI, simp, auto)

lemma channel_look_grows: "more_channels s s' \<Longrightarrow> channel_look sc s = Some v \<Longrightarrow> channel_look sc s' = Some v"
proof (elim more_channelsE)
  fix cs n c r
  assume v: "channel_look sc s = Some v" and s': "s' = s\<lparr>channels := channels s @ cs, channels_seq := n, calls := c, reads := r\<rparr>"
    and new: "c_Name ` set cs \<inter> c_Name ` set (channels s) = {}"
  have "sc_Name sc \<in> c_Name ` set (channels s)"
    using v channel_look_None [of sc s] by auto
  with new have "sc_Name sc \<notin> c_Name ` set cs" by blast
  then show ?thesis using v s' channel_look_append [of sc cs s' s] by simp
qed

lemma channel_present:
  "channel_fresh ex sc s \<Longrightarrow> channel_look sc s = Some v \<Longrightarrow>
   wp (ensure_channel ex sc) (\<lambda>r s'. same_tables s s' \<and> (\<forall>x. r = Inr x \<longrightarrow> x = v)) s"
  by (simp add: ensure_channel_def channel_fresh_def wp_simps same_tables_refl)

lemma channel_makes:
  assumes nf: "undisturbed s" and fr: "channel_fresh ex sc s"
  shows "wp (ensure_channel ex sc) (\<lambda>r s'. more_channels s s' \<and> (\<exists>x v. r = Inr x \<and> channel_look sc s' = Some v \<and> x = v) \<and>
     (\<forall>j. sc_Name sc \<noteq> sc_Name j \<longrightarrow> channel_fresh ex j s \<longrightarrow> channel_fresh ex j s')) s"
proof (cases "channel_look sc s")
  case None
  then have new: "sc_Name sc \<notin> c_Name ` set (channels s)" by (simp add: channel_look_None)
  let ?c = "new_channel (channels_seq s + 1) (sc_Name sc) (sc_Type sc) (sc_Category sc) (sc_Topic sc) (sc_Position sc)
    (clock s (reads s) div Second)"
  let ?s' = "(tick s)\<lparr>channels := channels s @ [?c], channels_seq := channels_seq s + 1\<rparr>"
  have "more_channels s ?s'"
    by (rule more_channelsI [where cs = "[?c]" and n = "channels_seq s + 1" and c = "Suc (calls s)" and r = "Suc (reads s)"])
      (use new in \<open>simp_all add: tick_def new_channel_def\<close>)
  moreover have "channel_look sc ?s' = Some (channels_seq s + 1)"
    using channel_look_new [OF new, of ?s' ?c] by (simp add: new_channel_def)
  moreover have "channel_look j ?s' = channel_look j s" if "sc_Name sc \<noteq> sc_Name j" for j
    by (rule channel_look_append [of _ "[?c]"]) (use that in \<open>simp_all add: new_channel_def\<close>)
  ultimately show ?thesis
    using nf fr None
    by (simp add: ensure_channel_def channel_fresh_def CreateChannel_def insert_channel_def wp_simps undisturbed_def Let_def)
next
  case (Some v)
  then show ?thesis
    using fr more_channels_same [OF same_tables_refl] by (simp add: ensure_channel_def channel_fresh_def wp_simps)
qed

interpretation seed_channels: seeding channel_look "ensure_channel ex" "\<lambda>v. v" "(=)" same_tables more_channels undisturbed
  "channel_fresh ex" "\<lambda>_ _. True" "\<lambda>j k. sc_Name j \<noteq> sc_Name k" for ex
proof (unfold_locales, goal_cases)
  case (7 s s' k v)
  then show ?case by (rule channel_look_grows)
next
  case (10 k s v)
  then show ?case by (rule channel_present)
next
  case (11 s k)
  then show ?case using channel_makes by simp
qed (auto simp: same_tables_refl more_channels_same channel_look_def channel_fresh_def undisturbed_def
    intro: more_channels_trans same_tables_trans elim: same_tablesE more_channelsE)

section \<open>Messages\<close>

definition message_look :: "int64 \<times> int64 \<times> string \<Rightarrow> database \<Rightarrow> unit option" where
  "message_look k s = (case k of (channelID, userID, content) \<Rightarrow>
     if message_count channelID userID content s > 0 then Some () else None)"

definition more_messages :: "database \<Rightarrow> database \<Rightarrow> bool" where
  "more_messages s s' \<longleftrightarrow> (\<exists>ms n c r. s' = s\<lparr>messages := messages s @ ms, messages_seq := n, calls := c, reads := r\<rparr>)"

definition message_ready :: "int64 \<times> int64 \<times> string \<Rightarrow> database \<Rightarrow> bool" where
  "message_ready k s \<longleftrightarrow> has_channel s (fst k) \<and> has_user s (fst (snd k))"

lemma more_messagesI:
  "s' = s\<lparr>messages := messages s @ ms, messages_seq := n, calls := c, reads := r\<rparr> \<Longrightarrow> more_messages s s'"
  unfolding more_messages_def by blast

lemma more_messages_upd [simp]:
  "more_messages s (s\<lparr>messages := messages s @ ms, messages_seq := n, calls := c, reads := r\<rparr>)"
  by (rule more_messagesI) (rule refl)

lemma more_messagesE:
  "more_messages s s' \<Longrightarrow>
   (\<And>ms n c r. s' = s\<lparr>messages := messages s @ ms, messages_seq := n, calls := c, reads := r\<rparr> \<Longrightarrow> Q) \<Longrightarrow> Q"
  unfolding more_messages_def by blast

lemma more_messages_same: "same_tables s s' \<Longrightarrow> more_messages s s'"
  by (elim same_tablesE) (rule more_messagesI [where ms = "[]" and n = "messages_seq s"], simp)

lemma more_messages_trans: "more_messages s s' \<Longrightarrow> more_messages s' s'' \<Longrightarrow> more_messages s s''"
  by (elim more_messagesE) (rule more_messagesI, simp)

lemma message_present:
  "message_look k s = Some v \<Longrightarrow>
   wp (ensure_message k) (\<lambda>r s'. same_tables s s' \<and> (\<forall>x. r = Inr x \<longrightarrow> x = False)) s"
  by (cases k)
    (auto simp: ensure_message_def message_look_def messageExists_def message_count_def wp_simps same_tables_refl
      same_tables_tick split: if_splits)

lemma message_makes:
  assumes nf: "undisturbed s" and rd: "message_ready k s"
  shows "wp (ensure_message k) (\<lambda>r s'. more_messages s s' \<and> (\<exists>x. r = Inr x \<and> message_look k s' = Some ())) s"
proof -
  obtain c u t where k: "k = (c, u, t)" by (cases k)
  have grow: "more_messages s ((tick (tick s))\<lparr>messages := messages s @ [m], messages_seq := n\<rparr>)" for m n
    by (rule more_messagesI [where ms = "[m]" and n = n and c = "Suc (Suc (calls s))" and r = "Suc (Suc (reads s))"])
      (simp add: tick_def)
  show ?thesis
    using nf rd grow more_messages_same [OF same_tables_tick [OF same_tables_refl]]
    by (simp add: k ensure_message_def message_look_def messageExists_def message_count_def wp_simps undisturbed_def
        message_ready_def CreateMessage_def insert_message_def has_defs Let_def) auto
qed

interpretation seed_msgs: seeding message_look ensure_message "\<lambda>_. False" "\<lambda>_ _. True" same_tables more_messages undisturbed
  "\<lambda>_ _. True" message_ready "\<lambda>_ _. True"
proof (unfold_locales, goal_cases)
  case (10 k s v)
  then show ?case by (intro message_present)
next
  case (11 s k)
  then show ?case using message_makes by simp
qed (auto simp: same_tables_refl more_messages_same message_look_def message_count_def message_ready_def has_defs
    undisturbed_def split: if_splits intro: more_messages_trans same_tables_trans elim!: same_tablesE more_messagesE)

lemma collect_messages: "collect (\<lambda>x. ensure_message (g x)) xs = collect ensure_message (map g xs)"
  by (induction xs) simp_all

lemma created_none [simp]: "created (map (\<lambda>_. False) xs) = 0"
  by (simp add: created_def)

section \<open>The conversation\<close>

definition dm_ready :: "int64 \<Rightarrow> int64 \<Rightarrow> Channel \<Rightarrow> database \<Rightarrow> bool" where
  "dm_ready a b c s \<longleftrightarrow> dm_lookup a b s = Some (c_ID c) \<and> List.find (\<lambda>d. c_ID d = c_ID c) (channels s) = Some c \<and>
     (\<exists>d \<in> set (dm_open_state s). do_user d = a \<and> do_channel d = c_ID c)"

text \<open>Everything of the seed is there.\<close>

definition seeded :: "int64 list \<Rightarrow> int64 list \<Rightarrow> database \<Rightarrow> bool" where
  "seeded us cs s \<longleftrightarrow>
     map (\<lambda>su. user_look su s) seedUsers = map Some us \<and>
     map (\<lambda>sc. channel_look sc s) seedChannels = map Some cs \<and>
     (\<forall>sm \<in> set seedMessages. message_look (cs ! sm_ChannelIdx sm, us ! sm_UserIdx sm, sm_Content sm) s \<noteq> None) \<and>
     (\<exists>c. dm_ready (us ! uAdmin) (us ! uAlice) c s \<and>
        (\<forall>(i, t) \<in> set seedDMMessages. message_look (c_ID c, us ! i, t) s \<noteq> None))"

lemma seeded_same: "same_tables s s' \<Longrightarrow> seeded us cs s' = seeded us cs s"
  by (elim same_tablesE)
    (simp add: seeded_def user_look_def channel_look_def message_look_def message_count_def dm_ready_def dm_lookup_def
      channel_type_def)

lemma same_tables_rollback: "same_tables s s0 \<Longrightarrow> same_tables s (rollback_to s0 s')"
  by (elim same_tablesE) (simp add: rollback_to_def)

lemma insert_open_kept:
  "\<exists>d \<in> set (dm_open_state s). do_user d = u \<and> do_channel d = ch \<Longrightarrow>
   insert_open [(u, ch)] now s = Inl ErrForeignKey \<or> insert_open [(u, ch)] now s = Inr ((), s)"
  by (auto simp: insert_open_def open_row_def)

lemma wp_insert_open_kept:
  assumes "same_tables s0 s" and "\<exists>d \<in> set (dm_open_state s0). do_user d = u \<and> do_channel d = ch"
  shows "wp (exec (insert_open [(u, ch)])) (\<lambda>_ s'. same_tables s0 s') s"
proof -
  have "dm_open_state (tick s) = dm_open_state s0"
    using assms(1) by (auto elim: same_tablesE)
  with assms(2) have "\<exists>d \<in> set (dm_open_state (tick s)). do_user d = u \<and> do_channel d = ch" by simp
  from insert_open_kept [OF this, of "clock s (reads s) div Second"] assms(1) show ?thesis
    by (auto simp: wp_simps same_tables_tick)
qed

text \<open>Steps that leave the tables alone and return \<open>v\<close> when they return.\<close>

abbreviation untouched :: "database \<Rightarrow> 'a \<Rightarrow> 'e + 'a \<Rightarrow> database \<Rightarrow> bool" where
  "untouched s v r s' \<equiv> same_tables s s' \<and> (\<forall>x. r = Inr x \<longrightarrow> x = v)"

lemma untouched_bind:
  "wp m (untouched s v) s1 \<Longrightarrow> (\<And>s'. same_tables s s' \<Longrightarrow> wp (f v) (untouched s w) s') \<Longrightarrow>
   wp (bind_ok m f) (untouched s w) s1"
  unfolding wp_bind_ok by (erule wp_mono) (auto split: sum.splits)

lemma untouched_query: "same_tables s s' \<Longrightarrow> g (tick s') = v \<Longrightarrow> wp (query g) (untouched s v) s'"
  by (simp add: wp_simps same_tables_tick)

lemma untouched_return: "same_tables s s' \<Longrightarrow> wp (return (Inr v)) (untouched s v) s'"
  by (simp add: wp_simps)

lemma untouched_db_ok: "wp m (untouched s v) s' \<Longrightarrow> wp (db_ok m) (untouched s v) s'"
  unfolding wp_db_ok by (erule wp_mono) (auto simp: map_sum_def split: sum.splits)

lemma untouched_transaction:
  assumes "wp m (untouched s v) (tick s)"
  shows "wp (transaction m) (untouched s v) s"
proof -
  have t: "same_tables s (tick s)" by (simp add: same_tables_refl same_tables_tick)
  show ?thesis
    unfolding wp_transaction
    using t by (auto split: sum.splits simp: same_tables_rollback same_tables_tick intro!: wp_mono [OF assms])
qed

lemma dm_present:
  assumes rd: "dm_ready a b c s"
  shows "wp (GetOrCreateDMChannel a b) (untouched s (Some c, False)) s"
proof -
  have look: "dm_lookup a b (tick (tick s)) = Some (c_ID c)"
    using rd by (simp add: dm_ready_def dm_lookup_def channel_type_def)
  have op: "\<exists>d \<in> set (dm_open_state s). do_user d = a \<and> do_channel d = c_ID c"
    using rd by (simp add: dm_ready_def)
  have ch: "List.find (\<lambda>d. c_ID d = c_ID c) (channels (tick s')) = Some c" if "same_tables s s'" for s'
    using rd that by (auto simp: dm_ready_def elim: same_tablesE)
  have "wp (dm_transaction a b) (untouched s (c_ID c, False)) s"
    unfolding dm_transaction_def
    by (rule untouched_transaction, rule untouched_bind [where v = "Some (c_ID c)"], rule untouched_query)
      (auto simp: look same_tables_refl same_tables_tick wp_return intro: wp_seq [OF wp_insert_open_kept [OF _ op]])
  moreover have "wp (bind_ok (GetChannel (c_ID c)) (\<lambda>ch. if \<not> False \<and> ch = None then return (Inl ErrVanished)
      else return (Inr (ch, False)))) (untouched s (Some c, False)) s'" if "same_tables s s'" for s'
    unfolding GetChannel_def
    by (rule untouched_bind [where v = "Some c"], rule untouched_query) (use that ch in \<open>simp_all add: wp_return\<close>)
  ultimately show ?thesis
    unfolding GetOrCreateDMChannel_def by (intro untouched_bind [where v = "(c_ID c, False)"]) (simp_all only: prod.case)
qed

section \<open>Nothing is created twice\<close>

lemma seedUsers_len: "length seedUsers = 4"
  by (simp add: seedUsers_def)

lemma seed_messages_present:
  assumes "\<forall>k \<in> set ks. message_look k s' \<noteq> None" and "same_tables s s'"
  shows "wp (bind_ok (collect ensure_message ks) (\<lambda>bs. return (Inr (created bs)))) (untouched s 0) s'"
proof (rule untouched_bind [where v = "map (\<lambda>_. False) ks"])
  have "map (\<lambda>k. message_look k s') ks = map Some (map (\<lambda>_. ()) ks)"
    using assms(1) by (auto simp: map_eq_conv)
  from seed_msgs.collect_present [OF _ this]
  show "wp (collect ensure_message ks) (untouched s (map (\<lambda>_. False) ks)) s'"
    by (rule wp_mono) (auto intro: same_tables_trans [OF assms(2)] simp: comp_def)
qed (simp add: wp_return)

lemma seeded_noop:
  assumes sd: "seeded us cs s"
  shows "wp (seed generate) (untouched s (us, cs, 0, 0)) s"
proof -
  have u: "wp (createUsers generate) (untouched s us) s"
    using seed_users.collect_present [of seedUsers s us generate] sd by (simp add: createUsers_def seeded_def)
  have c: "wp createChannels (untouched s cs) s'" if "same_tables s s'" for s'
    unfolding createChannels_def
  proof (rule untouched_bind)
    show "wp (db_ok ListChannels) (untouched s (sort_key c_Position (sort_key c_ID (channels s)))) s'"
      unfolding ListChannels_def by (intro untouched_db_ok untouched_query that) (use that in \<open>auto elim: same_tablesE\<close>)
  next
    fix s1 assume s1: "same_tables s s1"
    then have "seeded us cs s1" using sd by (simp add: seeded_same)
    moreover have "channels s1 = channels s" using s1 by (auto elim: same_tablesE)
    ultimately show "wp (collect (ensure_channel (by_name (sort_key c_Position (sort_key c_ID (channels s))))) seedChannels)
        (untouched s cs) s1"
      by (intro wp_mono [OF seed_channels.collect_present [where vs = cs]])
        (auto simp: seeded_def channel_fresh_def channel_look_def intro: same_tables_trans [OF s1])
  qed
  have m: "wp (createMessages cs us) (untouched s 0) s'" if "same_tables s s'" for s'
    unfolding createMessages_def
    by (subst collect_messages, rule seed_messages_present) (use sd that in \<open>simp_all add: seeded_def seed_msgs.look_same [OF that]\<close>)
  have d: "wp (createDMConversation us) (untouched s 0) s'" if "same_tables s s'" for s'
  proof -
    have "seeded us cs s'" using sd that by (simp add: seeded_same)
    then obtain ch where ch: "dm_ready (us ! uAdmin) (us ! uAlice) ch s'"
      and ms: "\<forall>k \<in> set (map (\<lambda>p. (c_ID ch, us ! fst p, snd p)) seedDMMessages). message_look k s' \<noteq> None"
      by (force simp: seeded_def)
    show ?thesis
      unfolding createDMConversation_def
    proof (rule untouched_bind [where v = "(Some ch, False)"])
      show "wp (db_ok (GetOrCreateDMChannel (us ! uAdmin) (us ! uAlice))) (untouched s (Some ch, False)) s'"
        by (rule untouched_db_ok, rule wp_mono [OF dm_present [OF ch]]) (use that same_tables_trans in blast)
    next
      fix s1 assume s1: "same_tables s s1"
      have "\<forall>k \<in> set (map (\<lambda>p. (c_ID ch, us ! fst p, snd p)) seedDMMessages). message_look k s1 \<noteq> None"
        using ms that s1 by (simp add: seed_msgs.look_same [of s])
      from seed_messages_present [OF this s1]
      show "wp (case (Some ch, False) of (ch, isNew) \<Rightarrow> (case ch of None \<Rightarrow> return (Inl NilChannel)
         | Some c \<Rightarrow> bind_ok (collect (\<lambda>(from, content). ensure_message (c_ID c, us ! from, content)) seedDMMessages)
             (\<lambda>bs. return (Inr (created bs))))) (untouched s 0) s1"
        by (simp only: split_def fst_conv option.case collect_messages [of "\<lambda>p. (c_ID ch, us ! fst p, snd p)"])
    qed
  qed
  show ?thesis
    unfolding seed_def
    by (intro untouched_bind [OF u] untouched_bind [OF c] untouched_bind [OF m] untouched_bind [OF d] untouched_return)
qed

section \<open>Everything is created\<close>

lemma bind_ok_seq:
  "wp m (\<lambda>r s'. \<exists>x. r = Inr x \<and> A x s') s \<Longrightarrow> (\<And>x s'. A x s' \<Longrightarrow> wp (f x) Q s') \<Longrightarrow> wp (bind_ok m f) Q s"
  unfolding wp_bind_ok by (erule wp_mono) auto

definition more_dms :: "database \<Rightarrow> database \<Rightarrow> bool" where
  "more_dms s s' \<longleftrightarrow> users s' = users s \<and> messages s' = messages s \<and> faults s' = faults s \<and>
     (\<exists>cs. channels s' = channels s @ cs \<and> (\<forall>c \<in> set cs. c_Name c = []))"

lemma dm_lookup_new:
  assumes none: "dm_lookup a b s = None" and p: "dm_participants s' = dm_participants s @ [(c_ID c, a), (c_ID c, b)]"
    and c: "channels s' = channels s @ [c]" and ty: "c_Type c = ''dm''" and new: "c_ID c \<notin> c_ID ` set (channels s)"
  shows "dm_lookup a b s' = Some (c_ID c)"
proof -
  let ?P = "\<lambda>(ch, u). u = a \<and> (ch, b) \<in> set (dm_participants s') \<and> channel_type s' ch = Some ''dm''"
  have old: "channel_type s' i = channel_type s i" if "i \<noteq> c_ID c" for i
    using that by (simp add: channel_type_def c find_append split: option.splits)
  have this_one: "channel_type s' (c_ID c) = Some ''dm''"
    using new find_None [of "\<lambda>d. c_ID d = c_ID c" "channels s"]
    by (auto simp: channel_type_def c find_append ty image_iff split: option.splits)
  have "?P (c_ID c, a)" by (simp add: p this_one)
  then have "List.find ?P (dm_participants s') \<noteq> None"
    unfolding find_None by (auto simp: p)
  then obtain ch u where f: "List.find ?P (dm_participants s') = Some (ch, u)" by auto
  have "ch = c_ID c"
  proof (rule ccontr)
    assume ne: "ch \<noteq> c_ID c"
    with find_Some_set [OF f] have "(ch, a) \<in> set (dm_participants s)" "(ch, b) \<in> set (dm_participants s)"
      "channel_type s ch = Some ''dm''"
      by (auto simp: p old)
    with none show False by (auto simp: dm_lookup_def find_None)
  qed
  with f show ?thesis by (simp add: dm_lookup_def)
qed

lemma dm_makes_existing:
  assumes nf: "undisturbed s" and sch: "schema_ok s" and a: "has_user s a" and l: "dm_lookup a b s = Some i"
  shows "wp (GetOrCreateDMChannel a b) (\<lambda>r s'. \<exists>c new. r = Inr (Some c, new) \<and> dm_ready a b c s' \<and> more_dms s s') s"
proof -
  have l': "dm_lookup a b (tick (tick s)) = Some i"
    using l by (simp add: dm_lookup_def channel_type_def)
  obtain c where c: "List.find (\<lambda>d. c_ID d = i) (channels s) = Some c"
    using l by (auto simp: dm_lookup_def dest!: find_Some_set) (auto simp: channel_type_def)
  then have i: "c_ID c = i" "has_channel s i"
    by (auto simp: has_channel_def dest!: find_Some_set)
  show ?thesis
    using nf a i c l
    by (auto simp: GetOrCreateDMChannel_def dm_transaction_def GetChannel_def insert_open_def open_row_def wp_simps
        undisturbed_def has_defs l' dm_ready_def more_dms_def dm_lookup_def channel_type_def)
qed

text \<open>The transaction that makes the channel, statement by statement.\<close>

definition dm_made :: "database \<Rightarrow> int64 \<Rightarrow> int64 \<Rightarrow> Channel \<Rightarrow> database \<Rightarrow> bool" where
  "dm_made s a b c s' \<longleftrightarrow> c_ID c = channels_seq s + 1 \<and> c_Type c = ''dm'' \<and> c_Name c = [] \<and>
     users s' = users s \<and> messages s' = messages s \<and> faults s' = faults s \<and> channels s' = channels s @ [c]"

lemma wp_exec_ok:
  "undisturbed s \<Longrightarrow> f (clock s (reads s) div Second) (tick s) = Inr (x, s') \<Longrightarrow> Q (Inr x) s' \<Longrightarrow> wp (exec f) Q s"
  by (simp add: wp_simps undisturbed_def)

lemma wp_transaction_ok:
  "undisturbed s \<Longrightarrow> wp m (\<lambda>r s'. \<exists>x. r = Inr x \<and> faults s' = faults s \<and> Q (Inr x) (tick s')) (tick s) \<Longrightarrow>
   wp (transaction m) Q s"
  unfolding wp_transaction undisturbed_def by (auto elim!: wp_mono)

lemma dm_make_channel:
  "undisturbed s \<Longrightarrow>
   wp (exec (insert_channel [] ''dm'' [] [] 0)) (\<lambda>r s'. \<exists>i. r = Inr i \<and>
     (\<exists>c. i = c_ID c \<and> dm_made s a b c s' \<and> dm_participants s' = dm_participants s \<and> dm_open_state s' = dm_open_state s)) s"
  by (rule wp_exec_ok, assumption, simp add: insert_channel_def Let_def) (simp add: dm_made_def new_channel_def)

lemma dm_make_participants:
  assumes "undisturbed s" "dm_made s a b c s'" "dm_participants s' = dm_participants s" "dm_open_state s' = dm_open_state s"
    and "has_user s a" "has_user s b" "a \<noteq> b" "\<forall>u. (c_ID c, u) \<notin> set (dm_participants s)"
  shows "wp (exec (\<lambda>now. insert_participants (c_ID c) a b)) (\<lambda>r s''. \<exists>x. r = Inr x \<and> dm_made s a b c s'' \<and>
     dm_participants s'' = dm_participants s @ [(c_ID c, a), (c_ID c, b)] \<and> dm_open_state s'' = dm_open_state s) s'"
proof (rule wp_exec_ok)
  show "undisturbed s'" using assms(1,2) by (simp add: undisturbed_def dm_made_def)
  show "insert_participants (c_ID c) a b (tick s') =
      Inr ((), (tick s')\<lparr>dm_participants := dm_participants s @ [(c_ID c, a), (c_ID c, b)]\<rparr>)"
    using assms by (simp add: insert_participants_def dm_made_def has_defs)
qed (use assms in \<open>simp add: dm_made_def\<close>)

lemma open_rows_first:
  "\<exists>d \<in> set (fold (open_row now) [p, q] ds). do_user d = fst p \<and> do_channel d = snd p"
proof -
  have "\<exists>d \<in> set (open_row now p ds). do_user d = fst p \<and> do_channel d = snd p"
    by (simp add: open_row_def)
  moreover have "set (open_row now p ds) \<subseteq> set (open_row now q (open_row now p ds))"
    unfolding open_row_def [of now q] by auto
  ultimately show ?thesis by auto
qed

lemma dm_make_open:
  assumes "undisturbed s" "dm_made s a b c s'" "has_user s a" "has_user s b"
    and "dm_participants s' = dm_participants s @ [(c_ID c, a), (c_ID c, b)]"
  shows "wp (exec (insert_open [(a, c_ID c), (b, c_ID c)])) (\<lambda>r s''. \<exists>x. r = Inr x \<and> dm_made s a b c s'' \<and>
     dm_participants s'' = dm_participants s @ [(c_ID c, a), (c_ID c, b)] \<and>
     (\<exists>d \<in> set (dm_open_state s''). do_user d = a \<and> do_channel d = c_ID c)) s'"
proof (rule wp_exec_ok)
  let ?s'' = "(tick s')\<lparr>dm_open_state := fold (open_row (clock s' (reads s') div Second)) [(a, c_ID c), (b, c_ID c)] (dm_open_state s')\<rparr>"
  show "undisturbed s'" using assms(1,2) by (simp add: undisturbed_def dm_made_def)
  show "insert_open [(a, c_ID c), (b, c_ID c)] (clock s' (reads s') div Second) (tick s') =
      Inr ((), ?s'')"
    using assms by (simp add: insert_open_def dm_made_def has_defs)
  show "\<exists>x. Inr () = Inr x \<and> dm_made s a b c ?s'' \<and>
      dm_participants ?s'' = dm_participants s @ [(c_ID c, a), (c_ID c, b)] \<and>
      (\<exists>d \<in> set (dm_open_state ?s''). do_user d = a \<and> do_channel d = c_ID c)"
    using assms open_rows_first [of "clock s' (reads s') div Second" "(a, c_ID c)" "(b, c_ID c)" "dm_open_state s'"]
    by (simp add: dm_made_def)
qed

lemma dm_makes_new:
  assumes nf: "undisturbed s" and sch: "schema_ok s" and a: "has_user s a" and b: "has_user s b" and ab: "a \<noteq> b"
    and l: "dm_lookup a b s = None"
  shows "wp (GetOrCreateDMChannel a b) (\<lambda>r s'. \<exists>c new. r = Inr (Some c, new) \<and> dm_ready a b c s' \<and> more_dms s s') s"
proof -
  let ?i = "channels_seq s + 1"
  have l': "dm_lookup a b (tick (tick s)) = None"
    using l by (simp add: dm_lookup_def channel_type_def)
  have new: "?i \<notin> c_ID ` set (channels s)"
    using sch by (force simp: schema_ok_def keys_ok_def pk_ok_def)
  then have rows: "\<forall>u. (?i, u) \<notin> set (dm_participants s)"
    using sch by (force simp: schema_ok_def channel_refs_def has_channel_def)
  have fnd: "List.find (\<lambda>d. c_ID d = ?i) (channels s) = None"
    using new unfolding find_None by (metis image_eqI)
  let ?made = "\<lambda>c s'. dm_made s a b c s' \<and> dm_participants s' = dm_participants s @ [(c_ID c, a), (c_ID c, b)] \<and>
     (\<exists>d \<in> set (dm_open_state s'). do_user d = a \<and> do_channel d = c_ID c)"
  let ?body = "bind_ok (exec (insert_channel [] ''dm'' [] [] 0)) (\<lambda>channelID.
     bind_ok (exec (\<lambda>now. insert_participants channelID a b)) (\<lambda>_.
     bind_ok (exec (insert_open [(a, channelID), (b, channelID)])) (\<lambda>_. return (Inr (channelID, True)))))"
  let ?t = "tick (tick s)"
  have tt: "undisturbed ?t" "has_user ?t a" "has_user ?t b" "dm_participants ?t = dm_participants s"
    using nf a b by (simp_all add: undisturbed_def has_user_def)
  have made_tt: "dm_made ?t a b c s' = dm_made s a b c s'" for c s'
    by (simp add: dm_made_def)
  have rows_c: "\<forall>u. (c_ID c, u) \<notin> set (dm_participants ?t)" if "dm_made ?t a b c s'" for c s'
    using that rows by (simp add: dm_made_def)
  have body: "wp ?body (\<lambda>r s'. \<exists>c. r = Inr (c_ID c, True) \<and> ?made c s') ?t"
    by (rule bind_ok_seq [OF dm_make_channel [OF tt(1)]], elim exE conjE, hypsubst,
        rule bind_ok_seq [OF dm_make_participants [OF tt(1) _ _ _ tt(2,3) ab rows_c]], assumption+,
        elim conjE, rule bind_ok_seq [OF dm_make_open [OF tt(1) _ tt(2,3)]], assumption+)
      (auto simp: wp_return made_tt tt)
  have "wp (dm_transaction a b) (\<lambda>r s'. \<exists>x. r = Inr x \<and> (\<exists>c. x = (c_ID c, True) \<and> ?made c s')) s"
    unfolding dm_transaction_def
  proof (rule wp_transaction_ok [OF nf], rule bind_ok_seq [where A = "\<lambda>x s'. x = None \<and> s' = ?t"], goal_cases)
    case 1
    then show ?case using nf l' by (simp add: wp_simps undisturbed_def)
  next
    case (2 x s')
    then show ?case by (auto simp: dm_made_def intro!: wp_mono [OF body])
  qed
  then show ?thesis
    unfolding GetOrCreateDMChannel_def
  proof (rule bind_ok_seq, goal_cases)
    case (1 x s')
    then obtain c where x: "x = (c_ID c, True)" and m: "?made c s'" by blast
    have c: "List.find (\<lambda>d. c_ID d = c_ID c) (channels (tick s')) = Some c" and nf': "\<not> faults s' (calls s')"
      using m fnd nf by (auto simp: dm_made_def find_append undisturbed_def)
    have "dm_lookup a b (tick s') = Some (c_ID c)"
      by (rule dm_lookup_new [OF l]) (use m new in \<open>simp_all add: dm_made_def\<close>)
    then have "dm_ready a b c (tick s')" and "more_dms s (tick s')"
      using m c by (auto simp: dm_ready_def more_dms_def dm_made_def)
    with c nf' show ?case by (auto simp: x GetChannel_def wp_simps)
  qed
qed

lemma dm_makes:
  assumes "undisturbed s" "schema_ok s" "has_user s a" "has_user s b" "a \<noteq> b"
  shows "wp (GetOrCreateDMChannel a b) (\<lambda>r s'. \<exists>c new. r = Inr (Some c, new) \<and> dm_ready a b c s' \<and> more_dms s s') s"
  using assms dm_makes_existing dm_makes_new by (cases "dm_lookup a b s") auto

lemma user_look_has: "user_look su s = Some v \<Longrightarrow> has_user s v"
  by (auto simp: user_look_def has_user_def dest!: find_Some_set)

lemma channel_look_has: "channel_look sc s = Some v \<Longrightarrow> has_channel s v"
  by (auto simp: channel_look_def by_name_def has_channel_def dest!: map_of_SomeD)

lemma looks_has_user: "map (\<lambda>su. user_look su s) sus = map Some us \<Longrightarrow> i < length sus \<Longrightarrow> has_user s (us ! i)"
  by (metis length_map nth_map user_look_has)

lemma looks_has_channel: "map (\<lambda>sc. channel_look sc s) scs = map Some cs \<Longrightarrow> i < length scs \<Longrightarrow> has_channel s (cs ! i)"
  by (metis length_map nth_map channel_look_has)

lemma seed_lengths: "length seedUsers = 4" "length seedChannels = 5"
  by (simp_all add: seedUsers_def seedChannels_def)

lemmas seed_indices = chGeneral_def chRandom_def chGaming_def uAdmin_def uAlice_def uBob_def uCharlie_def

lemma seed_in_range:
  "\<forall>sm \<in> set seedMessages. sm_ChannelIdx sm < 5 \<and> sm_UserIdx sm < 4"
  "\<forall>p \<in> set seedDMMessages. fst p < 4"
  by (simp_all add: seedMessages_def seedDMMessages_def seed_msg_def seed_indices)

text \<open>The two users of the conversation have different names, so different ids.\<close>

lemma admin_not_alice:
  assumes sch: "schema_ok s" and us: "map (\<lambda>su. user_look su s) seedUsers = map Some us"
  shows "us ! uAdmin \<noteq> us ! uAlice"
proof -
  obtain u v where u: "u \<in> set (users s)" "nocase (u_Username u) = nocase ''admin''" "us ! uAdmin = u_ID u"
    and v: "v \<in> set (users s)" "nocase (u_Username v) = nocase ''alice''" "us ! uAlice = u_ID v"
    using us by (auto simp: seedUsers_def seed_indices user_look_def map_eq_Cons_conv dest!: find_Some_set)
  have "distinct (map u_ID (users s))"
    using sch by (simp add: schema_ok_def keys_ok_def pk_ok_def)
  then have "u_ID u = u_ID v \<Longrightarrow> u = v"
    using u(1) v(1) by (auto simp: distinct_map inj_on_def)
  moreover have "nocase ''admin'' \<noteq> nocase ''alice''"
    by (simp add: nocase_def ascii_lower_def)
  ultimately show ?thesis using u v by metis
qed

lemma seed_channels_apart: "sorted_wrt (\<lambda>j k. sc_Name j \<noteq> sc_Name k) seedChannels"
  by (simp add: seedChannels_def)

lemma seed_channels_named: "\<forall>sc \<in> set seedChannels. sc_Name sc \<noteq> []"
  by (simp add: seedChannels_def)

text \<open>What was found before the conversation was made is found after it.\<close>

lemma more_dms_looks:
  assumes "more_dms s s'"
  shows "user_look su s' = user_look su s" and "message_look k s' = message_look k s"
    and "sc_Name sc \<noteq> [] \<Longrightarrow> channel_look sc s' = channel_look sc s" and "has_user s' i = has_user s i"
    and "has_channel s i \<Longrightarrow> has_channel s' i" and "undisturbed s' = undisturbed s"
proof -
  obtain cs where s': "users s' = users s" "messages s' = messages s" "faults s' = faults s"
    "channels s' = channels s @ cs" "\<forall>c \<in> set cs. c_Name c = []"
    using assms by (auto simp: more_dms_def)
  then show "user_look su s' = user_look su s" "message_look k s' = message_look k s" "has_user s' i = has_user s i"
    "has_channel s i \<Longrightarrow> has_channel s' i" "undisturbed s' = undisturbed s"
    by (auto simp: user_look_def message_look_def message_count_def has_defs undisturbed_def)
  show "channel_look sc s' = channel_look sc s" if "sc_Name sc \<noteq> []"
    by (rule channel_look_append [OF _ s'(4)]) (use that s'(5) in auto)
qed

subsection \<open>The four parts in order\<close>

lemma keeps_collect [keeps_intro]: "(\<And>x. keeps P (f x)) \<Longrightarrow> keeps P (collect f xs)"
  by (induction xs) (auto intro!: keeps_intro)

lemma schema_seed_parts [keeps_intro]:
  "keeps schema_ok (createUsers generate)" "keeps schema_ok createChannels" "keeps schema_ok (createMessages cs us)"
  unfolding createUsers_def createChannels_def createMessages_def ensure_user_def ensure_channel_def ensure_message_def
    messageExists_def db_ok_def GetUserByUsername_def ListChannels_def CreateUser_def CreateChannel_def
  by (intro keeps_intro)+

definition extends :: "database \<Rightarrow> database \<Rightarrow> bool" where
  "extends s s' \<longleftrightarrow> (\<exists>us cs ms. users s' = users s @ us \<and> channels s' = channels s @ cs \<and> messages s' = messages s @ ms)"

lemma extends_steps:
  "more_users s s' \<Longrightarrow> extends s s'" "more_channels s s' \<Longrightarrow> extends s s'" "more_messages s s' \<Longrightarrow> extends s s'"
  "more_dms s s' \<Longrightarrow> extends s s'"
  by (auto simp: extends_def more_dms_def elim: more_usersE more_channelsE more_messagesE)

lemma extends_trans: "extends s s' \<Longrightarrow> extends s' s'' \<Longrightarrow> extends s s''"
  by (auto simp: extends_def)

lemma wp_keeps_conj:
  "wp m (\<lambda>r s'. \<exists>x. r = Inr x \<and> A x s') s \<Longrightarrow> keeps P m \<Longrightarrow> P s \<Longrightarrow> wp m (\<lambda>r s'. \<exists>x. r = Inr x \<and> A x s' \<and> P s') s"
  by (auto simp: wp_run keeps_def)

lemma seed_users_made:
  assumes "undisturbed s" "schema_ok s" "has_role s 1" "has_role s 4"
    and "generate ''admin123'' bcryptCost \<noteq> None" "generate ''password123'' bcryptCost \<noteq> None"
  shows "wp (createUsers generate) (\<lambda>r s'. \<exists>us. r = Inr us \<and>
     (more_users s s' \<and> map (\<lambda>su. user_look su s') seedUsers = map Some us) \<and> schema_ok s') s"
proof (rule wp_keeps_conj [OF _ schema_seed_parts(1) assms(2)])
  have "\<forall>su \<in> set seedUsers. user_ready generate su s"
    using assms by (simp add: user_ready_def seedUsers_def)
  then show "wp (createUsers generate) (\<lambda>r s'. \<exists>us. r = Inr us \<and>
      more_users s s' \<and> map (\<lambda>su. user_look su s') seedUsers = map Some us) s"
    unfolding createUsers_def
    by (intro wp_mono [OF seed_users.collect_makes [OF assms(1)]]) (auto simp: list.rel_eq sorted_wrt_true)
qed

lemma seed_channels_made:
  assumes "undisturbed s" "schema_ok s"
  shows "wp createChannels (\<lambda>r s'. \<exists>cs. r = Inr cs \<and>
     (more_channels s s' \<and> map (\<lambda>sc. channel_look sc s') seedChannels = map Some cs) \<and> schema_ok s') s"
proof (rule wp_keeps_conj [OF _ schema_seed_parts(2) assms(2)])
  show "wp createChannels (\<lambda>r s'. \<exists>cs. r = Inr cs \<and>
      more_channels s s' \<and> map (\<lambda>sc. channel_look sc s') seedChannels = map Some cs) s"
    unfolding createChannels_def
  proof (rule bind_ok_seq [where A = "\<lambda>x s'. x = sort_key c_Position (sort_key c_ID (channels s)) \<and> s' = tick s"], goal_cases)
    case 1
    then show ?case using assms(1) by (simp add: wp_simps ListChannels_def undisturbed_def)
  next
    case (2 x s')
    have t: "undisturbed (tick s)" "more_channels s (tick s)"
      using assms(1) by (simp_all add: undisturbed_def more_channels_same same_tables_refl same_tables_tick)
    show ?case
      by (rule wp_mono [OF seed_channels.collect_makes])
        (use 2 t seed_channels_apart in \<open>auto simp: list.rel_eq channel_fresh_def channel_look_def intro: more_channels_trans\<close>)
  qed
qed

lemma map_Some_all: "map f xs = map Some ys \<Longrightarrow> x \<in> set xs \<Longrightarrow> f x \<noteq> None"
  by (metis imageE image_eqI list.set_map option.distinct(1))

text \<open>A round of messages whose channels and senders are there.\<close>

lemma seed_messages_made:
  assumes "undisturbed s" "\<forall>k \<in> set ks. message_ready k s"
  shows "wp (bind_ok (collect ensure_message ks) (\<lambda>bs. return (Inr (created bs))))
     (\<lambda>r s'. \<exists>n. r = Inr n \<and> more_messages s s' \<and> (\<forall>k \<in> set ks. message_look k s' \<noteq> None)) s"
proof (rule bind_ok_seq)
  show "wp (collect ensure_message ks) (\<lambda>r s'. \<exists>x. r = Inr x \<and> more_messages s s' \<and> (\<forall>k \<in> set ks. message_look k s' \<noteq> None)) s"
    by (rule wp_mono [OF seed_msgs.collect_makes [OF assms(1)]])
      (use assms(2) in \<open>auto simp: sorted_wrt_true dest: map_Some_all\<close>)
qed (simp add: wp_return)

lemma dm_ready_grows: "more_messages s s' \<Longrightarrow> dm_ready a b c s' = dm_ready a b c s"
  by (auto simp: dm_ready_def dm_lookup_def channel_type_def elim!: more_messagesE)

lemma seed_dms_made:
  assumes nf: "undisturbed s" and sch: "schema_ok s" and us: "map (\<lambda>su. user_look su s) seedUsers = map Some us"
  shows "wp (createDMConversation us) (\<lambda>r s'. \<exists>n. r = Inr n \<and> (\<exists>c s1. more_dms s s1 \<and> more_messages s1 s' \<and>
     dm_ready (us ! uAdmin) (us ! uAlice) c s' \<and> (\<forall>(i, t) \<in> set seedDMMessages. message_look (c_ID c, us ! i, t) s' \<noteq> None))) s"
proof -
  have has: "has_user s (us ! i)" if "i < 4" for i
    by (rule looks_has_user [OF us]) (use that seed_lengths in simp)
  have dm: "wp (db_ok (GetOrCreateDMChannel (us ! uAdmin) (us ! uAlice)))
      (\<lambda>r s'. \<exists>x. r = Inr x \<and> (\<exists>c new. x = (Some c, new) \<and> dm_ready (us ! uAdmin) (us ! uAlice) c s' \<and> more_dms s s')) s"
    unfolding wp_db_ok
    by (rule wp_mono [OF dm_makes [OF nf sch]]) (use has admin_not_alice [OF sch us] in \<open>auto simp: seed_indices\<close>)
  show ?thesis
    unfolding createDMConversation_def
  proof (rule bind_ok_seq [OF dm], goal_cases)
    case (1 x s1)
    then obtain c new where x: "x = (Some c, new)" and rd: "dm_ready (us ! uAdmin) (us ! uAlice) c s1" and m: "more_dms s s1"
      by blast
    let ?ks = "map (\<lambda>p. (c_ID c, us ! fst p, snd p)) seedDMMessages"
    have "has_channel s1 (c_ID c)"
      using rd by (auto simp: dm_ready_def has_channel_def dest!: find_Some_set)
    then have "\<forall>k \<in> set ?ks. message_ready k s1"
      using has seed_in_range(2) by (simp add: message_ready_def more_dms_looks(4) [OF m])
    moreover have "undisturbed s1" using nf by (simp add: more_dms_looks(6) [OF m])
    ultimately have "wp (bind_ok (collect ensure_message ?ks) (\<lambda>bs. return (Inr (created bs))))
       (\<lambda>r s'. \<exists>n. r = Inr n \<and> more_messages s1 s' \<and> (\<forall>k \<in> set ?ks. message_look k s' \<noteq> None)) s1"
      by (intro seed_messages_made)
    then show ?case
      unfolding x split_def fst_conv option.case collect_messages [of "\<lambda>p. (c_ID c, us ! fst p, snd p)", symmetric]
      by (rule wp_mono) (use m rd dm_ready_grows in fastforce)
  qed
qed

text \<open>The messages of the channels and the conversation, once users and channels are there.\<close>

lemma seed_talk_made:
  assumes nf: "undisturbed s" and sch: "schema_ok s" and us: "map (\<lambda>su. user_look su s) seedUsers = map Some us"
    and cs: "map (\<lambda>sc. channel_look sc s) seedChannels = map Some cs"
  shows "wp (bind_ok (createMessages cs us) (\<lambda>msgCount. bind_ok (createDMConversation us) (\<lambda>dmMsgCount.
      return (Inr (us, cs, msgCount, dmMsgCount)))))
     (\<lambda>r s'. \<exists>us cs m d. r = Inr (us, cs, m, d) \<and> seeded us cs s' \<and> extends s s') s"
proof -
  let ?ks = "map (\<lambda>sm. (cs ! sm_ChannelIdx sm, us ! sm_UserIdx sm, sm_Content sm)) seedMessages"
  have "\<forall>k \<in> set ?ks. message_ready k s"
    using seed_in_range(1) by (auto simp: message_ready_def seed_lengths intro!: looks_has_user [OF us] looks_has_channel [OF cs])
  from seed_messages_made [OF nf this]
  have "wp (createMessages cs us) (\<lambda>r s'. \<exists>n. r = Inr n \<and> more_messages s s' \<and> (\<forall>k \<in> set ?ks. message_look k s' \<noteq> None)) s"
    unfolding createMessages_def collect_messages [of "\<lambda>sm. (cs ! sm_ChannelIdx sm, us ! sm_UserIdx sm, sm_Content sm)"] .
  from wp_keeps_conj [OF this schema_seed_parts(3) sch] show ?thesis
  proof (rule bind_ok_seq, elim conjE)
    fix n s1
    assume s1: "more_messages s s1" "\<forall>k \<in> set ?ks. message_look k s1 \<noteq> None" "schema_ok s1"
    have looks: "map (\<lambda>su. user_look su s1) seedUsers = map Some us" "map (\<lambda>sc. channel_look sc s1) seedChannels = map Some cs"
      using s1(1) us cs by (auto simp: user_look_def channel_look_def elim!: more_messagesE)
    show "wp (bind_ok (createDMConversation us) (\<lambda>dmMsgCount. return (Inr (us, cs, n, dmMsgCount))))
       (\<lambda>r s'. \<exists>us cs m d. r = Inr (us, cs, m, d) \<and> seeded us cs s' \<and> extends s s') s1"
    proof (rule bind_ok_seq [OF seed_dms_made [OF seed_msgs.good_grows [OF s1(1) nf] s1(3) looks(1)]], elim exE conjE)
      fix d s' c s2
      assume s2: "more_dms s1 s2" "more_messages s2 s'" and dm: "dm_ready (us ! uAdmin) (us ! uAlice) c s'"
        "\<forall>(i, t) \<in> set seedDMMessages. message_look (c_ID c, us ! i, t) s' \<noteq> None"
      have "user_look su s' = user_look su s1" for su
        using s2(2) more_dms_looks(1) [OF s2(1)] by (auto simp: user_look_def elim!: more_messagesE)
      moreover have "channel_look sc s' = channel_look sc s1" if "sc \<in> set seedChannels" for sc
        using s2(2) more_dms_looks(3) [OF s2(1)] seed_channels_named that
        by (auto simp: channel_look_def elim!: more_messagesE)
      moreover have "message_look k s' \<noteq> None" if "k \<in> set ?ks" for k
        using s1(2) more_dms_looks(2) [OF s2(1)] that seed_msgs.look_grows [OF s2(2), of k] by fastforce
      ultimately have "seeded us cs s'"
        using looks dm by (auto simp: seeded_def cong: map_cong)
      moreover have "extends s s'"
        using extends_trans extends_steps(3) [OF s1(1)] extends_steps(4) [OF s2(1)] extends_steps(3) [OF s2(2)] by blast
      ultimately show "wp (return (Inr (us, cs, n, d)))
          (\<lambda>r s'. \<exists>us cs m d. r = Inr (us, cs, m, d) \<and> seeded us cs s' \<and> extends s s') s'"
        by (simp add: wp_return)
    qed
  qed
qed

lemma seed_makes:
  assumes "undisturbed s" "schema_ok s" "has_role s 1" "has_role s 4"
    and "generate ''admin123'' bcryptCost \<noteq> None" "generate ''password123'' bcryptCost \<noteq> None"
  shows "wp (seed generate) (\<lambda>r s'. \<exists>us cs m d. r = Inr (us, cs, m, d) \<and> seeded us cs s' \<and> extends s s') s"
  unfolding seed_def
proof (rule bind_ok_seq [OF seed_users_made [where generate = generate, OF assms]], elim conjE)
  fix us s1
  assume s1: "more_users s s1" "map (\<lambda>su. user_look su s1) seedUsers = map Some us" "schema_ok s1"
  have nf1: "undisturbed s1" by (rule seed_users.good_grows [OF s1(1) assms(1)])
  show "wp (bind_ok createChannels (\<lambda>channelIDs. bind_ok (createMessages channelIDs us) (\<lambda>msgCount.
      bind_ok (createDMConversation us) (\<lambda>dmMsgCount. return (Inr (us, channelIDs, msgCount, dmMsgCount))))))
      (\<lambda>r s'. \<exists>us cs m d. r = Inr (us, cs, m, d) \<and> seeded us cs s' \<and> extends s s') s1"
  proof (rule bind_ok_seq [OF seed_channels_made [OF nf1 s1(3)]], elim conjE)
    fix cs s2
    assume s2: "more_channels s1 s2" "map (\<lambda>sc. channel_look sc s2) seedChannels = map Some cs" "schema_ok s2"
    have u2: "map (\<lambda>su. user_look su s2) seedUsers = map Some us"
      using s1(2) s2(1) by (auto simp: user_look_def elim!: more_channelsE)
    show "wp (bind_ok (createMessages cs us) (\<lambda>msgCount. bind_ok (createDMConversation us) (\<lambda>dmMsgCount.
        return (Inr (us, cs, msgCount, dmMsgCount)))))
        (\<lambda>r s'. \<exists>us cs m d. r = Inr (us, cs, m, d) \<and> seeded us cs s' \<and> extends s s') s2"
      by (rule wp_mono [OF seed_talk_made [OF seed_channels.good_grows [OF s2(1) nf1] s2(3) u2 s2(2)]])
        (use extends_trans [OF extends_steps(1) [OF s1(1)] extends_steps(2) [OF s2(1)]] in \<open>auto intro: extends_trans\<close>)
  qed
qed

section \<open>Idempotence\<close>

text \<open>
  C32: The tool is idempotent, as its comment says. On any database that satisfies the schema and has the
  roles, a run without failures succeeds, only appends to the users, channels and messages, and
  every later run, whatever statements fail in it and whatever the clock and bcrypt do, changes no
  table: it ends with an error or reports the same users and channels and nothing created.
\<close>
theorem seed_idempotent:
  assumes "\<forall>n. \<not> faults s n" "schema_ok s" "has_role s 1" "has_role s 4"
    and "generate ''admin123'' bcryptCost \<noteq> None" "generate ''password123'' bcryptCost \<noteq> None"
  shows "\<exists>us cs m d s1. run_state (seed_main True True True generate) s = (Inr (us, cs, m, d), s1) \<and> extends s s1 \<and>
    (\<forall>fs cl again. let s2 = s1\<lparr>faults := fs, clock := cl\<rparr>; (r, s3) = run_state (seed_main True True True again) s2 in
       same_tables s2 s3 \<and> r \<in> insert (Inr (us, cs, 0, 0)) (range Inl))"
proof -
  have "undisturbed s" using assms(1) by (simp add: undisturbed_def)
  from seed_makes [where generate = generate, OF this assms(2-)]
  obtain us cs m d s1 where run: "run_state (seed generate) s = (Inr (us, cs, m, d), s1)"
    and sd: "seeded us cs s1" and ext: "extends s s1"
    by (auto simp: wp_def split: prod.splits)
  have sd': "seeded us cs (s1\<lparr>faults := fs, clock := cl\<rparr>)" for fs cl
    using sd by (simp add: seeded_def user_look_def channel_look_def message_look_def message_count_def dm_ready_def
        dm_lookup_def channel_type_def)
  have "let s2 = s1\<lparr>faults := fs, clock := cl\<rparr>; (r, s3) = run_state (seed again) s2 in
      same_tables s2 s3 \<and> r \<in> insert (Inr (us, cs, 0, 0)) (range Inl)" for fs cl again
    using seeded_noop [OF sd' [where fs = fs and cl = cl], of again]
    by (cases "fst (run_state (seed again) (s1\<lparr>faults := fs, clock := cl\<rparr>))") (auto simp: wp_def Let_def split: prod.splits)
  with run ext show ?thesis by (auto simp: seed_main_def)
qed

theorem seed_idempotent_witness:
  "\<exists>us cs m d s1. run_state (seed_main True True True (\<lambda>p c. Some p)) initial_db = (Inr (us, cs, m, d), s1) \<and>
     same_tables (s1\<lparr>faults := (\<lambda>n. n = 99), clock := (\<lambda>_. 7)\<rparr>)
       (snd (run_state (seed_main True True True (\<lambda>p c. None)) (s1\<lparr>faults := (\<lambda>n. n = 99), clock := (\<lambda>_. 7)\<rparr>)))"
proof -
  have "initial_db = initial_db\<lparr>faults := (\<lambda>_. False), clock := (\<lambda>_. 0)\<rparr>"
    by (simp add: initial_db_def)
  then have "schema_ok initial_db" by (metis schema_fresh)
  moreover have "\<forall>n. \<not> faults initial_db n" "has_role initial_db 1" "has_role initial_db 4"
    by (simp_all add: initial_db_def has_role_def)
  ultimately show ?thesis
    using seed_idempotent [of initial_db "\<lambda>p c. Some p"] by (fastforce simp: Let_def split_def)
qed

end
