(* ===== verification/Relay.thy ===== *)
theory Relay
  imports LiveKit
begin

text \<open>
  What the reverse proxy of \<^verbatim>\<open>api/livekit_proxy.go\<close> does with a request it lets through: the address a
  request is forwarded to, and \<^verbatim>\<open>proxyWebSocket\<close>, which joins two websockets by two copying
  goroutines. The goroutines and the handler that waits for them are a step relation. The
  websocket library is not part of the program: whether a call succeeds is free, except that a
  reader fails once its context is cancelled, as the library documents.
\<close>

section \<open>Addresses\<close>

record URL =
  ur_Scheme :: string
  ur_Host :: string
  ur_Path :: string
  ur_RawQuery :: string

text \<open>\<open>parsed\<close> is the result of \<^verbatim>\<open>url.Parse\<close> on the configured address.\<close>

definition proxy_target :: "URL option \<Rightarrow> URL" where
  "proxy_target parsed = (case parsed of
     Some u \<Rightarrow> u
   | None \<Rightarrow> \<lparr>ur_Scheme = ''http'', ur_Host = ''localhost:7880'', ur_Path = [], ur_RawQuery = []\<rparr>)"

definition httpTarget :: "URL \<Rightarrow> URL" where
  "httpTarget target =
     (if ur_Scheme target = ''ws'' then target\<lparr>ur_Scheme := ''http''\<rparr>
      else if ur_Scheme target = ''wss'' then target\<lparr>ur_Scheme := ''https''\<rparr> else target)"

definition wsTarget :: "URL \<Rightarrow> URL" where
  "wsTarget target =
     (if ur_Scheme target = ''http'' then target\<lparr>ur_Scheme := ''ws''\<rparr>
      else if ur_Scheme target = ''https'' then target\<lparr>ur_Scheme := ''wss''\<rparr> else target)"

text \<open>The \<^verbatim>\<open>Director\<close> of the HTTP proxy.\<close>

definition director :: "URL \<Rightarrow> URL \<Rightarrow> URL" where
  "director target u = u\<lparr>ur_Scheme := ur_Scheme (httpTarget target), ur_Host := ur_Host (httpTarget target)\<rparr>"

definition backendURL :: "URL \<Rightarrow> URL \<Rightarrow> URL" where
  "backendURL target u = (wsTarget target)\<lparr>ur_Path := ur_Path u, ur_RawQuery := ur_RawQuery u\<rparr>"

section \<open>Copying\<close>

text \<open>A message of a websocket: its type and its bytes.\<close>

datatype msg_type = TextFrame | BinaryFrame

type_synonym ws_msg = "msg_type \<times> string"

text \<open>The calls of \<^verbatim>\<open>copyWS\<close> in their order, then the send of its error on \<^verbatim>\<open>errc\<close>.\<close>

datatype copy_pc = AtReader | AtWriter ws_msg | AtCopy ws_msg | AtClose ws_msg | AtSend | Exited

record copier =
  cp_pc :: copy_pc
  cp_src :: "ws_msg list"
  cp_dst :: "ws_msg list"

inductive copyWS :: "bool \<Rightarrow> copier \<Rightarrow> copier \<Rightarrow> bool" where
  reader_ok: "cp_pc c = AtReader \<Longrightarrow> \<not> ctxDone \<Longrightarrow> cp_src c = m # ms \<Longrightarrow>
    copyWS ctxDone c (c\<lparr>cp_pc := AtWriter m, cp_src := ms\<rparr>)"
| reader_err: "cp_pc c = AtReader \<Longrightarrow> copyWS ctxDone c (c\<lparr>cp_pc := AtSend\<rparr>)"
| writer_ok: "cp_pc c = AtWriter m \<Longrightarrow> copyWS ctxDone c (c\<lparr>cp_pc := AtCopy m\<rparr>)"
| writer_err: "cp_pc c = AtWriter m \<Longrightarrow> copyWS ctxDone c (c\<lparr>cp_pc := AtSend\<rparr>)"
| copy_ok: "cp_pc c = AtCopy m \<Longrightarrow> copyWS ctxDone c (c\<lparr>cp_pc := AtClose m\<rparr>)"
| copy_err: "cp_pc c = AtCopy m \<Longrightarrow> copyWS ctxDone c (c\<lparr>cp_pc := AtSend\<rparr>)"
| close_ok: "cp_pc c = AtClose m \<Longrightarrow> copyWS ctxDone c (c\<lparr>cp_pc := AtReader, cp_dst := cp_dst c @ [m]\<rparr>)"
| close_err: "cp_pc c = AtClose m \<Longrightarrow> copyWS ctxDone c (c\<lparr>cp_pc := AtSend\<rparr>)"

section \<open>The handler\<close>

text \<open>\<^verbatim>\<open>errc\<close> has room for two errors; the handler takes one, cancels, and takes the other.\<close>

datatype main_pc = FirstWait | AtCancel | SecondWait | Returned

record relay =
  rl_front :: copier
  rl_back :: copier
  rl_errc :: nat
  rl_done :: bool
  rl_main :: main_pc

inductive relay_step :: "relay \<Rightarrow> relay \<Rightarrow> bool" where
  front_runs: "copyWS (rl_done s) (rl_front s) c \<Longrightarrow> relay_step s (s\<lparr>rl_front := c\<rparr>)"
| back_runs: "copyWS (rl_done s) (rl_back s) c \<Longrightarrow> relay_step s (s\<lparr>rl_back := c\<rparr>)"
| front_sends: "cp_pc (rl_front s) = AtSend \<Longrightarrow> rl_errc s < 2 \<Longrightarrow>
    relay_step s (s\<lparr>rl_front := (rl_front s)\<lparr>cp_pc := Exited\<rparr>, rl_errc := rl_errc s + 1\<rparr>)"
| back_sends: "cp_pc (rl_back s) = AtSend \<Longrightarrow> rl_errc s < 2 \<Longrightarrow>
    relay_step s (s\<lparr>rl_back := (rl_back s)\<lparr>cp_pc := Exited\<rparr>, rl_errc := rl_errc s + 1\<rparr>)"
| first: "rl_main s = FirstWait \<Longrightarrow> 0 < rl_errc s \<Longrightarrow> relay_step s (s\<lparr>rl_main := AtCancel, rl_errc := rl_errc s - 1\<rparr>)"
| cancels: "rl_main s = AtCancel \<Longrightarrow> relay_step s (s\<lparr>rl_main := SecondWait, rl_done := True\<rparr>)"
| second: "rl_main s = SecondWait \<Longrightarrow> 0 < rl_errc s \<Longrightarrow> relay_step s (s\<lparr>rl_main := Returned, rl_errc := rl_errc s - 1\<rparr>)"

definition new_copier :: "ws_msg list \<Rightarrow> copier" where
  "new_copier ms = \<lparr>cp_pc = AtReader, cp_src = ms, cp_dst = []\<rparr>"

text \<open>The state in which the goroutines start; \<open>fs\<close> and \<open>bs\<close> are what the browser and LiveKit will send.\<close>

definition start_relay :: "ws_msg list \<Rightarrow> ws_msg list \<Rightarrow> relay" where
  "start_relay fs bs = \<lparr>rl_front = new_copier fs, rl_back = new_copier bs, rl_errc = 0, rl_done = False, rl_main = FirstWait\<rparr>"

text \<open>
  \<open>dial\<close> gives the subprotocol LiveKit chose, or \<open>None\<close> when it cannot be reached; \<open>accept\<close> says whether
  the library accepts the upgrade under the offered subprotocols and origin patterns (it answers
  a refused one itself).
\<close>

datatype bridge = Unavailable response | NotAccepted | Joined relay

definition proxyWebSocket ::
  "(URL \<Rightarrow> string list \<Rightarrow> string option) \<Rightarrow> (string list \<Rightarrow> string list \<Rightarrow> bool) \<Rightarrow> URL \<Rightarrow> URL \<Rightarrow> string list \<Rightarrow> string list \<Rightarrow>
   ws_msg list \<Rightarrow> ws_msg list \<Rightarrow> bridge" where
  "proxyWebSocket dial accept target u protocols allowedOrigins fs bs =
     (case dial (backendURL target u) protocols of
        None \<Rightarrow> Unavailable (writeErr 502 ''BAD_GATEWAY'' ''backend unavailable'')
      | Some protocol \<Rightarrow>
          if accept [protocol] allowedOrigins then Joined (start_relay fs bs) else NotAccepted)"

inductive_cases copyWSE: "copyWS d c c'"
inductive_cases relay_stepE: "relay_step s s'"

section \<open>Nothing lost, nothing reordered\<close>

text \<open>The message a copier holds between its reader and the close of its writer.\<close>

fun held :: "copy_pc \<Rightarrow> ws_msg list" where
  "held (AtWriter m) = [m]"
| "held (AtCopy m) = [m]"
| "held (AtClose m) = [m]"
| "held _ = []"

definition ended :: "copier \<Rightarrow> bool" where
  "ended c \<longleftrightarrow> cp_pc c = AtSend \<or> cp_pc c = Exited"

text \<open>While it runs, what was sent is what was delivered, what is held and what is to come.\<close>

definition copies :: "ws_msg list \<Rightarrow> copier \<Rightarrow> bool" where
  "copies ms c \<longleftrightarrow> (\<exists>rest. ms = cp_dst c @ rest) \<and> (\<not> ended c \<longrightarrow> ms = cp_dst c @ held (cp_pc c) @ cp_src c)"

lemma copies_step: "copyWS d c c' \<Longrightarrow> copies ms c \<Longrightarrow> copies ms c'"
  by (erule copyWSE) (auto simp: copies_def ended_def)

text \<open>What the counter of errors, the handler and the goroutines know of each other.\<close>

definition exits :: "relay \<Rightarrow> nat" where
  "exits s = (if cp_pc (rl_front s) = Exited then 1 else 0) + (if cp_pc (rl_back s) = Exited then 1 else 0)"

fun taken :: "main_pc \<Rightarrow> nat" where
  "taken FirstWait = 0"
| "taken AtCancel = 1"
| "taken SecondWait = 1"
| "taken Returned = 2"

definition relay_ok :: "ws_msg list \<Rightarrow> ws_msg list \<Rightarrow> relay \<Rightarrow> bool" where
  "relay_ok fs bs s \<longleftrightarrow> copies fs (rl_front s) \<and> copies bs (rl_back s) \<and> rl_errc s + taken (rl_main s) = exits s \<and>
     (rl_done s \<longleftrightarrow> rl_main s = SecondWait \<or> rl_main s = Returned)"

lemma copyWS_exit: "copyWS d c c' \<Longrightarrow> cp_pc c \<noteq> Exited \<and> cp_pc c' \<noteq> Exited"
  by (erule copyWSE) auto

lemma copies_exit: "copies ms c \<Longrightarrow> cp_pc c = AtSend \<Longrightarrow> copies ms (c\<lparr>cp_pc := Exited\<rparr>)"
  by (simp add: copies_def ended_def)

lemma relay_step_ok: "relay_step s s' \<Longrightarrow> relay_ok fs bs s \<Longrightarrow> relay_ok fs bs s'"
  by (erule relay_stepE)
    (auto simp: relay_ok_def exits_def copies_exit intro: copies_step dest: copyWS_exit split: if_splits)

lemma start_relay_ok: "relay_ok fs bs (start_relay fs bs)"
  by (simp add: relay_ok_def start_relay_def new_copier_def copies_def ended_def exits_def)

lemma relay_reachable_ok: "relay_step\<^sup>*\<^sup>* (start_relay fs bs) s \<Longrightarrow> relay_ok fs bs s"
  by (induction rule: rtranclp_induct) (auto intro: start_relay_ok relay_step_ok)

lemma joined_starts: "proxyWebSocket dial accept target u ps os fs bs = Joined s \<Longrightarrow> s = start_relay fs bs"
  by (simp add: proxyWebSocket_def split: option.splits if_splits)

text \<open>
  C38: In every interleaving of the two goroutines and the handler, with any call of the library
  failing at any point, each side has received a prefix of what the other sent, types and bytes
  unchanged and in order; a goroutine that is back at its reader has delivered all it has read;
  and the handler has returned only when both goroutines have ended.
\<close>
theorem relay_faithful:
  assumes "proxyWebSocket dial accept target u ps os fs bs = Joined s0" and "relay_step\<^sup>*\<^sup>* s0 s"
  shows "(\<exists>rest. fs = cp_dst (rl_front s) @ rest) \<and> (\<exists>rest. bs = cp_dst (rl_back s) @ rest) \<and>
    (cp_pc (rl_front s) = AtReader \<longrightarrow> fs = cp_dst (rl_front s) @ cp_src (rl_front s)) \<and>
    (rl_main s = Returned \<longrightarrow> cp_pc (rl_front s) = Exited \<and> cp_pc (rl_back s) = Exited)"
proof -
  have "relay_ok fs bs s"
    using relay_reachable_ok assms(2) joined_starts [OF assms(1)] by blast
  then show ?thesis by (auto simp: relay_ok_def copies_def ended_def exits_def split: if_splits)
qed

section \<open>The end of a relay\<close>

text \<open>How many calls a goroutine can still make once its context is cancelled.\<close>

fun calls_left :: "copy_pc \<Rightarrow> nat" where
  "calls_left (AtWriter m) = 5"
| "calls_left (AtCopy m) = 4"
| "calls_left (AtClose m) = 3"
| "calls_left AtReader = 2"
| "calls_left AtSend = 1"
| "calls_left Exited = 0"

definition steps_left :: "relay \<Rightarrow> nat" where
  "steps_left s = calls_left (cp_pc (rl_front s)) + calls_left (cp_pc (rl_back s)) + (if rl_main s = SecondWait then 1 else 0)"

lemma copyWS_cancelled: "copyWS True c c' \<Longrightarrow> calls_left (cp_pc c') < calls_left (cp_pc c)"
  by (erule copyWSE) auto

lemma cancelled_step:
  assumes "relay_step s s'" "rl_done s" "relay_ok fs bs s"
  shows "steps_left s' < steps_left s \<and> rl_done s'"
  using assms(1)
proof (cases rule: relay_step.cases)
  case (front_runs c)
  then show ?thesis using assms(2) copyWS_cancelled [of "rl_front s" c] by (simp add: steps_left_def)
next
  case (back_runs c)
  then show ?thesis using assms(2) copyWS_cancelled [of "rl_back s" c] by (simp add: steps_left_def)
qed (use assms(2,3) in \<open>auto simp: steps_left_def relay_ok_def\<close>)

lemma cancelled_run:
  "(relay_step ^^ n) s s' \<Longrightarrow> rl_done s \<Longrightarrow> relay_ok fs bs s \<Longrightarrow> n + steps_left s' \<le> steps_left s \<and> relay_ok fs bs s'"
proof (induction n arbitrary: s)
  case 0
  then show ?case by simp
next
  case (Suc n)
  then obtain s1 where s1: "relay_step s s1" "(relay_step ^^ n) s1 s'"
    by (meson relpowp_Suc_D2)
  with Suc.prems have "relay_ok fs bs s1" "steps_left s1 < steps_left s" "rl_done s1"
    using relay_step_ok cancelled_step by blast+
  with Suc.IH [OF s1(2)] show ?case by simp
qed

text \<open>A goroutine is never stuck, whatever the peers do.\<close>

lemma copyWS_progress: "\<not> ended c \<Longrightarrow> \<exists>c'. copyWS d c c'"
  by (cases "cp_pc c") (auto simp: ended_def intro: copyWS.intros)

lemma relay_progress:
  assumes ok: "relay_ok fs bs s" and stuck: "\<nexists>s'. relay_step s s'"
  shows "rl_main s = Returned"
proof -
  have "ended (rl_front s)" "ended (rl_back s)"
    using stuck copyWS_progress relay_step.front_runs relay_step.back_runs by blast+
  moreover have "rl_errc s < 2 \<Longrightarrow> cp_pc (rl_front s) \<noteq> AtSend" "rl_errc s < 2 \<Longrightarrow> cp_pc (rl_back s) \<noteq> AtSend"
    using stuck relay_step.front_sends relay_step.back_sends by blast+
  moreover have "exits s \<le> 2" by (simp add: exits_def)
  moreover have "rl_main s = FirstWait \<Longrightarrow> rl_errc s = 0" "rl_main s = SecondWait \<Longrightarrow> rl_errc s = 0" "rl_main s \<noteq> AtCancel"
    using stuck relay_step.first relay_step.second relay_step.cancels by blast+
  ultimately show ?thesis
    using ok by (cases "rl_main s") (auto simp: relay_ok_def exits_def ended_def)
qed

text \<open>
  C37: Once one direction has ended and the context is cancelled, the relay is over after at most six
  more steps of all goroutines together, and it can only come to rest by the return of the
  handler: no goroutine and no request is left behind.
\<close>
theorem relay_ends:
  assumes "proxyWebSocket dial accept target u ps os fs bs = Joined s0" and "relay_step\<^sup>*\<^sup>* s0 s"
    and "rl_done s" and "(relay_step ^^ n) s s'"
  shows "n \<le> 6 \<and> (rl_main s' = Returned \<or> (\<exists>s''. relay_step s' s''))"
proof -
  have ok: "relay_ok fs bs s"
    using relay_reachable_ok assms(2) joined_starts [OF assms(1)] by blast
  have "1 \<le> exits s" using ok assms(3) by (auto simp: relay_ok_def)
  then have "steps_left s \<le> 6"
    by (cases "cp_pc (rl_front s)"; cases "cp_pc (rl_back s)") (auto simp: steps_left_def exits_def)
  with cancelled_run [OF assms(4,3) ok] relay_progress show ?thesis by fastforce
qed

section \<open>A sample relay\<close>

definition hi :: ws_msg where
  "hi = (TextFrame, ''hi'')"

text \<open>The browser sends one message, it is delivered; then LiveKit hangs up and the context is cancelled.\<close>

definition delivered_hi :: relay where
  "delivered_hi = \<lparr>rl_front = \<lparr>cp_pc = AtReader, cp_src = [], cp_dst = [hi]\<rparr>, rl_back = new_copier [], rl_errc = 0,
     rl_done = False, rl_main = FirstWait\<rparr>"

definition hung_up :: relay where
  "hung_up = \<lparr>rl_front = \<lparr>cp_pc = AtReader, cp_src = [], cp_dst = [hi]\<rparr>, rl_back = (new_copier [])\<lparr>cp_pc := Exited\<rparr>, rl_errc = 0,
     rl_done = True, rl_main = SecondWait\<rparr>"

lemma copy_hi:
  "(copyWS False)\<^sup>*\<^sup>* (new_copier [hi]) \<lparr>cp_pc = AtReader, cp_src = [], cp_dst = [hi]\<rparr>"
proof -
  have "copyWS False (new_copier [hi]) \<lparr>cp_pc = AtWriter hi, cp_src = [], cp_dst = []\<rparr>"
    using copyWS.reader_ok [of "new_copier [hi]" False hi "[]"] by (simp add: new_copier_def)
  moreover have "copyWS False \<lparr>cp_pc = AtWriter hi, cp_src = [], cp_dst = []\<rparr> \<lparr>cp_pc = AtCopy hi, cp_src = [], cp_dst = []\<rparr>"
    using copyWS.writer_ok [of "\<lparr>cp_pc = AtWriter hi, cp_src = [], cp_dst = []\<rparr>"] by simp
  moreover have "copyWS False \<lparr>cp_pc = AtCopy hi, cp_src = [], cp_dst = []\<rparr> \<lparr>cp_pc = AtClose hi, cp_src = [], cp_dst = []\<rparr>"
    using copyWS.copy_ok [of "\<lparr>cp_pc = AtCopy hi, cp_src = [], cp_dst = []\<rparr>"] by simp
  moreover have "copyWS False \<lparr>cp_pc = AtClose hi, cp_src = [], cp_dst = []\<rparr> \<lparr>cp_pc = AtReader, cp_src = [], cp_dst = [hi]\<rparr>"
    using copyWS.close_ok [of "\<lparr>cp_pc = AtClose hi, cp_src = [], cp_dst = []\<rparr>" hi] by simp
  ultimately show ?thesis by (meson converse_rtranclp_into_rtranclp rtranclp.rtrancl_refl)
qed

lemma front_copies: "(copyWS d)\<^sup>*\<^sup>* c c' \<Longrightarrow> rl_front s = c \<Longrightarrow> rl_done s = d \<Longrightarrow> relay_step\<^sup>*\<^sup>* s (s\<lparr>rl_front := c'\<rparr>)"
proof (induction rule: rtranclp_induct)
  case base
  then have "s\<lparr>rl_front := c\<rparr> = s" by auto
  then show ?case by simp
next
  case (step b c')
  then have "relay_step (s\<lparr>rl_front := b\<rparr>) (s\<lparr>rl_front := c'\<rparr>)"
    using relay_step.front_runs [of "s\<lparr>rl_front := b\<rparr>" c'] by simp
  with step show ?case by (meson rtranclp.rtrancl_into_rtrancl)
qed

lemma run_delivers: "relay_step\<^sup>*\<^sup>* (start_relay [hi] []) delivered_hi"
  using front_copies [OF copy_hi, of "start_relay [hi] []"] by (simp add: start_relay_def delivered_hi_def)

lemma run_hangs_up: "relay_step\<^sup>*\<^sup>* delivered_hi hung_up"
proof -
  let ?s = "\<lambda>pc e m. \<lparr>rl_front = \<lparr>cp_pc = AtReader, cp_src = [], cp_dst = [hi]\<rparr>, rl_back = (new_copier [])\<lparr>cp_pc := pc\<rparr>, rl_errc = e,
     rl_done = False, rl_main = m\<rparr>"
  have "relay_step delivered_hi (?s AtSend 0 FirstWait)"
    using relay_step.back_runs [OF copyWS.reader_err, of delivered_hi] by (simp add: delivered_hi_def new_copier_def)
  moreover have "relay_step (?s AtSend 0 FirstWait) (?s Exited 1 FirstWait)"
    using relay_step.back_sends [of "?s AtSend 0 FirstWait"] by simp
  moreover have "relay_step (?s Exited 1 FirstWait) (?s Exited 0 AtCancel)"
    using relay_step.first [of "?s Exited 1 FirstWait"] by simp
  moreover have "relay_step (?s Exited 0 AtCancel) hung_up"
    using relay_step.cancels [of "?s Exited 0 AtCancel"] by (simp add: hung_up_def)
  ultimately show ?thesis by (meson converse_rtranclp_into_rtranclp rtranclp.rtrancl_refl)
qed

theorem relay_faithful_witness:
  "proxyWebSocket (\<lambda>_ _. Some []) (\<lambda>_ _. True) (proxy_target None) (proxy_target None) [] [] [hi] [] = Joined (start_relay [hi] []) \<and>
   (\<exists>rest. [hi] = cp_dst (rl_front delivered_hi) @ rest) \<and> cp_dst (rl_front delivered_hi) = [hi]"
  using relay_faithful [of "\<lambda>_ _. Some []" "\<lambda>_ _. True" "proxy_target None" "proxy_target None" "[]" "[]" "[hi]" "[]"
      "start_relay [hi] []", OF _ run_delivers]
  by (simp add: proxyWebSocket_def delivered_hi_def)

theorem relay_ends_witness:
  "\<exists>s'. (relay_step ^^ 1) hung_up s' \<and> rl_done hung_up \<and> (rl_main s' = Returned \<or> (\<exists>s''. relay_step s' s''))"
proof -
  have "relay_step hung_up (hung_up\<lparr>rl_front := (rl_front hung_up)\<lparr>cp_pc := AtSend\<rparr>\<rparr>)"
    by (rule relay_step.front_runs, rule copyWS.reader_err) (simp add: hung_up_def)
  then have one: "(relay_step ^^ 1) hung_up (hung_up\<lparr>rl_front := (rl_front hung_up)\<lparr>cp_pc := AtSend\<rparr>\<rparr>)"
    by (simp only: relpowp_1)
  have "rl_done hung_up" by (simp add: hung_up_def)
  with one show ?thesis
    using relay_ends [of "\<lambda>_ _. Some []" "\<lambda>_ _. True" "proxy_target None" "proxy_target None" "[]" "[]" "[hi]" "[]"
        "start_relay [hi] []" hung_up 1, OF _ rtranclp_trans [OF run_delivers run_hangs_up] _ one]
    by (intro exI conjI) (auto simp: proxyWebSocket_def)
qed

section \<open>Addresses\<close>

text \<open>
  HTTP requests go to LiveKit over HTTP and websockets over websockets, with the same security as
  configured and to the same host, and keep the path and the query of the client.
\<close>
lemma proxy_addresses:
  assumes "ur_Scheme target \<in> {''ws'', ''wss'', ''http'', ''https''}"
  shows "ur_Scheme (director target u) = (if ur_Scheme target \<in> {''wss'', ''https''} then ''https'' else ''http'')"
    and "ur_Scheme (backendURL target u) = (if ur_Scheme target \<in> {''wss'', ''https''} then ''wss'' else ''ws'')"
    and "ur_Host (director target u) = ur_Host target" "ur_Host (backendURL target u) = ur_Host target"
    and "ur_Path (director target u) = ur_Path u" "ur_Path (backendURL target u) = ur_Path u"
    and "ur_RawQuery (director target u) = ur_RawQuery u" "ur_RawQuery (backendURL target u) = ur_RawQuery u"
  using assms by (auto simp: director_def backendURL_def httpTarget_def wsTarget_def)

end
