(* ===== verification/Lifecycle.thy ===== *)
theory Lifecycle
  imports Startup Migrate LogHandler Relay
begin

text \<open>
  The life of the process, \<^verbatim>\<open>run\<close> of \<^verbatim>\<open>main.go\<close> from the first step to the last, with the opening of the
  database (\<^verbatim>\<open>db/db.go\<close>): what is started and what is stopped, in which order, on every path. Beside
  it small parts of the shell: the levels of the request log, and the queries to the media server
  that nothing calls.
\<close>

section \<open>The connection\<close>

text \<open>A handle of \<^verbatim>\<open>database/sql\<close>: the pragmas it ran, its limit of connections, and whether it is closed.\<close>

record sql_handle =
  sq_pragmas :: "string list"
  sq_max :: "nat option"
  sq_closed :: bool

datatype open_error =
    OpeningDB | PingingDB | EnablingWAL | SettingBusyTimeout | EnablingForeignKeys | SettingSynchronous | SettingTempStore
  | SettingMmapSize | SettingCacheSize

text \<open>What the driver answers.\<close>

record driver =
  dr_open :: bool
  dr_ping :: bool
  dr_exec :: "string \<Rightarrow> bool"

definition pragmas :: "(string \<times> open_error) list" where
  "pragmas = [
     (''PRAGMA journal_mode=WAL;'', EnablingWAL),
     (''PRAGMA busy_timeout=5000;'', SettingBusyTimeout),
     (''PRAGMA foreign_keys=ON;'', EnablingForeignKeys),
     (''PRAGMA synchronous=NORMAL;'', SettingSynchronous),
     (''PRAGMA temp_store=MEMORY;'', SettingTempStore),
     (''PRAGMA mmap_size=268435456;'', SettingMmapSize),
     (''PRAGMA cache_size=-64000;'', SettingCacheSize)]"

definition sql_Close :: "sql_handle \<Rightarrow> sql_handle" where
  "sql_Close h = h\<lparr>sq_closed := True\<rparr>"

fun run_pragmas :: "(string \<Rightarrow> bool) \<Rightarrow> (string \<times> open_error) list \<Rightarrow> sql_handle \<Rightarrow> open_error option \<times> sql_handle" where
  "run_pragmas ex [] h = (None, h)"
| "run_pragmas ex ((p, e) # ps) h =
     (if ex p then run_pragmas ex ps (h\<lparr>sq_pragmas := sq_pragmas h @ [p]\<rparr>) else (Some e, sql_Close h))"

text \<open>The error, if any, and the handle, if one was made.\<close>

definition Open :: "driver \<Rightarrow> open_error option \<times> sql_handle option" where
  "Open dr =
     (let h = \<lparr>sq_pragmas = [], sq_max = None, sq_closed = False\<rparr> in
      if \<not> dr_open dr then (Some OpeningDB, None)
      else if \<not> dr_ping dr then (Some PingingDB, Some (sql_Close h))
      else apsnd Some (run_pragmas (dr_exec dr) pragmas (h\<lparr>sq_max := Some 1\<rparr>)))"

definition Close :: "(string \<Rightarrow> bool) \<Rightarrow> sql_handle \<Rightarrow> sql_handle" where
  "Close ex h = sql_Close (if ex ''PRAGMA optimize;'' then h\<lparr>sq_pragmas := sq_pragmas h @ [''PRAGMA optimize;'']\<rparr> else h)"

lemma run_pragmas_spec:
  "run_pragmas ex ps h = (r, h') \<Longrightarrow>
   (r = None \<longrightarrow> h' = h\<lparr>sq_pragmas := sq_pragmas h @ map fst ps\<rparr> \<and> (\<forall>p \<in> set ps. ex (fst p))) \<and> (r \<noteq> None \<longrightarrow> sq_closed h')"
  by (induction ex ps h rule: run_pragmas.induct) (auto simp: sql_Close_def split: if_splits)

text \<open>
  A connection is handed out only with all seven pragmas run in order on a single connection, so
  with foreign keys enforced and statements serialised, as the model of the queries has them; on
  every other path the handle, if there is one, is closed.
\<close>
theorem open_complete:
  "case Open dr of
     (None, h) \<Rightarrow> h = Some \<lparr>sq_pragmas = map fst pragmas, sq_max = Some 1, sq_closed = False\<rparr> \<and> ''PRAGMA foreign_keys=ON;'' \<in> set (map fst pragmas)
   | (Some e, h) \<Rightarrow> (case h of None \<Rightarrow> e = OpeningDB | Some h' \<Rightarrow> sq_closed h')"
proof -
  obtain r h where rh: "run_pragmas (dr_exec dr) pragmas \<lparr>sq_pragmas = [], sq_max = Some 1, sq_closed = False\<rparr> = (r, h)"
    by fastforce
  show ?thesis
    using run_pragmas_spec [OF rh] rh
    by (cases r) (auto simp: Open_def Let_def sql_Close_def pragmas_def)
qed

section \<open>The run\<close>

datatype action =
    OpenDB | CloseDB | ClearStale | StartLimiter | StopLimiter | StartLiveKit | StopLiveKit | StartHub | StopHub
  | StartAcme | StopAcme | StartMaintenance | StopMaintenance | CatchSignals | ReleaseSignals | StartServing | StopServing

datatype run_error =
    StartFailed start_error | OpenFailed open_error | MigrateFailed migrate_error | ServerFailed string | ShutdownFailed string

text \<open>How the wait of \<^verbatim>\<open>run\<close> ends: the serving goroutine reports an error, it ends in order, or a signal comes.\<close>

datatype wait_end = ServeError string | ServeClosed | Signalled

text \<open>
  The outcomes of the parts: of \<open>prepare\<close>, of \<open>Open\<close>, of the migrations, whether \<^verbatim>\<open>NewRouter\<close> started a media
  server, of the wait, and of the shutdown of the HTTP server.
\<close>

record world =
  wd_prepared :: "start_error + Config \<times> TLSResult"
  wd_driver :: driver
  wd_migrated :: "migrate_error option"
  wd_livekit :: bool
  wd_wait :: wait_end
  wd_shutdown :: "string option"

definition acme_up :: "TLSResult \<Rightarrow> bool" where
  "acme_up res \<longleftrightarrow> tr_HTTPHandler res \<noteq> None"

text \<open>\<^verbatim>\<open>NewRouter\<close>: the clean-up of the limiter, the hub, and the media server when there is one.\<close>

definition NewRouter_starts :: "bool \<Rightarrow> action list" where
  "NewRouter_starts livekit = [StartLimiter] @ (if livekit then [StartLiveKit] else []) @ [StartHub]"

definition GracefulStop_stops :: "bool \<Rightarrow> action list" where
  "GracefulStop_stops livekit = (if livekit then [StopLiveKit] else []) @ [StopHub]"

text \<open>From the wait to the return, without the deferred calls.\<close>

definition finish :: "world \<Rightarrow> TLSResult \<Rightarrow> run_error option \<times> action list" where
  "finish w res =
     (case wd_wait w of
        ServeError e \<Rightarrow> (Some (ServerFailed e), [])
      | _ \<Rightarrow>
          let down = (if acme_up res then [StopAcme] else []) @ GracefulStop_stops (wd_livekit w) @ [StopServing] in
          (case wd_shutdown w of
             Some e \<Rightarrow> (Some (ShutdownFailed e), down)
           | None \<Rightarrow> (None, down @ [StopMaintenance])))"

text \<open>The deferred calls run in the reverse order of their \<^verbatim>\<open>defer\<close>.\<close>

definition run :: "world \<Rightarrow> run_error option \<times> action list" where
  "run w =
     (case wd_prepared w of
        Inl e \<Rightarrow> (Some (StartFailed e), [])
      | Inr (cfg, res) \<Rightarrow>
          (case fst (Open (wd_driver w)) of
             Some e \<Rightarrow> (Some (OpenFailed e), [])
           | None \<Rightarrow>
               (case wd_migrated w of
                  Some e \<Rightarrow> (Some (MigrateFailed e), [OpenDB, CloseDB])
                | None \<Rightarrow>
                    (case finish w res of (r, down) \<Rightarrow>
                       (r, [OpenDB, ClearStale] @ NewRouter_starts (wd_livekit w) @ (if acme_up res then [StartAcme] else []) @
                           [StartMaintenance, CatchSignals, StartServing] @ down @ [ReleaseSignals, StopLimiter, CloseDB])))))"

text \<open>\<^verbatim>\<open>main\<close>: the exit code.\<close>

definition exit_code :: "world \<Rightarrow> int" where
  "exit_code w = (if fst (run w) = None then 0 else 1)"

fun stops :: "action \<Rightarrow> action option" where
  "stops OpenDB = Some CloseDB"
| "stops StartLimiter = Some StopLimiter"
| "stops StartLiveKit = Some StopLiveKit"
| "stops StartHub = Some StopHub"
| "stops StartAcme = Some StopAcme"
| "stops StartMaintenance = Some StopMaintenance"
| "stops CatchSignals = Some ReleaseSignals"
| "stops StartServing = Some StopServing"
| "stops _ = None"

text \<open>Every start is followed by its stop.\<close>

fun balanced :: "action list \<Rightarrow> bool" where
  "balanced [] = True"
| "balanced (a # as) = ((case stops a of None \<Rightarrow> True | Some b \<Rightarrow> b \<in> set as) \<and> balanced as)"

text \<open>
  A run that ends with exit code 0 has stopped everything it started, in an order in which clients are
  notified and the media server is stopped before the HTTP server is, and the database is closed last of all;
  and a database that was opened is closed on every path, with nothing after it.
\<close>
theorem run_cleans_up:
  "(exit_code w = 0 \<longrightarrow> balanced (snd (run w)) \<and>
     (\<exists>before. snd (run w) = before @ [StopHub, StopServing, StopMaintenance, ReleaseSignals, StopLimiter, CloseDB])) \<and>
   (OpenDB \<in> set (snd (run w)) \<longrightarrow> List.last (snd (run w)) = CloseDB)"
  by (auto simp: exit_code_def run_def finish_def Let_def NewRouter_starts_def GracefulStop_stops_def
      split: sum.splits option.splits wait_end.splits if_splits)

definition sample_world :: "wait_end \<Rightarrow> world" where
  "sample_world we = \<lparr>wd_prepared = Inr (defaults, \<lparr>tr_TLSConfig = None, tr_HTTPHandler = None\<rparr>),
     wd_driver = \<lparr>dr_open = True, dr_ping = True, dr_exec = (\<lambda>_. True)\<rparr>, wd_migrated = None, wd_livekit = True,
     wd_wait = we, wd_shutdown = None\<rparr>"

theorem run_cleans_up_witness:
  "balanced (snd (run (sample_world Signalled))) \<and> StartLiveKit \<in> set (snd (run (sample_world Signalled)))"
  using run_cleans_up [of "sample_world Signalled"]
  by (simp add: sample_world_def exit_code_def run_def finish_def Let_def NewRouter_starts_def Open_def pragmas_def)

text \<open>
  When the listener fails, for instance because another program holds the port, \<^verbatim>\<open>run\<close> returns without
  \<^verbatim>\<open>GracefulStop\<close>: the media server it started goes on without its parent.
\<close>
theorem failed_listener_orphans_livekit:
  assumes "wd_prepared w = Inr (cfg, res)" "fst (Open (wd_driver w)) = None" "wd_migrated w = None"
    and "wd_livekit w" "wd_wait w = ServeError e"
  shows "fst (run w) = Some (ServerFailed e) \<and> StartLiveKit \<in> set (snd (run w)) \<and> StopLiveKit \<notin> set (snd (run w))"
  using assms by (simp add: run_def finish_def NewRouter_starts_def acme_up_def)

theorem failed_listener_orphans_livekit_witness:
  "StartLiveKit \<in> set (snd (run (sample_world (ServeError ''address already in use'')))) \<and>
   StopLiveKit \<notin> set (snd (run (sample_world (ServeError ''address already in use''))))"
  using failed_listener_orphans_livekit [of "sample_world (ServeError ''address already in use'')"]
  by (simp add: sample_world_def Open_def pragmas_def)

section \<open>The request log\<close>

text \<open>How a handler ends: an answer with its status and size, or a panic, which passes the logger on its way to the outer \<^verbatim>\<open>Recoverer\<close>.\<close>

datatype handled = Answered nat nat | Panicked

definition request_level :: "string \<Rightarrow> nat \<Rightarrow> int" where
  "request_level path status =
     (if path = ''/health'' \<or> path = ''/api/v1/health'' then LevelDebug
      else if status \<ge> 500 then LevelError
      else if status \<ge> 400 then LevelWarn
      else LevelInfo)"

definition requestLogger :: "string \<Rightarrow> string \<Rightarrow> string \<Rightarrow> duration \<Rightarrow> request \<Rightarrow> handled \<Rightarrow> LogRecord option" where
  "requestLogger now httpMethod reqID elapsed r h =
     (case h of
        Panicked \<Rightarrow> None
      | Answered status bytes \<Rightarrow>
          Some \<lparr>lr_Time = now, lr_Level = request_level (rq_path r) status, lr_Message = ''http request'', lr_File = Some ''router.go'',
            lr_Attrs = [(''method'', Some (JStr httpMethod)), (''path'', Some (JStr (rq_path r))), (''status'', Some (jint (int status))),
              (''duration_ms'', Some (jint (elapsed div 1000000))), (''bytes'', Some (jint (int bytes))), (''client_ip'', Some (JStr (clientIP r)))] @
              (if reqID = [] then [] else [(''req_id'', Some (JStr reqID))])\<rparr>)"

text \<open>
  Every answered request is recorded at a level the panel keeps; the standard output, which starts at
  the info level, has it unless it is a health check, also when the health check fails; a request
  whose handler panics is not recorded.
\<close>
theorem request_log:
  "(case requestLogger now httpMethod reqID elapsed r h of
      None \<Rightarrow> h = Panicked
    | Some rec \<Rightarrow> LevelDebug \<le> lr_Level rec \<and>
        (LevelInfo \<le> lr_Level rec \<longleftrightarrow> rq_path r \<notin> {''/health'', ''/api/v1/health''}) \<and>
        (LevelError \<le> lr_Level rec \<longleftrightarrow> rq_path r \<notin> {''/health'', ''/api/v1/health''} \<and> (\<exists>st n. h = Answered st n \<and> 500 \<le> st)))"
  by (cases h) (auto simp: requestLogger_def request_level_def LevelDebug_def LevelInfo_def LevelWarn_def LevelError_def)

section \<open>Queries to the media server\<close>

text \<open>\<open>rooms\<close> is the answer of the SDK to \<^verbatim>\<open>ListParticipants\<close>: an error or the tracks of each participant.\<close>

datatype track_type = AudioTrack | VideoTrack | DataTrack

definition ListParticipants :: "(string \<Rightarrow> string + track_type list list) \<Rightarrow> int64 \<Rightarrow> string + track_type list list" where
  "ListParticipants rooms channelID =
     (case rooms (RoomName channelID) of
        Inl e \<Rightarrow> Inl (''livekit: listing participants in '' @ RoomName channelID @ '': '' @ e)
      | Inr ps \<Rightarrow> Inr ps)"

definition CountVideoTracks :: "(string \<Rightarrow> string + track_type list list) \<Rightarrow> int64 \<Rightarrow> string + nat" where
  "CountVideoTracks rooms channelID =
     (case ListParticipants rooms channelID of
        Inl e \<Rightarrow> Inl e
      | Inr ps \<Rightarrow> Inr (fold (\<lambda>p count. fold (\<lambda>t count. if t = VideoTrack then count + 1 else count) p count) ps 0))"

text \<open>The probe of the managed process: \<open>Inl\<close> when the request could not be made or sent; any answer is health.\<close>

definition process_HealthCheck :: "(string \<Rightarrow> bool) \<Rightarrow> (string \<Rightarrow> string option) \<Rightarrow> VoiceConfig \<Rightarrow> string + bool" where
  "process_HealthCheck valid probe v =
     (let httpURL = wsToHTTP (vc_LiveKitURL v) in
      if \<not> valid httpURL then Inl ''creating health check request''
      else case probe httpURL of Some e \<Rightarrow> Inl (''livekit health check failed: '' @ e) | None \<Rightarrow> Inr True)"

lemma count_fold: "fold (\<lambda>t count. if t = VideoTrack then count + 1 else count) p n = n + count_list p VideoTrack"
  by (induction p arbitrary: n) auto

lemma count_video:
  "CountVideoTracks rooms channelID = map_sum id (\<lambda>ps. sum_list (map (\<lambda>p. count_list p VideoTrack) ps)) (ListParticipants rooms channelID)"
proof -
  have "fold (\<lambda>p count. fold (\<lambda>t count. if t = VideoTrack then count + 1 else count) p count) ps n =
      n + sum_list (map (\<lambda>p. count_list p VideoTrack) ps)" for ps :: "track_type list list" and n :: nat
    by (induction ps arbitrary: n) (simp_all add: count_fold)
  then show ?thesis by (simp add: CountVideoTracks_def split: sum.splits)
qed

end
