(* ===== verification/Spec2Isabelle.thy ===== *)
theory Spec2Isabelle
  imports Delivery VoiceSafety ServerSafety RouteSafety ApiData AdminSafety Maintenance Migrate UpdateSafety LiveKitSafety JsonRoundtrip
    Startup LogHandler FrameFlow Replay JsonFuel InviteBudget DMPrivacy Seed Lifecycle
begin

text \<open>
  A verification development for the OwnCord chat server, \<^verbatim>\<open>src/Server\<close>: a Go program of one process
  with an SQLite database, a websocket hub, a REST API, an admin panel and a companion media
  server (LiveKit). This header says which theory models which part, what the theorems show,
  which parameters the model has, and what is left out.

  \<^bold>\<open>Conventions.\<close> Code that changes state is a computation of \<^verbatim>\<open>HOL-Library.State_Monad\<close> over a record of
  the state; code that fails returns a sum or an option with an error datatype, one branch per
  early return of the source; time is counted in nanoseconds; permissions and sequence
  numbers are 64-bit words; \<^verbatim>\<open>int64\<close> identifiers are integers, with the wrap-around written out
  where a computation can overflow. A database statement consults an oracle \<open>faults\<close>, so every
  theorem about handlers holds for every pattern of driver failures, and \<open>clock\<close>, the sequence of
  readings of the clock. Transactions roll back the tables on any error. A step of the running
  server is one whole call of a handler, of a pump or of the hub's loop; where the order of the
  statements inside a call matters it is split: the joins of voice (\<open>VoiceSafety\<close>), the handshake
  (\<open>Replay\<close>), the relay and the restart loop (\<open>Relay\<close>, \<open>LiveKitProcess\<close>).

  \<^bold>\<open>Theories and sources.\<close>
  \<^item> \<open>Prelude\<close>: the state monad with weakest preconditions (\<open>wp\<close>) and preservation (\<open>keeps\<close>), the
    locales \<open>legal_system\<close> and \<open>inv_system\<close> (runs of a system keep an invariant), decimal and
    hexadecimal text. \<open>GoText\<close>, \<open>GoNet\<close>, \<open>Json\<close>, \<open>Timestamps\<close>: what the code uses of Go's standard
    library (UTF-8, \<^verbatim>\<open>strings\<close>, \<^verbatim>\<open>net\<close>, \<^verbatim>\<open>encoding/json\<close> byte for byte, \<^verbatim>\<open>time\<close> layouts).
  \<^item> \<open>Permissions\<close>: \<^verbatim>\<open>permissions/\<close>. \<open>RateLimit\<close>: \<^verbatim>\<open>auth/ratelimit.go\<close>. \<open>RingBuffer\<close>: \<^verbatim>\<open>ws/ringbuffer.go\<close>.
  \<^item> \<open>Models\<close>, \<open>ChannelQueries\<close>, \<open>MessageQueries\<close>, \<open>AuthQueries\<close>, \<open>DMQueries\<close>, \<open>VoiceQueries\<close>: the package
    \<^verbatim>\<open>db\<close>, each SQL statement as a function on lists of rows with its constraints and cascades.
    \<open>Schema\<close>: the invariant of the tables, kept by every statement. \<open>InviteBudget\<close>: the uses of an invite.
    \<open>DMPrivacy\<close>: who takes part in direct messages.
    \<open>Migrate\<close>: \<^verbatim>\<open>db/migrate.go\<close>. \<open>Seed\<close>: the tool \<^verbatim>\<open>scripts/seed.go\<close>, its loops through one locale, \<open>seeding\<close>.
  \<^item> \<open>AuthHelpers\<close>, \<open>Totp\<close>: \<^verbatim>\<open>auth/\<close>. \<open>Storage\<close>: \<^verbatim>\<open>storage/storage.go\<close> on an abstract disk.
  \<^item> \<open>Messages\<close>, \<open>Hub\<close>, \<open>Handlers\<close>, \<open>Voice\<close>, \<open>Serve\<close>: the package \<^verbatim>\<open>ws\<close>: the message builders, the hub with its
    clients on a heap (a client object may be referred to after it left the table), the
    dispatch and handlers of every message, voice with LiveKit as a remote service, and the
    life of a connection. \<open>JsonFuel\<close>, \<open>JsonRoundtrip\<close>, \<open>FrameTypes\<close>, \<open>HubCalls\<close> (the locale \<open>hub_calls\<close>: what survives
    queueing and announcing survives every handler), \<open>FrameFlow\<close>, \<open>Replay\<close>, \<open>HubSafety\<close>, \<open>Delivery\<close>, \<open>Authorization\<close>, \<open>VoiceSafety\<close>: their theorems.
  \<^item> \<open>Config\<close>: the structures of \<^verbatim>\<open>config/config.go\<close>. \<open>Startup\<close>: its \<^verbatim>\<open>Load\<close>, \<^verbatim>\<open>auth/tls.go\<close> and the first steps of
    \<^verbatim>\<open>main.go\<close>. \<open>LiveKitProcess\<close>: \<^verbatim>\<open>ws/livekit_process.go\<close>, its restart loop as a step relation.
    \<open>LiveKit\<close>: the client made from the configuration, the webhook, health, diagnostics and the
    reverse proxy (\<^verbatim>\<open>ws/livekit*.go\<close>, \<^verbatim>\<open>api/livekit_proxy.go\<close>, \<^verbatim>\<open>api/diagnostics_handler.go\<close>). \<open>LiveKitSafety\<close>: their theorems.
    \<open>Relay\<close>: the websocket relay of the proxy, two copying goroutines and the waiting handler as a step relation.
  \<^item> \<open>Updater\<close>: \<^verbatim>\<open>updater/updater.go\<close>. \<open>Updates\<close>: \<^verbatim>\<open>admin/update_handlers.go\<close> and \<^verbatim>\<open>api/client_update.go\<close>.
    \<open>UpdateSafety\<close>: their theorems.
  \<^item> \<open>Http\<close>, \<open>AuthApi\<close>, \<open>RestApi\<close>: \<^verbatim>\<open>api/\<close>, the middleware and the handlers. \<open>AdminApi\<close>, \<open>AdminSettings\<close>, \<open>Backups\<close>:
    \<^verbatim>\<open>admin/\<close>. \<open>LogHandler\<close>: the log handlers of \<^verbatim>\<open>admin/logstream.go\<close>. \<open>Process\<close>: the maintenance goroutine of \<^verbatim>\<open>main.go\<close>. \<open>Router\<close>: the routing tables, and the
    running server as the interleaving of requests, hub steps, maintenance ticks and the
    replacement of the binary. \<open>Lifecycle\<close>: \<^verbatim>\<open>run\<close> of \<^verbatim>\<open>main.go\<close> from the first step to the exit code, \<^verbatim>\<open>db/db.go\<close>, and the request log. \<open>ServerSafety\<close>, \<open>RouteSafety\<close>, \<open>ApiAuth\<close>, \<open>ApiData\<close>, \<open>AdminSafety\<close>, \<open>Maintenance\<close>: their theorems.
  \<^item> \<open>Sample\<close>, \<open>SampleServer\<close>: a small server on which the theorems are instantiated.

  \<^bold>\<open>What the theorems show.\<close>
  \<^item> Invariants: restarts keep the certificate; every sequence of database calls keeps keys, UNIQUE constraints and foreign keys;
    every interleaving of connections, messages, broadcasts, sweeps, retries, webhooks,
    requests and maintenance keeps one open client per user, bounded queues and the schema;
    a direct-message channel stays between its two users, who share no other; migrations are applied exactly once whatever
    fails; a settings request stores all its values or none and never requires what cannot be met.
  \<^item> Authorization: which messages may be sent, edited, deleted, reacted to, read and searched, and
    by whom; no handler behind the session middleware runs for a stranger, and every route that is not
    open refuses who is not entitled to it and changes nothing; the setup makes an
    owner only once; tickets and two-factor challenges work once; an update keeps only a
    verified download; voice never runs on the credentials of the source code.
  \<^item> Delivery: a broadcast reaches exactly its audience, once, with the next sequence number; the
    ring buffer and the log of the panel refine the list of the last events (\<open>last_buffer\<close>); over every run the events are
    numbered without gaps, and a reconnect with a number that is stored is sent exactly what it missed, up to the first
    write that fails and if nothing is broadcast meanwhile, and takes over the voice channel; an exit leaves no ghost in voice.
  \<^item> Bounds: the sliding window of the rate limiter, password and code guesses, user limits of voice, the users
    an invite admits.
  \<^item> Round trips and types: every message that is built is a frame of its type, every message that is written in any
    interleaving parses as an object with a type, and frames are read back with their sequence number; two-factor secrets and codes, stored files; scrolling yields the whole history.
  \<^item> Liveness and termination: a migration completes once the database works; the maintenance
    recovers; the restart loop of a crashing media server ends; a proxied websocket hands on what it
    receives in order and ends with all its goroutines; a clean exit has stopped what was started;
    the seeding tool is idempotent.
  \<^item> Findings: theorems that show where the code does not do what it or its comments mean (the
    replay of an up-to-date client, forgotten slow mode, racing joins, banned administrators,
    malformed proxy lists, purged uploads, interrupted seeding, updates that never succeed,
    forged webhooks, an orphaned media server, the gap of the handshake, and others).

  \<^bold>\<open>Parameters.\<close> Code outside the repository is an argument: SHA-256, bcrypt, HMAC-SHA1, the HTML
  sanitizer, SQLite's \<^verbatim>\<open>strftime\<close>, its full-text index and \<^verbatim>\<open>VACUUM INTO\<close>, the effect of a migration
  script, the random source, LiveKit's tokens and replies, the order in which Go visits a
  map, multipart parsing, content sniffing, the network, the parser of URLs, the order of semantic
  versions, the merge of configuration layers, and what the operating system refuses.

  \<^bold>\<open>Bounds and fuel.\<close> The JSON scanner runs on fuel of twice the length of the input plus one, which no
  input can exhaust: \<open>JsonFuel\<close> shows that more fuel never changes the result. The nesting limit of
  10000 is that of \<^verbatim>\<open>encoding/json\<close>. No other definition has fuel.

  \<^bold>\<open>Not modelled.\<close> The vendored LiveKit server (third-party code beside the program); the static files of
  the panel (\<^verbatim>\<open>admin/admin.go\<close>, a file server of the library over embedded files); the methods of
  \<^verbatim>\<open>db/db.go\<close> that only pass a statement to \<^verbatim>\<open>database/sql\<close>; and what is only printed: the banner of
  \<^verbatim>\<open>main.go\<close> and the progress lines of \<^verbatim>\<open>scripts/seed.go\<close>.
\<close>

end
